(* ===== verification/Prelude.thy ===== *)
theory Prelude
  imports Main "HOL-Library.AList"
begin

text \<open>
  Shared material of the development: the errors a Python operation can raise and the result
  type that carries them, association lists as insertion-ordered dictionaries, and the generic
  lemmas the component theories use through the collections declared here.

  A fallible operation returns a value of \<open>py_error + 'a\<close>: \<open>Inl\<close> is the exception that leaves
  the operation, \<open>Inr\<close> the value it returns.  \<open>rbind\<close> sequences two operations the way an
  uncaught exception does, \<open>ensure\<close> is an \<open>if not c: raise\<close> guard.
\<close>

section \<open>Errors and results\<close>

datatype py_error =
    ValueError string
  | PermissionError string
  | LookupError string
  | KeyError string
  | RuntimeError string
  | CommandConflict string
  | CommandTransitionError string
  | LegacyWorkflowDisabled string
  | ValidationError string
  | IntegrityError
  | InvalidOperation
  | TypeError string
  | IndexError
  | ZeroDivisionError
  | HTTPException nat string

type_synonym 'a res = "py_error + 'a"

text \<open>What \<open>except ValueError\<close> catches: the subclasses include pydantic's validation error.\<close>

fun is_value_error :: "py_error \<Rightarrow> bool" where
  "is_value_error (ValueError _) = True"
| "is_value_error (CommandConflict _) = True"
| "is_value_error (CommandTransitionError _) = True"
| "is_value_error (ValidationError _) = True"
| "is_value_error _ = False"

named_theorems res_simps \<open>rewrite rules that run a sequence of fallible operations\<close>
named_theorems res_elims \<open>inversion rules for a successful sequence\<close>

fun rbind :: "'a res \<Rightarrow> ('a \<Rightarrow> 'b res) \<Rightarrow> 'b res" where
  "rbind (Inl e) f = Inl e"
| "rbind (Inr x) f = f x"

definition ensure :: "bool \<Rightarrow> py_error \<Rightarrow> unit res" where
  "ensure c e = (if c then Inr () else Inl e)"

lemma ensure_simps [simp, res_simps]:
  "ensure True e = Inr ()"
  "ensure False e = Inl e"
  by (simp_all add: ensure_def)

lemma ensure_Inr_iff [simp]: "ensure c e = Inr u \<longleftrightarrow> c"
  by (simp add: ensure_def)

lemma ensure_Inl_iff [simp]: "ensure c e = Inl e' \<longleftrightarrow> \<not> c \<and> e' = e"
  by (auto simp: ensure_def)

lemma rbind_eq_Inr_iff: "rbind m f = Inr y \<longleftrightarrow> (\<exists>x. m = Inr x \<and> f x = Inr y)"
  by (cases m) auto

lemma rbind_eq_Inl_iff:
  "rbind m f = Inl e \<longleftrightarrow> m = Inl e \<or> (\<exists>x. m = Inr x \<and> f x = Inl e)"
  by (cases m) auto

lemma rbind_InrE [elim!, res_elims]:
  assumes "rbind m f = Inr y"
  obtains x where "m = Inr x" and "f x = Inr y"
  using assms by (auto simp: rbind_eq_Inr_iff)

lemma rbind_assoc: "rbind (rbind m f) g = rbind m (\<lambda>x. rbind (f x) g)"
  by (cases m) simp_all

lemma rbind_Inr [simp]: "rbind m Inr = m"
  by (cases m) simp_all

lemma rbind_cong [fundef_cong]:
  "m = m' \<Longrightarrow> (\<And>x. m' = Inr x \<Longrightarrow> f x = g x) \<Longrightarrow> rbind m f = rbind m' g"
  by (cases m') auto

definition is_ok :: "'a res \<Rightarrow> bool" where
  "is_ok m = (case m of Inl e \<Rightarrow> False | Inr x \<Rightarrow> True)"

lemma is_ok_simps [simp]: "is_ok (Inr x)" "\<not> is_ok (Inl e)"
  by (simp_all add: is_ok_def)

lemma is_okE: "is_ok m \<Longrightarrow> (\<And>x. m = Inr x \<Longrightarrow> P) \<Longrightarrow> P"
  by (cases m) auto

text \<open>A value that has to be there.\<close>

definition required :: "'a option \<Rightarrow> py_error \<Rightarrow> 'a res" where
  "required x e = (case x of None \<Rightarrow> Inl e | Some v \<Rightarrow> Inr v)"

lemma required_simps [simp]: "required None e = Inl e" "required (Some v) e = Inr v"
  by (simp_all add: required_def)

lemma required_Inr_iff [simp]: "required x e = Inr v \<longleftrightarrow> x = Some v"
  by (cases x) simp_all

lemma required_Inl_iff [simp]: "required x e = Inl e' \<longleftrightarrow> x = None \<and> e' = e"
  by (cases x) auto

text \<open>The operation returns, with a value that satisfies a test.\<close>

definition returns :: "'a res \<Rightarrow> ('a \<Rightarrow> bool) \<Rightarrow> bool" where
  "returns m p = (case m of Inl e \<Rightarrow> False | Inr x \<Rightarrow> p x)"

lemma returns_iff: "returns m p \<longleftrightarrow> (\<exists>x. m = Inr x \<and> p x)"
  by (simp add: returns_def split: sum.split)

lemma returns_code [code]: "returns (Inr x) p = p x" "returns (Inl e) p = False"
  by (simp_all add: returns_def)

text \<open>A loop whose body may raise: the first exception leaves the loop.\<close>

fun rfold :: "('a \<Rightarrow> 'b \<Rightarrow> 'b res) \<Rightarrow> 'a list \<Rightarrow> 'b \<Rightarrow> 'b res" where
  "rfold f [] s = Inr s"
| "rfold f (x # xs) s = rbind (f x s) (rfold f xs)"

lemma rfold_append: "rfold f (xs @ ys) s = rbind (rfold f xs s) (rfold f ys)"
proof (induction xs arbitrary: s)
  case (Cons x xs)
  then have "rfold f (xs @ ys) = (\<lambda>s. rbind (rfold f xs s) (rfold f ys))" by blast
  then show ?case by (simp add: rbind_assoc)
qed simp

lemma rfold_invariant:
  assumes "rfold f xs s = Inr t" and "P s"
    and "\<And>x s t. x \<in> set xs \<Longrightarrow> P s \<Longrightarrow> f x s = Inr t \<Longrightarrow> P t"
  shows "P t"
  using assms
proof (induction xs arbitrary: s)
  case Nil
  then show ?case by simp
next
  case (Cons x xs)
  from Cons.prems(1) obtain u where u: "f x s = Inr u" "rfold f xs u = Inr t" by auto
  from Cons.prems(3)[OF _ Cons.prems(2) u(1)] have "P u" by simp
  then show ?case using Cons.IH[OF u(2)] Cons.prems(3) by auto
qed

fun rmap :: "('a \<Rightarrow> 'b res) \<Rightarrow> 'a list \<Rightarrow> 'b list res" where
  "rmap f [] = Inr []"
| "rmap f (x # xs) = rbind (f x) (\<lambda>y. rbind (rmap f xs) (\<lambda>ys. Inr (y # ys)))"

lemma rmap_Inr_length: "rmap f xs = Inr ys \<Longrightarrow> length ys = length xs"
  by (induction xs arbitrary: ys) auto

lemma rmap_Inr_nth: "rmap f xs = Inr ys \<Longrightarrow> i < length xs \<Longrightarrow> f (xs ! i) = Inr (ys ! i)"
  by (induction xs arbitrary: ys i) (auto simp: nth_Cons' less_Suc_eq_0_disj)

lemma rmap_Inr_set:
  assumes "rmap f xs = Inr ys"
  shows "set ys = {y. \<exists>x \<in> set xs. f x = Inr y}" and "\<forall>x \<in> set xs. \<exists>y. f x = Inr y"
proof -
  have "set ys = {y. \<exists>x \<in> set xs. f x = Inr y} \<and> (\<forall>x \<in> set xs. \<exists>y. f x = Inr y)"
    using assms by (induction xs arbitrary: ys) auto
  then show "set ys = {y. \<exists>x \<in> set xs. f x = Inr y}" and "\<forall>x \<in> set xs. \<exists>y. f x = Inr y" by auto
qed

section \<open>Dictionaries\<close>

text \<open>
  A Python \<open>dict\<close> whose iteration order matters is an association list in insertion order with
  distinct keys: \<open>map_of d k\<close> looks a key up, \<open>AList.update k v d\<close> stores one.
\<close>

type_synonym ('k, 'v) dict = "('k \<times> 'v) list"

definition dvalues :: "('k, 'v) dict \<Rightarrow> 'v list" where
  "dvalues d = map snd d"

definition dget :: "('k, 'v) dict \<Rightarrow> 'k \<Rightarrow> 'v \<Rightarrow> 'v" where
  "dget d k v = (case map_of d k of None \<Rightarrow> v | Some w \<Rightarrow> w)"

definition dmap :: "('v \<Rightarrow> 'w) \<Rightarrow> ('k, 'v) dict \<Rightarrow> ('k, 'w) dict" where
  "dmap f d = map (\<lambda>(k, v). (k, f v)) d"

lemma map_of_dmap: "map_of (dmap f d) k = map_option f (map_of d k)"
  by (induction d) (auto simp: dmap_def)

lemma keys_dmap [simp]: "map fst (dmap f d) = map fst d"
  by (induction d) (auto simp: dmap_def)

lemma dmap_simps [simp]: "dmap f [] = []" "dmap f ((k, v) # d) = (k, f v) # dmap f d"
  by (simp_all add: dmap_def)

lemma dvalues_simps [simp]: "dvalues [] = []" "dvalues ((k, v) # d) = v # dvalues d"
  by (simp_all add: dvalues_def)

lemma map_of_update [simp]: "map_of (AList.update k v d) = (map_of d)(k \<mapsto> v)"
  by (rule update_conv')

text \<open>A lookup after a store, as a disjunction the classical methods can split.\<close>

lemma if_Some_eq [simp]:
  "((if c then Some v else x) = Some w) \<longleftrightarrow> (c \<and> v = w) \<or> (\<not> c \<and> x = Some w)"
  "((if c then Some v else x) = None) \<longleftrightarrow> \<not> c \<and> x = None"
  by simp_all

lemma update_new: "k \<notin> fst ` set d \<Longrightarrow> AList.update k v d = d @ [(k, v)]"
  by (induction d) auto

lemma map_of_None_keys: "map_of d k = None \<Longrightarrow> k \<notin> fst ` set d"
  by (auto simp: map_of_eq_None_iff)

lemma dvalues_update_new:
  "map_of d k = None \<Longrightarrow> dvalues (AList.update k v d) = dvalues d @ [v]"
  by (simp add: update_new map_of_None_keys dvalues_def)

section \<open>Lists\<close>

text \<open>\<open>next((x for x in xs if p x), None)\<close>: the first element that satisfies a test.\<close>

definition first_match :: "('a \<Rightarrow> bool) \<Rightarrow> 'a list \<Rightarrow> 'a option" where
  "first_match p xs = List.find p xs"

lemma first_match_SomeD: "first_match p xs = Some x \<Longrightarrow> x \<in> set xs \<and> p x"
  by (auto simp: first_match_def find_Some_iff)

lemma first_match_None_iff: "first_match p xs = None \<longleftrightarrow> (\<forall>x \<in> set xs. \<not> p x)"
  by (auto simp: first_match_def find_None_iff)

lemma first_match_append:
  "first_match p (xs @ ys) = (case first_match p xs of None \<Rightarrow> first_match p ys | Some x \<Rightarrow> Some x)"
  by (induction xs) (simp_all add: first_match_def)

lemma first_match_simps [simp]:
  "first_match p [] = None"
  "first_match p (x # xs) = (if p x then Some x else first_match p xs)"
  by (simp_all add: first_match_def)

text \<open>\<open>min(xs, key=f)\<close>: the first element of a non-empty list with the least key.\<close>

fun min_key :: "('a \<Rightarrow> 'b::linorder) \<Rightarrow> 'a \<Rightarrow> 'a list \<Rightarrow> 'a" where
  "min_key f best [] = best"
| "min_key f best (x # xs) = min_key f (if f x < f best then x else best) xs"

lemma min_key_mem: "min_key f b xs \<in> insert b (set xs)"
proof (induction xs arbitrary: b)
  case (Cons x xs)
  from Cons[of "if f x < f b then x else b"] show ?case by (auto split: if_splits)
qed simp

lemma min_key_le: "y \<in> insert b (set xs) \<Longrightarrow> f (min_key f b xs) \<le> f y"
proof (induction xs arbitrary: b y)
  case (Cons x xs)
  let ?c = "if f x < f b then x else b"
  have le: "f (min_key f ?c xs) \<le> f ?c" by (rule Cons) simp
  show ?case
  proof (cases "y \<in> set xs")
    case True
    then show ?thesis using Cons.IH[of y ?c] by simp
  next
    case False
    with Cons.prems have "y = b \<or> y = x" by auto
    with le show ?thesis by (auto split: if_splits)
  qed
qed simp

fun min_list1 :: "'a::linorder \<Rightarrow> 'a list \<Rightarrow> 'a" where
  "min_list1 m [] = m"
| "min_list1 m (x # xs) = min_list1 (min m x) xs"

lemma min_list1_Min: "min_list1 m xs = Min (insert m (set xs))"
proof (induction xs arbitrary: m)
  case (Cons x xs)
  show ?case
    by (cases "xs = []") (simp_all add: Cons min.assoc)
qed simp

lemma min_list1_le: "y \<in> insert m (set xs) \<Longrightarrow> min_list1 m xs \<le> y"
  by (simp add: min_list1_Min)

lemma min_list1_ge: "(\<And>y. y \<in> insert m (set xs) \<Longrightarrow> b \<le> y) \<Longrightarrow> b \<le> min_list1 m xs"
  by (simp add: min_list1_Min)

lemma min_list1_mem: "min_list1 m xs \<in> insert m (set xs)"
  unfolding min_list1_Min by (rule Min_in) simp_all

lemma min_list1_mono:
  "a \<le> b \<Longrightarrow> list_all2 (\<le>) xs ys \<Longrightarrow> min_list1 a xs \<le> min_list1 b ys"
proof (induction xs arbitrary: a b ys)
  case (Cons x xs)
  then obtain y ys' where "ys = y # ys'" "x \<le> y" "list_all2 (\<le>) xs ys'"
    by (auto simp: list_all2_Cons1)
  moreover have "min a x \<le> min b y" using Cons.prems(1) \<open>x \<le> y\<close> by (rule min.mono)
  ultimately show ?case using Cons.IH[of "min a x" "min b y" ys'] by simp
qed simp

end
