(* ===== verification/PyDecimal.thy ===== *)
theory PyDecimal
  imports Complex_Main Prelude
begin

text \<open>
  Python's \<open>decimal.Decimal\<close> under the default context, which is the arithmetic of every money,
  price and quantity value of the program: precision 28, rounding \<open>ROUND_HALF_EVEN\<close>.

  A finite \<open>Decimal\<close> is the rational number it denotes (\<open>decimal\<close>); trailing zeros and the sign
  of zero, which only \<open>str\<close> shows, are not kept.  Every arithmetic operation computes the exact
  result and rounds it with \<open>dctx\<close> to 28 significant digits, as the context does; comparisons,
  \<open>min\<close>, \<open>max\<close> and \<open>to_integral_value(ROUND_DOWN)\<close> are exact.  The exponent range of the context
  (about one million) is not modelled.  \<open>xdec\<close> adds the positive infinity the risk code writes as
  \<open>Decimal("Infinity")\<close>.

  The laws of rounding that sizing relies on (monotone, zero-preserving, relative error at most
  \<open>5 * 10 ^ (- 28)\<close>) are the locale \<open>rounding\<close>; the program's arithmetic is its interpretation.
\<close>

type_synonym decimal = rat

section \<open>Rounding to the context's precision\<close>

function ndigits :: "int \<Rightarrow> int" where
  "ndigits n = (if n < 10 then 1 else 1 + ndigits (n div 10))"
  by pat_completeness auto
termination
  by (relation "measure nat") auto

declare ndigits.simps [simp del]

definition adjusted :: "rat \<Rightarrow> int" where
  "adjusted x =
     (let (n, d) = quotient_of \<bar>x\<bar>;
          e = ndigits n - ndigits d
      in if 10 powi e \<le> \<bar>x\<bar> then e else e - 1)"

definition round_half_even :: "rat \<Rightarrow> int" where
  "round_half_even x =
     (let f = \<lfloor>x\<rfloor>; r = x - of_int f
      in if r < 1 / 2 then f else if 1 / 2 < r then f + 1 else if even f then f else f + 1)"

definition dprec :: int where
  "dprec = 28"

definition dctx :: "rat \<Rightarrow> decimal" where
  "dctx x =
     (if x = 0 then 0
      else let q = 10 powi (adjusted x - (dprec - 1))
           in of_int (round_half_even (x / q)) * q)"

section \<open>The operations\<close>

definition d_add :: "decimal \<Rightarrow> decimal \<Rightarrow> decimal" where "d_add a b = dctx (a + b)"

definition d_sub :: "decimal \<Rightarrow> decimal \<Rightarrow> decimal" where "d_sub a b = dctx (a - b)"

definition d_mul :: "decimal \<Rightarrow> decimal \<Rightarrow> decimal" where "d_mul a b = dctx (a * b)"

definition d_div :: "decimal \<Rightarrow> decimal \<Rightarrow> decimal" where "d_div a b = dctx (a / b)"

definition d_neg :: "decimal \<Rightarrow> decimal" where "d_neg a = dctx (- a)"

definition d_abs :: "decimal \<Rightarrow> decimal" where "d_abs a = dctx \<bar>a\<bar>"

definition d_sum :: "decimal list \<Rightarrow> decimal" where "d_sum xs = fold (\<lambda>x acc. d_add acc x) xs 0"

text \<open>Division raises on a zero divisor: \<open>DivisionByZero\<close>, or \<open>InvalidOperation\<close> for \<open>0 / 0\<close>.\<close>

definition d_divide :: "decimal \<Rightarrow> decimal \<Rightarrow> decimal res" where
  "d_divide a b =
     (if b = 0 then Inl (if a = 0 then InvalidOperation else ZeroDivisionError)
      else Inr (d_div a b))"

text \<open>\<open>to_integral_value(rounding=ROUND_DOWN)\<close>: the integer part, towards zero, not rounded again.\<close>

definition d_trunc :: "decimal \<Rightarrow> int" where
  "d_trunc x = (if 0 \<le> x then \<lfloor>x\<rfloor> else \<lceil>x\<rceil>)"

text \<open>
  \<open>a // b\<close> and \<open>a % b\<close>: the exact quotient truncated towards zero and its remainder;
  \<open>DivisionImpossible\<close> (an \<open>InvalidOperation\<close>) when the quotient needs more than 28 digits.
\<close>

definition d_floordiv :: "decimal \<Rightarrow> decimal \<Rightarrow> int res" where
  "d_floordiv a b =
     (if b = 0 then Inl (if a = 0 then InvalidOperation else ZeroDivisionError)
      else if 10 ^ 28 \<le> \<bar>d_trunc (a / b)\<bar> then Inl InvalidOperation
      else Inr (d_trunc (a / b)))"

definition d_mod :: "decimal \<Rightarrow> decimal \<Rightarrow> decimal res" where
  "d_mod a b =
     (if b = 0 then Inl InvalidOperation
      else if 10 ^ 28 \<le> \<bar>d_trunc (a / b)\<bar> then Inl InvalidOperation
      else Inr (dctx (a - of_int (d_trunc (a / b)) * b)))"

text \<open>Positive infinity, as far as the program computes with it.\<close>

datatype xdec = Fin decimal | Infinity

fun x_add :: "xdec \<Rightarrow> xdec \<Rightarrow> xdec" where
  "x_add (Fin a) (Fin b) = Fin (d_add a b)"
| "x_add _ _ = Infinity"

fun x_scale :: "decimal \<Rightarrow> xdec \<Rightarrow> xdec res" where
  "x_scale w (Fin a) = Inr (Fin (d_mul w a))"
| "x_scale w Infinity = (if w = 0 then Inl InvalidOperation else Inr Infinity)"

fun x_le :: "xdec \<Rightarrow> xdec \<Rightarrow> bool" where
  "x_le (Fin a) (Fin b) = (a \<le> b)"
| "x_le _ Infinity = True"
| "x_le Infinity (Fin _) = False"

fun is_finite :: "xdec \<Rightarrow> bool" where
  "is_finite (Fin _) = True"
| "is_finite Infinity = False"

section \<open>Digits and the adjusted exponent\<close>

lemma ndigits_pos: "0 < ndigits n"
proof (induction n rule: ndigits.induct)
  case (1 n)
  then show ?case by (cases "n < 10") (subst ndigits.simps, simp)+
qed

lemma ndigits_upper: "n < 10 ^ nat (ndigits n)"
proof (induction n rule: ndigits.induct)
  case (1 n)
  show ?case
  proof (cases "n < 10")
    case False
    with 1 have "n div 10 < 10 ^ nat (ndigits (n div 10))" by simp
    then have "n < 10 * 10 ^ nat (ndigits (n div 10))" by linarith
    also have "\<dots> = 10 ^ nat (1 + ndigits (n div 10))"
      using ndigits_pos[of "n div 10"] by (simp add: nat_add_distrib)
    finally show ?thesis using False by (subst ndigits.simps) simp
  qed (subst ndigits.simps, simp)
qed

lemma ndigits_lower: "0 < n \<Longrightarrow> 10 ^ nat (ndigits n - 1) \<le> n"
proof (induction n rule: ndigits.induct)
  case (1 n)
  show ?case
  proof (cases "n < 10")
    case True
    with 1 show ?thesis by (subst ndigits.simps) simp
  next
    case False
    with 1 have "10 ^ nat (ndigits (n div 10) - 1) \<le> n div 10" by simp
    then have "10 * 10 ^ nat (ndigits (n div 10) - 1) \<le> 10 * (n div 10)" by simp
    also have "\<dots> \<le> n" by simp
    also have "10 * 10 ^ nat (ndigits (n div 10) - 1) = (10::int) ^ nat (ndigits (n div 10))"
      using ndigits_pos[of "n div 10"] by (simp flip: power_Suc add: nat_diff_distrib Suc_diff_1)
    finally show ?thesis using False by (subst ndigits.simps) simp
  qed
qed

lemma powi_nat_diff: "(10::rat) powi (int a - int b) = 10 ^ a / 10 ^ b"
  by (simp add: power_int_diff)

lemma adjusted_bounds:
  assumes "x \<noteq> 0"
  shows "10 powi adjusted x \<le> \<bar>x\<bar>" and "\<bar>x\<bar> < 10 powi (adjusted x + 1)"
proof -
  obtain n d where q: "quotient_of \<bar>x\<bar> = (n, d)" by fastforce
  have d: "0 < d" using quotient_of_denom_pos[OF q] .
  have x: "\<bar>x\<bar> = of_int n / of_int d" using quotient_of_div[OF q] .
  have "0 < (of_int n :: rat) / of_int d" using assms x by (metis zero_less_abs_iff)
  then have n: "0 < n" using d by (simp add: zero_less_divide_iff)
  define a where "a = nat (ndigits n)"
  define b where "b = nat (ndigits d)"
  have a: "0 < a" "int a = ndigits n" and b: "0 < b" "int b = ndigits d"
    using ndigits_pos[of n] ndigits_pos[of d] by (simp_all add: a_def b_def)
  have "(of_int n :: rat) < of_int (10 ^ a)" and "(of_int (10 ^ (a - 1)) :: rat) \<le> of_int n"
    using ndigits_upper[of n] ndigits_lower[OF n] a
    unfolding of_int_less_iff of_int_le_iff by (simp_all add: a_def nat_diff_distrib)
  then have nu: "of_int n < (10::rat) ^ a" and nl: "10 ^ (a - 1) \<le> (of_int n :: rat)" by simp_all
  have "(of_int d :: rat) < of_int (10 ^ b)" and "(of_int (10 ^ (b - 1)) :: rat) \<le> of_int d"
    using ndigits_upper[of d] ndigits_lower[OF d] b
    unfolding of_int_less_iff of_int_le_iff by (simp_all add: b_def nat_diff_distrib)
  then have du: "of_int d < (10::rat) ^ b" and dl: "10 ^ (b - 1) \<le> (of_int d :: rat)" by simp_all
  have up: "\<bar>x\<bar> < 10 powi (int a - int b + 1)"
  proof -
    have "\<bar>x\<bar> \<le> of_int n / 10 ^ (b - 1)"
      unfolding x using dl n by (intro divide_left_mono) (simp_all add: d)
    also have "\<dots> < 10 ^ a / 10 ^ (b - 1)" using nu by (simp add: divide_strict_right_mono)
    also have "\<dots> = 10 powi (int a - int (b - 1))" by (simp add: powi_nat_diff)
    also have "int a - int (b - 1) = int a - int b + 1" using b by simp
    finally show ?thesis .
  qed
  have lo: "10 powi (int a - int b - 1) \<le> \<bar>x\<bar>"
  proof -
    have "int a - int b - 1 = int (a - 1) - int b" using a by simp
    then have "(10::rat) powi (int a - int b - 1) = 10 ^ (a - 1) / 10 ^ b"
      by (simp only: powi_nat_diff)
    also have "\<dots> \<le> of_int n / 10 ^ b" using nl by (simp add: divide_right_mono)
    also have "\<dots> \<le> \<bar>x\<bar>" unfolding x using du n d by (intro divide_left_mono) simp_all
    finally show ?thesis .
  qed
  have adj: "adjusted x = (if 10 powi (int a - int b) \<le> \<bar>x\<bar> then int a - int b else int a - int b - 1)"
    by (simp add: adjusted_def q a b Let_def)
  show "10 powi adjusted x \<le> \<bar>x\<bar>" using lo by (simp add: adj)
  show "\<bar>x\<bar> < 10 powi (adjusted x + 1)" using up by (simp add: adj)
qed

lemma adjusted_minus [simp]: "adjusted (- x) = adjusted x"
  by (simp add: adjusted_def)

lemma adjusted_less:
  assumes "x \<noteq> 0" and "\<bar>x\<bar> < 10 powi k"
  shows "adjusted x < k"
proof (rule ccontr)
  assume "\<not> adjusted x < k"
  then have "(10::rat) powi k \<le> 10 powi adjusted x" by (intro power_int_increasing) simp_all
  with adjusted_bounds(1)[OF assms(1)] assms(2) show False by linarith
qed

lemma adjusted_mono:
  assumes "x \<noteq> 0" and "\<bar>x\<bar> \<le> \<bar>y\<bar>"
  shows "adjusted x \<le> adjusted y"
proof -
  have "y \<noteq> 0" using assms by auto
  with assms adjusted_bounds(2)[of y] have "\<bar>x\<bar> < 10 powi (adjusted y + 1)" by linarith
  from adjusted_less[OF assms(1) this] show ?thesis by simp
qed

section \<open>Half-even rounding to an integer\<close>

lemma rhe_of_int [simp]: "round_half_even (of_int k) = k"
  by (simp add: round_half_even_def)

lemma rhe_cases: "round_half_even x = \<lfloor>x\<rfloor> \<or> round_half_even x = \<lfloor>x\<rfloor> + 1"
  by (auto simp: round_half_even_def Let_def)

lemma rhe_error: "\<bar>of_int (round_half_even x) - x\<bar> \<le> 1 / 2"
proof -
  define f where "f = (of_int \<lfloor>x\<rfloor> :: rat)"
  have "f \<le> x" "x < f + 1" unfolding f_def by linarith+
  then show ?thesis
    unfolding round_half_even_def Let_def f_def[symmetric] by (auto simp: abs_if f_def[symmetric])
qed

lemma rhe_mono:
  assumes "x \<le> y"
  shows "round_half_even x \<le> round_half_even y"
proof (cases "\<lfloor>x\<rfloor> = \<lfloor>y\<rfloor>")
  case True
  with assms show ?thesis by (auto simp: round_half_even_def Let_def)
next
  case False
  with floor_mono[OF assms] have "\<lfloor>x\<rfloor> + 1 \<le> \<lfloor>y\<rfloor>" by simp
  with rhe_cases[of x] rhe_cases[of y] show ?thesis by auto
qed

lemma rhe_minus: "round_half_even (- x) = - round_half_even x"
proof -
  have 1: "of_int \<lfloor>x\<rfloor> \<le> x" "x < of_int \<lfloor>x\<rfloor> + 1" by linarith+
  show ?thesis
  proof (cases "of_int \<lfloor>x\<rfloor> = x")
    case True
    then show ?thesis by (metis of_int_minus rhe_of_int)
  next
    case False
    with 1(1) have "of_int \<lfloor>x\<rfloor> < x" by (simp add: order_less_le)
    with 1(2) have "\<lfloor>- x\<rfloor> = - \<lfloor>x\<rfloor> - 1" by (intro floor_unique) simp_all
    then show ?thesis by (auto simp: round_half_even_def Let_def)
  qed
qed

lemma rhe_le_of_int: "x \<le> of_int k \<Longrightarrow> round_half_even x \<le> k"
  using rhe_mono[of x "of_int k"] by simp

lemma rhe_ge_of_int: "of_int k \<le> x \<Longrightarrow> k \<le> round_half_even x"
  using rhe_mono[of "of_int k" x] by simp

section \<open>The laws of the context's rounding\<close>

abbreviation quantum :: "rat \<Rightarrow> rat" where
  "quantum x \<equiv> 10 powi (adjusted x - (dprec - 1))"

lemma dctx_zero [simp]: "dctx 0 = 0"
  by (simp add: dctx_def)

lemma dctx_eq: "dctx x = of_int (round_half_even (x / quantum x)) * quantum x"
  by (simp add: dctx_def Let_def round_half_even_def)

lemma dctx_minus: "dctx (- x) = - dctx x"
  by (simp add: dctx_eq rhe_minus)

lemma dctx_error: "\<bar>dctx x - x\<bar> \<le> 5 / 10 ^ 28 * \<bar>x\<bar>"
proof (cases "x = 0")
  case False
  let ?q = "quantum x"
  have q: "0 < ?q" by simp
  have "dctx x - x = (of_int (round_half_even (x / ?q)) - x / ?q) * ?q"
    by (simp add: dctx_eq left_diff_distrib)
  then have "\<bar>dctx x - x\<bar> = \<bar>of_int (round_half_even (x / ?q)) - x / ?q\<bar> * ?q"
    using q by (simp add: abs_mult)
  also have "\<dots> \<le> 1 / 2 * ?q" using rhe_error q by (intro mult_right_mono) simp_all
  also have "?q = 10 powi adjusted x / 10 ^ 27" by (simp add: power_int_diff dprec_def)
  also have "1 / 2 * (10 powi adjusted x / 10 ^ 27) \<le> 1 / 2 * (\<bar>x\<bar> / 10 ^ 27)"
    using adjusted_bounds(1)[OF False] by (simp add: divide_right_mono)
  also have "\<dots> = 5 / 10 ^ 28 * \<bar>x\<bar>" by simp
  finally show ?thesis .
qed simp

lemma dctx_range:
  assumes "0 < x"
  shows "10 powi adjusted x \<le> dctx x" and "dctx x \<le> 10 powi (adjusted x + 1)"
proof -
  let ?q = "quantum x"
  have q: "0 < ?q" by simp
  have e: "10 powi adjusted x = of_int (10 ^ 27) * ?q"
    by (simp add: power_int_diff dprec_def)
  have e1: "10 powi (adjusted x + 1) = of_int (10 ^ 28) * ?q"
    by (simp add: power_int_diff power_int_add dprec_def)
  have b: "of_int (10 ^ 27) * ?q \<le> x" "x < of_int (10 ^ 28) * ?q"
    using adjusted_bounds[of x] assms by (simp_all only: e[symmetric] e1[symmetric]) simp_all
  then have "of_int (10 ^ 27) \<le> x / ?q" "x / ?q \<le> of_int (10 ^ 28)"
    using q by (simp_all only: pos_le_divide_eq pos_divide_le_eq less_imp_le)
  then have r: "10 ^ 27 \<le> round_half_even (x / ?q)" "round_half_even (x / ?q) \<le> 10 ^ 28"
    by (simp_all only: rhe_ge_of_int rhe_le_of_int)
  show "10 powi adjusted x \<le> dctx x"
    unfolding e dctx_eq using r(1) q by (intro mult_right_mono) (simp_all only: of_int_le_iff less_imp_le)
  show "dctx x \<le> 10 powi (adjusted x + 1)"
    unfolding e1 dctx_eq using r(2) q by (intro mult_right_mono) (simp_all only: of_int_le_iff less_imp_le)
qed

lemma dctx_pos: "0 < x \<Longrightarrow> 0 < dctx x"
  using dctx_range(1)[of x] zero_less_power_int[of "10::rat" "adjusted x"] by linarith

lemma dctx_nonneg: "0 \<le> x \<Longrightarrow> 0 \<le> dctx x"
  using dctx_pos[of x] by (cases "x = 0") simp_all

lemma dctx_mono_pos:
  assumes "0 < x" and "x \<le> y"
  shows "dctx x \<le> dctx y"
proof (cases "adjusted x = adjusted y")
  case True
  have "round_half_even (x / quantum y) \<le> round_half_even (y / quantum y)"
    using assms by (intro rhe_mono divide_right_mono) simp_all
  then show ?thesis by (simp add: dctx_eq True mult_right_mono)
next
  case False
  with assms adjusted_mono[of x y] have "adjusted x + 1 \<le> adjusted y" by simp
  then have "(10::rat) powi (adjusted x + 1) \<le> 10 powi adjusted y"
    by (intro power_int_increasing) simp_all
  with dctx_range(2)[of x] dctx_range(1)[of y] assms show ?thesis by linarith
qed

lemma dctx_mono:
  assumes le: "x \<le> y"
  shows "dctx x \<le> dctx y"
proof -
  consider "0 < x" | "x \<le> 0" "0 \<le> y" | "y < 0" by linarith
  then show ?thesis
  proof cases
    case 1
    then show ?thesis using le by (rule dctx_mono_pos)
  next
    case 2
    then have "0 \<le> dctx (- x)" by (intro dctx_nonneg) simp
    with dctx_nonneg[OF 2(2)] show ?thesis by (simp add: dctx_minus)
  next
    case 3
    with le have "dctx (- y) \<le> dctx (- x)" by (intro dctx_mono_pos) simp_all
    then show ?thesis by (simp add: dctx_minus)
  qed
qed

text \<open>A value of at most 28 significant digits is not changed by rounding.\<close>

lemma dctx_representable:
  assumes "\<bar>c\<bar> < 10 ^ 28"
  shows "dctx (of_int c * 10 powi k) = of_int c * 10 powi k"
proof (cases "c = 0")
  case False
  let ?x = "of_int c * 10 powi k :: rat"
  have "\<bar>of_int c :: rat\<bar> < 10 ^ 28"
    using assms by (metis of_int_abs of_int_less_iff of_int_numeral of_int_power)
  then have "\<bar>?x\<bar> < 10 ^ 28 * 10 powi k" by (simp add: abs_mult)
  also have "\<dots> = 10 powi (28 + k)" by (simp add: power_int_add)
  finally have "adjusted ?x < 28 + k" using False by (intro adjusted_less) simp_all
  then have nn: "0 \<le> k - (adjusted ?x - (dprec - 1))" by (simp add: dprec_def)
  have "?x / quantum ?x = of_int c * 10 powi (k - (adjusted ?x - (dprec - 1)))"
    by (simp add: power_int_diff)
  also have "\<dots> = of_int (c * 10 ^ nat (k - (adjusted ?x - (dprec - 1))))"
    using nn by (simp add: power_int_def)
  finally have "round_half_even (?x / quantum ?x) = c * 10 ^ nat (k - (adjusted ?x - (dprec - 1)))"
    by (simp only: rhe_of_int)
  then have "dctx ?x = of_int c * 10 powi (k - (adjusted ?x - (dprec - 1))) * quantum ?x"
    using nn by (simp add: dctx_eq power_int_def)
  then show ?thesis by (simp add: power_int_diff)
qed simp

lemma dctx_idem [simp]: "dctx (dctx x) = dctx x"
proof (cases "x = 0")
  case False
  have *: "dctx (dctx x) = dctx x" if "0 < x" for x
  proof -
    let ?c = "round_half_even (x / quantum x)"
    have pos: "0 < dctx x" using that by (rule dctx_pos)
    have "dctx x \<le> 10 powi (adjusted x + 1)" using that by (rule dctx_range)
    also have "\<dots> = of_int (10 ^ 28) * quantum x" by (simp add: power_int_add power_int_diff dprec_def)
    finally have "of_int ?c \<le> (of_int (10 ^ 28) :: rat)"
      unfolding dctx_eq by (simp only: mult_le_cancel_right_pos zero_less_power_int zero_less_numeral)
    then have le: "?c \<le> 10 ^ 28" by (simp only: of_int_le_iff)
    have "0 < of_int ?c * quantum x" using pos by (simp only: dctx_eq)
    then have "0 < (of_int ?c :: rat)" by (rule zero_less_mult_pos2) simp
    then have "0 < ?c" by (simp only: of_int_0_less_iff)
    show ?thesis
    proof (cases "?c = 10 ^ 28")
      case True
      then have "dctx x = of_int 1 * 10 powi (28 + (adjusted x - (dprec - 1)))"
        by (simp add: dctx_eq power_int_add power_int_diff)
      then show ?thesis by (simp only: dctx_representable[of 1] abs_one) (simp add: dctx_representable[of 1, simplified])
    next
      case False
      with le \<open>0 < ?c\<close> show ?thesis by (subst (1 2) dctx_eq[of x]) (rule dctx_representable, simp)
    qed
  qed
  show ?thesis
  proof (cases "0 < x")
    case False
    with \<open>x \<noteq> 0\<close> have "dctx (dctx (- x)) = dctx (- x)" by (intro *) simp
    then show ?thesis by (simp add: dctx_minus)
  qed (rule *)
qed simp

section \<open>The rounding interface\<close>

text \<open>
  What sizing and cost arithmetic relies on: rounding is monotone, keeps zero and errs by at most
  \<open>u\<close> relative to the exact value.  The bounds below follow for any such arithmetic.
\<close>

locale rounding =
  fixes rnd :: "rat \<Rightarrow> rat" and u :: rat
  assumes rnd_mono: "x \<le> y \<Longrightarrow> rnd x \<le> rnd y"
    and rnd_zero: "rnd 0 = 0"
    and rnd_idem: "rnd (rnd x) = rnd x"
    and rnd_err: "\<bar>rnd x - x\<bar> \<le> u * \<bar>x\<bar>"
    and u_nonneg: "0 \<le> u"
begin

lemma rnd_nonneg: "0 \<le> x \<Longrightarrow> 0 \<le> rnd x"
  using rnd_mono[of 0 x] by (simp add: rnd_zero)

lemma rnd_upper: "0 \<le> x \<Longrightarrow> rnd x \<le> (1 + u) * x"
  using rnd_err[of x] by (simp add: abs_le_iff distrib_right)

lemma rnd_upper_le: "0 \<le> x \<Longrightarrow> x \<le> y \<Longrightarrow> rnd x \<le> (1 + u) * y"
  by (rule order_trans[OF rnd_upper mult_left_mono]) (simp_all add: u_nonneg)

lemma rnd_le_fixed: "x \<le> y \<Longrightarrow> rnd y = y \<Longrightarrow> rnd x \<le> y"
  using rnd_mono[of x y] by simp

lemma rnd_ge_fixed: "y \<le> x \<Longrightarrow> rnd y = y \<Longrightarrow> y \<le> rnd x"
  using rnd_mono[of y x] by simp

text \<open>
  A budget divided by the loss of one unit and rounded down to a multiple of the increment:
  four roundings, so the loss of the resulting size exceeds the budget by at most the factor
  \<open>(1 + u) ^ 4\<close>.
\<close>

lemma sized_loss_bound:
  assumes b: "0 \<le> b" and p: "0 < p" and inc: "0 < inc"
    and k: "of_int k \<le> rnd (rnd (b / p) / inc)" and k0: "0 \<le> k"
  shows "rnd (rnd (of_int k * inc) * p) \<le> (1 + u) ^ 4 * b"
proof -
  have v: "0 \<le> 1 + u" using u_nonneg by simp
  have q: "0 \<le> rnd (b / p)" "rnd (b / p) \<le> (1 + u) * (b / p)"
    using b p by (simp_all add: rnd_nonneg del: times_divide_eq_right) (rule rnd_upper, simp)
  have "of_int k \<le> (1 + u) * (rnd (b / p) / inc)"
    using k rnd_upper[of "rnd (b / p) / inc"] q inc by simp
  then have "of_int k * inc \<le> (1 + u) * rnd (b / p)"
    using inc by (simp add: pos_le_divide_eq)
  also have "\<dots> \<le> (1 + u) * ((1 + u) * (b / p))" using q(2) v by (rule mult_left_mono)
  finally have s: "of_int k * inc \<le> (1 + u) ^ 2 * (b / p)" by (simp add: power2_eq_square mult.assoc)
  have s0: "0 \<le> of_int k * inc" using k0 inc by simp
  have "rnd (of_int k * inc) * p \<le> (1 + u) * ((1 + u) ^ 2 * (b / p)) * p"
    by (rule mult_right_mono[OF rnd_upper_le[OF s0 s]]) (use p in simp)
  also have "\<dots> = (1 + u) ^ 3 * b" using p by (simp add: power3_eq_cube power2_eq_square)
  finally have "rnd (rnd (of_int k * inc) * p) \<le> (1 + u) * ((1 + u) ^ 3 * b)"
    using s0 p by (intro rnd_upper_le) (simp_all add: rnd_nonneg)
  then show ?thesis by (simp add: power_numeral_reduce mult.assoc)
qed

end

abbreviation unit_roundoff :: rat where
  "unit_roundoff \<equiv> 5 / 10 ^ 28"

interpretation ctx: rounding dctx unit_roundoff
  by unfold_locales (fact dctx_error | simp add: dctx_mono)+

section \<open>Lemmas on the operations\<close>

named_theorems dec_defs \<open>the definitions of the decimal operations\<close>

lemmas [dec_defs] = d_add_def d_sub_def d_mul_def d_div_def d_neg_def d_abs_def

lemma d_nonneg [simp, intro]:
  "0 \<le> a \<Longrightarrow> 0 \<le> b \<Longrightarrow> 0 \<le> d_add a b"
  "0 \<le> a \<Longrightarrow> 0 \<le> b \<Longrightarrow> 0 \<le> d_mul a b"
  "0 \<le> a \<Longrightarrow> 0 \<le> b \<Longrightarrow> 0 \<le> d_div a b"
  "0 \<le> d_abs a"
  by (simp_all add: dec_defs dctx_nonneg)

lemma d_sub_nonneg: "b \<le> a \<Longrightarrow> 0 \<le> d_sub a b"
  by (simp add: dec_defs dctx_nonneg)

lemma d_pos:
  "0 < a \<Longrightarrow> 0 < b \<Longrightarrow> 0 < d_mul a b"
  "0 < a \<Longrightarrow> 0 < b \<Longrightarrow> 0 < d_div a b"
  by (simp_all add: dec_defs dctx_pos)

lemma d_abs_pos: "a \<noteq> 0 \<Longrightarrow> 0 < d_abs a"
  by (simp add: dec_defs dctx_pos)

lemma d_mono:
  "a \<le> a' \<Longrightarrow> b \<le> b' \<Longrightarrow> d_add a b \<le> d_add a' b'"
  "a \<le> a' \<Longrightarrow> b' \<le> b \<Longrightarrow> d_sub a b \<le> d_sub a' b'"
  by (simp_all add: dec_defs dctx_mono)

lemma d_mul_mono: "0 \<le> b \<Longrightarrow> a \<le> a' \<Longrightarrow> d_mul a b \<le> d_mul a' b"
  by (simp add: dec_defs dctx_mono mult_right_mono)

lemma d_zero [simp]: "d_add 0 0 = 0" "d_mul 0 a = 0" "d_mul a 0 = 0" "d_sub a a = 0" "d_div 0 a = 0"
  by (simp_all add: dec_defs)

lemma d_rounded [simp]:
  "dctx (d_add a b) = d_add a b" "dctx (d_sub a b) = d_sub a b" "dctx (d_mul a b) = d_mul a b"
  "dctx (d_div a b) = d_div a b" "dctx (d_neg a) = d_neg a" "dctx (d_abs a) = d_abs a"
  by (simp_all add: dec_defs)

lemma d_sum_Nil [simp]: "d_sum [] = 0"
  by (simp add: d_sum_def)

lemma d_sum_snoc: "d_sum (xs @ [x]) = d_add (d_sum xs) x"
  by (simp add: d_sum_def)

lemma d_sum_nonneg: "(\<And>x. x \<in> set xs \<Longrightarrow> 0 \<le> x) \<Longrightarrow> 0 \<le> d_sum xs"
  by (induction xs rule: rev_induct) (simp_all add: d_sum_snoc)

lemma d_trunc_mono:
  assumes "x \<le> y"
  shows "d_trunc x \<le> d_trunc y"
proof (cases "0 \<le> x")
  case True
  with assms show ?thesis by (simp add: d_trunc_def floor_mono)
next
  case False
  then have "\<lceil>x\<rceil> \<le> 0" by simp
  then have "\<lceil>x\<rceil> \<le> \<lfloor>y\<rfloor>" if "0 \<le> y" using that by (meson order_trans zero_le_floor)
  with False assms show ?thesis by (simp add: d_trunc_def ceiling_mono)
qed

lemma d_trunc_nonneg: "0 \<le> x \<Longrightarrow> 0 \<le> d_trunc x"
  by (simp add: d_trunc_def)

lemma d_trunc_le: "0 \<le> x \<Longrightarrow> of_int (d_trunc x) \<le> x"
  by (simp add: d_trunc_def)

lemma d_trunc_of_int [simp]: "d_trunc (of_int k) = k"
  by (simp add: d_trunc_def)

text \<open>
  Values of at most 8 decimals and below \<open>10 ^ 20\<close> (the program's money type has 24 digits, 8 of
  them decimals) are exact: \<open>dec8\<close> is closed under addition within that range.
\<close>

definition dec8 :: "rat \<Rightarrow> bool" where
  "dec8 x \<longleftrightarrow> x * 10 ^ 8 \<in> \<int> \<and> \<bar>x\<bar> < 10 ^ 20"

lemma dctx_dec8:
  assumes "dec8 x"
  shows "dctx x = x"
proof -
  obtain c where c: "x * 10 ^ 8 = of_int c" using assms unfolding dec8_def Ints_def by blast
  have x: "x = of_int c * 10 powi (- 8)" using c by (simp add: power_int_minus field_simps)
  have "\<bar>of_int c :: rat\<bar> = \<bar>x\<bar> * 10 ^ 8" by (simp add: c[symmetric] abs_mult)
  also have "\<dots> < 10 ^ 20 * 10 ^ 8" using assms by (simp add: dec8_def)
  finally have "\<bar>c\<bar> < 10 ^ 28" by (simp flip: of_int_abs add: of_int_less_numeral_power_cancel_iff)
  then show ?thesis unfolding x by (rule dctx_representable)
qed

lemma dec8_add: "dec8 a \<Longrightarrow> dec8 b \<Longrightarrow> \<bar>a + b\<bar> < 10 ^ 20 \<Longrightarrow> dec8 (a + b)"
  by (simp add: dec8_def distrib_right)

lemma dec8_minus: "dec8 a \<Longrightarrow> dec8 (- a)"
  by (simp add: dec8_def)

lemma dec8_numeral:
  "x * 100000000 \<in> \<int> \<Longrightarrow> - 100000000000000000000 < x \<Longrightarrow> x < 100000000000000000000 \<Longrightarrow> dctx x = x"
  by (rule dctx_dec8) (simp add: dec8_def abs_less_iff)

end
