(* ===== verification/PyString.thy ===== *)
theory PyString
  imports Prelude "HOL-Library.Char_ord" "HOL-Library.List_Lexorder" "HOL-Library.Sublist"
begin

text \<open>
  The string operations the program uses, on ASCII strings: \<open>lower\<close>, \<open>upper\<close>, \<open>replace\<close> of one
  character, prefix and substring tests, \<open>isalpha\<close>, and \<open>sorted\<close> and \<open>sorted(set(..))\<close> of strings
  (character-wise lexicographic order, as Python compares them).  A \<open>UUID\<close> is its canonical text, so \<open>str\<close> of it
  is the identity and an f-string that holds one is a concatenation.
\<close>

type_synonym uuid = string

definition chr_upper :: "char \<Rightarrow> char" where
  "chr_upper c = (if CHR ''a'' \<le> c \<and> c \<le> CHR ''z'' then char_of (of_char c - (32::nat)) else c)"

definition chr_lower :: "char \<Rightarrow> char" where
  "chr_lower c = (if CHR ''A'' \<le> c \<and> c \<le> CHR ''Z'' then char_of (of_char c + (32::nat)) else c)"

definition chr_alpha :: "char \<Rightarrow> bool" where
  "chr_alpha c \<longleftrightarrow> (CHR ''a'' \<le> c \<and> c \<le> CHR ''z'') \<or> (CHR ''A'' \<le> c \<and> c \<le> CHR ''Z'')"

definition str_upper :: "string \<Rightarrow> string" where
  "str_upper s = map chr_upper s"

definition str_lower :: "string \<Rightarrow> string" where
  "str_lower s = map chr_lower s"

definition str_isalpha :: "string \<Rightarrow> bool" where
  "str_isalpha s \<longleftrightarrow> s \<noteq> [] \<and> list_all chr_alpha s"

text \<open>\<open>s.replace("-", "")\<close>\<close>

definition str_remove :: "char \<Rightarrow> string \<Rightarrow> string" where
  "str_remove c s = filter (\<lambda>d. d \<noteq> c) s"

definition str_contains :: "string \<Rightarrow> string \<Rightarrow> bool" where
  "str_contains part s = sublist part s"

definition starts_with_any :: "string list \<Rightarrow> string \<Rightarrow> bool" where
  "starts_with_any ps s = list_ex (\<lambda>p. prefix p s) ps"

definition sorted_strings :: "string list \<Rightarrow> string list" where
  "sorted_strings xs = sort xs"

definition sorted_set :: "string list \<Rightarrow> string list" where
  "sorted_set xs = sort (remdups xs)"

text \<open>\<open>", ".join(xs)\<close>\<close>

fun comma_join :: "string list \<Rightarrow> string" where
  "comma_join [] = ''''"
| "comma_join [x] = x"
| "comma_join (x # xs) = x @ '', '' @ comma_join xs"

lemma set_sorted_set [simp]: "set (sorted_set xs) = set xs"
  by (simp add: sorted_set_def)

lemma sorted_strings_Nil_iff [simp]: "sorted_strings xs = [] \<longleftrightarrow> xs = []"
  unfolding sorted_strings_def by (metis length_0_conv length_sort)

lemma sorted_sorted_set: "sorted (sorted_set xs)" "distinct (sorted_set xs)"
  by (simp_all add: sorted_set_def)

lemma length_str_case [simp]: "length (str_upper s) = length s" "length (str_lower s) = length s"
  by (simp_all add: str_upper_def str_lower_def)

text \<open>Decimal digits of a natural number, for f-strings such as \<open>sequence:{n}\<close>.\<close>

fun nat_str :: "nat \<Rightarrow> string" where
  "nat_str n = (if n < 10 then [char_of (48 + n)] else nat_str (n div 10) @ [char_of (48 + n mod 10)])"

declare nat_str.simps [simp del]

definition int_str :: "int \<Rightarrow> string" where
  "int_str k = (if k < 0 then CHR ''-'' # nat_str (nat (- k)) else nat_str (nat k))"

end
