(* ===== verification/DomainTypes.thy ===== *)
theory DomainTypes
  imports PyDecimal PyString
begin

text \<open>
  \<open>packages/shared/domain_types.py\<close> and the write guard of \<open>packages/shared/persistence.py\<close>: the
  enumerations every component shares, with the text of each member (they are \<open>StrEnum\<close>s and the
  code compares and stores that text), and \<open>round_down\<close>.

  A \<open>datetime\<close> is an aware instant in microseconds (\<open>timestamp\<close>); \<open>utc_now()\<close> is an argument of
  every operation that reads the clock, read once per operation.
\<close>

type_synonym timestamp = int

abbreviation seconds :: "int \<Rightarrow> int" where "seconds n \<equiv> n * 1000000"

abbreviation minutes :: "int \<Rightarrow> int" where "minutes n \<equiv> seconds (n * 60)"

datatype asset_class = FOREX | METALS | CRYPTOCURRENCY | STOCKS

datatype instrument_type = SPOT | CFD | FUTURES

datatype quantity_unit = UNITS | SHARES | LOTS | CONTRACTS

datatype execution_action =
    PLACE_ORDER
  | CANCEL_ORDER
  | SET_OR_CHANGE_STOP_LOSS
  | SET_OR_CHANGE_TAKE_PROFIT
  | PARTIAL_CLOSE
  | FULL_EXIT

datatype trade_plan_state =
    TP_CONSTRUCTED
  | TP_VALIDATING
  | TP_BLOCKED
  | TP_READY
  | TP_AUTHORIZED
  | TP_EXECUTION_PENDING
  | TP_EXECUTING
  | TP_ACTIVE
  | TP_EXPIRED
  | TP_CANCELLED
  | TP_REVALIDATION_REQUIRED

datatype command_state =
    CREATED
  | VALIDATING
  | BLOCKED
  | AUTHORIZED
  | QUEUED
  | DISPATCHING
  | ACKNOWLEDGED
  | PARTIALLY_APPLIED
  | APPLIED
  | REJECTED
  | SUPERSEDED
  | OUTCOME_UNKNOWN
  | RECONCILING
  | NO_EFFECT_CONFIRMED
  | BLOCKED_AMBIGUOUS
  | EXPIRED

datatype outcome_certainty = OC_NONE | UNCERTAIN | CONFIRMED

fun asset_class_value :: "asset_class \<Rightarrow> string" where
  "asset_class_value FOREX = ''FOREX''"
| "asset_class_value METALS = ''METALS''"
| "asset_class_value CRYPTOCURRENCY = ''CRYPTOCURRENCY''"
| "asset_class_value STOCKS = ''STOCKS''"

fun instrument_type_value :: "instrument_type \<Rightarrow> string" where
  "instrument_type_value SPOT = ''SPOT''"
| "instrument_type_value CFD = ''CFD''"
| "instrument_type_value FUTURES = ''FUTURES''"

fun quantity_unit_value :: "quantity_unit \<Rightarrow> string" where
  "quantity_unit_value UNITS = ''UNITS''"
| "quantity_unit_value SHARES = ''SHARES''"
| "quantity_unit_value LOTS = ''LOTS''"
| "quantity_unit_value CONTRACTS = ''CONTRACTS''"

fun execution_action_value :: "execution_action \<Rightarrow> string" where
  "execution_action_value PLACE_ORDER = ''PLACE_ORDER''"
| "execution_action_value CANCEL_ORDER = ''CANCEL_ORDER''"
| "execution_action_value SET_OR_CHANGE_STOP_LOSS = ''SET_OR_CHANGE_STOP_LOSS''"
| "execution_action_value SET_OR_CHANGE_TAKE_PROFIT = ''SET_OR_CHANGE_TAKE_PROFIT''"
| "execution_action_value PARTIAL_CLOSE = ''PARTIAL_CLOSE''"
| "execution_action_value FULL_EXIT = ''FULL_EXIT''"

fun command_state_value :: "command_state \<Rightarrow> string" where
  "command_state_value CREATED = ''CREATED''"
| "command_state_value VALIDATING = ''VALIDATING''"
| "command_state_value BLOCKED = ''BLOCKED''"
| "command_state_value AUTHORIZED = ''AUTHORIZED''"
| "command_state_value QUEUED = ''QUEUED''"
| "command_state_value DISPATCHING = ''DISPATCHING''"
| "command_state_value ACKNOWLEDGED = ''ACKNOWLEDGED''"
| "command_state_value PARTIALLY_APPLIED = ''PARTIALLY_APPLIED''"
| "command_state_value APPLIED = ''APPLIED''"
| "command_state_value REJECTED = ''REJECTED''"
| "command_state_value SUPERSEDED = ''SUPERSEDED''"
| "command_state_value OUTCOME_UNKNOWN = ''OUTCOME_UNKNOWN''"
| "command_state_value RECONCILING = ''RECONCILING''"
| "command_state_value NO_EFFECT_CONFIRMED = ''NO_EFFECT_CONFIRMED''"
| "command_state_value BLOCKED_AMBIGUOUS = ''BLOCKED_AMBIGUOUS''"
| "command_state_value EXPIRED = ''EXPIRED''"

definition lane_key :: "asset_class \<Rightarrow> instrument_type \<Rightarrow> string" where
  "lane_key a i = asset_class_value a @ '':'' @ instrument_type_value i"

lemma asset_class_value_inj: "asset_class_value a = asset_class_value b \<longleftrightarrow> a = b"
  by (cases a; cases b) simp_all

lemma instrument_type_value_inj: "instrument_type_value a = instrument_type_value b \<longleftrightarrow> a = b"
  by (cases a; cases b) simp_all

lemma lane_key_inj: "lane_key a i = lane_key b j \<longleftrightarrow> a = b \<and> i = j"
  by (cases a; cases b; cases i; cases j) (simp_all add: lane_key_def)

section \<open>Rounding a quantity down to its increment\<close>

definition round_down :: "decimal \<Rightarrow> decimal \<Rightarrow> decimal res" where
  "round_down v increment =
     rbind (ensure (\<not> increment \<le> 0) (ValueError ''increment must be positive''))
       (\<lambda>_. Inr (d_mul (of_int (d_trunc (d_div v increment))) increment))"

lemma round_down_Inr_iff:
  "round_down v inc = Inr r \<longleftrightarrow> 0 < inc \<and> r = d_mul (of_int (d_trunc (d_div v inc))) inc"
  by (auto simp: round_down_def ensure_def)

lemma round_down_nonneg: "0 \<le> v \<Longrightarrow> round_down v inc = Inr r \<Longrightarrow> 0 \<le> r"
  by (auto simp: round_down_Inr_iff d_trunc_def)

lemma round_down_mono:
  assumes "v \<le> w" and "round_down v inc = Inr r" and "round_down w inc = Inr s"
  shows "r \<le> s"
proof -
  have inc: "0 < inc" using assms(2) by (simp add: round_down_Inr_iff)
  have "d_div v inc \<le> d_div w inc"
    using assms(1) inc by (simp add: dec_defs dctx_mono divide_right_mono)
  then have "d_trunc (d_div v inc) \<le> d_trunc (d_div w inc)"
    by (rule d_trunc_mono)
  then show ?thesis
    using assms inc by (auto simp: round_down_Inr_iff intro!: d_mul_mono)
qed

section \<open>Typed executable references\<close>

text \<open>
  \<open>validate_executable_reference\<close> reads five keys of the record it guards.  A key is present and
  truthy, or it is not; \<open>typed_ref\<close> holds those five facts.
\<close>

record typed_ref =
  tr_instrument_type :: "string option"
  tr_venue :: "string option"
  tr_specification :: "string option"
  tr_unit :: "string option"
  tr_contract :: "string option"

definition truthy :: "string option \<Rightarrow> bool" where
  "truthy s = (case s of None \<Rightarrow> False | Some t \<Rightarrow> t \<noteq> '''')"

definition validate_executable_reference :: "typed_ref \<Rightarrow> unit res" where
  "validate_executable_reference d =
     (case tr_instrument_type d of
        None \<Rightarrow> Inr ()
      | Some t \<Rightarrow>
          (let missing =
             map fst (filter (\<lambda>(k, v). \<not> truthy v)
               [(''venue_instrument_id'', tr_venue d),
                (''specification_version_id'', tr_specification d),
                (''quantity_unit'', tr_unit d)])
           in if missing \<noteq> []
              then Inl (ValueError (''typed executable reference missing: '' @ comma_join missing))
              else if t = ''FUTURES'' \<and> \<not> truthy (tr_contract d)
              then Inl (ValueError ''futures executable reference requires a dated futures contract'')
              else Inr ()))"

lemma validate_executable_reference_ok_iff:
  "validate_executable_reference d = Inr () \<longleftrightarrow>
     (\<forall>t. tr_instrument_type d = Some t \<longrightarrow>
        truthy (tr_venue d) \<and> truthy (tr_specification d) \<and> truthy (tr_unit d)
        \<and> (t = ''FUTURES'' \<longrightarrow> truthy (tr_contract d)))"
  by (auto simp: validate_executable_reference_def Let_def split: option.splits)

end
