(* ===== verification/Policy.thy ===== *)
theory Policy
  imports DomainTypes
begin

text \<open>
  \<open>modules/policy\<close> and \<open>modules/prop_firms\<close>: effective constraints and the choice of the
  strictest applicable one per kind, guardrail profiles, and the lifecycle of prop-firm rulesets.
\<close>

section \<open>Effective constraints (\<open>policy/models.py\<close>, \<open>policy/effective_limits.py\<close>)\<close>

datatype enforcement = HARD | SOFT

datatype constraint_kind =
    MAX_RISK_PER_TRADE
  | MAX_DAILY_LOSS
  | MAX_TOTAL_DRAWDOWN
  | MAX_PORTFOLIO_RISK
  | MAX_CORRELATED_RISK
  | MAX_CONCURRENT_TRADES

fun constraint_kind_value :: "constraint_kind \<Rightarrow> string" where
  "constraint_kind_value MAX_RISK_PER_TRADE = ''MAX_RISK_PER_TRADE''"
| "constraint_kind_value MAX_DAILY_LOSS = ''MAX_DAILY_LOSS''"
| "constraint_kind_value MAX_TOTAL_DRAWDOWN = ''MAX_TOTAL_DRAWDOWN''"
| "constraint_kind_value MAX_PORTFOLIO_RISK = ''MAX_PORTFOLIO_RISK''"
| "constraint_kind_value MAX_CORRELATED_RISK = ''MAX_CORRELATED_RISK''"
| "constraint_kind_value MAX_CONCURRENT_TRADES = ''MAX_CONCURRENT_TRADES''"

record effective_constraint =
  ec_kind :: constraint_kind
  ec_value :: decimal
  ec_source :: string
  ec_source_version :: string
  ec_reason :: string
  ec_enforcement :: enforcement

definition group_constraints ::
    "effective_constraint list \<Rightarrow> (constraint_kind, effective_constraint list) dict" where
  "group_constraints cs =
     fold (\<lambda>c grouped. AList.update (ec_kind c) (dget grouped (ec_kind c) [] @ [c]) grouped) cs []"

definition strictest_of :: "effective_constraint list \<Rightarrow> effective_constraint" where
  "strictest_of choices =
     (let hard = filter (\<lambda>c. ec_enforcement c = HARD) choices;
          pool = (if hard \<noteq> [] then hard else choices)
      in min_key ec_value (hd pool) (tl pool))"

definition strictest_applicable ::
    "effective_constraint list \<Rightarrow> (constraint_kind, effective_constraint) dict" where
  "strictest_applicable cs = dmap strictest_of (group_constraints cs)"

subsection \<open>The choice per kind\<close>

abbreviation of_kind :: "constraint_kind \<Rightarrow> effective_constraint list \<Rightarrow> effective_constraint list" where
  "of_kind k cs \<equiv> filter (\<lambda>c. ec_kind c = k) cs"

lemma group_constraints_snoc:
  "group_constraints (cs @ [c]) =
     AList.update (ec_kind c) (dget (group_constraints cs) (ec_kind c) [] @ [c]) (group_constraints cs)"
  by (simp add: group_constraints_def)

lemma map_of_group_constraints:
  "map_of (group_constraints cs) k = (if of_kind k cs = [] then None else Some (of_kind k cs))"
proof (induction cs rule: rev_induct)
  case (snoc c cs)
  then show ?case by (auto simp: group_constraints_snoc dget_def split: option.splits if_splits)
qed (simp add: group_constraints_def)

lemma strictest_lookup:
  "map_of (strictest_applicable cs) k =
     (if of_kind k cs = [] then None else Some (strictest_of (of_kind k cs)))"
  by (simp add: strictest_applicable_def map_of_dmap map_of_group_constraints)

definition strictest_pool :: "effective_constraint list \<Rightarrow> effective_constraint list" where
  "strictest_pool choices =
     (let hard = filter (\<lambda>c. ec_enforcement c = HARD) choices
      in if hard \<noteq> [] then hard else choices)"

lemma strictest_pool_nonempty: "choices \<noteq> [] \<Longrightarrow> strictest_pool choices \<noteq> []"
  by (simp add: strictest_pool_def Let_def)

lemma strictest_of_pool:
  "strictest_of choices = min_key ec_value (hd (strictest_pool choices)) (tl (strictest_pool choices))"
  by (simp add: strictest_of_def strictest_pool_def Let_def)

lemma strictest_of_cases:
  assumes "choices \<noteq> []"
  shows "strictest_of choices \<in> set (strictest_pool choices)"
    and "c \<in> set (strictest_pool choices) \<Longrightarrow> ec_value (strictest_of choices) \<le> ec_value c"
proof -
  obtain x xs where p: "strictest_pool choices = x # xs"
    using strictest_pool_nonempty[OF assms] by (cases "strictest_pool choices") auto
  show "strictest_of choices \<in> set (strictest_pool choices)"
    using min_key_mem[of ec_value x xs] by (simp add: strictest_of_pool p)
  show "ec_value (strictest_of choices) \<le> ec_value c" if "c \<in> set (strictest_pool choices)"
    using min_key_le[of c x xs ec_value] that by (simp add: strictest_of_pool p)
qed

lemma set_strictest_pool:
  "set (strictest_pool choices) =
     (if \<exists>c \<in> set choices. ec_enforcement c = HARD
      then {c \<in> set choices. ec_enforcement c = HARD} else set choices)"
  by (auto simp: strictest_pool_def Let_def filter_empty_conv)

lemma strictest_lookup_Some:
  assumes "map_of (strictest_applicable cs) k = Some c"
  shows "c \<in> set cs" and "ec_kind c = k"
    and "\<lbrakk>d \<in> set cs; ec_kind d = k; ec_enforcement d = HARD\<rbrakk> \<Longrightarrow>
           ec_enforcement c = HARD \<and> ec_value c \<le> ec_value d"
    and "\<lbrakk>d \<in> set cs; ec_kind d = k; ec_enforcement c \<noteq> HARD\<rbrakk> \<Longrightarrow> ec_value c \<le> ec_value d"
proof -
  have ne: "of_kind k cs \<noteq> []" and c: "c = strictest_of (of_kind k cs)"
    using assms by (auto simp: strictest_lookup split: if_splits)
  note mem = strictest_of_cases(1)[OF ne, folded c] and le = strictest_of_cases(2)[OF ne, folded c]
  show "c \<in> set cs" "ec_kind c = k" using mem by (auto simp: set_strictest_pool split: if_splits)
  show "ec_enforcement c = HARD \<and> ec_value c \<le> ec_value d"
    if "d \<in> set cs" "ec_kind d = k" "ec_enforcement d = HARD"
    using mem le[of d] that by (auto simp: set_strictest_pool split: if_splits)
  show "ec_value c \<le> ec_value d" if "d \<in> set cs" "ec_kind d = k" "ec_enforcement c \<noteq> HARD"
    using mem le[of d] that by (auto simp: set_strictest_pool split: if_splits)
qed

lemma strictest_lookup_None_iff:
  "map_of (strictest_applicable cs) k = None \<longleftrightarrow> (\<forall>c \<in> set cs. ec_kind c \<noteq> k)"
  by (auto simp: strictest_lookup filter_empty_conv)

section \<open>Rules, rulesets and guardrails (\<open>prop_firms/models.py\<close>, \<open>policy/guardrails.py\<close>)\<close>

record prop_rule =
  pr_kind :: string
  pr_value :: decimal
  pr_unit :: string
  pr_enforcement :: string

record guardrail_profile =
  gp_id :: uuid
  gp_owner_id :: uuid
  gp_account_id :: "uuid option"
  gp_rules :: "prop_rule list"
  gp_version :: nat

definition ALLOWED_SCOPES :: "string list" where
  "ALLOWED_SCOPES =
     [''global'', ''account'', ''strategy'', ''exposure'', ''loss'', ''session'', ''event'',
      ''freshness'', ''trade_count'']"

definition guardrail_update ::
    "guardrail_profile \<Rightarrow> string \<Rightarrow> prop_rule \<Rightarrow> bool \<Rightarrow> bool \<Rightarrow> guardrail_profile res" where
  "guardrail_update profile scope rule weakens step_up =
     rbind (ensure (scope \<in> set ALLOWED_SCOPES) (ValueError ''unknown guardrail scope'')) (\<lambda>_.
     rbind (ensure (\<not> (weakens \<and> \<not> step_up))
              (PermissionError ''step-up required to weaken guardrails'')) (\<lambda>_.
     Inr (profile\<lparr>gp_rules := gp_rules profile @ [rule], gp_version := gp_version profile + 1\<rparr>)))"

lemma guardrail_update_ok_iff:
  "guardrail_update p scope r weakens step_up = Inr p' \<longleftrightarrow>
     scope \<in> set ALLOWED_SCOPES \<and> (weakens \<longrightarrow> step_up)
     \<and> p' = p\<lparr>gp_rules := gp_rules p @ [r], gp_version := gp_version p + 1\<rparr>"
  by (auto simp: guardrail_update_def rbind_eq_Inr_iff)

section \<open>Ruleset lifecycle (\<open>prop_firms/service.py\<close>)\<close>

datatype rule_status = RS_DRAFT | RS_VERIFIED | RS_ACTIVE | RS_RETIRED

record rule_set =
  rs_id :: uuid
  rs_program_id :: uuid
  rs_version :: nat
  rs_rules :: "prop_rule list"
  rs_status :: rule_status
  rs_source_reference :: "string option"

type_synonym ruleset_store = "(uuid, rule_set) dict"

definition ruleset_save :: "ruleset_store \<Rightarrow> rule_set \<Rightarrow> ruleset_store \<times> rule_set" where
  "ruleset_save items item = (AList.update (rs_id item) item items, item)"

definition ruleset_verify :: "ruleset_store \<Rightarrow> rule_set \<Rightarrow> (ruleset_store \<times> rule_set) res" where
  "ruleset_verify items item =
     rbind (ensure (rs_rules item \<noteq> []) (ValueError ''ruleset cannot be empty'')) (\<lambda>_.
       let updated = item\<lparr>rs_status := RS_VERIFIED\<rparr>
       in Inr (AList.update (rs_id item) updated items, updated))"

definition retire_active :: "uuid \<Rightarrow> rule_set \<Rightarrow> rule_set" where
  "retire_active program v =
     (if rs_program_id v = program \<and> rs_status v = RS_ACTIVE
      then v\<lparr>rs_status := RS_RETIRED\<rparr> else v)"

definition ruleset_activate :: "ruleset_store \<Rightarrow> rule_set \<Rightarrow> (ruleset_store \<times> rule_set) res" where
  "ruleset_activate items item =
     rbind (ensure (rs_status item = RS_VERIFIED) (ValueError ''only verified rulesets activate'')) (\<lambda>_.
       let items' = dmap (retire_active (rs_program_id item)) items;
           updated = item\<lparr>rs_status := RS_ACTIVE\<rparr>
       in Inr (AList.update (rs_id item) updated items', updated))"

text \<open>At most one ruleset of a program is active, and every ruleset is stored under its own id.\<close>

definition ruleset_inv :: "ruleset_store \<Rightarrow> bool" where
  "ruleset_inv items \<longleftrightarrow>
     (\<forall>k v. map_of items k = Some v \<longrightarrow> rs_id v = k)
     \<and> (\<forall>k v k' v'. map_of items k = Some v \<and> map_of items k' = Some v'
          \<and> rs_status v = RS_ACTIVE \<and> rs_status v' = RS_ACTIVE
          \<and> rs_program_id v = rs_program_id v' \<longrightarrow> k = k')"

lemma ruleset_inv_empty: "ruleset_inv []"
  by (simp add: ruleset_inv_def)

lemma ruleset_invD:
  assumes "ruleset_inv items" and "map_of items k = Some v"
  shows "rs_id v = k"
    and "\<lbrakk>map_of items k' = Some v'; rs_status v = RS_ACTIVE; rs_status v' = RS_ACTIVE;
          rs_program_id v = rs_program_id v'\<rbrakk> \<Longrightarrow> k = k'"
  using assms unfolding ruleset_inv_def by blast+

lemma ruleset_invI:
  assumes "\<And>k v. map_of items k = Some v \<Longrightarrow> rs_id v = k"
    and "\<And>k v k' v'. \<lbrakk>map_of items k = Some v; map_of items k' = Some v'; rs_status v = RS_ACTIVE;
           rs_status v' = RS_ACTIVE; rs_program_id v = rs_program_id v'\<rbrakk> \<Longrightarrow> k = k'"
  shows "ruleset_inv items"
  using assms unfolding ruleset_inv_def by blast

lemma ruleset_inv_store:
  assumes inv: "ruleset_inv items"
    and fresh: "\<And>k w. \<lbrakk>map_of items k = Some w; rs_status v = RS_ACTIVE; rs_status w = RS_ACTIVE;
           rs_program_id w = rs_program_id v\<rbrakk> \<Longrightarrow> k = rs_id v"
  shows "ruleset_inv (AList.update (rs_id v) v items)"
proof (rule ruleset_invI)
  fix k w assume "map_of (AList.update (rs_id v) v items) k = Some w"
  then show "rs_id w = k" using ruleset_invD(1)[OF inv] by (auto split: if_splits)
next
  fix k w k' w'
  assume "map_of (AList.update (rs_id v) v items) k = Some w"
    and "map_of (AList.update (rs_id v) v items) k' = Some w'"
    and act: "rs_status w = RS_ACTIVE" "rs_status w' = RS_ACTIVE" "rs_program_id w = rs_program_id w'"
  then have "k = rs_id v \<and> w = v \<or> k \<noteq> rs_id v \<and> map_of items k = Some w"
    and "k' = rs_id v \<and> w' = v \<or> k' \<noteq> rs_id v \<and> map_of items k' = Some w'"
    by (auto split: if_splits)
  with act show "k = k'" using fresh ruleset_invD(2)[OF inv] by metis
qed

lemma ruleset_save_inv:
  "ruleset_inv items \<Longrightarrow> rs_status item \<noteq> RS_ACTIVE \<Longrightarrow> ruleset_inv (fst (ruleset_save items item))"
  by (auto simp: ruleset_save_def intro!: ruleset_inv_store)

lemma ruleset_verify_inv:
  "ruleset_inv items \<Longrightarrow> ruleset_verify items item = Inr (items', r) \<Longrightarrow> ruleset_inv items'"
  using ruleset_inv_store[of items "item\<lparr>rs_status := RS_VERIFIED\<rparr>"]
  by (auto simp: ruleset_verify_def rbind_eq_Inr_iff Let_def)

lemma ruleset_activate_lookup:
  assumes "ruleset_activate items item = Inr (items', r)"
  shows "map_of items' k =
     (if k = rs_id item then Some (item\<lparr>rs_status := RS_ACTIVE\<rparr>)
      else map_option (retire_active (rs_program_id item)) (map_of items k))"
  using assms by (auto simp: ruleset_activate_def rbind_eq_Inr_iff Let_def map_of_dmap)

lemma retire_active_simps [simp]:
  "rs_id (retire_active p v) = rs_id v"
  "rs_program_id (retire_active p v) = rs_program_id v"
  "rs_status (retire_active p v) = RS_ACTIVE \<longleftrightarrow> rs_status v = RS_ACTIVE \<and> rs_program_id v \<noteq> p"
  by (auto simp: retire_active_def)

lemma ruleset_retire_inv:
  assumes inv: "ruleset_inv items"
  shows "ruleset_inv (dmap (retire_active p) items)"
proof (rule ruleset_invI)
  fix k v assume "map_of (dmap (retire_active p) items) k = Some v"
  then show "rs_id v = k" using ruleset_invD(1)[OF inv] by (auto simp: map_of_dmap)
next
  fix k v k' v'
  assume "map_of (dmap (retire_active p) items) k = Some v"
    and "map_of (dmap (retire_active p) items) k' = Some v'"
    and "rs_status v = RS_ACTIVE" "rs_status v' = RS_ACTIVE" "rs_program_id v = rs_program_id v'"
  then show "k = k'" using ruleset_invD(2)[OF inv] by (auto simp: map_of_dmap)
qed

lemma ruleset_activate_inv:
  assumes "ruleset_inv items" and "ruleset_activate items item = Inr (items', r)"
  shows "ruleset_inv items'"
proof -
  have "ruleset_inv (AList.update (rs_id item) (item\<lparr>rs_status := RS_ACTIVE\<rparr>)
          (dmap (retire_active (rs_program_id item)) items))"
  proof (rule ruleset_inv_store[OF ruleset_retire_inv[OF assms(1)],
        where v = "item\<lparr>rs_status := RS_ACTIVE\<rparr>", simplified])
    fix k w
    assume "map_of (dmap (retire_active (rs_program_id item)) items) k = Some w"
      and "rs_status w = RS_ACTIVE" and "rs_program_id w = rs_program_id item"
    then show "k = rs_id item" by (auto simp: map_of_dmap)
  qed
  with assms(2) show ?thesis by (auto simp: ruleset_activate_def rbind_eq_Inr_iff Let_def)
qed

lemma ruleset_activate_unique:
  assumes "ruleset_activate items item = Inr (items', r)"
    and "map_of items' k = Some v" and "rs_status v = RS_ACTIVE"
    and "rs_program_id v = rs_program_id item"
  shows "k = rs_id item"
  using assms(2-4) unfolding ruleset_activate_lookup[OF assms(1)] by (auto split: if_splits)

end
