(* ===== verification/Accounts.thy ===== *)
theory Accounts
  imports DomainTypes
begin

text \<open>
  \<open>modules/accounts\<close>: the trading account, the immutable broker snapshot with its consistency
  check, the freshness guard every risk decision passes, and the in-memory account service.
\<close>

datatype account_kind = PERSONAL | PROP

record trading_account =
  ta_id :: uuid
  ta_owner_id :: uuid
  ta_name :: string
  ta_currency :: string
  ta_kind :: account_kind
  ta_starting_balance :: decimal
  ta_current_balance :: "decimal option"
  ta_active :: bool

record account_snapshot =
  as_account_id :: uuid
  as_starting_balance :: decimal
  as_current_balance :: decimal
  as_current_equity :: decimal
  as_floating_pnl :: decimal
  as_realized_daily_pnl :: decimal
  as_observed_at :: timestamp
  as_source :: string
  as_source_version :: string
  as_cash_balances :: "(string, decimal) dict"

text \<open>The model validator \<open>consistent_equity\<close>: it runs on every construction of a snapshot.\<close>

definition consistent_equity :: "account_snapshot \<Rightarrow> account_snapshot res" where
  "consistent_equity s =
     (let expected = d_add (as_current_balance s) (as_floating_pnl s)
      in rbind (ensure (\<not> 1 / 100 < d_abs (d_sub expected (as_current_equity s)))
                  (ValueError ''equity must equal balance plus floating P&L''))
           (\<lambda>_. Inr s))"

section \<open>Freshness (\<open>accounts/snapshots.py\<close>)\<close>

definition validate_snapshot :: "timestamp \<Rightarrow> account_snapshot \<Rightarrow> uuid \<Rightarrow> int \<Rightarrow> unit res" where
  "validate_snapshot now s expected_account_id max_age =
     rbind (ensure (as_account_id s = expected_account_id)
              (ValueError ''snapshot belongs to a different account'')) (\<lambda>_.
     rbind (ensure (\<not> now - as_observed_at s > max_age)
              (ValueError ''account snapshot is stale'')) (\<lambda>_.
     ensure (\<not> as_current_equity s \<le> 0) (ValueError ''current equity must be positive'')))"

lemma validate_snapshot_ok_iff:
  "validate_snapshot now s acct age = Inr () \<longleftrightarrow>
     as_account_id s = acct \<and> now - as_observed_at s \<le> age \<and> 0 < as_current_equity s"
  by (auto simp: validate_snapshot_def rbind_eq_Inr_iff)

section \<open>The account service (\<open>accounts/service.py\<close>)\<close>

record account_service =
  sv_items :: "(uuid, trading_account) dict"
  sv_snapshots :: "(uuid, account_snapshot) dict"

definition account_service_init :: account_service where
  "account_service_init = \<lparr>sv_items = [], sv_snapshots = []\<rparr>"

definition account_create :: "account_service \<Rightarrow> trading_account \<Rightarrow> account_service" where
  "account_create sv item = sv\<lparr>sv_items := AList.update (ta_id item) item (sv_items sv)\<rparr>"

definition account_for_owner :: "account_service \<Rightarrow> uuid \<Rightarrow> trading_account list" where
  "account_for_owner sv owner_id = filter (\<lambda>x. ta_owner_id x = owner_id) (dvalues (sv_items sv))"

definition account_update :: "account_service \<Rightarrow> uuid \<Rightarrow> trading_account \<Rightarrow> account_service res" where
  "account_update sv owner_id item =
     rbind (ensure (ta_owner_id item = owner_id) (PermissionError '''')) (\<lambda>_.
       Inr (sv\<lparr>sv_items := AList.update (ta_id item) item (sv_items sv)\<rparr>))"

definition account_owned :: "account_service \<Rightarrow> uuid \<Rightarrow> uuid \<Rightarrow> trading_account res" where
  "account_owned sv account_id owner_id =
     (case map_of (sv_items sv) account_id of
        None \<Rightarrow> Inl (PermissionError ''account does not belong to owner'')
      | Some account \<Rightarrow>
          if ta_owner_id account \<noteq> owner_id
          then Inl (PermissionError ''account does not belong to owner'') else Inr account)"

definition record_snapshot :: "account_service \<Rightarrow> uuid \<Rightarrow> account_snapshot \<Rightarrow> account_service res" where
  "record_snapshot sv owner_id snapshot =
     rbind (account_owned sv (as_account_id snapshot) owner_id) (\<lambda>account.
     rbind (ensure (as_account_id snapshot = ta_id account) (ValueError ''snapshot account mismatch'')) (\<lambda>_.
       Inr (sv\<lparr>sv_snapshots := AList.update (as_account_id snapshot) snapshot (sv_snapshots sv)\<rparr>)))"

definition tradable_cash :: "account_service \<Rightarrow> uuid \<Rightarrow> uuid \<Rightarrow> string \<Rightarrow> decimal res" where
  "tradable_cash sv owner_id account_id currency =
     rbind (account_owned sv account_id owner_id) (\<lambda>_.
       Inr (case map_of (sv_snapshots sv) account_id of
              None \<Rightarrow> 0
            | Some snapshot \<Rightarrow> dget (as_cash_balances snapshot) currency 0))"

text \<open>Every account and snapshot is stored under its own id, and snapshots only for known accounts.\<close>

definition account_inv :: "account_service \<Rightarrow> bool" where
  "account_inv sv \<longleftrightarrow>
     (\<forall>k a. map_of (sv_items sv) k = Some a \<longrightarrow> ta_id a = k)
     \<and> (\<forall>k s. map_of (sv_snapshots sv) k = Some s \<longrightarrow>
          as_account_id s = k \<and> map_of (sv_items sv) k \<noteq> None)"

lemma account_inv_init: "account_inv account_service_init"
  by (simp add: account_inv_def account_service_init_def)

lemma account_invD:
  assumes "account_inv sv"
  shows "map_of (sv_items sv) k = Some a \<Longrightarrow> ta_id a = k"
    and "map_of (sv_snapshots sv) k = Some s \<Longrightarrow> as_account_id s = k"
    and "map_of (sv_snapshots sv) k = Some s \<Longrightarrow> \<exists>a. map_of (sv_items sv) k = Some a"
  using assms unfolding account_inv_def by blast+

lemma account_create_inv: "account_inv sv \<Longrightarrow> account_inv (account_create sv item)"
  by (auto simp: account_inv_def account_create_def)

lemma account_update_create:
  "account_update sv owner item = Inr sv' \<Longrightarrow> sv' = account_create sv item"
  by (auto simp: account_update_def account_create_def rbind_eq_Inr_iff)

lemma account_update_inv: "account_inv sv \<Longrightarrow> account_update sv o' item = Inr sv' \<Longrightarrow> account_inv sv'"
  using account_update_create account_create_inv by blast

lemma account_owned_Inr_iff:
  "account_owned sv k owner = Inr a \<longleftrightarrow> map_of (sv_items sv) k = Some a \<and> ta_owner_id a = owner"
  by (auto simp: account_owned_def split: option.splits)

lemma record_snapshot_Inr_iff:
  "record_snapshot sv owner s = Inr sv' \<longleftrightarrow>
     (\<exists>a. map_of (sv_items sv) (as_account_id s) = Some a \<and> ta_owner_id a = owner
        \<and> ta_id a = as_account_id s)
     \<and> sv' = sv\<lparr>sv_snapshots := AList.update (as_account_id s) s (sv_snapshots sv)\<rparr>"
  unfolding record_snapshot_def rbind_eq_Inr_iff account_owned_Inr_iff ensure_Inr_iff by auto

lemma record_snapshot_inv:
  "account_inv sv \<Longrightarrow> record_snapshot sv owner s = Inr sv' \<Longrightarrow> account_inv sv'"
  unfolding record_snapshot_Inr_iff account_inv_def by auto

lemma record_snapshot_cash:
  assumes "account_inv sv" and "record_snapshot sv owner s = Inr sv'"
  shows "tradable_cash sv' owner (as_account_id s) cur = Inr (dget (as_cash_balances s) cur 0)"
  using assms by (auto simp: record_snapshot_Inr_iff tradable_cash_def account_owned_def)

text \<open>
  An update by an owner does not look at the account it replaces: the stored account of another
  owner under the same id is overwritten.
\<close>

lemma account_update_ignores_previous_owner:
  "ta_owner_id item = owner \<Longrightarrow>
     account_update sv owner item = Inr (sv\<lparr>sv_items := AList.update (ta_id item) item (sv_items sv)\<rparr>)"
  by (simp add: account_update_def)

end
