(* ===== verification/RiskMath.thy ===== *)
theory RiskMath
  imports DomainTypes
begin

text \<open>
  The arithmetic of \<open>modules/risk\<close>: \<open>financial_math.py\<close>, \<open>position_sizing.py\<close>, \<open>drawdown.py\<close>
  and \<open>trade_capacity.py\<close>.
\<close>

section \<open>Quotes and unit losses (\<open>financial_math.py\<close>)\<close>

definition conservative_entry :: "string \<Rightarrow> decimal \<Rightarrow> decimal \<Rightarrow> decimal res" where
  "conservative_entry direction bid ask =
     rbind (ensure (\<not> (bid \<le> 0 \<or> ask \<le> 0 \<or> ask < bid)) (ValueError ''invalid quote'')) (\<lambda>_.
       Inr (if direction = ''BUY'' then ask else bid))"

definition loss_per_unit :: "decimal \<Rightarrow> decimal \<Rightarrow> decimal \<Rightarrow> decimal \<Rightarrow> decimal res" where
  "loss_per_unit entry stop contract_size conversion_rate =
     rbind (ensure (\<not> min_list1 entry [stop, contract_size, conversion_rate] \<le> 0)
              (ValueError ''prices, contract size, and conversion must be positive'')) (\<lambda>_.
       Inr (d_mul (d_mul (d_abs (d_sub entry stop)) contract_size) conversion_rate))"

definition size_for_risk :: "decimal \<Rightarrow> decimal \<Rightarrow> decimal \<Rightarrow> decimal res" where
  "size_for_risk risk_budget per_unit_loss increment =
     (if risk_budget \<le> 0 \<or> per_unit_loss \<le> 0 then Inr 0
      else round_down (d_div risk_budget per_unit_loss) increment)"

definition type_aware_loss_per_unit ::
    "instrument_type \<Rightarrow> decimal \<Rightarrow> decimal \<Rightarrow> decimal \<Rightarrow> decimal option \<Rightarrow> decimal option \<Rightarrow>
     decimal \<Rightarrow> decimal res" where
  "type_aware_loss_per_unit ty entry stop contract_multiplier tick_size tick_value conversion_rate =
     rbind (ensure (\<not> (conversion_rate \<le> 0 \<or> contract_multiplier \<le> 0))
              (ValueError ''conversion and contract multiplier must be positive'')) (\<lambda>_.
     let distance = d_abs (d_sub entry stop) in
     rbind (ensure (\<not> distance \<le> 0) (ValueError ''entry and stop must differ'')) (\<lambda>_.
     if ty = FUTURES then
       (case (tick_size, tick_value) of
          (Some ts, Some tv) \<Rightarrow>
            if ts \<le> 0 \<or> tv \<le> 0
            then Inl (ValueError ''futures require positive tick size and tick value'')
            else (let ticks = \<bar>d_div distance ts\<bar>
                  in Inr (d_mul (d_mul ticks tv) conversion_rate))
        | _ \<Rightarrow> Inl (ValueError ''futures require positive tick size and tick value''))
     else Inr (d_mul (d_mul distance contract_multiplier) conversion_rate)))"

definition notional_exposure ::
    "instrument_type \<Rightarrow> decimal \<Rightarrow> decimal \<Rightarrow> decimal \<Rightarrow> decimal res" where
  "notional_exposure ty price quantity contract_multiplier =
     rbind (ensure (\<not> min_list1 price [quantity, contract_multiplier] \<le> 0)
              (ValueError ''price, quantity, and multiplier must be positive'')) (\<lambda>_.
       Inr (d_mul (d_mul price quantity) contract_multiplier))"

section \<open>Sizing (\<open>position_sizing.py\<close>)\<close>

definition compliant_size ::
    "decimal \<Rightarrow> decimal \<Rightarrow> decimal list \<Rightarrow> decimal \<Rightarrow> decimal res" where
  "compliant_size requested_size risk_per_unit remaining_capacities increment =
     (case remaining_capacities of
        [] \<Rightarrow> Inr requested_size
      | c # cs \<Rightarrow>
          (let budget = max 0 (min_list1 c cs)
           in rbind (size_for_risk budget risk_per_unit increment) (\<lambda>s. Inr (min requested_size s))))"

definition compliant_typed_size ::
    "decimal \<Rightarrow> decimal \<Rightarrow> instrument_type \<Rightarrow> decimal \<Rightarrow> decimal \<Rightarrow> decimal \<Rightarrow> decimal \<Rightarrow>
     decimal option \<Rightarrow> decimal option \<Rightarrow> decimal \<Rightarrow> decimal res" where
  "compliant_typed_size requested_size risk_budget ty entry stop increment contract_multiplier
       tick_size tick_value conversion_rate =
     rbind (type_aware_loss_per_unit ty entry stop contract_multiplier tick_size tick_value
              conversion_rate) (\<lambda>per_unit.
     rbind (size_for_risk risk_budget per_unit increment) (\<lambda>s. Inr (min requested_size s)))"

section \<open>Drawdown and daily loss (\<open>drawdown.py\<close>)\<close>

definition total_drawdown :: "decimal \<Rightarrow> decimal \<Rightarrow> decimal" where
  "total_drawdown starting_balance current_equity = max 0 (d_sub starting_balance current_equity)"

definition drawdown_percentage :: "decimal \<Rightarrow> decimal \<Rightarrow> decimal res" where
  "drawdown_percentage starting_balance current_equity =
     rbind (ensure (\<not> starting_balance \<le> 0) (ValueError ''starting balance must be positive'')) (\<lambda>_.
       Inr (d_mul (d_div (total_drawdown starting_balance current_equity) starting_balance) 100))"

definition daily_loss :: "decimal \<Rightarrow> decimal \<Rightarrow> decimal" where
  "daily_loss realized_daily_pnl floating_pnl =
     max 0 (d_neg (d_add realized_daily_pnl (min floating_pnl 0)))"

section \<open>Concurrent trades (\<open>trade_capacity.py\<close>)\<close>

definition additional_trade_capacity ::
    "int \<Rightarrow> int \<Rightarrow> decimal \<Rightarrow> decimal \<Rightarrow> decimal option \<Rightarrow> int res" where
  "additional_trade_capacity static_max open_trades remaining_portfolio_risk candidate_risk
       correlated_capacity =
     (let slots = max 0 (static_max - open_trades) in
      if slots = 0 \<or> candidate_risk \<le> 0 then Inr 0
      else
        rbind (d_floordiv (max 0 remaining_portfolio_risk) candidate_risk) (\<lambda>risk_slots.
        case correlated_capacity of
          None \<Rightarrow> Inr (max 0 (min slots risk_slots))
        | Some c \<Rightarrow>
            rbind (d_floordiv (max 0 c) candidate_risk) (\<lambda>corr_slots.
              Inr (max 0 (min slots (min risk_slots corr_slots))))))"

section \<open>Lemmas\<close>

lemma conservative_entry_worst:
  "conservative_entry dir bid ask = Inr p \<Longrightarrow> bid \<le> p \<and> p \<le> ask \<and> (dir = ''BUY'' \<longrightarrow> p = ask)"
  by (auto simp: conservative_entry_def rbind_eq_Inr_iff)

lemma total_drawdown_nonneg: "0 \<le> total_drawdown s e"
  by (simp add: total_drawdown_def)

lemma daily_loss_nonneg: "0 \<le> daily_loss r f"
  by (simp add: daily_loss_def)

lemma total_drawdown_antimono: "e \<le> e' \<Longrightarrow> total_drawdown s e' \<le> total_drawdown s e"
  unfolding total_drawdown_def by (intro max.mono d_mono order_refl)

lemma daily_loss_antimono: "r \<le> r' \<Longrightarrow> daily_loss r' f \<le> daily_loss r f"
  unfolding daily_loss_def d_neg_def by (intro max.mono dctx_mono) (simp_all add: d_mono)

lemma size_for_risk_nonneg: "size_for_risk b p inc = Inr s \<Longrightarrow> 0 \<le> s"
  by (auto simp: size_for_risk_def split: if_splits intro: round_down_nonneg[rotated])

text \<open>The loss of a size computed from a budget exceeds the budget by four roundings at most.\<close>

lemma size_for_risk_bound:
  assumes "size_for_risk b p inc = Inr s" and b: "0 \<le> b" and p: "0 < p"
  shows "d_mul s p \<le> (1 + unit_roundoff) ^ 4 * b"
proof (cases "b \<le> 0")
  case True
  with assms have "s = 0" "b = 0" by (simp_all add: size_for_risk_def)
  then show ?thesis by simp
next
  case False
  with assms(1) p have inc: "0 < inc"
    and s: "s = d_mul (of_int (d_trunc (d_div (d_div b p) inc))) inc"
    by (simp_all add: size_for_risk_def round_down_Inr_iff)
  have q: "0 \<le> d_div (d_div b p) inc" using b p inc by (intro d_nonneg) simp_all
  have "dctx (dctx (of_int (d_trunc (d_div (d_div b p) inc)) * inc) * p) \<le> (1 + unit_roundoff) ^ 4 * b"
    by (rule ctx.sized_loss_bound[OF b p inc _ d_trunc_nonneg[OF q]])
       (use d_trunc_le[OF q] in \<open>simp add: d_div_def\<close>)
  then show ?thesis by (simp only: s d_mul_def)
qed

lemma size_for_risk_mono:
  assumes "b \<le> b'" and "0 < p" and "size_for_risk b p inc = Inr s" and "size_for_risk b' p inc = Inr s'"
  shows "s \<le> s'"
proof (cases "b \<le> 0")
  case True
  with assms have "s = 0" by (simp add: size_for_risk_def)
  with size_for_risk_nonneg[OF assms(4)] show ?thesis by simp
next
  case False
  with assms have "round_down (d_div b p) inc = Inr s" "round_down (d_div b' p) inc = Inr s'"
    by (simp_all add: size_for_risk_def)
  moreover have "d_div b p \<le> d_div b' p"
    using assms(1,2) by (simp add: d_div_def dctx_mono divide_right_mono)
  ultimately show ?thesis by (rule round_down_mono[rotated])
qed

lemma compliant_size_le_requested: "compliant_size r p (c # cs) inc = Inr s \<Longrightarrow> s \<le> r"
  by (auto simp: compliant_size_def rbind_eq_Inr_iff Let_def)

lemma compliant_size_nonneg:
  "compliant_size r p cs inc = Inr s \<Longrightarrow> 0 \<le> r \<Longrightarrow> 0 \<le> s"
  by (auto simp: compliant_size_def rbind_eq_Inr_iff Let_def dest: size_for_risk_nonneg split: list.splits)

lemma compliant_size_bound:
  assumes "compliant_size r p (c # cs) inc = Inr s" and p: "0 < p" and r: "0 \<le> r"
    and k: "k \<in> set (c # cs)"
  shows "d_mul s p \<le> (1 + unit_roundoff) ^ 4 * max 0 k"
proof -
  let ?b = "max 0 (min_list1 c cs)"
  obtain t where t: "size_for_risk ?b p inc = Inr t" and s: "s = min r t"
    using assms(1) by (auto simp: compliant_size_def rbind_eq_Inr_iff Let_def)
  have "d_mul s p \<le> d_mul t p" unfolding s using p by (intro d_mul_mono) simp_all
  also have "\<dots> \<le> (1 + unit_roundoff) ^ 4 * ?b" using t p by (intro size_for_risk_bound) simp_all
  also have "\<dots> \<le> (1 + unit_roundoff) ^ 4 * max 0 k"
    using min_list1_le[of k c cs] k by (intro mult_left_mono) auto
  finally show ?thesis .
qed

lemma compliant_size_mono:
  assumes "k \<le> k'" and "list_all2 (\<le>) ks ks'" and "0 < p"
    and s: "compliant_size r p (k # ks) inc = Inr s" and s': "compliant_size r p (k' # ks') inc = Inr s'"
  shows "s \<le> s'"
proof -
  obtain t t' where t: "size_for_risk (max 0 (min_list1 k ks)) p inc = Inr t" "s = min r t"
    and t': "size_for_risk (max 0 (min_list1 k' ks')) p inc = Inr t'" "s' = min r t'"
    using s s' by (auto simp: compliant_size_def Let_def rbind_eq_Inr_iff)
  have "max 0 (min_list1 k ks) \<le> max 0 (min_list1 k' ks')"
    using min_list1_mono[OF assms(1,2)] by (intro max.mono) simp_all
  from size_for_risk_mono[OF this \<open>0 < p\<close> t(1) t'(1)] show ?thesis
    unfolding t(2) t'(2) by (intro min.mono) simp_all
qed

lemma type_aware_loss_pos:
  assumes "type_aware_loss_per_unit ty e s cm ts tv cr = Inr l"
  shows "0 < l"
proof -
  have d: "0 < d_abs (d_sub e s)" and c: "0 < cr" "0 < cm"
    using assms by (auto simp: type_aware_loss_per_unit_def rbind_eq_Inr_iff Let_def)
  show ?thesis
  proof (cases "ty = FUTURES")
    case True
    then obtain t v where "ts = Some t" "tv = Some v" "0 < t" "0 < v"
      and l: "l = d_mul (d_mul \<bar>d_div (d_abs (d_sub e s)) t\<bar> v) cr"
      using assms by (auto simp: type_aware_loss_per_unit_def rbind_eq_Inr_iff Let_def
          split: option.splits if_splits)
    then show ?thesis using d c d_pos(2)[OF d, of t] by (auto intro!: d_pos)
  next
    case False
    with assms have "l = d_mul (d_mul (d_abs (d_sub e s)) cm) cr"
      by (auto simp: type_aware_loss_per_unit_def rbind_eq_Inr_iff Let_def)
    then show ?thesis using d c by (auto intro!: d_pos)
  qed
qed

lemma d_floordiv_nonneg: "d_floordiv a b = Inr q \<Longrightarrow> 0 \<le> a \<Longrightarrow> 0 < b \<Longrightarrow> 0 \<le> q \<and> of_int q * b \<le> a"
  by (auto simp: d_floordiv_def d_trunc_def split: if_splits)
     (simp add: pos_le_divide_eq[symmetric])

lemma additional_trade_capacity_bounds:
  assumes "additional_trade_capacity m n rem risk corr = Inr k"
  shows "0 \<le> k" and "k \<le> max 0 (m - n)" and "0 < risk \<Longrightarrow> of_int k * risk \<le> max 0 rem"
proof -
  show "0 \<le> k" "k \<le> max 0 (m - n)"
    using assms by (auto simp: additional_trade_capacity_def Let_def rbind_eq_Inr_iff
        split: if_splits option.splits)
  show "of_int k * risk \<le> max 0 rem" if pos: "0 < risk"
  proof (cases "m - n \<le> 0")
    case True
    with assms show ?thesis by (simp add: additional_trade_capacity_def)
  next
    case False
    with assms pos obtain q where q: "d_floordiv (max 0 rem) risk = Inr q" and k: "k \<le> max 0 q"
      by (auto simp: additional_trade_capacity_def Let_def rbind_eq_Inr_iff split: option.splits)
    have "0 \<le> q" "of_int q * risk \<le> max 0 rem" using d_floordiv_nonneg[OF q _ pos] by simp_all
    moreover have "of_int k * risk \<le> of_int q * risk" using k \<open>0 \<le> q\<close> pos by (intro mult_right_mono) simp_all
    ultimately show ?thesis by linarith
  qed
qed

end
