(* ===== verification/RiskModels.thy ===== *)
theory RiskModels
  imports Policy Accounts RiskMath
begin

text \<open>
  The value types of \<open>modules/risk/models.py\<close>, exposure aggregation (\<open>exposure.py\<close>) and the risk
  already reserved by open positions (\<open>reserved_risk.py\<close>).
\<close>

datatype direction = BUY | SELL

fun direction_value :: "direction \<Rightarrow> string" where
  "direction_value BUY = ''BUY''"
| "direction_value SELL = ''SELL''"

record open_position_risk =
  op_position_id :: uuid
  op_instrument :: string
  op_direction :: direction
  op_market_category :: string
  op_currency_exposures :: "(string, decimal) dict"
  op_remaining_loss_to_stop :: "decimal option"
  op_unrealized_pnl :: decimal
  op_underlying_id :: "uuid option"

record candidate_trade =
  ct_instrument :: string
  ct_direction :: direction
  ct_market_category :: string
  ct_requested_size :: decimal
  ct_entry_price :: decimal
  ct_stop_loss :: decimal
  ct_risk_per_unit :: decimal
  ct_size_increment :: decimal
  ct_currency_exposures :: "(string, decimal) dict"
  ct_asset_class :: "asset_class option"
  ct_instrument_type :: "instrument_type option"
  ct_venue_instrument_id :: "uuid option"
  ct_futures_contract_id :: "uuid option"
  ct_specification_version_id :: "uuid option"
  ct_quantity_unit :: "quantity_unit option"
  ct_contract_multiplier :: decimal
  ct_tick_size :: "decimal option"
  ct_tick_value :: "decimal option"
  ct_margin_required :: decimal
  ct_financing_cost :: decimal
  ct_underlying_id :: "uuid option"

text \<open>The constraints of the pydantic fields (\<open>Field(gt=0)\<close>, \<open>Field(ge=0)\<close>) of a candidate.\<close>

definition candidate_valid :: "candidate_trade \<Rightarrow> bool" where
  "candidate_valid c \<longleftrightarrow>
     0 < ct_requested_size c \<and> 0 < ct_entry_price c \<and> 0 < ct_stop_loss c
     \<and> 0 < ct_risk_per_unit c \<and> 0 < ct_size_increment c
     \<and> 0 \<le> ct_margin_required c \<and> 0 \<le> ct_financing_cost c"

text \<open>The three keys the engine reads of an instrument specification.\<close>

record specification_facts =
  sf_freshness :: string
  sf_source_cut_id :: string

record risk_context =
  rc_account :: account_snapshot
  rc_constraints :: "effective_constraint list"
  rc_positions :: "open_position_risk list"
  rc_correlation_caps :: "(string, decimal) dict"
  rc_static_max_concurrent_trades :: int
  rc_include_unrealized_profit :: bool
  rc_instrument_specifications :: "(uuid, specification_facts) dict"
  rc_current_source_cut_id :: "string option"
  rc_active_reservations :: "decimal list"
  rc_account_currency_verified :: bool

datatype risk_decision = PASS | REDUCE_SIZE | HARD_BLOCK

record risk_snapshot =
  sn_account_id :: uuid
  sn_account_equity :: decimal
  sn_current_balance :: decimal
  sn_starting_account :: decimal
  sn_floating_pnl :: decimal
  sn_realized_daily_pnl :: decimal
  sn_current_drawdown :: decimal
  sn_daily_drawdown :: decimal
  sn_maximum_allowed_drawdown :: decimal
  sn_prop_firm_drawdown_limit :: "decimal option"
  sn_internal_drawdown_limit :: "decimal option"
  sn_remaining_drawdown :: decimal
  sn_daily_loss_used :: decimal
  sn_daily_loss_remaining :: decimal
  sn_existing_open_risk :: xdec
  sn_existing_correlated_exposure :: "(string, xdec) dict"
  sn_candidate_trade_risk :: decimal
  sn_portfolio_risk_after_trade :: xdec
  sn_remaining_total_loss_capacity :: decimal
  sn_remaining_portfolio_risk_capacity :: decimal
  sn_open_trades :: int
  sn_max_concurrent_trades :: int
  sn_additional_trade_capacity :: int
  sn_observed_at :: timestamp
  sn_source :: string
  sn_source_version :: string
  sn_constraint_versions :: "string list"
  sn_asset_class :: "asset_class option"
  sn_instrument_type :: "instrument_type option"
  sn_venue_instrument_id :: "uuid option"
  sn_futures_contract_id :: "uuid option"
  sn_specification_version_id :: "uuid option"
  sn_quantity_unit :: "quantity_unit option"
  sn_notional_exposure :: decimal
  sn_margin_required :: decimal
  sn_financing_cost :: decimal

record risk_result =
  rr_decision :: risk_decision
  rr_approved_size :: decimal
  rr_reasons :: "string list"
  rr_limiting_constraints :: "string list"
  rr_snapshot :: risk_snapshot

text \<open>
  Building a \<open>RiskSnapshot\<close> runs pydantic's validation of its decimal fields.  Whether an infinite
  value is accepted is pydantic's \<open>allow_inf_nan\<close> of a \<open>Decimal\<close> field: the parameter
  \<open>allow_inf\<close>, \<open>False\<close> unless a field asks otherwise, which none here does.
\<close>

definition snapshot_finite :: "risk_snapshot \<Rightarrow> bool" where
  "snapshot_finite s \<longleftrightarrow>
     is_finite (sn_existing_open_risk s) \<and> is_finite (sn_portfolio_risk_after_trade s)
     \<and> list_all is_finite (dvalues (sn_existing_correlated_exposure s))"

definition build_snapshot :: "bool \<Rightarrow> risk_snapshot \<Rightarrow> risk_snapshot res" where
  "build_snapshot allow_inf s =
     (if allow_inf \<or> snapshot_finite s then Inr s else Inl (ValidationError ''finite_number''))"

lemma build_snapshot_Inr_iff [simp]:
  "build_snapshot allow_inf s = Inr t \<longleftrightarrow> t = s \<and> (allow_inf \<or> snapshot_finite s)"
  by (auto simp: build_snapshot_def)

section \<open>Exposure by group (\<open>exposure.py\<close>)\<close>

definition add_exposure :: "(string, xdec) dict \<Rightarrow> string \<Rightarrow> xdec \<Rightarrow> (string, xdec) dict" where
  "add_exposure result grp risk = AList.update grp (x_add (dget result grp (Fin 0)) risk) result"

definition add_exposures ::
    "string \<Rightarrow> uuid option \<Rightarrow> (string, decimal) dict \<Rightarrow> xdec \<Rightarrow> (string, xdec) dict \<Rightarrow>
     (string, xdec) dict res" where
  "add_exposures category underlying currencies risk result =
     (let result1 = add_exposure result (''category:'' @ category) risk;
          result2 = (case underlying of
                       None \<Rightarrow> result1
                     | Some u \<Rightarrow> add_exposure result1 (''underlying:'' @ u) risk)
      in rfold (\<lambda>(currency, weight) r.
           rbind (x_scale (d_abs weight) risk) (\<lambda>w. Inr (add_exposure r (''currency:'' @ currency) w)))
           currencies result2)"

text \<open>\<open>position.remaining_loss_to_stop or Decimal("Infinity")\<close>: zero is falsy, as is \<open>None\<close>.\<close>

definition position_risk :: "open_position_risk \<Rightarrow> xdec" where
  "position_risk p =
     (case op_remaining_loss_to_stop p of
        None \<Rightarrow> Infinity
      | Some l \<Rightarrow> if l = 0 then Infinity else Fin l)"

definition add_position :: "open_position_risk \<Rightarrow> (string, xdec) dict \<Rightarrow> (string, xdec) dict res" where
  "add_position p result =
     add_exposures (op_market_category p) (op_underlying_id p) (op_currency_exposures p)
       (position_risk p) result"

definition aggregate_exposure ::
    "open_position_risk list \<Rightarrow> (candidate_trade \<times> decimal) option \<Rightarrow> (string, xdec) dict res" where
  "aggregate_exposure positions candidate =
     rbind (rfold add_position positions []) (\<lambda>result.
       case candidate of
         None \<Rightarrow> Inr result
       | Some (c, candidate_risk) \<Rightarrow>
           add_exposures (ct_market_category c) (ct_underlying_id c) (ct_currency_exposures c)
             (Fin candidate_risk) result)"

section \<open>Reserved risk (\<open>reserved_risk.py\<close>)\<close>

fun reserved_risk_from :: "bool \<Rightarrow> open_position_risk list \<Rightarrow> decimal \<Rightarrow> decimal res" where
  "reserved_risk_from include_unrealized_profit [] acc = Inr acc"
| "reserved_risk_from include_unrealized_profit (p # ps) acc =
     (case op_remaining_loss_to_stop p of
        None \<Rightarrow> Inl (ValueError (''unbounded risk for '' @ op_instrument p))
      | Some l \<Rightarrow>
          (let total1 = d_add acc (max 0 l);
               total2 = (if include_unrealized_profit
                         then max 0 (d_sub total1 (max (op_unrealized_pnl p) 0)) else total1)
           in reserved_risk_from include_unrealized_profit ps total2))"

definition reserved_risk :: "open_position_risk list \<Rightarrow> bool \<Rightarrow> decimal res" where
  "reserved_risk positions include_unrealized_profit =
     reserved_risk_from include_unrealized_profit positions 0"

section \<open>Lemmas\<close>

lemma reserved_risk_from_nonneg:
  "reserved_risk_from b ps t = Inr r \<Longrightarrow> 0 \<le> t \<Longrightarrow> 0 \<le> r"
  by (induction ps arbitrary: t) (auto simp: Let_def split: option.splits if_splits)

lemma reserved_risk_nonneg: "reserved_risk ps b = Inr r \<Longrightarrow> 0 \<le> r"
  unfolding reserved_risk_def by (erule reserved_risk_from_nonneg) (rule order_refl)

lemma reserved_risk_from_ok_iff:
  "is_ok (reserved_risk_from b ps t) \<longleftrightarrow> (\<forall>p \<in> set ps. op_remaining_loss_to_stop p \<noteq> None)"
  by (induction ps arbitrary: t) (auto simp: Let_def split: option.splits)

lemma reserved_risk_error:
  "reserved_risk_from b ps t = Inl e \<Longrightarrow>
     \<exists>p \<in> set ps. op_remaining_loss_to_stop p = None
       \<and> e = ValueError (''unbounded risk for '' @ op_instrument p)"
  by (induction ps arbitrary: t) (auto simp: Let_def split: option.splits if_splits)

lemma reserved_risk_from_mono:
  "\<lbrakk>reserved_risk_from False ps t = Inr r; reserved_risk_from False ps t' = Inr r'; t \<le> t'\<rbrakk> \<Longrightarrow> r \<le> r'"
  by (induction ps arbitrary: t t') (auto simp: d_mono split: option.splits)

text \<open>Reading one group after one update.\<close>

lemma dget_add_exposure:
  "dget (add_exposure d g x) h z =
     (if h = g then x_add (dget d g (Fin 0)) x else dget d h z)"
  by (simp add: add_exposure_def dget_def)

lemma x_add_Infinity_iff: "x_add a b = Infinity \<longleftrightarrow> a = Infinity \<or> b = Infinity"
  by (cases a; cases b) simp_all

text \<open>Once a group is unbounded it stays unbounded.\<close>

lemma add_exposure_keeps_Infinity:
  "map_of d g = Some Infinity \<Longrightarrow> map_of (add_exposure d h x) g = Some Infinity"
  by (cases x) (auto simp: add_exposure_def dget_def)

lemma add_exposures_keeps_Infinity:
  assumes "add_exposures cat u cs r d = Inr d'" and "map_of d g = Some Infinity"
  shows "map_of d' g = Some Infinity"
proof -
  let ?d2 = "case u of None \<Rightarrow> add_exposure d (''category:'' @ cat) r
     | Some u \<Rightarrow> add_exposure (add_exposure d (''category:'' @ cat) r) (''underlying:'' @ u) r"
  have "map_of ?d2 g = Some Infinity"
    using assms(2) by (simp add: add_exposure_keeps_Infinity split: option.split)
  with assms(1) show ?thesis
    unfolding add_exposures_def Let_def
    by (rule rfold_invariant[where P = "\<lambda>d. map_of d g = Some Infinity"])
       (auto simp: rbind_eq_Inr_iff add_exposure_keeps_Infinity)
qed

lemma add_exposures_category_Infinity:
  assumes "add_exposures cat u cs Infinity d = Inr d'"
  shows "map_of d' (''category:'' @ cat) = Some Infinity"
proof -
  let ?g = "''category:'' @ cat"
  let ?d1 = "add_exposure d ?g Infinity"
  have d1: "map_of ?d1 ?g = Some Infinity" by (simp add: add_exposure_def)
  have "map_of (case u of None \<Rightarrow> ?d1 | Some u \<Rightarrow> add_exposure ?d1 (''underlying:'' @ u) Infinity) ?g
      = Some Infinity"
    using d1 by (simp only: add_exposure_keeps_Infinity split: option.split) simp
  with assms show ?thesis
    unfolding add_exposures_def Let_def
    by (rule rfold_invariant[where P = "\<lambda>d. map_of d ?g = Some Infinity"])
       (auto simp: rbind_eq_Inr_iff add_exposure_keeps_Infinity)
qed

lemma positions_unbounded_category:
  assumes "rfold add_position ps d = Inr d'" and "p \<in> set ps" and "position_risk p = Infinity"
  shows "map_of d' (''category:'' @ op_market_category p) = Some Infinity"
  using assms
proof (induction ps arbitrary: d)
  case (Cons q ps)
  from Cons.prems(1) obtain e where e: "add_position q d = Inr e" "rfold add_position ps e = Inr d'"
    by auto
  show ?case
  proof (cases "p \<in> set ps")
    case False
    with Cons.prems have "q = p" by simp
    with e(1) Cons.prems(3) have "map_of e (''category:'' @ op_market_category p) = Some Infinity"
      unfolding add_position_def by (intro add_exposures_category_Infinity) (simp only:)
    then show ?thesis
      by (rule rfold_invariant[OF e(2)]) (auto simp: add_position_def add_exposures_keeps_Infinity)
  qed (use Cons e in blast)
qed simp

lemma aggregate_unbounded_category:
  assumes "aggregate_exposure ps c = Inr d" and "p \<in> set ps" and "position_risk p = Infinity"
  shows "map_of d (''category:'' @ op_market_category p) = Some Infinity"
  using assms positions_unbounded_category[OF _ assms(2,3)]
  by (auto simp: aggregate_exposure_def rbind_eq_Inr_iff add_exposures_keeps_Infinity
      split: option.splits)

text \<open>An unbounded group makes the snapshot's exposure map infinite.\<close>

lemma unbounded_not_finite:
  assumes "map_of d g = Some Infinity"
  shows "\<not> list_all is_finite (dvalues d)"
  using map_of_SomeD[OF assms] by (force simp: list_all_iff dvalues_def)

end
