(* ===== verification/RiskEngine.thy ===== *)
theory RiskEngine
  imports RiskModels
begin

text \<open>
  \<open>modules/risk/engine.py\<close>: \<open>RiskEngine.evaluate\<close>, the deterministic authority on the size of a
  trade.  The one long method is split where its early returns are: the typed checks
  (\<open>evaluate\<close>), the required limits and the reserved risk (\<open>evaluate_limits\<close>), sizing
  (\<open>size_candidate\<close>) and the result (\<open>evaluate_sized\<close>).  The parameter \<open>allow_inf\<close> is pydantic's
  acceptance of an infinite \<open>Decimal\<close> field (\<open>RiskModels.build_snapshot\<close>).
\<close>

section \<open>Typed checks and limits by source\<close>

definition validate_typed_candidate :: "candidate_trade \<Rightarrow> string option" where
  "validate_typed_candidate c =
     (if ct_instrument_type c = None then None
      else if ct_venue_instrument_id c = None then Some ''missing_venue_instrument_id''
      else if ct_specification_version_id c = None then Some ''missing_specification_version_id''
      else if ct_quantity_unit c = None then Some ''missing_quantity_unit''
      else if ct_instrument_type c = Some FUTURES \<and> ct_futures_contract_id c = None
      then Some ''missing_dated_futures_contract_id''
      else if ct_instrument_type c = Some FUTURES \<and> (ct_tick_size c = None \<or> ct_tick_value c = None)
      then Some ''missing_futures_tick_terms''
      else None)"

definition validate_specification_authority :: "risk_context \<Rightarrow> candidate_trade \<Rightarrow> string option" where
  "validate_specification_authority ctx c =
     (case ct_specification_version_id c of
        None \<Rightarrow> Some ''missing_specification_version_id''
      | Some spec_id \<Rightarrow>
          (case map_of (rc_instrument_specifications ctx) spec_id of
             None \<Rightarrow> Some ''missing_effective_specification''
           | Some specification \<Rightarrow>
               if sf_freshness specification \<noteq> ''VALID'' then Some ''stale_instrument_specification''
               else if truthy (rc_current_source_cut_id ctx)
                       \<and> sf_source_cut_id specification \<noteq> ''''
                       \<and> rc_current_source_cut_id ctx \<noteq> Some (sf_source_cut_id specification)
               then Some ''specification_source_cut_mismatch''
               else None))"

definition limit_from_source :: "risk_context \<Rightarrow> string \<Rightarrow> decimal option" where
  "limit_from_source ctx fragment =
     (case map ec_value (filter (\<lambda>c. ec_kind c = MAX_TOTAL_DRAWDOWN
                             \<and> str_contains fragment (str_lower (ec_source c))) (rc_constraints ctx)) of
        [] \<Rightarrow> None
      | v # vs \<Rightarrow> Some (min_list1 v vs))"

definition constraint_version :: "effective_constraint \<Rightarrow> string" where
  "constraint_version c = ec_source c @ '':'' @ ec_source_version c"

section \<open>Blocked results\<close>

definition blocked ::
    "bool \<Rightarrow> risk_context \<Rightarrow> decimal \<Rightarrow> decimal \<Rightarrow> decimal \<Rightarrow> decimal \<Rightarrow> decimal \<Rightarrow> xdec \<Rightarrow> string \<Rightarrow>
     risk_result res" where
  "blocked allow_inf ctx drawdown allowed_dd remaining_dd used_daily remaining_daily existing reason =
     (let a = rc_account ctx in
      rbind (aggregate_exposure (rc_positions ctx) None) (\<lambda>correlated.
      rbind (build_snapshot allow_inf
        \<lparr>sn_account_id = as_account_id a,
         sn_account_equity = as_current_equity a,
         sn_current_balance = as_current_balance a,
         sn_starting_account = as_starting_balance a,
         sn_floating_pnl = as_floating_pnl a,
         sn_realized_daily_pnl = as_realized_daily_pnl a,
         sn_current_drawdown = drawdown,
         sn_daily_drawdown = used_daily,
         sn_maximum_allowed_drawdown = allowed_dd,
         sn_prop_firm_drawdown_limit = limit_from_source ctx ''prop'',
         sn_internal_drawdown_limit = limit_from_source ctx ''internal'',
         sn_remaining_drawdown = remaining_dd,
         sn_daily_loss_used = used_daily,
         sn_daily_loss_remaining = remaining_daily,
         sn_existing_open_risk = existing,
         sn_existing_correlated_exposure = correlated,
         sn_candidate_trade_risk = 0,
         sn_portfolio_risk_after_trade = existing,
         sn_remaining_total_loss_capacity = remaining_dd,
         sn_remaining_portfolio_risk_capacity = 0,
         sn_open_trades = int (length (rc_positions ctx)),
         sn_max_concurrent_trades = rc_static_max_concurrent_trades ctx,
         sn_additional_trade_capacity = 0,
         sn_observed_at = as_observed_at a,
         sn_source = as_source a,
         sn_source_version = as_source_version a,
         sn_constraint_versions = sorted_strings (map constraint_version (rc_constraints ctx)),
         sn_asset_class = None, sn_instrument_type = None, sn_venue_instrument_id = None,
         sn_futures_contract_id = None, sn_specification_version_id = None,
         sn_quantity_unit = None,
         sn_notional_exposure = 0, sn_margin_required = 0, sn_financing_cost = 0\<rparr>) (\<lambda>snapshot.
      Inr \<lparr>rr_decision = HARD_BLOCK, rr_approved_size = 0, rr_reasons = [reason],
           rr_limiting_constraints = [''unbounded_open_position''], rr_snapshot = snapshot\<rparr>)))"

definition missing_authority :: "bool \<Rightarrow> risk_context \<Rightarrow> string list \<Rightarrow> risk_result res" where
  "missing_authority allow_inf ctx missing =
     (let a = rc_account ctx;
          drawdown = total_drawdown (as_starting_balance a) (as_current_equity a);
          used_daily = daily_loss (as_realized_daily_pnl a) (as_floating_pnl a)
      in rbind (blocked allow_inf ctx drawdown 0 0 used_daily 0 (Fin 0)
                  (''required risk authority unavailable: '' @ comma_join missing))
           (\<lambda>r. Inr (r\<lparr>rr_limiting_constraints := missing\<rparr>)))"

section \<open>Sizing\<close>

text \<open>
  What the loop over \<open>correlation_caps\<close> computes: the capacity each group leaves (\<open>max(0, cap -
  used)\<close>, zero when the group is unbounded) and the groups the full request would violate.
\<close>

definition x_remaining :: "decimal \<Rightarrow> xdec \<Rightarrow> decimal" where
  "x_remaining cap used = (case used of Infinity \<Rightarrow> 0 | Fin u \<Rightarrow> max 0 (d_sub cap u))"

definition correlation_remaining ::
    "(string, decimal) dict \<Rightarrow> (string, xdec) dict \<Rightarrow> decimal list" where
  "correlation_remaining caps without_candidate =
     map (\<lambda>(g, cap). x_remaining cap (dget without_candidate g (Fin 0))) caps"

definition correlation_violations ::
    "(string, decimal) dict \<Rightarrow> (string, xdec) dict \<Rightarrow> string list" where
  "correlation_violations caps exposures =
     map fst (filter (\<lambda>(g, cap). \<not> x_le (dget exposures g (Fin 0)) (Fin cap)) caps)"

record sizing =
  sz_size :: decimal
  sz_capacities :: "decimal list"
  sz_requested_risk :: decimal
  sz_approved_risk :: decimal
  sz_violations :: "string list"
  sz_correlated :: "(string, xdec) dict"

definition size_candidate ::
    "risk_context \<Rightarrow> candidate_trade \<Rightarrow> decimal list \<Rightarrow> sizing res" where
  "size_candidate ctx c base_capacities =
     (let requested_risk = d_add (d_mul (ct_requested_size c) (ct_risk_per_unit c)) (ct_financing_cost c) in
      rbind (aggregate_exposure (rc_positions ctx) (Some (c, requested_risk))) (\<lambda>exposures.
      rbind (aggregate_exposure (rc_positions ctx) None) (\<lambda>without_candidate.
      let capacities = base_capacities @ correlation_remaining (rc_correlation_caps ctx) without_candidate;
          net_capacities = map (\<lambda>cap. max 0 (d_sub cap (ct_financing_cost c))) capacities
      in rbind (compliant_size (ct_requested_size c) (ct_risk_per_unit c) net_capacities
                  (ct_size_increment c)) (\<lambda>size.
         let approved_risk =
               d_add (d_mul size (ct_risk_per_unit c)) (if 0 < size then ct_financing_cost c else 0)
         in Inr \<lparr>sz_size = size, sz_capacities = capacities, sz_requested_risk = requested_risk,
                 sz_approved_risk = approved_risk,
                 sz_violations = correlation_violations (rc_correlation_caps ctx) exposures,
                 sz_correlated = without_candidate\<rparr>))))"

fun head_min :: "decimal list \<Rightarrow> decimal" where
  "head_min [] = 0"
| "head_min (c # cs) = min_list1 c cs"

definition decide_size ::
    "risk_context \<Rightarrow> candidate_trade \<Rightarrow> decimal \<Rightarrow> risk_decision \<times> decimal \<times> string" where
  "decide_size ctx c sz =
     (if sz \<le> 0 \<or> rc_static_max_concurrent_trades ctx \<le> int (length (rc_positions ctx))
      then (HARD_BLOCK, 0, ''candidate would breach an applicable hard limit'')
      else if sz < ct_requested_size c
      then (REDUCE_SIZE, sz, ''requested size reduced to the strictest remaining capacity'')
      else (PASS, sz, ''candidate fits all current hard limits''))"

section \<open>Evaluation\<close>

text \<open>The account figures and the three required limits, once they are known to be configured.\<close>

record limit_facts =
  lf_limits :: "(constraint_kind, effective_constraint) dict"
  lf_drawdown :: decimal
  lf_used_daily :: decimal
  lf_allowed_dd :: decimal
  lf_allowed_daily :: decimal
  lf_allowed_portfolio :: decimal
  lf_max_trade :: "effective_constraint option"

definition remaining_dd :: "limit_facts \<Rightarrow> decimal" where
  "remaining_dd f = max 0 (d_sub (lf_allowed_dd f) (lf_drawdown f))"

definition remaining_daily :: "limit_facts \<Rightarrow> decimal" where
  "remaining_daily f = max 0 (d_sub (lf_allowed_daily f) (lf_used_daily f))"

definition base_capacities :: "limit_facts \<Rightarrow> decimal \<Rightarrow> decimal list" where
  "base_capacities f existing =
     [remaining_dd f, remaining_daily f, max 0 (d_sub (lf_allowed_portfolio f) existing)]
     @ (case lf_max_trade f of None \<Rightarrow> [] | Some t \<Rightarrow> [ec_value t])"

definition evaluate_sized ::
    "bool \<Rightarrow> risk_context \<Rightarrow> candidate_trade \<Rightarrow> limit_facts \<Rightarrow> decimal \<Rightarrow> risk_result res" where
  "evaluate_sized allow_inf ctx c f existing =
     (let a = rc_account ctx; limits = dvalues (lf_limits f) in
      rbind (size_candidate ctx c (base_capacities f existing)) (\<lambda>sz.
      rbind (additional_trade_capacity (rc_static_max_concurrent_trades ctx)
               (int (length (rc_positions ctx))) (head_min (sz_capacities sz))
               (max (sz_approved_risk sz) (sz_requested_risk sz)) None) (\<lambda>capacity.
      let (decision, size, reason) = decide_size ctx c (sz_size sz);
          limiting = map ec_source (filter (\<lambda>l. ec_value l \<in>
                        {lf_allowed_dd f, lf_allowed_daily f, lf_allowed_portfolio f}) limits)
                     @ sz_violations sz
      in
      rbind (if 0 < size
             then notional_exposure (case ct_instrument_type c of None \<Rightarrow> SPOT | Some t \<Rightarrow> t)
                    (ct_entry_price c) size (ct_contract_multiplier c)
             else Inr 0) (\<lambda>notional.
      rbind (build_snapshot allow_inf
        \<lparr>sn_account_id = as_account_id a,
         sn_account_equity = as_current_equity a,
         sn_current_balance = as_current_balance a,
         sn_starting_account = as_starting_balance a,
         sn_floating_pnl = as_floating_pnl a,
         sn_realized_daily_pnl = as_realized_daily_pnl a,
         sn_current_drawdown = lf_drawdown f,
         sn_daily_drawdown = lf_used_daily f,
         sn_maximum_allowed_drawdown = lf_allowed_dd f,
         sn_prop_firm_drawdown_limit = limit_from_source ctx ''prop'',
         sn_internal_drawdown_limit = limit_from_source ctx ''internal'',
         sn_remaining_drawdown = remaining_dd f,
         sn_daily_loss_used = lf_used_daily f,
         sn_daily_loss_remaining = remaining_daily f,
         sn_existing_open_risk = Fin existing,
         sn_existing_correlated_exposure = sz_correlated sz,
         sn_candidate_trade_risk = sz_approved_risk sz,
         sn_portfolio_risk_after_trade = Fin (d_add existing (sz_approved_risk sz)),
         sn_remaining_total_loss_capacity = remaining_dd f,
         sn_remaining_portfolio_risk_capacity = max 0 (d_sub (lf_allowed_portfolio f) existing),
         sn_open_trades = int (length (rc_positions ctx)),
         sn_max_concurrent_trades = rc_static_max_concurrent_trades ctx,
         sn_additional_trade_capacity = capacity,
         sn_observed_at = as_observed_at a,
         sn_source = as_source a,
         sn_source_version = as_source_version a,
         sn_constraint_versions = sorted_strings (map constraint_version limits),
         sn_asset_class = ct_asset_class c, sn_instrument_type = ct_instrument_type c,
         sn_venue_instrument_id = ct_venue_instrument_id c,
         sn_futures_contract_id = ct_futures_contract_id c,
         sn_specification_version_id = ct_specification_version_id c,
         sn_quantity_unit = ct_quantity_unit c,
         sn_notional_exposure = notional, sn_margin_required = ct_margin_required c,
         sn_financing_cost = ct_financing_cost c\<rparr>) (\<lambda>snapshot.
      Inr \<lparr>rr_decision = decision, rr_approved_size = size, rr_reasons = [reason],
           rr_limiting_constraints = sorted_set limiting, rr_snapshot = snapshot\<rparr>)))))"

definition required_kinds :: "constraint_kind list" where
  "required_kinds = [MAX_TOTAL_DRAWDOWN, MAX_DAILY_LOSS, MAX_PORTFOLIO_RISK]"

definition missing_limits :: "(constraint_kind, effective_constraint) dict \<Rightarrow> string list" where
  "missing_limits limits =
     sorted_strings (map constraint_kind_value (filter (\<lambda>k. map_of limits k = None) required_kinds))"

definition limit_value :: "(constraint_kind, effective_constraint) dict \<Rightarrow> constraint_kind \<Rightarrow> decimal" where
  "limit_value limits k = (case map_of limits k of None \<Rightarrow> 0 | Some c \<Rightarrow> ec_value c)"

definition limit_facts_of :: "risk_context \<Rightarrow> limit_facts" where
  "limit_facts_of ctx =
     (let a = rc_account ctx; limits = strictest_applicable (rc_constraints ctx) in
      \<lparr>lf_limits = limits,
       lf_drawdown = total_drawdown (as_starting_balance a) (as_current_equity a),
       lf_used_daily = daily_loss (as_realized_daily_pnl a) (as_floating_pnl a),
       lf_allowed_dd = limit_value limits MAX_TOTAL_DRAWDOWN,
       lf_allowed_daily = limit_value limits MAX_DAILY_LOSS,
       lf_allowed_portfolio = limit_value limits MAX_PORTFOLIO_RISK,
       lf_max_trade = map_of limits MAX_RISK_PER_TRADE\<rparr>)"

definition existing_risk :: "risk_context \<Rightarrow> decimal res" where
  "existing_risk ctx =
     rbind (reserved_risk (rc_positions ctx) (rc_include_unrealized_profit ctx)) (\<lambda>r.
       Inr (d_add r (d_sum (rc_active_reservations ctx))))"

definition evaluate_limits :: "bool \<Rightarrow> risk_context \<Rightarrow> candidate_trade \<Rightarrow> risk_result res" where
  "evaluate_limits allow_inf ctx c =
     (let f = limit_facts_of ctx; missing = missing_limits (lf_limits f) in
      if missing \<noteq> [] then missing_authority allow_inf ctx missing
      else
        (case existing_risk ctx of
           Inl (ValueError msg) \<Rightarrow>
             blocked allow_inf ctx (lf_drawdown f) (lf_allowed_dd f) (remaining_dd f)
               (lf_used_daily f) (remaining_daily f) Infinity msg
         | Inl e \<Rightarrow> Inl e
         | Inr existing \<Rightarrow> evaluate_sized allow_inf ctx c f existing))"

definition evaluate :: "bool \<Rightarrow> risk_context \<Rightarrow> candidate_trade \<Rightarrow> risk_result res" where
  "evaluate allow_inf ctx c =
     (case validate_typed_candidate c of
        Some typed_error \<Rightarrow> missing_authority allow_inf ctx [typed_error]
      | None \<Rightarrow>
          (case ct_instrument_type c of
             None \<Rightarrow> evaluate_limits allow_inf ctx c
           | Some ty \<Rightarrow>
               (case validate_specification_authority ctx c of
                  Some authority_error \<Rightarrow> missing_authority allow_inf ctx [authority_error]
                | None \<Rightarrow>
                    rbind (type_aware_loss_per_unit ty (ct_entry_price c) (ct_stop_loss c)
                             (ct_contract_multiplier c) (ct_tick_size c) (ct_tick_value c) 1)
                      (\<lambda>l. evaluate_limits allow_inf ctx (c\<lparr>ct_risk_per_unit := l\<rparr>)))))"

section \<open>Lemmas\<close>

named_theorems engine_fields \<open>the fields of an engine result\<close>

text \<open>The relative slack of the six roundings between a capacity and the risk reported for it.\<close>

definition engine_slack :: rat where
  "engine_slack = (1 + unit_roundoff) ^ 6"

lemma engine_slack_small: "1 \<le> engine_slack" "engine_slack \<le> 1 + 1 / 10 ^ 26"
  by (simp_all add: engine_slack_def power_numeral_reduce)

subsection \<open>Blocked results\<close>

lemma blocked_InrD:
  assumes "blocked ai ctx dd ad rd ud rdl ex reason = Inr r"
  shows "rr_decision r = HARD_BLOCK" and "rr_approved_size r = 0" and "rr_reasons r = [reason]"
    and "sn_candidate_trade_risk (rr_snapshot r) = 0"
    and "ai \<or> snapshot_finite (rr_snapshot r)"
    and "sn_existing_open_risk (rr_snapshot r) = ex"
    and "aggregate_exposure (rc_positions ctx) None
           = Inr (sn_existing_correlated_exposure (rr_snapshot r))"
  using assms by (auto simp: blocked_def Let_def rbind_eq_Inr_iff)

lemma missing_authority_InrD:
  assumes "missing_authority ai ctx ms = Inr r"
  shows "rr_decision r = HARD_BLOCK" and "rr_approved_size r = 0"
    and "rr_limiting_constraints r = ms"
    and "sn_candidate_trade_risk (rr_snapshot r) = 0"
    and "ai \<or> snapshot_finite (rr_snapshot r)"
    and "aggregate_exposure (rc_positions ctx) None
           = Inr (sn_existing_correlated_exposure (rr_snapshot r))"
proof -
  obtain b dd ud where b: "blocked ai ctx dd 0 0 ud 0 (Fin 0)
        (''required risk authority unavailable: '' @ comma_join ms) = Inr b"
    and r: "r = b\<lparr>rr_limiting_constraints := ms\<rparr>"
    using assms unfolding missing_authority_def Let_def rbind_eq_Inr_iff by blast
  note D = blocked_InrD[OF b]
  show "rr_decision r = HARD_BLOCK" "rr_approved_size r = 0" "rr_limiting_constraints r = ms"
    "sn_candidate_trade_risk (rr_snapshot r) = 0" "ai \<or> snapshot_finite (rr_snapshot r)"
    "aggregate_exposure (rc_positions ctx) None
       = Inr (sn_existing_correlated_exposure (rr_snapshot r))"
    using D unfolding r by simp_all
qed

subsection \<open>Sizing\<close>

lemma dctx_pos_iff: "0 < dctx x \<longleftrightarrow> 0 < x"
proof
  assume "0 < dctx x"
  then show "0 < x" using dctx_mono[of x 0] by (cases "0 < x") simp_all
qed (rule dctx_pos)

lemma compliant_size_pos_capacity:
  assumes "compliant_size q p (k # ks) inc = Inr s" and "0 < s" and "cap \<in> set (k # ks)"
  shows "0 < cap"
proof -
  have "0 < max 0 (min_list1 k ks)"
    using assms(1,2) by (auto simp: compliant_size_def Let_def rbind_eq_Inr_iff size_for_risk_def
        split: if_splits)
  with min_list1_le[of cap k ks] assms(3) show ?thesis by auto
qed

lemma size_candidate_fields:
  assumes "size_candidate ctx c (b # bs) = Inr sz"
  defines "caps \<equiv> (b # bs) @ correlation_remaining (rc_correlation_caps ctx) (sz_correlated sz)"
  shows "sz_capacities sz = caps"
    and "aggregate_exposure (rc_positions ctx) None = Inr (sz_correlated sz)"
    and "compliant_size (ct_requested_size c) (ct_risk_per_unit c)
           (map (\<lambda>cap. max 0 (d_sub cap (ct_financing_cost c))) caps) (ct_size_increment c)
           = Inr (sz_size sz)"
    and "sz_approved_risk sz =
           d_add (d_mul (sz_size sz) (ct_risk_per_unit c))
             (if 0 < sz_size sz then ct_financing_cost c else 0)"
    and "sz_requested_risk sz =
           d_add (d_mul (ct_requested_size c) (ct_risk_per_unit c)) (ct_financing_cost c)"
  using assms(1) unfolding caps_def by (auto simp: size_candidate_def Let_def rbind_eq_Inr_iff)

text \<open>
  The core bound: the risk of an approved size, fixed costs included, is within every capacity
  up to the rounding slack.
\<close>

lemma size_candidate_bound:
  assumes sz: "size_candidate ctx c (b # bs) = Inr sz" and pos: "0 < sz_size sz"
    and p: "0 < ct_risk_per_unit c" and q: "0 \<le> ct_requested_size c"
    and fin: "0 \<le> ct_financing_cost c" and cap: "cap \<in> set (sz_capacities sz)"
  shows "sz_approved_risk sz \<le> engine_slack * cap"
proof -
  let ?v = "1 + unit_roundoff"
  let ?fin = "ct_financing_cost c"
  let ?net = "\<lambda>k. max 0 (d_sub k ?fin)"
  note F = size_candidate_fields[OF sz]
  obtain n ns where net: "map ?net (sz_capacities sz) = n # ns" and mem: "?net cap \<in> set (n # ns)"
  proof (cases "map ?net (sz_capacities sz)")
    case (Cons n ns)
    moreover have "?net cap \<in> set (map ?net (sz_capacities sz))" using cap by simp
    ultimately show ?thesis using that by metis
  qed (use cap in simp)
  have size: "compliant_size (ct_requested_size c) (ct_risk_per_unit c) (n # ns)
      (ct_size_increment c) = Inr (sz_size sz)"
    using F(3) unfolding F(1)[symmetric] net .
  have "0 < ?net cap" by (rule compliant_size_pos_capacity[OF size pos mem])
  then have gap: "0 < cap - ?fin" by (simp add: d_sub_def dctx_pos_iff less_max_iff_disj)
  have "d_mul (sz_size sz) (ct_risk_per_unit c) \<le> ?v ^ 4 * max 0 (?net cap)"
    by (rule compliant_size_bound[OF size p q mem])
  also have "max 0 (?net cap) \<le> ?v * (cap - ?fin)"
    using gap ctx.rnd_upper[of "cap - ?fin"] by (simp add: d_sub_def del: One_nat_def)
  finally have m: "d_mul (sz_size sz) (ct_risk_per_unit c) \<le> ?v ^ 4 * (?v * (cap - ?fin))"
    by (simp add: mult_left_mono)
  also have "\<dots> = ?v ^ 5 * (cap - ?fin)" by (simp add: power_numeral_reduce)
  finally have "d_mul (sz_size sz) (ct_risk_per_unit c) + ?fin \<le> ?v ^ 5 * (cap - ?fin) + ?fin" by simp
  also have "\<dots> \<le> ?v ^ 5 * (cap - ?fin) + ?v ^ 5 * ?fin"
    using fin mult_right_mono[of 1 "?v ^ 5" ?fin] by (simp add: one_le_power)
  also have "\<dots> = ?v ^ 5 * cap" by (simp add: right_diff_distrib)
  finally have "dctx (d_mul (sz_size sz) (ct_risk_per_unit c) + ?fin) \<le> ?v * (?v ^ 5 * cap)"
    using pos p fin by (intro ctx.rnd_upper_le) simp_all
  moreover have "?v * (?v ^ 5 * cap) = engine_slack * cap"
    by (simp add: engine_slack_def power_numeral_reduce)
  moreover have "sz_approved_risk sz = dctx (d_mul (sz_size sz) (ct_risk_per_unit c) + ?fin)"
    using pos F(4) by (simp add: d_add_def)
  ultimately show ?thesis by (simp only:)
qed

subsection \<open>Evaluation\<close>

lemma evaluate_sized_InrD:
  assumes "evaluate_sized ai ctx c f ex = Inr r"
  obtains sz where
    "size_candidate ctx c (base_capacities f ex) = Inr sz"
    "decide_size ctx c (sz_size sz) = (rr_decision r, rr_approved_size r, hd (rr_reasons r))"
    "sn_candidate_trade_risk (rr_snapshot r) = sz_approved_risk sz"
    "sn_existing_correlated_exposure (rr_snapshot r) = sz_correlated sz"
    "sn_remaining_drawdown (rr_snapshot r) = remaining_dd f"
    "sn_daily_loss_remaining (rr_snapshot r) = remaining_daily f"
    "sn_remaining_portfolio_risk_capacity (rr_snapshot r) = max 0 (d_sub (lf_allowed_portfolio f) ex)"
    "sn_existing_open_risk (rr_snapshot r) = Fin ex"
    "sn_portfolio_risk_after_trade (rr_snapshot r) = Fin (d_add ex (sz_approved_risk sz))"
    "additional_trade_capacity (rc_static_max_concurrent_trades ctx)
       (int (length (rc_positions ctx))) (head_min (sz_capacities sz))
       (max (sz_approved_risk sz) (sz_requested_risk sz)) None
       = Inr (sn_additional_trade_capacity (rr_snapshot r))"
    "ai \<or> snapshot_finite (rr_snapshot r)"
proof -
  obtain sz where sz: "size_candidate ctx c (base_capacities f ex) = Inr sz"
    using assms unfolding evaluate_sized_def Let_def rbind_eq_Inr_iff by blast
  obtain d s reason where dec: "decide_size ctx c (sz_size sz) = (d, s, reason)"
    by (metis prod_cases3)
  show thesis
    by (rule that[OF sz])
       (use assms in \<open>auto simp: evaluate_sized_def Let_def rbind_eq_Inr_iff sz dec\<close>)
qed

lemma decide_size_cases:
  assumes "decide_size ctx c s = (d, a, reason)"
  shows "d = HARD_BLOCK \<and> a = 0 \<or> a = s \<and> 0 < s
           \<and> int (length (rc_positions ctx)) < rc_static_max_concurrent_trades ctx
           \<and> (d = REDUCE_SIZE \<and> s < ct_requested_size c \<or> d = PASS \<and> ct_requested_size c \<le> s)"
  using assms by (auto simp: decide_size_def split: if_splits)

text \<open>
  Every result of the engine is either blocked with size zero, or comes from sizing a candidate
  whose unit loss is positive, all required limits being configured and no position unbounded.
\<close>

lemma evaluate_limits_cases:
  assumes "evaluate_limits ai ctx c = Inr r"
  shows "rr_decision r = HARD_BLOCK \<and> rr_approved_size r = 0 \<or>
     missing_limits (strictest_applicable (rc_constraints ctx)) = [] \<and>
     (\<exists>ex. existing_risk ctx = Inr ex \<and> evaluate_sized ai ctx c (limit_facts_of ctx) ex = Inr r)"
proof (cases "missing_limits (lf_limits (limit_facts_of ctx)) = []")
  case False
  with assms show ?thesis
    by (auto simp: evaluate_limits_def Let_def dest: missing_authority_InrD)
next
  case True
  then have m: "missing_limits (strictest_applicable (rc_constraints ctx)) = []"
    by (simp add: limit_facts_of_def Let_def)
  from True assms show ?thesis
    by (auto simp: evaluate_limits_def Let_def m dest: blocked_InrD split: sum.splits py_error.splits)
qed

definition priced :: "candidate_trade \<Rightarrow> candidate_trade \<Rightarrow> bool" where
  "priced c c' \<longleftrightarrow> (\<exists>l. c' = c\<lparr>ct_risk_per_unit := l\<rparr> \<and> 0 < l)"

lemma evaluate_cases:
  assumes "evaluate ai ctx c = Inr r" and "candidate_valid c"
  obtains "rr_decision r = HARD_BLOCK" "rr_approved_size r = 0"
  | c' where "priced c c'" "evaluate_limits ai ctx c' = Inr r"
proof -
  have self: "priced c c"
    using assms(2) by (auto simp: priced_def candidate_valid_def intro!: exI[of _ "ct_risk_per_unit c"])
  consider "evaluate_limits ai ctx c = Inr r"
    | ms where "missing_authority ai ctx ms = Inr r"
    | l where "0 < l" "evaluate_limits ai ctx (c\<lparr>ct_risk_per_unit := l\<rparr>) = Inr r"
    using assms(1) by (auto simp: evaluate_def rbind_eq_Inr_iff split: option.splits
        dest: type_aware_loss_pos)
  then show thesis
    by cases (use self that missing_authority_InrD in \<open>auto simp: priced_def\<close>)
qed

lemma priced_fields:
  assumes "priced c c'"
  shows "ct_requested_size c' = ct_requested_size c" "ct_financing_cost c' = ct_financing_cost c"
    and "0 < ct_risk_per_unit c'" and "candidate_valid c \<Longrightarrow> candidate_valid c'"
  using assms by (auto simp: priced_def candidate_valid_def)

lemma evaluate_approved:
  assumes "evaluate ai ctx c = Inr r" and "candidate_valid c" and "rr_decision r \<noteq> HARD_BLOCK"
  obtains c' ex where "priced c c'" "existing_risk ctx = Inr ex"
    "missing_limits (strictest_applicable (rc_constraints ctx)) = []"
    "evaluate_sized ai ctx c' (limit_facts_of ctx) ex = Inr r"
  using evaluate_cases[OF assms(1,2)] evaluate_limits_cases assms(3) by metis

lemma evaluate_blocked_zero:
  assumes "evaluate ai ctx c = Inr r" and "candidate_valid c"
  shows "rr_decision r = HARD_BLOCK \<longleftrightarrow> rr_approved_size r = 0"
proof -
  have "rr_decision r = HARD_BLOCK \<and> rr_approved_size r = 0 \<or>
     (\<exists>c' f ex. evaluate_sized ai ctx c' f ex = Inr r)"
    using evaluate_cases[OF assms] evaluate_limits_cases by metis
  then show ?thesis
  proof (elim disjE exE)
    fix c' f ex assume "evaluate_sized ai ctx c' f ex = Inr r"
    from evaluate_sized_InrD[OF this] decide_size_cases show ?thesis by (metis less_irrefl risk_decision.distinct)
  qed simp
qed

lemma missing_limits_Nil_iff:
  "missing_limits limits = [] \<longleftrightarrow> (\<forall>k \<in> set required_kinds. map_of limits k \<noteq> None)"
  by (auto simp: missing_limits_def filter_empty_conv)

lemma limit_facts_simps [simp]:
  "lf_limits (limit_facts_of ctx) = strictest_applicable (rc_constraints ctx)"
  "lf_allowed_dd (limit_facts_of ctx) = limit_value (strictest_applicable (rc_constraints ctx)) MAX_TOTAL_DRAWDOWN"
  "lf_allowed_daily (limit_facts_of ctx) = limit_value (strictest_applicable (rc_constraints ctx)) MAX_DAILY_LOSS"
  "lf_allowed_portfolio (limit_facts_of ctx) = limit_value (strictest_applicable (rc_constraints ctx)) MAX_PORTFOLIO_RISK"
  "lf_max_trade (limit_facts_of ctx) = map_of (strictest_applicable (rc_constraints ctx)) MAX_RISK_PER_TRADE"
  by (simp_all add: limit_facts_of_def Let_def)

subsection \<open>Unbounded positions\<close>

lemma evaluate_limits_InrD:
  assumes "evaluate_limits ai ctx c = Inr r"
  shows "aggregate_exposure (rc_positions ctx) None
           = Inr (sn_existing_correlated_exposure (rr_snapshot r))"
    and "ai \<or> snapshot_finite (rr_snapshot r)"
proof -
  have "aggregate_exposure (rc_positions ctx) None = Inr (sn_existing_correlated_exposure (rr_snapshot r))
      \<and> (ai \<or> snapshot_finite (rr_snapshot r))"
  proof (cases "\<exists>ex. existing_risk ctx = Inr ex \<and> missing_limits (lf_limits (limit_facts_of ctx)) = []")
    case True
    with assms obtain ex where "evaluate_sized ai ctx c (limit_facts_of ctx) ex = Inr r"
      by (auto simp: evaluate_limits_def Let_def)
    then obtain sz where "size_candidate ctx c (base_capacities (limit_facts_of ctx) ex) = Inr sz"
      and "sn_existing_correlated_exposure (rr_snapshot r) = sz_correlated sz"
      and "ai \<or> snapshot_finite (rr_snapshot r)"
      by (rule evaluate_sized_InrD) blast
    then show ?thesis using size_candidate_fields(2) by (simp add: base_capacities_def)
  next
    case False
    with assms show ?thesis
      by (auto simp: evaluate_limits_def Let_def dest: blocked_InrD missing_authority_InrD
          split: sum.splits py_error.splits if_splits)
  qed
  then show "aggregate_exposure (rc_positions ctx) None
           = Inr (sn_existing_correlated_exposure (rr_snapshot r))"
    and "ai \<or> snapshot_finite (rr_snapshot r)" by simp_all
qed

lemma evaluate_InrD:
  assumes "evaluate ai ctx c = Inr r"
  shows "aggregate_exposure (rc_positions ctx) None
           = Inr (sn_existing_correlated_exposure (rr_snapshot r))"
    and "ai \<or> snapshot_finite (rr_snapshot r)"
proof -
  consider c' where "evaluate_limits ai ctx c' = Inr r" | ms where "missing_authority ai ctx ms = Inr r"
    using assms by (auto simp: evaluate_def rbind_eq_Inr_iff split: option.splits)
  then show "aggregate_exposure (rc_positions ctx) None
           = Inr (sn_existing_correlated_exposure (rr_snapshot r))"
    and "ai \<or> snapshot_finite (rr_snapshot r)"
    by (cases, auto dest: evaluate_limits_InrD missing_authority_InrD)+
qed

lemma evaluate_unbounded:
  assumes "p \<in> set (rc_positions ctx)" and "position_risk p = Infinity" and "evaluate ai ctx c = Inr r"
  shows "ai"
proof (rule ccontr)
  assume "\<not> ai"
  with evaluate_InrD(2)[OF assms(3)]
  have "list_all is_finite (dvalues (sn_existing_correlated_exposure (rr_snapshot r)))"
    by (simp add: snapshot_finite_def)
  with unbounded_not_finite[OF aggregate_unbounded_category[OF evaluate_InrD(1)[OF assms(3)] assms(1,2)]]
  show False by contradiction
qed

subsection \<open>Reservations and size\<close>

lemma evaluate_sized_mono:
  assumes r: "evaluate_sized ai ctx c f ex = Inr r"
    and r': "evaluate_sized ai (ctx\<lparr>rc_active_reservations := rs\<rparr>) c f ex' = Inr r'"
    and le: "ex \<le> ex'" and p: "0 < ct_risk_per_unit c"
  shows "rr_approved_size r' \<le> rr_approved_size r"
proof -
  let ?ctx' = "ctx\<lparr>rc_active_reservations := rs\<rparr>"
  obtain sz where sz: "size_candidate ctx c (base_capacities f ex) = Inr sz"
    and d: "decide_size ctx c (sz_size sz) = (rr_decision r, rr_approved_size r, hd (rr_reasons r))"
    using evaluate_sized_InrD[OF r] by blast
  obtain sz' where sz': "size_candidate ?ctx' c (base_capacities f ex') = Inr sz'"
    and d': "decide_size ?ctx' c (sz_size sz') = (rr_decision r', rr_approved_size r', hd (rr_reasons r'))"
    using evaluate_sized_InrD[OF r'] by blast
  note F = size_candidate_fields[OF sz[unfolded base_capacities_def append_Cons append_Nil]]
  note F' = size_candidate_fields[OF sz'[unfolded base_capacities_def append_Cons append_Nil]]
  have "sz_correlated sz' = sz_correlated sz" using F(2) F'(2) by simp
  moreover have "max 0 (d_sub (max 0 (d_sub (lf_allowed_portfolio f) ex')) (ct_financing_cost c))
      \<le> max 0 (d_sub (max 0 (d_sub (lf_allowed_portfolio f) ex)) (ct_financing_cost c))"
    using le by (intro max.mono d_mono order_refl)
  ultimately have "sz_size sz' \<le> sz_size sz"
    by (intro compliant_size_mono[OF _ _ p F'(3)[unfolded append_Cons append_Nil list.map]
              F(3)[unfolded append_Cons append_Nil list.map]])
       (simp_all add: list_all2_refl)
  then show ?thesis using d d' by (auto simp: decide_size_def split: if_splits)
qed

lemma existing_risk_reservations:
  assumes "existing_risk ctx = Inr ex" and "d_sum (rc_active_reservations ctx) \<le> d_sum rs"
  obtains ex' where "existing_risk (ctx\<lparr>rc_active_reservations := rs\<rparr>) = Inr ex'" and "ex \<le> ex'"
  using assms by (auto simp: existing_risk_def rbind_eq_Inr_iff intro!: d_mono)

lemma evaluate_size_nonneg:
  assumes "evaluate ai ctx c = Inr r" and "candidate_valid c"
  shows "0 \<le> rr_approved_size r"
proof (cases "rr_decision r = HARD_BLOCK")
  case True
  with evaluate_blocked_zero[OF assms] show ?thesis by simp
next
  case False
  then obtain c' ex where "evaluate_sized ai ctx c' (limit_facts_of ctx) ex = Inr r"
    using evaluate_approved[OF assms] by metis
  then show ?thesis using evaluate_sized_InrD decide_size_cases by (metis order.refl order.strict_implies_order)
qed

lemma specification_authority_reservations [simp]:
  "validate_specification_authority (ctx\<lparr>rc_active_reservations := rs\<rparr>) c
     = validate_specification_authority ctx c"
  by (auto simp: validate_specification_authority_def split: option.split)

lemma limit_facts_reservations [simp]:
  "limit_facts_of (ctx\<lparr>rc_active_reservations := rs\<rparr>) = limit_facts_of ctx"
  by (simp add: limit_facts_of_def)

lemma evaluate_same_pricing:
  assumes "evaluate ai (ctx\<lparr>rc_active_reservations := rs\<rparr>) c = Inr r"
    and "candidate_valid c" and "rr_decision r \<noteq> HARD_BLOCK"
  obtains c' where "priced c c'" and "evaluate ai ctx c = evaluate_limits ai ctx c'"
    and "evaluate_limits ai (ctx\<lparr>rc_active_reservations := rs\<rparr>) c' = Inr r"
proof -
  have t: "validate_typed_candidate c = None"
    using assms(1,3) by (auto simp: evaluate_def dest: missing_authority_InrD split: option.splits)
  show thesis
  proof (cases "ct_instrument_type c")
    case None
    have "priced c c"
      using assms(2) by (auto simp: priced_def candidate_valid_def intro!: exI[of _ "ct_risk_per_unit c"])
    with None t assms(1) show thesis by (intro that[of c]) (simp_all add: evaluate_def)
  next
    case (Some ty)
    then have "validate_specification_authority ctx c = None"
      using assms(1,3) t by (auto simp: evaluate_def dest: missing_authority_InrD split: option.splits)
    with Some t assms(1) obtain l where l: "type_aware_loss_per_unit ty (ct_entry_price c)
        (ct_stop_loss c) (ct_contract_multiplier c) (ct_tick_size c) (ct_tick_value c) 1 = Inr l"
      and ev: "evaluate_limits ai (ctx\<lparr>rc_active_reservations := rs\<rparr>) (c\<lparr>ct_risk_per_unit := l\<rparr>) = Inr r"
      by (auto simp: evaluate_def rbind_eq_Inr_iff)
    show thesis
      by (rule that[OF _ _ ev])
         (use Some t l \<open>validate_specification_authority ctx c = None\<close> type_aware_loss_pos[OF l] in
           \<open>auto simp: evaluate_def priced_def\<close>)
  qed
qed

text \<open>The risk of an approved candidate is within every capacity it was sized against.\<close>

lemma approved_risk_bound:
  assumes "evaluate ai ctx c = Inr r" and "candidate_valid c" and "rr_decision r \<noteq> HARD_BLOCK"
  obtains c' ex sz where "existing_risk ctx = Inr ex"
    "size_candidate ctx c' (base_capacities (limit_facts_of ctx) ex) = Inr sz"
    "sn_existing_correlated_exposure (rr_snapshot r) = sz_correlated sz"
    "\<And>cap. cap \<in> set (sz_capacities sz) \<Longrightarrow>
       sn_candidate_trade_risk (rr_snapshot r) \<le> engine_slack * cap"
proof -
  obtain c' ex where pr: "priced c c'" and ex: "existing_risk ctx = Inr ex"
    and ev: "evaluate_sized ai ctx c' (limit_facts_of ctx) ex = Inr r"
    using evaluate_approved[OF assms] by metis
  obtain sz where sz: "size_candidate ctx c' (base_capacities (limit_facts_of ctx) ex) = Inr sz"
    and d: "decide_size ctx c' (sz_size sz) = (rr_decision r, rr_approved_size r, hd (rr_reasons r))"
    and risk: "sn_candidate_trade_risk (rr_snapshot r) = sz_approved_risk sz"
    and corr: "sn_existing_correlated_exposure (rr_snapshot r) = sz_correlated sz"
    using evaluate_sized_InrD[OF ev] by blast
  note sz' = sz[unfolded base_capacities_def append_Cons append_Nil]
  have "candidate_valid c'" using priced_fields[OF pr] assms(2) by simp
  then have "sn_candidate_trade_risk (rr_snapshot r) \<le> engine_slack * cap"
    if "cap \<in> set (sz_capacities sz)" for cap
    unfolding risk using decide_size_cases[OF d] assms(3) that
    by (intro size_candidate_bound[OF sz']) (auto simp: candidate_valid_def)
  with ex sz corr show thesis by (rule that)
qed

text \<open>An approved size is at most the requested one.\<close>

lemma evaluate_size_le:
  assumes "evaluate ai ctx c = Inr r" and "candidate_valid c"
  shows "rr_approved_size r \<le> ct_requested_size c"
proof (cases "rr_decision r = HARD_BLOCK")
  case True
  with evaluate_blocked_zero[OF assms] assms(2) show ?thesis by (auto simp: candidate_valid_def)
next
  case False
  obtain c' ex where pr: "priced c c'"
    and ev: "evaluate_sized ai ctx c' (limit_facts_of ctx) ex = Inr r"
    using evaluate_approved[OF assms False] by metis
  obtain sz where sz: "size_candidate ctx c' (base_capacities (limit_facts_of ctx) ex) = Inr sz"
    and d: "decide_size ctx c' (sz_size sz) = (rr_decision r, rr_approved_size r, hd (rr_reasons r))"
    using evaluate_sized_InrD[OF ev] by blast
  have "sz_size sz \<le> ct_requested_size c'"
    using size_candidate_fields(3)[OF sz[unfolded base_capacities_def append_Cons append_Nil]]
    by (auto dest: compliant_size_le_requested)
  with decide_size_cases[OF d] False priced_fields(1)[OF pr] show ?thesis by auto
qed

lemma evaluate_size_pos:
  assumes "evaluate ai ctx c = Inr r" and "candidate_valid c" and "rr_decision r \<noteq> HARD_BLOCK"
  shows "0 < rr_approved_size r"
proof -
  obtain c' ex where "priced c c'" and ev: "evaluate_sized ai ctx c' (limit_facts_of ctx) ex = Inr r"
    using evaluate_approved[OF assms] by metis
  obtain sz where "size_candidate ctx c' (base_capacities (limit_facts_of ctx) ex) = Inr sz"
    and d: "decide_size ctx c' (sz_size sz) = (rr_decision r, rr_approved_size r, hd (rr_reasons r))"
    using evaluate_sized_InrD[OF ev] by blast
  from decide_size_cases[OF d] assms(3) show ?thesis by auto
qed

section \<open>Concrete evaluations\<close>

definition demo_limit :: "string \<Rightarrow> constraint_kind \<Rightarrow> decimal \<Rightarrow> effective_constraint" where
  "demo_limit src k v = \<lparr>ec_kind = k, ec_value = v, ec_source = src, ec_source_version = ''1'',
      ec_reason = '''', ec_enforcement = HARD\<rparr>"

definition demo_limits :: "effective_constraint list" where
  "demo_limits =
     [demo_limit ''prop'' MAX_TOTAL_DRAWDOWN 1000, demo_limit ''internal'' MAX_TOTAL_DRAWDOWN 800,
      demo_limit ''prop'' MAX_DAILY_LOSS 500, demo_limit ''internal'' MAX_PORTFOLIO_RISK 200]"

definition demo_position :: "decimal option \<Rightarrow> open_position_risk" where
  "demo_position l =
     \<lparr>op_position_id = ''p'', op_instrument = ''GBPUSD'', op_direction = BUY,
      op_market_category = ''FX'', op_currency_exposures = [(''USD'', 1)],
      op_remaining_loss_to_stop = l, op_unrealized_pnl = 5, op_underlying_id = None\<rparr>"

definition demo_context :: "effective_constraint list \<Rightarrow> decimal option \<Rightarrow> decimal list \<Rightarrow> risk_context" where
  "demo_context cs l rs =
     \<lparr>rc_account =
        \<lparr>as_account_id = ''a'', as_starting_balance = 10000, as_current_balance = 9900,
         as_current_equity = 9900, as_floating_pnl = 0, as_realized_daily_pnl = - 100,
         as_observed_at = 0, as_source = ''MT5'', as_source_version = ''1'', as_cash_balances = []\<rparr>,
      rc_constraints = cs, rc_positions = [demo_position l],
      rc_correlation_caps = [(''category:FX'', 120)],
      rc_static_max_concurrent_trades = 3, rc_include_unrealized_profit = False,
      rc_instrument_specifications = [(''spec'', \<lparr>sf_freshness = ''VALID'', sf_source_cut_id = ''cut''\<rparr>)],
      rc_current_source_cut_id = Some ''cut'', rc_active_reservations = rs,
      rc_account_currency_verified = True\<rparr>"

definition demo_candidate :: candidate_trade where
  "demo_candidate =
     \<lparr>ct_instrument = ''EURUSD'', ct_direction = BUY, ct_market_category = ''FX'',
      ct_requested_size = 2, ct_entry_price = 11 / 10, ct_stop_loss = 109 / 100,
      ct_risk_per_unit = 1, ct_size_increment = 1 / 100, ct_currency_exposures = [(''USD'', 1)],
      ct_asset_class = Some FOREX, ct_instrument_type = Some CFD,
      ct_venue_instrument_id = Some ''v'', ct_futures_contract_id = None,
      ct_specification_version_id = Some ''spec'', ct_quantity_unit = Some LOTS,
      ct_contract_multiplier = 10000, ct_tick_size = None, ct_tick_value = None,
      ct_margin_required = 0, ct_financing_cost = 1, ct_underlying_id = None\<rparr>"

lemma demo_candidate_valid: "candidate_valid demo_candidate"
  by (simp add: candidate_valid_def demo_candidate_def)

text \<open>The definitions an evaluation unfolds, and the example's.\<close>

lemmas engine_run =
  evaluate_def validate_typed_candidate_def validate_specification_authority_def
  evaluate_limits_def limit_facts_of_def missing_limits_def required_kinds_def limit_value_def
  existing_risk_def evaluate_sized_def base_capacities_def remaining_dd_def remaining_daily_def
  size_candidate_def decide_size_def correlation_violations_def correlation_remaining_def
  x_remaining_def strictest_applicable_def group_constraints_def strictest_of_def
  aggregate_exposure_def add_position_def add_exposures_def add_exposure_def position_risk_def
  reserved_risk_def build_snapshot_def snapshot_finite_def dget_def
  type_aware_loss_per_unit_def compliant_size_def size_for_risk_def round_down_def
  notional_exposure_def additional_trade_capacity_def total_drawdown_def daily_loss_def
  d_floordiv_def d_divide_def dec_defs dec8_numeral d_sum_def d_trunc_def Let_def
  blocked_def missing_authority_def truthy_def
lemmas demo_run = demo_candidate_def demo_context_def demo_position_def demo_limits_def demo_limit_def

lemma demo_evaluation:
  "\<exists>r. evaluate False (demo_context demo_limits (Some 50) [40]) demo_candidate = Inr r
    \<and> rr_decision r = REDUCE_SIZE \<and> rr_approved_size r = 69 / 100"
  by (simp add: engine_run demo_run)

lemma demo_evaluation_reserved:
  "\<exists>r. evaluate False (demo_context demo_limits (Some 50) [100]) demo_candidate = Inr r
    \<and> rr_approved_size r = 49 / 100"
  by (simp add: engine_run demo_run)

lemma demo_no_portfolio_limit:
  "\<exists>r. evaluate False (demo_context (take 3 demo_limits) (Some 50) [40]) demo_candidate = Inr r"
  by (simp add: engine_run demo_run)

section \<open>Properties\<close>


text \<open>The decision is consistent with the size: a blocked candidate gets zero, a passed one its
  full requested size, a reduced one strictly less but more than zero; and unless it is blocked,
  the account has a free trade slot.\<close>
theorem engine_decision_size:
  assumes "evaluate ai ctx c = Inr r" and "candidate_valid c"
  shows "0 \<le> rr_approved_size r \<and> rr_approved_size r \<le> ct_requested_size c
    \<and> (rr_decision r = HARD_BLOCK \<longleftrightarrow> rr_approved_size r = 0)
    \<and> (rr_decision r = PASS \<longleftrightarrow> rr_approved_size r = ct_requested_size c)
    \<and> (rr_decision r \<noteq> HARD_BLOCK \<longrightarrow>
         int (length (rc_positions ctx)) < rc_static_max_concurrent_trades ctx)"
proof (cases "rr_decision r = HARD_BLOCK")
  case True
  with evaluate_blocked_zero[OF assms] assms(2) show ?thesis by (auto simp: candidate_valid_def)
next
  case False
  obtain c' ex where pr: "priced c c'"
    and ev: "evaluate_sized ai ctx c' (limit_facts_of ctx) ex = Inr r"
    using evaluate_approved[OF assms False] by metis
  obtain sz where sz: "size_candidate ctx c' (base_capacities (limit_facts_of ctx) ex) = Inr sz"
    and d: "decide_size ctx c' (sz_size sz) = (rr_decision r, rr_approved_size r, hd (rr_reasons r))"
    using evaluate_sized_InrD[OF ev] by blast
  have "sz_size sz \<le> ct_requested_size c'"
    using evaluate_size_le[OF assms] decide_size_cases[OF d] False priced_fields(1)[OF pr] by auto
  with decide_size_cases[OF d] False priced_fields(1)[OF pr] evaluate_blocked_zero[OF assms]
  show ?thesis by auto
qed

text \<open>The engine fails closed: without a drawdown, a daily-loss or a portfolio-risk limit every
  result is a block of size zero.\<close>
theorem engine_fail_closed:
  assumes "evaluate ai ctx c = Inr r" and "candidate_valid c"
    and "k \<in> {MAX_TOTAL_DRAWDOWN, MAX_DAILY_LOSS, MAX_PORTFOLIO_RISK}"
    and "\<forall>x \<in> set (rc_constraints ctx). ec_kind x \<noteq> k"
  shows "rr_decision r = HARD_BLOCK \<and> rr_approved_size r = 0"
proof -
  have "missing_limits (strictest_applicable (rc_constraints ctx)) \<noteq> []"
    using assms(3,4) strictest_lookup_None_iff[of "rc_constraints ctx" k]
    by (auto simp: missing_limits_Nil_iff required_kinds_def)
  then have "rr_decision r = HARD_BLOCK" using evaluate_approved[OF assms(1,2)] by metis
  with evaluate_blocked_zero[OF assms(1,2)] show ?thesis by simp
qed

text \<open>More reserved risk never enlarges an approved size: of two evaluations that differ in the
  active reservations only, the one with the larger reserved sum approves at most the other's size.\<close>
theorem engine_monotone_in_reservations:
  assumes "evaluate ai ctx c = Inr r" and "candidate_valid c"
    and "evaluate ai (ctx\<lparr>rc_active_reservations := rs\<rparr>) c = Inr r'"
    and "d_sum (rc_active_reservations ctx) \<le> d_sum rs"
  shows "rr_approved_size r' \<le> rr_approved_size r"
proof (cases "rr_decision r' = HARD_BLOCK")
  case True
  with evaluate_blocked_zero[OF assms(3,2)] evaluate_size_nonneg[OF assms(1,2)] show ?thesis by simp
next
  case False
  obtain c' where pr: "priced c c'" and ev: "evaluate_limits ai ctx c' = Inr r"
    and ev': "evaluate_limits ai (ctx\<lparr>rc_active_reservations := rs\<rparr>) c' = Inr r'"
    using evaluate_same_pricing[OF assms(3,2) False] assms(1) by metis
  obtain ex' where m: "missing_limits (strictest_applicable (rc_constraints ctx)) = []"
    and ex': "existing_risk (ctx\<lparr>rc_active_reservations := rs\<rparr>) = Inr ex'"
    and sized': "evaluate_sized ai (ctx\<lparr>rc_active_reservations := rs\<rparr>) c' (limit_facts_of ctx) ex' = Inr r'"
    using evaluate_limits_cases[OF ev'] False by auto
  obtain ex where ex: "existing_risk ctx = Inr ex"
    using ex' by (auto simp: existing_risk_def rbind_eq_Inr_iff)
  then have sized: "evaluate_sized ai ctx c' (limit_facts_of ctx) ex = Inr r"
    using ev m by (simp add: evaluate_limits_def Let_def)
  have "ex \<le> ex'" using existing_risk_reservations[OF ex assms(4)] ex' by auto
  with sized sized' show ?thesis
    by (rule evaluate_sized_mono) (rule priced_fields(3)[OF pr])
qed

text \<open>While an open position has no bounded loss the engine approves nothing: if it returns at
  all it is a block, and it returns only if the snapshot model accepts infinite values; with
  pydantic's default, which does not, the evaluation raises instead of blocking.\<close>
theorem engine_unbounded_position:
  assumes "p \<in> set (rc_positions ctx)" and "op_remaining_loss_to_stop p = None"
    and "candidate_valid c"
  shows "(\<exists>e. evaluate False ctx c = Inl e)
    \<and> (\<forall>r. evaluate True ctx c = Inr r \<longrightarrow> rr_decision r = HARD_BLOCK \<and> rr_approved_size r = 0)"
proof (intro conjI allI impI)
  have "position_risk p = Infinity" using assms(2) by (simp add: position_risk_def)
  then show "\<exists>e. evaluate False ctx c = Inl e"
    using evaluate_unbounded[OF assms(1)] by (metis sum.exhaust)
  have "\<not> is_ok (reserved_risk (rc_positions ctx) (rc_include_unrealized_profit ctx))"
    using assms(1,2) unfolding reserved_risk_def reserved_risk_from_ok_iff by blast
  then have "existing_risk ctx \<noteq> Inr x" for x
    by (auto simp: existing_risk_def rbind_eq_Inr_iff)
  then have "rr_decision r = HARD_BLOCK" if "evaluate True ctx c = Inr r" for r
    using evaluate_approved[OF that assms(3)] by metis
  then show "rr_decision r = HARD_BLOCK" "rr_approved_size r = 0" if "evaluate True ctx c = Inr r" for r
    using that evaluate_blocked_zero[OF that assms(3)] by blast+
qed

text \<open>A position whose stop is at break-even (remaining loss exactly zero) is treated as unbounded by
  the exposure aggregation, although the reserved risk counts it as zero: with pydantic's finite
  decimals no candidate can be evaluated while it is open.\<close>
theorem engine_breakeven_position_raises:
  assumes "p \<in> set (rc_positions ctx)" and "op_remaining_loss_to_stop p = Some 0"
  shows "reserved_risk [p] False = Inr 0 \<and> (\<exists>e. evaluate False ctx c = Inl e)"
proof
  show "reserved_risk [p] False = Inr 0" using assms(2) by (simp add: reserved_risk_def)
  have "position_risk p = Infinity" using assms(2) by (simp add: position_risk_def)
  then show "\<exists>e. evaluate False ctx c = Inl e"
    using evaluate_unbounded[OF assms(1)] by (metis sum.exhaust)
qed

section \<open>Witnesses\<close>


theorem engine_decision_size_witness:
  "\<exists>r. evaluate False (demo_context demo_limits (Some 50) [40]) demo_candidate = Inr r
    \<and> 0 \<le> rr_approved_size r \<and> rr_approved_size r \<le> 2 \<and> rr_decision r \<noteq> PASS"
proof -
  obtain r where r: "evaluate False (demo_context demo_limits (Some 50) [40]) demo_candidate = Inr r"
    "rr_approved_size r = 69 / 100" using demo_evaluation by blast
  from engine_decision_size[OF r(1) demo_candidate_valid] r show ?thesis
    by (simp add: demo_candidate_def)
qed

theorem engine_fail_closed_witness:
  "\<exists>r. evaluate False (demo_context (take 3 demo_limits) (Some 50) [40]) demo_candidate = Inr r
    \<and> rr_decision r = HARD_BLOCK \<and> rr_approved_size r = 0"
proof -
  obtain r where r: "evaluate False (demo_context (take 3 demo_limits) (Some 50) [40]) demo_candidate = Inr r"
    using demo_no_portfolio_limit by blast
  from engine_fail_closed[OF r demo_candidate_valid, of MAX_PORTFOLIO_RISK] r show ?thesis
    by (simp add: demo_run)
qed

theorem engine_monotone_in_reservations_witness:
  "\<exists>r r'. evaluate False (demo_context demo_limits (Some 50) [40]) demo_candidate = Inr r
    \<and> evaluate False (demo_context demo_limits (Some 50) [100]) demo_candidate = Inr r'
    \<and> rr_approved_size r' \<le> rr_approved_size r"
proof -
  let ?ctx = "demo_context demo_limits (Some 50)"
  obtain r r' where r: "evaluate False (?ctx [40]) demo_candidate = Inr r"
    and r': "evaluate False (?ctx [100]) demo_candidate = Inr r'"
    using demo_evaluation demo_evaluation_reserved by blast
  have "(?ctx [40])\<lparr>rc_active_reservations := [100]\<rparr> = ?ctx [100]" by (simp add: demo_context_def)
  moreover have "d_sum (rc_active_reservations (?ctx [40])) \<le> d_sum [100]"
    by (simp add: engine_run demo_run)
  ultimately have "rr_approved_size r' \<le> rr_approved_size r"
    using engine_monotone_in_reservations[OF r demo_candidate_valid, of "[100]" r'] r' by simp
  with r r' show ?thesis by blast
qed

theorem engine_unbounded_position_witness:
  "\<exists>e. evaluate False (demo_context demo_limits None [40]) demo_candidate = Inl e"
  using engine_unbounded_position[of "demo_position None" "demo_context demo_limits None [40]"
      demo_candidate] demo_candidate_valid
  by (simp add: demo_context_def demo_position_def)

theorem engine_breakeven_position_raises_witness:
  "\<exists>e. evaluate False (demo_context demo_limits (Some 0) [40]) demo_candidate = Inl e"
  using engine_breakeven_position_raises[of "demo_position (Some 0)" "demo_context demo_limits (Some 0) [40]"
      demo_candidate]
  by (simp add: demo_context_def demo_position_def)

end
