(* ===== verification/Store.thy ===== *)
theory Store
  imports DomainTypes
begin

text \<open>
  \<open>packages/shared/store.py\<close>, \<open>outbox.py\<close> and \<open>idempotency.py\<close>: the owner-scoped table of
  versioned aggregates with its audit trail, the outbox table, and the idempotency store with the
  interface every idempotent writer of the program shares.

  The database is a record of tables in insertion order.  The JSON document of a row is a type
  parameter \<open>'d\<close>; \<open>ref\<close> reads from it the five keys \<open>validate_executable_reference\<close> inspects.
  An ORM object is the row value its session read, so \<open>store_update\<close> takes that value: what it
  writes is the object, whatever the table holds meanwhile.
\<close>

section \<open>Rows\<close>

record 'd resource =
  res_id :: uuid
  res_owner :: uuid
  res_kind :: string
  res_state :: string
  res_version :: int
  res_data :: 'd
  res_created_at :: timestamp
  res_updated_at :: timestamp

record audit_entry =
  au_owner :: uuid
  au_actor :: "uuid option"
  au_event :: string
  au_aggregate_type :: string
  au_aggregate :: "uuid option"
  au_evidence :: "(string, string) dict"

record 'd outbox_event =
  ob_event_id :: uuid
  ob_owner :: uuid
  ob_event_type :: string
  ob_payload :: 'd
  ob_created_at :: timestamp
  ob_published_at :: "timestamp option"
  ob_attempts :: int

record 'd database =
  db_resources :: "(uuid, 'd resource) dict"
  db_audit :: "audit_entry list"
  db_outbox :: "'d outbox_event list"

section \<open>Operations of the resource store\<close>

definition store_audit ::
    "'d database \<Rightarrow> uuid \<Rightarrow> uuid option \<Rightarrow> string \<Rightarrow> string \<Rightarrow> uuid option \<Rightarrow> (string, string) dict \<Rightarrow>
     'd database" where
  "store_audit db owner actor event aggregate_type aggregate evidence =
     db\<lparr>db_audit := db_audit db @
       [\<lparr>au_owner = owner, au_actor = actor, au_event = event, au_aggregate_type = aggregate_type,
         au_aggregate = aggregate, au_evidence = evidence\<rparr>]\<rparr>"

definition state_evidence :: "'d resource \<Rightarrow> (string, string) dict" where
  "state_evidence r = [(''state'', res_state r), (''version'', int_str (res_version r))]"

definition store_create ::
    "('d \<Rightarrow> typed_ref) \<Rightarrow> uuid \<Rightarrow> timestamp \<Rightarrow> 'd database \<Rightarrow> string \<Rightarrow> uuid \<Rightarrow> 'd \<Rightarrow> string \<Rightarrow>
     uuid option \<Rightarrow> uuid option \<Rightarrow> string option \<Rightarrow> ('d database \<times> 'd resource) res" where
  "store_create ref fresh now db kind owner data st record_id actor event =
     rbind (validate_executable_reference (ref data)) (\<lambda>_.
     let rid = (case record_id of None \<Rightarrow> fresh | Some i \<Rightarrow> i);
         r = \<lparr>res_id = rid, res_owner = owner, res_kind = kind, res_state = st, res_version = 1,
              res_data = data, res_created_at = now, res_updated_at = now\<rparr>
     in rbind (ensure (map_of (db_resources db) rid = None) IntegrityError) (\<lambda>_.
        Inr (store_audit (db\<lparr>db_resources := AList.update rid r (db_resources db)\<rparr>) owner actor
               (case event of None \<Rightarrow> kind @ ''.created'' | Some e \<Rightarrow> e) kind (Some rid)
               (state_evidence r), r)))"

definition store_get :: "'d database \<Rightarrow> string \<Rightarrow> uuid \<Rightarrow> uuid \<Rightarrow> 'd resource option" where
  "store_get db kind record_id owner =
     (case map_of (db_resources db) record_id of
        None \<Rightarrow> None
      | Some r \<Rightarrow> if res_kind r = kind \<and> res_owner r = owner then Some r else None)"

definition store_list :: "'d database \<Rightarrow> string \<Rightarrow> uuid \<Rightarrow> bool \<Rightarrow> 'd resource list" where
  "store_list db kind owner include_deleted =
     sort_key (\<lambda>r. - res_updated_at r)
       (filter (\<lambda>r. res_kind r = kind \<and> res_owner r = owner
                    \<and> (include_deleted \<or> res_state r \<noteq> ''DELETED''))
          (dvalues (db_resources db)))"

definition store_update ::
    "('d \<Rightarrow> typed_ref) \<Rightarrow> timestamp \<Rightarrow> 'd database \<Rightarrow> 'd resource \<Rightarrow> 'd option \<Rightarrow> string option \<Rightarrow>
     int option \<Rightarrow> uuid option \<Rightarrow> string option \<Rightarrow> (string, string) dict option \<Rightarrow>
     ('d database \<times> 'd resource) res" where
  "store_update ref now db r data st expected_version actor event evidence =
     rbind (ensure (expected_version = None \<or> expected_version = Some (res_version r))
              (ValueError ''resource version conflict'')) (\<lambda>_.
     rbind (case data of None \<Rightarrow> Inr () | Some d \<Rightarrow> validate_executable_reference (ref d)) (\<lambda>_.
     let r' = r\<lparr>res_data := (case data of None \<Rightarrow> res_data r | Some d \<Rightarrow> d),
                res_state := (case st of None \<Rightarrow> res_state r | Some s \<Rightarrow> s),
                res_version := res_version r + 1,
                res_updated_at := now\<rparr>
     in Inr (store_audit (db\<lparr>db_resources := AList.update (res_id r) r' (db_resources db)\<rparr>)
               (res_owner r) actor
               (case event of None \<Rightarrow> res_kind r @ ''.updated'' | Some e \<Rightarrow> e) (res_kind r)
               (Some (res_id r))
               (case evidence of
                  None \<Rightarrow> state_evidence r'
                | Some [] \<Rightarrow> state_evidence r'
                | Some e \<Rightarrow> e), r')))"

definition outbox_add :: "'d database \<Rightarrow> 'd outbox_event \<Rightarrow> 'd database res" where
  "outbox_add db e =
     rbind (ensure (ob_event_id e \<notin> ob_event_id ` set (db_outbox db)) IntegrityError)
       (\<lambda>_. Inr (db\<lparr>db_outbox := db_outbox db @ [e]\<rparr>))"

section \<open>Invariant and laws of the resource store\<close>

definition store_inv :: "'d database \<Rightarrow> bool" where
  "store_inv db \<longleftrightarrow>
     distinct (map fst (db_resources db))
     \<and> (\<forall>(k, r) \<in> set (db_resources db). res_id r = k \<and> 1 \<le> res_version r)
     \<and> distinct (map ob_event_id (db_outbox db))"

lemma store_audit_simps [simp]:
  "db_resources (store_audit db o' a e t i ev) = db_resources db"
  "db_outbox (store_audit db o' a e t i ev) = db_outbox db"
  "length (db_audit (store_audit db o' a e t i ev)) = Suc (length (db_audit db))"
  by (simp_all add: store_audit_def)

lemma store_create_InrD:
  assumes "store_create ref fresh now db kind owner data st rid actor event = Inr (db', r)"
  shows "res_id r = (case rid of None \<Rightarrow> fresh | Some i \<Rightarrow> i)"
    and "res_owner r = owner" "res_kind r = kind" "res_state r = st" "res_version r = 1"
    and "res_data r = data" "res_updated_at r = now"
    and "map_of (db_resources db) (res_id r) = None"
    and "db_resources db' = AList.update (res_id r) r (db_resources db)"
    and "db_outbox db' = db_outbox db"
    and "length (db_audit db') = Suc (length (db_audit db))"
    and "validate_executable_reference (ref data) = Inr ()"
  using assms by (auto simp: store_create_def Let_def rbind_eq_Inr_iff split: option.splits)

lemma store_update_InrD:
  assumes "store_update ref now db r data st ver actor event ev = Inr (db', r')"
  shows "res_id r' = res_id r" "res_owner r' = res_owner r" "res_kind r' = res_kind r"
    and "res_version r' = res_version r + 1"
    and "res_data r' = (case data of None \<Rightarrow> res_data r | Some d \<Rightarrow> d)"
    and "res_state r' = (case st of None \<Rightarrow> res_state r | Some s \<Rightarrow> s)"
    and "res_updated_at r' = now"
    and "db_resources db' = AList.update (res_id r) r' (db_resources db)"
    and "db_outbox db' = db_outbox db"
    and "length (db_audit db') = Suc (length (db_audit db))"
  using assms by (auto simp: store_update_def Let_def rbind_eq_Inr_iff)

lemma set_update_sub: "set (AList.update k v d) \<subseteq> insert (k, v) (set d)"
  by (induction d) auto

lemma store_create_inv:
  assumes "store_create ref fresh now db kind owner data st rid actor event = Inr (db', r)"
    and "store_inv db"
  shows "store_inv db'"
proof -
  note D = store_create_InrD[OF assms(1)]
  have "\<forall>(k, q) \<in> set (db_resources db'). res_id q = k \<and> 1 \<le> res_version q"
    using assms(2) set_update_sub[of "res_id r" r "db_resources db"] D(5)
    unfolding D(9) store_inv_def by auto
  then show ?thesis
    using assms(2) by (simp add: store_inv_def D(9,10) distinct_update)
qed

lemma store_update_inv:
  assumes "store_update ref now db r data st ver actor event ev = Inr (db', r')"
    and "store_inv db" and "1 \<le> res_version r"
  shows "store_inv db'"
proof -
  note D = store_update_InrD[OF assms(1)]
  have "\<forall>(k, q) \<in> set (db_resources db'). res_id q = k \<and> 1 \<le> res_version q"
    using assms(2,3) set_update_sub[of "res_id r" r' "db_resources db"] D(1,4)
    unfolding D(8) store_inv_def by auto
  then show ?thesis
    using assms(2) by (simp add: store_inv_def D(8,9) distinct_update)
qed

lemma outbox_add_inv: "outbox_add db e = Inr db' \<Longrightarrow> store_inv db \<Longrightarrow> store_inv db'"
  by (auto simp: outbox_add_def store_inv_def rbind_eq_Inr_iff)

lemma outbox_add_InrD:
  assumes "outbox_add db e = Inr db'"
  shows "db_outbox db' = db_outbox db @ [e]" "db_resources db' = db_resources db"
    and "ob_event_id e \<notin> ob_event_id ` set (db_outbox db)"
  using assms by (auto simp: outbox_add_def rbind_eq_Inr_iff)

lemma store_get_iff:
  "store_get db kind i owner = Some r \<longleftrightarrow>
     map_of (db_resources db) i = Some r \<and> res_kind r = kind \<and> res_owner r = owner"
  by (auto simp: store_get_def split: option.splits)

lemma store_get_id:
  assumes "store_inv db" and "store_get db kind i owner = Some r"
  shows "res_id r = i" "1 \<le> res_version r"
proof -
  have "(i, r) \<in> set (db_resources db)"
    using assms(2) by (intro map_of_SomeD) (simp add: store_get_iff)
  with assms(1) show "res_id r = i" "1 \<le> res_version r" unfolding store_inv_def by auto
qed

lemma store_list_mem:
  "r \<in> set (store_list db kind owner del) \<longleftrightarrow>
     r \<in> set (dvalues (db_resources db)) \<and> res_kind r = kind \<and> res_owner r = owner
     \<and> (del \<or> res_state r \<noteq> ''DELETED'')"
  by (auto simp: store_list_def)

lemma store_list_mem_iff:
  assumes "store_inv db"
  shows "r \<in> set (store_list db kind owner del) \<longleftrightarrow>
     map_of (db_resources db) (res_id r) = Some r \<and> res_kind r = kind \<and> res_owner r = owner
     \<and> (del \<or> res_state r \<noteq> ''DELETED'')"
proof -
  have "r \<in> set (dvalues (db_resources db)) \<longleftrightarrow> map_of (db_resources db) (res_id r) = Some r"
    using assms by (force simp: store_inv_def dvalues_def dest: map_of_SomeD)
  then show ?thesis by (simp add: store_list_mem)
qed

text \<open>The newest row comes first.\<close>

lemma store_list_newest:
  assumes "store_list db kind owner del = r # rs" and "q \<in> set (r # rs)"
  shows "res_updated_at q \<le> res_updated_at r"
proof -
  have "sorted (map (\<lambda>r. - res_updated_at r) (r # rs))"
    unfolding assms(1)[symmetric] store_list_def by (rule sorted_sort_key)
  with assms(2) show ?thesis by auto
qed

section \<open>Idempotent writers\<close>

text \<open>
  The contract every idempotent writer of the program states: \<open>put\<close> looks an identity up; a new
  identity is bound to the item, a bound one returns what it is bound to when the payloads agree and
  raises when they differ, changing nothing.
\<close>

locale idempotent_store =
  fixes put :: "'s \<Rightarrow> 'i \<Rightarrow> ('s \<times> 'i) res"
    and bound :: "'s \<Rightarrow> 'k \<Rightarrow> 'i option"
    and identity :: "'i \<Rightarrow> 'k"
    and payload :: "'i \<Rightarrow> 'p"
    and wf :: "'s \<Rightarrow> bool"
    and fresh :: "'s \<Rightarrow> 'i \<Rightarrow> bool"
  assumes put_new: "wf s \<Longrightarrow> fresh s i \<Longrightarrow> bound s (identity i) = None \<Longrightarrow>
      \<exists>s'. put s i = Inr (s', i) \<and> wf s' \<and> bound s' = (bound s)(identity i \<mapsto> i)"
    and put_replay: "wf s \<Longrightarrow> bound s (identity i) = Some j \<Longrightarrow> payload j = payload i \<Longrightarrow>
      put s i = Inr (s, j)"
    and put_conflict: "wf s \<Longrightarrow> bound s (identity i) = Some j \<Longrightarrow> payload j \<noteq> payload i \<Longrightarrow>
      \<exists>e. put s i = Inl e"
    and bound_identity: "wf s \<Longrightarrow> bound s k = Some j \<Longrightarrow> identity j = k"
begin

text \<open>Items whose identity is unbound must be fresh; a bound identity is always accepted.\<close>

definition accepts :: "'s \<Rightarrow> 'i \<Rightarrow> bool" where
  "accepts s i \<longleftrightarrow> bound s (identity i) \<noteq> None \<or> fresh s i"

lemma put_result:
  assumes "wf s" and "accepts s i" and "put s i = Inr (s', j)"
  shows "wf s'" "bound s' (identity i) = Some j" "identity j = identity i" "payload j = payload i"
    and "bound s k = Some v \<Longrightarrow> bound s' k = Some v"
    and "k \<noteq> identity i \<Longrightarrow> bound s' k = bound s k"
proof -
  have "wf s' \<and> bound s' (identity i) = Some j \<and> identity j = identity i \<and> payload j = payload i
    \<and> (bound s k = Some v \<longrightarrow> bound s' k = Some v) \<and> (k \<noteq> identity i \<longrightarrow> bound s' k = bound s k)"
  proof (cases "bound s (identity i)")
    case None
    then have "fresh s i" using assms(2) by (simp add: accepts_def)
    with put_new[OF assms(1) this None] assms(3) None show ?thesis by auto
  next
    case (Some l)
    show ?thesis
    proof (cases "payload l = payload i")
      case True
      with put_replay[OF assms(1) Some] assms(1,3) Some bound_identity[OF assms(1) Some]
      show ?thesis by auto
    next
      case False
      with put_conflict[OF assms(1) Some] assms(3) show ?thesis by auto
    qed
  qed
  then show "wf s'" "bound s' (identity i) = Some j" "identity j = identity i" "payload j = payload i"
    and "bound s k = Some v \<Longrightarrow> bound s' k = Some v"
    and "k \<noteq> identity i \<Longrightarrow> bound s' k = bound s k" by auto
qed

text \<open>Writing the same item again returns the same item and changes nothing.\<close>

lemma put_twice:
  assumes "wf s" and "accepts s i" and "put s i = Inr (s', j)" and "payload i' = payload i"
    and "identity i' = identity i"
  shows "put s' i' = Inr (s', j)"
  using put_result[OF assms(1-3)] assms(4,5) put_replay[of s' i' j] by simp

text \<open>A different payload under a bound identity is refused, and leaves no new state.\<close>

lemma put_other_payload:
  assumes "wf s" and "bound s (identity i) = Some j" and "payload j \<noteq> payload i"
  shows "\<not> is_ok (put s i)"
  using put_conflict[OF assms] by auto

lemma put_succeeds_iff:
  assumes "wf s" and "accepts s i"
  shows "is_ok (put s i) \<longleftrightarrow> (\<forall>j. bound s (identity i) = Some j \<longrightarrow> payload j = payload i)"
proof (cases "bound s (identity i)")
  case None
  then have "fresh s i" using assms(2) by (simp add: accepts_def)
  with put_new[OF assms(1) this None] None show ?thesis by auto
next
  case (Some j)
  with put_replay[OF assms(1) Some] put_conflict[OF assms(1) Some] show ?thesis
    by (cases "payload j = payload i") auto
qed

end

section \<open>The idempotency store (\<open>idempotency.py\<close>)\<close>

text \<open>
  \<open>digest\<close> is SHA-256: a parameter, of which the model uses nothing but that it is a function of the
  body.  A stored result carries its identity, so that the state is a dictionary of items.
\<close>

record ('b, 'v) stored_result =
  si_owner :: string
  si_key :: string
  si_hash :: 'b
  si_value :: 'v

type_synonym ('b, 'v) idempotency_state = "(string \<times> string, ('b, 'v) stored_result) dict"

definition remember ::
    "('a \<Rightarrow> 'b) \<Rightarrow> ('b, 'v) idempotency_state \<Rightarrow> string \<Rightarrow> string \<Rightarrow> 'a \<Rightarrow> 'v \<Rightarrow>
     (('b, 'v) idempotency_state \<times> 'v) res" where
  "remember digest values owner key body v =
     (case map_of values (owner, key) of
        Some prior \<Rightarrow>
          if si_hash prior \<noteq> digest body
          then Inl (ValueError ''idempotency key reused with a different request'')
          else Inr (values, si_value prior)
      | None \<Rightarrow>
          Inr (AList.update (owner, key)
                 \<lparr>si_owner = owner, si_key = key, si_hash = digest body, si_value = v\<rparr> values, v))"

definition si_identity :: "('b, 'v) stored_result \<Rightarrow> string \<times> string" where
  "si_identity i = (si_owner i, si_key i)"

definition idempotency_wf :: "('b, 'v) idempotency_state \<Rightarrow> bool" where
  "idempotency_wf values \<longleftrightarrow> (\<forall>k i. map_of values k = Some i \<longrightarrow> si_identity i = k)"

text \<open>\<open>remember\<close> as an operation on items; the value returned is the bound item's.\<close>

definition remember_item ::
    "('b, 'v) idempotency_state \<Rightarrow> ('b, 'v) stored_result \<Rightarrow>
     (('b, 'v) idempotency_state \<times> ('b, 'v) stored_result) res" where
  "remember_item values i =
     rbind (remember id values (si_owner i) (si_key i) (si_hash i) (si_value i)) (\<lambda>(values', v).
       case map_of values' (si_identity i) of
         None \<Rightarrow> Inl (KeyError (si_key i))
       | Some j \<Rightarrow> Inr (values', j))"

interpretation keys: idempotent_store remember_item "\<lambda>values. map_of values" si_identity si_hash
    idempotency_wf "\<lambda>_ _. True"
  by unfold_locales
    (auto simp: remember_item_def remember_def idempotency_wf_def si_identity_def split: option.splits)

lemma remember_digest:
  "remember digest values owner key body v = remember id values owner key (digest body) v"
  by (auto simp: remember_def split: option.split)

section \<open>Properties\<close>

text \<open>An idempotency key is bound once: after a request was remembered, the same owner and key with
  a body of the same digest return the first value and change nothing, with another digest they are
  refused, and no earlier binding changes.\<close>
theorem remember_exactly_once:
  assumes "idempotency_wf values"
    and "remember digest values owner key body v = Inr (values', w)"
  shows "idempotency_wf values'
    \<and> (digest body' = digest body \<longrightarrow> remember digest values' owner key body' v' = Inr (values', w))
    \<and> (digest body' \<noteq> digest body \<longrightarrow> \<not> is_ok (remember digest values' owner key body' v'))
    \<and> (\<forall>k j. map_of values k = Some j \<longrightarrow> map_of values' k = Some j)"
proof -
  let ?i = "\<lparr>si_owner = owner, si_key = key, si_hash = digest body, si_value = v\<rparr>"
  obtain j where put: "remember_item values ?i = Inr (values', j)" and j: "si_value j = w"
    using assms by (auto simp: remember_item_def remember_def si_identity_def split: option.splits if_splits)
  have acc: "keys.accepts values ?i" by (simp add: keys.accepts_def)
  note R = keys.put_result[OF assms(1) acc put]
  have b: "map_of values' (owner, key) = Some j" "si_hash j = digest body"
    using R(2,4) by (simp_all add: si_identity_def)
  show ?thesis using R(1,5) b j by (simp add: remember_def)
qed

theorem remember_exactly_once_witness:
  "remember id [((''u'', ''k''), \<lparr>si_owner = ''u'', si_key = ''k'', si_hash = (1::nat), si_value = ''a''\<rparr>)]
     ''u'' ''k'' 1 ''b''
   = Inr ([((''u'', ''k''), \<lparr>si_owner = ''u'', si_key = ''k'', si_hash = 1, si_value = ''a''\<rparr>)], ''a'')"
  using remember_exactly_once[of "[]" id "''u''" "''k''" "1::nat" "''a''"
      "[((''u'', ''k''), \<lparr>si_owner = ''u'', si_key = ''k'', si_hash = (1::nat), si_value = ''a''\<rparr>)]"
      "''a''" 1 "''b''"]
  by (simp add: idempotency_wf_def remember_def)

lemma store_create_isolation:
  assumes "store_inv db" and "other \<noteq> owner"
    and "store_create ref fresh now db kind owner data st rid actor event = Inr (db', r)"
  shows "store_get db' k i other = store_get db k i other"
    and "set (store_list db' k other del) = set (store_list db k other del)"
  using store_create_InrD[OF assms(3)] assms(2) store_create_inv[OF assms(3,1)]
  by (auto simp: store_get_def store_list_mem_iff assms(1) split: option.splits)

text \<open>A write of one owner is invisible to another: updating a row an owner looked up leaves every
  lookup and every listing of any other owner as it was, raises the row's version by exactly one, and
  adds exactly one audit entry.\<close>
theorem store_owner_isolation:
  assumes "store_inv db" and "other \<noteq> owner" and "store_get db kind i0 owner = Some r"
    and "store_update ref now db r d st ver actor event ev = Inr (db', r')"
  shows "store_get db' k i other = store_get db k i other
    \<and> set (store_list db' k other del) = set (store_list db k other del)
    \<and> store_get db' kind i0 owner = Some r' \<and> res_version r' = res_version r + 1
    \<and> length (db_audit db') = Suc (length (db_audit db))"
proof -
  note D = store_update_InrD[OF assms(4)]
  have r: "map_of (db_resources db) (res_id r) = Some r" "res_owner r = owner" "res_id r = i0"
    and k: "res_kind r = kind"
    using assms(3) store_get_id[OF assms(1,3)] by (simp_all add: store_get_iff)
  have "store_inv db'" by (rule store_update_inv[OF assms(4,1) store_get_id(2)[OF assms(1,3)]])
  moreover have "store_get db' kind i0 owner = Some r'"
    using D(1-3,8) r k by (simp add: store_get_iff)
  ultimately show ?thesis
    using D(1,2,4,8,10) assms(2) r
    by (auto simp: store_get_def store_list_mem_iff assms(1) split: option.splits)
qed

theorem store_owner_isolation_witness:
  "\<exists>db db' :: nat database. store_get db ''account'' ''i'' ''alice'' \<noteq> None
    \<and> store_get db' ''account'' ''i'' ''bob'' = store_get db ''account'' ''i'' ''bob''
    \<and> length (db_audit db') = Suc (length (db_audit db))"
proof -
  define r :: "nat resource" where "r =
    \<lparr>res_id = ''i'', res_owner = ''alice'', res_kind = ''account'', res_state = ''ACTIVE'',
     res_version = 1, res_data = 5, res_created_at = 0, res_updated_at = 0\<rparr>"
  define db :: "nat database" where
    "db = \<lparr>db_resources = [(''i'', r)], db_audit = [], db_outbox = []\<rparr>"
  define ref :: "nat \<Rightarrow> typed_ref" where
    "ref = (\<lambda>_. \<lparr>tr_instrument_type = None, tr_venue = None, tr_specification = None, tr_unit = None,
       tr_contract = None\<rparr>)"
  have inv: "store_inv db" by (simp add: store_inv_def db_def r_def)
  have get: "store_get db ''account'' ''i'' ''alice'' = Some r"
    by (simp add: store_get_iff db_def r_def)
  obtain db' r' where u: "store_update ref 1 db r (Some 6) None (Some 1) None None None = Inr (db', r')"
    by (simp add: store_update_def r_def ref_def validate_executable_reference_def Let_def)
  from store_owner_isolation[OF inv _ get u, of "''bob''" "''account''" "''i''"] get show ?thesis
    by (intro exI[of _ db] exI[of _ db']) simp
qed

end
