(* ===== verification/Reservations.thy ===== *)
theory Reservations
  imports Store
begin

text \<open>
  \<open>modules/risk/reservations.py\<close>: risk capacity claimed by a plan, a command, an order or a
  position.  The persistent store works on the rows of one table (a list in insertion order); the
  in-memory \<open>ReservationBook\<close> on a dictionary.  Both implement the interface \<open>capacity_ledger\<close>, where
  it is proved once that no run of their operations claims more than the limit it reserves against.

  Amounts are taken as the numeric column holds them; \<open>func.sum\<close> adds exactly.
\<close>

datatype reservation_state =
    PROVISIONAL
  | COMMAND_PENDING
  | ORDER_WORKING
  | PARTIALLY_FILLED
  | OPEN_POSITION
  | RELEASED
  | RS_EXPIRED
  | RS_ACTIVE
  | RS_CONFIRMED

definition ACTIVE_RESERVATION_STATES :: "reservation_state set" where
  "ACTIVE_RESERVATION_STATES =
     {PROVISIONAL, COMMAND_PENDING, ORDER_WORKING, PARTIALLY_FILLED, OPEN_POSITION,
      RS_ACTIVE, RS_CONFIRMED}"

lemma active_iff: "s \<in> ACTIVE_RESERVATION_STATES \<longleftrightarrow> s \<noteq> RELEASED \<and> s \<noteq> RS_EXPIRED"
  by (cases s) (simp_all add: ACTIVE_RESERVATION_STATES_def)

record reservation =
  rv_id :: uuid
  rv_owner :: "uuid option"
  rv_account :: uuid
  rv_proposal :: "uuid option"
  rv_trade_plan :: "uuid option"
  rv_command :: "uuid option"
  rv_broker_order :: "string option"
  rv_broker_position :: "string option"
  rv_amount :: decimal
  rv_state :: reservation_state
  rv_expires_at :: timestamp
  rv_version :: int
  rv_details :: "(string, string) dict"
  rv_created_at :: timestamp
  rv_updated_at :: timestamp

type_synonym reservation_table = "reservation list"

section \<open>The persistent reservation store\<close>

abbreviation is_active :: "reservation \<Rightarrow> bool" where
  "is_active r \<equiv> rv_state r \<in> ACTIVE_RESERVATION_STATES"

definition account_live :: "'d database \<Rightarrow> uuid \<Rightarrow> uuid \<Rightarrow> bool" where
  "account_live db owner account =
     (case store_get db ''account'' account owner of
        None \<Rightarrow> False
      | Some r \<Rightarrow> res_state r \<noteq> ''DELETED'')"

definition expire_row :: "timestamp \<Rightarrow> uuid option \<Rightarrow> reservation \<Rightarrow> reservation" where
  "expire_row now account r =
     (if is_active r \<and> rv_expires_at r \<le> now \<and> (account = None \<or> account = Some (rv_account r))
      then r\<lparr>rv_state := RS_EXPIRED, rv_version := rv_version r + 1, rv_updated_at := now\<rparr>
      else r)"

definition reservations_expire ::
    "timestamp \<Rightarrow> uuid option \<Rightarrow> reservation_table \<Rightarrow> reservation_table \<times> nat" where
  "reservations_expire now account t =
     (map (expire_row now account) t, length (filter (\<lambda>r. expire_row now account r \<noteq> r) t))"

definition active_rows :: "uuid \<Rightarrow> uuid \<Rightarrow> reservation_table \<Rightarrow> reservation list" where
  "active_rows owner account t =
     filter (\<lambda>r. rv_owner r = Some owner \<and> rv_account r = account \<and> is_active r) t"

definition active_total :: "uuid \<Rightarrow> uuid \<Rightarrow> reservation_table \<Rightarrow> decimal" where
  "active_total owner account t = sum_list (map rv_amount (active_rows owner account t))"

text \<open>An insert checks the primary key and the unique plan and proposal columns.\<close>

definition reservation_insert :: "reservation_table \<Rightarrow> reservation \<Rightarrow> reservation_table res" where
  "reservation_insert t r =
     rbind (ensure (rv_id r \<notin> rv_id ` set t
                    \<and> (rv_trade_plan r = None \<or> rv_trade_plan r \<notin> rv_trade_plan ` set t)
                    \<and> (rv_proposal r = None \<or> rv_proposal r \<notin> rv_proposal ` set t)) IntegrityError)
       (\<lambda>_. Inr (t @ [r]))"

definition reservations_reserve ::
    "uuid \<Rightarrow> timestamp \<Rightarrow> bool \<Rightarrow> reservation_table \<Rightarrow> uuid \<Rightarrow> uuid \<Rightarrow> uuid \<Rightarrow> decimal \<Rightarrow> decimal \<Rightarrow> int \<Rightarrow>
     (string, string) dict \<Rightarrow> (reservation_table \<times> reservation) res" where
  "reservations_reserve fresh now live t owner account plan amount available ttl details =
     rbind (ensure live (ValueError ''active account is required before reserving risk'')) (\<lambda>_.
     case first_match (\<lambda>r. rv_owner r = Some owner \<and> rv_trade_plan r = Some plan) t of
       Some existing \<Rightarrow>
         if rv_amount existing \<noteq> amount
         then Inl (ValueError ''trade plan is already bound to a different risk amount'')
         else Inr (t, existing)
     | None \<Rightarrow>
         (let t1 = fst (reservations_expire now (Some account) t);
              used = active_total owner account t1
          in if amount \<le> 0 \<or> available < d_add used amount
             then Inl (ValueError ''insufficient unreserved risk capacity'')
             else
               (let r = \<lparr>rv_id = fresh, rv_owner = Some owner, rv_account = account,
                         rv_proposal = None, rv_trade_plan = Some plan, rv_command = None,
                         rv_broker_order = None, rv_broker_position = None, rv_amount = amount,
                         rv_state = PROVISIONAL, rv_expires_at = now + ttl, rv_version = 1,
                         rv_details = details, rv_created_at = now, rv_updated_at = now\<rparr>
                in rbind (reservation_insert t1 r) (\<lambda>t2. Inr (t2, r)))))"

definition reservations_get_active ::
    "timestamp \<Rightarrow> reservation_table \<Rightarrow> uuid \<Rightarrow> uuid \<Rightarrow> uuid \<Rightarrow> reservation_table \<times> reservation option" where
  "reservations_get_active now t reservation_id owner account =
     (let t1 = fst (reservations_expire now (Some account) t)
      in (t1, first_match (\<lambda>r. rv_id r = reservation_id \<and> rv_owner r = Some owner
                              \<and> rv_account r = account \<and> is_active r) t1))"

text \<open>\<open>x or y\<close> on optional identifiers: a missing or empty text keeps the old value.\<close>

definition or_else :: "string option \<Rightarrow> string option \<Rightarrow> string option" where
  "or_else new old = (if truthy new then new else old)"

definition replace_row :: "reservation_table \<Rightarrow> reservation \<Rightarrow> reservation_table" where
  "replace_row t r = map (\<lambda>q. if rv_id q = rv_id r then r else q) t"

definition reservations_transition ::
    "timestamp \<Rightarrow> reservation_table \<Rightarrow> uuid \<Rightarrow> uuid \<Rightarrow> reservation_state \<Rightarrow> uuid option \<Rightarrow>
     string option \<Rightarrow> string option \<Rightarrow> decimal option \<Rightarrow> string option \<Rightarrow>
     (reservation_table \<times> reservation) res" where
  "reservations_transition now t reservation_id owner target command_id broker_order_id
       broker_position_id amount reason =
     (case first_match (\<lambda>r. rv_id r = reservation_id \<and> rv_owner r = Some owner) t of
        None \<Rightarrow> Inl (LookupError ''risk reservation not found'')
      | Some r \<Rightarrow>
          rbind (ensure (rv_state r \<noteq> RELEASED \<and> rv_state r \<noteq> RS_EXPIRED)
                   (ValueError ''risk reservation is already terminal'')) (\<lambda>_.
          rbind (ensure (case amount of None \<Rightarrow> True | Some a \<Rightarrow> \<not> (a < 0 \<or> rv_amount r < a))
                   (ValueError ''reservation transition amount is invalid'')) (\<lambda>_.
          let r' = r\<lparr>rv_state := target,
                     rv_command := or_else command_id (rv_command r),
                     rv_broker_order := or_else broker_order_id (rv_broker_order r),
                     rv_broker_position := or_else broker_position_id (rv_broker_position r),
                     rv_amount := (case amount of None \<Rightarrow> rv_amount r | Some a \<Rightarrow> a),
                     rv_details := (if truthy reason
                                    then AList.update ''reason'' (the reason) (rv_details r)
                                    else rv_details r),
                     rv_version := rv_version r + 1,
                     rv_updated_at := now\<rparr>
          in Inr (replace_row t r', r'))))"

definition reservations_split_partial_fill ::
    "uuid \<Rightarrow> timestamp \<Rightarrow> reservation_table \<Rightarrow> uuid \<Rightarrow> uuid \<Rightarrow> decimal \<Rightarrow> string \<Rightarrow> decimal \<Rightarrow>
     (reservation_table \<times> reservation \<times> reservation option) res" where
  "reservations_split_partial_fill fresh now t reservation_id owner filled_amount broker_position_id
       remaining_command_amount =
     rbind (reservations_transition now t reservation_id owner PARTIALLY_FILLED None None
              (Some broker_position_id) (Some filled_amount) None) (\<lambda>(t1, r).
     if 0 < remaining_command_amount then
       (let remainder =
          \<lparr>rv_id = fresh, rv_owner = rv_owner r, rv_account = rv_account r, rv_proposal = None,
           rv_trade_plan = None, rv_command = rv_command r, rv_broker_order = None,
           rv_broker_position = None, rv_amount = remaining_command_amount,
           rv_state = COMMAND_PENDING, rv_expires_at = rv_expires_at r, rv_version = 1,
           rv_details = [(''split_from'', rv_id r)], rv_created_at = now, rv_updated_at = now\<rparr>
        in rbind (reservation_insert t1 remainder) (\<lambda>t2. Inr (t2, r, Some remainder)))
     else Inr (t1, r, None))"

section \<open>Invariant of the table\<close>

definition reservation_inv :: "reservation_table \<Rightarrow> bool" where
  "reservation_inv t \<longleftrightarrow>
     distinct (map rv_id t) \<and> (\<forall>r \<in> set t. 0 \<le> rv_amount r \<and> 1 \<le> rv_version r)"

lemma expire_row_simps [simp]:
  "rv_id (expire_row now a r) = rv_id r" "rv_owner (expire_row now a r) = rv_owner r"
  "rv_account (expire_row now a r) = rv_account r" "rv_amount (expire_row now a r) = rv_amount r"
  "rv_trade_plan (expire_row now a r) = rv_trade_plan r"
  "rv_proposal (expire_row now a r) = rv_proposal r"
  "rv_expires_at (expire_row now a r) = rv_expires_at r"
  by (simp_all add: expire_row_def)

lemma expire_row_active: "is_active (expire_row now a r) \<Longrightarrow> is_active r"
  by (auto simp: expire_row_def split: if_splits)

lemma expire_row_version: "1 \<le> rv_version r \<Longrightarrow> 1 \<le> rv_version (expire_row now a r)"
  by (simp add: expire_row_def)

lemma ids_expire [simp]: "map rv_id (fst (reservations_expire now a t)) = map rv_id t"
  by (simp add: reservations_expire_def)

lemma expire_inv: "reservation_inv t \<Longrightarrow> reservation_inv (fst (reservations_expire now a t))"
  by (auto simp: reservation_inv_def reservations_expire_def comp_def expire_row_version)

lemma insert_inv:
  "reservation_insert t r = Inr t' \<Longrightarrow> reservation_inv t \<Longrightarrow> 0 \<le> rv_amount r \<Longrightarrow> rv_version r = 1 \<Longrightarrow>
     reservation_inv t'"
  by (auto simp: reservation_insert_def reservation_inv_def rbind_eq_Inr_iff)

lemma replace_row_ids [simp]: "map rv_id (replace_row t r) = map rv_id t"
  by (simp add: replace_row_def)

lemma replace_row_set: "set (replace_row t r) \<subseteq> insert r (set t)"
  by (auto simp: replace_row_def)

lemma replace_row_inv:
  "reservation_inv t \<Longrightarrow> 0 \<le> rv_amount r \<Longrightarrow> 1 \<le> rv_version r \<Longrightarrow> reservation_inv (replace_row t r)"
  using replace_row_set[of t r] by (auto simp: reservation_inv_def)

lemma transition_InrD:
  assumes "reservations_transition now t i owner target cmd ord pos amount reason = Inr (t', r')"
  obtains r where "r \<in> set t" "rv_id r = i" "rv_owner r = Some owner" "is_active r"
    "rv_id r' = i" "rv_owner r' = Some owner" "rv_account r' = rv_account r" "rv_state r' = target"
    "rv_expires_at r' = rv_expires_at r" "rv_trade_plan r' = rv_trade_plan r"
    "rv_version r' = rv_version r + 1"
    "rv_amount r' = (case amount of None \<Rightarrow> rv_amount r | Some a \<Rightarrow> a)"
    "\<forall>a. amount = Some a \<longrightarrow> 0 \<le> a \<and> a \<le> rv_amount r" "t' = replace_row t r'"
proof -
  obtain r where f: "first_match (\<lambda>r. rv_id r = i \<and> rv_owner r = Some owner) t = Some r"
    using assms by (auto simp: reservations_transition_def split: option.splits)
  then have "r \<in> set t" "rv_id r = i" "rv_owner r = Some owner" using first_match_SomeD by fastforce+
  with assms f show thesis
    by (intro that[of r])
       (auto simp: reservations_transition_def Let_def rbind_eq_Inr_iff active_iff split: option.splits)
qed

lemma transition_inv:
  assumes "reservations_transition now t i owner target cmd ord pos amount reason = Inr (t', r')"
    and "reservation_inv t"
  shows "reservation_inv t'"
proof -
  obtain r where r: "r \<in> set t" "rv_version r' = rv_version r + 1"
    "rv_amount r' = (case amount of None \<Rightarrow> rv_amount r | Some a \<Rightarrow> a)"
    "\<forall>a. amount = Some a \<longrightarrow> 0 \<le> a \<and> a \<le> rv_amount r" "t' = replace_row t r'"
    by (rule transition_InrD[OF assms(1)]) blast
  have "0 \<le> rv_amount r" "1 \<le> rv_version r" using r(1) assms(2) by (auto simp: reservation_inv_def)
  with r(2-4) show ?thesis unfolding r(5)
    by (intro replace_row_inv assms(2)) (auto split: option.splits)
qed

section \<open>The active total\<close>

lemma active_total_Nil [simp]: "active_total o' a [] = 0"
  by (simp add: active_total_def active_rows_def)

lemma active_total_append [simp]:
  "active_total o' a (t @ u) = active_total o' a t + active_total o' a u"
  by (simp add: active_total_def active_rows_def)

text \<open>What one row contributes.\<close>

definition claim :: "uuid \<Rightarrow> uuid \<Rightarrow> reservation \<Rightarrow> decimal" where
  "claim owner account r =
     (if rv_owner r = Some owner \<and> rv_account r = account \<and> is_active r then rv_amount r else 0)"

lemma active_total_claims: "active_total o' a t = sum_list (map (claim o' a) t)"
  by (induction t) (simp_all add: active_total_def active_rows_def claim_def)

lemma active_total_nonneg: "reservation_inv t \<Longrightarrow> 0 \<le> active_total o' a t"
  by (auto simp: active_total_claims reservation_inv_def claim_def intro!: sum_list_nonneg)

lemma active_total_expire:
  assumes "reservation_inv t"
  shows "active_total o' a (fst (reservations_expire now acct t)) \<le> active_total o' a t"
  unfolding active_total_claims reservations_expire_def fst_conv map_map comp_def
  using assms by (intro sum_list_mono) (auto simp: claim_def reservation_inv_def dest: expire_row_active)

text \<open>Replacing one row moves the total by the difference of the two claims.\<close>

lemma active_total_replace:
  assumes "distinct (map rv_id t)" and "r \<in> set t" and "rv_id r' = rv_id r"
  shows "active_total o' a (replace_row t r') = active_total o' a t - claim o' a r + claim o' a r'"
  using assms
proof (induction t)
  case (Cons q t)
  show ?case
  proof (cases "q = r")
    case True
    with Cons.prems have "\<forall>x \<in> set t. rv_id x \<noteq> rv_id r'" by (auto simp: image_iff)
    then have "replace_row t r' = t" by (simp add: replace_row_def map_idI)
    with True Cons.prems(3) show ?thesis by (simp add: active_total_claims replace_row_def)
  next
    case False
    with Cons.prems have "rv_id q \<noteq> rv_id r'" and "r \<in> set t" by auto
    with Cons show ?thesis by (simp add: active_total_claims replace_row_def)
  qed
qed simp

lemma active_total_transition:
  assumes "reservations_transition now t i owner target cmd ord pos amount reason = Inr (t', r')"
    and "reservation_inv t"
  obtains r where "r \<in> set t" "rv_id r = i" "is_active r"
    "active_total o' a t' = active_total o' a t - claim o' a r + claim o' a r'"
    "claim o' a r' \<le> claim o' a r"
proof -
  obtain r where r: "r \<in> set t" "rv_id r = i" "rv_owner r = Some owner" "is_active r" "rv_id r' = i"
    "rv_owner r' = Some owner" "rv_account r' = rv_account r"
    "rv_amount r' = (case amount of None \<Rightarrow> rv_amount r | Some x \<Rightarrow> x)"
    "\<forall>x. amount = Some x \<longrightarrow> 0 \<le> x \<and> x \<le> rv_amount r" "t' = replace_row t r'"
    by (rule transition_InrD[OF assms(1)]) blast
  have nonneg: "0 \<le> rv_amount r" using r(1) assms(2) by (auto simp: reservation_inv_def)
  have "active_total o' a t' = active_total o' a t - claim o' a r + claim o' a r'"
    unfolding r(10) using assms(2) r by (intro active_total_replace) (simp_all add: reservation_inv_def)
  moreover have "claim o' a r' \<le> claim o' a r"
    using r(3,4,6-9) nonneg by (auto simp: claim_def split: option.splits)
  ultimately show thesis using r(1,2,4) that by blast
qed

section \<open>The reservation book\<close>

record risk_reservation =
  bk_id :: uuid
  bk_account :: uuid
  bk_proposal :: uuid
  bk_amount :: decimal
  bk_expires_at :: timestamp
  bk_state :: reservation_state

type_synonym reservation_book = "(uuid, risk_reservation) dict"

definition book_expire :: "timestamp \<Rightarrow> reservation_book \<Rightarrow> reservation_book" where
  "book_expire now book =
     dmap (\<lambda>i. if bk_state i = RS_ACTIVE \<and> bk_expires_at i \<le> now
               then i\<lparr>bk_state := RS_EXPIRED\<rparr> else i) book"

definition book_active :: "uuid \<Rightarrow> reservation_book \<Rightarrow> decimal list" where
  "book_active account book =
     map bk_amount (filter (\<lambda>i. bk_account i = account \<and> bk_state i = RS_ACTIVE) (dvalues book))"

definition book_total :: "uuid \<Rightarrow> reservation_book \<Rightarrow> decimal" where
  "book_total account book = d_sum (book_active account book)"

definition book_reserve ::
    "uuid \<Rightarrow> timestamp \<Rightarrow> reservation_book \<Rightarrow> uuid \<Rightarrow> uuid \<Rightarrow> decimal \<Rightarrow> decimal \<Rightarrow> int \<Rightarrow>
     (reservation_book \<times> risk_reservation) res" where
  "book_reserve fresh now book account proposal amount available ttl =
     (let book1 = book_expire now book; already = book_total account book1
      in if amount \<le> 0 \<or> available < d_add already amount
         then Inl (ValueError ''insufficient unreserved risk capacity'')
         else
           (let item = \<lparr>bk_id = fresh, bk_account = account, bk_proposal = proposal,
                        bk_amount = amount, bk_expires_at = now + ttl, bk_state = RS_ACTIVE\<rparr>
            in Inr (AList.update fresh item book1, item)))"

definition book_transition ::
    "reservation_book \<Rightarrow> uuid \<Rightarrow> reservation_state \<Rightarrow> (reservation_book \<times> risk_reservation) res" where
  "book_transition book reservation_id st =
     (case map_of book reservation_id of
        None \<Rightarrow> Inl (KeyError reservation_id)
      | Some current \<Rightarrow>
          if bk_state current \<noteq> RS_ACTIVE
          then Inl (ValueError ''reservation is no longer active'')
          else (let updated = current\<lparr>bk_state := st\<rparr>
                in Inr (AList.update reservation_id updated book, updated)))"

definition book_active_for ::
    "timestamp \<Rightarrow> reservation_book \<Rightarrow> uuid \<Rightarrow> uuid \<Rightarrow> reservation_book \<times> risk_reservation option" where
  "book_active_for now book reservation_id account =
     (let book1 = book_expire now book
      in (book1, case map_of book1 reservation_id of
                   None \<Rightarrow> None
                 | Some item \<Rightarrow>
                     if bk_account item \<noteq> account \<or> bk_state item \<noteq> RS_ACTIVE then None else Some item))"

definition book_inv :: "reservation_book \<Rightarrow> bool" where
  "book_inv book \<longleftrightarrow> distinct (map fst book) \<and> (\<forall>i \<in> set (dvalues book). 0 \<le> bk_amount i)"

lemma book_expire_inv: "book_inv book \<Longrightarrow> book_inv (book_expire now book)"
  by (auto simp: book_inv_def book_expire_def dvalues_def dmap_def comp_def split_beta)

text \<open>A sum of non-negative amounts does not grow when amounts are dropped.\<close>

lemma d_sum_filter_le:
  assumes "\<forall>x \<in> set xs. 0 \<le> f x"
  shows "d_sum (map f (filter (\<lambda>x. p x \<and> q x) xs)) \<le> d_sum (map f (filter p xs))"
proof -
  have "fold (\<lambda>x a. d_add a x) (map f (filter (\<lambda>x. p x \<and> q x) xs)) c
      \<le> fold (\<lambda>x a. d_add a x) (map f (filter p xs)) c'"
    if "c \<le> c'" "dctx c = c" "dctx c' = c'" for c c'
    using assms that
  proof (induction xs arbitrary: c c')
    case (Cons x xs)
    have keep: "d_add c (f x) \<le> d_add c' (f x)"
      using Cons.prems(2) by (simp add: d_add_def dctx_mono)
    have "c' \<le> d_add c' (f x)"
      using Cons.prems(1,4) dctx_mono[of c' "c' + f x"] by (simp add: d_add_def)
    with Cons.prems(2) have drop: "c \<le> d_add c' (f x)" by simp
    show ?case using Cons.prems Cons.IH keep drop by (simp add: d_add_def dctx_idem)
  qed simp
  from this[of 0 0] show ?thesis by (simp add: d_sum_def)
qed

lemma book_total_mono:
  assumes "book_inv book" and "map fst book' = map fst book"
    and "\<And>k i i'. map_of book k = Some i \<Longrightarrow> map_of book' k = Some i' \<Longrightarrow>
       i' = i \<or> (bk_amount i' = bk_amount i \<and> bk_account i' = bk_account i \<and> bk_state i' \<noteq> RS_ACTIVE)"
  shows "book_total a book' \<le> book_total a book"
proof -
  let ?live = "\<lambda>d k. \<exists>i. map_of d k = Some i \<and> bk_account i = a \<and> bk_state i = RS_ACTIVE"
  let ?amt = "\<lambda>k. bk_amount (the (map_of book k))"
  have rows: "book_active a d = map (\<lambda>k. bk_amount (the (map_of d k))) (filter (?live d) (map fst d))"
    if "distinct (map fst d)" for d
  proof -
    have "map_of d (fst p) = Some (snd p)" if "p \<in> set d" for p
      using that \<open>distinct (map fst d)\<close> by simp
    then show ?thesis
      by (auto simp: book_active_def dvalues_def filter_map comp_def intro!: map_cong filter_cong)
  qed
  have d: "distinct (map fst book)" "distinct (map fst book')"
    using assms(1,2) by (simp_all add: book_inv_def)
  have key: "?live book' k \<longleftrightarrow> ?live book k \<and> ?live book' k"
    and amt: "?live book' k \<Longrightarrow> bk_amount (the (map_of book' k)) = ?amt k"
    if "k \<in> set (map fst book)" for k
    using that assms(3)[of k] by (force dest: weak_map_of_SomeI)+
  have "book_active a book' = map ?amt (filter (\<lambda>k. ?live book k \<and> ?live book' k) (map fst book))"
    unfolding rows[OF d(2)] assms(2)
  proof (rule map_cong)
    show "filter (?live book') (map fst book)
        = filter (\<lambda>k. ?live book k \<and> ?live book' k) (map fst book)"
      by (rule filter_cong[OF refl]) (erule key)
    show "bk_amount (the (map_of book' k)) = ?amt k"
      if "k \<in> set (filter (\<lambda>k. ?live book k \<and> ?live book' k) (map fst book))" for k
      by (rule amt) (use that in simp_all)
  qed
  moreover have "\<forall>k \<in> set (map fst book). 0 \<le> ?amt k"
    using assms(1) d(1) by (auto simp: book_inv_def dvalues_def)
  ultimately show ?thesis
    using d_sum_filter_le[of "map fst book" ?amt "?live book" "?live book'"]
    unfolding book_total_def rows[OF d(1)] by (simp only:)
qed

lemma book_total_expire: "book_inv book \<Longrightarrow> book_total a (book_expire now book) \<le> book_total a book"
  by (rule book_total_mono) (auto simp: book_expire_def map_of_dmap split: if_splits)

lemma book_transition_inv:
  assumes "book_transition book i st = Inr (book', r)" and "book_inv book"
  shows "book_inv book'" "st \<noteq> RS_ACTIVE \<Longrightarrow> book_total a book' \<le> book_total a book"
    "st = RS_ACTIVE \<Longrightarrow> book_total a book' = book_total a book"
proof -
  obtain c where c: "map_of book i = Some c" "bk_state c = RS_ACTIVE"
    and b: "book' = AList.update i (c\<lparr>bk_state := st\<rparr>) book"
    using assms(1) by (auto simp: book_transition_def Let_def split: option.splits if_splits)
  have m: "i \<in> set (map fst book)" using c(1) by (force dest: map_of_SomeD)
  then have keys: "map fst book' = map fst book" unfolding b by (simp add: update_keys)
  have "c \<in> set (dvalues book)" using map_of_SomeD[OF c(1)] by (force simp: dvalues_def)
  then show "book_inv book'"
    using assms(2) set_update_sub[of i "c\<lparr>bk_state := st\<rparr>" book] keys
    by (fastforce simp: book_inv_def dvalues_def b)
  show "st \<noteq> RS_ACTIVE \<Longrightarrow> book_total a book' \<le> book_total a book"
    by (rule book_total_mono[OF assms(2) keys]) (auto simp: b c split: if_splits)
  show "book_total a book' = book_total a book" if "st = RS_ACTIVE"
  proof -
    have "c\<lparr>bk_state := st\<rparr> = c" using that c(2) by simp
    then have "book' = book" unfolding b using c(1) by (simp add: update_triv)
    then show ?thesis by simp
  qed
qed

section \<open>Capacity ledgers\<close>

text \<open>
  What the two books promise: a reservation made against an available capacity leaves the usage of
  the account within it (or as it was, when a reservation is replayed), and every other operation
  leaves no account with more usage.  Then no run of operations exceeds a limit that every
  reservation was made against.
\<close>

locale capacity_ledger =
  fixes reserves :: "'s \<Rightarrow> 'a \<Rightarrow> decimal \<Rightarrow> 's \<Rightarrow> bool"
    and moves :: "'s \<Rightarrow> 's \<Rightarrow> bool"
    and usage :: "'a \<Rightarrow> 's \<Rightarrow> decimal"
    and wf :: "'s \<Rightarrow> bool"
  assumes reserves_wf: "wf s \<Longrightarrow> reserves s a available s' \<Longrightarrow> wf s'"
    and reserves_usage: "wf s \<Longrightarrow> reserves s a available s' \<Longrightarrow>
      usage a s' \<le> max available (usage a s)"
    and reserves_other: "wf s \<Longrightarrow> reserves s a available s' \<Longrightarrow> b \<noteq> a \<Longrightarrow> usage b s' \<le> usage b s"
    and moves_wf: "wf s \<Longrightarrow> moves s s' \<Longrightarrow> wf s'"
    and moves_usage: "wf s \<Longrightarrow> moves s s' \<Longrightarrow> usage b s' \<le> usage b s"
begin

definition step :: "('a \<Rightarrow> decimal) \<Rightarrow> 's \<Rightarrow> 's \<Rightarrow> bool" where
  "step limit s s' \<longleftrightarrow> moves s s' \<or> (\<exists>a available. available \<le> limit a \<and> reserves s a available s')"

lemma step_within:
  assumes "wf s" and "\<forall>a. usage a s \<le> limit a" and "step limit s s'"
  shows "wf s' \<and> (\<forall>a. usage a s' \<le> limit a)"
proof -
  consider "moves s s'" | a available where "available \<le> limit a" "reserves s a available s'"
    using assms(3) by (auto simp: step_def)
  then show ?thesis
  proof cases
    case 1
    then show ?thesis using moves_wf moves_usage assms(1,2) by (meson order_trans)
  next
    case (2 a available)
    have "usage a s' \<le> limit a"
      using reserves_usage[OF assms(1) 2(2)] 2(1) assms(2) by (meson max.boundedI order_trans)
    then have "usage b s' \<le> limit b" for b
      using reserves_other[OF assms(1) 2(2), of b] assms(2) by (cases "b = a") (auto intro: order_trans)
    then show ?thesis using reserves_wf[OF assms(1) 2(2)] by simp
  qed
qed

lemma run_within:
  assumes "(step limit)\<^sup>*\<^sup>* s s'" and "wf s" and "\<forall>a. usage a s \<le> limit a"
  shows "wf s' \<and> (\<forall>a. usage a s' \<le> limit a)"
  using assms(1) by induction (use assms(2,3) step_within in blast)+

end

subsection \<open>The persistent store\<close>

definition store_reserves ::
    "reservation_table \<Rightarrow> uuid \<times> uuid \<Rightarrow> decimal \<Rightarrow> reservation_table \<Rightarrow> bool" where
  "store_reserves t oa available t' \<longleftrightarrow>
     (\<exists>fresh now live plan amount ttl details r.
        reservations_reserve fresh now live t (fst oa) (snd oa) plan amount available ttl details
          = Inr (t', r))"

text \<open>Every other operation on the table, a split included only when its parts fit the whole.\<close>

inductive store_moves :: "reservation_table \<Rightarrow> reservation_table \<Rightarrow> bool" where
  expire: "store_moves t (fst (reservations_expire now account t))"
| transition: "reservations_transition now t i owner target cmd ord pos amount reason = Inr (t', r)
    \<Longrightarrow> store_moves t t'"
| split: "reservations_split_partial_fill fresh now t i owner filled pos remaining = Inr (t', r, s)
    \<Longrightarrow> \<forall>q \<in> set t. rv_id q = i \<longrightarrow> filled + max 0 remaining \<le> rv_amount q
    \<Longrightarrow> store_moves t t'"

definition store_usage :: "uuid \<times> uuid \<Rightarrow> reservation_table \<Rightarrow> decimal" where
  "store_usage oa t = dctx (active_total (fst oa) (snd oa) t)"

lemma insert_InrD: "reservation_insert t r = Inr t' \<Longrightarrow> t' = t @ [r]"
  by (auto simp: reservation_insert_def rbind_eq_Inr_iff)

lemma reserve_InrD:
  assumes "reservations_reserve fresh now live t owner account plan amount available ttl details
      = Inr (t', r)"
  shows "live"
    and "(t' = t \<and> r \<in> set t \<and> rv_trade_plan r = Some plan \<and> rv_owner r = Some owner \<and> rv_amount r = amount) \<or>
      (0 < amount
       \<and> d_add (active_total owner account (fst (reservations_expire now (Some account) t))) amount \<le> available
       \<and> t' = fst (reservations_expire now (Some account) t) @ [r]
       \<and> reservation_insert (fst (reservations_expire now (Some account) t)) r = Inr t'
       \<and> rv_owner r = Some owner \<and> rv_account r = account \<and> rv_amount r = amount
       \<and> rv_state r = PROVISIONAL \<and> rv_version r = 1 \<and> rv_expires_at r = now + ttl
       \<and> rv_trade_plan r = Some plan \<and> rv_id r = fresh)"
proof -
  show "live" using assms by (auto simp: reservations_reserve_def rbind_eq_Inr_iff)
  let ?t1 = "fst (reservations_expire now (Some account) t)"
  let ?find = "first_match (\<lambda>r. rv_owner r = Some owner \<and> rv_trade_plan r = Some plan) t"
  show "(t' = t \<and> r \<in> set t \<and> rv_trade_plan r = Some plan \<and> rv_owner r = Some owner \<and> rv_amount r = amount) \<or>
      (0 < amount \<and> d_add (active_total owner account ?t1) amount \<le> available
       \<and> t' = ?t1 @ [r] \<and> reservation_insert ?t1 r = Inr t'
       \<and> rv_owner r = Some owner \<and> rv_account r = account \<and> rv_amount r = amount
       \<and> rv_state r = PROVISIONAL \<and> rv_version r = 1 \<and> rv_expires_at r = now + ttl
       \<and> rv_trade_plan r = Some plan \<and> rv_id r = fresh)"
  proof (cases ?find)
    case None
    with assms have "0 < amount \<and> d_add (active_total owner account ?t1) amount \<le> available
       \<and> reservation_insert ?t1 r = Inr t'
       \<and> rv_owner r = Some owner \<and> rv_account r = account \<and> rv_amount r = amount
       \<and> rv_state r = PROVISIONAL \<and> rv_version r = 1 \<and> rv_expires_at r = now + ttl
       \<and> rv_trade_plan r = Some plan \<and> rv_id r = fresh"
      by (auto simp: reservations_reserve_def Let_def rbind_eq_Inr_iff split: if_splits)
    then show ?thesis using insert_InrD by blast
  next
    case (Some q)
    with assms first_match_SomeD[OF Some] show ?thesis
      by (auto simp: reservations_reserve_def rbind_eq_Inr_iff split: if_splits)
  qed
qed

lemma reserve_usage:
  assumes "reservations_reserve fresh now live t owner account plan amount available ttl details
      = Inr (t', r)" and inv: "reservation_inv t"
  shows "reservation_inv t'"
    and "store_usage (owner, account) t' \<le> max available (store_usage (owner, account) t)"
    and "oa \<noteq> (owner, account) \<Longrightarrow> store_usage oa t' \<le> store_usage oa t"
proof -
  let ?t1 = "fst (reservations_expire now (Some account) t)"
  have "reservation_inv t' \<and> store_usage (owner, account) t' \<le> max available (store_usage (owner, account) t)
    \<and> (oa \<noteq> (owner, account) \<longrightarrow> store_usage oa t' \<le> store_usage oa t)"
    using reserve_InrD(2)[OF assms(1)]
  proof (elim disjE conjE)
    assume "t' = t"
    then show ?thesis using inv by simp
  next
    assume a: "0 < amount" "d_add (active_total owner account ?t1) amount \<le> available"
      "t' = ?t1 @ [r]" "reservation_insert ?t1 r = Inr t'"
      "rv_owner r = Some owner" "rv_account r = account" "rv_amount r = amount"
      "rv_state r = PROVISIONAL" "rv_version r = 1"
    have total: "active_total o' b t' = active_total o' b ?t1 + claim o' b r" for o' b
      unfolding a(3) by (simp add: active_total_claims)
    have "reservation_inv t'" using insert_inv[OF a(4) expire_inv[OF inv]] a(1,7,9) by simp
    moreover have "store_usage (owner, account) t' \<le> available"
      using a(2,5-8) by (simp add: store_usage_def total d_add_def claim_def active_iff)
    moreover have "store_usage oa t' \<le> store_usage oa t" if "oa \<noteq> (owner, account)"
    proof -
      have "claim (fst oa) (snd oa) r = 0" using that a(5,6) by (auto simp: claim_def)
      then show ?thesis
        using active_total_expire[OF inv] by (simp add: store_usage_def total dctx_mono)
    qed
    ultimately show ?thesis by simp
  qed
  then show "reservation_inv t'"
    and "store_usage (owner, account) t' \<le> max available (store_usage (owner, account) t)"
    and "oa \<noteq> (owner, account) \<Longrightarrow> store_usage oa t' \<le> store_usage oa t" by auto
qed

lemma split_InrD:
  assumes "reservations_split_partial_fill fresh now t i owner filled pos remaining = Inr (t', r, s)"
  obtains t1 where
    "reservations_transition now t i owner PARTIALLY_FILLED None None (Some pos) (Some filled) None = Inr (t1, r)"
    and "remaining \<le> 0 \<longrightarrow> t' = t1 \<and> s = None"
    and "0 < remaining \<longrightarrow> (\<exists>q. s = Some q \<and> t' = t1 @ [q] \<and> reservation_insert t1 q = Inr t'
        \<and> rv_owner q = rv_owner r \<and> rv_account q = rv_account r \<and> rv_amount q = remaining
        \<and> rv_state q = COMMAND_PENDING \<and> rv_version q = 1 \<and> rv_expires_at q = rv_expires_at r)"
proof -
  obtain t1 where tr: "reservations_transition now t i owner PARTIALLY_FILLED None None (Some pos)
      (Some filled) None = Inr (t1, r)"
    and alt: "if 0 < remaining
      then \<exists>q. s = Some q \<and> reservation_insert t1 q = Inr t'
        \<and> rv_owner q = rv_owner r \<and> rv_account q = rv_account r \<and> rv_amount q = remaining
        \<and> rv_state q = COMMAND_PENDING \<and> rv_version q = 1 \<and> rv_expires_at q = rv_expires_at r
      else t' = t1 \<and> s = None"
    using assms
    by (auto simp: reservations_split_partial_fill_def Let_def rbind_eq_Inr_iff split: if_splits)
  have "remaining \<le> 0 \<longrightarrow> t' = t1 \<and> s = None" using alt by simp
  moreover have "0 < remaining \<longrightarrow> (\<exists>q. s = Some q \<and> t' = t1 @ [q] \<and> reservation_insert t1 q = Inr t'
        \<and> rv_owner q = rv_owner r \<and> rv_account q = rv_account r \<and> rv_amount q = remaining
        \<and> rv_state q = COMMAND_PENDING \<and> rv_version q = 1 \<and> rv_expires_at q = rv_expires_at r)"
    using alt insert_InrD by auto
  ultimately show thesis using tr that by blast
qed

lemma active_total_split:
  assumes "reservations_split_partial_fill fresh now t i owner filled pos remaining = Inr (t', r, s)"
    and "reservation_inv t"
  obtains q where "reservation_inv t'" "q \<in> set t" "rv_id q = i" "rv_owner q = Some owner" "is_active q"
    "filled \<le> rv_amount q" "0 \<le> filled"
    "\<And>o' a. active_total o' a t' = active_total o' a t
        + (if o' = owner \<and> a = rv_account q then filled + max 0 remaining - rv_amount q else 0)"
proof -
  obtain t1 where tr: "reservations_transition now t i owner PARTIALLY_FILLED None None (Some pos)
        (Some filled) None = Inr (t1, r)"
    and none: "remaining \<le> 0 \<longrightarrow> t' = t1 \<and> s = None"
    and some: "0 < remaining \<longrightarrow> (\<exists>q. s = Some q \<and> t' = t1 @ [q] \<and> reservation_insert t1 q = Inr t'
        \<and> rv_owner q = rv_owner r \<and> rv_account q = rv_account r \<and> rv_amount q = remaining
        \<and> rv_state q = COMMAND_PENDING \<and> rv_version q = 1 \<and> rv_expires_at q = rv_expires_at r)"
    by (rule split_InrD[OF assms(1)]) blast
  obtain q where q: "q \<in> set t" "rv_id q = i" "rv_owner q = Some owner" "is_active q" "rv_id r = i"
    "rv_owner r = Some owner" "rv_account r = rv_account q" "rv_state r = PARTIALLY_FILLED"
    "rv_amount r = filled" "0 \<le> filled \<and> filled \<le> rv_amount q" "t1 = replace_row t r"
    by (rule transition_InrD[OF tr]) auto
  have inv1: "reservation_inv t1" by (rule transition_inv[OF tr assms(2)])
  have t1: "active_total o' a t1 = active_total o' a t
      + (if o' = owner \<and> a = rv_account q then filled - rv_amount q else 0)" for o' a
    unfolding q(11) using active_total_replace[of t q r o' a] assms(2) q
    by (auto simp: reservation_inv_def claim_def active_iff)
  have "reservation_inv t' \<and> active_total o' a t' = active_total o' a t
      + (if o' = owner \<and> a = rv_account q then filled + max 0 remaining - rv_amount q else 0)" for o' a
  proof (cases "0 < remaining")
    case True
    then obtain p where p: "t' = t1 @ [p]" "reservation_insert t1 p = Inr t'" "rv_owner p = rv_owner r"
      "rv_account p = rv_account r" "rv_amount p = remaining" "rv_state p = COMMAND_PENDING"
      "rv_version p = 1" using some by blast
    have "active_total o' a t' = active_total o' a t1 + claim o' a p" for o' a
      unfolding p(1) by (simp add: active_total_claims)
    then show ?thesis
      using True insert_inv[OF p(2) inv1] p(3-7) q(6,7) by (auto simp: t1 claim_def active_iff)
  next
    case False
    then show ?thesis using none inv1 by (simp add: t1)
  qed
  then show thesis using q that by blast
qed

lemma store_moves_usage:
  assumes "store_moves t t'" and "reservation_inv t"
  shows "reservation_inv t' \<and> store_usage oa t' \<le> store_usage oa t"
  using assms
proof cases
  case (expire now account)
  then show ?thesis
    using expire_inv active_total_expire assms(2) by (simp add: store_usage_def dctx_mono)
next
  case (transition now i owner target cmd ord pos amount reason r)
  obtain q where "active_total (fst oa) (snd oa) t'
      = active_total (fst oa) (snd oa) t - claim (fst oa) (snd oa) q + claim (fst oa) (snd oa) r"
    "claim (fst oa) (snd oa) r \<le> claim (fst oa) (snd oa) q"
    by (rule active_total_transition[OF transition assms(2)]) blast
  then show ?thesis using transition_inv[OF transition assms(2)] by (simp add: store_usage_def dctx_mono)
next
  case (split fresh now i owner filled pos remaining r s)
  obtain q where "reservation_inv t'" "q \<in> set t" "rv_id q = i"
    and "\<And>o' a. active_total o' a t' = active_total o' a t
        + (if o' = owner \<and> a = rv_account q then filled + max 0 remaining - rv_amount q else 0)"
    by (rule active_total_split[OF split(1) assms(2)]) blast
  with split(2) show ?thesis by (auto simp: store_usage_def intro!: dctx_mono)
qed

interpretation store: capacity_ledger store_reserves store_moves store_usage reservation_inv
proof unfold_locales
  show "store_usage b t' \<le> store_usage b t"
    if "reservation_inv t" "store_reserves t a available t'" "b \<noteq> a" for t a available t' b
    using that reserve_usage(3) by (metis store_reserves_def prod.collapse)
qed (auto simp: store_reserves_def dest: reserve_usage store_moves_usage)

subsection \<open>The reservation book\<close>

definition book_reserves :: "reservation_book \<Rightarrow> uuid \<Rightarrow> decimal \<Rightarrow> reservation_book \<Rightarrow> bool" where
  "book_reserves book account available book' \<longleftrightarrow>
     (\<exists>fresh now proposal amount ttl r. map_of book fresh = None
        \<and> book_reserve fresh now book account proposal amount available ttl = Inr (book', r))"

inductive book_moves :: "reservation_book \<Rightarrow> reservation_book \<Rightarrow> bool" where
  expire: "book_moves book (book_expire now book)"
| transition: "book_transition book i st = Inr (book', r) \<Longrightarrow> book_moves book book'"

lemma book_reserve_usage:
  assumes "book_reserve fresh now book account proposal amount available ttl = Inr (book', r)"
    and "map_of book fresh = None" and inv: "book_inv book"
  shows "book_inv book'" "book_total account book' \<le> available"
    and "a \<noteq> account \<Longrightarrow> book_total a book' \<le> book_total a book"
proof -
  let ?b = "book_expire now book"
  have new: "map_of ?b fresh = None" using assms(2) by (simp add: book_expire_def map_of_dmap)
  have r: "0 < amount" "d_add (book_total account ?b) amount \<le> available"
    "bk_amount r = amount" "bk_account r = account" "bk_state r = RS_ACTIVE"
    and b': "book' = AList.update fresh r ?b"
    using assms(1) by (auto simp: book_reserve_def Let_def split: if_splits)
  have vals: "dvalues book' = dvalues ?b @ [r]" unfolding b' by (rule dvalues_update_new[OF new])
  then have act: "book_active a book' = book_active a ?b @ (if a = account then [amount] else [])" for a
    using r(3-5) by (simp add: book_active_def)
  have total: "book_total account book' = d_add (book_total account ?b) amount"
    by (simp add: book_total_def act d_sum_def)
  with r(2) show "book_total account book' \<le> available" by simp
  show "book_inv book'"
    using book_expire_inv[OF inv] r(1,3) by (simp add: book_inv_def b' distinct_update vals[unfolded b'])
  show "a \<noteq> account \<Longrightarrow> book_total a book' \<le> book_total a book"
    using book_total_expire[OF inv] by (simp add: book_total_def act)
qed

lemma book_moves_usage:
  assumes "book_moves book book'" and "book_inv book"
  shows "book_inv book' \<and> book_total a book' \<le> book_total a book"
  using assms
proof cases
  case (transition i st r)
  then show ?thesis using book_transition_inv[OF transition assms(2)] by (cases "st = RS_ACTIVE") simp_all
qed (simp add: book_expire_inv book_total_expire assms)

interpretation book: capacity_ledger book_reserves book_moves book_total book_inv
  by unfold_locales
    (auto simp: book_reserves_def max.coboundedI1 dest: book_reserve_usage book_moves_usage)

section \<open>Properties\<close>

lemma replace_row_keeps: "q \<in> set t \<Longrightarrow> rv_id q \<noteq> rv_id r \<Longrightarrow> q \<in> set (replace_row t r)"
  by (force simp: replace_row_def)

lemma transition_keeps_terminal:
  assumes "reservations_transition now t i owner target cmd ord pos amount reason = Inr (t', r')"
    and "reservation_inv t" and "q \<in> set t" and "\<not> is_active q"
  shows "q \<in> set t'"
proof -
  obtain r where r: "r \<in> set t" "rv_id r = i" "is_active r" "rv_id r' = i" "t' = replace_row t r'"
    by (rule transition_InrD[OF assms(1)]) blast
  have "rv_id q \<noteq> rv_id r'"
    using assms(2-4) r(1-4) by (auto simp: reservation_inv_def distinct_map dest: inj_onD)
  then show ?thesis unfolding r(5) by (rule replace_row_keeps[OF assms(3)])
qed

lemma expire_keeps_terminal: "q \<in> set t \<Longrightarrow> \<not> is_active q \<Longrightarrow> q \<in> set (fst (reservations_expire now a t))"
  by (force simp: reservations_expire_def expire_row_def)

lemma reserve_keeps_terminal:
  assumes "store_reserves t oa available t'" and "q \<in> set t" and "\<not> is_active q"
  shows "q \<in> set t'"
  using assms expire_keeps_terminal by (auto simp: store_reserves_def dest!: reserve_InrD(2))

lemma move_keeps_terminal:
  assumes "store_moves t t'" and "reservation_inv t" and "q \<in> set t" and "\<not> is_active q"
  shows "q \<in> set t'"
  using assms(1)
proof cases
  case (expire now account)
  then show ?thesis using expire_keeps_terminal assms(3,4) by simp
next
  case (transition now i owner target cmd ord pos amount reason r)
  then show ?thesis by (rule transition_keeps_terminal[OF _ assms(2-4)])
next
  case (split fresh now i owner filled pos remaining r s)
  obtain t1 where "reservations_transition now t i owner PARTIALLY_FILLED None None (Some pos)
      (Some filled) None = Inr (t1, r)" and t': "t' = t1 \<or> (\<exists>p. t' = t1 @ [p])"
    by (rule split_InrD[OF split(1)]) (metis not_le)
  then show ?thesis using transition_keeps_terminal[OF _ assms(2-4)] by fastforce
qed

text \<open>C6: no interleaving of reservations, transitions, expiries and fitting splits claims more risk for
  an account than its limit, when every reservation was made against at most that limit; and the
  table stays well formed.  The claimed total is read to the 28 digits the code computes with.\<close>
theorem reservations_never_overcommit:
  assumes "(\<lambda>t t'. store_moves t t'
      \<or> (\<exists>oa available. available \<le> limit oa \<and> store_reserves t oa available t'))\<^sup>*\<^sup>* t t'"
    and "reservation_inv t" and "\<forall>owner account. dctx (active_total owner account t) \<le> limit (owner, account)"
  shows "reservation_inv t' \<and> dctx (active_total owner account t') \<le> limit (owner, account)"
proof -
  have "(store.step limit)\<^sup>*\<^sup>* t t'" using assms(1) unfolding store.step_def[abs_def] .
  from store.run_within[OF this assms(2)] assms(3) show ?thesis by (auto simp: store_usage_def)
qed

text \<open>A released or expired reservation is never touched again: every operation on the table keeps
  its row as it is.\<close>
theorem reservation_terminal_states_absorb:
  assumes "store_moves t t' \<or> store_reserves t oa available t'" and "reservation_inv t"
    and "q \<in> set t" and "rv_state q = RELEASED \<or> rv_state q = RS_EXPIRED"
  shows "q \<in> set t'"
  using assms move_keeps_terminal reserve_keeps_terminal by (metis active_iff)

text \<open>Reserving for a trade plan is idempotent: when a plan has a reservation, a repeated call with
  the same amount returns it and changes nothing, and one with another amount is refused.\<close>
theorem reserve_idempotent:
  assumes "reservations_reserve fresh now True t owner account plan amount available ttl details
      = Inr (t', r)" and "first_match (\<lambda>r. rv_owner r = Some owner \<and> rv_trade_plan r = Some plan) t = None"
  shows "reservations_reserve fresh' now' True t' owner account' plan amount available' ttl' details'
      = Inr (t', r)
    \<and> (amount' \<noteq> amount \<longrightarrow>
         \<not> is_ok (reservations_reserve fresh' now' True t' owner account' plan amount' available' ttl' details'))"
proof -
  let ?p = "\<lambda>r. rv_owner r = Some owner \<and> rv_trade_plan r = Some plan"
  have none: "\<forall>q \<in> set t. \<not> ?p q" using assms(2) by (simp add: first_match_None_iff)
  with reserve_InrD(2)[OF assms(1)] have r: "t' = fst (reservations_expire now (Some account) t) @ [r]"
    "?p r" "rv_amount r = amount" by auto
  have "\<forall>q \<in> set (fst (reservations_expire now (Some account) t)). \<not> ?p q"
    using none by (auto simp: reservations_expire_def)
  then have "first_match ?p (fst (reservations_expire now (Some account) t)) = None"
    by (simp add: first_match_None_iff)
  then have "first_match ?p t' = Some r" unfolding r(1) using r(2) by (simp add: first_match_append)
  then show ?thesis using r(3) by (simp add: reservations_reserve_def)
qed

text \<open>Splitting a partial fill moves the claimed total by exactly the two parts less the whole, for
  the reservation's own account only: nothing ties the parts to the whole, so parts that exceed it claim
  risk no reservation was checked for.\<close>
theorem split_partial_fill_total:
  assumes "reservations_split_partial_fill fresh now t i owner filled pos remaining = Inr (t', r, s)"
    and "reservation_inv t"
  shows "\<exists>q \<in> set t. rv_id q = i \<and> rv_owner q = Some owner \<and> filled \<le> rv_amount q
    \<and> reservation_inv t'
    \<and> active_total owner (rv_account q) t' - active_total owner (rv_account q) t
        = filled + max 0 remaining - rv_amount q
    \<and> (\<forall>o' a. (o', a) \<noteq> (owner, rv_account q) \<longrightarrow> active_total o' a t' = active_total o' a t)"
  by (rule active_total_split[OF assms]) force

text \<open>No transition extends the lifetime of a reservation, and expiry does not look at what the
  reservation covers: the risk of an open position is dropped from the claims when the time the plan
  was given to reach the broker is over.\<close>
theorem open_position_reservation_expires:
  assumes "reservations_reserve fresh now live t owner account plan amount available ttl details
      = Inr (t1, r)" and "rv_id r = fresh" and "rv_expires_at r = now + ttl" and "reservation_inv t"
    and "reservations_transition now' t1 fresh owner OPEN_POSITION cmd ord pos amt reason = Inr (t2, r2)"
    and "now + ttl \<le> now''"
  shows "rv_state r2 = OPEN_POSITION
    \<and> (\<forall>q \<in> set (fst (reservations_expire now'' None t2)). rv_id q = fresh \<longrightarrow> rv_state q = RS_EXPIRED)"
proof -
  obtain q where q: "q \<in> set t1" "rv_id q = fresh" "rv_id r2 = fresh" "rv_state r2 = OPEN_POSITION"
    "rv_expires_at r2 = rv_expires_at q" "t2 = replace_row t1 r2"
    by (rule transition_InrD[OF assms(5)]) blast
  have inv: "reservation_inv t1" by (rule reserve_usage(1)[OF assms(1,4)])
  have "r \<in> set t1" using reserve_InrD(2)[OF assms(1)] by auto
  then have "q = r" using inv q(1,2) assms(2) by (auto simp: reservation_inv_def distinct_map dest: inj_onD)
  then have exp: "rv_expires_at r2 \<le> now''" using q(5) assms(3,6) by simp
  have "p = r2" if "p \<in> set t2" "rv_id p = fresh" for p
    using that q(3) unfolding q(6) by (auto simp: replace_row_def split: if_splits)
  then show ?thesis
    using q(4) exp by (auto simp: reservations_expire_def expire_row_def active_iff split: if_splits)
qed

text \<open>Confirming a reservation in the in-memory book takes its amount out of the total new
  reservations are checked against, although the risk is now certain.\<close>
theorem book_confirmed_not_counted:
  assumes "book_transition book i RS_CONFIRMED = Inr (book', r)" and "book_inv book"
  shows "bk_state r = RS_CONFIRMED \<and> map_of book' i = Some r
    \<and> i \<notin> fst ` set (filter (\<lambda>(k, j). bk_state j = RS_ACTIVE) book')
    \<and> book_total account book' \<le> book_total account book"
proof -
  have r: "map_of book' i = Some r" "bk_state r = RS_CONFIRMED"
    using assms(1) by (auto simp: book_transition_def Let_def split: option.splits if_splits)
  have "distinct (map fst book')" using book_transition_inv(1)[OF assms] by (simp add: book_inv_def)
  then have "j = r" if "(i, j) \<in> set book'" for j using that r(1) by simp
  with r book_transition_inv(2)[OF assms] show ?thesis by auto
qed

section \<open>Witnesses\<close>

definition demo_reserve :: "reservation_table \<Rightarrow> uuid \<Rightarrow> decimal \<Rightarrow> (reservation_table \<times> reservation) res" where
  "demo_reserve t i amount =
     reservations_reserve i 0 True t ''u'' ''a'' (''plan-'' @ i) amount 100 (minutes 10) []"

definition demo_row :: "uuid \<Rightarrow> decimal \<Rightarrow> reservation" where
  "demo_row i amount =
     \<lparr>rv_id = i, rv_owner = Some ''u'', rv_account = ''a'', rv_proposal = None,
      rv_trade_plan = Some (''plan-'' @ i), rv_command = None, rv_broker_order = None,
      rv_broker_position = None, rv_amount = amount, rv_state = PROVISIONAL,
      rv_expires_at = minutes 10, rv_version = 1, rv_details = [], rv_created_at = 0, rv_updated_at = 0\<rparr>"

lemma demo_reserve_60: "demo_reserve [] ''1'' 60 = Inr ([demo_row ''1'' 60], demo_row ''1'' 60)"
  by (simp add: demo_reserve_def demo_row_def reservations_reserve_def first_match_def
      reservations_expire_def reservation_insert_def d_add_def dec8_numeral Let_def)

lemma demo_inv: "reservation_inv [demo_row i (numeral n)]"
  by (simp add: reservation_inv_def demo_row_def)

theorem reservations_never_overcommit_witness:
  "dctx (active_total ''u'' ''a'' [demo_row ''1'' 60]) \<le> 100"
proof -
  have "store_reserves [] (''u'', ''a'') 100 [demo_row ''1'' 60]"
    using demo_reserve_60 unfolding store_reserves_def demo_reserve_def by fastforce
  then have run: "(\<lambda>t t'. store_moves t t' \<or>
      (\<exists>oa available. available \<le> (\<lambda>_. 100) oa \<and> store_reserves t oa available t'))\<^sup>*\<^sup>* [] [demo_row ''1'' 60]"
    by (intro r_into_rtranclp) blast
  show ?thesis
    using reservations_never_overcommit[OF run, of "''u''" "''a''"] by (simp add: reservation_inv_def)
qed

theorem reservation_terminal_states_absorb_witness:
  "(demo_row ''1'' 60)\<lparr>rv_state := RELEASED\<rparr>
     \<in> set (fst (reservations_expire (minutes 20) None [(demo_row ''1'' 60)\<lparr>rv_state := RELEASED\<rparr>]))"
  by (rule reservation_terminal_states_absorb[where t = "[(demo_row ''1'' 60)\<lparr>rv_state := RELEASED\<rparr>]"
        and oa = "(''u'', ''a'')" and available = 0])
     (simp_all add: store_moves.expire reservation_inv_def demo_row_def)

theorem reserve_idempotent_witness:
  "demo_reserve [demo_row ''1'' 60] ''1'' 60 = Inr ([demo_row ''1'' 60], demo_row ''1'' 60)"
  using reserve_idempotent[OF demo_reserve_60[unfolded demo_reserve_def]]
  unfolding demo_reserve_def by (simp add: first_match_def)

theorem split_partial_fill_total_witness:
  "\<exists>t' r s. reservations_split_partial_fill ''2'' 5 [demo_row ''1'' 60] ''1'' ''u'' 40 ''p'' 60
      = Inr (t', r, s) \<and> active_total ''u'' ''a'' t' - active_total ''u'' ''a'' [demo_row ''1'' 60] = 40"
proof -
  obtain t' r s where c: "reservations_split_partial_fill ''2'' 5 [demo_row ''1'' 60] ''1'' ''u'' 40 ''p'' 60
      = Inr (t', r, s)"
    by (simp add: reservations_split_partial_fill_def reservations_transition_def first_match_def
        demo_row_def reservation_insert_def replace_row_def Let_def)
  from split_partial_fill_total[OF c demo_inv] c show ?thesis by (simp add: demo_row_def)
qed

theorem open_position_reservation_expires_witness:
  "\<exists>t2 r2. reservations_transition 5 [demo_row ''1'' 60] ''1'' ''u'' OPEN_POSITION None None (Some ''p'') None None
      = Inr (t2, r2) \<and> rv_state r2 = OPEN_POSITION
    \<and> (\<forall>q \<in> set (fst (reservations_expire (minutes 10) None t2)). rv_id q = ''1'' \<longrightarrow> rv_state q = RS_EXPIRED)"
proof -
  obtain t2 r2 where c: "reservations_transition 5 [demo_row ''1'' 60] ''1'' ''u'' OPEN_POSITION None None
      (Some ''p'') None None = Inr (t2, r2)"
    by (simp add: reservations_transition_def first_match_def demo_row_def Let_def)
  from open_position_reservation_expires[OF demo_reserve_60[unfolded demo_reserve_def] _ _ _ c, of "minutes 10"] c
  show ?thesis by (simp add: demo_row_def reservation_inv_def)
qed

theorem book_confirmed_not_counted_witness:
  "\<exists>book' r. book_transition
      [(''1'', \<lparr>bk_id = ''1'', bk_account = ''a'', bk_proposal = ''p'', bk_amount = 60,
                bk_expires_at = 9, bk_state = RS_ACTIVE\<rparr>)] ''1'' RS_CONFIRMED = Inr (book', r)
    \<and> bk_state r = RS_CONFIRMED"
proof -
  let ?b = "[(''1'', \<lparr>bk_id = ''1'', bk_account = ''a'', bk_proposal = ''p'', bk_amount = 60,
                bk_expires_at = 9, bk_state = RS_ACTIVE\<rparr>)]"
  obtain book' r where c: "book_transition ?b ''1'' RS_CONFIRMED = Inr (book', r)"
    by (simp add: book_transition_def Let_def)
  moreover have "book_inv ?b" by (simp add: book_inv_def)
  ultimately show ?thesis using book_confirmed_not_counted[OF c] by blast
qed

end
