(* ===== verification/Ticket.thy ===== *)
theory Ticket
  imports RiskEngine
begin

text \<open>
  The native broker terms a trade is sized with (\<open>modules/risk/live_terms.py\<close>, the value type and its
  checks; \<open>load_live_trade_terms\<close> is in \<open>LiveAuthority\<close>) and the monetary ticket of a plan
  (\<open>modules/trading/ticket.py\<close>).
\<close>

section \<open>Live terms\<close>

record live_trade_terms =
  lt_account_currency :: string
  lt_price_currency :: string
  lt_quantity_unit :: quantity_unit
  lt_contract_multiplier :: decimal
  lt_tick_size :: decimal
  lt_tick_value :: "decimal option"
  lt_quantity_minimum :: decimal
  lt_quantity_maximum :: decimal
  lt_quantity_step :: decimal
  lt_specification_version_id :: uuid

definition validate_size :: "live_trade_terms \<Rightarrow> decimal \<Rightarrow> unit res" where
  "validate_size terms sz =
     rbind (ensure (\<not> (sz < lt_quantity_minimum terms \<or> lt_quantity_maximum terms < sz))
              (ValueError ''approved volume is outside broker minimum/maximum'')) (\<lambda>_.
     rbind (d_mod sz (lt_quantity_step terms)) (\<lambda>m.
     ensure (m = 0) (ValueError ''approved volume does not match broker lot step'')))"

definition maximum_stepped_size :: "live_trade_terms \<Rightarrow> decimal res" where
  "maximum_stepped_size terms =
     rbind (round_down (lt_quantity_maximum terms) (lt_quantity_step terms)) (\<lambda>sz.
     rbind (validate_size terms sz) (\<lambda>_. Inr sz))"

section \<open>Tickets\<close>

record target_scenario =
  ts_price :: decimal
  ts_profit_before_costs :: decimal
  ts_research_fraction :: "decimal option"
  ts_broker_hard_take_profit :: bool

record trade_ticket =
  tk_account_currency :: string
  tk_entry_basis :: string
  tk_requested_risk_limit :: decimal
  tk_potential_loss_before_costs :: decimal
  tk_targets :: "target_scenario list"
  tk_partial_targets_executable :: bool

definition build_scenario ::
    "live_trade_terms \<Rightarrow> instrument_type \<Rightarrow> decimal \<Rightarrow> decimal \<Rightarrow> nat \<times> decimal \<times> decimal option \<Rightarrow>
     target_scenario res" where
  "build_scenario terms ty entry sz item =
     (case item of (index, price, fraction) \<Rightarrow>
     rbind (type_aware_loss_per_unit ty entry price (lt_contract_multiplier terms)
              (Some (lt_tick_size terms)) (lt_tick_value terms) 1) (\<lambda>l.
     rbind (ensure (0 < price \<and> 0 \<le> d_mul sz l) (ValidationError ''TargetScenario'')) (\<lambda>_.
     Inr \<lparr>ts_price = price, ts_profit_before_costs = d_mul sz l, ts_research_fraction = fraction,
          ts_broker_hard_take_profit = (index = 0)\<rparr>)))"

definition wrong_side :: "direction \<Rightarrow> decimal \<Rightarrow> decimal \<Rightarrow> bool" where
  "wrong_side dir entry price \<longleftrightarrow>
     (dir = BUY \<and> price \<le> entry) \<or> (dir = SELL \<and> entry \<le> price)"

definition build_trade_ticket ::
    "live_trade_terms \<Rightarrow> instrument_type \<Rightarrow> direction \<Rightarrow> decimal \<Rightarrow> decimal \<Rightarrow> decimal list \<Rightarrow>
     decimal option list \<Rightarrow> decimal \<Rightarrow> risk_result \<Rightarrow> trade_ticket res" where
  "build_trade_ticket terms ty dir entry stop targets fractions risk_limit risk =
     (let sz = rr_approved_size risk in
      rbind (ensure (\<not> (rr_decision risk = HARD_BLOCK \<or> sz \<le> 0))
               (ValueError ''blocked trade cannot have an executable ticket'')) (\<lambda>_.
      rbind (validate_size terms sz) (\<lambda>_.
      rbind (ensure (\<not> ((dir = BUY \<and> entry \<le> stop) \<or> (dir = SELL \<and> stop \<le> entry)))
               (ValueError ''stop loss must be on the loss side of the entry'')) (\<lambda>_.
      rbind (ensure (\<not> (targets = [] \<or> length targets \<noteq> length fractions))
               (ValueError ''strategy targets and allocation references are incomplete'')) (\<lambda>_.
      rbind (ensure (\<not> list_ex (wrong_side dir entry) targets)
               (ValueError ''take-profit price must be on the profitable side of entry'')) (\<lambda>_.
      rbind (ensure (\<not> list_ex (\<lambda>f. case f of None \<Rightarrow> False | Some x \<Rightarrow> x \<le> 0 \<or> 1 < x) fractions)
               (ValueError ''research target fractions must be within (0, 1]'')) (\<lambda>_.
      rbind (type_aware_loss_per_unit ty entry stop (lt_contract_multiplier terms)
               (Some (lt_tick_size terms)) (lt_tick_value terms) 1) (\<lambda>l.
      rbind (rmap (build_scenario terms ty entry sz) (enumerate 0 (zip targets fractions))) (\<lambda>scenarios.
      rbind (ensure (0 < risk_limit \<and> 0 \<le> d_mul sz l) (ValidationError ''TradeTicket'')) (\<lambda>_.
      Inr \<lparr>tk_account_currency = lt_account_currency terms,
           tk_entry_basis = ''LATEST_CLOSED_CANDLE_INDICATIVE'',
           tk_requested_risk_limit = risk_limit,
           tk_potential_loss_before_costs = d_mul sz l,
           tk_targets = scenarios,
           tk_partial_targets_executable = False\<rparr>))))))))))"

section \<open>Lemmas\<close>

lemma dctx_eq_0_iff [simp]: "dctx x = 0 \<longleftrightarrow> x = 0"
  using dctx_pos[of x] dctx_pos[of "- x"] dctx_minus[of x] by (cases "x < 0"; cases "0 < x") force+

text \<open>A remainder is zero exactly when the size is a whole number of steps.\<close>

lemma d_mod_zero_iff:
  assumes "d_mod a b = Inr m" and "0 < b" and "0 \<le> a"
  shows "m = 0 \<longleftrightarrow> (\<exists>k. a = of_int k * b)"
proof -
  have m: "m = dctx (a - of_int (d_trunc (a / b)) * b)"
    using assms(1) by (auto simp: d_mod_def split: if_splits)
  have "m = 0 \<longleftrightarrow> a = of_int (d_trunc (a / b)) * b" unfolding m by simp
  also have "\<dots> \<longleftrightarrow> (\<exists>k. a = of_int k * b)"
    using assms(2) by (auto simp: field_simps)
  finally show ?thesis .
qed

lemma validate_size_ok_iff:
  assumes "0 < lt_quantity_step terms" and "0 \<le> sz"
  shows "validate_size terms sz = Inr () \<longleftrightarrow>
    lt_quantity_minimum terms \<le> sz \<and> sz \<le> lt_quantity_maximum terms
    \<and> (\<exists>k. sz = of_int k * lt_quantity_step terms)
    \<and> \<bar>d_trunc (sz / lt_quantity_step terms)\<bar> < 10 ^ 28"
proof (cases "d_mod sz (lt_quantity_step terms)")
  case (Inl e)
  then have "10 ^ 28 \<le> \<bar>d_trunc (sz / lt_quantity_step terms)\<bar>"
    using assms(1) by (auto simp: d_mod_def split: if_splits)
  with Inl show ?thesis by (auto simp: validate_size_def rbind_eq_Inr_iff)
next
  case (Inr m)
  then have "\<bar>d_trunc (sz / lt_quantity_step terms)\<bar> < 10 ^ 28"
    by (auto simp: d_mod_def split: if_splits)
  with Inr d_mod_zero_iff[OF Inr assms] show ?thesis
    by (auto simp: validate_size_def rbind_eq_Inr_iff not_less)
qed

lemma build_scenario_InrD:
  assumes "build_scenario terms ty entry sz (i, price, f) = Inr s"
  obtains l where "type_aware_loss_per_unit ty entry price (lt_contract_multiplier terms)
      (Some (lt_tick_size terms)) (lt_tick_value terms) 1 = Inr l"
    and "s = \<lparr>ts_price = price, ts_profit_before_costs = d_mul sz l, ts_research_fraction = f,
        ts_broker_hard_take_profit = (i = 0)\<rparr>" and "0 < price"
  using assms by (auto simp: build_scenario_def rbind_eq_Inr_iff)

lemma build_ticket_InrD:
  assumes "build_trade_ticket terms ty dir entry stop targets fractions risk_limit risk = Inr t"
  obtains l where "rr_decision risk \<noteq> HARD_BLOCK" "0 < rr_approved_size risk"
    "validate_size terms (rr_approved_size risk) = Inr ()"
    "\<not> ((dir = BUY \<and> entry \<le> stop) \<or> (dir = SELL \<and> stop \<le> entry))"
    "targets \<noteq> []" "length targets = length fractions"
    "\<forall>p \<in> set targets. \<not> wrong_side dir entry p"
    "type_aware_loss_per_unit ty entry stop (lt_contract_multiplier terms)
               (Some (lt_tick_size terms)) (lt_tick_value terms) 1 = Inr l"
    "rmap (build_scenario terms ty entry (rr_approved_size risk)) (enumerate 0 (zip targets fractions))
       = Inr (tk_targets t)"
    "tk_potential_loss_before_costs t = d_mul (rr_approved_size risk) l"
    "tk_requested_risk_limit t = risk_limit" "0 < risk_limit"
    "tk_account_currency t = lt_account_currency terms"
  using assms
  by (auto simp: build_trade_ticket_def Let_def rbind_eq_Inr_iff list_ex_iff not_le)

section \<open>Properties\<close>

text \<open>A ticket is built only for a size the broker takes: within its minimum and maximum and a whole
  number of lot steps; the stop is on the loss side and every target on the profit side of the entry;
  the loss it shows is the approved size times the unit loss and is positive; and of the targets, in the
  strategy's order, exactly the first is the broker's take-profit.\<close>
theorem ticket_consistent:
  assumes "build_trade_ticket terms ty dir entry stop targets fractions risk_limit risk = Inr t"
    and "0 < lt_quantity_step terms"
  shows "lt_quantity_minimum terms \<le> rr_approved_size risk
    \<and> rr_approved_size risk \<le> lt_quantity_maximum terms
    \<and> (\<exists>k. rr_approved_size risk = of_int k * lt_quantity_step terms)
    \<and> (if dir = BUY then stop < entry else entry < stop)
    \<and> 0 < tk_potential_loss_before_costs t
    \<and> map ts_price (tk_targets t) = targets
    \<and> (\<forall>s \<in> set (tk_targets t). (if dir = BUY then entry < ts_price s else ts_price s < entry)
          \<and> 0 < ts_profit_before_costs s)
    \<and> map ts_broker_hard_take_profit (tk_targets t) = map (\<lambda>i. i = 0) [0..<length targets]"
proof -
  let ?sz = "rr_approved_size risk"
  obtain l where d: "0 < ?sz" "validate_size terms ?sz = Inr ()"
    "\<not> ((dir = BUY \<and> entry \<le> stop) \<or> (dir = SELL \<and> stop \<le> entry))"
    "length targets = length fractions" "\<forall>p \<in> set targets. \<not> wrong_side dir entry p"
    "type_aware_loss_per_unit ty entry stop (lt_contract_multiplier terms)
               (Some (lt_tick_size terms)) (lt_tick_value terms) 1 = Inr l"
    "rmap (build_scenario terms ty entry ?sz) (enumerate 0 (zip targets fractions)) = Inr (tk_targets t)"
    "tk_potential_loss_before_costs t = d_mul ?sz l"
    by (rule build_ticket_InrD[OF assms(1)]) blast
  have len: "length (tk_targets t) = length targets" using rmap_Inr_length[OF d(7)] d(4) by simp
  have item: "\<exists>l. type_aware_loss_per_unit ty entry (targets ! i) (lt_contract_multiplier terms)
      (Some (lt_tick_size terms)) (lt_tick_value terms) 1 = Inr l
    \<and> tk_targets t ! i = \<lparr>ts_price = targets ! i, ts_profit_before_costs = d_mul ?sz l,
        ts_research_fraction = fractions ! i, ts_broker_hard_take_profit = (i = 0)\<rparr>"
    if "i < length targets" for i
    using rmap_Inr_nth[OF d(7), of i] that d(4)
    by (auto simp: nth_enumerate_eq elim!: build_scenario_InrD)
  have item': "ts_price (tk_targets t ! i) = targets ! i"
    "ts_broker_hard_take_profit (tk_targets t ! i) = (i = 0)" if "i < length targets" for i
    using item[OF that] by auto
  have prices: "map ts_price (tk_targets t) = targets"
    "map ts_broker_hard_take_profit (tk_targets t) = map (\<lambda>i. i = 0) [0..<length targets]"
    by (auto intro!: nth_equalityI simp: len item')
  have side: "if dir = BUY then entry < ts_price s else ts_price s < entry" if "s \<in> set (tk_targets t)" for s
    using that d(5) unfolding prices(1)[symmetric] by (cases dir) (auto simp: wrong_side_def)
  have profit: "0 < ts_profit_before_costs s" if s: "s \<in> set (tk_targets t)" for s
  proof -
    obtain i where i: "i < length targets" "s = tk_targets t ! i" using s
      unfolding in_set_conv_nth len by blast
    then obtain l' where l': "type_aware_loss_per_unit ty entry (targets ! i) (lt_contract_multiplier terms)
        (Some (lt_tick_size terms)) (lt_tick_value terms) 1 = Inr l'"
      and "ts_profit_before_costs s = d_mul ?sz l'" using item[OF i(1)] by auto
    then show ?thesis using d(1) type_aware_loss_pos[OF l'] by (simp add: d_pos)
  qed
  have "0 < tk_potential_loss_before_costs t"
    using d(1,8) type_aware_loss_pos[OF d(6)] by (simp add: d_pos)
  moreover have "if dir = BUY then stop < entry else entry < stop" using d(3) by (cases dir) auto
  ultimately show ?thesis
    using d(1,2) validate_size_ok_iff[OF assms(2), of ?sz] prices side profit by auto
qed

text \<open>The largest volume the terms offer is one the terms accept: a whole number of lot steps not
  above the broker's maximum.\<close>
theorem maximum_stepped_size_valid:
  assumes "maximum_stepped_size terms = Inr sz" and "0 < lt_quantity_step terms" and "0 \<le> lt_quantity_maximum terms"
  shows "validate_size terms sz = Inr () \<and> lt_quantity_minimum terms \<le> sz \<and> sz \<le> lt_quantity_maximum terms
    \<and> (\<exists>k. sz = of_int k * lt_quantity_step terms)"
proof -
  have v: "validate_size terms sz = Inr ()" and r: "round_down (lt_quantity_maximum terms) (lt_quantity_step terms) = Inr sz"
    using assms(1) by (auto simp: maximum_stepped_size_def rbind_eq_Inr_iff)
  have "0 \<le> sz" by (rule round_down_nonneg[OF assms(3) r])
  with v validate_size_ok_iff[OF assms(2)] show ?thesis by blast
qed

section \<open>Witnesses\<close>

definition demo_terms :: live_trade_terms where
  "demo_terms = \<lparr>lt_account_currency = ''USD'', lt_price_currency = ''USD'', lt_quantity_unit = LOTS,
     lt_contract_multiplier = 1000, lt_tick_size = 1 / 100, lt_tick_value = None,
     lt_quantity_minimum = 1 / 100, lt_quantity_maximum = 5, lt_quantity_step = 1 / 100,
     lt_specification_version_id = ''spec''\<rparr>"

lemma demo_terms_validate: "validate_size demo_terms (1 / 2) = Inr ()"
  by (simp add: validate_size_def demo_terms_def d_mod_def d_trunc_def)

definition demo_risk :: risk_result where
  "demo_risk =
     (case evaluate False (demo_context demo_limits (Some 50) [100]) demo_candidate of
        Inr r \<Rightarrow> r\<lparr>rr_approved_size := 49 / 100\<rparr>
      | Inl _ \<Rightarrow> undefined)"

theorem ticket_consistent_witness:
  "\<exists>t. build_trade_ticket demo_terms CFD BUY (11 / 10) (109 / 100) [112 / 100, 115 / 100] [Some (1 / 2), None]
       50 (demo_risk\<lparr>rr_decision := PASS\<rparr>) = Inr t
    \<and> map ts_price (tk_targets t) = [112 / 100, 115 / 100] \<and> 0 < tk_potential_loss_before_costs t"
proof -
  have sz: "rr_approved_size demo_risk = 49 / 100"
    using demo_evaluation_reserved by (auto simp: demo_risk_def)
  obtain t where t: "build_trade_ticket demo_terms CFD BUY (11 / 10) (109 / 100) [112 / 100, 115 / 100]
      [Some (1 / 2), None] 50 (demo_risk\<lparr>rr_decision := PASS\<rparr>) = Inr t"
    by (simp add: build_trade_ticket_def validate_size_def demo_terms_def d_mod_def d_trunc_def sz
        wrong_side_def type_aware_loss_per_unit_def build_scenario_def dec_defs dec8_numeral Let_def)
  from ticket_consistent[OF t] t show ?thesis by (simp add: demo_terms_def)
qed

theorem maximum_stepped_size_valid_witness:
  "maximum_stepped_size demo_terms = Inr 5 \<and> lt_quantity_minimum demo_terms \<le> 5"
proof -
  have m: "maximum_stepped_size demo_terms = Inr 5"
    by (simp add: maximum_stepped_size_def validate_size_def demo_terms_def d_mod_def d_trunc_def
        round_down_def dec_defs dec8_numeral)
  from maximum_stepped_size_valid[OF m] m show ?thesis by (simp add: demo_terms_def)
qed

end
