(* ===== verification/Trading.thy ===== *)
theory Trading
  imports Ticket Reservations
begin

text \<open>
  The value types of \<open>modules/trading/models.py\<close> and the two life cycles of the program: execution
  commands (\<open>_TRANSITIONS\<close>, \<open>transition\<close> of \<open>execution.py\<close>) and trade plans (\<open>_PLAN_TRANSITIONS\<close>,
  \<open>transition_trade_plan\<close> of \<open>trade_plans.py\<close>).  The interface \<open>lifecycle\<close> states what a transition
  function promises; both instances are interpretations of it.
\<close>

section \<open>Value types\<close>

text \<open>
  A requested postcondition is a JSON object.  \<open>JDec d\<close> is \<open>str(d)\<close> of a decimal, compared by value;
  \<open>JDecs\<close> a list of such texts.
\<close>

datatype jvalue = JNull | JStr string | JDec decimal | JDecs "decimal list"

type_synonym postcondition = "(string, jvalue) dict"

text \<open>Two Python dictionaries are equal when they bind the same keys to the same values.\<close>

definition dict_eq :: "('k, 'v) dict \<Rightarrow> ('k, 'v) dict \<Rightarrow> bool" where
  "dict_eq p q \<longleftrightarrow> list_all (\<lambda>k. map_of p k = map_of q k) (map fst p @ map fst q)"

lemma dict_eq_iff: "dict_eq p q \<longleftrightarrow> map_of p = map_of q"
proof
  assume "dict_eq p q"
  then have "map_of p k = map_of q k" if "k \<in> fst ` set p \<or> k \<in> fst ` set q" for k
    using that by (auto simp: dict_eq_def list_all_iff)
  then show "map_of p = map_of q"
    by (intro ext) (metis map_of_eq_None_iff)
qed (simp add: dict_eq_def list_all_iff)

record execution_permissions =
  pm_account_id :: uuid
  pm_version :: int
  pm_new_entry :: bool
  pm_order_cancellation :: bool
  pm_stop_loss :: bool
  pm_take_profit :: bool
  pm_partial_close :: bool
  pm_full_exit :: bool
  pm_reason :: string

fun permissions_allow :: "execution_permissions \<Rightarrow> execution_action \<Rightarrow> bool" where
  "permissions_allow p PLACE_ORDER = pm_new_entry p"
| "permissions_allow p CANCEL_ORDER = pm_order_cancellation p"
| "permissions_allow p SET_OR_CHANGE_STOP_LOSS = pm_stop_loss p"
| "permissions_allow p SET_OR_CHANGE_TAKE_PROFIT = pm_take_profit p"
| "permissions_allow p PARTIAL_CLOSE = pm_partial_close p"
| "permissions_allow p FULL_EXIT = pm_full_exit p"

datatype kill_scope = PLATFORM | ACCOUNT

record kill_switch =
  ks_scope :: kill_scope
  ks_active :: bool
  ks_safety_epoch :: int
  ks_account_id :: "uuid option"
  ks_reason :: string

record trade_construction =
  tc_instrument :: string
  tc_direction :: direction
  tc_entry :: decimal
  tc_stop_loss :: decimal
  tc_targets :: "decimal list"
  tc_invalidation :: string
  tc_approved_size :: decimal
  tc_quantity_unit :: quantity_unit
  tc_asset_class :: asset_class
  tc_instrument_type :: instrument_type
  tc_venue_instrument_id :: uuid
  tc_specification_version_id :: uuid
  tc_futures_contract_id :: "uuid option"

text \<open>The constraints of the fields of a construction.\<close>

definition construction_valid :: "trade_construction \<Rightarrow> bool" where
  "construction_valid c \<longleftrightarrow>
     0 < tc_entry c \<and> 0 < tc_stop_loss c \<and> tc_targets c \<noteq> [] \<and> 0 < tc_approved_size c"

record execution_authorization =
  ea_id :: uuid
  ea_account_id :: uuid
  ea_action :: execution_action
  ea_permission_version :: int
  ea_platform_safety_epoch :: int
  ea_account_safety_epoch :: int
  ea_digest :: string
  ea_issued_at :: timestamp
  ea_expires_at :: timestamp

record execution_attempt =
  at_attempt :: int
  at_state :: command_state
  at_request_digest :: string
  at_response_digest :: "string option"
  at_dispatched_at :: timestamp
  at_error_code :: "string option"

record execution_command =
  cm_id :: uuid
  cm_account_id :: uuid
  cm_action :: execution_action
  cm_trade_plan_id :: "uuid option"
  cm_management_action_id :: "uuid option"
  cm_authorization_id :: "uuid option"
  cm_idempotency_key :: string
  cm_postcondition :: postcondition
  cm_expected_broker_version :: "string option"
  cm_target_order_id :: "string option"
  cm_target_position_id :: "string option"
  cm_state :: command_state
  cm_outcome_certainty :: outcome_certainty
  cm_attempts :: "execution_attempt list"
  cm_broker_order_id :: "string option"
  cm_created_at :: timestamp
  cm_version :: int

record trade_plan =
  tp_id :: uuid
  tp_owner_id :: uuid
  tp_account_id :: uuid
  tp_state :: trade_plan_state
  tp_construction :: trade_construction
  tp_strategy_version_id :: uuid
  tp_market_fingerprint_id :: uuid
  tp_risk :: risk_result
  tp_ticket :: "trade_ticket option"
  tp_policy_status :: string
  tp_guardrail_status :: string
  tp_critic_status :: string
  tp_evidence_refs :: "string list"
  tp_reservation_id :: "uuid option"
  tp_authorization :: "execution_authorization option"
  tp_execution_command_id :: "uuid option"
  tp_expires_at :: timestamp
  tp_version :: int

section \<open>Life cycles\<close>

locale lifecycle =
  fixes state_of :: "'a \<Rightarrow> 's"
    and version_of :: "'a \<Rightarrow> int"
    and successors :: "'s \<Rightarrow> 's list"
    and move :: "'a \<Rightarrow> 's \<Rightarrow> 'a res"
  assumes move_same: "move x (state_of x) = Inr x"
    and move_allowed: "t \<noteq> state_of x \<Longrightarrow> t \<in> set (successors (state_of x)) \<Longrightarrow>
      \<exists>y. move x t = Inr y \<and> state_of y = t \<and> version_of y = version_of x + 1"
    and move_refused: "t \<noteq> state_of x \<Longrightarrow> t \<notin> set (successors (state_of x)) \<Longrightarrow> \<exists>e. move x t = Inl e"
begin

definition follows :: "'s \<Rightarrow> 's \<Rightarrow> bool" where
  "follows s t \<longleftrightarrow> t \<in> set (successors s)"

lemma move_InrD:
  assumes "move x t = Inr y"
  shows "state_of y = t" "t = state_of x \<and> y = x \<or> follows (state_of x) t \<and> version_of y = version_of x + 1"
  using assms move_same move_allowed[of t x] move_refused[of t x]
  by (cases "t = state_of x"; cases "t \<in> set (successors (state_of x))"; force simp: follows_def)+

lemma move_ok_iff: "is_ok (move x t) \<longleftrightarrow> t = state_of x \<or> follows (state_of x) t"
proof (cases "t = state_of x \<or> follows (state_of x) t")
  case True
  then have "\<exists>y. move x t = Inr y"
    using move_same[of x] move_allowed[of t x] by (cases "t = state_of x") (auto simp: follows_def)
  with True show ?thesis by auto
next
  case False
  then show ?thesis using move_refused[of t x] by (auto simp: follows_def)
qed

text \<open>A run of requested targets: the state stays reachable in the table, the version never falls.\<close>

lemma run_reachable:
  assumes "rfold (\<lambda>t x. move x t) ts x = Inr y"
  shows "follows\<^sup>*\<^sup>* (state_of x) (state_of y)" "version_of x \<le> version_of y"
    "version_of y \<le> version_of x + int (length ts)"
proof -
  have "follows\<^sup>*\<^sup>* (state_of x) (state_of y) \<and> version_of x \<le> version_of y
      \<and> version_of y \<le> version_of x + int (length ts)"
    using assms
  proof (induction ts arbitrary: x)
    case (Cons t ts)
    then obtain z where z: "move x t = Inr z" "rfold (\<lambda>t x. move x t) ts z = Inr y" by auto
    have "follows\<^sup>*\<^sup>* (state_of x) (state_of z) \<and> version_of x \<le> version_of z \<and> version_of z \<le> version_of x + 1"
      using move_InrD[OF z(1)] by auto
    with Cons.IH[OF z(2)] show ?case by (auto intro: rtranclp_trans)
  qed simp
  then show "follows\<^sup>*\<^sup>* (state_of x) (state_of y)" "version_of x \<le> version_of y"
    "version_of y \<le> version_of x + int (length ts)" by simp_all
qed

lemma closed_run:
  assumes "rfold (\<lambda>t x. move x t) ts x = Inr y"
    and "\<forall>s \<in> S. set (successors s) \<subseteq> S" and "state_of x \<in> S"
  shows "state_of y \<in> S"
  using run_reachable(1)[OF assms(1)] assms(3)
  by (induction rule: rtranclp_induct) (use assms(2) in \<open>auto simp: follows_def\<close>)

text \<open>A run that leaves a set of states whose only exit is \<open>e\<close> passes \<open>e\<close>.\<close>

lemma run_exits:
  assumes "rfold (\<lambda>t x. move x t) ts x = Inr y"
    and "state_of x \<in> S" and "state_of y \<notin> S" and "\<forall>s \<in> S. set (successors s) \<subseteq> insert e S"
  obtains ts1 ts2 z where "ts = ts1 @ e # ts2" "rfold (\<lambda>t x. move x t) ts2 z = Inr y" "state_of z = e"
  using assms(1,2)
proof (induction ts arbitrary: x thesis)
  case (Cons t ts)
  then obtain z where z: "move x t = Inr z" "rfold (\<lambda>t x. move x t) ts z = Inr y" by auto
  have zt: "state_of z = t" by (rule move_InrD(1)[OF z(1)])
  have "t = e \<or> t \<in> S"
    using move_InrD(2)[OF z(1)] Cons.prems(3) assms(4) by (auto simp: follows_def)
  then show ?case
  proof
    assume "t = e"
    with z(2) zt Cons.prems(1)[of "[]"] show ?thesis by simp
  next
    assume "t \<in> S"
    then show ?thesis
      by (rule Cons.IH[OF _ z(2)[unfolded zt[symmetric]], rotated, unfolded zt])
         (use Cons.prems(1) in \<open>metis append_Cons\<close>)
  qed
qed (use assms(3) in simp)

lemma final_stays:
  assumes "rfold (\<lambda>t x. move x t) ts x = Inr y" and "successors (state_of x) = []"
  shows "y = x"
  using assms
proof (induction ts arbitrary: x)
  case (Cons t ts)
  then obtain z where z: "move x t = Inr z" "rfold (\<lambda>t x. move x t) ts z = Inr y" by auto
  have "z = x" using move_InrD(2)[OF z(1)] Cons.prems(2) by (simp add: follows_def)
  with Cons.IH[OF z(2)] Cons.prems(2) show ?case by simp
qed simp

end

subsection \<open>Commands\<close>

fun command_transitions :: "command_state \<Rightarrow> command_state list" where
  "command_transitions CREATED = [VALIDATING, AUTHORIZED, BLOCKED]"
| "command_transitions VALIDATING = [AUTHORIZED, BLOCKED]"
| "command_transitions AUTHORIZED = [QUEUED, EXPIRED, BLOCKED]"
| "command_transitions QUEUED = [DISPATCHING, EXPIRED]"
| "command_transitions DISPATCHING = [ACKNOWLEDGED, REJECTED, OUTCOME_UNKNOWN, RECONCILING]"
| "command_transitions RECONCILING = [ACKNOWLEDGED, APPLIED, NO_EFFECT_CONFIRMED, BLOCKED_AMBIGUOUS]"
| "command_transitions ACKNOWLEDGED = [PARTIALLY_APPLIED, APPLIED, RECONCILING, REJECTED]"
| "command_transitions PARTIALLY_APPLIED = [APPLIED, RECONCILING]"
| "command_transitions OUTCOME_UNKNOWN = [RECONCILING]"
| "command_transitions _ = []"

definition command_transition :: "execution_command \<Rightarrow> command_state \<Rightarrow> execution_command res" where
  "command_transition command target =
     (if target = cm_state command then Inr command
      else if target \<notin> set (command_transitions (cm_state command))
      then Inl (CommandTransitionError
             (''cannot transition '' @ command_state_value (cm_state command) @ '' to ''
               @ command_state_value target))
      else Inr (command\<lparr>cm_state := target, cm_version := cm_version command + 1\<rparr>))"

interpretation command: lifecycle cm_state cm_version command_transitions command_transition
  by unfold_locales (simp_all add: command_transition_def)

subsection \<open>Trade plans\<close>

fun plan_transitions :: "trade_plan_state \<Rightarrow> trade_plan_state list" where
  "plan_transitions TP_CONSTRUCTED = [TP_VALIDATING, TP_BLOCKED]"
| "plan_transitions TP_VALIDATING = [TP_READY, TP_BLOCKED]"
| "plan_transitions TP_READY = [TP_AUTHORIZED, TP_EXPIRED, TP_BLOCKED]"
| "plan_transitions TP_AUTHORIZED = [TP_EXECUTION_PENDING, TP_REVALIDATION_REQUIRED]"
| "plan_transitions TP_EXECUTION_PENDING = [TP_EXECUTING, TP_REVALIDATION_REQUIRED]"
| "plan_transitions TP_EXECUTING = [TP_ACTIVE, TP_REVALIDATION_REQUIRED]"
| "plan_transitions TP_ACTIVE = [TP_EXPIRED, TP_CANCELLED]"
| "plan_transitions _ = []"

fun plan_state_value :: "trade_plan_state \<Rightarrow> string" where
  "plan_state_value TP_CONSTRUCTED = ''CONSTRUCTED''"
| "plan_state_value TP_VALIDATING = ''VALIDATING''"
| "plan_state_value TP_BLOCKED = ''BLOCKED''"
| "plan_state_value TP_READY = ''READY''"
| "plan_state_value TP_AUTHORIZED = ''AUTHORIZED''"
| "plan_state_value TP_EXECUTION_PENDING = ''EXECUTION_PENDING''"
| "plan_state_value TP_EXECUTING = ''EXECUTING''"
| "plan_state_value TP_ACTIVE = ''ACTIVE''"
| "plan_state_value TP_EXPIRED = ''EXPIRED''"
| "plan_state_value TP_CANCELLED = ''CANCELLED''"
| "plan_state_value TP_REVALIDATION_REQUIRED = ''REVALIDATION_REQUIRED''"

definition transition_trade_plan :: "trade_plan \<Rightarrow> trade_plan_state \<Rightarrow> trade_plan res" where
  "transition_trade_plan plan target =
     (if target = tp_state plan then Inr plan
      else if target \<notin> set (plan_transitions (tp_state plan))
      then Inl (ValueError (''cannot transition Trade Plan '' @ plan_state_value (tp_state plan)
                  @ '' to '' @ plan_state_value target))
      else Inr (plan\<lparr>tp_state := target, tp_version := tp_version plan + 1\<rparr>))"

interpretation plan: lifecycle tp_state tp_version plan_transitions transition_trade_plan
  by unfold_locales (simp_all add: transition_trade_plan_def)

section \<open>Building a plan\<close>

definition build_trade_plan ::
    "uuid \<Rightarrow> uuid \<Rightarrow> timestamp \<Rightarrow> uuid \<Rightarrow> uuid \<Rightarrow> trade_construction \<Rightarrow> uuid \<Rightarrow> uuid \<Rightarrow> risk_result \<Rightarrow>
     trade_ticket option \<Rightarrow> string list \<Rightarrow> timestamp \<Rightarrow> reservation_book option \<Rightarrow>
     (trade_plan \<times> reservation_book option) res" where
  "build_trade_plan plan_id reservation_id now owner account construction strategy_version
       market_fingerprint risk ticket evidence expires_at reservations =
     (let plan =
        \<lparr>tp_id = plan_id, tp_owner_id = owner, tp_account_id = account,
         tp_state = (if rr_decision risk = HARD_BLOCK then TP_BLOCKED else TP_READY),
         tp_construction =
           (if tc_approved_size construction \<noteq> rr_approved_size risk
            then construction\<lparr>tc_approved_size := rr_approved_size risk\<rparr> else construction),
         tp_strategy_version_id = strategy_version, tp_market_fingerprint_id = market_fingerprint,
         tp_risk = risk, tp_ticket = ticket, tp_policy_status = ''PASS'',
         tp_guardrail_status = ''PASS'', tp_critic_status = ''PASS'', tp_evidence_refs = evidence,
         tp_reservation_id = None, tp_authorization = None, tp_execution_command_id = None,
         tp_expires_at = expires_at, tp_version = 1\<rparr>
      in case reservations of
           None \<Rightarrow> Inr (plan, None)
         | Some book \<Rightarrow>
             if rr_decision risk = HARD_BLOCK then Inr (plan, Some book)
             else rbind (book_reserve reservation_id now book account plan_id
                           (sn_candidate_trade_risk (rr_snapshot risk))
                           (sn_remaining_portfolio_risk_capacity (rr_snapshot risk)) (minutes 10))
                    (\<lambda>(book', r). Inr (plan\<lparr>tp_reservation_id := Some (bk_id r)\<rparr>, Some book')))"

section \<open>Properties\<close>

text \<open>The states of a command that was handed to the broker.\<close>

definition after_dispatch :: "command_state set" where
  "after_dispatch = {ACKNOWLEDGED, REJECTED, OUTCOME_UNKNOWN, RECONCILING, PARTIALLY_APPLIED, APPLIED,
     NO_EFFECT_CONFIRMED, BLOCKED_AMBIGUOUS}"

lemma after_dispatch_closed: "\<forall>s \<in> after_dispatch. set (command_transitions s) \<subseteq> after_dispatch"
  by (auto simp: after_dispatch_def)

text \<open>No blind retry: once the broker may have seen a command, no sequence of transitions brings it
  back to a state from which it is sent again.\<close>
theorem command_no_redispatch:
  assumes "rfold (\<lambda>t c. command_transition c t) ts c = Inr c'" and "cm_state c \<in> after_dispatch"
  shows "cm_state c' \<in> after_dispatch \<and> cm_state c' \<notin> {CREATED, VALIDATING, AUTHORIZED, QUEUED, DISPATCHING}
    \<and> cm_version c \<le> cm_version c'"
proof -
  have "cm_state c' \<in> after_dispatch"
    by (rule command.closed_run[OF assms(1) after_dispatch_closed assms(2)])
  with command.run_reachable(2)[OF assms(1)] show ?thesis by (auto simp: after_dispatch_def)
qed

text \<open>A command that is to be dispatched was queued, and a queued one authorized: a sequence of
  transitions that ends in \<open>DISPATCHING\<close> from the creation of the command passes \<open>AUTHORIZED\<close> and then
  \<open>QUEUED\<close>.\<close>
theorem command_dispatch_needs_authorization:
  assumes "rfold (\<lambda>t c. command_transition c t) ts c = Inr c'"
    and "cm_state c \<in> {CREATED, VALIDATING}" and "cm_state c' = DISPATCHING"
  shows "\<exists>ts1 ts2. ts = ts1 @ ts2 \<and> AUTHORIZED \<in> set ts1 \<and> QUEUED \<in> set ts2"
proof -
  obtain ts1 ts2 m where m: "ts = ts1 @ AUTHORIZED # ts2"
    "rfold (\<lambda>t c. command_transition c t) ts2 m = Inr c'" "cm_state m = AUTHORIZED"
    by (rule command.run_exits[OF assms(1), of "{CREATED, VALIDATING, BLOCKED}" AUTHORIZED])
       (use assms(2,3) in auto)
  obtain us1 us2 where "ts2 = us1 @ QUEUED # us2"
    by (rule command.run_exits[OF m(2), of "{AUTHORIZED, EXPIRED, BLOCKED}" QUEUED])
       (use assms(3) m(3) in auto)
  with m(1) show ?thesis by (intro exI[of _ "ts1 @ [AUTHORIZED]"] exI[of _ ts2]) simp
qed

text \<open>A finished plan stays finished, and a plan reaches \<open>ACTIVE\<close> only in order: any sequence of
  transitions changes the version at most once per request, and from \<open>BLOCKED\<close>, \<open>EXPIRED\<close>, \<open>CANCELLED\<close> or
  \<open>REVALIDATION_REQUIRED\<close> it changes nothing.\<close>
theorem plan_lifecycle:
  assumes "rfold (\<lambda>t p. transition_trade_plan p t) ts p = Inr p'"
  shows "tp_version p \<le> tp_version p' \<and> tp_version p' \<le> tp_version p + int (length ts)
    \<and> plan.follows\<^sup>*\<^sup>* (tp_state p) (tp_state p')
    \<and> (tp_state p \<in> {TP_BLOCKED, TP_EXPIRED, TP_CANCELLED, TP_REVALIDATION_REQUIRED} \<longrightarrow> p' = p)"
  using plan.run_reachable[OF assms] plan.final_stays[OF assms] by auto

text \<open>A built plan carries the size the risk engine approved, is blocked exactly when the engine
  blocked it, and when it is reserved for, the book's total of the account is within the portfolio
  capacity the engine reported.\<close>
theorem build_trade_plan_sound:
  assumes "build_trade_plan pid rid now owner account c sv mf risk ticket ev until book = Inr (plan, book')"
  shows "tc_approved_size (tp_construction plan) = rr_approved_size risk
    \<and> (tp_state plan = TP_BLOCKED \<longleftrightarrow> rr_decision risk = HARD_BLOCK)
    \<and> (tp_state plan \<noteq> TP_BLOCKED \<longrightarrow> tp_state plan = TP_READY)
    \<and> (\<forall>b. book = Some b \<and> rr_decision risk \<noteq> HARD_BLOCK \<and> book_inv b \<and> map_of b rid = None \<longrightarrow>
         tp_reservation_id plan = Some rid
         \<and> (\<exists>b'. book' = Some b' \<and> book_inv b' \<and>
              book_total account b' \<le> sn_remaining_portfolio_risk_capacity (rr_snapshot risk)))"
proof -
  have "tc_approved_size (tp_construction plan) = rr_approved_size risk
    \<and> (tp_state plan = TP_BLOCKED \<longleftrightarrow> rr_decision risk = HARD_BLOCK)
    \<and> (tp_state plan \<noteq> TP_BLOCKED \<longrightarrow> tp_state plan = TP_READY)"
    using assms by (auto simp: build_trade_plan_def Let_def rbind_eq_Inr_iff split: option.splits if_splits)
  moreover have "tp_reservation_id plan = Some rid \<and> (\<exists>b'. book' = Some b' \<and> book_inv b' \<and>
      book_total account b' \<le> sn_remaining_portfolio_risk_capacity (rr_snapshot risk))"
    if b: "book = Some b" "rr_decision risk \<noteq> HARD_BLOCK" "book_inv b" "map_of b rid = None" for b
  proof -
    obtain b' r where r: "book_reserve rid now b account pid (sn_candidate_trade_risk (rr_snapshot risk))
        (sn_remaining_portfolio_risk_capacity (rr_snapshot risk)) (minutes 10) = Inr (b', r)"
      and p: "book' = Some b'" "tp_reservation_id plan = Some (bk_id r)"
      using assms b(1,2) by (auto simp: build_trade_plan_def Let_def rbind_eq_Inr_iff)
    have "bk_id r = rid" using r by (auto simp: book_reserve_def Let_def split: if_splits)
    with p book_reserve_usage[OF r b(4,3)] show ?thesis by simp
  qed
  ultimately show ?thesis by blast
qed

section \<open>Witnesses\<close>

definition demo_command :: "command_state \<Rightarrow> execution_command" where
  "demo_command st =
     \<lparr>cm_id = ''c'', cm_account_id = ''a'', cm_action = PLACE_ORDER, cm_trade_plan_id = Some ''plan'',
      cm_management_action_id = None, cm_authorization_id = Some ''auth'',
      cm_idempotency_key = ''entry:plan'', cm_postcondition = [(''quantity'', JDec 1)],
      cm_expected_broker_version = None, cm_target_order_id = None, cm_target_position_id = None,
      cm_state = st, cm_outcome_certainty = OC_NONE, cm_attempts = [], cm_broker_order_id = None,
      cm_created_at = 0, cm_version = 1\<rparr>"

theorem command_no_redispatch_witness:
  "\<exists>c'. rfold (\<lambda>t c. command_transition c t) [RECONCILING, NO_EFFECT_CONFIRMED] (demo_command OUTCOME_UNKNOWN)
      = Inr c' \<and> cm_state c' \<notin> {CREATED, VALIDATING, AUTHORIZED, QUEUED, DISPATCHING}"
proof -
  obtain c' where c: "rfold (\<lambda>t c. command_transition c t) [RECONCILING, NO_EFFECT_CONFIRMED]
      (demo_command OUTCOME_UNKNOWN) = Inr c'"
    by (simp add: command_transition_def demo_command_def)
  from command_no_redispatch[OF c] c show ?thesis by (simp add: demo_command_def after_dispatch_def)
qed

theorem command_dispatch_needs_authorization_witness:
  "\<exists>ts1 ts2. [AUTHORIZED, QUEUED, DISPATCHING] = ts1 @ ts2 \<and> AUTHORIZED \<in> set ts1 \<and> QUEUED \<in> set ts2"
proof -
  obtain c' where c: "rfold (\<lambda>t c. command_transition c t) [AUTHORIZED, QUEUED, DISPATCHING]
      (demo_command CREATED) = Inr c'" "cm_state c' = DISPATCHING"
    by (simp add: command_transition_def demo_command_def)
  show ?thesis
    by (rule command_dispatch_needs_authorization[OF c(1) _ c(2)]) (simp add: demo_command_def)
qed

definition demo_plan :: "trade_plan_state \<Rightarrow> risk_result \<Rightarrow> trade_plan" where
  "demo_plan st risk =
     \<lparr>tp_id = ''plan'', tp_owner_id = ''u'', tp_account_id = ''a'', tp_state = st,
      tp_construction =
        \<lparr>tc_instrument = ''EURUSD'', tc_direction = BUY, tc_entry = 11 / 10, tc_stop_loss = 109 / 100,
         tc_targets = [112 / 100], tc_invalidation = '''', tc_approved_size = 1 / 2,
         tc_quantity_unit = LOTS, tc_asset_class = FOREX, tc_instrument_type = CFD,
         tc_venue_instrument_id = ''v'', tc_specification_version_id = ''spec'',
         tc_futures_contract_id = None\<rparr>,
      tp_strategy_version_id = ''s'', tp_market_fingerprint_id = ''f'', tp_risk = risk,
      tp_ticket = None, tp_policy_status = ''PASS'', tp_guardrail_status = ''PASS'',
      tp_critic_status = ''PASS'', tp_evidence_refs = [], tp_reservation_id = None,
      tp_authorization = None, tp_execution_command_id = None, tp_expires_at = minutes 10,
      tp_version = 1\<rparr>"

theorem plan_lifecycle_witness:
  "\<exists>p'. rfold (\<lambda>t p. transition_trade_plan p t) [TP_AUTHORIZED, TP_EXECUTION_PENDING]
      (demo_plan TP_READY demo_risk) = Inr p' \<and> 1 \<le> tp_version p' \<and> tp_version p' \<le> 3"
proof -
  obtain p' where p: "rfold (\<lambda>t p. transition_trade_plan p t) [TP_AUTHORIZED, TP_EXECUTION_PENDING]
      (demo_plan TP_READY demo_risk) = Inr p'"
    by (simp add: transition_trade_plan_def demo_plan_def)
  from plan_lifecycle[OF p] p show ?thesis by (simp add: demo_plan_def)
qed

theorem build_trade_plan_sound_witness:
  "\<exists>plan b. build_trade_plan ''plan'' ''r'' 0 ''u'' ''a'' (tp_construction (demo_plan TP_READY demo_risk))
      ''s'' ''f'' (demo_risk\<lparr>rr_decision := PASS\<rparr>) None [] 0 None = Inr (plan, b)
    \<and> tc_approved_size (tp_construction plan) = 49 / 100 \<and> tp_state plan = TP_READY"
proof -
  have sz: "rr_approved_size demo_risk = 49 / 100"
    using demo_evaluation_reserved by (auto simp: demo_risk_def)
  obtain plan b where p: "build_trade_plan ''plan'' ''r'' 0 ''u'' ''a''
      (tp_construction (demo_plan TP_READY demo_risk)) ''s'' ''f'' (demo_risk\<lparr>rr_decision := PASS\<rparr>) None [] 0 None
        = Inr (plan, b)"
    by (simp add: build_trade_plan_def Let_def)
  from build_trade_plan_sound[OF p] p sz show ?thesis by auto
qed

end
