(* ===== verification/Execution.thy ===== *)
theory Execution
  imports Trading
begin

text \<open>
  Authorization and dispatch of commands: \<open>permissions.py\<close>, \<open>kill_switches.py\<close>, \<open>execution.py\<close>
  (\<open>ExecutionLedger\<close>, \<open>ExecutionService\<close>), \<open>authorization.py\<close> and \<open>authority.py\<close> under
  \<open>modules/trading\<close>.

  SHA-256 digests and the broker adapter are parameters.  Methods that update a model in place
  return the updated value; \<open>dispatch\<close> also returns the list of adapter calls it made, so that what
  reached the broker is part of the result.  The caller's own command object shares its attempt list
  with the copy \<open>dispatch\<close> returns; only the returned value is modelled.
\<close>

section \<open>Permissions and kill switches\<close>

definition update_permissions ::
    "execution_permissions \<Rightarrow> execution_permissions option \<Rightarrow> bool \<Rightarrow> execution_permissions res" where
  "update_permissions requested previous step_up_verified =
     rbind (ensure step_up_verified
              (PermissionError ''execution permission changes require step-up verification'')) (\<lambda>_.
     rbind (ensure (case previous of None \<Rightarrow> True | Some p \<Rightarrow> pm_account_id p = pm_account_id requested)
              (ValueError ''permission account scope cannot change'')) (\<lambda>_.
     Inr (requested\<lparr>pm_version := (case previous of None \<Rightarrow> 1 | Some p \<Rightarrow> pm_version p + 1)\<rparr>)))"

definition update_kill_switch ::
    "kill_switch \<Rightarrow> kill_switch option \<Rightarrow> bool \<Rightarrow> bool \<Rightarrow> kill_switch res" where
  "update_kill_switch requested previous step_up_verified health_verified =
     rbind (ensure step_up_verified
              (PermissionError ''kill-switch changes require step-up verification'')) (\<lambda>_.
     rbind (ensure (case previous of None \<Rightarrow> True | Some p \<Rightarrow> ks_scope p = ks_scope requested)
              (ValueError ''kill-switch scope cannot change'')) (\<lambda>_.
     rbind (ensure (\<not> (ks_scope requested = ACCOUNT \<and> ks_account_id requested = None))
              (ValueError ''account kill switch requires account scope'')) (\<lambda>_.
     rbind (ensure (case previous of None \<Rightarrow> True
                      | Some p \<Rightarrow> \<not> (ks_active p \<and> \<not> ks_active requested \<and> \<not> health_verified))
              (PermissionError ''kill-switch deactivation requires fresh broker/account health'')) (\<lambda>_.
     Inr (requested\<lparr>ks_safety_epoch :=
            (case previous of None \<Rightarrow> 1 | Some p \<Rightarrow> ks_safety_epoch p + 1)\<rparr>)))))"

text \<open>One accepted change of a switch that exists.\<close>

definition switch_step :: "kill_switch \<Rightarrow> kill_switch \<Rightarrow> bool" where
  "switch_step k k' \<longleftrightarrow> (\<exists>requested step_up health. update_kill_switch requested (Some k) step_up health = Inr k')"

lemma update_kill_switch_InrD:
  assumes "update_kill_switch requested (Some k) su h = Inr k'"
  shows "ks_safety_epoch k' = ks_safety_epoch k + 1" "ks_scope k' = ks_scope k" "su"
    "ks_active k \<Longrightarrow> \<not> ks_active k' \<Longrightarrow> h" "ks_active k' = ks_active requested"
  using assms by (auto simp: update_kill_switch_def rbind_eq_Inr_iff)

lemma switch_steps_epoch: "switch_step\<^sup>+\<^sup>+ k k' \<Longrightarrow> ks_safety_epoch k < ks_safety_epoch k'"
  by (induction rule: tranclp_induct) (auto simp: switch_step_def dest!: update_kill_switch_InrD(1))

section \<open>The ledger\<close>

record ledger_event =
  le_event_type :: string
  le_command_id :: uuid
  le_account_id :: uuid
  le_idempotency_key :: string

record execution_ledger =
  el_commands :: "(uuid, execution_command) dict"
  el_by_idempotency :: "(string, uuid) dict"
  el_outbox :: "ledger_event list"

definition empty_ledger :: execution_ledger where
  "empty_ledger = \<lparr>el_commands = [], el_by_idempotency = [], el_outbox = []\<rparr>"

definition ledger_put ::
    "execution_ledger \<Rightarrow> execution_command \<Rightarrow> (execution_ledger \<times> execution_command) res" where
  "ledger_put ledger command =
     (case map_of (el_by_idempotency ledger) (cm_idempotency_key command) of
        Some existing_id \<Rightarrow>
          (case map_of (el_commands ledger) existing_id of
             None \<Rightarrow> Inl (KeyError existing_id)
           | Some existing \<Rightarrow>
               if \<not> dict_eq (cm_postcondition existing) (cm_postcondition command)
               then Inl (CommandConflict ''idempotency key is bound to a different command payload'')
               else Inr (ledger, existing))
      | None \<Rightarrow>
          Inr (\<lparr>el_commands = AList.update (cm_id command) command (el_commands ledger),
                el_by_idempotency =
                  AList.update (cm_idempotency_key command) (cm_id command) (el_by_idempotency ledger),
                el_outbox = el_outbox ledger @
                  [\<lparr>le_event_type = ''execution.command.created'', le_command_id = cm_id command,
                    le_account_id = cm_account_id command,
                    le_idempotency_key = cm_idempotency_key command\<rparr>]\<rparr>, command))"

definition ledger_bound :: "execution_ledger \<Rightarrow> string \<Rightarrow> execution_command option" where
  "ledger_bound ledger k =
     (case map_of (el_by_idempotency ledger) k of
        None \<Rightarrow> None
      | Some i \<Rightarrow> map_of (el_commands ledger) i)"

text \<open>Every key leads to a command that carries it; the outbox has one event per key.\<close>

definition ledger_wf :: "execution_ledger \<Rightarrow> bool" where
  "ledger_wf ledger \<longleftrightarrow>
     (\<forall>k i. map_of (el_by_idempotency ledger) k = Some i \<longrightarrow>
        (\<exists>c. map_of (el_commands ledger) i = Some c \<and> cm_idempotency_key c = k))
     \<and> map le_idempotency_key (el_outbox ledger) = map fst (el_by_idempotency ledger)
     \<and> distinct (map fst (el_by_idempotency ledger))"

definition ledger_fresh :: "execution_ledger \<Rightarrow> execution_command \<Rightarrow> bool" where
  "ledger_fresh ledger c \<longleftrightarrow> map_of (el_commands ledger) (cm_id c) = None"

lemma ledger_wfE:
  assumes "ledger_wf s" and "map_of (el_by_idempotency s) k = Some i"
  obtains c where "map_of (el_commands s) i = Some c" "cm_idempotency_key c = k" "ledger_bound s k = Some c"
proof -
  obtain c where "map_of (el_commands s) i = Some c" "cm_idempotency_key c = k"
    using assms unfolding ledger_wf_def by blast
  with assms(2) that show thesis by (simp add: ledger_bound_def)
qed

lemma ledger_put_new:
  assumes "ledger_wf s" and "ledger_fresh s c" and "ledger_bound s (cm_idempotency_key c) = None"
  shows "\<exists>s'. ledger_put s c = Inr (s', c) \<and> ledger_wf s'
    \<and> ledger_bound s' = (ledger_bound s)(cm_idempotency_key c \<mapsto> c)"
proof -
  have none: "map_of (el_by_idempotency s) (cm_idempotency_key c) = None"
    using assms(1,3) ledger_wfE[OF assms(1)] by (metis not_None_eq)
  have other: "i \<noteq> cm_id c" if "map_of (el_by_idempotency s) k = Some i" for k i
    using ledger_wfE[OF assms(1) that] assms(2) by (force simp: ledger_fresh_def)
  obtain s' where s': "ledger_put s c = Inr (s', c)"
    and f: "el_commands s' = AList.update (cm_id c) c (el_commands s)"
      "el_by_idempotency s' = AList.update (cm_idempotency_key c) (cm_id c) (el_by_idempotency s)"
      "map le_idempotency_key (el_outbox s') = map le_idempotency_key (el_outbox s) @ [cm_idempotency_key c]"
    using none by (simp add: ledger_put_def)
  have "ledger_bound s' = (ledger_bound s)(cm_idempotency_key c \<mapsto> c)"
    using other by (intro ext) (auto simp: ledger_bound_def f split: option.splits)
  moreover have "ledger_wf s'"
    unfolding ledger_wf_def
  proof (intro conjI allI impI)
    fix k i assume k: "map_of (el_by_idempotency s') k = Some i"
    show "\<exists>c. map_of (el_commands s') i = Some c \<and> cm_idempotency_key c = k"
    proof (cases "k = cm_idempotency_key c")
      case False
      with k have "map_of (el_by_idempotency s) k = Some i" by (simp add: f)
      with other[OF this] show ?thesis by (elim ledger_wfE[OF assms(1)]) (simp add: f)
    qed (use k in \<open>simp add: f\<close>)
  next
    show "map le_idempotency_key (el_outbox s') = map fst (el_by_idempotency s')"
      using assms(1) by (simp add: f update_new map_of_None_keys[OF none] ledger_wf_def)
  next
    show "distinct (map fst (el_by_idempotency s'))"
      using assms(1) by (simp add: f distinct_update ledger_wf_def)
  qed
  ultimately show ?thesis using s' by blast
qed

lemma ledger_put_bound:
  assumes "ledger_wf s" and "ledger_bound s (cm_idempotency_key c) = Some d"
  shows "ledger_put s c = (if map_of (cm_postcondition d) = map_of (cm_postcondition c) then Inr (s, d)
    else Inl (CommandConflict ''idempotency key is bound to a different command payload''))"
  using assms(2) by (auto simp: ledger_bound_def ledger_put_def dict_eq_iff split: option.splits)

lemma ledger_bound_key:
  assumes "ledger_wf s" and "ledger_bound s k = Some d"
  shows "cm_idempotency_key d = k"
proof -
  obtain i where i: "map_of (el_by_idempotency s) k = Some i"
    using assms(2) by (auto simp: ledger_bound_def split: option.splits)
  with assms(2) show ?thesis by (elim ledger_wfE[OF assms(1)]) simp
qed

interpretation ledger: idempotent_store ledger_put ledger_bound cm_idempotency_key
    "\<lambda>c. map_of (cm_postcondition c)" ledger_wf ledger_fresh
  by unfold_locales (simp_all add: ledger_put_new ledger_put_bound ledger_bound_key)

section \<open>Authorization\<close>

record authorization_facts =
  af_plan :: uuid
  af_account :: uuid
  af_permission :: int
  af_platform_epoch :: int
  af_account_epoch :: int
  af_action :: string
  af_risk :: risk_result

definition authorize_states :: "execution_action \<Rightarrow> trade_plan_state list" where
  "authorize_states action =
     (if action = PLACE_ORDER then [TP_READY, TP_AUTHORIZED]
      else [TP_ACTIVE, TP_AUTHORIZED, TP_EXECUTION_PENDING])"

definition authorize_action ::
    "(authorization_facts \<Rightarrow> string) \<Rightarrow> uuid \<Rightarrow> timestamp \<Rightarrow> trade_plan \<Rightarrow> execution_action \<Rightarrow>
     execution_permissions \<Rightarrow> kill_switch \<Rightarrow> kill_switch \<Rightarrow> int \<Rightarrow>
     (trade_plan \<times> execution_authorization) res" where
  "authorize_action digest fresh now plan action permissions platform_kill account_kill ttl =
     rbind (ensure (tp_state plan \<in> set (authorize_states action))
              (ValueError ''trade plan is not eligible for the requested action'')) (\<lambda>_.
     rbind (ensure (\<not> (action = PLACE_ORDER \<and> tp_expires_at plan \<le> now))
              (ValueError ''trade plan has expired'')) (\<lambda>_.
     rbind (ensure (rr_decision (tp_risk plan) \<noteq> HARD_BLOCK)
              (ValueError ''hard-blocked trade plans cannot be authorized'')) (\<lambda>_.
     rbind (ensure (permissions_allow permissions action)
              (PermissionError (execution_action_value action @ '' permission is disabled''))) (\<lambda>_.
     rbind (ensure (\<not> (ks_active platform_kill \<or> ks_active account_kill))
              (PermissionError ''platform or account kill switch is active'')) (\<lambda>_.
     let authorization =
           \<lparr>ea_id = fresh, ea_account_id = tp_account_id plan, ea_action = action,
            ea_permission_version = pm_version permissions,
            ea_platform_safety_epoch = ks_safety_epoch platform_kill,
            ea_account_safety_epoch = ks_safety_epoch account_kill,
            ea_digest = digest
              \<lparr>af_plan = tp_id plan, af_account = tp_account_id plan,
               af_permission = pm_version permissions,
               af_platform_epoch = ks_safety_epoch platform_kill,
               af_account_epoch = ks_safety_epoch account_kill,
               af_action = execution_action_value action, af_risk = tp_risk plan\<rparr>,
            ea_issued_at = now, ea_expires_at = now + seconds ttl\<rparr>
     in Inr (plan\<lparr>tp_authorization := Some authorization,
                  tp_state := (if action = PLACE_ORDER then TP_AUTHORIZED else tp_state plan)\<rparr>,
             authorization))))))"

definition entry_postcondition :: "trade_plan \<Rightarrow> postcondition" where
  "entry_postcondition plan =
     (let c = tp_construction plan in
      [(''instrument'', JStr (tc_instrument c)),
       (''direction'', JStr (direction_value (tc_direction c))),
       (''quantity'', JDec (tc_approved_size c)),
       (''quantity_unit'', JStr (quantity_unit_value (tc_quantity_unit c))),
       (''entry'', JDec (tc_entry c)),
       (''stop_loss'', JDec (tc_stop_loss c)),
       (''targets'', JDecs (tc_targets c)),
       (''take_profit'', JDec (hd (tc_targets c))),
       (''max_loss_account_currency'',
          case tp_ticket plan of
            None \<Rightarrow> JNull
          | Some _ \<Rightarrow> JDec (sn_candidate_trade_risk (rr_snapshot (tp_risk plan)))),
       (''venue_instrument_id'', JStr (tc_venue_instrument_id c)),
       (''specification_version_id'', JStr (tc_specification_version_id c))])"

definition new_command ::
    "uuid \<Rightarrow> timestamp \<Rightarrow> trade_plan \<Rightarrow> execution_authorization \<Rightarrow> string \<Rightarrow> postcondition \<Rightarrow>
     execution_command" where
  "new_command fresh now plan authorization key post =
     \<lparr>cm_id = fresh, cm_account_id = tp_account_id plan, cm_action = ea_action authorization,
      cm_trade_plan_id = Some (tp_id plan), cm_management_action_id = None,
      cm_authorization_id = Some (ea_id authorization), cm_idempotency_key = key,
      cm_postcondition = post, cm_expected_broker_version = None, cm_target_order_id = None,
      cm_target_position_id = None, cm_state = CREATED, cm_outcome_certainty = OC_NONE,
      cm_attempts = [], cm_broker_order_id = None, cm_created_at = now, cm_version = 1\<rparr>"

text \<open>The pydantic field constraint on the key runs when the command is constructed.\<close>

definition command_guards ::
    "timestamp \<Rightarrow> trade_plan \<Rightarrow> execution_authorization \<Rightarrow> string \<Rightarrow> unit res" where
  "command_guards now plan authorization key =
     rbind (ensure (ea_account_id authorization = tp_account_id plan)
              (ValueError ''authorization account does not match trade plan'')) (\<lambda>_.
     rbind (ensure (\<not> ea_expires_at authorization \<le> now)
              (ValueError ''execution authorization has expired'')) (\<lambda>_.
     ensure (8 \<le> length key) (ValidationError ''idempotency_key'')))"

definition create_command ::
    "uuid \<Rightarrow> timestamp \<Rightarrow> execution_ledger \<Rightarrow> trade_plan \<Rightarrow> execution_authorization \<Rightarrow> string \<Rightarrow>
     (execution_ledger \<times> execution_command) res" where
  "create_command fresh now ledger plan authorization key =
     rbind (command_guards now plan authorization key) (\<lambda>_.
       ledger_put ledger (new_command fresh now plan authorization key (entry_postcondition plan)))"

definition create_action_command ::
    "uuid \<Rightarrow> timestamp \<Rightarrow> execution_ledger \<Rightarrow> trade_plan \<Rightarrow> execution_authorization \<Rightarrow> string \<Rightarrow>
     postcondition \<Rightarrow> uuid option \<Rightarrow> string option \<Rightarrow> string option \<Rightarrow> string option \<Rightarrow>
     (execution_ledger \<times> execution_command) res" where
  "create_action_command fresh now ledger plan authorization key post management_action_id
       target_order_id target_position_id expected_broker_version =
     rbind (command_guards now plan authorization key) (\<lambda>_.
       ledger_put ledger ((new_command fresh now plan authorization key post)
         \<lparr>cm_management_action_id := management_action_id, cm_target_order_id := target_order_id,
          cm_target_position_id := target_position_id,
          cm_expected_broker_version := expected_broker_version\<rparr>))"

section \<open>The authority guard\<close>

definition expected_entry :: "trade_plan \<Rightarrow> postcondition" where
  "expected_entry plan =
     (let c = tp_construction plan in
      [(''instrument'', JStr (tc_instrument c)),
       (''direction'', JStr (direction_value (tc_direction c))),
       (''quantity'', JDec (tc_approved_size c)),
       (''quantity_unit'', JStr (quantity_unit_value (tc_quantity_unit c))),
       (''entry'', JDec (tc_entry c)),
       (''stop_loss'', JDec (tc_stop_loss c)),
       (''take_profit'', JDec (hd (tc_targets c))),
       (''max_loss_account_currency'', JDec (sn_candidate_trade_risk (rr_snapshot (tp_risk plan)))),
       (''venue_instrument_id'', JStr (tc_venue_instrument_id c)),
       (''specification_version_id'', JStr (tc_specification_version_id c))])"

definition authority_plan_states :: "execution_action \<Rightarrow> trade_plan_state list" where
  "authority_plan_states action =
     (if action = PLACE_ORDER then [TP_AUTHORIZED, TP_EXECUTION_PENDING]
      else [TP_ACTIVE, TP_AUTHORIZED, TP_EXECUTION_PENDING])"

definition assert_command_authority ::
    "timestamp \<Rightarrow> execution_command \<Rightarrow> execution_authorization \<Rightarrow> trade_plan \<Rightarrow>
     execution_permissions \<Rightarrow> kill_switch \<Rightarrow> kill_switch \<Rightarrow> unit res" where
  "assert_command_authority now command authorization plan permissions platform_kill account_kill =
     rbind (ensure (\<not> (cm_account_id command \<noteq> ea_account_id authorization
                      \<or> cm_account_id command \<noteq> tp_account_id plan))
              (PermissionError ''command, authorization, and plan account scopes differ'')) (\<lambda>_.
     rbind (ensure (cm_authorization_id command = Some (ea_id authorization))
              (PermissionError ''command is not bound to the supplied authorization'')) (\<lambda>_.
     rbind (ensure (\<not> (ea_expires_at authorization \<le> now
                      \<or> (cm_action command = PLACE_ORDER \<and> tp_expires_at plan \<le> now)))
              (PermissionError ''authorization or trade plan expired'')) (\<lambda>_.
     rbind (ensure (tp_state plan \<in> set (authority_plan_states (cm_action command)))
              (PermissionError ''trade plan is not authorized'')) (\<lambda>_.
     rbind (ensure (ea_action authorization = cm_action command)
              (PermissionError ''authorization does not permit the requested action'')) (\<lambda>_.
     rbind (ensure (rr_decision (tp_risk plan) \<noteq> HARD_BLOCK)
              (PermissionError ''hard-blocked risk result cannot execute'')) (\<lambda>_.
     rbind (ensure (\<not> (cm_action command = PLACE_ORDER \<and> tp_ticket plan \<noteq> None
                      \<and> list_ex (\<lambda>(k, v). map_of (cm_postcondition command) k \<noteq> Some v)
                          (expected_entry plan)))
              (PermissionError ''entry command differs from authorized broker-sized Trade Plan'')) (\<lambda>_.
     rbind (ensure (permissions_allow permissions (cm_action command))
              (PermissionError ''action is disabled for the account'')) (\<lambda>_.
     rbind (ensure (\<not> (ks_active platform_kill \<or> ks_active account_kill))
              (PermissionError ''kill switch is active'')) (\<lambda>_.
     ensure (\<not> (ea_platform_safety_epoch authorization \<noteq> ks_safety_epoch platform_kill
               \<or> ea_account_safety_epoch authorization \<noteq> ks_safety_epoch account_kill))
       (PermissionError ''kill-switch safety epoch changed''))))))))))"

section \<open>Entry authorization (\<open>authorization.py\<close>)\<close>

text \<open>The broker state read at the boundary: its \<open>fresh\<close> flag and account, each possibly absent.\<close>

record broker_state =
  bs_fresh :: "bool option"
  bs_account_id :: "uuid option"

definition authorize_entry ::
    "(authorization_facts \<Rightarrow> string) \<Rightarrow> uuid \<Rightarrow> timestamp \<Rightarrow> trade_plan \<Rightarrow>
     (uuid \<Rightarrow> execution_permissions) \<Rightarrow> (uuid \<Rightarrow> kill_switch \<times> kill_switch) \<Rightarrow> (uuid \<Rightarrow> broker_state) \<Rightarrow>
     reservation_book option \<Rightarrow> int \<Rightarrow> (trade_plan \<times> execution_authorization) res" where
  "authorize_entry digest fresh now plan read_permissions read_kill_switches read_broker_state
       reservations ttl =
     rbind (ensure (case (reservations, tp_reservation_id plan) of
                      (Some book, Some rid) \<Rightarrow>
                        snd (book_active_for now book rid (tp_account_id plan)) \<noteq> None
                    | _ \<Rightarrow> True)
              (PermissionError ''risk reservation is missing, expired, or account-scoped incorrectly'')) (\<lambda>_.
     let broker = read_broker_state (tp_account_id plan) in
     rbind (ensure (bs_fresh broker \<noteq> Some False)
              (PermissionError ''authoritative broker state is stale'')) (\<lambda>_.
     rbind (ensure (bs_account_id broker \<in> {None, Some (tp_account_id plan)})
              (PermissionError ''broker state account scope differs'')) (\<lambda>_.
     let (platform_kill, account_kill) = read_kill_switches (tp_account_id plan) in
     authorize_action digest fresh now plan PLACE_ORDER (read_permissions (tp_account_id plan))
       platform_kill account_kill ttl)))"

section \<open>Dispatch\<close>

datatype broker_method = SUBMIT_ORDER | CANCEL | CHANGE_PROTECTION | BROKER_PARTIAL_CLOSE | BROKER_FULL_EXIT

fun adapter_call :: "execution_action \<Rightarrow> broker_method" where
  "adapter_call PLACE_ORDER = SUBMIT_ORDER"
| "adapter_call CANCEL_ORDER = CANCEL"
| "adapter_call SET_OR_CHANGE_STOP_LOSS = CHANGE_PROTECTION"
| "adapter_call SET_OR_CHANGE_TAKE_PROFIT = CHANGE_PROTECTION"
| "adapter_call PARTIAL_CLOSE = BROKER_PARTIAL_CLOSE"
| "adapter_call FULL_EXIT = BROKER_FULL_EXIT"

record broker_response =
  rs_confirmed :: bool
  rs_broker_order_id :: "string option"
  rs_rejected :: bool

record broker_call =
  bc_method :: broker_method
  bc_command :: execution_command
  bc_authorization :: execution_authorization

text \<open>An adapter answers a call, or raises an exception whose class name is its value.\<close>

type_synonym broker_adapter = "broker_call \<Rightarrow> string + broker_response"

definition send_command ::
    "(postcondition \<Rightarrow> string) \<Rightarrow> (broker_response \<Rightarrow> string) \<Rightarrow> timestamp \<Rightarrow> execution_command \<Rightarrow>
     execution_authorization \<Rightarrow> broker_adapter \<Rightarrow> execution_command \<times> broker_call list" where
  "send_command request_digest response_digest now command authorization adapter =
     (let attempt =
            \<lparr>at_attempt = int (length (cm_attempts command)) + 1, at_state = DISPATCHING,
             at_request_digest = request_digest (cm_postcondition command),
             at_response_digest = None, at_dispatched_at = now, at_error_code = None\<rparr>;
          command1 = command\<lparr>cm_attempts := cm_attempts command @ [attempt]\<rparr>;
          call = \<lparr>bc_method = adapter_call (cm_action command), bc_command = command1,
                  bc_authorization = authorization\<rparr>
      in case adapter call of
           Inl exc \<Rightarrow>
             (command\<lparr>cm_attempts := cm_attempts command
                        @ [attempt\<lparr>at_state := OUTCOME_UNKNOWN, at_error_code := Some exc\<rparr>],
                      cm_state := OUTCOME_UNKNOWN, cm_version := cm_version command + 1,
                      cm_outcome_certainty := UNCERTAIN\<rparr>, [call])
         | Inr response \<Rightarrow>
             (let command2 =
                command\<lparr>cm_attempts := cm_attempts command
                          @ [attempt\<lparr>at_state := ACKNOWLEDGED,
                                     at_response_digest := Some (response_digest response)\<rparr>],
                        cm_state := ACKNOWLEDGED, cm_version := cm_version command + 1,
                        cm_outcome_certainty := (if rs_confirmed response then CONFIRMED else UNCERTAIN),
                        cm_broker_order_id :=
                          (if truthy (rs_broker_order_id response) then rs_broker_order_id response
                           else None)\<rparr>
              in (if rs_rejected response
                  then command2\<lparr>cm_state := REJECTED, cm_version := cm_version command2 + 1\<rparr>
                  else command2, [call])))"

definition advance :: "command_state \<Rightarrow> command_state \<Rightarrow> execution_command \<Rightarrow> execution_command res" where
  "advance source target command =
     (if cm_state command = source then command_transition command target else Inr command)"

definition dispatch ::
    "(postcondition \<Rightarrow> string) \<Rightarrow> (broker_response \<Rightarrow> string) \<Rightarrow> timestamp \<Rightarrow> execution_command \<Rightarrow>
     execution_authorization \<Rightarrow> broker_adapter \<Rightarrow> (execution_command \<times> broker_call list) res" where
  "dispatch request_digest response_digest now command authorization adapter =
     (if cm_state command \<in> {APPLIED, REJECTED, BLOCKED_AMBIGUOUS} then Inr (command, [])
      else
        rbind (ensure (cm_state command \<notin> {OUTCOME_UNKNOWN, RECONCILING})
                 (CommandTransitionError ''uncertain command must reconcile before retry'')) (\<lambda>_.
        rbind (advance CREATED AUTHORIZED command) (\<lambda>command1.
        rbind (advance AUTHORIZED QUEUED command1) (\<lambda>command2.
        rbind (if cm_state command2 = QUEUED then command_transition command2 DISPATCHING
               else if cm_state command2 \<noteq> DISPATCHING
               then Inl (CommandTransitionError
                      (''command '' @ command_state_value (cm_state command2) @ '' cannot dispatch''))
               else Inr command2) (\<lambda>command3.
        Inr (send_command request_digest response_digest now command3 authorization adapter))))))"

section \<open>Lemmas\<close>

lemma authorize_action_InrD:
  assumes "authorize_action digest fresh now plan action perms pk ak ttl = Inr (plan', auth)"
  shows "tp_state plan \<in> set (authorize_states action)"
    and "action = PLACE_ORDER \<Longrightarrow> now < tp_expires_at plan"
    and "rr_decision (tp_risk plan) \<noteq> HARD_BLOCK" and "permissions_allow perms action"
    and "\<not> ks_active pk" and "\<not> ks_active ak"
    and "plan' = plan\<lparr>tp_authorization := Some auth,
           tp_state := (if action = PLACE_ORDER then TP_AUTHORIZED else tp_state plan)\<rparr>"
    and "ea_id auth = fresh" "ea_account_id auth = tp_account_id plan" "ea_action auth = action"
    and "ea_platform_safety_epoch auth = ks_safety_epoch pk"
    and "ea_account_safety_epoch auth = ks_safety_epoch ak"
    and "ea_expires_at auth = now + seconds ttl"
  using assms by (auto simp: authorize_action_def Let_def rbind_eq_Inr_iff not_le)

lemma assert_authority_ok_iff:
  "assert_command_authority now c auth plan perms pk ak = Inr () \<longleftrightarrow>
     cm_account_id c = ea_account_id auth \<and> cm_account_id c = tp_account_id plan
     \<and> cm_authorization_id c = Some (ea_id auth)
     \<and> now < ea_expires_at auth \<and> (cm_action c = PLACE_ORDER \<longrightarrow> now < tp_expires_at plan)
     \<and> tp_state plan \<in> set (authority_plan_states (cm_action c))
     \<and> ea_action auth = cm_action c \<and> rr_decision (tp_risk plan) \<noteq> HARD_BLOCK
     \<and> (cm_action c = PLACE_ORDER \<and> tp_ticket plan \<noteq> None \<longrightarrow>
          (\<forall>(k, v) \<in> set (expected_entry plan). map_of (cm_postcondition c) k = Some v))
     \<and> permissions_allow perms (cm_action c) \<and> \<not> ks_active pk \<and> \<not> ks_active ak
     \<and> ea_platform_safety_epoch auth = ks_safety_epoch pk
     \<and> ea_account_safety_epoch auth = ks_safety_epoch ak"
  by (auto simp: assert_command_authority_def rbind_eq_Inr_iff list_ex_iff not_le)

lemma new_command_fields [simp]:
  "cm_account_id (new_command i now p a k post) = tp_account_id p"
  "cm_authorization_id (new_command i now p a k post) = Some (ea_id a)"
  "cm_action (new_command i now p a k post) = ea_action a"
  "cm_postcondition (new_command i now p a k post) = post"
  "cm_idempotency_key (new_command i now p a k post) = k"
  "cm_state (new_command i now p a k post) = CREATED"
  "cm_id (new_command i now p a k post) = i"
  by (simp_all add: new_command_def)

text \<open>The entry payload agrees with what the guard expects of a plan that has a ticket.\<close>

lemma entry_postcondition_expected:
  assumes "tp_ticket plan \<noteq> None"
  shows "\<forall>(k, v) \<in> set (expected_entry plan). map_of (entry_postcondition plan) k = Some v"
  using assms by (auto simp: expected_entry_def entry_postcondition_def Let_def)

lemma create_command_InrD:
  assumes "create_command fresh now ledger plan auth key = Inr (ledger', c)"
  shows "ea_account_id auth = tp_account_id plan" "now < ea_expires_at auth"
    and "ledger_put ledger (new_command fresh now plan auth key (entry_postcondition plan)) = Inr (ledger', c)"
  using assms by (auto simp: create_command_def command_guards_def rbind_eq_Inr_iff not_le)

lemma send_command_cases:
  assumes "send_command rq rs now c auth adapter = (c', calls)"
  obtains call where "calls = [call]" "bc_method call = adapter_call (cm_action c)"
    "cm_id (bc_command call) = cm_id c" "cm_postcondition (bc_command call) = cm_postcondition c"
    "cm_idempotency_key (bc_command call) = cm_idempotency_key c" "bc_authorization call = auth"
    "cm_state c' \<in> {ACKNOWLEDGED, OUTCOME_UNKNOWN, REJECTED}"
    "length (cm_attempts c') = Suc (length (cm_attempts c))" "cm_version c < cm_version c'"
    "cm_state c' = OUTCOME_UNKNOWN \<longleftrightarrow> (\<exists>exc. adapter call = Inl exc)"
    "cm_state c' = OUTCOME_UNKNOWN \<longrightarrow> cm_outcome_certainty c' = UNCERTAIN"
    "cm_state c' = REJECTED \<longleftrightarrow> (\<exists>r. adapter call = Inr r \<and> rs_rejected r)"
proof -
  define call where "call = hd calls"
  have calls: "calls = [call]"
    using assms by (auto simp: send_command_def Let_def call_def split: sum.splits)
  show thesis
    by (rule that[OF calls])
       (use assms calls in \<open>auto simp: send_command_def Let_def split: sum.splits if_splits\<close>)
qed

text \<open>How a command reaches the adapter.\<close>

lemma advance_fields:
  assumes "advance s t c = Inr c'"
  shows "cm_id c' = cm_id c" "cm_action c' = cm_action c" "cm_postcondition c' = cm_postcondition c"
    "cm_idempotency_key c' = cm_idempotency_key c" "cm_attempts c' = cm_attempts c"
    "cm_version c \<le> cm_version c'" "cm_state c' = (if cm_state c = s then t else cm_state c)"
  using assms by (auto simp: advance_def command_transition_def split: if_splits)

lemma dispatch_InrD:
  assumes "dispatch rq rs now c auth adapter = Inr (c', calls)"
  shows "cm_state c \<in> {APPLIED, REJECTED, BLOCKED_AMBIGUOUS} \<and> c' = c \<and> calls = [] \<or>
    cm_state c \<in> {CREATED, AUTHORIZED, QUEUED, DISPATCHING} \<and>
    (\<exists>d. send_command rq rs now d auth adapter = (c', calls) \<and> cm_id d = cm_id c
       \<and> cm_action d = cm_action c \<and> cm_postcondition d = cm_postcondition c
       \<and> cm_idempotency_key d = cm_idempotency_key c \<and> cm_attempts d = cm_attempts c
       \<and> cm_version c \<le> cm_version d \<and> cm_state d = DISPATCHING)"
  using assms
  by (cases "cm_state c")
     (auto simp: dispatch_def advance_def command_transition_def rbind_eq_Inr_iff)

lemma dispatch_eligible:
  assumes "cm_state c \<in> {CREATED, AUTHORIZED, QUEUED, DISPATCHING}"
  shows "is_ok (dispatch rq rs now c auth adapter)"
  using assms by (auto simp: dispatch_def advance_def command_transition_def)

section \<open>Properties\<close>

text \<open>Dispatch reaches the broker at most once, through the method of the command's action and with
  the command's own payload, key and authorization; it does so exactly for a command that was not yet
  handed over, which then is acknowledged, rejected or of unknown outcome, with one more attempt and a
  higher version; a finished command is returned as it is.\<close>
theorem dispatch_at_most_once:
  assumes "dispatch rq rs now c auth adapter = Inr (c', calls)"
  shows "(calls = [] \<and> c' = c \<and> cm_state c \<in> {APPLIED, REJECTED, BLOCKED_AMBIGUOUS}) \<or>
    (\<exists>call. calls = [call] \<and> cm_state c \<in> {CREATED, AUTHORIZED, QUEUED, DISPATCHING}
       \<and> bc_method call = adapter_call (cm_action c) \<and> cm_id (bc_command call) = cm_id c
       \<and> cm_postcondition (bc_command call) = cm_postcondition c
       \<and> cm_idempotency_key (bc_command call) = cm_idempotency_key c \<and> bc_authorization call = auth
       \<and> cm_state c' \<in> {ACKNOWLEDGED, OUTCOME_UNKNOWN, REJECTED}
       \<and> (cm_state c' = REJECTED \<longleftrightarrow> (\<exists>r. adapter call = Inr r \<and> rs_rejected r))
       \<and> length (cm_attempts c') = Suc (length (cm_attempts c)) \<and> cm_version c < cm_version c')"
  using dispatch_InrD[OF assms]
proof (elim disjE exE conjE)
  fix d assume d: "cm_state c \<in> {CREATED, AUTHORIZED, QUEUED, DISPATCHING}"
    "send_command rq rs now d auth adapter = (c', calls)" "cm_id d = cm_id c" "cm_action d = cm_action c"
    "cm_postcondition d = cm_postcondition c" "cm_idempotency_key d = cm_idempotency_key c"
    "cm_attempts d = cm_attempts c" "cm_version c \<le> cm_version d"
  show ?thesis by (rule send_command_cases[OF d(2)]) (use d in \<open>intro disjI2, auto\<close>)
qed blast

text \<open>A transport failure is never taken for a result: when the adapter raises, the command's outcome
  is unknown and uncertain, and dispatching it again is refused before any call is made.\<close>
theorem dispatch_failure_blocks_retry:
  assumes "dispatch rq rs now c auth adapter = Inr (c', [call])" and "adapter call = Inl exc"
  shows "cm_state c' = OUTCOME_UNKNOWN \<and> cm_outcome_certainty c' = UNCERTAIN
    \<and> (\<exists>e. dispatch rq rs now' c' auth' adapter' = Inl e)"
proof -
  obtain d where "send_command rq rs now d auth adapter = (c', [call])"
    using dispatch_InrD[OF assms(1)] by auto
  then have "cm_state c' = OUTCOME_UNKNOWN \<and> cm_outcome_certainty c' = UNCERTAIN"
    by (rule send_command_cases) (use assms(2) in auto)
  then show ?thesis by (simp add: dispatch_def)
qed

text \<open>The guards fit together: an entry authorized for a plan, turned into a command and checked while
  nothing has changed and neither the authorization nor the plan has expired, passes the authority
  guard.\<close>
theorem authorized_entry_passes_guard:
  assumes "authorize_action digest aid now plan PLACE_ORDER perms pk ak ttl = Inr (plan', auth)"
    and "create_command cid now' ledger plan' auth key = Inr (ledger', c)"
    and "ledger_wf ledger" and "ledger_fresh ledger c" and "ledger_bound ledger key = None"
    and "now'' < now + seconds ttl" and "now'' < tp_expires_at plan"
  shows "assert_command_authority now'' c auth plan' perms pk ak = Inr ()"
proof -
  note A = authorize_action_InrD[OF assms(1)]
  note C = create_command_InrD[OF assms(2)]
  let ?new = "new_command cid now' plan' auth key (entry_postcondition plan')"
  have "c = ?new"
    using ledger.put_replay[OF assms(3), of ?new] C(3) assms(5)
    by (auto simp: ledger_put_def ledger_bound_def split: option.splits if_splits)
  then show ?thesis
    using A(3-7,9-13) assms(6,7) entry_postcondition_expected[of plan']
    by (simp add: assert_authority_ok_iff authority_plan_states_def)
qed

text \<open>C7: changing a kill switch revokes every authorization issued before: after any positive number of
  accepted changes to the platform or the account switch, even if it is inactive again, no command
  passes the guard with an authorization issued under the old state.\<close>
theorem kill_switch_revokes_authorizations:
  assumes "authorize_action digest aid now plan action perms pk ak ttl = Inr (plan', auth)"
    and "switch_step\<^sup>+\<^sup>+ pk pk' \<and> switch_step\<^sup>*\<^sup>* ak ak' \<or> switch_step\<^sup>*\<^sup>* pk pk' \<and> switch_step\<^sup>+\<^sup>+ ak ak'"
  shows "\<exists>e. assert_command_authority now' c auth plan'' perms' pk' ak' = Inl e"
proof -
  note A = authorize_action_InrD[OF assms(1)]
  have "ks_safety_epoch pk < ks_safety_epoch pk' \<or> ks_safety_epoch ak < ks_safety_epoch ak'"
    using assms(2) switch_steps_epoch by blast
  then have "assert_command_authority now' c auth plan'' perms' pk' ak' \<noteq> Inr ()"
    using A(11,12) by (auto simp: assert_authority_ok_iff)
  then show ?thesis by (cases "assert_command_authority now' c auth plan'' perms' pk' ak'") auto
qed

text \<open>The broker sees what was sized: an entry command of a plan with a ticket that passes the guard
  and is dispatched carries the plan's approved size, stop loss, first target and maximum loss.\<close>
theorem dispatched_entry_is_the_sized_plan:
  assumes "assert_command_authority now c auth plan perms pk ak = Inr ()"
    and "cm_action c = PLACE_ORDER" and "tp_ticket plan \<noteq> None"
    and "dispatch rq rs now' c auth adapter = Inr (c', [call])"
  shows "bc_method call = SUBMIT_ORDER
    \<and> map_of (cm_postcondition (bc_command call)) ''quantity'' = Some (JDec (tc_approved_size (tp_construction plan)))
    \<and> map_of (cm_postcondition (bc_command call)) ''stop_loss'' = Some (JDec (tc_stop_loss (tp_construction plan)))
    \<and> map_of (cm_postcondition (bc_command call)) ''take_profit'' = Some (JDec (hd (tc_targets (tp_construction plan))))
    \<and> map_of (cm_postcondition (bc_command call)) ''max_loss_account_currency''
        = Some (JDec (sn_candidate_trade_risk (rr_snapshot (tp_risk plan))))
    \<and> rr_decision (tp_risk plan) \<noteq> HARD_BLOCK"
proof -
  obtain d where "send_command rq rs now' d auth adapter = (c', [call])"
    and d: "cm_action d = cm_action c" "cm_postcondition d = cm_postcondition c"
    using dispatch_InrD[OF assms(4)] by auto
  then have "bc_method call = SUBMIT_ORDER" "cm_postcondition (bc_command call) = cm_postcondition c"
    using assms(2) by (auto elim!: send_command_cases)
  moreover have "\<forall>(k, v) \<in> set (expected_entry plan). map_of (cm_postcondition c) k = Some v"
    using assms(1-3) by (simp add: assert_authority_ok_iff)
  ultimately show ?thesis
    using assms(1) by (simp add: assert_authority_ok_iff expected_entry_def Let_def)
qed

text \<open>An idempotency key names one economic intent: creating the command of a plan again under the
  same key, at any time and under any authorization, returns the first command, still bound to the first
  authorization, and adds no outbox event; a plan with another size, instrument or price under that key
  is refused.\<close>
theorem create_command_idempotent:
  assumes "create_command cid now ledger plan auth key = Inr (ledger', c)"
    and "ledger_wf ledger" and "map_of (el_commands ledger) cid = None"
    and "ledger_bound ledger key = None"
    and "command_guards now' plan2 auth2 key = Inr ()"
  shows "cm_authorization_id c = Some (ea_id auth) \<and>
    (if map_of (entry_postcondition plan2) = map_of (entry_postcondition plan)
     then create_command cid2 now' ledger' plan2 auth2 key = Inr (ledger', c)
     else \<exists>m. create_command cid2 now' ledger' plan2 auth2 key = Inl (CommandConflict m))"
proof -
  let ?new = "new_command cid now plan auth key (entry_postcondition plan)"
  let ?new2 = "new_command cid2 now' plan2 auth2 key (entry_postcondition plan2)"
  have f: "ledger_fresh ledger ?new" using assms(3) by (simp add: ledger_fresh_def)
  have acc: "ledger.accepts ledger ?new" using f by (simp add: ledger.accepts_def)
  note P = ledger.put_result[OF assms(2) acc create_command_InrD(3)[OF assms(1)]]
  have c: "c = ?new"
    using ledger_put_new[OF assms(2) f] assms(4) create_command_InrD(3)[OF assms(1)] by auto
  have "ledger_bound ledger' (cm_idempotency_key ?new2) = Some c" using P(2) by simp
  from ledger_put_bound[OF P(1) this] show ?thesis
    using c assms(5) by (auto simp: create_command_def)
qed

text \<open>An entry authorization given at the boundary rests on current facts: the broker state is fresh
  and of the plan's account, no kill switch is active, entries are permitted, the plan is ready and not
  expired, and a reserved plan's reservation is unexpired, active and of the same account.\<close>
theorem authorize_entry_current:
  assumes "authorize_entry digest fresh now plan read_perms read_kills read_broker book ttl = Inr (plan', auth)"
    and "read_kills (tp_account_id plan) = (pk, ak)"
  shows "\<not> ks_active pk \<and> \<not> ks_active ak \<and> pm_new_entry (read_perms (tp_account_id plan))
    \<and> bs_fresh (read_broker (tp_account_id plan)) \<noteq> Some False
    \<and> now < tp_expires_at plan \<and> rr_decision (tp_risk plan) \<noteq> HARD_BLOCK
    \<and> ea_expires_at auth = now + seconds ttl \<and> tp_state plan' = TP_AUTHORIZED
    \<and> (\<forall>b rid. book = Some b \<and> tp_reservation_id plan = Some rid \<longrightarrow>
        (\<exists>r. map_of b rid = Some r \<and> bk_state r = RS_ACTIVE \<and> bk_account r = tp_account_id plan
           \<and> now < bk_expires_at r))"
proof -
  have auth: "authorize_action digest fresh now plan PLACE_ORDER (read_perms (tp_account_id plan)) pk ak ttl
      = Inr (plan', auth)"
    and broker: "bs_fresh (read_broker (tp_account_id plan)) \<noteq> Some False"
    and active: "\<forall>b rid. book = Some b \<and> tp_reservation_id plan = Some rid \<longrightarrow>
        snd (book_active_for now b rid (tp_account_id plan)) \<noteq> None"
    using assms by (auto simp: authorize_entry_def Let_def rbind_eq_Inr_iff)
  have "\<exists>r. map_of b rid = Some r \<and> bk_state r = RS_ACTIVE \<and> bk_account r = tp_account_id plan \<and> now < bk_expires_at r"
    if "book = Some b" "tp_reservation_id plan = Some rid" for b rid
    using that active
    by (auto simp: book_active_for_def book_expire_def map_of_dmap Let_def not_le
        split: option.splits if_splits)
  with authorize_action_InrD[OF auth] broker show ?thesis by auto
qed

section \<open>Witnesses\<close>

definition demo_permissions :: execution_permissions where
  "demo_permissions = \<lparr>pm_account_id = ''a'', pm_version = 1, pm_new_entry = True,
     pm_order_cancellation = False, pm_stop_loss = False, pm_take_profit = False,
     pm_partial_close = False, pm_full_exit = False, pm_reason = ''''\<rparr>"

definition demo_switch :: "kill_scope \<Rightarrow> kill_switch" where
  "demo_switch sc = \<lparr>ks_scope = sc, ks_active = False, ks_safety_epoch = 4, ks_account_id = Some ''a'',
     ks_reason = ''''\<rparr>"

definition demo_ready :: trade_plan where
  "demo_ready = demo_plan TP_READY (demo_risk\<lparr>rr_decision := PASS\<rparr>)"

definition demo_ticketed :: trade_plan where
  "demo_ticketed = demo_ready\<lparr>tp_ticket := Some
     \<lparr>tk_account_currency = ''USD'', tk_entry_basis = '''', tk_requested_risk_limit = 50,
      tk_potential_loss_before_costs = 5, tk_targets = [], tk_partial_targets_executable = False\<rparr>\<rparr>"

lemma demo_ready_fields [simp]:
  "tp_state demo_ready = TP_READY" "tp_expires_at demo_ready = minutes 10"
  "rr_decision (tp_risk demo_ready) = PASS" "tp_account_id demo_ready = ''a''"
  "tp_reservation_id demo_ready = None"
  by (simp_all add: demo_ready_def demo_plan_def)

lemma demo_ticketed_fields [simp]:
  "tp_state demo_ticketed = TP_READY" "tp_expires_at demo_ticketed = minutes 10"
  "rr_decision (tp_risk demo_ticketed) = PASS" "tp_account_id demo_ticketed = ''a''"
  "tp_ticket demo_ticketed \<noteq> None"
  by (simp_all add: demo_ticketed_def)

lemma demo_authorize:
  assumes "plan = demo_ready \<or> plan = demo_ticketed"
  obtains auth plan' where "authorize_action (\<lambda>_. ''digest'') ''auth'' 0 plan PLACE_ORDER demo_permissions
      (demo_switch PLATFORM) (demo_switch ACCOUNT) 60 = Inr (plan', auth)"
  using assms by (auto simp: authorize_action_def authorize_states_def demo_permissions_def demo_switch_def Let_def)

lemma demo_create:
  assumes "authorize_action (\<lambda>_. ''digest'') ''auth'' 0 plan PLACE_ORDER demo_permissions
      (demo_switch PLATFORM) (demo_switch ACCOUNT) 60 = Inr (plan', auth)"
  obtains ledger' c where "create_command ''c'' 1 empty_ledger plan' auth ''entry:plan'' = Inr (ledger', c)"
    "cm_id c = ''c''" "cm_action c = PLACE_ORDER" "cm_state c = CREATED"
  using authorize_action_InrD[OF assms]
  by (auto simp: create_command_def command_guards_def ledger_put_def empty_ledger_def)

lemma empty_ledger_simps [simp]:
  "ledger_wf empty_ledger" "ledger_fresh empty_ledger c" "ledger_bound empty_ledger k = None"
  "map_of (el_commands empty_ledger) i = None"
  by (simp_all add: ledger_wf_def ledger_fresh_def ledger_bound_def empty_ledger_def)

definition demo_auth :: execution_authorization where
  "demo_auth = \<lparr>ea_id = ''auth'', ea_account_id = ''a'', ea_action = PLACE_ORDER,
     ea_permission_version = 1, ea_platform_safety_epoch = 4, ea_account_safety_epoch = 4,
     ea_digest = '''', ea_issued_at = 0, ea_expires_at = seconds 60\<rparr>"

theorem dispatch_at_most_once_witness:
  "\<exists>c' call. dispatch (\<lambda>_. '''') (\<lambda>_. '''') 0 (demo_command QUEUED) demo_auth
      (\<lambda>_. Inr \<lparr>rs_confirmed = True, rs_broker_order_id = Some ''7'', rs_rejected = False\<rparr>) = Inr (c', [call])
    \<and> bc_method call = SUBMIT_ORDER \<and> cm_state c' \<in> {ACKNOWLEDGED, OUTCOME_UNKNOWN, REJECTED}"
proof -
  obtain c' calls where d: "dispatch (\<lambda>_. '''') (\<lambda>_. '''') 0 (demo_command QUEUED) demo_auth
      (\<lambda>_. Inr \<lparr>rs_confirmed = True, rs_broker_order_id = Some ''7'', rs_rejected = False\<rparr>) = Inr (c', calls)"
    by (simp add: dispatch_def advance_def command_transition_def demo_command_def send_command_def Let_def)
  from dispatch_at_most_once[OF d] d show ?thesis by (auto simp: demo_command_def)
qed

theorem dispatch_failure_blocks_retry_witness:
  "\<exists>c' call. dispatch (\<lambda>_. '''') (\<lambda>_. '''') 0 (demo_command QUEUED) demo_auth (\<lambda>_. Inl ''ConnectError'')
      = Inr (c', [call]) \<and> cm_outcome_certainty c' = UNCERTAIN
    \<and> (\<exists>e. dispatch (\<lambda>_. '''') (\<lambda>_. '''') 1 c' demo_auth (\<lambda>_. Inl ''ConnectError'') = Inl e)"
proof -
  obtain c' call where d: "dispatch (\<lambda>_. '''') (\<lambda>_. '''') 0 (demo_command QUEUED) demo_auth
      (\<lambda>_. Inl ''ConnectError'') = Inr (c', [call])"
    by (simp add: dispatch_def advance_def command_transition_def demo_command_def send_command_def Let_def)
  from dispatch_failure_blocks_retry[OF d refl] d show ?thesis by blast
qed

theorem authorized_entry_passes_guard_witness:
  "\<exists>c auth plan'. assert_command_authority 5 c auth plan' demo_permissions (demo_switch PLATFORM)
      (demo_switch ACCOUNT) = Inr () \<and> cm_action c = PLACE_ORDER"
proof -
  obtain auth plan' where a: "authorize_action (\<lambda>_. ''digest'') ''auth'' 0 demo_ticketed PLACE_ORDER
      demo_permissions (demo_switch PLATFORM) (demo_switch ACCOUNT) 60 = Inr (plan', auth)"
    using demo_authorize by blast
  obtain ledger' c where c: "create_command ''c'' 1 empty_ledger plan' auth ''entry:plan'' = Inr (ledger', c)"
    "cm_action c = PLACE_ORDER"
    by (rule demo_create[OF a])
  from authorized_entry_passes_guard[OF a c(1), of 5] c(2) show ?thesis by auto
qed

theorem kill_switch_revokes_authorizations_witness:
  "\<exists>e. assert_command_authority 5 (demo_command QUEUED) demo_auth demo_ready demo_permissions
      ((demo_switch PLATFORM)\<lparr>ks_safety_epoch := 5\<rparr>) (demo_switch ACCOUNT) = Inl e"
proof -
  let ?pk = "(demo_switch PLATFORM)\<lparr>ks_safety_epoch := 5\<rparr>"
  obtain auth plan' where a: "authorize_action (\<lambda>_. '''') ''auth'' 0 demo_ready PLACE_ORDER
      demo_permissions (demo_switch PLATFORM) (demo_switch ACCOUNT) 60 = Inr (plan', auth)" and "auth = demo_auth"
    by (simp add: authorize_action_def authorize_states_def demo_permissions_def demo_switch_def
        demo_auth_def Let_def)
  have "switch_step (demo_switch PLATFORM) ?pk"
    unfolding switch_step_def
    by (rule exI[of _ "demo_switch PLATFORM"], rule exI[of _ True], rule exI[of _ True])
       (simp add: update_kill_switch_def demo_switch_def)
  then have "switch_step\<^sup>+\<^sup>+ (demo_switch PLATFORM) ?pk" by (rule tranclp.r_into_trancl)
  with kill_switch_revokes_authorizations[OF a, of ?pk "demo_switch ACCOUNT"] \<open>auth = demo_auth\<close>
  show ?thesis by blast
qed

theorem dispatched_entry_is_the_sized_plan_witness:
  "\<exists>c' call c. dispatch (\<lambda>_. '''') (\<lambda>_. '''') 6 c demo_auth (\<lambda>_. Inl ''ConnectError'') = Inr (c', [call])
    \<and> map_of (cm_postcondition (bc_command call)) ''quantity'' = Some (JDec (1 / 2))"
proof -
  obtain auth plan' where a: "authorize_action (\<lambda>_. '''') ''auth'' 0 demo_ticketed PLACE_ORDER
      demo_permissions (demo_switch PLATFORM) (demo_switch ACCOUNT) 60 = Inr (plan', auth)" and "auth = demo_auth"
    by (simp add: authorize_action_def authorize_states_def demo_permissions_def demo_switch_def
        demo_auth_def Let_def)
  have auth: "demo_auth = auth" using \<open>auth = demo_auth\<close> ..
  let ?c = "new_command ''c'' 1 plan' auth ''entry:plan'' (entry_postcondition plan')"
  have plan': "plan' = demo_ticketed\<lparr>tp_authorization := Some auth, tp_state := TP_AUTHORIZED\<rparr>"
    using authorize_action_InrD(7)[OF a] by simp
  have ok: "assert_command_authority 5 ?c auth plan' demo_permissions (demo_switch PLATFORM)
      (demo_switch ACCOUNT) = Inr ()"
    unfolding assert_authority_ok_iff
    using authorize_action_InrD[OF a] entry_postcondition_expected[of plan'] plan'
    by (simp add: authority_plan_states_def demo_permissions_def demo_switch_def)
  obtain c' call where d: "dispatch (\<lambda>_. '''') (\<lambda>_. '''') 6 ?c auth (\<lambda>_. Inl ''ConnectError'') = Inr (c', [call])"
    using authorize_action_InrD(10)[OF a]
    by (simp add: dispatch_def advance_def command_transition_def new_command_def send_command_def Let_def)
  have "cm_action ?c = PLACE_ORDER" using authorize_action_InrD(10)[OF a] by simp
  from dispatched_entry_is_the_sized_plan[OF ok this _ d]
  have "map_of (cm_postcondition (bc_command call)) ''quantity'' = Some (JDec (1 / 2))"
    by (simp add: plan' demo_ticketed_def demo_ready_def demo_plan_def)
  with d show ?thesis unfolding auth by blast
qed

theorem create_command_idempotent_witness:
  "\<exists>ledger' c plan' auth. create_command ''c'' 1 empty_ledger plan' auth ''entry:plan'' = Inr (ledger', c)
    \<and> create_command ''d'' 2 ledger' plan' auth ''entry:plan'' = Inr (ledger', c)"
proof -
  obtain auth plan' where a: "authorize_action (\<lambda>_. ''digest'') ''auth'' 0 demo_ready PLACE_ORDER
      demo_permissions (demo_switch PLATFORM) (demo_switch ACCOUNT) 60 = Inr (plan', auth)"
    using demo_authorize by blast
  obtain ledger' c where c: "create_command ''c'' 1 empty_ledger plan' auth ''entry:plan'' = Inr (ledger', c)"
    by (rule demo_create[OF a])
  have "command_guards 2 plan' auth ''entry:plan'' = Inr ()"
    using authorize_action_InrD[OF a] by (simp add: command_guards_def)
  then have "create_command ''d'' 2 ledger' plan' auth ''entry:plan'' = Inr (ledger', c)"
    using create_command_idempotent[OF c _ _ _ \<open>command_guards 2 plan' auth _ = _\<close>] by simp
  with c show ?thesis by blast
qed

theorem authorize_entry_current_witness:
  "\<exists>plan' auth. authorize_entry (\<lambda>_. '''') ''auth'' 0 demo_ready (\<lambda>_. demo_permissions)
      (\<lambda>_. (demo_switch PLATFORM, demo_switch ACCOUNT)) (\<lambda>_. \<lparr>bs_fresh = Some True, bs_account_id = Some ''a''\<rparr>)
      None 60 = Inr (plan', auth) \<and> tp_state plan' = TP_AUTHORIZED"
proof -
  obtain plan' auth where a: "authorize_entry (\<lambda>_. '''') ''auth'' 0 demo_ready (\<lambda>_. demo_permissions)
      (\<lambda>_. (demo_switch PLATFORM, demo_switch ACCOUNT)) (\<lambda>_. \<lparr>bs_fresh = Some True, bs_account_id = Some ''a''\<rparr>)
      None 60 = Inr (plan', auth)"
    by (simp add: authorize_entry_def authorize_action_def authorize_states_def demo_permissions_def
        demo_switch_def Let_def)
  from authorize_entry_current[OF a refl] a show ?thesis by blast
qed

end
