(* ===== verification/Reconciliation.thy ===== *)
theory Reconciliation
  imports Execution
begin

text \<open>
  What the broker reports and how the program matches it: the broker facts of
  \<open>packages/broker_sdk/schemas.py\<close> and \<open>modules/trading/models.py\<close>, \<open>reconciliation.py\<close>,
  \<open>reconciliation_decisions.py\<close>, and the monitoring functions \<open>monitor.py\<close>, \<open>monitor_agent.py\<close>,
  \<open>manual_entry.py\<close>, \<open>setup_detector.py\<close>, \<open>critic.py\<close> with the retired \<open>hil2\<close>, \<open>hil3\<close> and \<open>proposals\<close> writes.
\<close>

section \<open>Broker facts\<close>

record typed_identity =
  ty_asset_class :: "asset_class option"
  ty_instrument_type :: "instrument_type option"
  ty_venue_instrument_id :: "uuid option"
  ty_futures_contract_id :: "uuid option"
  ty_specification_version_id :: "uuid option"
  ty_quantity_unit :: "quantity_unit option"

text \<open>A position and an order as the bridge sends them.\<close>

record sdk_position =
  sp_position_id :: string
  sp_account_id :: uuid
  sp_symbol :: string
  sp_direction :: direction
  sp_volume :: decimal
  sp_entry_price :: decimal
  sp_stop_loss :: "decimal option"
  sp_take_profit :: "decimal option"
  sp_pnl :: decimal
  sp_observed_at :: timestamp
  sp_typed :: typed_identity
  sp_loss_to_stop :: "decimal option"

record sdk_order =
  so_order_id :: string
  so_account_id :: uuid
  so_command_id :: "uuid option"
  so_symbol :: string
  so_direction :: direction
  so_requested_volume :: decimal
  so_filled_volume :: decimal
  so_state :: string
  so_version :: int
  so_observed_at :: timestamp
  so_typed :: typed_identity

record sdk_fill =
  sf_fill_id :: string
  sf_account_id :: uuid
  sf_order_id :: string
  sf_quantity :: decimal
  sf_price :: decimal
  sf_revision :: int
  sf_observed_at :: timestamp

record broker_snapshot =
  sn_message_id :: uuid
  sn_broker_account :: uuid
  sn_sequence :: int
  sn_snapshot_at :: timestamp
  sn_balance :: decimal
  sn_equity :: decimal
  sn_realized_pnl :: decimal
  sn_account_currency :: "string option"
  sn_positions :: "sdk_position list"
  sn_orders :: "sdk_order list"
  sn_fills :: "sdk_fill list"

text \<open>The typed order and position of \<open>modules/trading/models.py\<close>.\<close>

record broker_order =
  bo_account_id :: uuid
  bo_command_id :: uuid
  bo_broker_order_id :: string
  bo_instrument :: string
  bo_direction :: "direction option"
  bo_state :: string
  bo_quantity :: decimal
  bo_filled_quantity :: decimal
  bo_version :: int
  bo_observed_at :: timestamp
  bo_typed :: typed_identity

record broker_position =
  bp_account_id :: uuid
  bp_broker_position_id :: string
  bp_instrument :: string
  bp_direction :: "direction option"
  bp_quantity :: decimal
  bp_average_price :: decimal
  bp_version :: int
  bp_observed_at :: timestamp
  bp_typed :: typed_identity

record reconciliation_record =
  rn_account_id :: uuid
  rn_command_id :: "uuid option"
  rn_state :: string
  rn_certainty :: outcome_certainty
  rn_broker_order_id :: "string option"
  rn_broker_position_id :: "string option"
  rn_evidence_refs :: "string list"

section \<open>Reconciling a command\<close>

text \<open>\<open>requested.get(k)\<close>: a missing key and a JSON null both read as \<open>None\<close>.\<close>

definition requested :: "execution_command \<Rightarrow> string \<Rightarrow> jvalue option" where
  "requested c k =
     (case map_of (cm_postcondition c) k of
        None \<Rightarrow> None
      | Some JNull \<Rightarrow> None
      | Some v \<Rightarrow> Some v)"

text \<open>\<open>Decimal(str(v))\<close>; a text that is not a decimal's raises.\<close>

fun jvalue_decimal :: "jvalue \<Rightarrow> decimal res" where
  "jvalue_decimal (JDec d) = Inr d"
| "jvalue_decimal _ = Inl InvalidOperation"

text \<open>\<open>str(x) == requested\<close> of an optional identifier: the text of \<open>None\<close> is \<open>None\<close>.\<close>

definition id_text :: "uuid option \<Rightarrow> string" where
  "id_text i = (case i of None \<Rightarrow> ''None'' | Some u \<Rightarrow> u)"

definition order_matches :: "execution_command \<Rightarrow> broker_order \<Rightarrow> bool" where
  "order_matches c o' \<longleftrightarrow>
     bo_command_id o' = cm_id c
     \<or> (cm_broker_order_id c \<noteq> None \<and> cm_broker_order_id c = Some (bo_broker_order_id o'))"

definition position_matches :: "execution_command \<Rightarrow> broker_position \<Rightarrow> bool res" where
  "position_matches c p =
     (if requested c ''instrument'' \<noteq> Some (JStr (bp_instrument p)) then Inr False
      else if \<not> (requested c ''direction'' = None \<or> bp_direction p = None
                 \<or> requested c ''direction'' = Some (JStr (direction_value (the (bp_direction p)))))
      then Inr False
      else rbind (case requested c ''quantity'' of
                    None \<Rightarrow> Inr True
                  | Some v \<Rightarrow> rbind (jvalue_decimal v) (\<lambda>q. Inr (d_abs (bp_quantity p) = q)))
        (\<lambda>quantity_ok. Inr
           (quantity_ok
            \<and> (requested c ''venue_instrument_id'' = None
               \<or> requested c ''venue_instrument_id''
                   = Some (JStr (id_text (ty_venue_instrument_id (bp_typed p)))))
            \<and> (requested c ''specification_version_id'' = None
               \<or> requested c ''specification_version_id''
                   = Some (JStr (id_text (ty_specification_version_id (bp_typed p))))))))"

fun rfilter :: "('a \<Rightarrow> bool res) \<Rightarrow> 'a list \<Rightarrow> 'a list res" where
  "rfilter p [] = Inr []"
| "rfilter p (x # xs) = rbind (p x) (\<lambda>b. rbind (rfilter p xs) (\<lambda>ys. Inr (if b then x # ys else ys)))"

definition record_of ::
    "execution_command \<Rightarrow> string \<Rightarrow> outcome_certainty \<Rightarrow> string option \<Rightarrow> string option \<Rightarrow> string list \<Rightarrow>
     reconciliation_record" where
  "record_of c st certainty ord pos evidence =
     \<lparr>rn_account_id = cm_account_id c, rn_command_id = Some (cm_id c), rn_state = st,
      rn_certainty = certainty, rn_broker_order_id = ord, rn_broker_position_id = pos,
      rn_evidence_refs = evidence\<rparr>"

definition position_ref :: "broker_position \<Rightarrow> string" where
  "position_ref p = ''position:'' @ bp_broker_position_id p @ '':v'' @ int_str (bp_version p)"

definition reconcile_command ::
    "execution_command \<Rightarrow> broker_order list \<Rightarrow> broker_position list \<Rightarrow> bool \<Rightarrow>
     reconciliation_record res" where
  "reconcile_command c orders positions authoritative_snapshot =
     (case filter (order_matches c) orders of
        [o'] \<Rightarrow>
          Inr (record_of c ''MATCHED'' CONFIRMED (Some (bo_broker_order_id o')) None
                 [''order:'' @ bo_broker_order_id o'])
      | o1 # o2 # os \<Rightarrow>
          Inr (record_of c ''AMBIGUOUS'' UNCERTAIN None None
                 (map (\<lambda>o'. ''order:'' @ bo_broker_order_id o') (o1 # o2 # os)))
      | [] \<Rightarrow>
          rbind (rfilter (position_matches c) positions) (\<lambda>ps.
            case ps of
              [p] \<Rightarrow>
                Inr (record_of c ''MATCHED'' CONFIRMED None (Some (bp_broker_position_id p))
                       [position_ref p])
            | p1 # p2 # qs \<Rightarrow>
                Inr (record_of c ''AMBIGUOUS'' UNCERTAIN None None (map position_ref (p1 # p2 # qs)))
            | [] \<Rightarrow>
                Inr (record_of c
                       (if authoritative_snapshot then ''NO_EFFECT_CONFIRMED'' else ''OUTCOME_UNKNOWN'')
                       (if authoritative_snapshot then CONFIRMED else UNCERTAIN) None None [])))"

definition retry_allowed :: "reconciliation_record \<Rightarrow> bool" where
  "retry_allowed r \<longleftrightarrow> rn_state r = ''NO_EFFECT_CONFIRMED'' \<and> rn_certainty r = CONFIRMED"

section \<open>Reconciling a manual proposal\<close>

datatype reconciliation_state = RC_MATCHED | RC_AMBIGUOUS | RC_NOT_FOUND

record reconciliation =
  rl_proposal_id :: uuid
  rl_state :: reconciliation_state
  rl_candidate_position_ids :: "string list"
  rl_selected_position_id :: "string option"

text \<open>The fields of a proposal \<open>reconcile\<close> reads.\<close>

record trade_proposal =
  pr_id :: uuid
  pr_instrument :: string
  pr_direction :: direction
  pr_entry :: decimal
  pr_approved_size :: decimal
  pr_typed :: typed_identity

definition typed_identity_valid :: "typed_identity \<Rightarrow> unit res" where
  "typed_identity_valid t =
     (case ty_instrument_type t of
        None \<Rightarrow> Inr ()
      | Some it \<Rightarrow>
          rbind (ensure (\<not> (\<not> truthy (ty_venue_instrument_id t) \<or> \<not> truthy (ty_specification_version_id t)
                            \<or> ty_quantity_unit t = None))
                   (ValueError ''typed trade proposals require listing, specification, and quantity unit'')) (\<lambda>_.
          ensure (\<not> (it = FUTURES \<and> \<not> truthy (ty_futures_contract_id t)))
            (ValueError ''futures trade proposals require a dated contract'')))"

definition proposal_matches :: "trade_proposal \<Rightarrow> decimal \<Rightarrow> decimal \<Rightarrow> sdk_position \<Rightarrow> bool" where
  "proposal_matches pr price_tolerance size_tolerance p \<longleftrightarrow>
     sp_symbol p = pr_instrument pr \<and> sp_direction p = pr_direction pr
     \<and> d_abs (d_sub (sp_entry_price p) (pr_entry pr)) \<le> price_tolerance
     \<and> d_abs (d_sub (sp_volume p) (pr_approved_size pr)) \<le> size_tolerance
     \<and> (ty_instrument_type (pr_typed pr) = None
        \<or> (ty_instrument_type (sp_typed p) = ty_instrument_type (pr_typed pr)
           \<and> ty_venue_instrument_id (sp_typed p) = ty_venue_instrument_id (pr_typed pr)
           \<and> ty_specification_version_id (sp_typed p) = ty_specification_version_id (pr_typed pr)
           \<and> ty_futures_contract_id (sp_typed p) = ty_futures_contract_id (pr_typed pr)))"

definition reconcile :: "trade_proposal \<Rightarrow> sdk_position list \<Rightarrow> decimal \<Rightarrow> decimal \<Rightarrow> reconciliation" where
  "reconcile pr positions price_tolerance size_tolerance =
     (let matches = filter (proposal_matches pr price_tolerance size_tolerance) positions in
      \<lparr>rl_proposal_id = pr_id pr,
       rl_state = (if length matches = 1 then RC_MATCHED
                   else if 1 < length matches then RC_AMBIGUOUS else RC_NOT_FOUND),
       rl_candidate_position_ids = map sp_position_id matches,
       rl_selected_position_id =
         (if length matches = 1 then Some (sp_position_id (hd matches)) else None)\<rparr>)"

definition resolve :: "reconciliation \<Rightarrow> string \<Rightarrow> reconciliation res" where
  "resolve r position_id =
     rbind (ensure (\<not> (rl_state r \<noteq> RC_AMBIGUOUS \<or> position_id \<notin> set (rl_candidate_position_ids r)))
              (ValueError ''position is not an ambiguous candidate'')) (\<lambda>_.
     Inr (r\<lparr>rl_state := RC_MATCHED, rl_selected_position_id := Some position_id\<rparr>))"

section \<open>Monitoring\<close>

datatype recommendation_action = HOLD | MOVE_SL | PARTIAL_TP | EARLY_EXIT | RA_FULL_EXIT

record recommendation =
  re_trade_id :: uuid
  re_action :: recommendation_action
  re_reason :: string
  re_requires_authorization :: bool

text \<open>The keys of the facts: those a branch does not set are absent.\<close>

record monitoring =
  mf_actionable :: bool
  mf_reason :: "string option"
  mf_invalidated :: "bool option"
  mf_pnl :: "decimal option"

definition monitoring_facts ::
    "sdk_position \<Rightarrow> decimal \<Rightarrow> bool \<Rightarrow> bool \<Rightarrow> string list \<Rightarrow> monitoring" where
  "monitoring_facts position current_price policy_valid bridge_fresh lifecycle_events =
     (if \<not> bridge_fresh
      then \<lparr>mf_actionable = False, mf_reason = Some ''broker state stale'', mf_invalidated = None,
            mf_pnl = None\<rparr>
      else if lifecycle_events \<noteq> []
      then \<lparr>mf_actionable = False,
            mf_reason = Some ''typed instrument lifecycle requires revalidation'',
            mf_invalidated = None, mf_pnl = None\<rparr>
      else
        (let invalidated =
               (case sp_stop_loss position of
                  None \<Rightarrow> False
                | Some sl \<Rightarrow>
                    (sp_direction position = BUY \<and> current_price \<le> sl)
                    \<or> (sp_direction position = SELL \<and> sl \<le> current_price))
         in \<lparr>mf_actionable = (policy_valid \<and> \<not> invalidated), mf_reason = None,
             mf_invalidated = Some invalidated, mf_pnl = Some (sp_pnl position)\<rparr>))"

fun permission_action :: "recommendation_action \<Rightarrow> execution_action option" where
  "permission_action MOVE_SL = Some SET_OR_CHANGE_STOP_LOSS"
| "permission_action PARTIAL_TP = Some PARTIAL_CLOSE"
| "permission_action EARLY_EXIT = Some FULL_EXIT"
| "permission_action RA_FULL_EXIT = Some FULL_EXIT"
| "permission_action HOLD = None"

definition management_authorization ::
    "uuid \<Rightarrow> recommendation_action \<Rightarrow> execution_permissions \<Rightarrow> kill_switch \<Rightarrow> kill_switch \<Rightarrow> bool \<Rightarrow>
     bool \<Rightarrow> bool \<Rightarrow> recommendation" where
  "management_authorization trade_id action permissions platform_kill account_kill broker_fresh
       risk_fresh policy_valid =
     (if action = HOLD
      then \<lparr>re_trade_id = trade_id, re_action = action, re_reason = ''no management trigger'',
            re_requires_authorization = False\<rparr>
      else
        \<lparr>re_trade_id = trade_id, re_action = action,
         re_reason =
           (if \<not> broker_fresh \<or> \<not> risk_fresh then ''broker or risk snapshot is stale''
            else if ks_active platform_kill \<or> ks_active account_kill
            then ''platform or account kill switch is active''
            else if \<not> policy_valid then ''policy or guardrail is not valid''
            else (case permission_action action of
                    Some a \<Rightarrow>
                      if permissions_allow permissions a
                      then ''management action passed current authority checks''
                      else ''management action is disabled for this account''
                  | None \<Rightarrow> ''management action is disabled for this account'')),
         re_requires_authorization = True\<rparr>)"

definition interpret_facts :: "uuid \<Rightarrow> monitoring \<Rightarrow> recommendation" where
  "interpret_facts trade_id facts =
     (if \<not> mf_actionable facts
      then \<lparr>re_trade_id = trade_id, re_action = HOLD,
            re_reason = (case mf_reason facts of None \<Rightarrow> ''deterministic checks block action''
                                              | Some r \<Rightarrow> r),
            re_requires_authorization = False\<rparr>
      else \<lparr>re_trade_id = trade_id, re_action = HOLD, re_reason = ''no deterministic trigger'',
            re_requires_authorization = False\<rparr>)"

definition awaiting_entry_valid :: "timestamp \<Rightarrow> risk_reservation \<Rightarrow> int \<Rightarrow> bool" where
  "awaiting_entry_valid now reservation max_wait \<longleftrightarrow>
     now < bk_expires_at reservation \<and> bk_expires_at reservation - now \<le> max_wait"

record strategy_setup =
  ss_strategy_version :: string
  ss_eligible :: bool
  ss_direction :: string
  ss_evidence :: "string list"

definition detect_setup :: "string \<Rightarrow> (string, bool) dict \<Rightarrow> string \<Rightarrow> strategy_setup" where
  "detect_setup strategy_version facts direction =
     \<lparr>ss_strategy_version = strategy_version,
      ss_eligible = (facts \<noteq> [] \<and> list_all (\<lambda>b. b) (dvalues facts)),
      ss_direction = direction,
      ss_evidence = sorted_strings (map fst (filter snd facts))\<rparr>"

text \<open>The critic's output: \<open>accepted\<close> and \<open>explanation\<close>, when they have the right types.\<close>

definition conservative_critic :: "(bool option \<times> string option) option \<Rightarrow> bool \<times> string" where
  "conservative_critic output =
     (case output of
        Some (Some accepted, Some explanation) \<Rightarrow> (accepted, explanation)
      | _ \<Rightarrow> (False, ''critic unavailable or returned an invalid schema''))"

subsection \<open>Retired writes\<close>

definition reject_new_write :: "string \<Rightarrow> 'a res" where
  "reject_new_write workflow =
     Inl (LegacyWorkflowDisabled
       (workflow @ '' is a read-only legacy record; autonomous Trade Plans are required''))"

definition hil2_decide :: "'p \<Rightarrow> 'd \<Rightarrow> reservation_book \<Rightarrow> 'p res" where
  "hil2_decide proposal decision reservations = reject_new_write ''HIL-2 decisions''"

definition hil3_decide :: "recommendation \<Rightarrow> 'a \<Rightarrow> bool \<Rightarrow> bool \<Rightarrow> recommendation res" where
  "hil3_decide r action policy_valid lifecycle_valid = reject_new_write ''HIL-3 decisions''"

definition proposal_create ::
    "reservation_book \<Rightarrow> risk_context \<Rightarrow> candidate_trade \<Rightarrow> (reservation_book \<times> trade_proposal) res" where
  "proposal_create reservations ctx c = reject_new_write ''manual Trade Proposals''"

section \<open>Lemmas\<close>

lemma rfilter_InrD:
  assumes "rfilter p xs = Inr ys"
  shows "ys = filter (\<lambda>x. p x = Inr True) xs" "\<forall>x \<in> set xs. is_ok (p x)"
proof -
  have "ys = filter (\<lambda>x. p x = Inr True) xs \<and> (\<forall>x \<in> set xs. is_ok (p x))"
    using assms by (induction xs arbitrary: ys) auto
  then show "ys = filter (\<lambda>x. p x = Inr True) xs" "\<forall>x \<in> set xs. is_ok (p x)" by auto
qed

lemma position_matches_True:
  assumes "position_matches c p = Inr True"
  shows "requested c ''instrument'' = Some (JStr (bp_instrument p))"
    and "requested c ''quantity'' = Some (JDec q) \<Longrightarrow> d_abs (bp_quantity p) = q"
    and "requested c ''venue_instrument_id'' = Some (JStr v) \<Longrightarrow> id_text (ty_venue_instrument_id (bp_typed p)) = v"
  using assms by (auto simp: position_matches_def rbind_eq_Inr_iff split: if_splits)

lemma filter_ConsD: "filter P xs = y # ys \<Longrightarrow> y \<in> set xs \<and> P y"
  by (auto dest: filter_eq_ConsD)

text \<open>The outcomes of a reconciliation by the facts that match.\<close>

lemma reconcile_command_cases:
  assumes "reconcile_command c orders positions auth = Inr r"
  obtains (one_order) o' ev where "filter (order_matches c) orders = [o']"
      "r = record_of c ''MATCHED'' CONFIRMED (Some (bo_broker_order_id o')) None ev"
    | (many_orders) o1 o2 os ev where "filter (order_matches c) orders = o1 # o2 # os"
      "r = record_of c ''AMBIGUOUS'' UNCERTAIN None None ev"
    | (one_position) p ev where "filter (order_matches c) orders = []"
      "filter (\<lambda>p. position_matches c p = Inr True) positions = [p]"
      "r = record_of c ''MATCHED'' CONFIRMED None (Some (bp_broker_position_id p)) ev"
    | (many_positions) p1 p2 ps ev where "filter (order_matches c) orders = []"
      "filter (\<lambda>p. position_matches c p = Inr True) positions = p1 # p2 # ps"
      "r = record_of c ''AMBIGUOUS'' UNCERTAIN None None ev"
    | (nothing) "filter (order_matches c) orders = []"
      "filter (\<lambda>p. position_matches c p = Inr True) positions = []"
      "r = record_of c (if auth then ''NO_EFFECT_CONFIRMED'' else ''OUTCOME_UNKNOWN'')
             (if auth then CONFIRMED else UNCERTAIN) None None []"
proof (cases "filter (order_matches c) orders")
  case Nil
  with assms obtain ps where ps: "rfilter (position_matches c) positions = Inr ps"
    by (auto simp: reconcile_command_def rbind_eq_Inr_iff)
  note f = rfilter_InrD(1)[OF ps, symmetric]
  consider "ps = []" | p where "ps = [p]" | p1 p2 qs where "ps = p1 # p2 # qs"
    by (metis neq_Nil_conv)
  then show thesis
  proof cases
    case 1
    show thesis by (rule nothing[OF Nil]) (use f 1 assms Nil ps in \<open>simp_all add: reconcile_command_def\<close>)
  next
    case (2 p)
    show thesis
      by (rule one_position[OF Nil, of p "[position_ref p]"])
         (use f 2 assms Nil ps in \<open>simp_all add: reconcile_command_def\<close>)
  next
    case (3 p1 p2 qs)
    show thesis
      by (rule many_positions[OF Nil, of p1 p2 qs "map position_ref ps"])
         (use f 3 assms Nil ps in \<open>simp_all add: reconcile_command_def\<close>)
  qed
next
  case (Cons o1 os)
  then show thesis
    using assms one_order many_orders by (cases os) (auto simp: reconcile_command_def)
qed

lemma record_of_fields [simp]:
  "rn_state (record_of c s k ord pos ev) = s" "rn_certainty (record_of c s k ord pos ev) = k"
  "rn_broker_position_id (record_of c s k ord pos ev) = pos"
  "rn_broker_order_id (record_of c s k ord pos ev) = ord"
  "rn_command_id (record_of c s k ord pos ev) = Some (cm_id c)"
  "rn_account_id (record_of c s k ord pos ev) = cm_account_id c"
  by (simp_all add: record_of_def)

section \<open>Properties\<close>

text \<open>A retry is allowed only when an authoritative snapshot holds no order of the command and no
  position that matches what it asked for; an ambiguous or a matched reconciliation never allows one.\<close>
theorem retry_only_without_effect:
  assumes "reconcile_command c orders positions auth = Inr r"
  shows "retry_allowed r \<longleftrightarrow>
    auth \<and> (\<forall>o' \<in> set orders. \<not> order_matches c o')
    \<and> (\<forall>p \<in> set positions. position_matches c p \<noteq> Inr True)"
  using assms
proof (cases rule: reconcile_command_cases)
  case (one_order o' ev)
  then show ?thesis using filter_ConsD[OF one_order(1)] by (auto simp: retry_allowed_def)
next
  case (many_orders o1 o2 os ev)
  then show ?thesis using filter_ConsD[OF many_orders(1)] by (auto simp: retry_allowed_def)
next
  case (one_position p ev)
  then show ?thesis using filter_ConsD[OF one_position(2)] by (auto simp: retry_allowed_def)
next
  case (many_positions p1 p2 ps ev)
  then show ?thesis using filter_ConsD[OF many_positions(2)] by (auto simp: retry_allowed_def)
next
  case nothing
  then show ?thesis by (simp add: retry_allowed_def filter_empty_conv)
qed

text \<open>A reconciliation is a match exactly when one fact matches, the orders deciding before the
  positions; a match by order names no position.\<close>
theorem reconcile_command_unique_match:
  assumes "reconcile_command c orders positions auth = Inr r"
  shows "(rn_state r = ''MATCHED'' \<longleftrightarrow>
      length (filter (order_matches c) orders) = 1
      \<or> (filter (order_matches c) orders = []
         \<and> length (filter (\<lambda>p. position_matches c p = Inr True) positions) = 1))
    \<and> (filter (order_matches c) orders \<noteq> [] \<longrightarrow> rn_broker_position_id r = None)"
  using assms by (cases rule: reconcile_command_cases) auto

text \<open>A position that is there is reported as no effect: when no order of the command is in the
  snapshot and the only position on its instrument has another volume than the command asked for, as
  after a partial fill, or lacks the listing identity every entry asks for, the authoritative
  reconciliation confirms that the command had no effect and allows a retry.\<close>
theorem partial_fill_reported_as_no_effect:
  assumes "\<forall>o' \<in> set orders. \<not> order_matches c o'"
    and "requested c ''quantity'' = Some (JDec q)" and "requested c ''venue_instrument_id'' = Some (JStr v)"
    and "d_abs (bp_quantity p) < q \<or> ty_venue_instrument_id (bp_typed p) = None \<and> v \<noteq> ''None''"
  shows "\<exists>r. reconcile_command c orders [p] True = Inr r \<and> rn_state r = ''NO_EFFECT_CONFIRMED''
    \<and> retry_allowed r"
proof -
  have "filter (order_matches c) orders = []" using assms(1) by (simp add: filter_empty_conv)
  moreover have "position_matches c p = Inr False"
    using assms(2-4) by (auto simp: position_matches_def id_text_def)
  ultimately show ?thesis by (simp add: reconcile_command_def retry_allowed_def)
qed

text \<open>A management command that names no instrument is never matched to a position: without an order
  of its own in the snapshot it is confirmed to have had no effect whatever positions there are.\<close>
theorem instrumentless_command_no_effect:
  assumes "\<forall>o' \<in> set orders. \<not> order_matches c o'" and "requested c ''instrument'' = None"
  shows "\<exists>r. reconcile_command c orders positions True = Inr r \<and> rn_state r = ''NO_EFFECT_CONFIRMED''"
proof -
  have "filter (order_matches c) orders = []" using assms(1) by (simp add: filter_empty_conv)
  moreover have "position_matches c p = Inr False" for p using assms(2) by (simp add: position_matches_def)
  then have "rfilter (position_matches c) positions = Inr []" by (induction positions) simp_all
  ultimately show ?thesis by (simp add: reconcile_command_def)
qed

text \<open>A proposal is matched to at most one position, within the tolerances of price and size; an
  ambiguous one is resolved only to one of its candidates, and what is resolved cannot be resolved
  again.\<close>
theorem reconcile_resolve_candidates:
  assumes "resolve (reconcile pr positions pt st) i = Inr r"
  shows "rl_state r = RC_MATCHED \<and> rl_selected_position_id r = Some i
    \<and> (\<exists>p \<in> set positions. sp_position_id p = i \<and> sp_symbol p = pr_instrument pr
         \<and> d_abs (d_sub (sp_entry_price p) (pr_entry pr)) \<le> pt
         \<and> d_abs (d_sub (sp_volume p) (pr_approved_size pr)) \<le> st)
    \<and> 1 < length (filter (proposal_matches pr pt st) positions)
    \<and> (\<forall>j. \<not> is_ok (resolve r j))"
  using assms
  by (auto simp: resolve_def reconcile_def rbind_eq_Inr_iff Let_def proposal_matches_def is_ok_def
      split: if_splits)

text \<open>Monitoring never asks for a broker write by itself: whatever the facts, the interpretation is to
  hold without authorization; and any other recommendation passes the authority checks only while
  broker, risk and policy are valid, no kill switch is active and its permission is granted.\<close>
theorem monitoring_never_acts:
  "re_action (interpret_facts t (monitoring_facts p price pol fresh events)) = HOLD
    \<and> \<not> re_requires_authorization (interpret_facts t (monitoring_facts p price pol fresh events))
    \<and> (re_reason (management_authorization t a perms pk ak bf rf pv)
          = ''management action passed current authority checks''
        \<longleftrightarrow> bf \<and> rf \<and> pv \<and> \<not> ks_active pk \<and> \<not> ks_active ak
            \<and> (\<exists>x. permission_action a = Some x \<and> permissions_allow perms x))"
  by (cases a) (auto simp: interpret_facts_def management_authorization_def)

section \<open>Witnesses\<close>

definition untyped :: typed_identity where
  "untyped = \<lparr>ty_asset_class = None, ty_instrument_type = None, ty_venue_instrument_id = None,
     ty_futures_contract_id = None, ty_specification_version_id = None, ty_quantity_unit = None\<rparr>"

definition demo_broker_position :: "decimal \<Rightarrow> broker_position" where
  "demo_broker_position q =
     \<lparr>bp_account_id = ''a'', bp_broker_position_id = ''p1'', bp_instrument = ''EURUSD'',
      bp_direction = Some BUY, bp_quantity = q, bp_average_price = 11 / 10, bp_version = 3,
      bp_observed_at = 0, bp_typed = untyped\<lparr>ty_venue_instrument_id := Some ''v''\<rparr>\<rparr>"

definition demo_entry :: "command_state \<Rightarrow> execution_command" where
  "demo_entry st = (demo_command st)\<lparr>cm_postcondition :=
     [(''instrument'', JStr ''EURUSD''), (''quantity'', JDec 2), (''venue_instrument_id'', JStr ''v'')]\<rparr>"

theorem retry_only_without_effect_witness:
  "\<exists>r. reconcile_command (demo_entry ACKNOWLEDGED) [] [demo_broker_position 2] True = Inr r
    \<and> \<not> retry_allowed r"
proof -
  have m: "position_matches (demo_entry ACKNOWLEDGED) (demo_broker_position 2) = Inr True"
    by (simp add: position_matches_def requested_def demo_entry_def demo_command_def
        demo_broker_position_def id_text_def untyped_def d_abs_def dec8_numeral)
  then obtain r where r: "reconcile_command (demo_entry ACKNOWLEDGED) [] [demo_broker_position 2] True = Inr r"
    by (simp add: reconcile_command_def)
  from retry_only_without_effect[OF r] r m show ?thesis by simp
qed

theorem reconcile_command_unique_match_witness:
  "\<exists>r. reconcile_command (demo_entry ACKNOWLEDGED) [] [demo_broker_position 2] True = Inr r
    \<and> rn_state r = ''MATCHED''"
proof -
  have m: "position_matches (demo_entry ACKNOWLEDGED) (demo_broker_position 2) = Inr True"
    by (simp add: position_matches_def requested_def demo_entry_def demo_command_def
        demo_broker_position_def id_text_def untyped_def d_abs_def dec8_numeral)
  then obtain r where r: "reconcile_command (demo_entry ACKNOWLEDGED) [] [demo_broker_position 2] True = Inr r"
    by (simp add: reconcile_command_def)
  from reconcile_command_unique_match[OF r] r m show ?thesis by simp
qed

theorem partial_fill_reported_as_no_effect_witness:
  "\<exists>r. reconcile_command (demo_entry ACKNOWLEDGED) [] [demo_broker_position 1] True = Inr r
    \<and> rn_state r = ''NO_EFFECT_CONFIRMED'' \<and> retry_allowed r"
  by (rule partial_fill_reported_as_no_effect[where q = 2 and v = "''v''"])
     (simp_all add: requested_def demo_entry_def demo_command_def demo_broker_position_def d_abs_def
       dec8_numeral)

theorem instrumentless_command_no_effect_witness:
  "\<exists>r. reconcile_command (demo_command ACKNOWLEDGED) [] [demo_broker_position 1] True = Inr r
    \<and> rn_state r = ''NO_EFFECT_CONFIRMED''"
  by (rule instrumentless_command_no_effect) (simp_all add: requested_def demo_command_def)

definition demo_sdk_position :: "string \<Rightarrow> sdk_position" where
  "demo_sdk_position i =
     \<lparr>sp_position_id = i, sp_account_id = ''a'', sp_symbol = ''EURUSD'', sp_direction = BUY, sp_volume = 1,
      sp_entry_price = 11 / 10, sp_stop_loss = Some 1, sp_take_profit = None, sp_pnl = 0,
      sp_observed_at = 0, sp_typed = untyped, sp_loss_to_stop = Some 50\<rparr>"

theorem reconcile_resolve_candidates_witness:
  "\<exists>r. resolve (reconcile \<lparr>pr_id = ''x'', pr_instrument = ''EURUSD'', pr_direction = BUY, pr_entry = 11 / 10,
        pr_approved_size = 1, pr_typed = untyped\<rparr> [demo_sdk_position ''1'', demo_sdk_position ''2'']
        (3 / 1000) (1 / 100)) ''2'' = Inr r \<and> rl_selected_position_id r = Some ''2''"
proof -
  let ?pr = "\<lparr>pr_id = ''x'', pr_instrument = ''EURUSD'', pr_direction = BUY, pr_entry = 11 / 10,
        pr_approved_size = 1, pr_typed = untyped\<rparr>"
  obtain r where r: "resolve (reconcile ?pr [demo_sdk_position ''1'', demo_sdk_position ''2'']
      (3 / 1000) (1 / 100)) ''2'' = Inr r"
    by (simp add: resolve_def reconcile_def proposal_matches_def demo_sdk_position_def untyped_def
        dec_defs Let_def)
  from reconcile_resolve_candidates[OF r] r show ?thesis by blast
qed

end
