(* ===== verification/BridgeQueue.thy ===== *)
theory BridgeQueue
  imports Reconciliation
begin

text \<open>
  The MT5 bridge: its command queue (\<open>bridges/mt5/commands.py\<close>), the request authentication, the
  ingestion rule and the command routes of its application (\<open>bridges/mt5/app.py\<close>), and the client the
  worker uses (\<open>adapters/broker/mt5_bridge/client.py\<close>).

  HMAC and the credential authority are one parameter, the verdict on the signature of a request; a
  state file that cannot be read or parsed is \<open>None\<close>.
\<close>

section \<open>The queue\<close>

record bridge_command =
  bc_command_id :: uuid
  bc_account_id :: uuid
  bc_action :: string
  bc_idempotency_key :: string
  bc_payload :: postcondition
  bc_authorization_id :: "uuid option"
  bc_authorization_digest :: "string option"
  bc_expected_broker_version :: "string option"
  bc_state :: string
  bc_lease_expires_at :: "timestamp option"

record bridge_receipt =
  br_command_id :: uuid
  br_account_id :: uuid
  br_idempotency_key :: string
  br_state :: string
  br_outcome_certainty :: string
  br_broker_order_id :: "string option"
  br_error_code :: "string option"
  br_observed_at :: timestamp

type_synonym queue_file = "bridge_command list \<times> bridge_receipt list"

record bridge_queue =
  bq_pending :: "(uuid, bridge_command) dict"
  bq_receipts :: "(uuid, bridge_receipt) dict"
  bq_state_path :: bool
  bq_file :: "queue_file option"
  bq_lease :: int

definition queue_persist :: "bridge_queue \<Rightarrow> bridge_queue" where
  "queue_persist q =
     (if bq_state_path q
      then q\<lparr>bq_file := Some (dvalues (bq_pending q), dvalues (bq_receipts q))\<rparr> else q)"

definition index_by :: "('v \<Rightarrow> 'k) \<Rightarrow> 'v list \<Rightarrow> ('k, 'v) dict" where
  "index_by f xs = fold (\<lambda>x d. AList.update (f x) x d) xs []"

definition queue_load :: "bool \<Rightarrow> queue_file option \<Rightarrow> int \<Rightarrow> bridge_queue" where
  "queue_load state_path file lease_seconds =
     (let (pending, receipts) =
            (if state_path then (case file of None \<Rightarrow> ([], []) | Some f \<Rightarrow> f) else ([], []))
      in \<lparr>bq_pending = index_by bc_command_id pending, bq_receipts = index_by br_command_id receipts,
          bq_state_path = state_path, bq_file = file, bq_lease = seconds (max 5 lease_seconds)\<rparr>)"

definition queue_enqueue :: "bridge_queue \<Rightarrow> bridge_command \<Rightarrow> (bridge_queue \<times> bridge_command) res" where
  "queue_enqueue q c =
     (case first_match (\<lambda>e. bc_idempotency_key e = bc_idempotency_key c) (dvalues (bq_pending q)) of
        Some existing \<Rightarrow>
          if \<not> dict_eq (bc_payload existing) (bc_payload c) \<or> bc_action existing \<noteq> bc_action c
          then Inl (ValueError ''idempotency key is bound to a different command'')
          else Inr (q, existing)
      | None \<Rightarrow>
          Inr (queue_persist (q\<lparr>bq_pending := AList.update (bc_command_id c) c (bq_pending q)\<rparr>), c))"

definition pollable :: "uuid \<Rightarrow> timestamp \<Rightarrow> bridge_command \<Rightarrow> bool" where
  "pollable account now c \<longleftrightarrow>
     \<not> (bc_account_id c \<noteq> account \<or> bc_state c \<notin> {''QUEUED'', ''LEASED''})
     \<and> \<not> (bc_state c = ''LEASED''
          \<and> (case bc_lease_expires_at c of None \<Rightarrow> False | Some e \<Rightarrow> now < e))"

definition lease_until :: "timestamp \<Rightarrow> int \<Rightarrow> timestamp" where
  "lease_until now lease = now div 1000000 * 1000000 + lease"

fun poll_loop ::
    "uuid \<Rightarrow> timestamp \<Rightarrow> timestamp \<Rightarrow> int \<Rightarrow> int \<Rightarrow> (uuid, bridge_command) dict \<Rightarrow>
     (uuid, bridge_command) dict \<times> bridge_command list" where
  "poll_loop account now until limit n [] = ([], [])"
| "poll_loop account now until limit n ((k, c) # rest) =
     (if \<not> pollable account now c
      then (let (rest', result) = poll_loop account now until limit n rest in ((k, c) # rest', result))
      else
        (let c' = c\<lparr>bc_state := ''LEASED'', bc_lease_expires_at := Some until\<rparr> in
         if limit \<le> n + 1 then ((k, c') # rest, [c'])
         else (let (rest', result) = poll_loop account now until limit (n + 1) rest
               in ((k, c') # rest', c' # result))))"

definition queue_poll :: "timestamp \<Rightarrow> bridge_queue \<Rightarrow> uuid \<Rightarrow> int \<Rightarrow> bridge_queue \<times> bridge_command list" where
  "queue_poll now q account limit =
     (let (pending', result) =
            poll_loop account now (lease_until now (bq_lease q)) limit 0 (bq_pending q)
      in (queue_persist (q\<lparr>bq_pending := pending'\<rparr>), result))"

definition queue_receipt :: "bridge_queue \<Rightarrow> bridge_receipt \<Rightarrow> bridge_queue \<times> bridge_receipt" where
  "queue_receipt q r =
     (case map_of (bq_receipts q) (br_command_id r) of
        Some existing \<Rightarrow> (q, existing)
      | None \<Rightarrow>
          (let q1 = q\<lparr>bq_receipts := AList.update (br_command_id r) r (bq_receipts q)\<rparr>;
               q2 = (case map_of (bq_pending q1) (br_command_id r) of
                       None \<Rightarrow> q1
                     | Some c \<Rightarrow>
                         q1\<lparr>bq_pending := AList.update (br_command_id r)
                              (c\<lparr>bc_state := br_state r, bc_lease_expires_at := None\<rparr>) (bq_pending q1)\<rparr>)
           in (queue_persist q2, r)))"

section \<open>The application: authentication\<close>

record bridge_request =
  rq_nonce :: string
  rq_timestamp :: "int option"
  rq_signature_valid :: bool
  rq_fingerprint_ok :: bool

text \<open>\<open>int(timestamp)\<close> in seconds; a text that is no number is never fresh.\<close>

definition request_fresh :: "timestamp \<Rightarrow> bridge_request \<Rightarrow> bool" where
  "request_fresh now r =
     (case rq_timestamp r of None \<Rightarrow> False | Some t \<Rightarrow> \<bar>now - seconds t\<bar> \<le> seconds 30)"

type_synonym nonces = "(string, timestamp) dict"

definition purge_nonces :: "timestamp \<Rightarrow> nonces \<Rightarrow> nonces" where
  "purge_nonces now seen = filter (\<lambda>(n, observed). \<not> seconds 60 < now - observed) seen"

text \<open>
  The handler up to its first \<open>await\<close>, and the rest: signature verification and the recording of the
  nonce.  Another request can run between the two.
\<close>

definition authenticate_begin :: "timestamp \<Rightarrow> nonces \<Rightarrow> bridge_request \<Rightarrow> nonces res" where
  "authenticate_begin now seen r =
     (let seen1 = purge_nonces now seen in
      rbind (ensure (map_of seen1 (rq_nonce r) = None)
               (HTTPException 401 ''replayed signed request'')) (\<lambda>_.
      rbind (ensure (rq_fingerprint_ok r)
               (HTTPException 401 ''client certificate verification failed'')) (\<lambda>_.
      Inr seen1)))"

definition authenticate_finish ::
    "timestamp \<Rightarrow> timestamp \<Rightarrow> nonces \<Rightarrow> bridge_request \<Rightarrow> nonces res" where
  "authenticate_finish started now seen r =
     rbind (ensure (request_fresh now r) (HTTPException 401 ''stale signed request'')) (\<lambda>_.
     rbind (ensure (rq_signature_valid r) (HTTPException 401 ''invalid signature'')) (\<lambda>_.
     Inr (AList.update (rq_nonce r) started seen)))"

definition authenticate :: "timestamp \<Rightarrow> nonces \<Rightarrow> bridge_request \<Rightarrow> nonces res" where
  "authenticate now seen r =
     rbind (authenticate_begin now seen r) (\<lambda>seen1. authenticate_finish now now seen1 r)"

section \<open>The application: ingestion and commands\<close>

text \<open>What the ingestion rule reads of the snapshot it last accepted of an account.\<close>

record ingest_mark =
  im_sequence :: int
  im_observed_at :: timestamp

definition bridge_ingest ::
    "(uuid, ingest_mark) dict \<Rightarrow> uuid \<Rightarrow> ingest_mark \<Rightarrow> (uuid, ingest_mark) dict res" where
  "bridge_ingest latest account s =
     (case map_of latest account of
        None \<Rightarrow> Inr (AList.update account s latest)
      | Some previous \<Rightarrow>
          if im_sequence s \<le> im_sequence previous
             \<and> \<not> (im_sequence s = 1 \<and> im_observed_at previous < im_observed_at s)
          then Inl (HTTPException 409 ''out-of-order or replayed broker snapshot'')
          else Inr (AList.update account s latest))"

definition bridge_enqueue_route :: "bridge_queue \<Rightarrow> bridge_command \<Rightarrow> (bridge_queue \<times> bridge_command) res" where
  "bridge_enqueue_route q c =
     rbind (ensure (truthy (bc_authorization_id c) \<and> truthy (bc_authorization_digest c))
              (HTTPException 403 ''server authorization is required'')) (\<lambda>_. queue_enqueue q c)"

definition opt_json :: "string option \<Rightarrow> jvalue" where
  "opt_json s = (case s of None \<Rightarrow> JNull | Some t \<Rightarrow> JStr t)"

text \<open>\<open>data.update(payload)\<close>, and the flattened command the expert advisor reads.\<close>

definition dict_merge :: "('k, 'v) dict \<Rightarrow> ('k, 'v) dict \<Rightarrow> ('k, 'v) dict" where
  "dict_merge d p = fold (\<lambda>(k, v) acc. AList.update k v acc) p d"

definition flatten_command :: "bridge_command \<Rightarrow> postcondition" where
  "flatten_command c =
     dict_merge
       [(''command_id'', JStr (bc_command_id c)),
        (''account_id'', JStr (bc_account_id c)),
        (''action'', JStr (bc_action c)),
        (''idempotency_key'', JStr (bc_idempotency_key c)),
        (''authorization_id'', opt_json (bc_authorization_id c)),
        (''authorization_digest'', opt_json (bc_authorization_digest c)),
        (''expected_broker_version'', opt_json (bc_expected_broker_version c)),
        (''state'', JStr (bc_state c))]
       (bc_payload c)"

definition poll_route ::
    "timestamp \<Rightarrow> bridge_queue \<Rightarrow> uuid \<Rightarrow> int \<Rightarrow> bridge_queue \<times> postcondition list" where
  "poll_route now q account limit =
     (let (q', cs) = queue_poll now q account (min limit 50) in (q', map flatten_command cs))"

section \<open>The client\<close>

fun method_actions :: "broker_method \<Rightarrow> execution_action list" where
  "method_actions SUBMIT_ORDER = [PLACE_ORDER]"
| "method_actions CANCEL = [CANCEL_ORDER]"
| "method_actions CHANGE_PROTECTION = [SET_OR_CHANGE_STOP_LOSS, SET_OR_CHANGE_TAKE_PROFIT]"
| "method_actions BROKER_PARTIAL_CLOSE = [PARTIAL_CLOSE]"
| "method_actions BROKER_FULL_EXIT = [FULL_EXIT]"

definition client_command :: "broker_call \<Rightarrow> bridge_command res" where
  "client_command call =
     (let c = bc_command call; a = bc_authorization call in
      rbind (ensure (cm_action c \<in> set (method_actions (bc_method call)))
               (ValueError ''action does not fit the broker method'')) (\<lambda>_.
      rbind (ensure (cm_account_id c = ea_account_id a)
               (PermissionError ''command and authorization account scopes differ'')) (\<lambda>_.
      Inr \<lparr>bc_command_id = cm_id c, bc_account_id = cm_account_id c,
           bc_action = execution_action_value (cm_action c),
           bc_idempotency_key = cm_idempotency_key c, bc_payload = cm_postcondition c,
           bc_authorization_id = Some (ea_id a), bc_authorization_digest = Some (ea_digest a),
           bc_expected_broker_version = cm_expected_broker_version c,
           bc_state = ''QUEUED'', bc_lease_expires_at = None\<rparr>)))"

definition client_accept_snapshot ::
    "(uuid, int) dict \<Rightarrow> uuid \<Rightarrow> int \<Rightarrow> (uuid, int) dict res" where
  "client_accept_snapshot last_sequence account sequence =
     rbind (ensure (\<not> sequence \<le> dget last_sequence account (- 1))
              (ValueError ''replayed broker message'')) (\<lambda>_.
     Inr (AList.update account sequence last_sequence))"

section \<open>Lemmas: the queue\<close>

definition queue_wf :: "bridge_queue \<Rightarrow> bool" where
  "queue_wf q \<longleftrightarrow>
     distinct (map fst (bq_pending q)) \<and> (\<forall>(k, c) \<in> set (bq_pending q). bc_command_id c = k)
     \<and> distinct (map bc_idempotency_key (dvalues (bq_pending q)))
     \<and> distinct (map fst (bq_receipts q)) \<and> (\<forall>(k, r) \<in> set (bq_receipts q). br_command_id r = k)"

definition queue_bound :: "bridge_queue \<Rightarrow> string \<Rightarrow> bridge_command option" where
  "queue_bound q k = first_match (\<lambda>c. bc_idempotency_key c = k) (dvalues (bq_pending q))"

definition queue_fresh :: "bridge_queue \<Rightarrow> bridge_command \<Rightarrow> bool" where
  "queue_fresh q c \<longleftrightarrow> map_of (bq_pending q) (bc_command_id c) = None"

lemma persist_simps [simp]:
  "bq_pending (queue_persist q) = bq_pending q" "bq_receipts (queue_persist q) = bq_receipts q"
  "bq_lease (queue_persist q) = bq_lease q" "bq_state_path (queue_persist q) = bq_state_path q"
  by (simp_all add: queue_persist_def)

lemma queue_wf_persist [simp]: "queue_wf (queue_persist q) = queue_wf q"
  by (simp add: queue_wf_def)

lemma enqueue_new:
  assumes "queue_wf q" and "queue_fresh q c" and "queue_bound q (bc_idempotency_key c) = None"
  shows "\<exists>q'. queue_enqueue q c = Inr (q', c) \<and> queue_wf q'
    \<and> queue_bound q' = (queue_bound q)(bc_idempotency_key c \<mapsto> c)"
proof -
  let ?q' = "queue_persist (q\<lparr>bq_pending := AList.update (bc_command_id c) c (bq_pending q)\<rparr>)"
  have new: "map_of (bq_pending q) (bc_command_id c) = None" using assms(2) by (simp add: queue_fresh_def)
  then have upd: "AList.update (bc_command_id c) c (bq_pending q) = bq_pending q @ [(bc_command_id c, c)]"
    by (simp add: update_new map_of_None_keys)
  then have p: "bq_pending ?q' = bq_pending q @ [(bc_command_id c, c)]"
    by (simp add: update_new map_of_None_keys)
  have none: "bc_idempotency_key c \<notin> bc_idempotency_key ` set (dvalues (bq_pending q))"
    using assms(3) by (auto simp: queue_bound_def first_match_None_iff)
  have keys: "bc_command_id c \<notin> fst ` set (bq_pending q)" by (rule map_of_None_keys[OF new])
  have "queue_wf ?q'"
    using assms(1) none keys unfolding queue_wf_def p by (auto simp: dvalues_def)
  moreover have "queue_bound ?q' = (queue_bound q)(bc_idempotency_key c \<mapsto> c)"
    using assms(3) by (intro ext) (auto simp: queue_bound_def upd dvalues_def first_match_append split: option.splits)
  moreover have "queue_enqueue q c = Inr (?q', c)"
    using assms(3) by (simp add: queue_enqueue_def queue_bound_def)
  ultimately show ?thesis by blast
qed

interpretation queue: idempotent_store queue_enqueue queue_bound bc_idempotency_key
    "\<lambda>c. (map_of (bc_payload c), bc_action c)" queue_wf queue_fresh
proof unfold_locales
  show "\<exists>q'. queue_enqueue q c = Inr (q', c) \<and> queue_wf q' \<and> queue_bound q' = (queue_bound q)(bc_idempotency_key c \<mapsto> c)"
    if "queue_wf q" "queue_fresh q c" "queue_bound q (bc_idempotency_key c) = None" for q c
    using that by (rule enqueue_new)
qed (auto simp: queue_enqueue_def queue_bound_def dict_eq_iff dest: first_match_SomeD)

text \<open>What a poll does to each command, in place.\<close>

definition leased :: "timestamp \<Rightarrow> bridge_command \<Rightarrow> bridge_command" where
  "leased until c = c\<lparr>bc_state := ''LEASED'', bc_lease_expires_at := Some until\<rparr>"

lemma leased_simps [simp]:
  "bc_state (leased until c) = ''LEASED''" "bc_lease_expires_at (leased until c) = Some until"
  "bc_account_id (leased until c) = bc_account_id c" "bc_command_id (leased until c) = bc_command_id c"
  "bc_idempotency_key (leased until c) = bc_idempotency_key c" "bc_action (leased until c) = bc_action c"
  "bc_payload (leased until c) = bc_payload c"
  by (simp_all add: leased_def)

lemma poll_loop_Cons [simp]:
  "fst (poll_loop a now until limit n ((k, c) # d)) =
     (if \<not> pollable a now c then (k, c) # fst (poll_loop a now until limit n d)
      else if limit \<le> n + 1 then (k, leased until c) # d
      else (k, leased until c) # fst (poll_loop a now until limit (n + 1) d))"
  "snd (poll_loop a now until limit n ((k, c) # d)) =
     (if \<not> pollable a now c then snd (poll_loop a now until limit n d)
      else if limit \<le> n + 1 then [leased until c]
      else leased until c # snd (poll_loop a now until limit (n + 1) d))"
  by (simp_all add: Let_def leased_def split: prod.splits)

declare poll_loop.simps(2) [simp del]

lemma poll_keys: "map fst (fst (poll_loop a now until limit n d)) = map fst d"
  by (induction a now until limit n d rule: poll_loop.induct) auto

lemma poll_result:
  "c \<in> set (snd (poll_loop a now until limit n d)) \<Longrightarrow>
     bc_account_id c = a \<and> bc_state c = ''LEASED'' \<and> bc_lease_expires_at c = Some until
     \<and> c \<in> set (dvalues (fst (poll_loop a now until limit n d)))"
  by (induction a now until limit n d rule: poll_loop.induct)
     (auto simp: pollable_def split: if_splits)

lemma poll_idempotency_keys:
  "map bc_idempotency_key (dvalues (fst (poll_loop a now until limit n d))) = map bc_idempotency_key (dvalues d)"
  by (induction a now until limit n d rule: poll_loop.induct) auto

lemma poll_length:
  "n < limit \<Longrightarrow> int (length (snd (poll_loop a now until limit n d))) \<le> limit - n"
  by (induction a now until limit n d rule: poll_loop.induct) auto

lemma poll_one: "limit \<le> n + 1 \<Longrightarrow> length (snd (poll_loop a now until limit n d)) \<le> 1"
  by (induction a now until limit n d rule: poll_loop.induct) auto

text \<open>A command is either left as it was, or was pollable and is leased and in the result.\<close>

lemma poll_lookup:
  assumes "map_of d k = Some c"
  shows "map_of (fst (poll_loop a now until limit n d)) k = Some c \<or>
    pollable a now c
    \<and> map_of (fst (poll_loop a now until limit n d)) k
        = Some (leased until c)"
  using assms
  by (induction a now until limit n d rule: poll_loop.induct)
     (auto split: if_splits)

lemma poll_ids:
  "\<forall>(k, c) \<in> set d. bc_command_id c = k \<Longrightarrow>
     \<forall>(k, c) \<in> set (fst (poll_loop a now until limit n d)). bc_command_id c = k"
  by (induction a now until limit n d rule: poll_loop.induct)
     (auto split: if_splits)

text \<open>Without a limit every pollable command is returned.\<close>

lemma poll_all:
  assumes "int (length d) + n < limit" and "(k, c) \<in> set d" and "pollable a now c"
  shows "leased until c \<in> set (snd (poll_loop a now until limit n d))"
  using assms
  by (induction a now until limit n d rule: poll_loop.induct) auto

lemma poll_wf:
  assumes "queue_wf q"
  shows "queue_wf (fst (queue_poll now q a limit))"
proof -
  let ?p = "poll_loop a now (lease_until now (bq_lease q)) limit 0 (bq_pending q)"
  have "bq_pending (fst (queue_poll now q a limit)) = fst ?p"
    and "bq_receipts (fst (queue_poll now q a limit)) = bq_receipts q"
    by (simp_all add: queue_poll_def Let_def split: prod.splits)
  then show ?thesis
    using assms poll_ids[of "bq_pending q" a now "lease_until now (bq_lease q)" limit 0]
    by (simp add: queue_wf_def poll_keys poll_idempotency_keys)
qed

lemma receipt_wf:
  assumes "queue_wf q"
  shows "queue_wf (fst (queue_receipt q r))"
proof (cases "map_of (bq_receipts q) (br_command_id r)")
  case None
  let ?k = "br_command_id r"
  have receipts: "distinct (map fst (AList.update ?k r (bq_receipts q)))"
    "\<forall>(k, x) \<in> set (AList.update ?k r (bq_receipts q)). br_command_id x = k"
    using assms set_update_sub[of ?k r "bq_receipts q"] by (auto simp: queue_wf_def distinct_update)
  show ?thesis
  proof (cases "map_of (bq_pending q) ?k")
    case None': None
    then show ?thesis using assms receipts None by (simp add: queue_receipt_def queue_wf_def Let_def)
  next
    case (Some c)
    let ?c = "c\<lparr>bc_state := br_state r, bc_lease_expires_at := None\<rparr>"
    have id: "bc_command_id c = ?k" using assms map_of_SomeD[OF Some] by (auto simp: queue_wf_def)
    have keys: "map bc_idempotency_key (dvalues (AList.update ?k ?c d)) = map bc_idempotency_key (dvalues d)"
      if "map_of d ?k = Some c" for d
      using that by (induction d) (auto split: if_splits)
    have "\<forall>(k, x) \<in> set (AList.update ?k ?c (bq_pending q)). bc_command_id x = k"
      using assms set_update_sub[of ?k ?c "bq_pending q"] id by (auto simp: queue_wf_def)
    then show ?thesis
      using assms receipts None Some keys[OF Some]
      by (simp add: queue_receipt_def queue_wf_def Let_def distinct_update)
  qed
qed (use assms in \<open>simp add: queue_receipt_def\<close>)

lemma poll_source:
  "c' \<in> set (snd (poll_loop a now until limit n d)) \<Longrightarrow>
     \<exists>k c. (k, c) \<in> set d \<and> pollable a now c \<and> c' = leased until c"
  by (induction a now until limit n d rule: poll_loop.induct) (auto split: if_splits)

lemma queue_poll_split:
  assumes "queue_poll now q a limit = (q', cs)"
  shows "bq_pending q' = fst (poll_loop a now (lease_until now (bq_lease q)) limit 0 (bq_pending q))"
    and "cs = snd (poll_loop a now (lease_until now (bq_lease q)) limit 0 (bq_pending q))"
    and "bq_lease q' = bq_lease q" and "bq_state_path q' = bq_state_path q"
    and "bq_receipts q' = bq_receipts q"
  using assms by (auto simp: queue_poll_def Let_def split: prod.splits)

lemma queue_wf_unique:
  assumes "queue_wf q" and "c \<in> set (dvalues (bq_pending q))"
  shows "map_of (bq_pending q) (bc_command_id c) = Some c"
  using assms by (auto simp: queue_wf_def dvalues_def)

lemma queue_wf_id: "queue_wf q \<Longrightarrow> (k, c) \<in> set (bq_pending q) \<Longrightarrow> bc_command_id c = k"
  by (auto simp: queue_wf_def)

section \<open>Lemmas: persistence\<close>

lemma index_by_append: "index_by f (xs @ ys) = fold (\<lambda>x d. AList.update (f x) x d) ys (index_by f xs)"
  by (simp add: index_by_def)

lemma index_by_dvalues:
  assumes "distinct (map fst d)" and "\<forall>(k, v) \<in> set d. f v = k"
  shows "index_by f (dvalues d) = d"
  using assms
proof (induction d rule: rev_induct)
  case (snoc x d)
  obtain k v where x: "x = (k, v)" by (cases x)
  with snoc have "f v = k" "k \<notin> fst ` set d" by auto
  with snoc x show ?case by (simp add: dvalues_def index_by_append update_new)
qed (simp add: index_by_def)

lemma load_persisted:
  assumes "queue_wf q" and "bq_state_path q"
  shows "bq_pending (queue_load True (bq_file (queue_persist q)) l) = bq_pending q"
    and "bq_receipts (queue_load True (bq_file (queue_persist q)) l) = bq_receipts q"
  using assms by (auto simp: queue_load_def queue_persist_def queue_wf_def index_by_dvalues)

lemma enqueue_persisted:
  assumes "queue_enqueue q c = Inr (q', d)"
  shows "q' = q \<or> q' = queue_persist (q\<lparr>bq_pending := AList.update (bc_command_id c) c (bq_pending q)\<rparr>)"
  using assms by (auto simp: queue_enqueue_def split: option.splits if_splits)

section \<open>Lemmas: nonces\<close>

lemma map_of_filter_keep: "map_of d k = Some v \<Longrightarrow> P (k, v) \<Longrightarrow> map_of (filter P d) k = Some v"
  by (induction d) (auto split: if_splits)

text \<open>What the handler leaves in the nonce table, accepted or not.\<close>

definition auth_step :: "timestamp \<times> bridge_request \<Rightarrow> nonces \<Rightarrow> nonces" where
  "auth_step e seen =
     (case authenticate (fst e) seen (snd e) of
        Inr seen' \<Rightarrow> seen'
      | Inl _ \<Rightarrow> purge_nonces (fst e) seen)"

lemma purge_keeps:
  assumes "map_of seen n = Some t0" and "t \<le> t0 + seconds 60"
  shows "map_of (purge_nonces t seen) n = Some t0"
  using assms by (auto simp: purge_nonces_def intro: map_of_filter_keep)

lemma auth_step_keeps:
  assumes "map_of seen n = Some t0" and "fst e \<le> t0 + seconds 60"
  shows "map_of (auth_step e seen) n = Some t0"
  using purge_keeps[OF assms]
  by (auto simp: auth_step_def authenticate_def authenticate_begin_def authenticate_finish_def Let_def
      rbind_eq_Inr_iff split: sum.split)

lemma auth_steps_keep:
  assumes "map_of seen n = Some t0" and "\<forall>e \<in> set es. fst e \<le> t0 + seconds 60"
  shows "map_of (fold auth_step es seen) n = Some t0"
  using assms by (induction es arbitrary: seen) (auto simp: auth_step_keeps)

lemma dict_merge_lookup:
  assumes "distinct (map fst p)"
  shows "map_of (dict_merge d p) k = (case map_of p k of Some v \<Rightarrow> Some v | None \<Rightarrow> map_of d k)"
  using assms
proof (induction p arbitrary: d)
  case (Cons x p)
  obtain j v where x: "x = (j, v)" by (cases x)
  with Cons.prems have "map_of p j = None" by (auto simp: map_of_eq_None_iff)
  with Cons x show ?case by (auto simp: dict_merge_def split: option.split)
qed (simp add: dict_merge_def)

section \<open>Properties\<close>


text \<open>Delivery is at least once: a command that was polled and got no receipt is delivered again by the
  first poll of its account after its lease has ended, when the limit admits all pending commands.\<close>
theorem poll_redelivers_after_lease:
  assumes "queue_wf q" and "queue_poll now q a limit = (q1, cs1)" and "c \<in> set cs1"
    and "lease_until now (bq_lease q) \<le> now'" and "queue_poll now' q1 a limit' = (q2, cs2)"
    and "int (length (bq_pending q)) < limit'"
  shows "bc_command_id c \<in> bc_command_id ` set cs2"
proof -
  note r = poll_result[of c a now "lease_until now (bq_lease q)" limit 0 "bq_pending q"]
  have l: "bc_account_id c = a" "bc_state c = ''LEASED''"
    "bc_lease_expires_at c = Some (lease_until now (bq_lease q))" "c \<in> set (dvalues (bq_pending q1))"
    using r assms(3) queue_poll_split(1,2)[OF assms(2)] by auto
  obtain k where k: "(k, c) \<in> set (bq_pending q1)" using l(4) by (auto simp: dvalues_def)
  have "length (bq_pending q1) = length (bq_pending q)"
    using poll_keys queue_poll_split(1)[OF assms(2)] by (metis length_map)
  then have "leased (lease_until now' (bq_lease q1)) c \<in> set cs2"
    using poll_all[OF _ k, of 0 limit' a now'] l assms(4,6) queue_poll_split(2)[OF assms(5)]
    by (simp add: pollable_def)
  then have "bc_command_id (leased (lease_until now' (bq_lease q1)) c) \<in> bc_command_id ` set cs2" by (rule imageI)
  then show ?thesis by simp
qed

text \<open>The first receipt of a command is final: a later one changes nothing and returns the first, and
  a command whose receipt reports another state than \<open>QUEUED\<close> or \<open>LEASED\<close> is polled no more.\<close>
theorem receipt_final:
  assumes "queue_wf q" and "map_of (bq_receipts q) (br_command_id r) = None"
    and "queue_receipt q r = (q1, r1)"
  shows "r1 = r
    \<and> (\<forall>r'. br_command_id r' = br_command_id r \<longrightarrow> queue_receipt q1 r' = (q1, r))
    \<and> (br_state r \<notin> {''QUEUED'', ''LEASED''} \<longrightarrow>
        br_command_id r \<notin> bc_command_id ` set (snd (queue_poll now q1 a limit)))"
proof -
  have r1: "r1 = r" and rec: "map_of (bq_receipts q1) (br_command_id r) = Some r"
    using assms(2,3) by (auto simp: queue_receipt_def Let_def split: option.splits)
  have wf1: "queue_wf q1" using receipt_wf[OF assms(1), of r] assms(3) by simp
  have st: "bc_state c = br_state r" if "map_of (bq_pending q1) (br_command_id r) = Some c" for c
    using that assms(2,3) by (auto simp: queue_receipt_def Let_def split: option.splits)
  have "br_command_id r \<notin> bc_command_id ` set (snd (queue_poll now q1 a limit))"
    if s: "br_state r \<notin> {''QUEUED'', ''LEASED''}"
  proof
    assume "br_command_id r \<in> bc_command_id ` set (snd (queue_poll now q1 a limit))"
    then obtain d where d: "d \<in> set (snd (queue_poll now q1 a limit))" "bc_command_id d = br_command_id r"
      by auto
    have "d \<in> set (snd (poll_loop a now (lease_until now (bq_lease q1)) limit 0 (bq_pending q1)))"
      using d(1) queue_poll_split(2)[of now q1 a limit] by (metis prod.collapse)
    from poll_source[OF this] d(2) obtain k c where c: "(k, c) \<in> set (bq_pending q1)" "pollable a now c"
      "bc_command_id c = br_command_id r" by auto
    have "map_of (bq_pending q1) (br_command_id r) = Some c"
      using queue_wf_unique[OF wf1, of c] c(1,3) by (force simp: dvalues_def)
    from st[OF this] c(2) s show False by (simp add: pollable_def)
  qed
  then show ?thesis using r1 rec by (simp add: queue_receipt_def)
qed



text \<open>The nonce is recorded only after the handler has waited for the body and the credential
  authority: of two copies of one request whose handlers overlap, both are accepted.\<close>
theorem overlapping_copies_both_accepted:
  assumes "authenticate t seen r = Inr seen1"
  shows "\<exists>p1 p2 s1 s2. authenticate_begin t seen r = Inr p1 \<and> authenticate_begin t p1 r = Inr p2
    \<and> authenticate_finish t t p2 r = Inr s1 \<and> authenticate_finish t t s1 r = Inr s2"
proof -
  have "purge_nonces t (purge_nonces t seen) = purge_nonces t seen"
    by (simp add: purge_nonces_def filter_filter)
  then show ?thesis
    using assms
    by (auto simp: authenticate_def authenticate_begin_def authenticate_finish_def Let_def rbind_eq_Inr_iff)
qed

text \<open>The payload decides what is executed: a management command whose payload has an \<open>action\<close> key
  passes the authority guard like any other payload, the client accepts the call \<open>dispatch\<close> makes for it,
  and the flattened command the expert advisor polls names the payload's action in place of the
  authorized one.\<close>
theorem payload_overrides_authorized_action:
  assumes "assert_command_authority now c auth plan perms pk ak = Inr ()" and "cm_action c \<noteq> PLACE_ORDER"
    and "distinct (map fst p)" and "map_of p ''action'' = Some v"
    and "dispatch rq rs now' (c\<lparr>cm_postcondition := p\<rparr>) auth adapter = Inr (c', [call])"
  shows "assert_command_authority now (c\<lparr>cm_postcondition := p\<rparr>) auth plan perms pk ak = Inr ()
    \<and> (\<exists>b. client_command call = Inr b \<and> bc_action b = execution_action_value (cm_action c)
         \<and> map_of (flatten_command b) ''action'' = Some v)"
proof -
  have guard: "assert_command_authority now (c\<lparr>cm_postcondition := p\<rparr>) auth plan perms pk ak = Inr ()"
    using assms(1,2) by (auto simp: assert_authority_ok_iff)
  obtain d where d: "send_command rq rs now' d auth adapter = (c', [call])"
    "cm_action d = cm_action c" "cm_postcondition d = p" "cm_account_id d = cm_account_id c"
    using assms(5)
    by (cases "cm_state c")
       (auto simp: dispatch_def advance_def command_transition_def rbind_eq_Inr_iff)
  then have call: "bc_method call = adapter_call (cm_action c)" "cm_action (bc_command call) = cm_action c"
    "cm_postcondition (bc_command call) = p" "cm_account_id (bc_command call) = cm_account_id c"
    "bc_authorization call = auth"
    by (auto simp: send_command_def Let_def split: sum.splits)
  have fits: "cm_action c \<in> set (method_actions (adapter_call (cm_action c)))" by (cases "cm_action c") simp_all
  have acct: "cm_account_id c = ea_account_id auth" using assms(1) by (simp add: assert_authority_ok_iff)
  obtain b where b: "client_command call = Inr b" "bc_payload b = p"
    "bc_action b = execution_action_value (cm_action c)"
    using call fits acct by (simp add: client_command_def Let_def)
  have "map_of (flatten_command b) ''action'' = Some v"
    unfolding flatten_command_def b(2) dict_merge_lookup[OF assms(3)] assms(4) by simp
  with guard b show ?thesis by blast
qed

text \<open>The bridge takes a later snapshot only in order, or as the first of a restarted advisor; and a
  restarted advisor, which the bridge follows, is refused by the client that had seen the old sequence.\<close>
theorem restart_accepted_by_bridge_refused_by_client:
  assumes "map_of latest account = Some previous" and "1 \<le> im_sequence previous"
    and "im_sequence s = 1" and "im_observed_at previous < im_observed_at s"
    and "map_of seen_seq account = Some (im_sequence previous)"
  shows "bridge_ingest latest account s = Inr (AList.update account s latest)
    \<and> (\<exists>e. client_accept_snapshot seen_seq account (im_sequence s) = Inl e)
    \<and> (\<forall>u l. bridge_ingest latest account u = Inr l \<longrightarrow>
         im_sequence previous < im_sequence u \<or> im_sequence u = 1 \<and> im_observed_at previous < im_observed_at u)"
  using assms by (auto simp: bridge_ingest_def client_accept_snapshot_def dget_def ensure_def split: if_splits)

section \<open>Witnesses\<close>

definition demo_bridge_command :: bridge_command where
  "demo_bridge_command =
     \<lparr>bc_command_id = ''c'', bc_account_id = ''a'', bc_action = ''CANCEL_ORDER'',
      bc_idempotency_key = ''entry:plan'', bc_payload = [], bc_authorization_id = Some ''auth'',
      bc_authorization_digest = Some ''d'', bc_expected_broker_version = None, bc_state = ''QUEUED'',
      bc_lease_expires_at = None\<rparr>"

definition demo_queue :: bridge_queue where
  "demo_queue = \<lparr>bq_pending = [(''c'', demo_bridge_command)], bq_receipts = [], bq_state_path = True,
     bq_file = None, bq_lease = seconds 30\<rparr>"

lemma demo_queue_wf: "queue_wf demo_queue"
  by (simp add: queue_wf_def demo_queue_def demo_bridge_command_def)

lemma demo_poll:
  "queue_poll 0 demo_queue ''a'' 20
     = (queue_persist (demo_queue\<lparr>bq_pending := [(''c'', leased (seconds 30) demo_bridge_command)]\<rparr>),
        [leased (seconds 30) demo_bridge_command])"
proof -
  have "pollable ''a'' 0 demo_bridge_command" by (simp add: pollable_def demo_bridge_command_def)
  then show ?thesis
    by (simp add: queue_poll_def demo_queue_def lease_until_def poll_loop.simps(2) leased_def Let_def)
qed


theorem poll_redelivers_after_lease_witness:
  "''c'' \<in> bc_command_id ` set (snd (queue_poll (seconds 30) (fst (queue_poll 0 demo_queue ''a'' 20)) ''a'' 20))"
proof -
  let ?q1 = "fst (queue_poll 0 demo_queue ''a'' 20)"
  have p: "queue_poll 0 demo_queue ''a'' 20 = (?q1, [leased (seconds 30) demo_bridge_command])"
    by (simp add: demo_poll)
  have "lease_until 0 (bq_lease demo_queue) \<le> seconds 30" by (simp add: lease_until_def demo_queue_def)
  from poll_redelivers_after_lease[OF demo_queue_wf p _ this, of "leased (seconds 30) demo_bridge_command"
      20 "fst (queue_poll (seconds 30) ?q1 ''a'' 20)" "snd (queue_poll (seconds 30) ?q1 ''a'' 20)"]
  show ?thesis by (simp add: demo_queue_def demo_bridge_command_def)
qed

definition demo_receipt :: bridge_receipt where
  "demo_receipt = \<lparr>br_command_id = ''c'', br_account_id = ''a'', br_idempotency_key = ''entry:plan'',
     br_state = ''ACKNOWLEDGED'', br_outcome_certainty = ''CONFIRMED'', br_broker_order_id = None,
     br_error_code = None, br_observed_at = 0\<rparr>"

theorem receipt_final_witness:
  "''c'' \<notin> bc_command_id ` set (snd (queue_poll 5 (fst (queue_receipt demo_queue demo_receipt)) ''a'' 20))"
proof -
  have "queue_receipt demo_queue demo_receipt
      = (fst (queue_receipt demo_queue demo_receipt), snd (queue_receipt demo_queue demo_receipt))"
    by simp
  from receipt_final[OF demo_queue_wf _ this] show ?thesis
    by (simp add: demo_queue_def demo_receipt_def)
qed


definition demo_request :: bridge_request where
  "demo_request = \<lparr>rq_nonce = ''n'', rq_timestamp = Some 100, rq_signature_valid = True,
     rq_fingerprint_ok = True\<rparr>"

lemma demo_authenticate: "authenticate (seconds 100) [] demo_request = Inr [(''n'', seconds 100)]"
  by (simp add: authenticate_def authenticate_begin_def authenticate_finish_def purge_nonces_def
      demo_request_def request_fresh_def Let_def)


theorem overlapping_copies_both_accepted_witness:
  "\<exists>s1 s2. authenticate_finish (seconds 100) (seconds 100) [] demo_request = Inr s1
    \<and> authenticate_finish (seconds 100) (seconds 100) s1 demo_request = Inr s2"
  using overlapping_copies_both_accepted[OF demo_authenticate]
  by (auto simp: authenticate_begin_def purge_nonces_def Let_def rbind_eq_Inr_iff)

definition demo_cancel_auth :: execution_authorization where
  "demo_cancel_auth = demo_auth\<lparr>ea_action := CANCEL_ORDER\<rparr>"

definition demo_override :: postcondition where
  "demo_override = [(''action'', JStr ''PLACE_ORDER''), (''instrument'', JStr ''EURUSD''), (''quantity'', JDec 5)]"

theorem payload_overrides_authorized_action_witness:
  "\<exists>c' call b. dispatch (\<lambda>_. '''') (\<lambda>_. '''') 6
      ((demo_command QUEUED)\<lparr>cm_action := CANCEL_ORDER, cm_postcondition := demo_override\<rparr>) demo_cancel_auth
      (\<lambda>_. Inl ''ConnectError'') = Inr (c', [call])
    \<and> client_command call = Inr b \<and> bc_action b = ''CANCEL_ORDER''
    \<and> map_of (flatten_command b) ''action'' = Some (JStr ''PLACE_ORDER'')"
proof -
  let ?c = "(demo_command QUEUED)\<lparr>cm_action := CANCEL_ORDER\<rparr>"
  let ?plan = "demo_ready\<lparr>tp_state := TP_ACTIVE\<rparr>"
  let ?perms = "demo_permissions\<lparr>pm_new_entry := False, pm_order_cancellation := True\<rparr>"
  have ok: "assert_command_authority 5 ?c demo_cancel_auth ?plan ?perms (demo_switch PLATFORM)
      (demo_switch ACCOUNT) = Inr ()"
    by (simp add: assert_authority_ok_iff demo_command_def demo_cancel_auth_def demo_auth_def
        authority_plan_states_def demo_permissions_def demo_switch_def)
  have keys: "distinct (map fst demo_override)" "map_of demo_override ''action'' = Some (JStr ''PLACE_ORDER'')"
    by (simp_all add: demo_override_def)
  obtain c' call where d: "dispatch (\<lambda>_. '''') (\<lambda>_. '''') 6 (?c\<lparr>cm_postcondition := demo_override\<rparr>)
      demo_cancel_auth (\<lambda>_. Inl ''ConnectError'') = Inr (c', [call])"
    by (simp add: dispatch_def advance_def command_transition_def demo_command_def send_command_def Let_def)
  from payload_overrides_authorized_action[OF ok _ keys d] d show ?thesis by (auto simp: demo_command_def)
qed

theorem restart_accepted_by_bridge_refused_by_client_witness:
  "is_ok (bridge_ingest [(''a'', \<lparr>im_sequence = 7, im_observed_at = 0\<rparr>)] ''a'' \<lparr>im_sequence = 1, im_observed_at = 9\<rparr>)
    \<and> \<not> is_ok (client_accept_snapshot [(''a'', 7)] ''a'' 1)"
  using restart_accepted_by_bridge_refused_by_client[of "[(''a'', \<lparr>im_sequence = 7, im_observed_at = 0\<rparr>)]" "''a''"
      "\<lparr>im_sequence = 7, im_observed_at = 0\<rparr>" "\<lparr>im_sequence = 1, im_observed_at = 9\<rparr>" "[(''a'', 7)]"]
  by auto

end
