(* ===== verification/Connections.thy ===== *)
theory Connections
  imports DomainTypes "HOL-Library.Product_Lexorder"
begin

text \<open>
  Provider connections and their credentials: \<open>modules/connections/models.py\<close> (providers, endpoint and
  profile validation), \<open>resolution.py\<close> (choosing a binding), \<open>service.py\<close>, \<open>circuit_breaker.py\<close>,
  \<open>capabilities.py\<close>, \<open>binding_assistance.py\<close> (choosing among binding candidates, with or without an AI's
  advice) and \<open>modules/credentials/vault.py\<close> (envelope encryption).

  AES-GCM and random draws are arguments: what a property needs of them is a named
  hypothesis.  The values of a configuration are texts.  Of \<open>urlparse\<close> the scheme and the host name are
  modelled; membership of an address in the configured networks is an argument.
\<close>

section \<open>Providers and endpoints (\<open>models.py\<close>)\<close>

datatype connection_provider =
    TWELVE_DATA | COINBASE | COINGECKO | FRED | CFTC | DUKASCOPY | CCXT | YAHOO_FINANCE | ECB
  | FUTURES_REFERENCE | CALENDAR | NEWS | FOREX_FACTORY | SERPAPI | OPENAI | COHERE | MT5_BRIDGE

fun provider_label :: "connection_provider \<Rightarrow> string" where
  "provider_label TWELVE_DATA = ''Twelve Data''"
| "provider_label COINBASE = ''Coinbase''"
| "provider_label COINGECKO = ''CoinGecko''"
| "provider_label FRED = ''FRED''"
| "provider_label CFTC = ''CFTC Commitments of Traders''"
| "provider_label DUKASCOPY = ''Dukascopy independent history''"
| "provider_label CCXT = ''CCXT public exchanges (including Binance derivatives)''"
| "provider_label YAHOO_FINANCE = ''Yahoo Finance intermarket context''"
| "provider_label ECB = ''European Central Bank data''"
| "provider_label FUTURES_REFERENCE = ''Futures reference / contract chain''"
| "provider_label CALENDAR = ''Calendar''"
| "provider_label NEWS = ''News''"
| "provider_label FOREX_FACTORY = ''Forex Factory calendar scraper''"
| "provider_label SERPAPI = ''SerpApi + YouTube transcript ingestion''"
| "provider_label OPENAI = ''OpenAI''"
| "provider_label COHERE = ''Cohere Rerank''"
| "provider_label MT5_BRIDGE = ''MT5 Bridge''"

text \<open>\<open>urlparse\<close>: the scheme and the host name; \<open>partition\<close> is \<open>str.partition\<close> without the separator.\<close>

definition scheme_char :: "char \<Rightarrow> bool" where
  "scheme_char c \<longleftrightarrow> chr_alpha c \<or> (CHR ''0'' \<le> c \<and> c \<le> CHR ''9'') \<or> c \<in> {CHR ''+'', CHR ''-'', CHR ''.''}"

definition before :: "char \<Rightarrow> string \<Rightarrow> string" where
  "before c s = takeWhile (\<lambda>d. d \<noteq> c) s"

definition after :: "char \<Rightarrow> string \<Rightarrow> string" where
  "after c s = drop 1 (dropWhile (\<lambda>d. d \<noteq> c) s)"

definition after_last :: "char \<Rightarrow> string \<Rightarrow> string" where
  "after_last c s = rev (takeWhile (\<lambda>d. d \<noteq> c) (rev s))"

definition url_clean :: "string \<Rightarrow> string" where
  "url_clean s = filter (\<lambda>c. of_char c \<notin> {9, 10, 13 :: nat}) (dropWhile (\<lambda>c. of_char c \<le> (32 :: nat)) s)"

definition url_scheme :: "string \<Rightarrow> string \<times> string" where
  "url_scheme s =
     (let h = before CHR '':'' s in
      if CHR '':'' \<in> set s \<and> h \<noteq> [] \<and> chr_alpha (hd h) \<and> list_all scheme_char h
      then (str_lower h, after CHR '':'' s) else ('''', s))"

definition url_netloc :: "string \<Rightarrow> string" where
  "url_netloc s =
     (if take 2 s = ''//'' then takeWhile (\<lambda>c. c \<notin> {CHR ''/'', CHR ''?'', CHR ''#''}) (drop 2 s) else '''')"

definition netloc_host :: "string \<Rightarrow> string" where
  "netloc_host n =
     (let h = after_last CHR ''@'' n in
      if CHR ''['' \<in> set h then before CHR '']'' (after CHR ''['' h) else before CHR '':'' h)"

definition urlparse :: "string \<Rightarrow> (string \<times> string) res" where
  "urlparse value =
     (let (scheme, rest) = url_scheme (url_clean value); n = url_netloc rest in
      if (CHR ''['' \<in> set n) \<noteq> (CHR '']'' \<in> set n) then Inl (ValueError ''Invalid IPv6 URL'')
      else Inr (scheme, str_lower (netloc_host n)))"

definition metadata_hosts :: "string list" where
  "metadata_hosts = [''169.254.169.254'', ''metadata.google.internal'']"

definition loopback_hosts :: "string list" where
  "loopback_hosts = [''localhost'', ''127.0.0.1'', ''::1'', ''host.docker.internal'', ''gateway.docker.internal'']"

definition rstrip_slash :: "string \<Rightarrow> string" where
  "rstrip_slash s = rev (dropWhile (\<lambda>c. c = CHR ''/'') (rev s))"

definition validated_endpoint :: "(string \<Rightarrow> bool) \<Rightarrow> bool \<Rightarrow> string \<Rightarrow> string res" where
  "validated_endpoint in_networks allow_loopback_http value =
     rbind (urlparse value) (\<lambda>(scheme, hostname).
     rbind (ensure (scheme \<in> {''http'', ''https''} \<and> hostname \<noteq> [])
              (ValueError ''endpoint must be an HTTP(S) URL'')) (\<lambda>_.
     rbind (ensure (hostname \<notin> set metadata_hosts) (ValueError ''metadata endpoints are prohibited'')) (\<lambda>_.
     let trusted = (hostname \<in> set loopback_hosts \<or> in_networks hostname) in
     rbind (ensure (\<not> (scheme \<noteq> ''https'' \<and> \<not> (allow_loopback_http \<and> trusted)))
              (ValueError ''remote endpoints must use HTTPS'')) (\<lambda>_.
     Inr (rstrip_slash value)))))"

record connection_profile =
  cf_name :: string
  cf_provider :: connection_provider
  cf_credential_id :: "uuid option"
  cf_configuration :: "(string, string) dict"
  cf_active :: bool

definition config :: "connection_profile \<Rightarrow> string \<Rightarrow> string" where
  "config p key = dget (cf_configuration p) key ''''"

definition set_config :: "connection_profile \<Rightarrow> string \<Rightarrow> string \<Rightarrow> connection_profile" where
  "set_config p key v = p\<lparr>cf_configuration := AList.update key v (cf_configuration p)\<rparr>"

definition endpoint_config ::
    "(string \<Rightarrow> bool) \<Rightarrow> bool \<Rightarrow> string \<Rightarrow> connection_profile \<Rightarrow> connection_profile res" where
  "endpoint_config in_networks allow_http key p =
     rbind (validated_endpoint in_networks allow_http (config p key)) (\<lambda>v. Inr (set_config p key v))"

definition credential_providers :: "connection_provider list" where
  "credential_providers = [TWELVE_DATA, FRED, SERPAPI, OPENAI, COHERE, MT5_BRIDGE]"

definition public_providers :: "connection_provider list" where
  "public_providers = [DUKASCOPY, CCXT, YAHOO_FINANCE, ECB, CFTC]"

definition research_exchanges :: "string list" where
  "research_exchanges = [''coinbase'', ''binance'', ''binanceusdm'', ''kraken'', ''okx'', ''bybit'']"

definition provider_configuration ::
    "(string \<Rightarrow> bool) \<Rightarrow> connection_profile \<Rightarrow> connection_profile res" where
  "provider_configuration nets p =
     (if cf_provider p = MT5_BRIDGE
      then rbind (ensure (config p ''bridge_url'' \<noteq> []) (ValueError ''MT5 Bridge requires bridge_url''))
             (\<lambda>_. endpoint_config nets True ''bridge_url'' p)
      else if cf_provider p \<in> {CALENDAR, NEWS}
      then rbind (ensure (config p ''base_url'' \<noteq> [])
                    (ValueError (provider_label (cf_provider p) @ '' requires base_url'')))
             (\<lambda>_. endpoint_config nets False ''base_url'' p)
      else if cf_provider p = FOREX_FACTORY
      then (if config p ''feed_url'' \<noteq> [] then endpoint_config nets False ''feed_url'' p else Inr p)
      else if cf_provider p = CCXT
      then (let exchange = dget (cf_configuration p) ''exchange'' ''coinbase'' in
            rbind (ensure (exchange \<in> set research_exchanges) (ValueError ''unsupported public research exchange''))
              (\<lambda>_. Inr (set_config p ''exchange'' exchange)))
      else Inr p)"

definition validate_profile :: "(string \<Rightarrow> bool) \<Rightarrow> connection_profile \<Rightarrow> connection_profile res" where
  "validate_profile nets p =
     rbind (ensure (1 \<le> length (cf_name p) \<and> length (cf_name p) \<le> 120) (ValidationError ''name'')) (\<lambda>_.
     rbind (ensure (\<not> (cf_provider p \<in> set credential_providers \<and> cf_credential_id p = None))
              (ValueError (provider_label (cf_provider p) @ '' requires a credential''))) (\<lambda>_.
     rbind (provider_configuration nets p) (\<lambda>p1.
     rbind (ensure (\<not> (cf_provider p \<in> set public_providers \<and> cf_credential_id p \<noteq> None))
              (ValueError ''public research connections do not accept private credentials'')) (\<lambda>_.
     Inr p1))))"

section \<open>Bindings (\<open>models.py\<close>, \<open>resolution.py\<close>, \<open>service.py\<close>)\<close>

datatype market_data_capability =
    INSTRUMENT_DIRECTORY | DISCOVERY | QUOTE | TRADES | CANDLES | ORDER_BOOK | CONTRACT_DETAILS
  | FUTURES_CHAIN | OPEN_INTEREST | FUNDING | CORPORATE_ACTIONS | BROKER_TRADABILITY | ACCOUNT_BALANCES

record provider_binding =
  pb_id :: uuid
  pb_account_id :: uuid
  pb_lane :: "asset_class \<times> instrument_type"
  pb_capability :: market_data_capability
  pb_connection_id :: uuid
  pb_priority :: int
  pb_version :: int
  pb_verification_status :: string

definition binding_lane :: "provider_binding \<Rightarrow> string" where
  "binding_lane b = lane_key (fst (pb_lane b)) (snd (pb_lane b))"

text \<open>\<open>sorted(candidates, key=lambda item: (item.priority, str(item.id)))[0]\<close> is the first least one.\<close>

definition binding_key :: "provider_binding \<Rightarrow> int \<times> string" where
  "binding_key b = (pb_priority b, pb_id b)"

definition binding_matches :: "string \<Rightarrow> market_data_capability \<Rightarrow> provider_binding \<Rightarrow> bool" where
  "binding_matches lane capability b \<longleftrightarrow>
     binding_lane b = lane \<and> pb_capability b = capability \<and> pb_verification_status b = ''VERIFIED''"

definition choose_binding ::
    "provider_binding list \<Rightarrow> string \<Rightarrow> market_data_capability \<Rightarrow> provider_binding res" where
  "choose_binding bindings lane capability =
     (case filter (binding_matches lane capability) bindings of
        [] \<Rightarrow> Inl (LookupError ''no verified binding'')
      | b # bs \<Rightarrow> Inr (min_key binding_key b bs))"

definition require_healthy_binding ::
    "provider_binding list \<Rightarrow> string \<Rightarrow> market_data_capability \<Rightarrow> (uuid, string) dict \<Rightarrow>
     provider_binding res" where
  "require_healthy_binding bindings lane capability connection_health =
     rbind (choose_binding bindings lane capability) (\<lambda>b.
     rbind (ensure (map_of connection_health (pb_connection_id b) \<in> {Some ''HEALTHY'', Some ''STALE''})
              (LookupError ''connection is not healthy'')) (\<lambda>_.
     Inr b))"

datatype connection_state = UNTESTED | HEALTHY | DEGRADED | DISABLED

record provider_connection =
  pc_id :: uuid
  pc_owner_id :: uuid
  pc_provider :: string
  pc_credential_id :: uuid
  pc_state :: connection_state

record connection_service =
  cs_items :: "(uuid, provider_connection) dict"
  cs_health_history :: "(uuid \<times> connection_state) list"
  cs_bindings :: "(uuid, provider_binding) dict"

definition connection_register ::
    "uuid \<Rightarrow> connection_service \<Rightarrow> uuid \<Rightarrow> string \<Rightarrow> uuid \<Rightarrow> connection_service \<times> provider_connection" where
  "connection_register fresh s owner provider credential =
     (let item = \<lparr>pc_id = fresh, pc_owner_id = owner, pc_provider = provider,
                  pc_credential_id = credential, pc_state = UNTESTED\<rparr>
      in (s\<lparr>cs_items := AList.update fresh item (cs_items s)\<rparr>, item))"

definition connection_test ::
    "connection_service \<Rightarrow> uuid \<Rightarrow> bool res \<Rightarrow> (connection_service \<times> provider_connection) res" where
  "connection_test s item_id check =
     rbind (required (map_of (cs_items s) item_id) (KeyError item_id)) (\<lambda>item.
     rbind check (\<lambda>healthy.
     let updated = item\<lparr>pc_state := (if healthy then HEALTHY else DEGRADED)\<rparr> in
     Inr (s\<lparr>cs_items := AList.update item_id updated (cs_items s),
            cs_health_history := cs_health_history s @ [(item_id, pc_state updated)]\<rparr>, updated)))"

definition add_binding ::
    "connection_service \<Rightarrow> provider_binding \<Rightarrow> (connection_service \<times> provider_binding) res" where
  "add_binding s b =
     rbind (ensure (map_of (cs_items s) (pb_connection_id b) \<noteq> None)
              (ValueError ''binding references an unknown connection'')) (\<lambda>_.
     Inr (s\<lparr>cs_bindings := AList.update (pb_id b) b (cs_bindings s)\<rparr>, b))"

definition verify_binding ::
    "connection_service \<Rightarrow> uuid \<Rightarrow> market_data_capability set \<Rightarrow> (connection_service \<times> provider_binding) res" where
  "verify_binding s binding_id capabilities =
     rbind (required (map_of (cs_bindings s) binding_id) (KeyError binding_id)) (\<lambda>b.
     rbind (ensure (pb_capability b \<in> capabilities)
              (ValueError ''connection does not advertise the requested capability'')) (\<lambda>_.
     let updated = b\<lparr>pb_verification_status := ''VERIFIED''\<rparr> in
     Inr (s\<lparr>cs_bindings := AList.update binding_id updated (cs_bindings s)\<rparr>, updated)))"

definition bindings_for :: "connection_service \<Rightarrow> uuid \<Rightarrow> string \<Rightarrow> provider_binding list" where
  "bindings_for s account lane =
     filter (\<lambda>b. pb_account_id b = account \<and> binding_lane b = lane) (dvalues (cs_bindings s))"

definition remove_binding :: "connection_service \<Rightarrow> uuid \<Rightarrow> connection_service" where
  "remove_binding s binding_id = s\<lparr>cs_bindings := AList.delete binding_id (cs_bindings s)\<rparr>"


section \<open>Circuit breaker\<close>

datatype circuit_state = CIRCUIT_CLOSED | CIRCUIT_OPEN | CIRCUIT_HALF_OPEN

record circuit_breaker =
  cb_failure_threshold :: int
  cb_reset_after :: int
  cb_failures :: int
  cb_opened_at :: "int option"

definition circuit_state_of :: "int \<Rightarrow> circuit_breaker \<Rightarrow> circuit_state" where
  "circuit_state_of now b =
     (case cb_opened_at b of
        None \<Rightarrow> CIRCUIT_CLOSED
      | Some t \<Rightarrow> if cb_reset_after b \<le> now - t then CIRCUIT_HALF_OPEN else CIRCUIT_OPEN)"

definition circuit_allow :: "int \<Rightarrow> circuit_breaker \<Rightarrow> bool" where
  "circuit_allow now b \<longleftrightarrow> circuit_state_of now b \<noteq> CIRCUIT_OPEN"

definition circuit_success :: "circuit_breaker \<Rightarrow> circuit_breaker" where
  "circuit_success b = b\<lparr>cb_failures := 0, cb_opened_at := None\<rparr>"

definition circuit_failure :: "int \<Rightarrow> circuit_breaker \<Rightarrow> circuit_breaker" where
  "circuit_failure now b =
     (let b1 = b\<lparr>cb_failures := cb_failures b + 1\<rparr> in
      if cb_failure_threshold b1 \<le> cb_failures b1 then b1\<lparr>cb_opened_at := Some now\<rparr> else b1)"

section \<open>Capabilities\<close>

definition capability_aliases :: "(string, string list) dict" where
  "capability_aliases =
     [(''DISCOVERY'', [''DISCOVERY'', ''MARKET.DISCOVERY'', ''INSTRUMENT_DIRECTORY'',
        ''INSTRUMENT_DIRECTORY.READ'', ''INSTRUMENTS.READ'', ''CRYPTO.DISCOVERY'', ''ASSET_METADATA.READ'']),
      (''INSTRUMENT_DIRECTORY'', [''DISCOVERY'', ''MARKET.DISCOVERY'', ''INSTRUMENT_DIRECTORY'',
        ''INSTRUMENT_DIRECTORY.READ'', ''INSTRUMENTS.READ'']),
      (''QUOTE'', [''QUOTE'', ''QUOTES'', ''QUOTES.READ'', ''FOREX.READ'', ''METALS.READ'', ''CRYPTO.READ'']),
      (''CANDLES'', [''CANDLE'', ''CANDLES'', ''HISTORY'', ''CANDLES.READ'', ''HISTORY.READ'']),
      (''FUTURES_CHAIN'', [''FUTURES_CHAIN'', ''CONTRACT_DETAILS'']),
      (''CONTRACT_DETAILS'', [''CONTRACT_DETAILS'', ''CONTRACT_TERMS.READ'', ''FUTURES_CHAIN'']),
      (''OPEN_INTEREST'', [''OPEN_INTEREST'', ''OPEN_INTEREST.READ'', ''CFTC_COT'']),
      (''FUNDING'', [''FUNDING'', ''FUNDING.READ'']),
      (''ORDER_BOOK'', [''ORDER_BOOK'', ''ORDER_BOOK.READ'']),
      (''TRADES'', [''TRADES'', ''TRADES.READ'']),
      (''ECONOMIC_CALENDAR'', [''ECONOMIC_CALENDAR'', ''CALENDAR'', ''NEWS'', ''CALENDAR.READ'', ''NEWS.READ'',
        ''FOREX_FACTORY.SCRAPE'']),
      (''MACROECONOMIC'', [''MACROECONOMIC'', ''MACRO'', ''ECONOMIC'', ''MACRO.READ'']),
      (''NEWS'', [''NEWS'', ''NEWS.READ'', ''SEARCH.READ''])]"

definition supports_capability :: "string list \<Rightarrow> string \<Rightarrow> bool" where
  "supports_capability advertised required_one =
     list_ex (\<lambda>a. str_upper a \<in> set (dget capability_aliases (str_upper required_one) [str_upper required_one]))
       advertised"

section \<open>Choosing among binding candidates (\<open>select_candidates\<close>)\<close>

datatype candidate_status = READY_CANDIDATE | NEEDS_TEST | ALREADY_BOUND

record binding_candidate =
  bn_candidate_id :: string
  bn_slot :: string
  bn_lane :: "(string \<times> string) option"
  bn_capability :: string
  bn_authority_purpose :: string
  bn_connection_id :: string
  bn_priority :: int
  bn_status :: candidate_status
  bn_existing_binding_id :: "string option"
  bn_reason :: string
  bn_preference :: int

type_synonym binding_choice = "string \<times> string"

fun status_rank :: "candidate_status \<Rightarrow> int" where
  "status_rank ALREADY_BOUND = 0"
| "status_rank READY_CANDIDATE = 1"
| "status_rank NEEDS_TEST = 2"

definition candidate_key :: "binding_candidate \<Rightarrow> int \<times> int \<times> string" where
  "candidate_key c =
     (status_rank (bn_status c),
      if bn_status c = ALREADY_BOUND then bn_priority c else bn_preference c,
      bn_connection_id c)"

text \<open>\<open>by_slot.setdefault(candidate.slot, []).append(candidate)\<close>; each group is never empty.\<close>

definition add_to_slot ::
    "binding_candidate \<Rightarrow> (string, binding_candidate list) dict \<Rightarrow> (string, binding_candidate list) dict" where
  "add_to_slot c d = AList.update (bn_slot c) (dget d (bn_slot c) [] @ [c]) d"

definition by_slot :: "binding_candidate list \<Rightarrow> (string, binding_candidate list) dict" where
  "by_slot cs = fold add_to_slot cs []"

definition default_selection :: "binding_candidate list \<Rightarrow> (string, binding_candidate) dict" where
  "default_selection cs = dmap (\<lambda>options. min_key candidate_key (hd options) (tl options)) (by_slot cs)"

definition apply_choice ::
    "binding_candidate list \<Rightarrow> binding_choice \<Rightarrow> (string, binding_candidate) dict \<times> string list \<Rightarrow>
     ((string, binding_candidate) dict \<times> string list) res" where
  "apply_choice cs choice state =
     (let (selected, seen) = state in
      case map_of (fold (\<lambda>c. AList.update (bn_candidate_id c) c) cs []) (fst choice) of
        None \<Rightarrow> Inl (ValueError ''AI chose an unknown or duplicate binding option'')
      | Some option \<Rightarrow>
          rbind (ensure (bn_slot option \<notin> set seen)
                   (ValueError ''AI chose an unknown or duplicate binding option'')) (\<lambda>_.
          let seen1 = bn_slot option # seen in
          rbind (required (map_of selected (bn_slot option)) (KeyError (bn_slot option))) (\<lambda>current.
          if bn_status current = ALREADY_BOUND then Inr (selected, seen1)
          else
            rbind (ensure (\<not> (bn_status current = READY_CANDIDATE \<and> bn_status option = NEEDS_TEST))
                     (ValueError ''AI chose an untested option over a tested compatible source'')) (\<lambda>_.
            Inr (AList.update (bn_slot option) (option\<lparr>bn_reason := snd choice\<rparr>) selected, seen1)))))"

definition select_candidates ::
    "binding_candidate list \<Rightarrow> binding_choice list option \<Rightarrow> binding_candidate list res" where
  "select_candidates cs advice =
     (let selected = default_selection cs in
      case advice of
        None \<Rightarrow> Inr (dvalues selected)
      | Some choices \<Rightarrow>
          rbind (rfold (apply_choice cs) choices (selected, [])) (\<lambda>(selected1, seen).
          rbind (ensure (set seen = fst ` set (by_slot cs)) (ValueError ''AI did not cover every candidate slot''))
            (\<lambda>_. Inr (dvalues selected1))))"

section \<open>Credentials (\<open>vault.py\<close>)\<close>

text \<open>
  \<open>AESGCM(key).encrypt(nonce, data, aad)\<close> and \<open>decrypt\<close>, the latter raising on a tag that does not
  verify: \<open>None\<close>.  The Base64 text of a byte string stands for it.
\<close>

record aead =
  ae_seal :: "string \<Rightarrow> string \<Rightarrow> string \<Rightarrow> string \<Rightarrow> string"
  ae_open :: "string \<Rightarrow> string \<Rightarrow> string \<Rightarrow> string \<Rightarrow> string option"

record envelope =
  ev_ciphertext :: string
  ev_nonce :: string
  ev_wrapped_key :: string
  ev_wrap_nonce :: string
  ev_key_version :: string

definition envelope_encrypt ::
    "aead \<Rightarrow> string \<Rightarrow> string \<Rightarrow> string \<times> string \<times> string \<Rightarrow> uuid \<Rightarrow> string \<Rightarrow> envelope" where
  "envelope_encrypt ae kek key_version draws owner secret =
     (let (data_key, nonce, wrap_nonce) = draws in
      \<lparr>ev_ciphertext = ae_seal ae data_key nonce owner secret, ev_nonce = nonce,
       ev_wrapped_key = ae_seal ae kek wrap_nonce owner data_key, ev_wrap_nonce = wrap_nonce,
       ev_key_version = key_version\<rparr>)"

definition envelope_decrypt :: "aead \<Rightarrow> string \<Rightarrow> uuid \<Rightarrow> envelope \<Rightarrow> string option" where
  "envelope_decrypt ae kek owner e =
     (case ae_open ae kek (ev_wrap_nonce e) owner (ev_wrapped_key e) of
        None \<Rightarrow> None
      | Some data_key \<Rightarrow> ae_open ae data_key (ev_nonce e) owner (ev_ciphertext e))"

record credential_version =
  cv_id :: uuid
  cv_owner_id :: uuid
  cv_name :: string
  cv_ciphertext :: string
  cv_nonce :: string
  cv_key_version :: string
  cv_masked_hint :: string
  cv_active :: bool

type_synonym vault = "(uuid, credential_version) dict"

text \<open>\<open>("*" * max(4, len(secret) - 4)) + secret[-4:]\<close>: the mask is one character, here a star.\<close>

definition masked_hint :: "string \<Rightarrow> string" where
  "masked_hint secret =
     replicate (max 4 (length secret - 4)) CHR ''*'' @ drop (length secret - 4) secret"

definition vault_store ::
    "aead \<Rightarrow> string \<Rightarrow> string \<Rightarrow> uuid \<Rightarrow> string \<Rightarrow> vault \<Rightarrow> uuid \<Rightarrow> string \<Rightarrow> string \<Rightarrow>
     vault \<times> credential_version" where
  "vault_store ae key key_version fresh nonce v owner name secret =
     (let item = \<lparr>cv_id = fresh, cv_owner_id = owner, cv_name = name,
                  cv_ciphertext = ae_seal ae key nonce owner secret, cv_nonce = nonce,
                  cv_key_version = key_version, cv_masked_hint = masked_hint secret, cv_active = True\<rparr>
      in (AList.update fresh item v, item))"

definition vault_resolve :: "aead \<Rightarrow> string \<Rightarrow> vault \<Rightarrow> uuid \<Rightarrow> uuid \<Rightarrow> string res" where
  "vault_resolve ae key v owner credential_id =
     rbind (required (map_of v credential_id) (KeyError credential_id)) (\<lambda>item.
     rbind (ensure (\<not> (cv_owner_id item \<noteq> owner \<or> \<not> cv_active item))
              (PermissionError ''credential unavailable'')) (\<lambda>_.
     required (ae_open ae key (cv_nonce item) owner (cv_ciphertext item)) (RuntimeError ''InvalidTag'')))"

definition vault_delete :: "vault \<Rightarrow> uuid \<Rightarrow> uuid \<Rightarrow> vault res" where
  "vault_delete v owner credential_id =
     rbind (required (map_of v credential_id) (KeyError credential_id)) (\<lambda>item.
     rbind (ensure (cv_owner_id item = owner) (PermissionError '''')) (\<lambda>_.
     Inr (AList.delete credential_id v)))"


section \<open>Lemmas: endpoints\<close>

lemma rstrip_slash_append: "rstrip_slash (s @ [c]) = (if c = CHR ''/'' then rstrip_slash s else s @ [c])"
  by (simp add: rstrip_slash_def)

lemma rstrip_slash_split: "\<exists>n. s = rstrip_slash s @ replicate n CHR ''/''"
proof (induction s rule: rev_induct)
  case (snoc c s)
  show ?case
  proof (cases "c = CHR ''/''")
    case True
    from snoc obtain n where "s = rstrip_slash s @ replicate n CHR ''/''" by blast
    then have "s @ [c] = rstrip_slash (s @ [c]) @ replicate (Suc n) CHR ''/''"
      by (simp add: rstrip_slash_append True replicate_append_same[symmetric])
    then show ?thesis by blast
  next
    case False
    then show ?thesis by (intro exI[of _ 0]) (simp add: rstrip_slash_append)
  qed
qed (simp add: rstrip_slash_def)

lemma rstrip_slash_idem [simp]: "rstrip_slash (rstrip_slash s) = rstrip_slash s"
proof (induction s rule: rev_induct)
  case (snoc c s)
  then show ?case by (simp add: rstrip_slash_append)
qed (simp add: rstrip_slash_def)

text \<open>Trailing slashes are no part of the scheme or the authority.\<close>

lemma url_clean_slashes: "url_clean (s @ replicate n CHR ''/'') = url_clean s @ replicate n CHR ''/''"
proof -
  have "filter (\<lambda>c. of_char c \<notin> {9, 10, 13 :: nat}) (replicate n CHR ''/'') = replicate n CHR ''/''" by simp
  moreover have "dropWhile (\<lambda>c. of_char c \<le> (32 :: nat)) (s @ replicate n CHR ''/'')
      = dropWhile (\<lambda>c. of_char c \<le> (32 :: nat)) s @ replicate n CHR ''/''"
    by (induction s) (auto simp: dropWhile_eq_self_iff)
  ultimately show ?thesis by (simp add: url_clean_def)
qed

lemma url_scheme_slashes:
  "url_scheme (s @ replicate n CHR ''/'') = (fst (url_scheme s), snd (url_scheme s) @ replicate n CHR ''/'')"
proof (cases "CHR '':'' \<in> set s")
  case True
  then have "before CHR '':'' (s @ replicate n CHR ''/'') = before CHR '':'' s"
    "after CHR '':'' (s @ replicate n CHR ''/'') = after CHR '':'' s @ replicate n CHR ''/''"
    by (induction s) (auto simp: before_def after_def)
  with True show ?thesis by (simp add: url_scheme_def Let_def)
qed (simp add: url_scheme_def)

lemma netloc_slashes:
  assumes "url_netloc (s @ replicate n CHR ''/'') \<noteq> []"
  shows "url_netloc (s @ replicate n CHR ''/'') = url_netloc s"
proof -
  let ?p = "\<lambda>c. c \<notin> {CHR ''/'', CHR ''?'', CHR ''#''}"
  have "takeWhile ?p (xs @ replicate n CHR ''/'') = takeWhile ?p xs" for xs
    by (induction xs) (simp_all add: takeWhile_eq_Nil_iff)
  moreover have "takeWhile ?p (drop k (replicate n CHR ''/'')) = []" for k
    by (simp add: takeWhile_eq_Nil_iff)
  ultimately show ?thesis using assms
    by (cases s rule: list.exhaust; cases "tl s") (auto simp: url_netloc_def split: if_splits)
qed


lemma netloc_host_Nil [simp]: "netloc_host [] = []"
  by (simp add: netloc_host_def after_last_def before_def)

lemma urlparse_rstrip:
  assumes "urlparse value = Inr (scheme, host)" and "host \<noteq> []"
  shows "urlparse (rstrip_slash value) = Inr (scheme, host)"
proof -
  obtain n where v: "value = rstrip_slash value @ replicate n CHR ''/''" using rstrip_slash_split by blast
  define u where "u = url_scheme (url_clean (rstrip_slash value))"
  have u: "url_scheme (url_clean value) = (fst u, snd u @ replicate n CHR ''/'')"
    by (subst v) (simp add: url_clean_slashes url_scheme_slashes u_def)
  have host: "host = str_lower (netloc_host (url_netloc (snd u @ replicate n CHR ''/'')))" "scheme = fst u"
    and ok: "(CHR ''['' \<in> set (url_netloc (snd u @ replicate n CHR ''/'')))
      = (CHR '']'' \<in> set (url_netloc (snd u @ replicate n CHR ''/'')))"
    using assms(1) by (auto simp: urlparse_def u Let_def split: if_splits)
  have "url_netloc (snd u @ replicate n CHR ''/'') \<noteq> []" using assms(2) host by (auto simp: str_lower_def)
  note same = netloc_slashes[OF this]
  show ?thesis using host(2) ok
    by (simp add: urlparse_def u_def[symmetric] case_prod_beta Let_def host(1) same)
qed

lemma validated_endpoint_idem:
  assumes "validated_endpoint nets http value = Inr v"
  shows "validated_endpoint nets http v = Inr v"
proof -
  obtain scheme host where p: "urlparse value = Inr (scheme, host)" "host \<noteq> []" "v = rstrip_slash value"
    using assms by (auto simp: validated_endpoint_def Let_def)
  from urlparse_rstrip[OF p(1,2)] assms p show ?thesis
    by (auto simp: validated_endpoint_def Let_def)
qed

lemma endpoint_nonempty: "validated_endpoint nets http v = Inr w \<Longrightarrow> w \<noteq> []"
  by (drule validated_endpoint_idem)
     (auto simp: validated_endpoint_def urlparse_def url_clean_def url_scheme_def before_def url_netloc_def
       str_lower_def Let_def)

text \<open>What configuring the provider leaves alone, and that it is stable.\<close>

lemma endpoint_config_InrD:
  assumes "endpoint_config nets http key p = Inr q"
  shows "cf_name q = cf_name p" "cf_provider q = cf_provider p" "cf_credential_id q = cf_credential_id p"
    "cf_active q = cf_active p" "endpoint_config nets http key q = Inr q" "config q key \<noteq> []"
proof -
  obtain v where v: "validated_endpoint nets http (config p key) = Inr v" "q = set_config p key v"
    using assms by (auto simp: endpoint_config_def)
  then show "cf_name q = cf_name p" "cf_provider q = cf_provider p" "cf_credential_id q = cf_credential_id p"
    "cf_active q = cf_active p" by (simp_all add: set_config_def)
  have c: "config q key = v" using v by (simp add: config_def set_config_def dget_def)
  then show "config q key \<noteq> []" using endpoint_nonempty[OF v(1)] by simp
  have "AList.update key v (cf_configuration q) = cf_configuration q"
    by (simp add: v(2) set_config_def update_Some_unfold update_last)
  then show "endpoint_config nets http key q = Inr q"
    using validated_endpoint_idem[OF v(1)] c by (simp add: endpoint_config_def set_config_def)
qed


definition endpoint_safe :: "(string \<Rightarrow> bool) \<Rightarrow> bool \<Rightarrow> string \<Rightarrow> bool" where
  "endpoint_safe nets http v =
     returns (urlparse v) (\<lambda>(scheme, host). host \<noteq> [] \<and> host \<notin> set metadata_hosts
       \<and> (scheme = ''https'' \<or> (scheme = ''http'' \<and> http \<and> (host \<in> set loopback_hosts \<or> nets host))))"

lemma validated_endpoint_safe: "validated_endpoint nets http v = Inr w \<Longrightarrow> endpoint_safe nets http w"
  by (drule validated_endpoint_idem) (auto simp: validated_endpoint_def endpoint_safe_def returns_iff Let_def)

lemma endpoint_config_safe:
  assumes "endpoint_config nets http key p = Inr q"
  shows "endpoint_safe nets http (config q key)"
proof -
  obtain v where "validated_endpoint nets http (config p key) = Inr v" "config q key = v"
    using assms by (auto simp: endpoint_config_def config_def set_config_def dget_def)
  then show ?thesis using validated_endpoint_safe by simp
qed

lemma provider_configuration_InrD:
  assumes "provider_configuration nets p = Inr q"
  shows "cf_name q = cf_name p" "cf_provider q = cf_provider p" "cf_credential_id q = cf_credential_id p"
    "cf_active q = cf_active p" "provider_configuration nets q = Inr q"
    "cf_provider q = MT5_BRIDGE \<Longrightarrow> endpoint_safe nets True (config q ''bridge_url'')"
    "cf_provider q \<in> {CALENDAR, NEWS} \<Longrightarrow> endpoint_safe nets False (config q ''base_url'')"
    "cf_provider q = FOREX_FACTORY \<and> config q ''feed_url'' \<noteq> [] \<Longrightarrow> endpoint_safe nets False (config q ''feed_url'')"
proof -
  consider (mt5) "cf_provider p = MT5_BRIDGE" "endpoint_config nets True ''bridge_url'' p = Inr q"
    | (base) "cf_provider p \<in> {CALENDAR, NEWS}" "endpoint_config nets False ''base_url'' p = Inr q"
    | (feed) "cf_provider p = FOREX_FACTORY" "endpoint_config nets False ''feed_url'' p = Inr q"
    | (ccxt) x where "cf_provider p = CCXT" "x \<in> set research_exchanges" "q = set_config p ''exchange'' x"
    | (same) "q = p" "cf_provider p \<notin> {MT5_BRIDGE, CALENDAR, NEWS, CCXT}"
        "cf_provider p = FOREX_FACTORY \<longrightarrow> config p ''feed_url'' = []"
  proof -
    consider "cf_provider p = MT5_BRIDGE" | "cf_provider p \<in> {CALENDAR, NEWS}" | "cf_provider p = FOREX_FACTORY"
      | "cf_provider p = CCXT" | "cf_provider p \<notin> {MT5_BRIDGE, CALENDAR, NEWS, FOREX_FACTORY, CCXT}" by blast
    then show thesis
    proof cases
      case 1
      with assms show thesis by (intro mt5) (auto simp: provider_configuration_def)
    next
      case 2
      with assms show thesis by (intro base) (auto simp: provider_configuration_def split: if_splits)
    next
      case 3
      with assms show thesis
        by (cases "config p ''feed_url'' = []") (auto simp: provider_configuration_def intro: feed same)
    next
      case 4
      with assms show thesis by (intro ccxt) (auto simp: provider_configuration_def Let_def)
    next
      case 5
      with assms show thesis by (intro same) (auto simp: provider_configuration_def split: if_splits)
    qed
  qed
  then have "(cf_name q = cf_name p \<and> cf_provider q = cf_provider p \<and> cf_credential_id q = cf_credential_id p
      \<and> cf_active q = cf_active p \<and> provider_configuration nets q = Inr q)
    \<and> (cf_provider q = MT5_BRIDGE \<longrightarrow> endpoint_safe nets True (config q ''bridge_url''))
    \<and> (cf_provider q \<in> {CALENDAR, NEWS} \<longrightarrow> endpoint_safe nets False (config q ''base_url''))
    \<and> (cf_provider q = FOREX_FACTORY \<and> config q ''feed_url'' \<noteq> [] \<longrightarrow> endpoint_safe nets False (config q ''feed_url''))"
  proof cases
    case mt5
    with endpoint_config_InrD[OF mt5(2)] endpoint_config_safe[OF mt5(2)] show ?thesis
      by (simp add: provider_configuration_def)
  next
    case base
    with endpoint_config_InrD[OF base(2)] endpoint_config_safe[OF base(2)] show ?thesis
      by (auto simp: provider_configuration_def)
  next
    case feed
    with endpoint_config_InrD[OF feed(2)] endpoint_config_safe[OF feed(2)] show ?thesis
      by (simp add: provider_configuration_def)
  next
    case ccxt
    then show ?thesis
      by (simp add: provider_configuration_def set_config_def dget_def update_triv Let_def)
  next
    case same
    with assms show ?thesis by auto
  qed
  then show "cf_name q = cf_name p" "cf_provider q = cf_provider p" "cf_credential_id q = cf_credential_id p"
    "cf_active q = cf_active p" "provider_configuration nets q = Inr q"
    "cf_provider q = MT5_BRIDGE \<Longrightarrow> endpoint_safe nets True (config q ''bridge_url'')"
    "cf_provider q \<in> {CALENDAR, NEWS} \<Longrightarrow> endpoint_safe nets False (config q ''base_url'')"
    "cf_provider q = FOREX_FACTORY \<and> config q ''feed_url'' \<noteq> [] \<Longrightarrow> endpoint_safe nets False (config q ''feed_url'')"
    by blast+
qed

section \<open>Lemmas: candidate selection\<close>

definition slot_wf :: "(string, binding_candidate list) dict \<Rightarrow> binding_candidate list \<Rightarrow> bool" where
  "slot_wf d cs \<longleftrightarrow> fst ` set d = bn_slot ` set cs \<and> distinct (map fst d)
     \<and> (\<forall>(s, g) \<in> set d. g \<noteq> [] \<and> set g = {c \<in> set cs. bn_slot c = s})"

lemma add_to_slot_wf:
  assumes "slot_wf d cs"
  shows "slot_wf (add_to_slot c d) (cs @ [c])"
proof -
  have m: "map_of d s = Some g \<longleftrightarrow> (s, g) \<in> set d" for s g
    using assms by (simp add: slot_wf_def)
  have new: "distinct (map fst (add_to_slot c d))"
    using assms by (simp add: slot_wf_def add_to_slot_def distinct_update)
  have "g \<noteq> [] \<and> set g = {e \<in> set (cs @ [c]). bn_slot e = s}" if "(s, g) \<in> set (add_to_slot c d)" for s g
  proof -
    have "map_of (add_to_slot c d) s = Some g" using that new by simp
    then show ?thesis
    proof (cases "s = bn_slot c")
      case True
      with \<open>map_of (add_to_slot c d) s = Some g\<close> have g: "g = dget d s [] @ [c]" by (simp add: add_to_slot_def)
      have "set (dget d s []) = {e \<in> set cs. bn_slot e = s}"
      proof (cases "map_of d s")
        case None
        then have "s \<notin> fst ` set d" by (simp add: map_of_eq_None_iff)
        with assms None show ?thesis by (auto simp: slot_wf_def dget_def)
      next
        case (Some h)
        with m assms show ?thesis by (auto simp: slot_wf_def dget_def)
      qed
      with g True show ?thesis by auto
    next
      case False
      with \<open>map_of (add_to_slot c d) s = Some g\<close> have "(s, g) \<in> set d" by (simp add: add_to_slot_def m)
      with assms False show ?thesis by (auto simp: slot_wf_def)
    qed
  qed
  moreover have "fst ` set (add_to_slot c d) = bn_slot ` set (cs @ [c])"
    using assms by (simp add: slot_wf_def add_to_slot_def dom_update)
  ultimately show ?thesis using new by (simp add: slot_wf_def case_prod_beta split_paired_all)
qed

lemma by_slot_wf: "slot_wf (by_slot cs) cs"
proof (induction cs rule: rev_induct)
  case (snoc c cs)
  then show ?case using add_to_slot_wf by (simp add: by_slot_def)
qed (simp add: by_slot_def slot_wf_def)


text \<open>What a selected candidate is: one of the candidates of its slot, its reason aside, as far along as any.\<close>

definition selectable :: "binding_candidate list \<Rightarrow> binding_candidate \<Rightarrow> bool" where
  "selectable cs c \<longleftrightarrow> (\<exists>d \<in> set cs. c = d\<lparr>bn_reason := bn_reason c\<rparr>)
     \<and> (\<forall>d \<in> set cs. bn_slot d = bn_slot c \<longrightarrow> status_rank (bn_status c) \<le> status_rank (bn_status d))"

definition selection_wf :: "binding_candidate list \<Rightarrow> (string, binding_candidate) dict \<Rightarrow> bool" where
  "selection_wf cs d \<longleftrightarrow> distinct (map fst d) \<and> fst ` set d = bn_slot ` set cs
     \<and> (\<forall>(s, c) \<in> set d. bn_slot c = s \<and> selectable cs c)"

lemma default_selection_mem:
  assumes "(s, c) \<in> set (default_selection cs)"
  shows "c \<in> set cs" "bn_slot c = s" "\<And>d. d \<in> set cs \<Longrightarrow> bn_slot d = s \<Longrightarrow> candidate_key c \<le> candidate_key d"
proof -
  obtain g where g: "(s, g) \<in> set (by_slot cs)" "c = min_key candidate_key (hd g) (tl g)"
    using assms by (auto simp: default_selection_def dmap_def)
  with by_slot_wf[of cs] have "g \<noteq> []" and set: "set g = {c \<in> set cs. bn_slot c = s}"
    by (auto simp: slot_wf_def)
  then have cons: "insert (hd g) (set (tl g)) = set g" by (cases g) auto
  show "c \<in> set cs" "bn_slot c = s"
    using min_key_mem[of candidate_key "hd g" "tl g"] cons set g(2) by auto
  show "candidate_key c \<le> candidate_key d" if "d \<in> set cs" "bn_slot d = s" for d
    using min_key_le[of d "hd g" "tl g" candidate_key] cons set g(2) that by auto
qed

lemma keys_set_dmap: "fst ` set (dmap f d) = fst ` set d"
  by (simp add: dmap_def image_image case_prod_beta)

lemma default_selection_wf: "selection_wf cs (default_selection cs)"
proof -
  have "selectable cs c" if "(s, c) \<in> set (default_selection cs)" for s c
  proof -
    note m = default_selection_mem[OF that]
    have "status_rank (bn_status c) \<le> status_rank (bn_status d)" if "d \<in> set cs" "bn_slot d = bn_slot c" for d
      using m(3)[of d] that m(2) by (auto simp: candidate_key_def)
    then show ?thesis using m(1) unfolding selectable_def by (intro conjI bexI[of _ c]) auto
  qed
  moreover have "fst ` set (default_selection cs) = bn_slot ` set cs" "distinct (map fst (default_selection cs))"
    using by_slot_wf[of cs] by (simp_all add: default_selection_def slot_wf_def keys_set_dmap)
  ultimately show ?thesis using default_selection_mem(2) by (auto simp: selection_wf_def)
qed

lemma index_candidates_mem:
  "map_of (fold (\<lambda>c. AList.update (bn_candidate_id c) c) cs d) i = Some c \<Longrightarrow> c \<in> set cs \<or> map_of d i = Some c"
  by (induction cs arbitrary: d) (fastforce split: if_splits)+

lemma apply_choice_wf:
  assumes "apply_choice cs choice (sel, seen) = Inr (sel', seen')" and wf: "selection_wf cs sel"
  shows "selection_wf cs sel'"
proof -
  obtain x cur where x: "map_of (fold (\<lambda>c. AList.update (bn_candidate_id c) c) cs []) (fst choice) = Some x"
    and cur: "map_of sel (bn_slot x) = Some cur"
    and upd: "sel' = sel \<or> bn_status cur \<noteq> ALREADY_BOUND
        \<and> \<not> (bn_status cur = READY_CANDIDATE \<and> bn_status x = NEEDS_TEST)
        \<and> sel' = AList.update (bn_slot x) (x\<lparr>bn_reason := snd choice\<rparr>) sel"
    using assms(1) by (auto simp: apply_choice_def Let_def split: option.splits if_splits)
  have mem: "x \<in> set cs" using index_candidates_mem[OF x] by simp
  show ?thesis
  proof (cases "sel' = sel")
    case False
    with upd have st: "bn_status cur \<noteq> ALREADY_BOUND"
      "\<not> (bn_status cur = READY_CANDIDATE \<and> bn_status x = NEEDS_TEST)"
      and sel': "sel' = AList.update (bn_slot x) (x\<lparr>bn_reason := snd choice\<rparr>) sel" by auto
    from cur have "(bn_slot x, cur) \<in> set sel" by (rule map_of_SomeD)
    with wf have c: "bn_slot cur = bn_slot x" "selectable cs cur" by (auto simp: selection_wf_def)
    have "status_rank (bn_status x) \<le> status_rank (bn_status cur)"
      using st by (cases "bn_status x"; cases "bn_status cur") auto
    with c mem have sx: "selectable cs (x\<lparr>bn_reason := snd choice\<rparr>)"
      unfolding selectable_def by (auto intro: order_trans)
    have "bn_slot x \<in> fst ` set sel" using cur by (metis domI dom_map_of_conv_image_fst)
    then have "fst ` set sel' = fst ` set sel" by (auto simp: sel' dom_update)
    moreover have "distinct (map fst sel')" using wf by (simp add: sel' selection_wf_def distinct_update)
    moreover have "\<forall>(s, c) \<in> set sel'. bn_slot c = s \<and> selectable cs c"
    proof -
      have "set sel' \<subseteq> insert (bn_slot x, x\<lparr>bn_reason := snd choice\<rparr>) (set sel)"
        unfolding sel' by (induction sel) auto
      then show ?thesis using wf sx by (auto simp: selection_wf_def)
    qed
    ultimately show ?thesis using wf by (simp add: selection_wf_def)
  qed (use wf in simp)
qed

lemma selection_wf_values:
  assumes "selection_wf cs d"
  shows "map bn_slot (dvalues d) = map fst d"
  using assms by (auto simp: selection_wf_def dvalues_def)


section \<open>Lemmas: circuit breaker\<close>

definition circuit_step :: "int \<times> bool \<Rightarrow> circuit_breaker \<Rightarrow> circuit_breaker" where
  "circuit_step e b = (if snd e then circuit_success b else circuit_failure (fst e) b)"

definition trailing_failures :: "(int \<times> bool) list \<Rightarrow> (int \<times> bool) list" where
  "trailing_failures es = takeWhile (\<lambda>e. \<not> snd e) (rev es)"

lemma trailing_failures_snoc [simp]:
  "trailing_failures [] = []"
  "trailing_failures (es @ [e]) = (if snd e then [] else e # trailing_failures es)"
  by (simp_all add: trailing_failures_def)

lemma circuit_run:
  assumes "1 \<le> cb_failure_threshold b" and "cb_failures b = 0" and "cb_opened_at b = None"
  shows "cb_failure_threshold (fold circuit_step es b) = cb_failure_threshold b"
    "cb_reset_after (fold circuit_step es b) = cb_reset_after b"
    "cb_failures (fold circuit_step es b) = int (length (trailing_failures es))"
    "cb_opened_at (fold circuit_step es b) =
       (if cb_failure_threshold b \<le> int (length (trailing_failures es))
        then Some (fst (hd (trailing_failures es))) else None)"
  using assms
  by (induction es rule: rev_induct)
     (auto simp: circuit_step_def circuit_success_def circuit_failure_def Let_def)

section \<open>Properties\<close>


text \<open>C9: Whatever an AI advises, the binding options selected are the ones that were built: one for each
  slot and no other, each a candidate of that slot with every field but its reason untouched, and never
  less established than another candidate of the slot, so that a binding in use is kept and an untested
  source is never preferred to a tested one.\<close>
theorem select_candidates_sound:
  assumes "select_candidates cs advice = Inr sel"
  shows "distinct (map bn_slot sel) \<and> bn_slot ` set sel = bn_slot ` set cs
    \<and> (\<forall>s \<in> set sel. \<exists>d \<in> set cs. s = d\<lparr>bn_reason := bn_reason s\<rparr>)
    \<and> (\<forall>s \<in> set sel. \<forall>d \<in> set cs. bn_slot d = bn_slot s \<longrightarrow>
         status_rank (bn_status s) \<le> status_rank (bn_status d))"
proof -
  have "\<exists>d. selection_wf cs d \<and> sel = dvalues d"
  proof (cases advice)
    case None
    with assms default_selection_wf show ?thesis by (auto simp: select_candidates_def)
  next
    case (Some choices)
    then obtain d seen where d: "rfold (apply_choice cs) choices (default_selection cs, []) = Inr (d, seen)"
      "sel = dvalues d"
      using assms by (auto simp: select_candidates_def)
    have "selection_wf cs (fst (d, seen))"
      by (rule rfold_invariant[OF d(1), of "\<lambda>st. selection_wf cs (fst st)"])
         (auto simp: default_selection_wf dest: apply_choice_wf)
    with d(2) show ?thesis by auto
  qed
  then obtain d where d: "selection_wf cs d" "sel = dvalues d" by blast
  have slots: "map bn_slot sel = map fst d" unfolding d(2) by (rule selection_wf_values[OF d(1)])
  then have "distinct (map bn_slot sel)" "bn_slot ` set sel = bn_slot ` set cs"
    using d(1) by (simp_all add: selection_wf_def flip: set_map)
  moreover have "selectable cs s" if "s \<in> set sel" for s
    using that d by (auto simp: selection_wf_def dvalues_def)
  ultimately show ?thesis unfolding selectable_def by blast
qed

text \<open>C8: A circuit breaker is what its history says: after any sequence of successes and failures, calls
  are refused exactly while the failures since the last success reach the threshold and the last of
  them is less than the reset time ago.\<close>
theorem circuit_breaker_history:
  assumes "1 \<le> cb_failure_threshold b" and "cb_failures b = 0" and "cb_opened_at b = None"
  shows "circuit_allow now (fold circuit_step es b) \<longleftrightarrow>
    int (length (trailing_failures es)) < cb_failure_threshold b
    \<or> cb_reset_after b \<le> now - fst (hd (trailing_failures es))"
  using circuit_run[OF assms] by (auto simp: circuit_allow_def circuit_state_of_def)

text \<open>A stored credential is its owner's: decrypting an envelope under its owner gives the secret back
  and under any other owner nothing, and the vault resolves a stored credential for its owner alone,
  refuses to delete it for another, and no longer has it once its owner deleted it.  The hypotheses
  are those of authenticated encryption.\<close>
theorem credential_owner_bound:
  assumes "\<And>k n a m. ae_open ae k n a (ae_seal ae k n a m) = Some m"
    and "\<And>k n a a' m. a' \<noteq> a \<Longrightarrow> ae_open ae k n a' (ae_seal ae k n a m) = None"
    and "other \<noteq> owner" and "vault_store ae key kv fresh nonce v owner name secret = (v', item)"
  shows "envelope_decrypt ae kek owner (envelope_encrypt ae kek kv draws owner secret) = Some secret
    \<and> envelope_decrypt ae kek other (envelope_encrypt ae kek kv draws owner secret) = None
    \<and> vault_resolve ae key v' owner fresh = Inr secret
    \<and> \<not> is_ok (vault_resolve ae key v' other fresh) \<and> \<not> is_ok (vault_delete v' other fresh)
    \<and> (\<exists>v2. vault_delete v' owner fresh = Inr v2 \<and> \<not> is_ok (vault_resolve ae key v2 owner fresh))"
proof -
  obtain q where v': "v' = AList.update fresh q v" and q: "cv_owner_id q = owner" "cv_active q"
    "cv_nonce q = nonce" "cv_ciphertext q = ae_seal ae key nonce owner secret"
    using assms(4) by (auto simp: vault_store_def Let_def)
  have "envelope_decrypt ae kek owner (envelope_encrypt ae kek kv draws owner secret) = Some secret"
    "envelope_decrypt ae kek other (envelope_encrypt ae kek kv draws owner secret) = None"
    by (simp_all add: envelope_decrypt_def envelope_encrypt_def assms(1-3) split: prod.split)
  moreover have "vault_resolve ae key v' owner fresh = Inr secret" "\<not> is_ok (vault_resolve ae key v' other fresh)"
    "\<not> is_ok (vault_delete v' other fresh)"
    using q assms(1,3) by (simp_all add: vault_resolve_def vault_delete_def v')
  moreover have "vault_delete v' owner fresh = Inr (AList.delete fresh v')"
    "\<not> is_ok (vault_resolve ae key (AList.delete fresh v') owner fresh)"
    using q by (simp_all add: vault_resolve_def vault_delete_def v' delete_conv')
  ultimately show ?thesis by blast
qed

text \<open>Research is routed to the verified source of least priority: the binding chosen for a lane and a
  capability is verified for exactly them and no other verified one comes before it; there is a choice
  exactly when there is a verified binding.\<close>
theorem choose_binding_first:
  "(case choose_binding bs lane cap of
      Inl e \<Rightarrow> \<not> (\<exists>b \<in> set bs. binding_matches lane cap b)
    | Inr b \<Rightarrow> b \<in> set bs \<and> binding_matches lane cap b
        \<and> (\<forall>c \<in> set (filter (binding_matches lane cap) bs). binding_key b \<le> binding_key c))"
proof (cases "filter (binding_matches lane cap) bs")
  case Nil
  then show ?thesis by (auto simp: choose_binding_def filter_empty_conv)
next
  case (Cons b cs)
  have "min_key binding_key b cs \<in> {c \<in> set bs. binding_matches lane cap c}"
    unfolding set_filter[symmetric] Cons using min_key_mem[of binding_key b cs] by simp
  moreover have "\<forall>c \<in> set (filter (binding_matches lane cap) bs). binding_key (min_key binding_key b cs) \<le> binding_key c"
    using min_key_le[of _ b cs binding_key] Cons by simp
  ultimately show ?thesis using Cons by (simp add: choose_binding_def)
qed


section \<open>Witnesses\<close>

definition demo_profile :: "string \<Rightarrow> connection_profile" where
  "demo_profile url = \<lparr>cf_name = ''bridge'', cf_provider = MT5_BRIDGE, cf_credential_id = Some ''c'',
     cf_configuration = [(''bridge_url'', url)], cf_active = True\<rparr>"

lemma demo_profile_validates:
  "validate_profile (\<lambda>_. False) (demo_profile ''http://LocalHost:9000///'')
     = Inr (demo_profile ''http://LocalHost:9000'')"
  by code_simp


definition demo_option :: "string \<Rightarrow> candidate_status \<Rightarrow> binding_candidate" where
  "demo_option i st = \<lparr>bn_candidate_id = i, bn_slot = ''FOREX:CFD:QUOTE'', bn_lane = Some (''FOREX'', ''CFD''),
     bn_capability = ''QUOTE'', bn_authority_purpose = ''EXECUTABLE_QUOTE'', bn_connection_id = i, bn_priority = 1,
     bn_status = st, bn_existing_binding_id = None, bn_reason = ''built'', bn_preference = 0\<rparr>"

theorem select_candidates_sound_witness:
  "\<exists>sel. select_candidates [demo_option ''x'' NEEDS_TEST, demo_option ''y'' READY_CANDIDATE,
      demo_option ''z'' READY_CANDIDATE] (Some [(''z'', ''advised'')]) = Inr sel
    \<and> (\<forall>s \<in> set sel. bn_status s \<noteq> NEEDS_TEST)"
proof -
  let ?cs = "[demo_option ''x'' NEEDS_TEST, demo_option ''y'' READY_CANDIDATE, demo_option ''z'' READY_CANDIDATE]"
  obtain sel where sel: "select_candidates ?cs (Some [(''z'', ''advised'')]) = Inr sel"
    by (simp add: select_candidates_def default_selection_def by_slot_def add_to_slot_def dget_def demo_option_def
        candidate_key_def apply_choice_def less_prod_def')
  note S = select_candidates_sound[OF sel]
  have "bn_status s \<noteq> NEEDS_TEST" if s: "s \<in> set sel" for s
  proof -
    from S s have "bn_slot s \<in> bn_slot ` set ?cs" by (metis imageI)
    then have "bn_slot (demo_option ''y'' READY_CANDIDATE) = bn_slot s" by (auto simp: demo_option_def)
    with S s have "status_rank (bn_status s) \<le> status_rank (bn_status (demo_option ''y'' READY_CANDIDATE))" by simp
    then show ?thesis by (auto simp: demo_option_def)
  qed
  with sel show ?thesis by blast
qed

definition demo_breaker :: circuit_breaker where
  "demo_breaker = \<lparr>cb_failure_threshold = 3, cb_reset_after = 30, cb_failures = 0, cb_opened_at = None\<rparr>"

theorem circuit_breaker_history_witness:
  "\<not> circuit_allow 40 (fold circuit_step [(1, False), (5, True), (10, False), (11, False), (12, False)] demo_breaker)
    \<and> circuit_allow 42 (fold circuit_step [(1, False), (5, True), (10, False), (11, False), (12, False)] demo_breaker)"
  using circuit_breaker_history[of demo_breaker 40 "[(1, False), (5, True), (10, False), (11, False), (12, False)]"]
    circuit_breaker_history[of demo_breaker 42 "[(1, False), (5, True), (10, False), (11, False), (12, False)]"]
  by (simp add: demo_breaker_def trailing_failures_def)

text \<open>A cipher that authenticates: the text carries its associated data, with its length.\<close>

definition demo_aead :: aead where
  "demo_aead = \<lparr>ae_seal = (\<lambda>k n a m. replicate (length a) CHR ''l'' @ CHR ''.'' # a @ m),
     ae_open = (\<lambda>k n a c.
       if length (takeWhile (\<lambda>x. x = CHR ''l'') c) = length a
          \<and> take (length a + 1) (dropWhile (\<lambda>x. x = CHR ''l'') c) = CHR ''.'' # a
       then Some (drop (length a + 1) (dropWhile (\<lambda>x. x = CHR ''l'') c)) else None)\<rparr>"

lemma demo_aead_laws:
  "ae_open demo_aead k n a (ae_seal demo_aead k n a m) = Some m"
  "a' \<noteq> a \<Longrightarrow> ae_open demo_aead k n a' (ae_seal demo_aead k n a m) = None"
proof -
  have "dropWhile (\<lambda>x. x = CHR ''l'') (replicate i CHR ''l'' @ CHR ''.'' # r) = CHR ''.'' # r"
    "takeWhile (\<lambda>x. x = CHR ''l'') (replicate i CHR ''l'' @ CHR ''.'' # r) = replicate i CHR ''l''" for i and r
    by (induction i) simp_all
  then show "ae_open demo_aead k n a (ae_seal demo_aead k n a m) = Some m"
    "a' \<noteq> a \<Longrightarrow> ae_open demo_aead k n a' (ae_seal demo_aead k n a m) = None"
    by (auto simp: demo_aead_def take_Cons')
qed

theorem credential_owner_bound_witness:
  "envelope_decrypt demo_aead ''kek'' ''u'' (envelope_encrypt demo_aead ''kek'' ''v1'' (''d'', ''n'', ''w'') ''u'' ''s'')
      = Some ''s''
    \<and> envelope_decrypt demo_aead ''kek'' ''v'' (envelope_encrypt demo_aead ''kek'' ''v1'' (''d'', ''n'', ''w'') ''u'' ''s'')
      = None"
  using credential_owner_bound[OF demo_aead_laws(1), OF demo_aead_laws(2), of "''v''" "''u''" "''key''" "''v1''" "''i''"
      "''n''" "[]" "''name''" "''s''" _ _ "''kek''" "(''d'', ''n'', ''w'')"]
  by (auto simp: vault_store_def Let_def)

definition demo_binding :: "uuid \<Rightarrow> int \<Rightarrow> string \<Rightarrow> provider_binding" where
  "demo_binding i p st = \<lparr>pb_id = i, pb_account_id = ''a'', pb_lane = (FOREX, CFD), pb_capability = QUOTE,
     pb_connection_id = i, pb_priority = p, pb_version = 1, pb_verification_status = st\<rparr>"

theorem choose_binding_first_witness:
  "\<exists>b. choose_binding [demo_binding ''x'' 0 ''UNVERIFIED'', demo_binding ''z'' 2 ''VERIFIED'',
      demo_binding ''y'' 2 ''VERIFIED''] ''FOREX:CFD'' QUOTE = Inr b
    \<and> pb_priority b = 2 \<and> pb_verification_status b = ''VERIFIED''"
proof -
  let ?bs = "[demo_binding ''x'' 0 ''UNVERIFIED'', demo_binding ''z'' 2 ''VERIFIED'', demo_binding ''y'' 2 ''VERIFIED'']"
  have l: "lane_key FOREX CFD = ''FOREX:CFD''" by (simp add: lane_key_def)
  have "binding_matches ''FOREX:CFD'' QUOTE (demo_binding ''y'' 2 ''VERIFIED'')"
    by (simp add: binding_matches_def binding_lane_def demo_binding_def l)
  then obtain b where b: "choose_binding ?bs ''FOREX:CFD'' QUOTE = Inr b"
    using choose_binding_first[of ?bs "''FOREX:CFD''" QUOTE]
    by (cases "choose_binding ?bs ''FOREX:CFD'' QUOTE") auto
  with choose_binding_first[of ?bs "''FOREX:CFD''" QUOTE] show ?thesis
    by (auto simp: binding_matches_def demo_binding_def)
qed

end
