(* ===== verification/Documents.thy ===== *)
theory Documents
  imports Store Reconciliation Connections
begin

text \<open>
  The JSON documents the live trading path keeps in the resource store, and the two tables a
  transaction of that path works on.

  A row's document is a value of \<open>document\<close>: the constructor says which model's dump it is.  The
  dump of a model and its validation are inverse to each other on these values, so a row written as
  the dump of a plan is read back as that plan; reading a row as another model than the one it was
  dumped from is a validation error.  Rows written by the configuration routes (accounts, guardrails,
  rulesets, instruments) keep the keys the trading path reads, each of them possibly absent.
\<close>

section \<open>Configuration documents\<close>

record account_doc =
  ad_currency :: "string option"
  ad_starting_balance :: "decimal option"

record policy_rule =
  pl_kind :: string
  pl_value :: decimal
  pl_reason :: "string option"
  pl_enforcement :: "string option"

record policy_doc =
  pd_account_id :: "uuid option"
  pd_name :: "string option"
  pd_source_reference :: "string option"
  pd_rules :: "policy_rule list"

text \<open>The raw specification of an instrument, with the keys the trading path reads of it.\<close>

record spec_doc =
  sd_id :: "uuid option"
  sd_venue_instrument_id :: "uuid option"
  sd_freshness :: "string option"
  sd_source_cut_id :: "string option"
  sd_provenance :: "(string, string) dict"
  sd_effective_from :: "timestamp option"
  sd_effective_to :: "timestamp option"
  sd_price_currency :: "string option"
  sd_quantity_unit :: "quantity_unit option"
  sd_contract_multiplier :: "decimal option"
  sd_tick_size :: "decimal option"
  sd_tick_value :: "decimal option"
  sd_quantity_minimum :: "decimal option"
  sd_quantity_maximum :: "decimal option"
  sd_quantity_step :: "decimal option"
  sd_margin_required :: "decimal option"
  sd_financing_cost :: "decimal option"

text \<open>
  An instrument row: \<open>in_flat\<close> are the keys of \<open>spec_doc\<close> in the row itself, which the code reads
  when the row has no \<open>specification\<close> key.
\<close>

record instrument_doc =
  in_account_id :: "uuid option"
  in_specification_version_id :: "uuid option"
  in_quantity_unit :: "string option"
  in_listing_executable :: bool
  in_specification :: "spec_doc option"
  in_flat :: spec_doc
  in_typed :: typed_ref

text \<open>A connection row as stored, and a credential row: its provider and its encrypted envelope.\<close>

record credential_doc =
  cr_provider :: string
  cr_envelope :: envelope

section \<open>Documents of the trading path\<close>

text \<open>A stored command: the dump of the model, and the two keys \<open>lease_command\<close> adds to it.\<close>

record command_doc =
  cd_command :: execution_command
  cd_lease :: "(string \<times> timestamp) option"
  cd_attempt_count :: int

record active_trade =
  av_id :: uuid
  av_owner_id :: uuid
  av_trade_plan_id :: "uuid option"
  av_execution_command_id :: "uuid option"
  av_position :: sdk_position
  av_state :: string
  av_asset_class :: "asset_class option"
  av_instrument_type :: "instrument_type option"
  av_quantity_unit :: "quantity_unit option"

record broker_fill =
  bf_account_id :: uuid
  bf_broker_order_id :: string
  bf_broker_fill_id :: string
  bf_quantity :: decimal
  bf_price :: decimal
  bf_revision :: int
  bf_observed_at :: timestamp

record recommendation_doc =
  rd_trade_plan_id :: "uuid option"
  rd_trade_id :: "uuid option"
  rd_action :: string
  rd_reason :: string
  rd_postcondition :: postcondition
  rd_execution_command_id :: "uuid option"

text \<open>
  The notification rows: a delivery channel and the owner's preferences as the routes store them, the
  notification, and the envelope of its delivery in the outbox.
\<close>

record channel_doc =
  hd_provider :: string
  hd_enabled :: "bool option"
  hd_credential_id :: "uuid option"
  hd_destination :: string

record preferences_doc =
  fd_in_app :: "bool option"
  fd_telegram :: "bool option"
  fd_pushover :: "bool option"
  fd_urgent_only_external :: "bool option"

record notification_doc =
  nd_kind :: string
  nd_urgency :: string
  nd_title :: string
  nd_message :: string
  nd_dedupe_key :: string
  nd_channel :: string
  nd_channel_id :: "uuid option"
  nd_command_id :: uuid
  nd_trade_plan_id :: uuid
  nd_account_id :: uuid
  nd_broker_order_id :: "string option"
  nd_instrument :: string
  nd_quantity :: decimal
  nd_price :: "decimal option"
  nd_stop_loss :: "decimal option"
  nd_take_profit :: "decimal option"
  nd_strategy_version_id :: uuid
  nd_broker_observed_at :: timestamp
  nd_delivery_state :: string
  nd_delivered_at :: "timestamp option"
  nd_delivery_receipts :: "(string \<times> string \<times> string option) list"
  nd_delivery_failures :: "(uuid \<times> string \<times> string) list"

record delivery_doc =
  dd_notification_id :: uuid
  dd_version :: int
  dd_channel :: string
  dd_state :: string
  dd_idempotency_key :: string

datatype document =
    AccountDoc account_doc
  | PolicyDoc policy_doc
  | InstrumentDoc instrument_doc
  | SnapshotDoc broker_snapshot
  | PermissionsDoc execution_permissions
  | KillSwitchDoc kill_switch
  | PlanDoc trade_plan
  | CommandDoc command_doc
  | ReconciliationDoc reconciliation_record
  | OrderDoc broker_order
  | FillDoc broker_fill
  | ActiveTradeDoc active_trade
  | RecommendationDoc recommendation_doc
  | ConnectionDoc connection_profile
  | CredentialDoc credential_doc
  | ChannelDoc channel_doc
  | PreferencesDoc preferences_doc
  | NotificationDoc notification_doc
  | DeliveryDoc delivery_doc

text \<open>
  What \<open>validate_executable_reference\<close> reads of a document: the top-level keys only.  The plan's typed
  identity is inside its construction, the active trade's model has no listing or specification key.
\<close>

definition untyped_ref :: typed_ref where
  "untyped_ref = \<lparr>tr_instrument_type = None, tr_venue = None, tr_specification = None, tr_unit = None,
     tr_contract = None\<rparr>"

definition identity_ref :: "typed_identity \<Rightarrow> typed_ref" where
  "identity_ref t =
     \<lparr>tr_instrument_type = map_option instrument_type_value (ty_instrument_type t),
      tr_venue = ty_venue_instrument_id t, tr_specification = ty_specification_version_id t,
      tr_unit = map_option quantity_unit_value (ty_quantity_unit t),
      tr_contract = ty_futures_contract_id t\<rparr>"

definition active_trade_ref :: "active_trade \<Rightarrow> typed_ref" where
  "active_trade_ref a =
     untyped_ref\<lparr>tr_instrument_type := map_option instrument_type_value (av_instrument_type a),
                 tr_unit := map_option quantity_unit_value (av_quantity_unit a)\<rparr>"

fun document_ref :: "document \<Rightarrow> typed_ref" where
  "document_ref (InstrumentDoc d) = in_typed d"
| "document_ref (OrderDoc d) = identity_ref (bo_typed d)"
| "document_ref (ActiveTradeDoc d) = active_trade_ref d"
| "document_ref _ = untyped_ref"

lemma untyped_ref_valid [simp]: "validate_executable_reference untyped_ref = Inr ()"
  by (simp add: validate_executable_reference_ok_iff untyped_ref_def)

section \<open>Reading a document as a model\<close>

fun as_account :: "document \<Rightarrow> account_doc res" where
  "as_account (AccountDoc d) = Inr d"
| "as_account _ = Inl (ValidationError ''account'')"

fun as_policy :: "document \<Rightarrow> policy_doc res" where
  "as_policy (PolicyDoc d) = Inr d"
| "as_policy _ = Inl (ValidationError ''policy'')"

fun as_instrument :: "document \<Rightarrow> instrument_doc res" where
  "as_instrument (InstrumentDoc d) = Inr d"
| "as_instrument _ = Inl (ValidationError ''instrument'')"

fun as_snapshot :: "document \<Rightarrow> broker_snapshot res" where
  "as_snapshot (SnapshotDoc d) = Inr d"
| "as_snapshot _ = Inl (ValidationError ''BrokerSnapshot'')"

fun as_permissions :: "document \<Rightarrow> execution_permissions res" where
  "as_permissions (PermissionsDoc d) = Inr d"
| "as_permissions _ = Inl (ValidationError ''ExecutionPermissionProfile'')"

fun as_kill_switch :: "document \<Rightarrow> kill_switch res" where
  "as_kill_switch (KillSwitchDoc d) = Inr d"
| "as_kill_switch _ = Inl (ValidationError ''KillSwitchState'')"

text \<open>\<open>TradePlan.model_validate\<close> checks the field constraints of the construction again.\<close>

fun as_plan :: "document \<Rightarrow> trade_plan res" where
  "as_plan (PlanDoc d) =
     (if construction_valid (tp_construction d) then Inr d else Inl (ValidationError ''TradePlan''))"
| "as_plan _ = Inl (ValidationError ''TradePlan'')"

fun as_command :: "document \<Rightarrow> command_doc res" where
  "as_command (CommandDoc d) = Inr d"
| "as_command _ = Inl (ValidationError ''ExecutionCommand'')"

fun as_connection :: "document \<Rightarrow> connection_profile res" where
  "as_connection (ConnectionDoc d) = Inr d"
| "as_connection _ = Inl (ValidationError ''ConnectionProfile'')"

fun as_credential :: "document \<Rightarrow> credential_doc res" where
  "as_credential (CredentialDoc d) = Inr d"
| "as_credential _ = Inl (KeyError ''envelope'')"

fun_cases as_snapshot_InrE: "as_snapshot d = Inr x"
fun_cases as_plan_InrE: "as_plan d = Inr x"
fun_cases as_command_InrE: "as_command d = Inr x"
fun_cases as_account_InrE: "as_account d = Inr x"
fun_cases as_instrument_InrE: "as_instrument d = Inr x"
fun_cases as_policy_InrE: "as_policy d = Inr x"

text \<open>Reading one key of a row that may hold another document: \<open>data.get(key)\<close>.\<close>

fun doc_account_id :: "document \<Rightarrow> uuid option" where
  "doc_account_id (SnapshotDoc d) = Some (sn_broker_account d)"
| "doc_account_id (PermissionsDoc d) = Some (pm_account_id d)"
| "doc_account_id (KillSwitchDoc d) = ks_account_id d"
| "doc_account_id (PolicyDoc d) = pd_account_id d"
| "doc_account_id (InstrumentDoc d) = in_account_id d"
| "doc_account_id (PlanDoc d) = Some (tp_account_id d)"
| "doc_account_id (CommandDoc d) = Some (cm_account_id (cd_command d))"
| "doc_account_id (ReconciliationDoc d) = Some (rn_account_id d)"
| "doc_account_id (OrderDoc d) = Some (bo_account_id d)"
| "doc_account_id (FillDoc d) = Some (bf_account_id d)"
| "doc_account_id _ = None"

section \<open>The tables of a transaction\<close>

record world =
  w_db :: "document database"
  w_reservations :: reservation_table

text \<open>The store operations of the path, on its documents.\<close>

definition w_create ::
    "uuid \<Rightarrow> timestamp \<Rightarrow> world \<Rightarrow> string \<Rightarrow> uuid \<Rightarrow> document \<Rightarrow> string \<Rightarrow> uuid option \<Rightarrow> uuid option \<Rightarrow>
     string option \<Rightarrow> (world \<times> document resource) res" where
  "w_create fresh now w kind owner data st record_id actor event =
     rbind (store_create document_ref fresh now (w_db w) kind owner data st record_id actor event)
       (\<lambda>(db, r). Inr (w\<lparr>w_db := db\<rparr>, r))"

definition w_update ::
    "timestamp \<Rightarrow> world \<Rightarrow> document resource \<Rightarrow> document \<Rightarrow> string \<Rightarrow> int option \<Rightarrow> uuid option \<Rightarrow> string \<Rightarrow>
     (string, string) dict option \<Rightarrow> (world \<times> document resource) res" where
  "w_update now w r data st expected actor event evidence =
     rbind (store_update document_ref now (w_db w) r (Some data) (Some st) expected actor (Some event)
              evidence) (\<lambda>(db, r'). Inr (w\<lparr>w_db := db\<rparr>, r'))"

section \<open>What a write does\<close>

lemma w_create_InrD:
  assumes "w_create fresh now w kind owner data st rid actor event = Inr (w', r)"
  shows "res_id r = (case rid of None \<Rightarrow> fresh | Some i \<Rightarrow> i)" "res_owner r = owner" "res_kind r = kind"
    and "res_state r = st" "res_version r = 1" "res_data r = data" "res_updated_at r = now"
    and "map_of (db_resources (w_db w)) (res_id r) = None"
    and "db_resources (w_db w') = AList.update (res_id r) r (db_resources (w_db w))"
    and "db_outbox (w_db w') = db_outbox (w_db w)" "w_reservations w' = w_reservations w"
    and "validate_executable_reference (document_ref data) = Inr ()"
proof -
  from assms obtain db where db: "store_create document_ref fresh now (w_db w) kind owner data st rid actor event
      = Inr (db, r)" and w': "w' = w\<lparr>w_db := db\<rparr>"
    by (auto simp: w_create_def)
  note D = store_create_InrD[OF db]
  show "res_id r = (case rid of None \<Rightarrow> fresh | Some i \<Rightarrow> i)" "res_owner r = owner" "res_kind r = kind"
    "res_state r = st" "res_version r = 1" "res_data r = data" "res_updated_at r = now"
    "map_of (db_resources (w_db w)) (res_id r) = None"
    "db_resources (w_db w') = AList.update (res_id r) r (db_resources (w_db w))"
    "db_outbox (w_db w') = db_outbox (w_db w)" "w_reservations w' = w_reservations w"
    "validate_executable_reference (document_ref data) = Inr ()"
    using D w' by simp_all
qed

lemma w_update_InrD:
  assumes "w_update now w r data st expected actor event ev = Inr (w', r')"
  shows "res_id r' = res_id r" "res_owner r' = res_owner r" "res_kind r' = res_kind r"
    and "res_version r' = res_version r + 1" "res_data r' = data" "res_state r' = st"
    and "res_updated_at r' = now"
    and "db_resources (w_db w') = AList.update (res_id r) r' (db_resources (w_db w))"
    and "db_outbox (w_db w') = db_outbox (w_db w)" "w_reservations w' = w_reservations w"
    and "expected = None \<or> expected = Some (res_version r)"
proof -
  from assms obtain db where db: "store_update document_ref now (w_db w) r (Some data) (Some st) expected
      actor (Some event) ev = Inr (db, r')" and w': "w' = w\<lparr>w_db := db\<rparr>"
    by (auto simp: w_update_def)
  note D = store_update_InrD[OF db]
  show "res_id r' = res_id r" "res_owner r' = res_owner r" "res_kind r' = res_kind r"
    "res_version r' = res_version r + 1" "res_data r' = data" "res_state r' = st" "res_updated_at r' = now"
    "db_resources (w_db w') = AList.update (res_id r) r' (db_resources (w_db w))"
    "db_outbox (w_db w') = db_outbox (w_db w)" "w_reservations w' = w_reservations w"
    using D w' by simp_all
  show "expected = None \<or> expected = Some (res_version r)"
    using db by (auto simp: store_update_def)
qed

text \<open>A write to one kind of rows leaves the rows of every other kind as they are.\<close>

definition same_rows :: "string \<Rightarrow> world \<Rightarrow> world \<Rightarrow> bool" where
  "same_rows kind w w' \<longleftrightarrow>
     (\<forall>owner del. store_list (w_db w') kind owner del = store_list (w_db w) kind owner del)
     \<and> (\<forall>i owner. store_get (w_db w') kind i owner = store_get (w_db w) kind i owner)"

lemma same_rows_refl [simp]: "same_rows kind w w"
  by (simp add: same_rows_def)

lemma same_rows_trans: "same_rows kind w w1 \<Longrightarrow> same_rows kind w1 w2 \<Longrightarrow> same_rows kind w w2"
  by (simp add: same_rows_def)

lemma filter_dvalues_update:
  assumes "\<not> p r" and "\<And>q. map_of d i = Some q \<Longrightarrow> \<not> p q"
  shows "filter p (dvalues (AList.update i r d)) = filter p (dvalues d)"
  using assms(2) by (induction d) (auto simp: dvalues_def assms(1))

lemma same_rows_write:
  assumes "db_resources (w_db w') = AList.update i r (db_resources (w_db w))" and "res_kind r \<noteq> kind"
    and "\<And>q. map_of (db_resources (w_db w)) i = Some q \<Longrightarrow> res_kind q \<noteq> kind"
  shows "same_rows kind w w'"
proof -
  have "store_list (w_db w') kind owner del = store_list (w_db w) kind owner del" for owner del
    unfolding store_list_def assms(1)
    by (subst filter_dvalues_update) (use assms(2,3) in auto)
  moreover have "store_get (w_db w') kind j owner = store_get (w_db w) kind j owner" for j owner
    using assms by (auto simp: store_get_def split: option.splits)
  ultimately show ?thesis by (simp add: same_rows_def)
qed

lemma dvalues_update_sub: "set (dvalues (AList.update k v d)) \<subseteq> insert v (set (dvalues d))"
  by (induction d) auto

lemma filter_write:
  assumes "db_resources (w_db w') = AList.update i r (db_resources (w_db w))"
    and "\<not> p r" and "\<And>q. map_of (db_resources (w_db w)) i = Some q \<Longrightarrow> \<not> p q"
  shows "filter p (dvalues (db_resources (w_db w'))) = filter p (dvalues (db_resources (w_db w)))"
  unfolding assms(1) by (rule filter_dvalues_update) (use assms(2,3) in auto)

lemma w_create_inv:
  assumes "w_create fresh now w kind owner data st rid actor event = Inr (w', r)" and "store_inv (w_db w)"
  shows "store_inv (w_db w')"
proof -
  from assms(1) obtain db where "store_create document_ref fresh now (w_db w) kind owner data st rid actor event
      = Inr (db, r)" "w' = w\<lparr>w_db := db\<rparr>" by (auto simp: w_create_def)
  then show ?thesis using store_create_inv[OF _ assms(2)] by simp
qed

lemma w_update_inv:
  assumes "w_update now w r data st ver actor event ev = Inr (w', r')" and "store_inv (w_db w)" and "1 \<le> res_version r"
  shows "store_inv (w_db w')"
proof -
  from assms(1) obtain db where "store_update document_ref now (w_db w) r (Some data) (Some st) ver
      actor (Some event) ev = Inr (db, r')" "w' = w\<lparr>w_db := db\<rparr>"
    by (auto simp: w_update_def)
  then show ?thesis using store_update_inv[OF _ assms(2,3)] by simp
qed

end
