(* ===== verification/LiveAuthority.thy ===== *)
theory LiveAuthority
  imports Documents
begin

text \<open>
  The authority a live risk decision rests on: \<open>modules/risk/authority.py\<close>, which builds the risk
  context from the persisted rows of the account, and \<open>load_live_trade_terms\<close> of
  \<open>modules/risk/live_terms.py\<close>, with the instrument specification of \<open>modules/market_data/models.py\<close>.

  The name-based UUID of a broker position (\<open>uuid5\<close>, a SHA-1 digest) is the parameter \<open>position_uuid\<close>.
\<close>

section \<open>Grouping by symbol\<close>

definition normalized_symbol :: "string \<Rightarrow> string" where
  "normalized_symbol s = str_remove (CHR ''-'') (str_upper s)"

definition market_category :: "string \<Rightarrow> string" where
  "market_category symbol =
     (let n = normalized_symbol symbol in
      if starts_with_any [''BTC'', ''ETH'', ''SOL'', ''XRP''] n then ''crypto''
      else if starts_with_any [''XAU'', ''XAG'', ''XPT'', ''XPD''] n then ''metals''
      else ''forex'')"

definition symbol_exposures :: "string \<Rightarrow> (string, decimal) dict" where
  "symbol_exposures symbol =
     (let n = normalized_symbol symbol in
      if 6 \<le> length n \<and> str_isalpha (take 6 n)
      then AList.update (take 3 (drop 3 n)) (- 1) [(take 3 n, 1)] else [])"

section \<open>Limits\<close>

definition constraint_kind_of :: "string \<Rightarrow> constraint_kind option" where
  "constraint_kind_of s =
     first_match (\<lambda>k. constraint_kind_value k = s)
       [MAX_RISK_PER_TRADE, MAX_DAILY_LOSS, MAX_TOTAL_DRAWDOWN, MAX_PORTFOLIO_RISK,
        MAX_CORRELATED_RISK, MAX_CONCURRENT_TRADES]"

definition enforcement_of :: "string option \<Rightarrow> enforcement option" where
  "enforcement_of s =
     (case s of None \<Rightarrow> Some HARD
      | Some t \<Rightarrow> if t = ''HARD'' then Some HARD else if t = ''SOFT'' then Some SOFT else None)"

definition or_text :: "string option \<Rightarrow> string \<Rightarrow> string" where
  "or_text s d = (if truthy s then the s else d)"

definition rule_constraint ::
    "string \<Rightarrow> document resource \<Rightarrow> policy_doc \<Rightarrow> policy_rule \<Rightarrow> effective_constraint res" where
  "rule_constraint tag r d rule =
     (case (constraint_kind_of (pl_kind rule), enforcement_of (pl_enforcement rule)) of
        (Some k, Some e) \<Rightarrow>
          Inr \<lparr>ec_kind = k, ec_value = pl_value rule,
               ec_source = tag @ '':'' @ (case pd_name d of None \<Rightarrow> res_id r | Some n \<Rightarrow> n),
               ec_source_version = int_str (res_version r),
               ec_reason = or_text (pl_reason rule) (or_text (pd_source_reference d) ''active policy''),
               ec_enforcement = e\<rparr>
      | _ \<Rightarrow> Inl (ValidationError ''EffectiveConstraint''))"

definition record_constraints ::
    "uuid \<Rightarrow> string \<Rightarrow> document resource \<Rightarrow> effective_constraint list \<Rightarrow> effective_constraint list res" where
  "record_constraints account tag r acc =
     (if res_state r \<noteq> ''ACTIVE'' then Inr acc
      else if doc_account_id (res_data r) \<notin> {None, Some account} then Inr acc
      else rbind (as_policy (res_data r)) (\<lambda>d.
           rbind (rmap (rule_constraint tag r d) (pd_rules d)) (\<lambda>cs. Inr (acc @ cs))))"

definition active_constraints :: "world \<Rightarrow> uuid \<Rightarrow> uuid \<Rightarrow> effective_constraint list res" where
  "active_constraints w owner account =
     rbind (rfold (record_constraints account ''prop'') (store_list (w_db w) ''prop_ruleset'' owner False) [])
       (rfold (record_constraints account ''internal'') (store_list (w_db w) ''guardrail'' owner False))"

definition values_of_kind :: "constraint_kind \<Rightarrow> effective_constraint list \<Rightarrow> decimal list" where
  "values_of_kind k cs = map ec_value (filter (\<lambda>c. ec_kind c = k) cs)"

definition concurrent_limit :: "effective_constraint list \<Rightarrow> int" where
  "concurrent_limit cs =
     (case map d_trunc (values_of_kind MAX_CONCURRENT_TRADES cs) of
        [] \<Rightarrow> 3 | v # vs \<Rightarrow> min_list1 v vs)"

definition correlated_limit :: "effective_constraint list \<Rightarrow> decimal option" where
  "correlated_limit cs =
     (case values_of_kind MAX_CORRELATED_RISK cs of [] \<Rightarrow> None | v # vs \<Rightarrow> Some (min_list1 v vs))"

text \<open>The groups are a set: they are listed here without repetition.\<close>

definition exposure_groups :: "candidate_trade \<Rightarrow> string list" where
  "exposure_groups c =
     remdups ((''category:'' @ ct_market_category c)
              # map (\<lambda>(k, _). ''currency:'' @ k) (ct_currency_exposures c))"

definition correlation_caps ::
    "effective_constraint list \<Rightarrow> candidate_trade \<Rightarrow> (string, decimal) dict" where
  "correlation_caps cs c =
     (case correlated_limit cs of
        None \<Rightarrow> []
      | Some l \<Rightarrow> map (\<lambda>g. (g, l)) (exposure_groups c))"

section \<open>Positions and specifications\<close>

definition open_risk :: "(string \<Rightarrow> uuid) \<Rightarrow> sdk_position \<Rightarrow> open_position_risk" where
  "open_risk position_uuid p =
     \<lparr>op_position_id = position_uuid (sp_position_id p), op_instrument = sp_symbol p,
      op_direction = sp_direction p, op_market_category = market_category (sp_symbol p),
      op_currency_exposures = symbol_exposures (sp_symbol p),
      op_remaining_loss_to_stop =
        (case sp_stop_loss p of
           None \<Rightarrow> None
         | Some s \<Rightarrow> if 0 < s then sp_loss_to_stop p else None),
      op_unrealized_pnl = sp_pnl p, op_underlying_id = None\<rparr>"

definition raw_specification :: "instrument_doc \<Rightarrow> spec_doc" where
  "raw_specification d = (case in_specification d of None \<Rightarrow> in_flat d | Some s \<Rightarrow> s)"

definition specification_id :: "instrument_doc \<Rightarrow> uuid option" where
  "specification_id d =
     (if truthy (sd_id (raw_specification d)) then sd_id (raw_specification d)
      else in_specification_version_id d)"

definition facts_of_spec :: "spec_doc \<Rightarrow> specification_facts" where
  "facts_of_spec raw =
     \<lparr>sf_freshness = (case sd_freshness raw of None \<Rightarrow> ''INVALID'' | Some f \<Rightarrow> f),
      sf_source_cut_id =
        or_text (sd_source_cut_id raw)
          (case map_of (sd_provenance raw) ''source_cut_id'' of None \<Rightarrow> '''' | Some s \<Rightarrow> s)\<rparr>"

record spec_scan =
  ss_specifications :: "(uuid, specification_facts) dict"
  ss_current_cut :: "string option"
  ss_latest :: "timestamp option"

definition scan_specification ::
    "candidate_trade \<Rightarrow> document resource \<Rightarrow> spec_scan \<Rightarrow> spec_scan res" where
  "scan_specification c r s =
     rbind (as_instrument (res_data r)) (\<lambda>d.
     let raw = raw_specification d in
     case specification_id d of
       None \<Rightarrow> Inr s
     | Some i \<Rightarrow>
         if id_text (sd_venue_instrument_id raw) \<noteq> id_text (ct_venue_instrument_id c) then Inr s
         else
           (let facts = facts_of_spec raw;
                s1 = s\<lparr>ss_specifications := AList.update i facts (ss_specifications s)\<rparr>
            in Inr (if sf_source_cut_id facts \<noteq> ''''
                       \<and> (case ss_latest s of None \<Rightarrow> True | Some t \<Rightarrow> t < res_updated_at r)
                    then s1\<lparr>ss_current_cut := Some (sf_source_cut_id facts),
                            ss_latest := Some (res_updated_at r)\<rparr>
                    else s1)))"

definition scan_specifications :: "world \<Rightarrow> uuid \<Rightarrow> candidate_trade \<Rightarrow> spec_scan res" where
  "scan_specifications w owner c =
     rfold (scan_specification c)
       (store_list (w_db w) ''instrument_specification'' owner False
        @ store_list (w_db w) ''typed_instrument'' owner False)
       \<lparr>ss_specifications = [], ss_current_cut = None, ss_latest = None\<rparr>"

section \<open>The risk context\<close>

definition account_snapshots :: "world \<Rightarrow> uuid \<Rightarrow> uuid \<Rightarrow> document resource list" where
  "account_snapshots w owner account =
     filter (\<lambda>r. doc_account_id (res_data r) = Some account)
       (store_list (w_db w) ''broker_snapshot'' owner False)"

definition snapshot_of_broker :: "uuid \<Rightarrow> decimal \<Rightarrow> string \<Rightarrow> broker_snapshot \<Rightarrow> account_snapshot res" where
  "snapshot_of_broker account starting source b =
     consistent_equity
       \<lparr>as_account_id = account, as_starting_balance = starting, as_current_balance = sn_balance b,
        as_current_equity = sn_equity b, as_floating_pnl = d_sub (sn_equity b) (sn_balance b),
        as_realized_daily_pnl = sn_realized_pnl b, as_observed_at = sn_snapshot_at b,
        as_source = source, as_source_version = ''sequence:'' @ int_str (sn_sequence b),
        as_cash_balances = []\<rparr>"

definition context_account ::
    "timestamp \<Rightarrow> world \<Rightarrow> uuid \<Rightarrow> uuid \<Rightarrow> (account_snapshot \<times> broker_snapshot) res" where
  "context_account now w owner account =
     rbind (required (store_get (w_db w) ''account'' account owner)
              (HTTPException 404 ''active account not found'')) (\<lambda>r.
          rbind (ensure (res_state r = ''ACTIVE'') (HTTPException 404 ''active account not found'')) (\<lambda>_.
          (case account_snapshots w owner account of
             [] \<Rightarrow> Inl (HTTPException 409 ''fresh broker equity snapshot required before risk evaluation'')
           | s # _ \<Rightarrow>
               rbind (as_snapshot (res_data s)) (\<lambda>b.
               rbind (as_account (res_data r)) (\<lambda>a.
               rbind (ensure (\<not> (truthy (sn_account_currency b)
                                 \<and> str_upper (the (sn_account_currency b))
                                     \<noteq> str_upper (or_text (ad_currency a) '''')))
                        (HTTPException 409
                           ''broker account currency differs from configured trading account currency'')) (\<lambda>_.
               rbind (required (ad_starting_balance a) (KeyError ''starting_balance'')) (\<lambda>starting.
               rbind (snapshot_of_broker account starting ''MT5_READ_ONLY_BRIDGE'' b) (\<lambda>snap.
               rbind (case validate_snapshot now snap account (seconds 30) of
                        Inl (ValueError e) \<Rightarrow> Inl (HTTPException 409 e)
                      | x \<Rightarrow> x) (\<lambda>_. Inr (snap, b))))))))))"

definition authoritative_risk_context ::
    "(string \<Rightarrow> uuid) \<Rightarrow> timestamp \<Rightarrow> world \<Rightarrow> uuid \<Rightarrow> uuid \<Rightarrow> candidate_trade \<Rightarrow> risk_context res" where
  "authoritative_risk_context position_uuid now w owner account candidate =
     rbind (context_account now w owner account) (\<lambda>(snap, b).
     rbind (active_constraints w owner account) (\<lambda>constraints.
     rbind (scan_specifications w owner candidate) (\<lambda>scan.
     rbind (ensure (0 \<le> concurrent_limit constraints) (ValidationError ''static_max_concurrent_trades'')) (\<lambda>_.
     Inr \<lparr>rc_account = snap, rc_constraints = constraints,
          rc_positions = map (open_risk position_uuid) (sn_positions b),
          rc_correlation_caps = correlation_caps constraints candidate,
          rc_static_max_concurrent_trades = concurrent_limit constraints,
          rc_include_unrealized_profit = False,
          rc_instrument_specifications = ss_specifications scan,
          rc_current_source_cut_id = ss_current_cut scan,
          rc_active_reservations = map rv_amount (active_rows owner account (w_reservations w)),
          rc_account_currency_verified = truthy (sn_account_currency b)\<rparr>))))"

section \<open>Live trade terms\<close>

text \<open>\<open>InstrumentSpecificationVersion.model_validate\<close>: required keys, defaults and the model validator.\<close>

record instrument_specification =
  is_id :: uuid
  is_venue_instrument_id :: uuid
  is_effective_from :: timestamp
  is_effective_to :: "timestamp option"
  is_price_currency :: string
  is_quantity_unit :: quantity_unit
  is_contract_multiplier :: decimal
  is_tick_size :: decimal
  is_tick_value :: "decimal option"
  is_quantity_minimum :: decimal
  is_quantity_maximum :: "decimal option"
  is_quantity_step :: decimal
  is_provenance :: "(string, string) dict"
  is_freshness :: string

definition or_default :: "'a option \<Rightarrow> 'a \<Rightarrow> 'a" where
  "or_default x d = (case x of None \<Rightarrow> d | Some v \<Rightarrow> v)"

definition valid_terms :: "instrument_specification \<Rightarrow> instrument_specification res" where
  "valid_terms s =
     rbind (ensure (\<not> (is_contract_multiplier s \<le> 0 \<or> is_tick_size s \<le> 0))
              (ValidationError ''contract multiplier and tick size must be positive'')) (\<lambda>_.
     rbind (ensure (\<not> (is_quantity_minimum s \<le> 0 \<or> is_quantity_step s \<le> 0))
              (ValidationError ''quantity bounds must be positive'')) (\<lambda>_.
     rbind (ensure (is_provenance s \<noteq> [])
              (ValidationError ''instrument specification provenance is required'')) (\<lambda>_.
     rbind (ensure (case is_effective_to s of None \<Rightarrow> True | Some t \<Rightarrow> is_effective_from s < t)
              (ValidationError ''specification effective_to must follow effective_from'')) (\<lambda>_.
     Inr s))))"

definition validate_specification :: "uuid \<Rightarrow> spec_doc \<Rightarrow> instrument_specification res" where
  "validate_specification fresh raw =
     (case (sd_venue_instrument_id raw, sd_effective_from raw, sd_price_currency raw,
            sd_quantity_unit raw) of
        (Some venue, Some from_, Some currency, Some unit) \<Rightarrow>
          valid_terms
            \<lparr>is_id = or_default (sd_id raw) fresh, is_venue_instrument_id = venue,
             is_effective_from = from_, is_effective_to = sd_effective_to raw,
             is_price_currency = currency, is_quantity_unit = unit,
             is_contract_multiplier = or_default (sd_contract_multiplier raw) 1,
             is_tick_size = or_default (sd_tick_size raw) (1 / 100000),
             is_tick_value = sd_tick_value raw,
             is_quantity_minimum = or_default (sd_quantity_minimum raw) (1 / 100),
             is_quantity_maximum = sd_quantity_maximum raw,
             is_quantity_step = or_default (sd_quantity_step raw) (1 / 100),
             is_provenance = sd_provenance raw,
             is_freshness = or_default (sd_freshness raw) ''VALID''\<rparr>
      | _ \<Rightarrow> Inl (ValidationError ''InstrumentSpecificationVersion''))"

definition terms_of_record ::
    "uuid \<Rightarrow> string \<Rightarrow> uuid \<Rightarrow> instrument_type \<Rightarrow> instrument_doc \<Rightarrow> spec_doc \<Rightarrow> live_trade_terms res" where
  "terms_of_record fresh account_currency venue ty d raw =
     rbind (validate_specification fresh raw) (\<lambda>s.
     rbind (ensure (\<not> (is_venue_instrument_id s \<noteq> venue
                       \<or> Some (quantity_unit_value (is_quantity_unit s)) \<noteq> in_quantity_unit d
                       \<or> \<not> in_listing_executable d
                       \<or> is_freshness s \<noteq> ''VALID''))
              (ValueError ''current executable broker specification is required'')) (\<lambda>_.
     rbind (ensure (\<not> (ty = CFD
                       \<and> map_of (is_provenance s) ''execution_authority'' \<noteq> Some ''MT5_BROKER''))
              (ValueError ''broker-native CFD terms are required; research proxies cannot size trades'')) (\<lambda>_.
     rbind (ensure (str_upper (is_price_currency s) = account_currency)
              (ValueError ''verified account-currency conversion is unavailable for this instrument'')) (\<lambda>_.
     case is_quantity_maximum s of
       None \<Rightarrow> Inl (ValueError ''broker maximum volume is required'')
     | Some q \<Rightarrow>
         rbind (ensure (\<not> q < is_quantity_minimum s) (ValueError ''invalid broker volume bounds'')) (\<lambda>_.
         Inr \<lparr>lt_account_currency = account_currency,
              lt_price_currency = str_upper (is_price_currency s),
              lt_quantity_unit = is_quantity_unit s,
              lt_contract_multiplier = is_contract_multiplier s,
              lt_tick_size = is_tick_size s, lt_tick_value = is_tick_value s,
              lt_quantity_minimum = is_quantity_minimum s, lt_quantity_maximum = q,
              lt_quantity_step = is_quantity_step s,
              lt_specification_version_id = is_id s\<rparr>)))))"

fun scan_terms ::
    "uuid \<Rightarrow> uuid \<Rightarrow> string \<Rightarrow> uuid \<Rightarrow> uuid \<Rightarrow> instrument_type \<Rightarrow> document resource list \<Rightarrow>
     live_trade_terms res" where
  "scan_terms fresh account account_currency venue spec ty [] =
     Inl (ValueError ''current account-scoped broker specification is required'')"
| "scan_terms fresh account account_currency venue spec ty (r # rs) =
     (if res_state r = ''DELETED'' \<or> doc_account_id (res_data r) \<noteq> Some account
      then scan_terms fresh account account_currency venue spec ty rs
      else rbind (as_instrument (res_data r)) (\<lambda>d.
        if in_specification_version_id d \<noteq> Some spec
        then scan_terms fresh account account_currency venue spec ty rs
        else case in_specification d of
               None \<Rightarrow> scan_terms fresh account account_currency venue spec ty rs
             | Some raw \<Rightarrow> terms_of_record fresh account_currency venue ty d raw))"

definition load_live_trade_terms ::
    "uuid \<Rightarrow> world \<Rightarrow> uuid \<Rightarrow> uuid \<Rightarrow> uuid \<Rightarrow> uuid \<Rightarrow> instrument_type \<Rightarrow> live_trade_terms res" where
  "load_live_trade_terms fresh w owner account venue spec ty =
     rbind (required (store_get (w_db w) ''account'' account owner)
              (ValueError ''active trading account is required'')) (\<lambda>r.
          rbind (ensure (res_state r = ''ACTIVE'') (ValueError ''active trading account is required'')) (\<lambda>_.
          rbind (as_account (res_data r)) (\<lambda>a.
          let account_currency = str_upper (or_text (ad_currency a) '''') in
          rbind (ensure (\<not> (length account_currency \<noteq> 3 \<or> \<not> str_isalpha account_currency))
                   (ValueError ''verified three-letter account currency is required'')) (\<lambda>_.
          scan_terms fresh account account_currency venue spec ty
            (store_list (w_db w) ''typed_instrument'' owner False)))))"

section \<open>Lemmas\<close>

definition rule_applies :: "uuid \<Rightarrow> document resource \<Rightarrow> bool" where
  "rule_applies account r \<longleftrightarrow>
     res_state r = ''ACTIVE'' \<and> doc_account_id (res_data r) \<in> {None, Some account}"

text \<open>The constraint a rule of a row gives, if the row applies.\<close>

definition gives :: "uuid \<Rightarrow> string \<Rightarrow> document resource \<Rightarrow> policy_rule \<Rightarrow> effective_constraint \<Rightarrow> bool" where
  "gives account tag r rule c \<longleftrightarrow> rule_applies account r
     \<and> (\<exists>d. res_data r = PolicyDoc d \<and> rule \<in> set (pd_rules d) \<and> rule_constraint tag r d rule = Inr c)"

lemma record_constraints_Inr:
  assumes "record_constraints account tag r acc = Inr acc'"
  shows "set acc' = set acc \<union> {c. \<exists>rule. gives account tag r rule c}"
    and "\<And>d rule. rule_applies account r \<Longrightarrow> res_data r = PolicyDoc d \<Longrightarrow> rule \<in> set (pd_rules d) \<Longrightarrow>
           \<exists>c. gives account tag r rule c"
proof -
  show "set acc' = set acc \<union> {c. \<exists>rule. gives account tag r rule c}"
  proof (cases "rule_applies account r")
    case False
    with assms show ?thesis
      by (auto simp: record_constraints_def gives_def rule_applies_def split: if_splits)
  next
    case True
    with assms obtain d cs where d: "as_policy (res_data r) = Inr d"
      and cs: "rmap (rule_constraint tag r d) (pd_rules d) = Inr cs" and "acc' = acc @ cs"
      by (auto simp: record_constraints_def rule_applies_def split: if_splits)
    with True show ?thesis
      using rmap_Inr_set(1)[OF cs] as_policy_InrE[OF d] by (auto simp: gives_def)
  qed
next
  fix d rule assume ap: "rule_applies account r" and d: "res_data r = PolicyDoc d" "rule \<in> set (pd_rules d)"
  with assms obtain cs where "rmap (rule_constraint tag r d) (pd_rules d) = Inr cs"
    by (auto simp: record_constraints_def rule_applies_def)
  from rmap_Inr_set(2)[OF this] ap d show "\<exists>c. gives account tag r rule c"
    by (auto simp: gives_def)
qed

lemma rfold_record_constraints:
  assumes "rfold (record_constraints account tag) rs acc = Inr out"
  shows "set out = set acc \<union> {c. \<exists>r \<in> set rs. \<exists>rule. gives account tag r rule c}"
    and "\<And>r d rule. r \<in> set rs \<Longrightarrow> rule_applies account r \<Longrightarrow> res_data r = PolicyDoc d \<Longrightarrow>
           rule \<in> set (pd_rules d) \<Longrightarrow> \<exists>c. gives account tag r rule c"
proof -
  have "set out = set acc \<union> {c. \<exists>r \<in> set rs. \<exists>rule. gives account tag r rule c}
     \<and> (\<forall>r \<in> set rs. \<forall>d rule. rule_applies account r \<longrightarrow> res_data r = PolicyDoc d \<longrightarrow>
           rule \<in> set (pd_rules d) \<longrightarrow> (\<exists>c. gives account tag r rule c))"
    using assms
  proof (induction rs arbitrary: acc)
    case (Cons r rs)
    then obtain a where a: "record_constraints account tag r acc = Inr a"
      and out: "rfold (record_constraints account tag) rs a = Inr out" by auto
    from Cons.IH[OF out] record_constraints_Inr[OF a] show ?case by (auto 4 4)
  qed simp
  then show "set out = set acc \<union> {c. \<exists>r \<in> set rs. \<exists>rule. gives account tag r rule c}"
    and "\<And>r d rule. r \<in> set rs \<Longrightarrow> rule_applies account r \<Longrightarrow> res_data r = PolicyDoc d \<Longrightarrow>
           rule \<in> set (pd_rules d) \<Longrightarrow> \<exists>c. gives account tag r rule c"
    by blast+
qed

text \<open>The rows of the two policy tables an owner has.\<close>

definition policy_rows :: "world \<Rightarrow> uuid \<Rightarrow> (string \<times> document resource) list" where
  "policy_rows w owner =
     map (Pair ''prop'') (store_list (w_db w) ''prop_ruleset'' owner False)
     @ map (Pair ''internal'') (store_list (w_db w) ''guardrail'' owner False)"

lemma active_constraints_Inr:
  assumes "active_constraints w owner account = Inr cs"
  shows "set cs = {c. \<exists>(tag, r) \<in> set (policy_rows w owner). \<exists>rule. gives account tag r rule c}"
    and "\<And>tag r d rule. (tag, r) \<in> set (policy_rows w owner) \<Longrightarrow> rule_applies account r \<Longrightarrow>
           res_data r = PolicyDoc d \<Longrightarrow> rule \<in> set (pd_rules d) \<Longrightarrow> \<exists>c. gives account tag r rule c"
proof -
  from assms obtain a where a:
      "rfold (record_constraints account ''prop'') (store_list (w_db w) ''prop_ruleset'' owner False) []
        = Inr a"
    and cs: "rfold (record_constraints account ''internal'')
        (store_list (w_db w) ''guardrail'' owner False) a = Inr cs"
    by (auto simp: active_constraints_def)
  from rfold_record_constraints(1)[OF a] rfold_record_constraints(1)[OF cs]
  show "set cs = {c. \<exists>(tag, r) \<in> set (policy_rows w owner). \<exists>rule. gives account tag r rule c}"
    by (auto simp: policy_rows_def)
  show "\<exists>c. gives account tag r rule c"
    if "(tag, r) \<in> set (policy_rows w owner)" "rule_applies account r" "res_data r = PolicyDoc d"
      "rule \<in> set (pd_rules d)" for tag r d rule
    using that rfold_record_constraints(2)[OF a] rfold_record_constraints(2)[OF cs]
    unfolding policy_rows_def by fastforce
qed

lemma constraint_kind_of_value [simp]: "constraint_kind_of (constraint_kind_value k) = Some k"
  by (cases k) (simp_all add: constraint_kind_of_def first_match_def)

lemma constraint_kind_of_Some: "constraint_kind_of s = Some k \<Longrightarrow> s = constraint_kind_value k"
  unfolding constraint_kind_of_def by (simp only: first_match_simps split: if_splits) blast+

lemma rule_constraint_Inr:
  assumes "rule_constraint tag r d rule = Inr c"
  shows "pl_kind rule = constraint_kind_value (ec_kind c)" and "ec_value c = pl_value rule"
    and "enforcement_of (pl_enforcement rule) = Some (ec_enforcement c)"
  using assms constraint_kind_of_Some[of "pl_kind rule"]
  by (auto simp: rule_constraint_def split: option.splits)

text \<open>What a built context rests on.\<close>

lemma context_account_Inr:
  assumes "context_account now w owner account = Inr (snap, b)"
  obtains r s a where "store_get (w_db w) ''account'' account owner = Some r" "res_state r = ''ACTIVE''"
    "res_data r = AccountDoc a" "hd (account_snapshots w owner account) = s"
    "account_snapshots w owner account \<noteq> []" "res_data s = SnapshotDoc b"
    "truthy (sn_account_currency b) \<Longrightarrow>
       str_upper (the (sn_account_currency b)) = str_upper (or_text (ad_currency a) '''')"
    "ad_starting_balance a = Some (as_starting_balance snap)"
    "as_account_id snap = account" "as_current_equity snap = sn_equity b"
    "as_current_balance snap = sn_balance b" "as_observed_at snap = sn_snapshot_at b"
    "as_realized_daily_pnl snap = sn_realized_pnl b"
    "now - sn_snapshot_at b \<le> seconds 30" "0 < sn_equity b"
proof -
  from assms obtain r where r: "store_get (w_db w) ''account'' account owner = Some r"
    by (auto simp: context_account_def)
  moreover have "account_snapshots w owner account \<noteq> []"
    using assms r by (auto simp: context_account_def)
  ultimately obtain s ss where s: "account_snapshots w owner account = s # ss"
    by (cases "account_snapshots w owner account") auto
  from assms r s obtain a starting u where
    st: "res_state r = ''ACTIVE''" and b: "as_snapshot (res_data s) = Inr b"
    and a: "as_account (res_data r) = Inr a"
    and cur: "\<not> (truthy (sn_account_currency b)
        \<and> str_upper (the (sn_account_currency b)) \<noteq> str_upper (or_text (ad_currency a) ''''))"
    and start: "ad_starting_balance a = Some starting"
    and snap: "snapshot_of_broker account starting ''MT5_READ_ONLY_BRIDGE'' b = Inr snap"
    and val: "(case validate_snapshot now snap account (seconds 30) of
                 Inl (ValueError e) \<Rightarrow> Inl (HTTPException 409 e) | x \<Rightarrow> x) = Inr u"
    by (auto simp: context_account_def simp del: disj_not1)
  from val have v: "validate_snapshot now snap account (seconds 30) = Inr ()"
    by (auto split: sum.splits py_error.splits)
  from snap have f: "as_starting_balance snap = starting" "as_account_id snap = account"
      "as_current_equity snap = sn_equity b" "as_current_balance snap = sn_balance b"
      "as_observed_at snap = sn_snapshot_at b" "as_realized_daily_pnl snap = sn_realized_pnl b"
    by (auto simp: snapshot_of_broker_def consistent_equity_def Let_def)
  show ?thesis
    using that[of r a s] r st s a b cur start f v as_snapshot_InrE[OF b] as_account_InrE[OF a]
    by (auto simp: validate_snapshot_ok_iff)
qed

lemma authoritative_risk_context_Inr:
  assumes "authoritative_risk_context pu now w owner account c = Inr ctx"
  obtains b where "context_account now w owner account = Inr (rc_account ctx, b)"
    "active_constraints w owner account = Inr (rc_constraints ctx)"
    "rc_positions ctx = map (open_risk pu) (sn_positions b)"
    "rc_active_reservations ctx = map rv_amount (active_rows owner account (w_reservations w))"
    "rc_account_currency_verified ctx = truthy (sn_account_currency b)"
    "rc_correlation_caps ctx = correlation_caps (rc_constraints ctx) c"
    "rc_static_max_concurrent_trades ctx = concurrent_limit (rc_constraints ctx)"
  using assms by (auto simp: authoritative_risk_context_def)

lemma valid_terms_Inr:
  "valid_terms s = Inr s' \<longleftrightarrow> s' = s \<and> 0 < is_contract_multiplier s \<and> 0 < is_tick_size s
     \<and> 0 < is_quantity_minimum s \<and> 0 < is_quantity_step s \<and> is_provenance s \<noteq> []
     \<and> (\<forall>t. is_effective_to s = Some t \<longrightarrow> is_effective_from s < t)"
  by (auto simp: valid_terms_def rbind_eq_Inr_iff split: option.splits)

text \<open>The terms a specification with positive bounds gives.\<close>

definition terms_valid :: "live_trade_terms \<Rightarrow> bool" where
  "terms_valid t \<longleftrightarrow>
     0 < lt_contract_multiplier t \<and> 0 < lt_tick_size t \<and> 0 < lt_quantity_step t
     \<and> 0 < lt_quantity_minimum t \<and> lt_quantity_minimum t \<le> lt_quantity_maximum t
     \<and> lt_price_currency t = lt_account_currency t"

lemma validate_specification_Inr:
  assumes "validate_specification fresh raw = Inr s"
  shows "sd_venue_instrument_id raw = Some (is_venue_instrument_id s)"
    and "is_provenance s = sd_provenance raw"
    and "is_freshness s = or_default (sd_freshness raw) ''VALID''"
    and "0 < is_contract_multiplier s" "0 < is_tick_size s" "0 < is_quantity_minimum s"
    and "0 < is_quantity_step s"
  using assms by (auto simp: validate_specification_def valid_terms_Inr split: option.splits)

lemma terms_of_record_Inr:
  assumes "terms_of_record fresh cur venue ty d raw = Inr t"
  shows "terms_valid t" and "lt_account_currency t = cur" and "sd_venue_instrument_id raw = Some venue"
    and "in_listing_executable d" and "or_default (sd_freshness raw) ''VALID'' = ''VALID''"
    and "in_quantity_unit d = Some (quantity_unit_value (lt_quantity_unit t))"
    and "ty = CFD \<Longrightarrow> map_of (sd_provenance raw) ''execution_authority'' = Some ''MT5_BROKER''"
proof -
  from assms obtain s q where s: "validate_specification fresh raw = Inr s"
    and g: "is_venue_instrument_id s = venue" "in_listing_executable d" "is_freshness s = ''VALID''"
      "Some (quantity_unit_value (is_quantity_unit s)) = in_quantity_unit d"
      "ty = CFD \<longrightarrow> map_of (is_provenance s) ''execution_authority'' = Some ''MT5_BROKER''"
      "str_upper (is_price_currency s) = cur" "is_quantity_maximum s = Some q"
      "\<not> q < is_quantity_minimum s"
    and t: "lt_account_currency t = cur" "lt_price_currency t = str_upper (is_price_currency s)"
      "lt_quantity_unit t = is_quantity_unit s" "lt_contract_multiplier t = is_contract_multiplier s"
      "lt_tick_size t = is_tick_size s" "lt_quantity_minimum t = is_quantity_minimum s"
      "lt_quantity_maximum t = q" "lt_quantity_step t = is_quantity_step s"
    by (auto simp: terms_of_record_def split: option.splits)
  note v = validate_specification_Inr[OF s]
  show "terms_valid t" using v t g by (auto simp: terms_valid_def)
  show "lt_account_currency t = cur" "sd_venue_instrument_id raw = Some venue" "in_listing_executable d"
    "or_default (sd_freshness raw) ''VALID'' = ''VALID''"
    "in_quantity_unit d = Some (quantity_unit_value (lt_quantity_unit t))"
    using v t g by auto
  show "ty = CFD \<Longrightarrow> map_of (sd_provenance raw) ''execution_authority'' = Some ''MT5_BROKER''"
    using v g by simp
qed

text \<open>What the listing row of live terms says.\<close>

definition verified_listing ::
    "uuid \<Rightarrow> uuid \<Rightarrow> uuid \<Rightarrow> instrument_type \<Rightarrow> live_trade_terms \<Rightarrow> document resource \<Rightarrow> bool" where
  "verified_listing account venue spec ty t r \<longleftrightarrow>
     res_state r \<noteq> ''DELETED'' \<and>
     (\<exists>d raw. res_data r = InstrumentDoc d \<and> in_account_id d = Some account
        \<and> in_specification_version_id d = Some spec \<and> in_listing_executable d
        \<and> in_quantity_unit d = Some (quantity_unit_value (lt_quantity_unit t))
        \<and> in_specification d = Some raw \<and> sd_venue_instrument_id raw = Some venue
        \<and> or_default (sd_freshness raw) ''VALID'' = ''VALID''
        \<and> (ty = CFD \<longrightarrow> map_of (sd_provenance raw) ''execution_authority'' = Some ''MT5_BROKER''))"

lemma scan_terms_Inr:
  assumes "scan_terms fresh account cur venue spec ty rs = Inr t"
  shows "terms_valid t \<and> lt_account_currency t = cur \<and> (\<exists>r \<in> set rs. verified_listing account venue spec ty t r)"
  using assms
proof (induction rs)
  case (Cons r rs)
  then consider (later) "scan_terms fresh account cur venue spec ty rs = Inr t"
    | (here) d raw where "res_state r \<noteq> ''DELETED''" "doc_account_id (res_data r) = Some account"
        "as_instrument (res_data r) = Inr d" "in_specification_version_id d = Some spec"
        "in_specification d = Some raw" "terms_of_record fresh cur venue ty d raw = Inr t"
    by (auto split: if_splits option.splits)
  then show ?case
  proof cases
    case later
    with Cons.IH show ?thesis by auto
  next
    case here
    note t = terms_of_record_Inr[OF here(6)]
    from here have "res_data r = InstrumentDoc d" by (auto elim: as_instrument_InrE)
    with here t have "verified_listing account venue spec ty t r" by (auto simp: verified_listing_def)
    with t show ?thesis by auto
  qed
qed simp

lemma risk_context_frame:
  assumes "\<And>kind. kind \<in> {''account'', ''broker_snapshot'', ''prop_ruleset'', ''guardrail'',
      ''instrument_specification'', ''typed_instrument''} \<Longrightarrow> same_rows kind w w'"
    and "w_reservations w' = w_reservations w"
  shows "authoritative_risk_context pu now w' owner account c = authoritative_risk_context pu now w owner account c"
    and "account_snapshots w' owner account = account_snapshots w owner account"
    and "load_live_trade_terms fresh w' owner account venue spec ty
       = load_live_trade_terms fresh w owner account venue spec ty"
  using assms(1)[of "''account''"] assms(1)[of "''broker_snapshot''"] assms(1)[of "''prop_ruleset''"]
    assms(1)[of "''guardrail''"] assms(1)[of "''instrument_specification''"]
    assms(1)[of "''typed_instrument''"] assms(2)
  by (simp_all add: authoritative_risk_context_def context_account_def account_snapshots_def
      active_constraints_def scan_specifications_def load_live_trade_terms_def same_rows_def)

section \<open>Properties\<close>

text \<open>Live terms are verified terms of the account: a result comes from a listing row of the
  account and of the pinned specification that is executable and currently valid, for a CFD one whose
  terms come from the broker itself; its bounds are positive and ordered, and its price currency is
  the account's three-letter currency, so no conversion rate is assumed.\<close>
theorem live_terms_verified:
  assumes "load_live_trade_terms fresh w owner account venue spec ty = Inr t"
  shows "terms_valid t \<and> length (lt_account_currency t) = 3
    \<and> (\<exists>r a. store_get (w_db w) ''account'' account owner = Some r \<and> res_state r = ''ACTIVE''
         \<and> res_data r = AccountDoc a
         \<and> lt_account_currency t = str_upper (or_text (ad_currency a) ''''))
    \<and> (\<exists>r \<in> set (store_list (w_db w) ''typed_instrument'' owner False).
         verified_listing account venue spec ty t r)"
proof -
  from assms obtain r a where "store_get (w_db w) ''account'' account owner = Some r"
      "res_state r = ''ACTIVE''" "as_account (res_data r) = Inr a"
      "length (str_upper (or_text (ad_currency a) '''')) = 3"
    and s: "scan_terms fresh account (str_upper (or_text (ad_currency a) '''')) venue spec ty
        (store_list (w_db w) ''typed_instrument'' owner False) = Inr t"
    by (auto simp: load_live_trade_terms_def Let_def)
  moreover from this have "res_data r = AccountDoc a" by (auto elim: as_account_InrE)
  ultimately show ?thesis using scan_terms_Inr[OF s] by auto
qed


text \<open>No configured limit is lost: every rule of every active ruleset and guardrail of the owner
  that is global or of this account is among the constraints, with its own value and enforcement, and
  every constraint comes from such a rule; a rule that cannot be read stops the evaluation instead.\<close>
theorem policy_rules_all_applied:
  assumes "authoritative_risk_context pu now w owner account c = Inr ctx"
  shows "(\<forall>(tag, r) \<in> set (policy_rows w owner). \<forall>d. \<forall>rule \<in> set (pd_rules d).
       rule_applies account r \<and> res_data r = PolicyDoc d \<longrightarrow>
       (\<exists>e \<in> set (rc_constraints ctx). pl_kind rule = constraint_kind_value (ec_kind e)
          \<and> ec_value e = pl_value rule \<and> enforcement_of (pl_enforcement rule) = Some (ec_enforcement e)))
    \<and> (\<forall>e \<in> set (rc_constraints ctx). \<exists>(tag, r) \<in> set (policy_rows w owner). \<exists>d. \<exists>rule \<in> set (pd_rules d).
       rule_applies account r \<and> res_data r = PolicyDoc d
       \<and> pl_kind rule = constraint_kind_value (ec_kind e) \<and> ec_value e = pl_value rule)"
proof -
  have cs: "active_constraints w owner account = Inr (rc_constraints ctx)"
    using assms by (rule authoritative_risk_context_Inr)
  note all = active_constraints_Inr[OF cs]
  have "\<exists>e \<in> set (rc_constraints ctx). pl_kind rule = constraint_kind_value (ec_kind e)
          \<and> ec_value e = pl_value rule \<and> enforcement_of (pl_enforcement rule) = Some (ec_enforcement e)"
    if "(tag, r) \<in> set (policy_rows w owner)" "rule \<in> set (pd_rules d)" "rule_applies account r"
      "res_data r = PolicyDoc d" for tag r d rule
  proof -
    from all(2)[OF that(1,3,4,2)] obtain e where e: "gives account tag r rule e" by blast
    with all(1) that(1) have "e \<in> set (rc_constraints ctx)" by auto
    with e rule_constraint_Inr show ?thesis by (auto simp: gives_def that(4))
  qed
  moreover have "\<exists>(tag, r) \<in> set (policy_rows w owner). \<exists>d. \<exists>rule \<in> set (pd_rules d).
       rule_applies account r \<and> res_data r = PolicyDoc d
       \<and> pl_kind rule = constraint_kind_value (ec_kind e) \<and> ec_value e = pl_value rule"
    if "e \<in> set (rc_constraints ctx)" for e
    using that all(1) rule_constraint_Inr(1,2) unfolding gives_def by fastforce
  ultimately show ?thesis by auto
qed

section \<open>Witnesses\<close>

definition demo_doc_row :: "uuid \<Rightarrow> string \<Rightarrow> document \<Rightarrow> uuid \<times> document resource" where
  "demo_doc_row i kind d = (i, \<lparr>res_id = i, res_owner = ''u'', res_kind = kind, res_state = ''ACTIVE'',
     res_version = 1, res_data = d, res_created_at = 0, res_updated_at = 0\<rparr>)"

definition demo_rule :: "string \<Rightarrow> decimal \<Rightarrow> policy_rule" where
  "demo_rule k v = \<lparr>pl_kind = k, pl_value = v, pl_reason = None, pl_enforcement = None\<rparr>"

definition demo_spec :: spec_doc where
  "demo_spec = \<lparr>sd_id = Some ''spec'', sd_venue_instrument_id = Some ''v'', sd_freshness = Some ''VALID'',
     sd_source_cut_id = Some ''cut'', sd_provenance = [(''execution_authority'', ''MT5_BROKER'')],
     sd_effective_from = Some 0, sd_effective_to = None, sd_price_currency = Some ''USD'',
     sd_quantity_unit = Some LOTS, sd_contract_multiplier = Some 1000, sd_tick_size = None,
     sd_tick_value = None, sd_quantity_minimum = None, sd_quantity_maximum = Some 5,
     sd_quantity_step = None, sd_margin_required = None, sd_financing_cost = None\<rparr>"

definition demo_instrument :: instrument_doc where
  "demo_instrument = \<lparr>in_account_id = Some ''a'', in_specification_version_id = Some ''spec'',
     in_quantity_unit = Some ''LOTS'', in_listing_executable = True, in_specification = Some demo_spec,
     in_flat = demo_spec, in_typed = untyped_ref\<rparr>"

definition demo_snapshot :: broker_snapshot where
  "demo_snapshot = \<lparr>sn_message_id = ''m'', sn_broker_account = ''a'', sn_sequence = 1, sn_snapshot_at = 0,
     sn_balance = 10000, sn_equity = 10000, sn_realized_pnl = 0, sn_account_currency = Some ''USD'',
     sn_positions = [], sn_orders = [], sn_fills = []\<rparr>"

definition demo_policy :: policy_doc where
  "demo_policy = \<lparr>pd_account_id = None, pd_name = Some ''g'', pd_source_reference = None,
     pd_rules = [demo_rule ''MAX_TOTAL_DRAWDOWN'' 1000, demo_rule ''MAX_DAILY_LOSS'' 500,
       demo_rule ''MAX_PORTFOLIO_RISK'' 200, demo_rule ''MAX_RISK_PER_TRADE'' 100]\<rparr>"

definition demo_envelope :: envelope where
  "demo_envelope = envelope_encrypt demo_aead ''kek'' ''v1'' (''d'', ''n'', ''w'') ''u'' ''s''"

definition demo_rows :: "(uuid, document resource) dict" where
  "demo_rows =
     [demo_doc_row ''a'' ''account'' (AccountDoc \<lparr>ad_currency = Some ''usd'', ad_starting_balance = Some 10000\<rparr>),
      demo_doc_row ''snap'' ''broker_snapshot'' (SnapshotDoc demo_snapshot),
      demo_doc_row ''g'' ''guardrail'' (PolicyDoc demo_policy),
      demo_doc_row ''i'' ''typed_instrument'' (InstrumentDoc demo_instrument),
      demo_doc_row ''pm'' ''execution_permission_profile'' (PermissionsDoc demo_permissions),
      demo_doc_row ''bridge'' ''connection'' (ConnectionDoc (demo_profile ''http://LocalHost:9000'')),
      demo_doc_row ''c'' ''credential'' (CredentialDoc \<lparr>cr_provider = ''MT5_BRIDGE'', cr_envelope = demo_envelope\<rparr>)]"

definition demo_world :: world where
  "demo_world = \<lparr>w_db = \<lparr>db_resources = demo_rows, db_audit = [], db_outbox = []\<rparr>, w_reservations = []\<rparr>"

lemmas demo_world_run = demo_world_def demo_rows_def demo_doc_row_def demo_rule_def demo_spec_def
  demo_instrument_def demo_snapshot_def demo_policy_def

lemma demo_lists:
  "store_list (w_db demo_world) ''typed_instrument'' ''u'' False
     = [snd (demo_doc_row ''i'' ''typed_instrument'' (InstrumentDoc demo_instrument))]"
  "store_list (w_db demo_world) ''instrument_specification'' ''u'' False = []"
  "store_list (w_db demo_world) ''prop_ruleset'' ''u'' False = []"
  "store_list (w_db demo_world) ''guardrail'' ''u'' False
     = [snd (demo_doc_row ''g'' ''guardrail'' (PolicyDoc demo_policy))]"
  "store_list (w_db demo_world) ''broker_snapshot'' ''u'' False
     = [snd (demo_doc_row ''snap'' ''broker_snapshot'' (SnapshotDoc demo_snapshot))]"
  "store_list (w_db demo_world) ''execution_permission_profile'' ''u'' False
     = [snd (demo_doc_row ''pm'' ''execution_permission_profile'' (PermissionsDoc demo_permissions))]"
  "store_list (w_db demo_world) ''execution_command'' ''u'' False = []"
  by (simp_all add: store_list_def demo_world_def demo_rows_def demo_doc_row_def)

lemma demo_account:
  "store_get (w_db demo_world) ''account'' ''a'' ''u'' =
     Some (snd (demo_doc_row ''a'' ''account''
       (AccountDoc \<lparr>ad_currency = Some ''usd'', ad_starting_balance = Some 10000\<rparr>)))"
  by (simp add: store_get_def demo_world_def demo_rows_def demo_doc_row_def)

lemma usd_upper [simp]: "str_upper ''usd'' = ''USD''" "str_upper ''USD'' = ''USD''"
  "str_isalpha ''USD''"
  by code_simp+

lemma int_str_1 [simp]: "int_str 1 = ''1''"
  by code_simp

lemma demo_terms_loaded:
  "\<exists>t. load_live_trade_terms ''x'' demo_world ''u'' ''a'' ''v'' ''spec'' CFD = Inr t"
  by (simp add: load_live_trade_terms_def demo_lists demo_account demo_doc_row_def or_text_def truthy_def
      demo_instrument_def demo_spec_def terms_of_record_def validate_specification_def valid_terms_def
      or_default_def Let_def)

theorem live_terms_verified_witness:
  "\<exists>t. load_live_trade_terms ''x'' demo_world ''u'' ''a'' ''v'' ''spec'' CFD = Inr t
    \<and> 0 < lt_quantity_step t \<and> lt_quantity_minimum t \<le> lt_quantity_maximum t"
proof -
  obtain t where t: "load_live_trade_terms ''x'' demo_world ''u'' ''a'' ''v'' ''spec'' CFD = Inr t"
    using demo_terms_loaded by blast
  from live_terms_verified[OF t] t show ?thesis by (auto simp: terms_valid_def)
qed

lemma demo_limits_parsed:
  "constraint_kind_of ''MAX_TOTAL_DRAWDOWN'' = Some MAX_TOTAL_DRAWDOWN"
  "constraint_kind_of ''MAX_DAILY_LOSS'' = Some MAX_DAILY_LOSS"
  "constraint_kind_of ''MAX_PORTFOLIO_RISK'' = Some MAX_PORTFOLIO_RISK"
  "constraint_kind_of ''MAX_RISK_PER_TRADE'' = Some MAX_RISK_PER_TRADE"
  using constraint_kind_of_value[of MAX_TOTAL_DRAWDOWN] constraint_kind_of_value[of MAX_DAILY_LOSS]
    constraint_kind_of_value[of MAX_PORTFOLIO_RISK] constraint_kind_of_value[of MAX_RISK_PER_TRADE]
  by simp_all

definition demo_constraints :: "effective_constraint list" where
  "demo_constraints = map (\<lambda>(k, v). \<lparr>ec_kind = k, ec_value = v, ec_source = ''internal:g'',
      ec_source_version = ''1'', ec_reason = ''active policy'', ec_enforcement = HARD\<rparr>)
     [(MAX_TOTAL_DRAWDOWN, 1000), (MAX_DAILY_LOSS, 500), (MAX_PORTFOLIO_RISK, 200), (MAX_RISK_PER_TRADE, 100)]"

lemma demo_constraints_loaded: "active_constraints demo_world ''u'' ''a'' = Inr demo_constraints"
  by (simp add: active_constraints_def demo_lists record_constraints_def demo_doc_row_def demo_policy_def
      demo_rule_def rule_constraint_def demo_limits_parsed enforcement_of_def or_text_def truthy_def
      demo_constraints_def)

lemma demo_context_account:
  "\<exists>snap. context_account 0 demo_world ''u'' ''a'' = Inr (snap, demo_snapshot)
    \<and> as_starting_balance snap = 10000 \<and> as_current_equity snap = 10000
    \<and> as_current_balance snap = 10000 \<and> as_floating_pnl snap = 0 \<and> as_realized_daily_pnl snap = 0"
  by (simp add: context_account_def demo_account demo_doc_row_def account_snapshots_def demo_lists
      demo_snapshot_def or_text_def truthy_def snapshot_of_broker_def consistent_equity_def dec_defs
      dec8_numeral validate_snapshot_def Let_def)

lemma demo_scan:
  "ct_venue_instrument_id c = Some ''v'' \<Longrightarrow>
   scan_specifications demo_world ''u'' c = Inr
     \<lparr>ss_specifications = [(''spec'', \<lparr>sf_freshness = ''VALID'', sf_source_cut_id = ''cut''\<rparr>)],
      ss_current_cut = Some ''cut'', ss_latest = Some 0\<rparr>"
  by (simp add: scan_specifications_def demo_lists scan_specification_def demo_doc_row_def
      demo_instrument_def raw_specification_def specification_id_def demo_spec_def truthy_def
      facts_of_spec_def or_text_def id_text_def Let_def)

lemma demo_no_caps:
  "concurrent_limit demo_constraints = 3" "correlated_limit demo_constraints = None"
  by (simp_all add: concurrent_limit_def correlated_limit_def values_of_kind_def demo_constraints_def)

lemma demo_context_built:
  assumes "ct_venue_instrument_id c = Some ''v''"
  shows "\<exists>ctx. authoritative_risk_context (\<lambda>_. ''x'') 0 demo_world ''u'' ''a'' c = Inr ctx
    \<and> rc_constraints ctx = demo_constraints \<and> rc_positions ctx = [] \<and> rc_correlation_caps ctx = []
    \<and> rc_static_max_concurrent_trades ctx = 3 \<and> rc_active_reservations ctx = []
    \<and> rc_account_currency_verified ctx
    \<and> rc_include_unrealized_profit ctx = False
    \<and> rc_current_source_cut_id ctx = Some ''cut''
    \<and> rc_instrument_specifications ctx = [(''spec'', \<lparr>sf_freshness = ''VALID'', sf_source_cut_id = ''cut''\<rparr>)]
    \<and> as_starting_balance (rc_account ctx) = 10000 \<and> as_current_equity (rc_account ctx) = 10000
    \<and> as_current_balance (rc_account ctx) = 10000
    \<and> as_floating_pnl (rc_account ctx) = 0 \<and> as_realized_daily_pnl (rc_account ctx) = 0"
proof -
  obtain snap where s: "context_account 0 demo_world ''u'' ''a'' = Inr (snap, demo_snapshot)"
    "as_starting_balance snap = 10000" "as_current_equity snap = 10000" "as_current_balance snap = 10000"
    "as_floating_pnl snap = 0" "as_realized_daily_pnl snap = 0"
    using demo_context_account by blast
  have "active_rows ''u'' ''a'' (w_reservations demo_world) = []"
    by (simp add: active_rows_def demo_world_def)
  with s show ?thesis
    by (simp add: authoritative_risk_context_def demo_constraints_loaded demo_scan[OF assms] demo_no_caps
        correlation_caps_def) (simp add: demo_snapshot_def truthy_def)
qed


theorem policy_rules_all_applied_witness:
  "\<exists>ctx. authoritative_risk_context (\<lambda>_. ''x'') 0 demo_world ''u'' ''a'' demo_candidate = Inr ctx
    \<and> (\<exists>e \<in> set (rc_constraints ctx). ec_value e = 500 \<and> ec_enforcement e = HARD)"
proof -
  obtain ctx where ctx: "authoritative_risk_context (\<lambda>_. ''x'') 0 demo_world ''u'' ''a'' demo_candidate = Inr ctx"
    using demo_context_built[of demo_candidate] by (auto simp: demo_candidate_def)
  define r where "r = snd (demo_doc_row ''g'' ''guardrail'' (PolicyDoc demo_policy))"
  have "(''internal'', r) \<in> set (policy_rows demo_world ''u'')"
    by (simp add: policy_rows_def demo_lists r_def)
  moreover have "rule_applies ''a'' r" "res_data r = PolicyDoc demo_policy"
    "demo_rule ''MAX_DAILY_LOSS'' 500 \<in> set (pd_rules demo_policy)"
    by (simp_all add: rule_applies_def r_def demo_doc_row_def demo_policy_def)
  ultimately obtain e where "e \<in> set (rc_constraints ctx)" "ec_value e = pl_value (demo_rule ''MAX_DAILY_LOSS'' 500)"
      "enforcement_of (pl_enforcement (demo_rule ''MAX_DAILY_LOSS'' 500)) = Some (ec_enforcement e)"
    using policy_rules_all_applied[OF ctx] by blast
  with ctx show ?thesis by (auto simp: demo_rule_def enforcement_of_def)
qed

end
