(* ===== verification/Coordinator.thy ===== *)
theory Coordinator
  imports LiveAuthority
begin

text \<open>
  The transactional boundary of execution: \<open>modules/trading/coordinator.py\<close> (reading the current
  permissions, kill switches and broker snapshot, revalidating a plan, reserving its risk, authorizing
  and queueing its command) and \<open>modules/trading/execution_store.py\<close> (the stored command, its outbox
  intent and its lease).

  An operation takes the two tables and returns them updated, or the exception that rolls the
  transaction back.  Digests, name-based UUIDs and the text of a risk snapshot are fields of an
  \<open>environment\<close>; the UUIDs an operation draws are its \<open>entry_ids\<close>; the clock is read once.
\<close>

record environment =
  env_uuid5 :: "string \<Rightarrow> uuid"
  env_parse_uuid :: "string \<Rightarrow> uuid option"
  env_digest :: "authorization_facts \<Rightarrow> string"
  env_snapshot_text :: "risk_snapshot \<Rightarrow> string"
  env_allow_inf :: bool

record entry_ids =
  ei_plan_row :: uuid
  ei_specification :: uuid
  ei_reservation :: uuid
  ei_authorization :: uuid
  ei_command :: uuid

definition position_uuid :: "environment \<Rightarrow> string \<Rightarrow> uuid" where
  "position_uuid env p =
     (case env_parse_uuid env p of Some u \<Rightarrow> u | None \<Rightarrow> env_uuid5 env (''mt5-position:'' @ p))"

fun error_text :: "py_error \<Rightarrow> string" where
  "error_text (ValueError s) = s"
| "error_text (PermissionError s) = s"
| "error_text (LookupError s) = s"
| "error_text (KeyError s) = s"
| "error_text (RuntimeError s) = s"
| "error_text (CommandConflict s) = s"
| "error_text (CommandTransitionError s) = s"
| "error_text (LegacyWorkflowDisabled s) = s"
| "error_text (ValidationError s) = s"
| "error_text (HTTPException c s) = s"
| "error_text _ = ''''"

section \<open>Current authority\<close>

definition current_permissions :: "world \<Rightarrow> uuid \<Rightarrow> uuid \<Rightarrow> execution_permissions res" where
  "current_permissions w owner account =
     (case first_match (\<lambda>r. doc_account_id (res_data r) = Some account)
             (store_list (w_db w) ''execution_permission_profile'' owner False) of
        Some r \<Rightarrow> as_permissions (res_data r)
      | None \<Rightarrow>
          Inr \<lparr>pm_account_id = account, pm_version = 1, pm_new_entry = False,
               pm_order_cancellation = False, pm_stop_loss = False, pm_take_profit = False,
               pm_partial_close = False, pm_full_exit = False,
               pm_reason = ''no explicit execution permission profile configured''\<rparr>)"

definition no_switch :: "kill_scope \<Rightarrow> uuid option \<Rightarrow> kill_switch" where
  "no_switch scope account =
     \<lparr>ks_scope = scope, ks_active = False, ks_safety_epoch = 0, ks_account_id = account, ks_reason = ''''\<rparr>"

definition read_switch ::
    "uuid \<Rightarrow> document resource \<Rightarrow> kill_switch \<times> kill_switch \<Rightarrow> (kill_switch \<times> kill_switch) res" where
  "read_switch account r s =
     (if res_kind r = ''platform_kill_switch''
      then rbind (as_kill_switch (res_data r)) (\<lambda>k. Inr (k, snd s))
      else if doc_account_id (res_data r) = Some account
      then rbind (as_kill_switch (res_data r)) (\<lambda>k. Inr (fst s, k))
      else Inr s)"

definition switch_rows :: "world \<Rightarrow> uuid \<Rightarrow> document resource list" where
  "switch_rows w owner =
     filter (\<lambda>r. res_owner r = owner \<and> res_kind r \<in> {''platform_kill_switch'', ''account_kill_switch''}
                  \<and> res_state r \<noteq> ''DELETED'')
       (dvalues (db_resources (w_db w)))"

definition current_kill_switches :: "world \<Rightarrow> uuid \<Rightarrow> uuid \<Rightarrow> (kill_switch \<times> kill_switch) res" where
  "current_kill_switches w owner account =
     rfold (read_switch account) (sort_key res_updated_at (switch_rows w owner))
       (no_switch PLATFORM None, no_switch ACCOUNT (Some account))"

definition current_broker_snapshot :: "timestamp \<Rightarrow> world \<Rightarrow> uuid \<Rightarrow> uuid \<Rightarrow> broker_snapshot res" where
  "current_broker_snapshot now w owner account =
     (case account_snapshots w owner account of
        [] \<Rightarrow> Inl (PermissionError ''fresh broker snapshot is required'')
      | r # _ \<Rightarrow>
          rbind (as_snapshot (res_data r)) (\<lambda>b.
          rbind (snapshot_of_broker account (sn_balance b) ''MT5_BRIDGE'' b) (\<lambda>snap.
          rbind (validate_snapshot now snap account (seconds 30)) (\<lambda>_. Inr b))))"

section \<open>The candidate of a plan\<close>

fun find_specification :: "document resource list \<Rightarrow> uuid \<Rightarrow> spec_doc option res" where
  "find_specification [] spec = Inr None"
| "find_specification (r # rs) spec =
     rbind (as_instrument (res_data r)) (\<lambda>d.
       if id_text (specification_id d) = spec then Inr (Some (raw_specification d))
       else find_specification rs spec)"

definition plan_candidate :: "trade_plan \<Rightarrow> spec_doc \<Rightarrow> decimal \<Rightarrow> candidate_trade" where
  "plan_candidate plan raw risk_per_unit =
     (let c = tp_construction plan in
      \<lparr>ct_instrument = tc_instrument c, ct_direction = tc_direction c,
       ct_market_category = asset_class_value (tc_asset_class c),
       ct_requested_size = tc_approved_size c, ct_entry_price = tc_entry c,
       ct_stop_loss = tc_stop_loss c, ct_risk_per_unit = risk_per_unit,
       ct_size_increment = or_default (sd_quantity_step raw) (1 / 100), ct_currency_exposures = [],
       ct_asset_class = Some (tc_asset_class c), ct_instrument_type = Some (tc_instrument_type c),
       ct_venue_instrument_id = Some (tc_venue_instrument_id c),
       ct_futures_contract_id = tc_futures_contract_id c,
       ct_specification_version_id = Some (tc_specification_version_id c),
       ct_quantity_unit = Some (tc_quantity_unit c),
       ct_contract_multiplier = or_default (sd_contract_multiplier raw) 1,
       ct_tick_size = Some (or_default (sd_tick_size raw) (1 / 100000)),
       ct_tick_value = sd_tick_value raw,
       ct_margin_required = or_default (sd_margin_required raw) 0,
       ct_financing_cost = or_default (sd_financing_cost raw) 0, ct_underlying_id = None\<rparr>)"

definition typed_candidate ::
    "world \<Rightarrow> trade_plan \<Rightarrow> live_trade_terms option \<Rightarrow> candidate_trade res" where
  "typed_candidate w plan terms =
     rbind (find_specification (store_list (w_db w) ''typed_instrument'' (tp_owner_id plan) False)
              (tc_specification_version_id (tp_construction plan))) (\<lambda>found.
     rbind (required found (PermissionError ''fresh effective instrument specification is required'')) (\<lambda>raw.
     rbind (ensure (or_default (sd_freshness raw) ''INVALID'' = ''VALID'')
              (PermissionError ''fresh effective instrument specification is required'')) (\<lambda>_.
     let risk_amount = sn_candidate_trade_risk (rr_snapshot (tp_risk plan));
         c = tp_construction plan in
     rbind (if 0 < risk_amount then d_divide risk_amount (tc_approved_size c)
            else Inr (d_abs (d_sub (tc_entry c) (tc_stop_loss c)))) (\<lambda>risk_per_unit.
     rbind (ensure (\<not> risk_per_unit \<le> 0)
              (PermissionError ''bounded positive Stop Loss risk is required'')) (\<lambda>_.
     let candidate = plan_candidate plan raw risk_per_unit in
     rbind (ensure (candidate_valid candidate) (ValidationError ''CandidateTrade'')) (\<lambda>_.
     Inr (case terms of
            None \<Rightarrow> candidate
          | Some t \<Rightarrow> candidate\<lparr>ct_size_increment := lt_quantity_step t,
                       ct_contract_multiplier := lt_contract_multiplier t,
                       ct_tick_size := Some (lt_tick_size t), ct_tick_value := lt_tick_value t\<rparr>)))))))"

section \<open>Stored commands (\<open>execution_store.py\<close>)\<close>

definition new_command_doc :: "execution_command \<Rightarrow> document" where
  "new_command_doc c = CommandDoc \<lparr>cd_command = c, cd_lease = None, cd_attempt_count = 0\<rparr>"

fun doc_key :: "document \<Rightarrow> string option" where
  "doc_key (CommandDoc d) = Some (cm_idempotency_key (cd_command d))"
| "doc_key _ = None"

fun doc_postcondition :: "document \<Rightarrow> postcondition" where
  "doc_postcondition (CommandDoc d) = cm_postcondition (cd_command d)"
| "doc_postcondition _ = []"

definition persist_command ::
    "timestamp \<Rightarrow> world \<Rightarrow> uuid \<Rightarrow> execution_command \<Rightarrow> uuid option \<Rightarrow> (world \<times> document resource) res" where
  "persist_command now w owner c actor =
     (case store_get (w_db w) ''execution_command'' (cm_id c) owner of
        Some existing \<Rightarrow>
          if doc_key (res_data existing) \<noteq> Some (cm_idempotency_key c)
          then Inl (ValueError ''command id is bound to a different idempotency identity'')
          else Inr (w, existing)
      | None \<Rightarrow>
          (case first_match (\<lambda>r. doc_key (res_data r) = Some (cm_idempotency_key c))
                  (store_list (w_db w) ''execution_command'' owner False) of
             Some item \<Rightarrow>
               if \<not> dict_eq (doc_postcondition (res_data item)) (cm_postcondition c)
               then Inl (ValueError ''idempotency key is bound to a different command payload'')
               else Inr (w, item)
           | None \<Rightarrow>
               rbind (w_create (cm_id c) now w ''execution_command'' owner (new_command_doc c)
                        (command_state_value (cm_state c)) (Some (cm_id c)) actor
                        (Some ''execution.command.queued'')) (\<lambda>(w1, r).
               rbind (outbox_add (w_db w1)
                        \<lparr>ob_event_id = cm_id c, ob_owner = owner,
                         ob_event_type = ''execution.command.queued'',
                         ob_payload = new_command_doc c, ob_created_at = now,
                         ob_published_at = None, ob_attempts = 0\<rparr>) (\<lambda>db.
               Inr (w1\<lparr>w_db := db\<rparr>, r)))))"

definition lease_command ::
    "timestamp \<Rightarrow> world \<Rightarrow> uuid \<Rightarrow> uuid \<Rightarrow> string \<Rightarrow> int \<Rightarrow> (world \<times> document resource option) res" where
  "lease_command now w owner command_id worker_id lease_seconds =
     (case store_get (w_db w) ''execution_command'' command_id owner of
        None \<Rightarrow> Inr (w, None)
      | Some r \<Rightarrow>
          if res_state r \<notin> {''QUEUED'', ''AUTHORIZED''} then Inr (w, None)
          else
            rbind (as_command (res_data r)) (\<lambda>d.
            let until = now + seconds (max 5 lease_seconds);
                d' = d\<lparr>cd_command := (cd_command d)\<lparr>cm_state := DISPATCHING\<rparr>,
                       cd_lease := Some (worker_id, until),
                       cd_attempt_count := cd_attempt_count d + 1\<rparr>
            in rbind (w_update now w r (CommandDoc d') ''DISPATCHING'' (Some (res_version r)) None
                        ''execution.command.leased'' (Some [(''worker_id'', worker_id), (''lease_expires_at'', int_str until)])) (\<lambda>(w', r').
               Inr (w', Some r'))))"

definition lease_expired :: "timestamp \<Rightarrow> command_doc \<Rightarrow> bool" where
  "lease_expired now d = (case cd_lease d of None \<Rightarrow> True | Some (_, until) \<Rightarrow> until \<le> now)"

section \<open>Queueing an entry\<close>

definition persist_trade_plan ::
    "uuid \<Rightarrow> timestamp \<Rightarrow> world \<Rightarrow> trade_plan \<Rightarrow> uuid option \<Rightarrow> (world \<times> document resource) res" where
  "persist_trade_plan fresh now w plan actor =
     (case store_get (w_db w) ''trade_plan'' (tp_id plan) (tp_owner_id plan) of
        Some existing \<Rightarrow> Inr (w, existing)
      | None \<Rightarrow>
          w_create fresh now w ''trade_plan'' (tp_owner_id plan) (PlanDoc plan)
            (plan_state_value (tp_state plan)) (Some (tp_id plan)) actor
            (Some (if tp_state plan = TP_BLOCKED then ''trade_plan.blocked'' else ''trade_plan.created'')))"

type_synonym entry_result = "world \<times> document resource \<times> document resource option"

definition store_blocked ::
    "timestamp \<Rightarrow> world \<Rightarrow> document resource \<Rightarrow> trade_plan \<Rightarrow> uuid option \<Rightarrow> string list \<Rightarrow> entry_result res" where
  "store_blocked now w r plan actor reasons =
     rbind (w_update now w r (PlanDoc (plan\<lparr>tp_state := TP_BLOCKED\<rparr>)) ''BLOCKED'' None actor
              ''trade_plan.blocked'' (Some [(''reasons'', comma_join reasons)])) (\<lambda>(w', r').
     Inr (w', r', None))"

text \<open>The live terms a ticketed plan is checked against again; \<open>except ValueError\<close> blocks the plan.\<close>

definition entry_terms :: "uuid \<Rightarrow> world \<Rightarrow> trade_plan \<Rightarrow> live_trade_terms option res" where
  "entry_terms fresh w plan =
     (case tp_ticket plan of
        None \<Rightarrow> Inr None
      | Some ticket \<Rightarrow>
          (let c = tp_construction plan in
           rbind (load_live_trade_terms fresh w (tp_owner_id plan) (tp_account_id plan)
                    (tc_venue_instrument_id c) (tc_specification_version_id c) (tc_instrument_type c)) (\<lambda>t.
           rbind (ensure (tk_account_currency ticket = lt_account_currency t)
                    (ValueError ''account currency changed since the Trade Plan was built'')) (\<lambda>_.
           rbind (validate_size t (tc_approved_size c)) (\<lambda>_. Inr (Some t))))))"

definition trade_limit :: "risk_context \<Rightarrow> effective_constraint option" where
  "trade_limit ctx = map_of (strictest_applicable (rc_constraints ctx)) MAX_RISK_PER_TRADE"

definition force_block :: "risk_result \<Rightarrow> string \<Rightarrow> risk_result" where
  "force_block risk reason =
     risk\<lparr>rr_decision := HARD_BLOCK, rr_approved_size := 0, rr_reasons := [reason]\<rparr>"

definition ticket_authority :: "live_trade_terms option \<Rightarrow> risk_context \<Rightarrow> risk_result \<Rightarrow> risk_result" where
  "ticket_authority terms ctx risk =
     (if terms = None then risk
      else
        (let risk1 = (if \<not> rc_account_currency_verified ctx
                      then force_block risk ''fresh MT5 broker account currency is unavailable'' else risk)
         in if (case trade_limit ctx of
                  None \<Rightarrow> True
                | Some l \<Rightarrow> ec_enforcement l \<noteq> HARD \<or> ec_value l \<le> 0)
            then force_block risk1 ''MAX_RISK_PER_TRADE authority is no longer configured''
            else risk1))"

definition revalidate ::
    "environment \<Rightarrow> timestamp \<Rightarrow> world \<Rightarrow> trade_plan \<Rightarrow> live_trade_terms option \<Rightarrow> (risk_context \<times> risk_result) res" where
  "revalidate env now w plan terms =
     rbind (typed_candidate w plan terms) (\<lambda>candidate.
     rbind (authoritative_risk_context (position_uuid env) now w (tp_owner_id plan) (tp_account_id plan)
              candidate) (\<lambda>ctx.
     rbind (evaluate (env_allow_inf env) ctx candidate) (\<lambda>risk.
     Inr (ctx, ticket_authority terms ctx risk))))"

definition resize :: "trade_plan \<Rightarrow> risk_result \<Rightarrow> trade_plan" where
  "resize plan risk =
     plan\<lparr>tp_risk := risk,
          tp_construction := (tp_construction plan)\<lparr>tc_approved_size := rr_approved_size risk\<rparr>\<rparr>"

definition retarget ::
    "trade_plan \<Rightarrow> live_trade_terms option \<Rightarrow> risk_context \<Rightarrow> trade_plan res" where
  "retarget plan terms ctx =
     (case (terms, tp_ticket plan, trade_limit ctx) of
        (Some t, Some ticket, Some l) \<Rightarrow>
          (let c = tp_construction plan in
           rbind (build_trade_ticket t (tc_instrument_type c) (tc_direction c) (tc_entry c)
                    (tc_stop_loss c) (tc_targets c) (map ts_research_fraction (tk_targets ticket))
                    (ec_value l) (tp_risk plan)) (\<lambda>ticket'.
           Inr (plan\<lparr>tp_ticket := Some ticket'\<rparr>)))
      | _ \<Rightarrow> Inr plan)"

definition queue_entry ::
    "environment \<Rightarrow> entry_ids \<Rightarrow> timestamp \<Rightarrow> world \<Rightarrow> document resource \<Rightarrow> trade_plan \<Rightarrow> uuid option \<Rightarrow>
     string \<Rightarrow> entry_result res" where
  "queue_entry env ids now w plan_record plan actor key =
     (let owner = tp_owner_id plan; account = tp_account_id plan;
          snapshot = rr_snapshot (tp_risk plan) in
      rbind (reservations_reserve (ei_reservation ids) now (account_live (w_db w) owner account)
               (w_reservations w) owner account (tp_id plan) (sn_candidate_trade_risk snapshot)
               (sn_remaining_portfolio_risk_capacity snapshot) (minutes 10)
               [(''risk_snapshot'', env_snapshot_text env snapshot),
                (''specification_version_id'', tc_specification_version_id (tp_construction plan))])
        (\<lambda>(t1, reservation).
      let plan1 = plan\<lparr>tp_reservation_id := Some (rv_id reservation)\<rparr> in
      rbind (current_permissions w owner account) (\<lambda>permissions.
      rbind (current_kill_switches w owner account) (\<lambda>(platform_kill, account_kill).
      rbind (authorize_action (env_digest env) (ei_authorization ids) now plan1 PLACE_ORDER permissions
               platform_kill account_kill 60) (\<lambda>(plan2, authorization).
      rbind (create_command (ei_command ids) now empty_ledger plan2 authorization key) (\<lambda>(_, c).
      rbind (command_transition c AUTHORIZED) (\<lambda>c1.
      rbind (command_transition c1 QUEUED) (\<lambda>c2.
      rbind (reservations_transition now t1 (rv_id reservation) owner COMMAND_PENDING (Some (cm_id c2))
               None None None None) (\<lambda>(t2, _).
      rbind (transition_trade_plan plan2 TP_EXECUTION_PENDING) (\<lambda>plan3.
      let plan4 = plan3\<lparr>tp_execution_command_id := Some (cm_id c2)\<rparr> in
      rbind (w_update now (w\<lparr>w_reservations := t2\<rparr>) plan_record (PlanDoc plan4)
               (plan_state_value (tp_state plan4)) None actor ''trade_plan.execution_queued'' None)
        (\<lambda>(w3, plan_record').
      rbind (persist_command now w3 owner c2 actor) (\<lambda>(w4, command_record).
      Inr (w4, plan_record', Some command_record)))))))))))))"

definition size_and_queue ::
    "environment \<Rightarrow> entry_ids \<Rightarrow> timestamp \<Rightarrow> world \<Rightarrow> document resource \<Rightarrow> trade_plan \<Rightarrow>
     live_trade_terms option \<Rightarrow> uuid option \<Rightarrow> string \<Rightarrow> entry_result res" where
  "size_and_queue env ids now w plan_record plan terms actor key =
     rbind (revalidate env now w plan terms) (\<lambda>(ctx, risk).
     if rr_decision risk = HARD_BLOCK
     then store_blocked now w plan_record (plan\<lparr>tp_risk := risk\<rparr>) actor (rr_reasons risk)
     else
       (let plan1 = resize plan risk in
        case retarget plan1 terms ctx of
          Inl e \<Rightarrow> if is_value_error e then store_blocked now w plan_record plan1 actor [error_text e]
                   else Inl e
        | Inr plan2 \<Rightarrow> queue_entry env ids now w plan_record plan2 actor key))"

definition authorize_and_queue_entry ::
    "environment \<Rightarrow> entry_ids \<Rightarrow> timestamp \<Rightarrow> world \<Rightarrow> trade_plan \<Rightarrow> uuid option \<Rightarrow> string option \<Rightarrow>
     entry_result res" where
  "authorize_and_queue_entry env ids now w plan actor idempotency_key =
     rbind (persist_trade_plan (ei_plan_row ids) now w plan actor) (\<lambda>(w1, plan_record).
     if tp_state plan = TP_BLOCKED \<or> rr_decision (tp_risk plan) = HARD_BLOCK
     then Inr (w1, plan_record, None)
     else
       rbind (current_broker_snapshot now w1 (tp_owner_id plan) (tp_account_id plan)) (\<lambda>_.
       case entry_terms (ei_specification ids) w1 plan of
         Inl e \<Rightarrow> if is_value_error e then store_blocked now w1 plan_record plan actor [error_text e]
                  else Inl e
       | Inr terms \<Rightarrow>
           size_and_queue env ids now w1 plan_record plan terms actor
             (or_text idempotency_key (''entry:'' @ tp_id plan))))"

section \<open>Queueing a management action\<close>

definition authorize_and_queue_management ::
    "environment \<Rightarrow> entry_ids \<Rightarrow> timestamp \<Rightarrow> world \<Rightarrow> uuid \<Rightarrow> trade_plan \<Rightarrow> execution_action \<Rightarrow>
     postcondition \<Rightarrow> string \<Rightarrow> uuid \<Rightarrow> string option \<Rightarrow> string option \<Rightarrow> string option \<Rightarrow>
     (world \<times> document resource) res" where
  "authorize_and_queue_management env ids now w owner plan action post key management_action_id
       target_order_id target_position_id expected_broker_version =
     rbind (current_broker_snapshot now w owner (tp_account_id plan)) (\<lambda>_.
     rbind (current_permissions w owner (tp_account_id plan)) (\<lambda>permissions.
     rbind (current_kill_switches w owner (tp_account_id plan)) (\<lambda>(platform_kill, account_kill).
     rbind (authorize_action (env_digest env) (ei_authorization ids) now plan action permissions
              platform_kill account_kill 60) (\<lambda>(plan1, authorization).
     rbind (required (store_get (w_db w) ''trade_plan'' (tp_id plan) owner)
              (LookupError ''management action Trade Plan is not persisted'')) (\<lambda>plan_record.
     let plan2 = plan1\<lparr>tp_version := tp_version plan1 + 1\<rparr> in
     rbind (w_update now w plan_record (PlanDoc plan2) (plan_state_value (tp_state plan2)) None None
              ''trade_plan.management_authorized''
              (Some [(''action'', execution_action_value action), (''authorization_id'', ea_id authorization)]))
       (\<lambda>(w1, _).
     rbind (create_action_command (ei_command ids) now empty_ledger plan2 authorization key post
              (Some management_action_id) target_order_id target_position_id expected_broker_version)
       (\<lambda>(_, c).
     rbind (command_transition c AUTHORIZED) (\<lambda>c1.
     rbind (command_transition c1 QUEUED) (\<lambda>c2.
     persist_command now w1 owner c2 None)))))))))"

section \<open>Lemmas\<close>

lemma persist_command_InrD:
  assumes "persist_command now w owner c actor = Inr (w', r)"
  obtains (replayed) "w' = w" "res_kind r = ''execution_command''" "res_owner r = owner"
      "doc_key (res_data r) = Some (cm_idempotency_key c)"
      "(\<exists>i. map_of (db_resources (w_db w)) i = Some r) \<or> r \<in> set (dvalues (db_resources (w_db w)))"
    | (created) w1 where "w_create (cm_id c) now w ''execution_command'' owner (new_command_doc c)
        (command_state_value (cm_state c)) (Some (cm_id c)) actor (Some ''execution.command.queued'')
          = Inr (w1, r)"
      "db_outbox (w_db w') = db_outbox (w_db w) @ [\<lparr>ob_event_id = cm_id c, ob_owner = owner,
         ob_event_type = ''execution.command.queued'', ob_payload = new_command_doc c,
         ob_created_at = now, ob_published_at = None, ob_attempts = 0\<rparr>]"
      "db_resources (w_db w') = db_resources (w_db w1)" "w_reservations w' = w_reservations w"
proof (cases "store_get (w_db w) ''execution_command'' (cm_id c) owner")
  case (Some q)
  then have "map_of (db_resources (w_db w)) (cm_id c) = Some q" "res_kind q = ''execution_command''"
    "res_owner q = owner" by (simp_all add: store_get_iff)
  with Some assms show ?thesis
    by (intro replayed) (auto simp: persist_command_def split: if_splits)
next
  case None
  show ?thesis
  proof (cases "first_match (\<lambda>r. doc_key (res_data r) = Some (cm_idempotency_key c))
      (store_list (w_db w) ''execution_command'' owner False)")
    case (Some q)
    from first_match_SomeD[OF Some] have q: "doc_key (res_data q) = Some (cm_idempotency_key c)"
      "q \<in> set (store_list (w_db w) ''execution_command'' owner False)" by auto
    from assms None Some have "w' = w" "r = q" by (auto simp: persist_command_def split: if_splits)
    with q show ?thesis by (intro replayed) (simp_all add: store_list_mem)
  next
    case f: None
    from assms None f obtain w1 db where
        c: "w_create (cm_id c) now w ''execution_command'' owner (new_command_doc c)
          (command_state_value (cm_state c)) (Some (cm_id c)) actor (Some ''execution.command.queued'')
          = Inr (w1, r)"
      and o': "outbox_add (w_db w1) \<lparr>ob_event_id = cm_id c, ob_owner = owner,
         ob_event_type = ''execution.command.queued'', ob_payload = new_command_doc c,
         ob_created_at = now, ob_published_at = None, ob_attempts = 0\<rparr> = Inr db"
      and w': "w' = w1\<lparr>w_db := db\<rparr>"
      by (auto simp: persist_command_def)
    show ?thesis
      by (rule created[OF c])
         (use outbox_add_InrD[OF o'] w_create_InrD(10,11)[OF c] w' in simp_all)
  qed
qed

lemma store_blocked_InrD:
  assumes "store_blocked now w r plan actor reasons = Inr (w', prec, crec)"
  shows "crec = None" "res_state prec = ''BLOCKED''" "res_kind prec = res_kind r" "res_id prec = res_id r"
    and "w_reservations w' = w_reservations w" "db_outbox (w_db w') = db_outbox (w_db w)"
    and "db_resources (w_db w') = AList.update (res_id r) prec (db_resources (w_db w))"
    and "res_data prec = PlanDoc (plan\<lparr>tp_state := TP_BLOCKED\<rparr>)" "res_owner prec = res_owner r"
proof -
  from assms obtain q where u: "w_update now w r (PlanDoc (plan\<lparr>tp_state := TP_BLOCKED\<rparr>)) ''BLOCKED'' None
      actor ''trade_plan.blocked'' (Some [(''reasons'', comma_join reasons)]) = Inr (w', q)"
    and "prec = q" "crec = None"
    by (auto simp: store_blocked_def)
  then show "crec = None" "res_state prec = ''BLOCKED''" "res_kind prec = res_kind r" "res_id prec = res_id r"
    "w_reservations w' = w_reservations w" "db_outbox (w_db w') = db_outbox (w_db w)"
    "db_resources (w_db w') = AList.update (res_id r) prec (db_resources (w_db w))"
    "res_data prec = PlanDoc (plan\<lparr>tp_state := TP_BLOCKED\<rparr>)" "res_owner prec = res_owner r"
    using w_update_InrD[OF u] by simp_all
qed

lemma queue_entry_InrE:
  assumes "queue_entry env ids now w r plan actor key = Inr (w', prec, crec)"
  obtains t1 rv perms pk ak plan2 auth ledger c c1 c2 t2 rv2 plan3 w3 cr where
    "reservations_reserve (ei_reservation ids) now (account_live (w_db w) (tp_owner_id plan) (tp_account_id plan))
       (w_reservations w) (tp_owner_id plan) (tp_account_id plan) (tp_id plan)
       (sn_candidate_trade_risk (rr_snapshot (tp_risk plan)))
       (sn_remaining_portfolio_risk_capacity (rr_snapshot (tp_risk plan))) (minutes 10)
       [(''risk_snapshot'', env_snapshot_text env (rr_snapshot (tp_risk plan))),
        (''specification_version_id'', tc_specification_version_id (tp_construction plan))] = Inr (t1, rv)"
    "current_permissions w (tp_owner_id plan) (tp_account_id plan) = Inr perms"
    "current_kill_switches w (tp_owner_id plan) (tp_account_id plan) = Inr (pk, ak)"
    "authorize_action (env_digest env) (ei_authorization ids) now (plan\<lparr>tp_reservation_id := Some (rv_id rv)\<rparr>)
       PLACE_ORDER perms pk ak 60 = Inr (plan2, auth)"
    "create_command (ei_command ids) now empty_ledger plan2 auth key = Inr (ledger, c)"
    "command_transition c AUTHORIZED = Inr c1" "command_transition c1 QUEUED = Inr c2"
    "reservations_transition now t1 (rv_id rv) (tp_owner_id plan) COMMAND_PENDING (Some (cm_id c2)) None None None None
       = Inr (t2, rv2)"
    "transition_trade_plan plan2 TP_EXECUTION_PENDING = Inr plan3"
    "w_update now (w\<lparr>w_reservations := t2\<rparr>) r (PlanDoc (plan3\<lparr>tp_execution_command_id := Some (cm_id c2)\<rparr>))
       (plan_state_value (tp_state plan3)) None actor ''trade_plan.execution_queued'' None = Inr (w3, prec)"
    "persist_command now w3 (tp_owner_id plan) c2 actor = Inr (w', cr)" "crec = Some cr"
  using assms unfolding queue_entry_def Let_def by (auto elim!: rbind_InrE)

text \<open>The command \<open>queue_entry\<close> builds, and the plan it stores.\<close>

definition queued_command ::
    "entry_ids \<Rightarrow> timestamp \<Rightarrow> trade_plan \<Rightarrow> execution_authorization \<Rightarrow> string \<Rightarrow> execution_command" where
  "queued_command ids now plan auth key =
     (new_command (ei_command ids) now plan auth key (entry_postcondition plan))
       \<lparr>cm_state := QUEUED, cm_version := 3\<rparr>"

definition queued_plan :: "entry_ids \<Rightarrow> trade_plan \<Rightarrow> uuid \<Rightarrow> execution_authorization \<Rightarrow> trade_plan" where
  "queued_plan ids plan reservation auth =
     plan\<lparr>tp_reservation_id := Some reservation, tp_authorization := Some auth,
          tp_state := TP_EXECUTION_PENDING, tp_version := tp_version plan + 1,
          tp_execution_command_id := Some (ei_command ids)\<rparr>"

lemma queued_command_fields [simp]:
  "cm_id (queued_command ids now p a key) = ei_command ids"
  "cm_account_id (queued_command ids now p a key) = tp_account_id p"
  "cm_action (queued_command ids now p a key) = ea_action a"
  "cm_trade_plan_id (queued_command ids now p a key) = Some (tp_id p)"
  "cm_authorization_id (queued_command ids now p a key) = Some (ea_id a)"
  "cm_idempotency_key (queued_command ids now p a key) = key"
  "cm_postcondition (queued_command ids now p a key) = entry_postcondition p"
  "cm_state (queued_command ids now p a key) = QUEUED" "cm_attempts (queued_command ids now p a key) = []"
  by (simp_all add: queued_command_def new_command_def)

lemma queued_plan_fields [simp]:
  "tp_id (queued_plan ids p i a) = tp_id p" "tp_owner_id (queued_plan ids p i a) = tp_owner_id p"
  "tp_account_id (queued_plan ids p i a) = tp_account_id p"
  "tp_state (queued_plan ids p i a) = TP_EXECUTION_PENDING"
  "tp_construction (queued_plan ids p i a) = tp_construction p"
  "tp_risk (queued_plan ids p i a) = tp_risk p" "tp_ticket (queued_plan ids p i a) = tp_ticket p"
  "tp_reservation_id (queued_plan ids p i a) = Some i"
  "tp_authorization (queued_plan ids p i a) = Some a"
  "tp_execution_command_id (queued_plan ids p i a) = Some (ei_command ids)"
  "tp_expires_at (queued_plan ids p i a) = tp_expires_at p"
  by (simp_all add: queued_plan_def)

lemma create_command_empty:
  assumes "create_command fresh now empty_ledger plan auth key = Inr (ledger, c)"
  shows "c = new_command fresh now plan auth key (entry_postcondition plan)"
  using create_command_InrD(3)[OF assms] by (auto simp: ledger_put_def empty_ledger_def)

lemma entry_postcondition_cong:
  "tp_construction p = tp_construction q \<Longrightarrow> tp_risk p = tp_risk q \<Longrightarrow> tp_ticket p = tp_ticket q \<Longrightarrow>
   entry_postcondition p = entry_postcondition q"
  by (simp add: entry_postcondition_def Let_def split: option.split)

text \<open>Everything a queued entry wrote.\<close>

lemma queue_entry_facts:
  assumes "queue_entry env ids now w r plan actor key = Inr (w', prec, crec)"
  obtains t1 rv perms pk ak auth t2 rv2 w3 cr where
    "reservations_reserve (ei_reservation ids) now (account_live (w_db w) (tp_owner_id plan) (tp_account_id plan))
       (w_reservations w) (tp_owner_id plan) (tp_account_id plan) (tp_id plan)
       (sn_candidate_trade_risk (rr_snapshot (tp_risk plan)))
       (sn_remaining_portfolio_risk_capacity (rr_snapshot (tp_risk plan))) (minutes 10)
       [(''risk_snapshot'', env_snapshot_text env (rr_snapshot (tp_risk plan))),
        (''specification_version_id'', tc_specification_version_id (tp_construction plan))] = Inr (t1, rv)"
    "current_permissions w (tp_owner_id plan) (tp_account_id plan) = Inr perms"
    "current_kill_switches w (tp_owner_id plan) (tp_account_id plan) = Inr (pk, ak)"
    "tp_state plan \<in> {TP_READY, TP_AUTHORIZED}" "now < tp_expires_at plan"
    "rr_decision (tp_risk plan) \<noteq> HARD_BLOCK" "permissions_allow perms PLACE_ORDER"
    "\<not> ks_active pk" "\<not> ks_active ak" "ea_account_id auth = tp_account_id plan"
    "ea_action auth = PLACE_ORDER" "ea_id auth = ei_authorization ids"
    "ea_platform_safety_epoch auth = ks_safety_epoch pk"
    "ea_account_safety_epoch auth = ks_safety_epoch ak" "ea_expires_at auth = now + seconds 60"
    "reservations_transition now t1 (rv_id rv) (tp_owner_id plan) COMMAND_PENDING (Some (ei_command ids))
       None None None None = Inr (t2, rv2)"
    "w_update now (w\<lparr>w_reservations := t2\<rparr>) r (PlanDoc (queued_plan ids plan (rv_id rv) auth))
       ''EXECUTION_PENDING'' None actor ''trade_plan.execution_queued'' None = Inr (w3, prec)"
    "persist_command now w3 (tp_owner_id plan) (queued_command ids now plan auth key) actor = Inr (w', cr)"
    "crec = Some cr"
proof -
  obtain t1 rv perms pk ak plan2 auth ledger c c1 c2 t2 rv2 plan3 w3 cr where
    res: "reservations_reserve (ei_reservation ids) now (account_live (w_db w) (tp_owner_id plan) (tp_account_id plan))
       (w_reservations w) (tp_owner_id plan) (tp_account_id plan) (tp_id plan)
       (sn_candidate_trade_risk (rr_snapshot (tp_risk plan)))
       (sn_remaining_portfolio_risk_capacity (rr_snapshot (tp_risk plan))) (minutes 10)
       [(''risk_snapshot'', env_snapshot_text env (rr_snapshot (tp_risk plan))),
        (''specification_version_id'', tc_specification_version_id (tp_construction plan))] = Inr (t1, rv)"
    and cur: "current_permissions w (tp_owner_id plan) (tp_account_id plan) = Inr perms"
      "current_kill_switches w (tp_owner_id plan) (tp_account_id plan) = Inr (pk, ak)"
    and a: "authorize_action (env_digest env) (ei_authorization ids) now (plan\<lparr>tp_reservation_id := Some (rv_id rv)\<rparr>)
       PLACE_ORDER perms pk ak 60 = Inr (plan2, auth)"
    and c: "create_command (ei_command ids) now empty_ledger plan2 auth key = Inr (ledger, c)"
    and tr: "command_transition c AUTHORIZED = Inr c1" "command_transition c1 QUEUED = Inr c2"
    and mv: "reservations_transition now t1 (rv_id rv) (tp_owner_id plan) COMMAND_PENDING (Some (cm_id c2))
       None None None None = Inr (t2, rv2)"
    and p3: "transition_trade_plan plan2 TP_EXECUTION_PENDING = Inr plan3"
    and up: "w_update now (w\<lparr>w_reservations := t2\<rparr>) r (PlanDoc (plan3\<lparr>tp_execution_command_id := Some (cm_id c2)\<rparr>))
       (plan_state_value (tp_state plan3)) None actor ''trade_plan.execution_queued'' None = Inr (w3, prec)"
    and pc: "persist_command now w3 (tp_owner_id plan) c2 actor = Inr (w', cr)" "crec = Some cr"
    using assms by (rule queue_entry_InrE)
  note A = authorize_action_InrD[OF a]
  have c0: "c = new_command (ei_command ids) now plan2 auth key (entry_postcondition plan2)"
    by (rule create_command_empty[OF c])
  have post: "entry_postcondition plan2 = entry_postcondition plan"
    by (rule entry_postcondition_cong) (simp_all add: A(7))
  have same: "tp_id plan2 = tp_id plan" "tp_account_id plan2 = tp_account_id plan"
    by (simp_all add: A(7))
  have c2: "c2 = queued_command ids now plan auth key"
    using tr by (auto simp: c0 post same command_transition_def queued_command_def new_command_def
        split: if_splits)
  have p4: "plan3\<lparr>tp_execution_command_id := Some (cm_id c2)\<rparr> = queued_plan ids plan (rv_id rv) auth"
    "tp_state plan3 = TP_EXECUTION_PENDING"
    using p3 A(7) by (auto simp: transition_trade_plan_def queued_plan_def c2 split: if_splits)
  show thesis
    using that[OF res cur _ _ _ _ _ _ _ _ _ _ _ _ _ _ _ pc(2)] A mv up pc(1) p4 c2
    by (simp add: authorize_states_def)
qed

lemma entry_cases:
  assumes "authorize_and_queue_entry env ids now w plan actor k = Inr (w', prec, crec)"
  obtains (stopped) "persist_trade_plan (ei_plan_row ids) now w plan actor = Inr (w', prec)" "crec = None"
      "tp_state plan = TP_BLOCKED \<or> rr_decision (tp_risk plan) = HARD_BLOCK"
    | (blocked) w1 r plan1 reasons where
      "persist_trade_plan (ei_plan_row ids) now w plan actor = Inr (w1, r)"
      "store_blocked now w1 r plan1 actor reasons = Inr (w', prec, crec)"
    | (queued) w1 r b terms ctx risk plan2 where
      "persist_trade_plan (ei_plan_row ids) now w plan actor = Inr (w1, r)"
      "current_broker_snapshot now w1 (tp_owner_id plan) (tp_account_id plan) = Inr b"
      "entry_terms (ei_specification ids) w1 plan = Inr terms"
      "revalidate env now w1 plan terms = Inr (ctx, risk)" "rr_decision risk \<noteq> HARD_BLOCK"
      "retarget (resize plan risk) terms ctx = Inr plan2"
      "queue_entry env ids now w1 r plan2 actor (or_text k (''entry:'' @ tp_id plan)) = Inr (w', prec, crec)"
proof -
  from assms obtain w1 r where p: "persist_trade_plan (ei_plan_row ids) now w plan actor = Inr (w1, r)"
    by (auto simp: authorize_and_queue_entry_def)
  show thesis
  proof (cases "tp_state plan = TP_BLOCKED \<or> rr_decision (tp_risk plan) = HARD_BLOCK")
    case True
    with assms p show thesis by (intro stopped) (auto simp: authorize_and_queue_entry_def)
  next
    case False
    with assms p obtain b where b: "current_broker_snapshot now w1 (tp_owner_id plan) (tp_account_id plan) = Inr b"
      by (auto simp: authorize_and_queue_entry_def)
    show thesis
    proof (cases "entry_terms (ei_specification ids) w1 plan")
      case (Inl e)
      with assms p b False have "store_blocked now w1 r plan actor [error_text e] = Inr (w', prec, crec)"
        by (auto simp: authorize_and_queue_entry_def split: if_splits)
      with p show thesis by (rule blocked)
    next
      case (Inr terms)
      with assms p b False have sq: "size_and_queue env ids now w1 r plan terms actor
          (or_text k (''entry:'' @ tp_id plan)) = Inr (w', prec, crec)"
        by (auto simp: authorize_and_queue_entry_def)
      then obtain ctx risk where rv: "revalidate env now w1 plan terms = Inr (ctx, risk)"
        by (auto simp: size_and_queue_def)
      show thesis
      proof (cases "rr_decision risk = HARD_BLOCK")
        case True
        with sq rv have "store_blocked now w1 r (plan\<lparr>tp_risk := risk\<rparr>) actor (rr_reasons risk)
            = Inr (w', prec, crec)" by (simp add: size_and_queue_def)
        with p show thesis by (rule blocked)
      next
        case ok: False
        show thesis
        proof (cases "retarget (resize plan risk) terms ctx")
          case (Inl e)
          with sq rv ok have "store_blocked now w1 r (resize plan risk) actor [error_text e]
              = Inr (w', prec, crec)" by (auto simp: size_and_queue_def Let_def split: if_splits)
          with p show thesis by (rule blocked)
        next
          case (Inr plan2)
          with sq rv ok have "queue_entry env ids now w1 r plan2 actor (or_text k (''entry:'' @ tp_id plan))
              = Inr (w', prec, crec)" by (simp add: size_and_queue_def Let_def)
          with p b \<open>entry_terms (ei_specification ids) w1 plan = Inr terms\<close> rv ok Inr show thesis
            by (rule queued)
        qed
      qed
    qed
  qed
qed

text \<open>What sizing leaves alone, and what it sets.\<close>

lemma retarget_fields:
  assumes "retarget (resize plan risk) terms ctx = Inr plan2"
  shows "tp_id plan2 = tp_id plan" "tp_owner_id plan2 = tp_owner_id plan"
    "tp_account_id plan2 = tp_account_id plan" "tp_state plan2 = tp_state plan"
    "tp_expires_at plan2 = tp_expires_at plan" "tp_risk plan2 = risk"
    "tp_version plan2 = tp_version plan"
    "tp_construction plan2 = (tp_construction plan)\<lparr>tc_approved_size := rr_approved_size risk\<rparr>"
    "(tp_ticket plan2 = None) = (tp_ticket plan = None)"
  using assms by (auto simp: retarget_def resize_def Let_def split: option.splits)

lemma persist_trade_plan_InrD:
  assumes "persist_trade_plan fresh now w plan actor = Inr (w1, r)"
  shows "w_reservations w1 = w_reservations w" "db_outbox (w_db w1) = db_outbox (w_db w)"
    and "res_kind r = ''trade_plan''" "res_owner r = tp_owner_id plan"
    and "map_of (db_resources (w_db w1)) (tp_id plan) = Some r"
    and "i \<noteq> tp_id plan \<Longrightarrow> map_of (db_resources (w_db w1)) i = map_of (db_resources (w_db w)) i"
proof -
  have "w_reservations w1 = w_reservations w \<and> db_outbox (w_db w1) = db_outbox (w_db w)
     \<and> res_kind r = ''trade_plan'' \<and> res_owner r = tp_owner_id plan
     \<and> map_of (db_resources (w_db w1)) (tp_id plan) = Some r
     \<and> (i \<noteq> tp_id plan \<longrightarrow> map_of (db_resources (w_db w1)) i = map_of (db_resources (w_db w)) i)"
  proof (cases "store_get (w_db w) ''trade_plan'' (tp_id plan) (tp_owner_id plan)")
    case (Some q)
    with assms show ?thesis by (auto simp: persist_trade_plan_def store_get_iff)
  next
    case None
    with assms have c: "w_create fresh now w ''trade_plan'' (tp_owner_id plan) (PlanDoc plan)
        (plan_state_value (tp_state plan)) (Some (tp_id plan)) actor
        (Some (if tp_state plan = TP_BLOCKED then ''trade_plan.blocked'' else ''trade_plan.created''))
        = Inr (w1, r)" by (simp add: persist_trade_plan_def)
    from w_create_InrD[OF c] show ?thesis by simp
  qed
  then show "w_reservations w1 = w_reservations w" "db_outbox (w_db w1) = db_outbox (w_db w)"
    "res_kind r = ''trade_plan''" "res_owner r = tp_owner_id plan"
    "map_of (db_resources (w_db w1)) (tp_id plan) = Some r"
    "i \<noteq> tp_id plan \<Longrightarrow> map_of (db_resources (w_db w1)) i = map_of (db_resources (w_db w)) i" by auto
qed

lemma persist_trade_plan_id:
  assumes "persist_trade_plan fresh now w plan actor = Inr (w1, r)" and "store_inv (w_db w)"
  shows "res_id r = tp_id plan"
proof (cases "store_get (w_db w) ''trade_plan'' (tp_id plan) (tp_owner_id plan)")
  case (Some q)
  with assms store_get_id[OF assms(2) Some] show ?thesis by (auto simp: persist_trade_plan_def)
next
  case None
  with assms show ?thesis by (auto simp: persist_trade_plan_def dest: w_create_InrD(1))
qed

lemma persist_trade_plan_frame:
  assumes "persist_trade_plan fresh now w plan actor = Inr (w1, r)" and "kind \<noteq> ''trade_plan''"
  shows "same_rows kind w w1"
proof (cases "store_get (w_db w) ''trade_plan'' (tp_id plan) (tp_owner_id plan)")
  case (Some q)
  with assms show ?thesis by (simp add: persist_trade_plan_def)
next
  case None
  with assms have c: "w_create fresh now w ''trade_plan'' (tp_owner_id plan) (PlanDoc plan)
      (plan_state_value (tp_state plan)) (Some (tp_id plan)) actor
      (Some (if tp_state plan = TP_BLOCKED then ''trade_plan.blocked'' else ''trade_plan.created''))
      = Inr (w1, r)" by (simp add: persist_trade_plan_def)
  show ?thesis
    by (rule same_rows_write[OF w_create_InrD(9)[OF c]])
       (use w_create_InrD(3,8)[OF c] assms(2) in auto)
qed

lemma switch_rows_frame:
  assumes "persist_trade_plan fresh now w plan actor = Inr (w1, r)"
  shows "switch_rows w1 owner = switch_rows w owner"
proof (cases "store_get (w_db w) ''trade_plan'' (tp_id plan) (tp_owner_id plan)")
  case (Some q)
  with assms show ?thesis by (simp add: persist_trade_plan_def)
next
  case None
  with assms have c: "w_create fresh now w ''trade_plan'' (tp_owner_id plan) (PlanDoc plan)
      (plan_state_value (tp_state plan)) (Some (tp_id plan)) actor
      (Some (if tp_state plan = TP_BLOCKED then ''trade_plan.blocked'' else ''trade_plan.created''))
      = Inr (w1, r)" by (simp add: persist_trade_plan_def)
  show ?thesis unfolding switch_rows_def w_create_InrD(9)[OF c]
    by (rule filter_dvalues_update) (use w_create_InrD(3,8)[OF c] in auto)
qed

text \<open>Storing the plan first changes nothing the revalidation reads.\<close>

lemma entry_frame:
  assumes "persist_trade_plan fresh now w plan actor = Inr (w1, r)"
  shows "revalidate env now w1 p terms = revalidate env now w p terms"
    and "entry_terms f w1 p = entry_terms f w p"
    and "current_broker_snapshot now w1 owner account = current_broker_snapshot now w owner account"
    and "current_permissions w1 owner account = current_permissions w owner account"
    and "current_kill_switches w1 owner account = current_kill_switches w owner account"
    and "account_live (w_db w1) owner account = account_live (w_db w) owner account"
proof -
  have same: "same_rows kind w w1" if "kind \<noteq> ''trade_plan''" for kind
    by (rule persist_trade_plan_frame[OF assms that])
  have frame: "authoritative_risk_context pu now w1 owner account c = authoritative_risk_context pu now w owner account c"
    "account_snapshots w1 owner account = account_snapshots w owner account"
    "load_live_trade_terms fresh w1 owner account venue spec ty
       = load_live_trade_terms fresh w owner account venue spec ty"
    for pu owner account c fresh venue spec ty
    by (rule risk_context_frame; auto intro!: same simp: persist_trade_plan_InrD(1)[OF assms])+
  have cand: "typed_candidate w1 p terms = typed_candidate w p terms"
    using same[of "''typed_instrument''"] by (simp add: typed_candidate_def same_rows_def)
  show "revalidate env now w1 p terms = revalidate env now w p terms"
    by (simp add: revalidate_def frame cand)
  show "entry_terms f w1 p = entry_terms f w p" unfolding entry_terms_def frame by (rule refl)
  show "current_broker_snapshot now w1 owner account = current_broker_snapshot now w owner account"
    by (simp add: current_broker_snapshot_def frame)
  show "current_permissions w1 owner account = current_permissions w owner account"
    using same[of "''execution_permission_profile''"] by (simp add: current_permissions_def same_rows_def)
  show "current_kill_switches w1 owner account = current_kill_switches w owner account"
    by (simp add: current_kill_switches_def switch_rows_frame[OF assms])
  show "account_live (w_db w1) owner account = account_live (w_db w) owner account"
    using same[of "''account''"] by (simp add: account_live_def same_rows_def)
qed

lemma ticket_authority_approved:
  assumes "rr_decision (ticket_authority terms ctx risk) \<noteq> HARD_BLOCK"
  shows "ticket_authority terms ctx risk = risk"
    and "terms \<noteq> None \<Longrightarrow> rc_account_currency_verified ctx"
    and "terms \<noteq> None \<Longrightarrow> \<exists>l. trade_limit ctx = Some l \<and> ec_enforcement l = HARD \<and> 0 < ec_value l"
  using assms
  by (auto simp: ticket_authority_def force_block_def Let_def not_le split: if_splits option.splits)

lemma typed_candidate_InrD:
  assumes "typed_candidate w plan terms = Inr c" and "\<And>t. terms = Some t \<Longrightarrow> 0 < lt_quantity_step t"
  shows "candidate_valid c" "ct_requested_size c = tc_approved_size (tp_construction plan)"
    "ct_market_category c = asset_class_value (tc_asset_class (tp_construction plan))"
    "ct_currency_exposures c = []" "ct_instrument_type c = Some (tc_instrument_type (tp_construction plan))"
    "ct_underlying_id c = None"
proof -
  from assms(1) obtain raw rpu where v: "candidate_valid (plan_candidate plan raw rpu)"
    and c: "c = (case terms of None \<Rightarrow> plan_candidate plan raw rpu
        | Some t \<Rightarrow> (plan_candidate plan raw rpu)\<lparr>ct_size_increment := lt_quantity_step t,
            ct_contract_multiplier := lt_contract_multiplier t, ct_tick_size := Some (lt_tick_size t),
            ct_tick_value := lt_tick_value t\<rparr>)"
    by (auto simp: typed_candidate_def Let_def)
  show "candidate_valid c"
    using v assms(2) by (auto simp: c candidate_valid_def split: option.splits)
  show "ct_requested_size c = tc_approved_size (tp_construction plan)"
    "ct_market_category c = asset_class_value (tc_asset_class (tp_construction plan))"
    "ct_currency_exposures c = []" "ct_instrument_type c = Some (tc_instrument_type (tp_construction plan))"
    "ct_underlying_id c = None"
    by (simp_all add: c plan_candidate_def Let_def split: option.splits)
qed

lemma load_terms_valid:
  assumes "load_live_trade_terms fresh w owner account venue spec ty = Inr t"
  shows "terms_valid t"
proof -
  from assms obtain cur rs where "scan_terms fresh account cur venue spec ty rs = Inr t"
    by (auto simp: load_live_trade_terms_def Let_def)
  then show ?thesis using scan_terms_Inr by blast
qed

lemma entry_terms_step:
  assumes "entry_terms fresh w plan = Inr terms" and "terms = Some t"
  shows "terms_valid t" "0 < lt_quantity_step t" "tp_ticket plan \<noteq> None"
proof -
  from assms have "\<exists>account venue spec ty. load_live_trade_terms fresh w (tp_owner_id plan) account venue spec ty = Inr t"
    by (auto simp: entry_terms_def Let_def split: option.splits)
  then show "terms_valid t" by (auto dest: load_terms_valid)
  then show "0 < lt_quantity_step t" by (simp add: terms_valid_def)
  show "tp_ticket plan \<noteq> None" using assms by (cases "tp_ticket plan") (auto simp: entry_terms_def)
qed

text \<open>In a table with distinct ids, a transition rewrites the row its caller holds.\<close>

lemma transition_same_row:
  assumes "reservations_transition now t (rv_id rv) owner target cmd ord pos amount reason = Inr (t', r')"
    and "reservation_inv t" and "rv \<in> set t"
  shows "rv_owner r' = Some owner" "rv_id r' = rv_id rv" "rv_account r' = rv_account rv"
    "rv_state r' = target" "rv_expires_at r' = rv_expires_at rv" "rv_trade_plan r' = rv_trade_plan rv"
    "amount = None \<Longrightarrow> rv_amount r' = rv_amount rv" "r' \<in> set t'"
proof -
  obtain q where q: "q \<in> set t" "rv_id q = rv_id rv" "rv_owner r' = Some owner" "rv_id r' = rv_id rv"
    "rv_account r' = rv_account q" "rv_state r' = target" "rv_expires_at r' = rv_expires_at q"
    "rv_trade_plan r' = rv_trade_plan q" "t' = replace_row t r'"
    "rv_amount r' = (case amount of None \<Rightarrow> rv_amount q | Some a \<Rightarrow> a)"
    by (rule transition_InrD[OF assms(1)]) blast
  have "q = rv" using assms(2,3) q(1,2) by (auto simp: reservation_inv_def distinct_map inj_on_def)
  with q show "rv_owner r' = Some owner" "rv_id r' = rv_id rv" "rv_account r' = rv_account rv"
    "rv_state r' = target" "rv_expires_at r' = rv_expires_at rv" "rv_trade_plan r' = rv_trade_plan rv"
    "amount = None \<Longrightarrow> rv_amount r' = rv_amount rv" "r' \<in> set t'"
    by (auto simp: replace_row_def)
qed

text \<open>A group no position adds to keeps its exposure.\<close>

lemma add_exposures_other:
  assumes "add_exposures cat None cur risk d = Inr e" and "g \<noteq> ''category:'' @ cat"
    and "\<And>k. g \<noteq> ''currency:'' @ k"
  shows "map_of e g = map_of d g"
proof -
  have "map_of e' g = map_of d' g"
    if "rfold (\<lambda>(currency, weight) r. rbind (x_scale (d_abs weight) risk)
         (\<lambda>w. Inr (add_exposure r (''currency:'' @ currency) w))) cs d' = Inr e'" for cs d' e'
    using that
  proof (induction cs arbitrary: d')
    case (Cons c cs)
    then obtain k v w where "c = (k, v)" and
      "rfold (\<lambda>(currency, weight) r. rbind (x_scale (d_abs weight) risk)
         (\<lambda>w. Inr (add_exposure r (''currency:'' @ currency) w))) cs
         (add_exposure d' (''currency:'' @ k) w) = Inr e'" by (cases c) auto
    from Cons.IH[OF this(2)] assms(3)[of k] show ?case by (simp add: add_exposure_def)
  qed simp
  from this[of cur "add_exposure d (''category:'' @ cat) risk" e] assms(1,2)
  show ?thesis by (simp add: add_exposures_def add_exposure_def)
qed

lemma aggregate_exposure_other:
  assumes "aggregate_exposure ps None = Inr e"
    and "\<And>p. p \<in> set ps \<Longrightarrow> op_underlying_id p = None \<and> g \<noteq> ''category:'' @ op_market_category p"
    and "\<And>k. g \<noteq> ''currency:'' @ k"
  shows "dget e g (Fin 0) = Fin 0"
proof -
  have "map_of e g = map_of d g" if "rfold add_position ps d = Inr e" for d
    using that assms(2)
  proof (induction ps arbitrary: d)
    case (Cons p ps)
    from Cons.prems(1) obtain d1 where d1: "add_position p d = Inr d1"
      and e: "rfold add_position ps d1 = Inr e" by auto
    have "map_of e g = map_of d1 g" using Cons.IH[OF e] Cons.prems(2) by simp
    also have "\<dots> = map_of d g"
      using d1 Cons.prems(2)[of p] unfolding add_position_def
      by (intro add_exposures_other[OF _ _ assms(3)]) auto
    finally show ?case .
  qed simp
  from this[of "[]"] assms(1) show ?thesis by (simp add: aggregate_exposure_def dget_def)
qed

lemma market_category_cases: "market_category s \<in> {''crypto'', ''metals'', ''forex''}"
  by (simp add: market_category_def Let_def)

section \<open>Properties\<close>

text \<open>A queued entry is reserved: the stored plan is pending execution and names a reservation of its
  own for exactly the risk of its revalidation, waiting for the command; a new one was checked
  against the portfolio capacity the revalidation left, together with everything still reserved for
  the account, and lives ten minutes.\<close>
theorem queued_entry_reserved:
  assumes "authorize_and_queue_entry env ids now w plan actor k = Inr (w', prec, Some crec)"
    and "reservation_inv (w_reservations w)"
  shows "\<exists>plan' rv. res_data prec = PlanDoc plan' \<and> tp_id plan' = tp_id plan
    \<and> tp_state plan' = TP_EXECUTION_PENDING \<and> tp_reservation_id plan' = Some (rv_id rv)
    \<and> rv \<in> set (w_reservations w') \<and> rv_owner rv = Some (tp_owner_id plan)
    \<and> rv_trade_plan rv = Some (tp_id plan) \<and> rv_state rv = COMMAND_PENDING
    \<and> rv_amount rv = sn_candidate_trade_risk (rr_snapshot (tp_risk plan'))
    \<and> ((\<forall>q \<in> set (w_reservations w). rv_trade_plan q \<noteq> Some (tp_id plan)) \<longrightarrow>
         rv_account rv = tp_account_id plan \<and> 0 < rv_amount rv \<and> rv_expires_at rv = now + minutes 10
         \<and> d_add (active_total (tp_owner_id plan) (tp_account_id plan)
                    (fst (reservations_expire now (Some (tp_account_id plan)) (w_reservations w))))
                 (rv_amount rv)
             \<le> sn_remaining_portfolio_risk_capacity (rr_snapshot (tp_risk plan')))"
  using assms(1)
proof (cases rule: entry_cases)
  case (queued w1 r b terms ctx risk plan2)
  note same = retarget_fields[OF queued(6)]
  note P = persist_trade_plan_InrD[OF queued(1)]
  from queued(7) show ?thesis
  proof (rule queue_entry_facts, goal_cases)
    case (1 t1 rv perms pk ak auth t2 rv2 w3 cr)
    note res = reserve_InrD(2)[OF 1(1)[unfolded same P(1)]]
    have inv: "reservation_inv t1"
      by (rule reserve_usage(1)[OF 1(1)]) (simp add: P(1) assms(2))
    have mem: "rv \<in> set t1" and rv: "rv_trade_plan rv = Some (tp_id plan)"
      "rv_amount rv = sn_candidate_trade_risk (rr_snapshot risk)"
      using res by auto
    have q: "rv_owner rv2 = Some (tp_owner_id plan)" "rv_id rv2 = rv_id rv" "rv_account rv2 = rv_account rv"
      "rv_state rv2 = COMMAND_PENDING" "rv_expires_at rv2 = rv_expires_at rv"
      "rv_trade_plan rv2 = rv_trade_plan rv" "rv_amount rv2 = rv_amount rv" "rv2 \<in> set t2"
      using transition_same_row[OF 1(16) inv mem] by (simp_all add: same)
    have "w_reservations w' = t2"
      using 1(18) w_update_InrD(10)[OF 1(17)] by (cases rule: persist_command_InrD) auto
    moreover have "res_data prec = PlanDoc (queued_plan ids plan2 (rv_id rv) auth)"
      using w_update_InrD(5)[OF 1(17)] .
    moreover have "rv_account rv = tp_account_id plan \<and> 0 < rv_amount rv \<and> rv_expires_at rv = now + minutes 10
         \<and> d_add (active_total (tp_owner_id plan) (tp_account_id plan)
                    (fst (reservations_expire now (Some (tp_account_id plan)) (w_reservations w))))
                 (rv_amount rv)
             \<le> sn_remaining_portfolio_risk_capacity (rr_snapshot risk)"
      if "\<forall>q \<in> set (w_reservations w). rv_trade_plan q \<noteq> Some (tp_id plan)"
      using res that by auto
    ultimately show ?thesis
      using q rv by (intro exI[of _ "queued_plan ids plan2 (rv_id rv) auth"] exI[of _ rv2]) (simp add: same)
  qed
qed (auto dest: store_blocked_InrD)

text \<open>C4: A queued entry was revalidated against the state it was queued in: the stored plan carries the
  result of the risk engine on the account's current context, which did not block it, and the size the
  engine approved, at most the size of the plan; a ticketed plan has current terms, a verified account
  currency and a positive hard limit per trade.\<close>
theorem queued_entry_revalidated:
  assumes "authorize_and_queue_entry env ids now w plan actor k = Inr (w', prec, Some crec)"
  shows "\<exists>plan' terms c ctx. res_data prec = PlanDoc plan'
    \<and> entry_terms (ei_specification ids) w plan = Inr terms
    \<and> typed_candidate w plan terms = Inr c \<and> candidate_valid c
    \<and> authoritative_risk_context (position_uuid env) now w (tp_owner_id plan) (tp_account_id plan) c = Inr ctx
    \<and> evaluate (env_allow_inf env) ctx c = Inr (tp_risk plan')
    \<and> rr_decision (tp_risk plan') \<noteq> HARD_BLOCK
    \<and> tp_construction plan' = (tp_construction plan)\<lparr>tc_approved_size := rr_approved_size (tp_risk plan')\<rparr>
    \<and> rr_approved_size (tp_risk plan') \<le> tc_approved_size (tp_construction plan)
    \<and> (tp_ticket plan \<noteq> None \<longrightarrow> tp_ticket plan' \<noteq> None \<and> rc_account_currency_verified ctx
         \<and> (\<exists>t l. terms = Some t \<and> terms_valid t \<and> trade_limit ctx = Some l
               \<and> ec_enforcement l = HARD \<and> 0 < ec_value l))"
  using assms
proof (cases rule: entry_cases)
  case (queued w1 r b terms ctx risk plan2)
  note same = retarget_fields[OF queued(6)] and frame = entry_frame[OF queued(1)]
  have terms: "entry_terms (ei_specification ids) w plan = Inr terms" using queued(3) by (simp add: frame)
  obtain c risk0 where c: "typed_candidate w plan terms = Inr c"
    and ctx: "authoritative_risk_context (position_uuid env) now w (tp_owner_id plan) (tp_account_id plan) c
        = Inr ctx"
    and ev: "evaluate (env_allow_inf env) ctx c = Inr risk0" and risk: "risk = ticket_authority terms ctx risk0"
    using queued(4)[unfolded frame, unfolded revalidate_def] by auto
  note ta = ticket_authority_approved[of terms ctx risk0, folded risk, OF queued(5)]
  note C = typed_candidate_InrD[OF c, OF entry_terms_step(2)[OF terms]]
  have size: "rr_approved_size risk \<le> tc_approved_size (tp_construction plan)"
    using evaluate_size_le[OF ev C(1)] C(2) ta(1) by simp
  have tick: "\<exists>t l. terms = Some t \<and> terms_valid t \<and> trade_limit ctx = Some l
      \<and> ec_enforcement l = HARD \<and> 0 < ec_value l" "rc_account_currency_verified ctx"
    if "tp_ticket plan \<noteq> None"
  proof -
    from that terms obtain t where "terms = Some t" by (auto simp: entry_terms_def Let_def)
    with ta entry_terms_step(1)[OF terms this] show "\<exists>t l. terms = Some t \<and> terms_valid t
        \<and> trade_limit ctx = Some l \<and> ec_enforcement l = HARD \<and> 0 < ec_value l"
      "rc_account_currency_verified ctx" by auto
  qed
  from queued(7) show ?thesis
  proof (rule queue_entry_facts, goal_cases)
    case (1 t1 rv perms pk ak auth t2 rv2 w3 cr)
    have "res_data prec = PlanDoc (queued_plan ids plan2 (rv_id rv) auth)"
      by (rule w_update_InrD(5)[OF 1(17)])
    with terms c C(1) ctx ev ta(1) queued(5) size tick same show ?thesis
      by (intro exI[of _ "queued_plan ids plan2 (rv_id rv) auth"] exI[of _ terms] exI[of _ c] exI[of _ ctx])
         auto
  qed
qed (auto dest: store_blocked_InrD)

text \<open>A queued entry is authorized by what is current when it is queued: the plan was ready and not
  expired, the newest broker snapshot fresh, the account's profile permits entries, no kill switch is
  active, and the authorization the plan carries names their epochs and ends in a minute.\<close>
theorem queued_entry_authorized:
  assumes "authorize_and_queue_entry env ids now w plan actor k = Inr (w', prec, Some crec)"
  shows "\<exists>plan' auth b perms pk ak. res_data prec = PlanDoc plan' \<and> tp_authorization plan' = Some auth
    \<and> tp_state plan \<in> {TP_READY, TP_AUTHORIZED} \<and> now < tp_expires_at plan
    \<and> current_broker_snapshot now w (tp_owner_id plan) (tp_account_id plan) = Inr b
    \<and> current_permissions w (tp_owner_id plan) (tp_account_id plan) = Inr perms \<and> pm_new_entry perms
    \<and> current_kill_switches w (tp_owner_id plan) (tp_account_id plan) = Inr (pk, ak)
    \<and> \<not> ks_active pk \<and> \<not> ks_active ak
    \<and> ea_action auth = PLACE_ORDER \<and> ea_account_id auth = tp_account_id plan
    \<and> ea_platform_safety_epoch auth = ks_safety_epoch pk
    \<and> ea_account_safety_epoch auth = ks_safety_epoch ak \<and> ea_expires_at auth = now + seconds 60"
  using assms
proof (cases rule: entry_cases)
  case (queued w1 r b terms ctx risk plan2)
  note same = retarget_fields[OF queued(6)] and frame = entry_frame[OF queued(1)]
  from queued(7) show ?thesis
  proof (rule queue_entry_facts, goal_cases)
    case (1 t1 rv perms pk ak auth t2 rv2 w3 cr)
    have "res_data prec = PlanDoc (queued_plan ids plan2 (rv_id rv) auth)"
      by (rule w_update_InrD(5)[OF 1(17)])
    with 1 queued(2) frame same show ?thesis
      by (intro exI[of _ "queued_plan ids plan2 (rv_id rv) auth"] exI[of _ auth] exI[of _ b] exI[of _ perms]
          exI[of _ pk] exI[of _ ak]) auto
  qed
qed (auto dest: store_blocked_InrD)

text \<open>C25: An entry that is not queued leaves nothing behind but its plan: no reservation is made or
  changed, no outbox event is written and no row but the plan's changes; the plan is stored as
  blocked, unless it was not executable to begin with.\<close>
theorem blocked_entry_leaves_no_command:
  assumes "authorize_and_queue_entry env ids now w plan actor k = Inr (w', prec, None)"
    and "store_inv (w_db w)"
  shows "w_reservations w' = w_reservations w \<and> db_outbox (w_db w') = db_outbox (w_db w)
    \<and> (\<forall>i. i \<noteq> tp_id plan \<longrightarrow> map_of (db_resources (w_db w')) i = map_of (db_resources (w_db w)) i)
    \<and> map_of (db_resources (w_db w')) (tp_id plan) = Some prec \<and> res_kind prec = ''trade_plan''
    \<and> (res_state prec = ''BLOCKED'' \<or> tp_state plan = TP_BLOCKED \<or> rr_decision (tp_risk plan) = HARD_BLOCK)"
  using assms(1)
proof (cases rule: entry_cases)
  case stopped
  from persist_trade_plan_InrD[OF stopped(1)] stopped(3) show ?thesis by auto
next
  case (blocked w1 r plan1 reasons)
  from persist_trade_plan_InrD[OF blocked(1)] store_blocked_InrD[OF blocked(2)]
    persist_trade_plan_id[OF blocked(1) assms(2)]
  show ?thesis by auto
next
  case (queued w1 r b terms ctx risk plan2)
  from queued(7) show ?thesis by (rule queue_entry_facts) simp
qed

text \<open>The correlation cap of a revalidated entry does not see the open positions: the candidate's group
  is named by its asset class, the positions' groups by another vocabulary, so whatever positions are
  open, the exposure counted against every cap of the context is zero.\<close>
theorem correlation_cap_ignores_positions:
  assumes "typed_candidate w plan terms = Inr c"
    and "authoritative_risk_context pu now w owner account c = Inr ctx"
    and "aggregate_exposure (rc_positions ctx) None = Inr e"
  shows "\<forall>(g, cap) \<in> set (rc_correlation_caps ctx). dget e g (Fin 0) = Fin 0"
proof -
  obtain b :: broker_snapshot where pos: "rc_positions ctx = map (open_risk pu) (sn_positions b)"
    and caps: "rc_correlation_caps ctx = correlation_caps (rc_constraints ctx) c"
    using assms(2) by (rule authoritative_risk_context_Inr) blast
  from assms(1) have c: "ct_market_category c = asset_class_value (tc_asset_class (tp_construction plan))"
    "ct_currency_exposures c = []"
    by (auto simp: typed_candidate_def Let_def plan_candidate_def split: option.splits)
  have "dget e g (Fin 0) = Fin 0" if "(g, cap) \<in> set (rc_correlation_caps ctx)" for g cap
  proof -
    from that caps c have g: "g = ''category:'' @ asset_class_value (tc_asset_class (tp_construction plan))"
      by (auto simp: correlation_caps_def exposure_groups_def split: option.splits)
    have cls: "asset_class_value a \<notin> {''crypto'', ''metals'', ''forex''}" for a by (cases a) simp_all
    show ?thesis
    proof (rule aggregate_exposure_other[OF assms(3)])
      fix p assume "p \<in> set (rc_positions ctx)"
      then obtain q where "p = open_risk pu q" using pos by auto
      with market_category_cases[of "sp_symbol q"] cls[of "tc_asset_class (tp_construction plan)"]
      show "op_underlying_id p = None \<and> g \<noteq> ''category:'' @ op_market_category p"
        by (auto simp: open_risk_def g)
    next
      show "g \<noteq> ''currency:'' @ k" for k by (simp add: g)
    qed
  qed
  then show ?thesis by blast
qed

text \<open>A management action is authorized for the plan it belongs to: the command is new or a replay of
  the same key, the plan's row now carries an authorization of exactly that action under the current
  epochs, and the action was permitted with no kill switch active, the broker snapshot being fresh.\<close>
theorem queued_management_authorized:
  assumes "authorize_and_queue_management env ids now w owner plan action post key mid oid pid ver
      = Inr (w', crec)"
  shows "\<exists>auth b perms pk ak prec prec' plan'. current_broker_snapshot now w owner (tp_account_id plan) = Inr b
    \<and> current_permissions w owner (tp_account_id plan) = Inr perms \<and> permissions_allow perms action
    \<and> current_kill_switches w owner (tp_account_id plan) = Inr (pk, ak)
    \<and> \<not> ks_active pk \<and> \<not> ks_active ak
    \<and> tp_state plan \<in> set (authorize_states action)
    \<and> ea_action auth = action \<and> ea_id auth = ei_authorization ids
    \<and> ea_platform_safety_epoch auth = ks_safety_epoch pk
    \<and> ea_account_safety_epoch auth = ks_safety_epoch ak
    \<and> store_get (w_db w) ''trade_plan'' (tp_id plan) owner = Some prec
    \<and> map_of (db_resources (w_db w')) (res_id prec) = Some prec' \<and> res_data prec' = PlanDoc plan'
    \<and> tp_authorization plan' = Some auth
    \<and> doc_key (res_data crec) = Some key \<and> res_kind crec = ''execution_command''
    \<and> w_reservations w' = w_reservations w"
proof -
  from assms obtain b perms pk ak plan1 auth prec w1 prec' ledger c c1 c2 where
    cur: "current_broker_snapshot now w owner (tp_account_id plan) = Inr b"
      "current_permissions w owner (tp_account_id plan) = Inr perms"
      "current_kill_switches w owner (tp_account_id plan) = Inr (pk, ak)"
    and a: "authorize_action (env_digest env) (ei_authorization ids) now plan action perms pk ak 60
        = Inr (plan1, auth)"
    and p: "store_get (w_db w) ''trade_plan'' (tp_id plan) owner = Some prec"
    and u: "w_update now w prec (PlanDoc (plan1\<lparr>tp_version := tp_version plan1 + 1\<rparr>))
        (plan_state_value (tp_state plan1)) None None ''trade_plan.management_authorized''
        (Some [(''action'', execution_action_value action), (''authorization_id'', ea_id auth)])
        = Inr (w1, prec')"
    and c: "create_action_command (ei_command ids) now empty_ledger (plan1\<lparr>tp_version := tp_version plan1 + 1\<rparr>)
        auth key post (Some mid) oid pid ver = Inr (ledger, c)"
    and t: "command_transition c AUTHORIZED = Inr c1" "command_transition c1 QUEUED = Inr c2"
    and pc: "persist_command now w1 owner c2 None = Inr (w', crec)"
    by (auto simp: authorize_and_queue_management_def Let_def)
  have "cm_idempotency_key c = key"
    using c by (auto simp: create_action_command_def ledger_put_def empty_ledger_def)
  with t have k: "cm_idempotency_key c2 = key"
    by (auto simp: command_transition_def split: if_splits)
  have row: "map_of (db_resources (w_db w1)) (res_id prec) = Some prec'"
    using w_update_InrD(8)[OF u] by simp
  have "doc_key (res_data crec) = Some key \<and> res_kind crec = ''execution_command''
      \<and> w_reservations w' = w_reservations w
      \<and> map_of (db_resources (w_db w')) (res_id prec) = Some prec'"
    using pc w_update_InrD(10)[OF u]
  proof (cases rule: persist_command_InrD)
    case (created w2)
    note D = w_create_InrD[OF created(1)]
    have "res_id crec \<noteq> res_id prec" using D(8) row by auto
    with D created w_update_InrD(10)[OF u] row show ?thesis by (simp add: k new_command_doc_def)
  qed (use row in \<open>simp_all add: k\<close>)
  moreover have "res_data prec' = PlanDoc (plan1\<lparr>tp_version := tp_version plan1 + 1\<rparr>)"
    by (rule w_update_InrD(5)[OF u])
  moreover have "tp_authorization plan1 = Some auth" using authorize_action_InrD(7)[OF a] by simp
  ultimately show ?thesis using cur authorize_action_InrD[OF a] p
    by (intro exI[of _ auth] exI[of _ b] exI[of _ perms] exI[of _ pk] exI[of _ ak] exI[of _ prec]
        exI[of _ prec'] exI[of _ "plan1\<lparr>tp_version := tp_version plan1 + 1\<rparr>"]) simp
qed

section \<open>Witnesses\<close>

definition demo_env :: environment where
  "demo_env = \<lparr>env_uuid5 = (\<lambda>s. s), env_parse_uuid = (\<lambda>_. Some ''x''), env_digest = (\<lambda>_. ''digest''),
     env_snapshot_text = (\<lambda>_. ''''), env_allow_inf = False\<rparr>"

definition demo_ids :: entry_ids where
  "demo_ids = \<lparr>ei_plan_row = ''row'', ei_specification = ''s'', ei_reservation = ''rv'',
     ei_authorization = ''auth'', ei_command = ''cmd''\<rparr>"

definition demo_entry_plan :: trade_plan where
  "demo_entry_plan = demo_plan TP_READY (demo_risk\<lparr>rr_decision := PASS,
     rr_snapshot := (rr_snapshot demo_risk)\<lparr>sn_candidate_trade_risk := 5\<rparr>\<rparr>)"

definition demo_entry_candidate :: candidate_trade where
  "demo_entry_candidate = plan_candidate demo_entry_plan demo_spec 10"

lemmas demo_entry_plan_run = demo_entry_plan_def demo_plan_def

lemma demo_typed_candidate: "typed_candidate demo_world demo_entry_plan None = Inr demo_entry_candidate"
  by (simp add: typed_candidate_def demo_entry_plan_run demo_lists demo_doc_row_def demo_instrument_def
      specification_id_def raw_specification_def demo_spec_def truthy_def id_text_def or_default_def
      d_divide_def dec_defs dec8_numeral plan_candidate_def candidate_valid_def Let_def
      demo_entry_candidate_def)

lemma demo_entry_risk:
  assumes "authoritative_risk_context (\<lambda>_. ''x'') 0 demo_world ''u'' ''a'' demo_entry_candidate = Inr ctx"
  shows "\<exists>r. evaluate False ctx demo_entry_candidate = Inr r \<and> rr_decision r = PASS
    \<and> rr_approved_size r = 1 / 2 \<and> sn_candidate_trade_risk (rr_snapshot r) = 5
    \<and> sn_remaining_portfolio_risk_capacity (rr_snapshot r) = 200"
proof -
  have "ct_venue_instrument_id demo_entry_candidate = Some ''v''"
    by (simp add: demo_entry_candidate_def plan_candidate_def demo_entry_plan_run Let_def)
  from demo_context_built[OF this] assms
  have "rc_constraints ctx = demo_constraints" "rc_positions ctx = []" "rc_correlation_caps ctx = []"
    "rc_static_max_concurrent_trades ctx = 3" "rc_active_reservations ctx = []"
    "rc_include_unrealized_profit ctx = False" "rc_current_source_cut_id ctx = Some ''cut''"
    "rc_instrument_specifications ctx = [(''spec'', \<lparr>sf_freshness = ''VALID'', sf_source_cut_id = ''cut''\<rparr>)]"
    "as_starting_balance (rc_account ctx) = 10000" "as_current_equity (rc_account ctx) = 10000"
    "as_floating_pnl (rc_account ctx) = 0" "as_realized_daily_pnl (rc_account ctx) = 0"
    by auto
  then show ?thesis
    by (simp add: engine_run demo_entry_candidate_def plan_candidate_def demo_entry_plan_run demo_spec_def
        or_default_def demo_constraints_def)
qed

text \<open>The run of the demo entry, its tables before and after storing the plan.\<close>

definition demo_stored :: "document resource" where
  "demo_stored = snd (demo_doc_row ''plan'' ''trade_plan'' (PlanDoc demo_entry_plan))\<lparr>res_state := ''READY''\<rparr>"

lemma demo_entry_fields [simp]:
  "tp_id demo_entry_plan = ''plan''" "tp_owner_id demo_entry_plan = ''u''" "tp_account_id demo_entry_plan = ''a''"
  "tp_state demo_entry_plan = TP_READY" "tp_ticket demo_entry_plan = None"
  "tp_expires_at demo_entry_plan = minutes 10" "rr_decision (tp_risk demo_entry_plan) = PASS"
  "tp_version demo_entry_plan = 1"
  by (simp_all add: demo_entry_plan_run)

lemma demo_entry_stored:
  "\<exists>w1. persist_trade_plan ''row'' 0 demo_world demo_entry_plan None = Inr (w1, demo_stored)"
  by (simp add: persist_trade_plan_def store_get_def demo_world_def demo_rows_def demo_doc_row_def
      w_create_def store_create_def demo_stored_def Let_def)

lemma demo_revalidate:
  "\<exists>ctx r. revalidate demo_env 0 demo_world demo_entry_plan None = Inr (ctx, r) \<and> rr_decision r = PASS
    \<and> rr_approved_size r = 1 / 2 \<and> sn_candidate_trade_risk (rr_snapshot r) = 5
    \<and> sn_remaining_portfolio_risk_capacity (rr_snapshot r) = 200"
proof -
  have "ct_venue_instrument_id demo_entry_candidate = Some ''v''"
    by (simp add: demo_entry_candidate_def plan_candidate_def demo_entry_plan_run Let_def)
  from demo_context_built[OF this] obtain ctx where
    ctx: "authoritative_risk_context (\<lambda>_. ''x'') 0 demo_world ''u'' ''a'' demo_entry_candidate = Inr ctx" by blast
  have pu: "authoritative_risk_context (position_uuid demo_env) 0 demo_world ''u'' ''a'' demo_entry_candidate = Inr ctx"
  proof -
    have "position_uuid demo_env = (\<lambda>_. ''x'')" by (rule ext) (simp add: position_uuid_def demo_env_def)
    with ctx show ?thesis by simp
  qed
  from demo_entry_risk[OF ctx] pu show ?thesis
    by (auto simp: revalidate_def demo_typed_candidate ticket_authority_def demo_env_def)
qed

lemma demo_current:
  "current_broker_snapshot 0 demo_world ''u'' ''a'' = Inr demo_snapshot"
  "current_permissions demo_world ''u'' ''a'' = Inr demo_permissions"
  "current_kill_switches demo_world ''u'' ''a'' = Inr (no_switch PLATFORM None, no_switch ACCOUNT (Some ''a''))"
  "account_live (w_db demo_world) ''u'' ''a''"
proof -
  show "current_broker_snapshot 0 demo_world ''u'' ''a'' = Inr demo_snapshot"
    by (simp add: current_broker_snapshot_def account_snapshots_def demo_lists demo_doc_row_def
        demo_snapshot_def snapshot_of_broker_def consistent_equity_def dec_defs dec8_numeral
        validate_snapshot_def Let_def)
  show "current_permissions demo_world ''u'' ''a'' = Inr demo_permissions"
    by (simp add: current_permissions_def demo_lists demo_doc_row_def first_match_def demo_permissions_def)
  show "current_kill_switches demo_world ''u'' ''a'' = Inr (no_switch PLATFORM None, no_switch ACCOUNT (Some ''a''))"
    by (simp add: current_kill_switches_def switch_rows_def demo_world_def demo_rows_def demo_doc_row_def)
  show "account_live (w_db demo_world) ''u'' ''a''"
    by (simp add: account_live_def demo_account demo_doc_row_def)
qed

lemma demo_persist_command:
  assumes "db_resources (w_db w3) = AList.update ''plan'' r (demo_rows @ [(''plan'', q)])"
    and "res_kind r = ''trade_plan''" and "db_outbox (w_db w3) = []" and "cm_id c = ''cmd''"
  shows "\<exists>w4 cr. persist_command 0 w3 ''u'' c None = Inr (w4, cr)"
proof -
  have "store_get (w_db w3) ''execution_command'' ''cmd'' ''u'' = None"
    "store_list (w_db w3) ''execution_command'' ''u'' False = []"
    "map_of (db_resources (w_db w3)) ''cmd'' = None"
    using assms(1,2) by (simp_all add: store_get_def store_list_def demo_rows_def demo_doc_row_def)
  then show ?thesis
    using assms(3,4) by (simp add: persist_command_def first_match_def w_create_def store_create_def
        new_command_doc_def outbox_add_def store_audit_def Let_def)
qed

lemma demo_queue:
  assumes w1: "db_resources (w_db w1) = demo_rows @ [(''plan'', demo_stored)]" "db_outbox (w_db w1) = []"
      "w_reservations w1 = []"
    and cur: "current_permissions w1 ''u'' ''a'' = Inr demo_permissions"
      "current_kill_switches w1 ''u'' ''a'' = Inr (no_switch PLATFORM None, no_switch ACCOUNT (Some ''a''))"
      "account_live (w_db w1) ''u'' ''a''"
    and p: "tp_id p = ''plan''" "tp_owner_id p = ''u''" "tp_account_id p = ''a''" "tp_state p = TP_READY"
      "tp_expires_at p = minutes 10" "rr_decision (tp_risk p) = PASS"
      "sn_candidate_trade_risk (rr_snapshot (tp_risk p)) = 5"
      "sn_remaining_portfolio_risk_capacity (rr_snapshot (tp_risk p)) = 200"
  shows "\<exists>w' prec crec. queue_entry demo_env demo_ids 0 w1 demo_stored p None ''entry:plan'' = Inr (w', prec, Some crec)"
proof -
  obtain t1 rv where t1: "reservations_reserve ''rv'' 0 True [] ''u'' ''a'' ''plan'' 5 200 (minutes 10)
      [(''risk_snapshot'', env_snapshot_text demo_env (rr_snapshot (tp_risk p))),
        (''specification_version_id'', tc_specification_version_id (tp_construction p))] = Inr (t1, rv)"
    and rv: "rv_id rv = ''rv''" "t1 = [rv]" "rv_owner rv = Some ''u''" "rv_state rv = PROVISIONAL"
    by (simp add: reservations_reserve_def first_match_def reservations_expire_def reservation_insert_def
        active_total_def active_rows_def d_add_def dec8_numeral Let_def)
  obtain t2 rv2 where t2: "reservations_transition 0 t1 ''rv'' ''u'' COMMAND_PENDING (Some ''cmd'')
      None None None None = Inr (t2, rv2)"
    using rv by (simp add: reservations_transition_def first_match_def Let_def)
  obtain auth plan2 where a: "authorize_action (env_digest demo_env) ''auth'' 0 (p\<lparr>tp_reservation_id := Some ''rv''\<rparr>)
      PLACE_ORDER demo_permissions (no_switch PLATFORM None) (no_switch ACCOUNT (Some ''a'')) 60 = Inr (plan2, auth)"
    using p by (simp add: authorize_action_def authorize_states_def demo_permissions_def no_switch_def Let_def)
  note A = authorize_action_InrD[OF a]
  obtain l c where c: "create_command ''cmd'' 0 empty_ledger plan2 auth ''entry:plan'' = Inr (l, c)"
    using A p by (simp add: create_command_def command_guards_def ledger_put_def empty_ledger_def)
  have c0: "cm_id c = ''cmd''" "cm_state c = CREATED" "cm_authorization_id c = Some (ea_id auth)"
    using create_command_empty[OF c] by (simp_all add: new_command_def)
  obtain c1 where c1: "command_transition c AUTHORIZED = Inr c1" "cm_id c1 = ''cmd''" "cm_state c1 = AUTHORIZED"
    using c0 by (simp add: command_transition_def)
  obtain c2 where c2: "command_transition c1 QUEUED = Inr c2" "cm_id c2 = ''cmd''"
    using c1 by (simp add: command_transition_def)
  obtain p3 where p3: "transition_trade_plan plan2 TP_EXECUTION_PENDING = Inr p3"
    using A(7) by (simp add: transition_trade_plan_def)
  obtain w3 prec where w3: "w_update 0 (w1\<lparr>w_reservations := t2\<rparr>) demo_stored
      (PlanDoc (p3\<lparr>tp_execution_command_id := Some ''cmd''\<rparr>)) (plan_state_value (tp_state p3)) None None
      ''trade_plan.execution_queued'' None = Inr (w3, prec)"
    by (simp add: w_update_def store_update_def Let_def)
  have "db_resources (w_db w3) = AList.update ''plan'' prec (demo_rows @ [(''plan'', demo_stored)])"
    "res_kind prec = ''trade_plan''" "db_outbox (w_db w3) = []"
    using w_update_InrD(8,3,9)[OF w3] w1 by (simp_all add: demo_stored_def demo_doc_row_def)
  from demo_persist_command[OF this c2(2)] obtain w4 cr where "persist_command 0 w3 ''u'' c2 None = Inr (w4, cr)"
    by blast
  then show ?thesis
    using w1 cur p t1 t2 rv(1) a c c1(1) c2 p3 w3
    by (simp add: queue_entry_def Let_def demo_ids_def)
qed

lemma demo_entry_queued:
  "\<exists>w' prec crec. authorize_and_queue_entry demo_env demo_ids 0 demo_world demo_entry_plan None None
      = Inr (w', prec, Some crec)"
proof -
  obtain w1 where w1: "persist_trade_plan ''row'' 0 demo_world demo_entry_plan None = Inr (w1, demo_stored)"
    using demo_entry_stored by blast
  have rows: "db_resources (w_db w1) = demo_rows @ [(''plan'', demo_stored)]"
    using w1 by (auto simp: persist_trade_plan_def store_get_def demo_world_def demo_rows_def demo_doc_row_def
      w_create_def store_create_def demo_stored_def Let_def)
  note P = persist_trade_plan_InrD[OF w1]
  obtain ctx r where rv: "revalidate demo_env 0 demo_world demo_entry_plan None = Inr (ctx, r)"
    and r: "rr_decision r = PASS" "rr_approved_size r = 1 / 2" "sn_candidate_trade_risk (rr_snapshot r) = 5"
      "sn_remaining_portfolio_risk_capacity (rr_snapshot r) = 200"
    using demo_revalidate by blast
  note frame = entry_frame[OF w1]
  have w1': "db_outbox (w_db w1) = []" "w_reservations w1 = []"
    using P(1,2) by (simp_all add: demo_world_def)
  have cur: "current_permissions w1 ''u'' ''a'' = Inr demo_permissions"
      "current_kill_switches w1 ''u'' ''a'' = Inr (no_switch PLATFORM None, no_switch ACCOUNT (Some ''a''))"
      "account_live (w_db w1) ''u'' ''a''"
    by (simp_all add: frame demo_current)
  have q: "\<exists>w' prec crec. queue_entry demo_env demo_ids 0 w1 demo_stored (resize demo_entry_plan r) None ''entry:plan''
      = Inr (w', prec, Some crec)"
    by (rule demo_queue[OF rows w1' cur]) (simp_all add: resize_def r)
  have "ei_plan_row demo_ids = ''row''" by (simp add: demo_ids_def)
  with q w1 rv r show ?thesis
    by (simp add: authorize_and_queue_entry_def size_and_queue_def frame demo_current entry_terms_def
        retarget_def or_text_def truthy_def)
qed

theorem queued_entry_reserved_witness:
  "\<exists>w' prec crec plan' rv. authorize_and_queue_entry demo_env demo_ids 0 demo_world demo_entry_plan None None
      = Inr (w', prec, Some crec) \<and> res_data prec = PlanDoc plan' \<and> rv \<in> set (w_reservations w')
    \<and> rv_amount rv = sn_candidate_trade_risk (rr_snapshot (tp_risk plan')) \<and> rv_expires_at rv = minutes 10"
proof -
  obtain w' prec crec where e: "authorize_and_queue_entry demo_env demo_ids 0 demo_world demo_entry_plan None None
      = Inr (w', prec, Some crec)" using demo_entry_queued by blast
  have "reservation_inv (w_reservations demo_world)" "\<forall>q \<in> set (w_reservations demo_world). False"
    by (simp_all add: demo_world_def reservation_inv_def)
  with queued_entry_reserved[OF e] show ?thesis using e by fastforce
qed

theorem queued_entry_revalidated_witness:
  "\<exists>w' prec crec plan' ctx. authorize_and_queue_entry demo_env demo_ids 0 demo_world demo_entry_plan None None
      = Inr (w', prec, Some crec) \<and> res_data prec = PlanDoc plan'
    \<and> evaluate False ctx demo_entry_candidate = Inr (tp_risk plan')
    \<and> rr_approved_size (tp_risk plan') \<le> 1 / 2"
proof -
  obtain w' prec crec where e: "authorize_and_queue_entry demo_env demo_ids 0 demo_world demo_entry_plan None None
      = Inr (w', prec, Some crec)" using demo_entry_queued by blast
  have "tc_approved_size (tp_construction demo_entry_plan) = 1 / 2" "\<not> env_allow_inf demo_env"
    by (simp_all add: demo_entry_plan_run demo_env_def)
  with queued_entry_revalidated[OF e] e demo_typed_candidate show ?thesis
    by (auto simp: entry_terms_def)
qed

theorem queued_entry_authorized_witness:
  "\<exists>w' prec crec plan' auth. authorize_and_queue_entry demo_env demo_ids 0 demo_world demo_entry_plan None None
      = Inr (w', prec, Some crec) \<and> res_data prec = PlanDoc plan' \<and> tp_authorization plan' = Some auth
    \<and> ea_action auth = PLACE_ORDER \<and> ea_expires_at auth = seconds 60"
proof -
  obtain w' prec crec where e: "authorize_and_queue_entry demo_env demo_ids 0 demo_world demo_entry_plan None None
      = Inr (w', prec, Some crec)" using demo_entry_queued by blast
  with queued_entry_authorized[OF e] show ?thesis by fastforce
qed

text \<open>A ticketed plan of a listing that is gone.\<close>

definition demo_gone_plan :: trade_plan where
  "demo_gone_plan = demo_entry_plan\<lparr>tp_ticket := tp_ticket demo_ticketed,
     tp_construction := (tp_construction demo_entry_plan)\<lparr>tc_venue_instrument_id := ''gone''\<rparr>\<rparr>"

lemma demo_gone:
  "\<exists>w' prec. authorize_and_queue_entry demo_env demo_ids 0 demo_world demo_gone_plan None None
      = Inr (w', prec, None)"
proof -
  have p: "tp_id demo_gone_plan = ''plan''" "tp_owner_id demo_gone_plan = ''u''"
    "tp_account_id demo_gone_plan = ''a''" "tp_state demo_gone_plan = TP_READY"
    "rr_decision (tp_risk demo_gone_plan) = PASS"
    by (simp_all add: demo_gone_plan_def)
  obtain w1 r where w1: "persist_trade_plan ''row'' 0 demo_world demo_gone_plan None = Inr (w1, r)"
    using p by (simp add: persist_trade_plan_def store_get_def demo_world_def demo_rows_def demo_doc_row_def
      w_create_def store_create_def Let_def)
  have t: "\<exists>s. entry_terms ''s'' demo_world demo_gone_plan = Inl (ValueError s)"
    by (simp add: entry_terms_def demo_gone_plan_def demo_entry_plan_run demo_ticketed_def
        load_live_trade_terms_def demo_lists demo_account demo_doc_row_def or_text_def truthy_def
        demo_instrument_def demo_spec_def terms_of_record_def validate_specification_def valid_terms_def
        or_default_def Let_def)
  have ids: "ei_plan_row demo_ids = ''row''" "ei_specification demo_ids = ''s''" by (simp_all add: demo_ids_def)
  from t w1 p ids show ?thesis
    by (auto simp: authorize_and_queue_entry_def entry_frame[OF w1] demo_current store_blocked_def
        w_update_def store_update_def Let_def)
qed

theorem blocked_entry_leaves_no_command_witness:
  "\<exists>w' prec. authorize_and_queue_entry demo_env demo_ids 0 demo_world demo_gone_plan None None
      = Inr (w', prec, None) \<and> w_reservations w' = [] \<and> db_outbox (w_db w') = [] \<and> res_state prec = ''BLOCKED''"
proof -
  obtain w' prec where e: "authorize_and_queue_entry demo_env demo_ids 0 demo_world demo_gone_plan None None
      = Inr (w', prec, None)" using demo_gone by blast
  have inv: "store_inv (w_db demo_world)"
    by (simp add: store_inv_def demo_world_def demo_rows_def demo_doc_row_def)
  from blocked_entry_leaves_no_command[OF e inv] e show ?thesis
    by (auto simp: demo_world_def demo_gone_plan_def)
qed

text \<open>An account with an open EURUSD position and a cap on correlated risk.\<close>

definition demo_held :: sdk_position where
  "demo_held = \<lparr>sp_position_id = ''9'', sp_account_id = ''a'', sp_symbol = ''EURUSD'', sp_direction = BUY,
     sp_volume = 1, sp_entry_price = 1, sp_stop_loss = Some (1 / 2), sp_take_profit = None, sp_pnl = 0,
     sp_observed_at = 0,
     sp_typed = \<lparr>ty_asset_class = None, ty_instrument_type = None, ty_venue_instrument_id = None,
       ty_futures_contract_id = None, ty_specification_version_id = None, ty_quantity_unit = None\<rparr>,
     sp_loss_to_stop = Some 1000\<rparr>"

definition demo_correlated_world :: world where
  "demo_correlated_world = demo_world\<lparr>w_db := (w_db demo_world)\<lparr>db_resources :=
     [demo_doc_row ''a'' ''account'' (AccountDoc \<lparr>ad_currency = Some ''usd'', ad_starting_balance = Some 10000\<rparr>),
      demo_doc_row ''snap'' ''broker_snapshot'' (SnapshotDoc (demo_snapshot\<lparr>sn_positions := [demo_held]\<rparr>)),
      demo_doc_row ''g'' ''guardrail'' (PolicyDoc (demo_policy\<lparr>pd_rules := [demo_rule ''MAX_CORRELATED_RISK'' 50]\<rparr>)),
      demo_doc_row ''i'' ''typed_instrument'' (InstrumentDoc demo_instrument)]\<rparr>\<rparr>"

lemma demo_correlated_lists:
  "store_list (w_db demo_correlated_world) ''typed_instrument'' ''u'' False
     = [snd (demo_doc_row ''i'' ''typed_instrument'' (InstrumentDoc demo_instrument))]"
  "store_list (w_db demo_correlated_world) ''instrument_specification'' ''u'' False = []"
  "store_list (w_db demo_correlated_world) ''prop_ruleset'' ''u'' False = []"
  "store_list (w_db demo_correlated_world) ''guardrail'' ''u'' False
     = [snd (demo_doc_row ''g'' ''guardrail'' (PolicyDoc (demo_policy\<lparr>pd_rules := [demo_rule ''MAX_CORRELATED_RISK'' 50]\<rparr>)))]"
  "store_list (w_db demo_correlated_world) ''broker_snapshot'' ''u'' False
     = [snd (demo_doc_row ''snap'' ''broker_snapshot'' (SnapshotDoc (demo_snapshot\<lparr>sn_positions := [demo_held]\<rparr>)))]"
  "store_get (w_db demo_correlated_world) ''account'' ''a'' ''u'' =
     Some (snd (demo_doc_row ''a'' ''account''
       (AccountDoc \<lparr>ad_currency = Some ''usd'', ad_starting_balance = Some 10000\<rparr>)))"
  by (simp_all add: store_list_def store_get_def demo_correlated_world_def demo_doc_row_def)

lemma demo_correlated:
  "typed_candidate demo_correlated_world demo_entry_plan None = Inr demo_entry_candidate"
  "\<exists>ctx. authoritative_risk_context (\<lambda>_. ''x'') 0 demo_correlated_world ''u'' ''a'' demo_entry_candidate = Inr ctx
    \<and> rc_positions ctx = [open_risk (\<lambda>_. ''x'') demo_held]
    \<and> rc_correlation_caps ctx = [(''category:FOREX'', 50)]"
proof -
  show "typed_candidate demo_correlated_world demo_entry_plan None = Inr demo_entry_candidate"
    using demo_typed_candidate by (simp add: typed_candidate_def demo_lists demo_correlated_lists)
  have k: "constraint_kind_of ''MAX_CORRELATED_RISK'' = Some MAX_CORRELATED_RISK"
    using constraint_kind_of_value[of MAX_CORRELATED_RISK] by simp
  let ?cs = "[\<lparr>ec_kind = MAX_CORRELATED_RISK, ec_value = 50, ec_source = ''internal:g'', ec_source_version = ''1'',
      ec_reason = ''active policy'', ec_enforcement = HARD\<rparr>]"
  have cs: "active_constraints demo_correlated_world ''u'' ''a'' = Inr ?cs"
    by (simp add: active_constraints_def demo_correlated_lists record_constraints_def demo_doc_row_def
        demo_policy_def demo_rule_def rule_constraint_def k enforcement_of_def or_text_def truthy_def)
  obtain snap where acc: "context_account 0 demo_correlated_world ''u'' ''a''
      = Inr (snap, demo_snapshot\<lparr>sn_positions := [demo_held]\<rparr>)"
    by (simp add: context_account_def demo_doc_row_def account_snapshots_def demo_correlated_lists
      demo_snapshot_def or_text_def truthy_def snapshot_of_broker_def consistent_equity_def dec_defs
      dec8_numeral validate_snapshot_def demo_held_def Let_def)
  have "ct_venue_instrument_id demo_entry_candidate = Some ''v''"
    "ct_market_category demo_entry_candidate = ''FOREX''" "ct_currency_exposures demo_entry_candidate = []"
    by (simp_all add: demo_entry_candidate_def plan_candidate_def demo_entry_plan_run Let_def)
  moreover from this have "\<exists>s. scan_specifications demo_correlated_world ''u'' demo_entry_candidate = Inr s"
    using demo_scan by (simp add: scan_specifications_def demo_lists demo_correlated_lists)
  ultimately show "\<exists>ctx. authoritative_risk_context (\<lambda>_. ''x'') 0 demo_correlated_world ''u'' ''a'' demo_entry_candidate = Inr ctx
    \<and> rc_positions ctx = [open_risk (\<lambda>_. ''x'') demo_held]
    \<and> rc_correlation_caps ctx = [(''category:FOREX'', 50)]"
    by (auto simp: authoritative_risk_context_def acc cs concurrent_limit_def values_of_kind_def
        correlation_caps_def correlated_limit_def exposure_groups_def)
qed

theorem correlation_cap_ignores_positions_witness:
  "\<exists>ctx e. authoritative_risk_context (\<lambda>_. ''x'') 0 demo_correlated_world ''u'' ''a'' demo_entry_candidate = Inr ctx
    \<and> aggregate_exposure (rc_positions ctx) None = Inr e \<and> dget e ''category:forex'' (Fin 0) = Fin 1000
    \<and> rc_correlation_caps ctx = [(''category:FOREX'', 50)] \<and> dget e ''category:FOREX'' (Fin 0) = Fin 0"
proof -
  obtain ctx where ctx: "authoritative_risk_context (\<lambda>_. ''x'') 0 demo_correlated_world ''u'' ''a'' demo_entry_candidate = Inr ctx"
    "rc_positions ctx = [open_risk (\<lambda>_. ''x'') demo_held]" "rc_correlation_caps ctx = [(''category:FOREX'', 50)]"
    using demo_correlated(2) by blast
  have "market_category ''EURUSD'' = ''forex''" "symbol_exposures ''EURUSD'' = [(''EUR'', 1), (''USD'', -1)]"
    by code_simp+
  then obtain e where e: "aggregate_exposure (rc_positions ctx) None = Inr e" "dget e ''category:forex'' (Fin 0) = Fin 1000"
    by (auto simp: ctx(2) aggregate_exposure_def add_position_def open_risk_def demo_held_def
        add_exposures_def add_exposure_def position_risk_def dget_def dec_defs dec8_numeral)
  from correlation_cap_ignores_positions[OF demo_correlated(1) ctx(1) e(1)] ctx e show ?thesis by auto
qed

text \<open>An open trade whose plan is active, on an account that permits full exits.\<close>

definition demo_open_plan :: trade_plan where
  "demo_open_plan = demo_entry_plan\<lparr>tp_state := TP_ACTIVE\<rparr>"

definition demo_open_world :: world where
  "demo_open_world = demo_world\<lparr>w_db := (w_db demo_world)\<lparr>db_resources :=
     [demo_doc_row ''snap'' ''broker_snapshot'' (SnapshotDoc demo_snapshot),
      demo_doc_row ''pm'' ''execution_permission_profile'' (PermissionsDoc (demo_permissions\<lparr>pm_full_exit := True\<rparr>)),
      demo_doc_row ''plan'' ''trade_plan'' (PlanDoc demo_open_plan)]\<rparr>\<rparr>"

lemma demo_management_queued:
  "\<exists>w' crec. authorize_and_queue_management demo_env demo_ids 0 demo_open_world ''u'' demo_open_plan FULL_EXIT
      [] ''exit:plan:1'' ''act'' None (Some ''9'') None = Inr (w', crec)"
proof -
  have cur: "current_broker_snapshot 0 demo_open_world ''u'' ''a'' = Inr demo_snapshot"
    "current_permissions demo_open_world ''u'' ''a'' = Inr (demo_permissions\<lparr>pm_full_exit := True\<rparr>)"
    "current_kill_switches demo_open_world ''u'' ''a'' = Inr (no_switch PLATFORM None, no_switch ACCOUNT (Some ''a''))"
    by (simp_all add: current_broker_snapshot_def account_snapshots_def demo_open_world_def store_list_def
        demo_doc_row_def demo_snapshot_def snapshot_of_broker_def consistent_equity_def dec_defs dec8_numeral
        validate_snapshot_def current_permissions_def first_match_def demo_permissions_def
        current_kill_switches_def switch_rows_def Let_def)
  have p: "tp_account_id demo_open_plan = ''a''" "tp_id demo_open_plan = ''plan''" "tp_state demo_open_plan = TP_ACTIVE"
    by (simp_all add: demo_open_plan_def)
  obtain plan1 auth where a: "authorize_action (env_digest demo_env) ''auth'' 0 demo_open_plan FULL_EXIT
      (demo_permissions\<lparr>pm_full_exit := True\<rparr>) (no_switch PLATFORM None) (no_switch ACCOUNT (Some ''a'')) 60
      = Inr (plan1, auth)"
    by (simp add: authorize_action_def authorize_states_def demo_permissions_def no_switch_def demo_open_plan_def
        Let_def)
  note A = authorize_action_InrD[OF a]
  let ?plan = "plan1\<lparr>tp_version := tp_version plan1 + 1\<rparr>"
  obtain r where r: "store_get (w_db demo_open_world) ''trade_plan'' ''plan'' ''u'' = Some r" "res_id r = ''plan''"
      "res_kind r = ''trade_plan''"
    by (simp add: store_get_def demo_open_world_def demo_doc_row_def)
  obtain w1 r' where u: "w_update 0 demo_open_world r (PlanDoc ?plan) (plan_state_value (tp_state plan1)) None None
      ''trade_plan.management_authorized''
      (Some [(''action'', execution_action_value FULL_EXIT), (''authorization_id'', ea_id auth)]) = Inr (w1, r')"
    by (simp add: w_update_def store_update_def Let_def)
  obtain l c where c: "create_action_command ''cmd'' 0 empty_ledger ?plan auth ''exit:plan:1'' []
      (Some ''act'') None (Some ''9'') None = Inr (l, c)"
    and c0: "cm_id c = ''cmd''" "cm_state c = CREATED" "cm_authorization_id c = Some (ea_id auth)"
    using A by (simp add: create_action_command_def command_guards_def ledger_put_def empty_ledger_def new_command_def)
  obtain c1 where c1: "command_transition c AUTHORIZED = Inr c1" "cm_id c1 = ''cmd''" "cm_state c1 = AUTHORIZED"
    using c0 by (simp add: command_transition_def)
  obtain c2 where c2: "command_transition c1 QUEUED = Inr c2" "cm_id c2 = ''cmd''"
    using c1 by (simp add: command_transition_def)
  have rows: "db_resources (w_db w1) = AList.update ''plan'' r' (db_resources (w_db demo_open_world))"
    "db_outbox (w_db w1) = []" "res_kind r' = ''trade_plan''"
    using w_update_InrD(3,8,9)[OF u] r by (simp_all add: demo_open_world_def demo_world_def)
  have "store_get (w_db w1) ''execution_command'' ''cmd'' ''u'' = None"
    "store_list (w_db w1) ''execution_command'' ''u'' False = []" "map_of (db_resources (w_db w1)) ''cmd'' = None"
    using rows by (simp_all add: store_get_def store_list_def demo_open_world_def demo_doc_row_def)
  then obtain w2 crec where "persist_command 0 w1 ''u'' c2 None = Inr (w2, crec)"
    using c2(2) rows(2) by (simp add: persist_command_def first_match_def w_create_def store_create_def
        new_command_doc_def outbox_add_def store_audit_def Let_def)
  then show ?thesis
    using cur p a r(1) u c c1(1) c2(1)
    by (simp add: authorize_and_queue_management_def Let_def demo_ids_def)
qed

theorem queued_management_authorized_witness:
  "\<exists>w' crec (auth :: execution_authorization). authorize_and_queue_management demo_env demo_ids 0 demo_open_world ''u'' demo_open_plan FULL_EXIT
      [] ''exit:plan:1'' ''act'' None (Some ''9'') None = Inr (w', crec)
    \<and> doc_key (res_data crec) = Some ''exit:plan:1'' \<and> ea_action auth = FULL_EXIT \<and> ea_id auth = ''auth''"
proof -
  obtain w' crec where e: "authorize_and_queue_management demo_env demo_ids 0 demo_open_world ''u'' demo_open_plan FULL_EXIT
      [] ''exit:plan:1'' ''act'' None (Some ''9'') None = Inr (w', crec)" using demo_management_queued by blast
  from queued_management_authorized[OF e] obtain auth :: execution_authorization where
    "doc_key (res_data crec) = Some ''exit:plan:1''" "ea_action auth = FULL_EXIT"
    "ea_id auth = ei_authorization demo_ids"
    by (elim exE conjE) (rule that)
  with e show ?thesis
    by (intro exI[of _ w'] exI[of _ crec] exI[of _ auth]) (simp add: demo_ids_def)
qed

end
