(* ===== verification/Worker.thy ===== *)
theory Worker
  imports Coordinator BridgeQueue
begin

text \<open>
  The execution worker \<open>apps/worker/app/tasks/execution.py\<close> and the connection it resolves
  (\<open>modules/connections/resolution.py\<close>).

  A task runs in one transaction.  The calls it makes to the broker leave the process when they are
  made, so \<open>dispatch_task\<close> returns them beside its result: an exception rolls the tables back to the ones
  it was given and leaves the calls.  The clock is read once; the broker client of a connection is an
  argument, as are its cipher, digests and the allowed networks.
\<close>

section \<open>Resolving the connection\<close>

record runtime =
  rt_aead :: aead
  rt_key :: string
  rt_networks :: "string \<Rightarrow> bool"
  rt_request_digest :: "postcondition \<Rightarrow> string"
  rt_response_digest :: "broker_response \<Rightarrow> string"

record resolved_connection =
  rc_connection_id :: uuid
  rc_profile :: connection_profile
  rc_secret :: "string option"

definition live_row :: "world \<Rightarrow> string \<Rightarrow> uuid \<Rightarrow> uuid \<Rightarrow> document resource option" where
  "live_row w kind i owner =
     (case store_get (w_db w) kind i owner of
        None \<Rightarrow> None
      | Some r \<Rightarrow> if res_state r \<noteq> ''DELETED'' then Some r else None)"

definition connection_secret :: "runtime \<Rightarrow> world \<Rightarrow> uuid \<Rightarrow> uuid option \<Rightarrow> string option res" where
  "connection_secret rt w owner credential_id =
     (case credential_id of
        None \<Rightarrow> Inr None
      | Some i \<Rightarrow>
          rbind (required (live_row w ''credential'' i owner) (LookupError ''credential not found'')) (\<lambda>r.
          rbind (as_credential (res_data r)) (\<lambda>d.
          rbind (required (envelope_decrypt (rt_aead rt) (rt_key rt) owner (cr_envelope d))
                   (RuntimeError ''InvalidTag'')) (\<lambda>secret.
          Inr (Some secret)))))"

definition resolve_connection :: "runtime \<Rightarrow> world \<Rightarrow> uuid \<Rightarrow> uuid \<Rightarrow> resolved_connection res" where
  "resolve_connection rt w owner connection_id =
     rbind (required (live_row w ''connection'' connection_id owner) (LookupError ''connection not found'')) (\<lambda>r.
     rbind (as_connection (res_data r)) (\<lambda>d.
     rbind (validate_profile (rt_networks rt) d) (\<lambda>profile.
     rbind (ensure (cf_active profile) (RuntimeError ''connection is disabled'')) (\<lambda>_.
     rbind (connection_secret rt w owner (cf_credential_id profile)) (\<lambda>secret.
     Inr \<lparr>rc_connection_id = res_id r, rc_profile = profile, rc_secret = secret\<rparr>)))))"

fun provided_by :: "connection_provider \<Rightarrow> document \<Rightarrow> bool" where
  "provided_by provider (ConnectionDoc d) \<longleftrightarrow> cf_provider d = provider \<and> cf_active d"
| "provided_by provider _ \<longleftrightarrow> False"

definition find_connection ::
    "runtime \<Rightarrow> world \<Rightarrow> uuid \<Rightarrow> connection_provider \<Rightarrow> resolved_connection option res" where
  "find_connection rt w owner provider =
     (case first_match (\<lambda>r. provided_by provider (res_data r))
             (filter (\<lambda>r. res_kind r = ''connection'' \<and> res_owner r = owner \<and> res_state r \<noteq> ''DELETED'')
                (dvalues (db_resources (w_db w)))) of
        None \<Rightarrow> Inr None
      | Some r \<Rightarrow> rbind (resolve_connection rt w owner (res_id r)) (\<lambda>c. Inr (Some c)))"

section \<open>The tasks\<close>

definition lease_task ::
    "timestamp \<Rightarrow> world \<Rightarrow> uuid \<Rightarrow> uuid \<Rightarrow> string \<Rightarrow> (world \<times> bool) res" where
  "lease_task now w owner command_id worker_id =
     rbind (lease_command now w owner command_id worker_id 30) (\<lambda>(w', r). Inr (w', r \<noteq> None))"

definition queue_plan_task ::
    "environment \<Rightarrow> entry_ids \<Rightarrow> timestamp \<Rightarrow> world \<Rightarrow> uuid \<Rightarrow> uuid \<Rightarrow>
     (world \<times> uuid \<times> string \<times> uuid option) res" where
  "queue_plan_task env ids now w owner plan_id =
     rbind (required (store_get (w_db w) ''trade_plan'' plan_id owner) (RuntimeError ''trade plan not found'')) (\<lambda>r.
     rbind (as_plan (res_data r)) (\<lambda>plan.
     rbind (authorize_and_queue_entry env ids now w plan None None) (\<lambda>(w', prec, crec).
     Inr (w', res_id prec, res_state prec, map_option res_id crec))))"

text \<open>What a dispatch answers: the command was final already, it could not be leased_row, or it was sent.\<close>

datatype dispatch_reply = Replayed string | NotLeased string | Sent string

definition final_command_states :: "string list" where
  "final_command_states = [''ACKNOWLEDGED'', ''APPLIED'', ''REJECTED'', ''BLOCKED_AMBIGUOUS'']"

text \<open>Everything before the lease: the command, its plan and authorization, checked against current authority.\<close>

definition dispatchable ::
    "timestamp \<Rightarrow> world \<Rightarrow> uuid \<Rightarrow> document resource \<Rightarrow>
     (document resource \<times> trade_plan \<times> execution_authorization) res" where
  "dispatchable now w owner command_record =
     rbind (as_command (res_data command_record)) (\<lambda>d.
     let command = cd_command d in
     rbind (required (cm_trade_plan_id command) (RuntimeError ''execution command has no Trade Plan'')) (\<lambda>plan_id.
     rbind (required (store_get (w_db w) ''trade_plan'' plan_id owner)
              (RuntimeError ''execution command Trade Plan not found'')) (\<lambda>plan_record.
     rbind (as_plan (res_data plan_record)) (\<lambda>plan.
     rbind (required (tp_authorization plan) (RuntimeError ''execution authorization is unavailable'')) (\<lambda>auth.
     rbind (current_broker_snapshot now w owner (cm_account_id command)) (\<lambda>_.
     rbind (current_permissions w owner (cm_account_id command)) (\<lambda>permissions.
     rbind (current_kill_switches w owner (cm_account_id command)) (\<lambda>(platform_kill, account_kill).
     rbind (assert_command_authority now command auth plan permissions platform_kill account_kill) (\<lambda>_.
     Inr (plan_record, plan, auth))))))))))"

definition settle_reservation ::
    "timestamp \<Rightarrow> reservation_table \<Rightarrow> uuid \<Rightarrow> trade_plan \<Rightarrow> execution_command \<Rightarrow> reservation_table res" where
  "settle_reservation now t owner plan outcome =
     (case tp_reservation_id plan of
        None \<Rightarrow> Inr t
      | Some i \<Rightarrow>
          if cm_state outcome = REJECTED
          then rbind (reservations_transition now t i owner RELEASED None None None None
                        (Some ''broker rejected command'')) (\<lambda>(t', _). Inr t')
          else if cm_state outcome = ACKNOWLEDGED
          then rbind (reservations_transition now t i owner ORDER_WORKING None (cm_broker_order_id outcome)
                        None None None) (\<lambda>(t', _). Inr t')
          else Inr t)"

fun certainty_value :: "outcome_certainty \<Rightarrow> string" where
  "certainty_value OC_NONE = ''NONE''"
| "certainty_value UNCERTAIN = ''UNCERTAIN''"
| "certainty_value CONFIRMED = ''CONFIRMED''"

text \<open>What is written once the broker has answered.\<close>

definition record_outcome ::
    "timestamp \<Rightarrow> world \<Rightarrow> uuid \<Rightarrow> document resource \<Rightarrow> (string \<times> timestamp) option \<Rightarrow> document resource \<Rightarrow>
     trade_plan \<Rightarrow> execution_command \<Rightarrow> (world \<times> dispatch_reply) res" where
  "record_outcome now w owner leased_row lease plan_record plan outcome =
     rbind (w_update now w leased_row
              (CommandDoc \<lparr>cd_command = outcome, cd_lease = lease, cd_attempt_count = 0\<rparr>)
              (command_state_value (cm_state outcome)) None None
              (''execution.command.'' @ str_lower (command_state_value (cm_state outcome)))
              (Some [(''outcome_certainty'', certainty_value (cm_outcome_certainty outcome)),
                     (''broker_order_id'', or_text (cm_broker_order_id outcome) ''null'')])) (\<lambda>(w1, updated).
     rbind (settle_reservation now (w_reservations w1) owner plan outcome) (\<lambda>t.
     let w2 = w1\<lparr>w_reservations := t\<rparr> in
     if cm_state outcome = ACKNOWLEDGED \<and> tp_state plan = TP_EXECUTION_PENDING
     then rbind (w_update now w2 plan_record
                   (PlanDoc (plan\<lparr>tp_state := TP_EXECUTING, tp_version := tp_version plan + 1\<rparr>))
                   (plan_state_value TP_EXECUTING) None None ''trade_plan.executing'' None) (\<lambda>(w3, _).
          Inr (w3, Sent (res_state updated)))
     else Inr (w2, Sent (res_state updated))))"

definition send_leased ::
    "runtime \<Rightarrow> (string \<Rightarrow> string \<Rightarrow> broker_adapter) \<Rightarrow> timestamp \<Rightarrow> world \<Rightarrow> uuid \<Rightarrow> document resource \<Rightarrow>
     document resource \<Rightarrow> trade_plan \<Rightarrow> execution_authorization \<Rightarrow>
     broker_call list \<times> (world \<times> dispatch_reply) res" where
  "send_leased rt client now w owner leased_row plan_record plan auth =
     (case rbind (as_command (res_data leased_row)) (\<lambda>d.
           rbind (find_connection rt w owner MT5_BRIDGE) (\<lambda>found.
           rbind (required (case found of None \<Rightarrow> None | Some c \<Rightarrow>
                     (case rc_secret c of None \<Rightarrow> None | Some s \<Rightarrow> Some (rc_profile c, s)))
                   (RuntimeError ''active MT5 Bridge connection and HMAC secret are required'')) (\<lambda>(profile, secret).
           rbind (dispatch (rt_request_digest rt) (rt_response_digest rt) now (cd_command d) auth
                    (client (config profile ''bridge_url'') secret)) (\<lambda>(outcome, calls).
           Inr (d, outcome, calls))))) of
        Inl e \<Rightarrow> ([], Inl e)
      | Inr (d, outcome, calls) \<Rightarrow>
          (calls, record_outcome now w owner leased_row (cd_lease d) plan_record plan outcome))"

definition dispatch_task ::
    "runtime \<Rightarrow> (string \<Rightarrow> string \<Rightarrow> broker_adapter) \<Rightarrow> timestamp \<Rightarrow> world \<Rightarrow> uuid \<Rightarrow> uuid \<Rightarrow> string \<Rightarrow>
     broker_call list \<times> (world \<times> dispatch_reply) res" where
  "dispatch_task rt client now w owner command_id worker_id =
     (case store_get (w_db w) ''execution_command'' command_id owner of
        None \<Rightarrow> ([], Inl (RuntimeError ''execution command not found''))
      | Some command_record \<Rightarrow>
          if res_state command_record \<in> set final_command_states
          then ([], Inr (w, Replayed (res_state command_record)))
          else
            (case rbind (dispatchable now w owner command_record) (\<lambda>(plan_record, plan, auth).
                  rbind (lease_command now w owner command_id worker_id 30) (\<lambda>(w1, leased_row).
                  Inr (plan_record, plan, auth, w1, leased_row))) of
               Inl e \<Rightarrow> ([], Inl e)
             | Inr (plan_record, plan, auth, w1, None) \<Rightarrow> ([], Inr (w1, NotLeased (res_state command_record)))
             | Inr (plan_record, plan, auth, w1, Some leased_row) \<Rightarrow>
                 send_leased rt client now w1 owner leased_row plan_record plan auth))"

text \<open>What the transaction leaves in the tables: an exception rolls back.\<close>

definition committed :: "world \<Rightarrow> (world \<times> 'r) res \<Rightarrow> world" where
  "committed w m = (case m of Inl e \<Rightarrow> w | Inr (w', _) \<Rightarrow> w')"

section \<open>Lemmas\<close>

lemma lease_command_InrD:
  assumes "lease_command now w owner i worker n = Inr (w', Some r')"
  obtains r d where "store_get (w_db w) ''execution_command'' i owner = Some r"
    "res_state r \<in> {''QUEUED'', ''AUTHORIZED''}" "res_data r = CommandDoc d"
    "res_data r' = CommandDoc (d\<lparr>cd_command := (cd_command d)\<lparr>cm_state := DISPATCHING\<rparr>,
        cd_lease := Some (worker, now + seconds (max 5 n)), cd_attempt_count := cd_attempt_count d + 1\<rparr>)"
    "res_state r' = ''DISPATCHING''" "res_id r' = res_id r" "res_owner r' = res_owner r" "res_kind r' = res_kind r"
    "res_version r' = res_version r + 1"
    "db_resources (w_db w') = AList.update (res_id r) r' (db_resources (w_db w))"
    "db_outbox (w_db w') = db_outbox (w_db w)" "w_reservations w' = w_reservations w"
proof -
  from assms obtain r where r: "store_get (w_db w) ''execution_command'' i owner = Some r"
    by (auto simp: lease_command_def split: option.splits)
  have st: "res_state r \<in> {''QUEUED'', ''AUTHORIZED''}"
    using assms r by (auto simp: lease_command_def split: if_splits)
  obtain d where d: "as_command (res_data r) = Inr d"
    using assms r st by (auto simp: lease_command_def)
  then have doc: "res_data r = CommandDoc d" by (auto elim: as_command_InrE)
  obtain q where u: "w_update now w r (CommandDoc (d\<lparr>cd_command := (cd_command d)\<lparr>cm_state := DISPATCHING\<rparr>,
        cd_lease := Some (worker, now + seconds (max 5 n)), cd_attempt_count := cd_attempt_count d + 1\<rparr>))
      ''DISPATCHING'' (Some (res_version r)) None ''execution.command.leased''
      (Some [(''worker_id'', worker), (''lease_expires_at'', int_str (now + seconds (max 5 n)))]) = Inr (w', q)"
      "r' = q"
    using assms r st d by (auto simp: lease_command_def Let_def)
  note U = w_update_InrD[OF u(1)]
  show thesis by (rule that[OF r st doc]) (simp_all add: U u(2))
qed

text \<open>A command row that is neither queued nor authorized is never sent.\<close>

lemma lease_none:
  assumes "store_get (w_db w) ''execution_command'' i owner = Some r" and "res_state r \<notin> {''QUEUED'', ''AUTHORIZED''}"
  shows "lease_command now w owner i worker n = Inr (w, None)"
  using assms by (simp add: lease_command_def)

lemma send_leased_cases:
  assumes "send_leased rt client now w owner q plan_record plan auth = (calls, result)" and "calls \<noteq> []"
  obtains d c secret outcome where "res_data q = CommandDoc d"
    "find_connection rt w owner MT5_BRIDGE = Inr (Some c)" "rc_secret c = Some secret"
    "dispatch (rt_request_digest rt) (rt_response_digest rt) now (cd_command d) auth
       (client (config (rc_profile c) ''bridge_url'') secret) = Inr (outcome, calls)"
    "result = record_outcome now w owner q (cd_lease d) plan_record plan outcome"
proof -
  define m where "m = rbind (as_command (res_data q)) (\<lambda>d.
           rbind (find_connection rt w owner MT5_BRIDGE) (\<lambda>found.
           rbind (required (case found of None \<Rightarrow> None | Some c \<Rightarrow>
                     (case rc_secret c of None \<Rightarrow> None | Some s \<Rightarrow> Some (rc_profile c, s)))
                   (RuntimeError ''active MT5 Bridge connection and HMAC secret are required'')) (\<lambda>(profile, secret).
           rbind (dispatch (rt_request_digest rt) (rt_response_digest rt) now (cd_command d) auth
                    (client (config profile ''bridge_url'') secret)) (\<lambda>(outcome, calls).
           Inr (d, outcome, calls)))))"
  from assms obtain d outcome where m: "m = Inr (d, outcome, calls)"
    and res: "result = record_outcome now w owner q (cd_lease d) plan_record plan outcome"
    unfolding send_leased_def m_def[symmetric] by (auto split: sum.splits prod.splits)
  from m obtain found profile secret where f: "as_command (res_data q) = Inr d"
    "find_connection rt w owner MT5_BRIDGE = Inr found"
    "(case found of None \<Rightarrow> None | Some c \<Rightarrow> (case rc_secret c of None \<Rightarrow> None | Some s \<Rightarrow> Some (rc_profile c, s)))
       = Some (profile, secret)"
    "dispatch (rt_request_digest rt) (rt_response_digest rt) now (cd_command d) auth
       (client (config profile ''bridge_url'') secret) = Inr (outcome, calls)"
    unfolding m_def by auto
  from f(3) obtain c where "found = Some c" "rc_secret c = Some secret" "rc_profile c = profile"
    by (auto split: option.splits)
  with f res show thesis by (intro that[of d c secret outcome]) (auto elim: as_command_InrE)
qed

text \<open>A dispatch that calls the broker went through every check, on the rows it started from.\<close>

lemma dispatch_task_cases:
  assumes "dispatch_task rt client now w owner i worker = (calls, result)" and "calls \<noteq> []"
  obtains r plan_record plan auth w1 q where
    "store_get (w_db w) ''execution_command'' i owner = Some r"
    "dispatchable now w owner r = Inr (plan_record, plan, auth)"
    "lease_command now w owner i worker 30 = Inr (w1, Some q)"
    "send_leased rt client now w1 owner q plan_record plan auth = (calls, result)"
proof -
  from assms obtain r where r: "store_get (w_db w) ''execution_command'' i owner = Some r"
    by (auto simp: dispatch_task_def split: option.splits)
  have fin: "res_state r \<notin> set final_command_states" using assms r by (auto simp: dispatch_task_def)
  obtain t where t: "dispatchable now w owner r = Inr t"
    using assms r fin by (cases "dispatchable now w owner r") (auto simp: dispatch_task_def)
  obtain plan_record plan auth where t3: "t = (plan_record, plan, auth)" by (cases t)
  obtain l where l: "lease_command now w owner i worker 30 = Inr l"
    using assms r fin t t3 by (cases "lease_command now w owner i worker 30") (auto simp: dispatch_task_def)
  obtain w1 q where "l = (w1, Some q)"
    using assms r fin t t3 l by (cases l; cases "snd l") (auto simp: dispatch_task_def)
  with assms r fin t t3 l show thesis by (intro that[of r plan_record plan auth w1 q]) (auto simp: dispatch_task_def)
qed

lemma dispatchable_InrD:
  assumes "dispatchable now w owner r = Inr (plan_record, plan, auth)"
  obtains d plan_id b perms pk ak where "res_data r = CommandDoc d" "cm_trade_plan_id (cd_command d) = Some plan_id"
    "store_get (w_db w) ''trade_plan'' plan_id owner = Some plan_record" "res_data plan_record = PlanDoc plan"
    "tp_authorization plan = Some auth"
    "current_broker_snapshot now w owner (cm_account_id (cd_command d)) = Inr b"
    "current_permissions w owner (cm_account_id (cd_command d)) = Inr perms"
    "current_kill_switches w owner (cm_account_id (cd_command d)) = Inr (pk, ak)"
    "assert_command_authority now (cd_command d) auth plan perms pk ak = Inr ()"
proof -
  from assms obtain d plan_id b perms pk ak where f: "as_command (res_data r) = Inr d"
    "cm_trade_plan_id (cd_command d) = Some plan_id"
    "store_get (w_db w) ''trade_plan'' plan_id owner = Some plan_record" "as_plan (res_data plan_record) = Inr plan"
    "tp_authorization plan = Some auth"
    "current_broker_snapshot now w owner (cm_account_id (cd_command d)) = Inr b"
    "current_permissions w owner (cm_account_id (cd_command d)) = Inr perms"
    "current_kill_switches w owner (cm_account_id (cd_command d)) = Inr (pk, ak)"
    "assert_command_authority now (cd_command d) auth plan perms pk ak = Inr ()"
    unfolding dispatchable_def Let_def by (auto elim!: rbind_InrE)
  moreover have "res_data r = CommandDoc d" using f(1) by (auto elim: as_command_InrE)
  moreover have "res_data plan_record = PlanDoc plan" using f(4) by (auto elim: as_plan_InrE split: if_splits)
  ultimately show thesis by (intro that)
qed

text \<open>What recording an outcome writes.\<close>

lemma record_outcome_InrD:
  assumes "record_outcome now w owner q lease p plan outcome = Inr (w', reply)" and "res_id p \<noteq> res_id q"
  obtains u where "map_of (db_resources (w_db w')) (res_id q) = Some u"
    "res_data u = CommandDoc \<lparr>cd_command = outcome, cd_lease = lease, cd_attempt_count = 0\<rparr>"
    "res_state u = command_state_value (cm_state outcome)" "res_kind u = res_kind q" "res_owner u = res_owner q"
    "res_id u = res_id q" "reply = Sent (res_state u)" "res_version u = res_version q + 1"
    "settle_reservation now (w_reservations w) owner plan outcome = Inr (w_reservations w')"
proof -
  from assms(1) obtain w1 u t where
    u: "w_update now w q (CommandDoc \<lparr>cd_command = outcome, cd_lease = lease, cd_attempt_count = 0\<rparr>)
        (command_state_value (cm_state outcome)) None None
        (''execution.command.'' @ str_lower (command_state_value (cm_state outcome)))
        (Some [(''outcome_certainty'', certainty_value (cm_outcome_certainty outcome)),
               (''broker_order_id'', or_text (cm_broker_order_id outcome) ''null'')]) = Inr (w1, u)"
    and t: "settle_reservation now (w_reservations w1) owner plan outcome = Inr t"
    and rest: "(if cm_state outcome = ACKNOWLEDGED \<and> tp_state plan = TP_EXECUTION_PENDING
      then rbind (w_update now (w1\<lparr>w_reservations := t\<rparr>) p
                   (PlanDoc (plan\<lparr>tp_state := TP_EXECUTING, tp_version := tp_version plan + 1\<rparr>))
                   (plan_state_value TP_EXECUTING) None None ''trade_plan.executing'' None) (\<lambda>(w3, _).
          Inr (w3, Sent (res_state u)))
      else Inr (w1\<lparr>w_reservations := t\<rparr>, Sent (res_state u))) = Inr (w', reply)"
    unfolding record_outcome_def Let_def by (auto elim!: rbind_InrE)
  note U = w_update_InrD[OF u]
  have row: "map_of (db_resources (w_db w1)) (res_id q) = Some u" using U(1,8) by simp
  have r: "w_reservations w1 = w_reservations w" using U(10) .
  show thesis
  proof (cases "cm_state outcome = ACKNOWLEDGED \<and> tp_state plan = TP_EXECUTION_PENDING")
    case True
    with rest obtain w3 v where v: "w_update now (w1\<lparr>w_reservations := t\<rparr>) p
          (PlanDoc (plan\<lparr>tp_state := TP_EXECUTING, tp_version := tp_version plan + 1\<rparr>))
          (plan_state_value TP_EXECUTING) None None ''trade_plan.executing'' None = Inr (w3, v)"
      and w': "w' = w3" "reply = Sent (res_state u)" by (auto elim!: rbind_InrE)
    note V = w_update_InrD[OF v]
    have "map_of (db_resources (w_db w')) (res_id q) = Some u" using V(8) row assms(2) w' by simp
    then show thesis by (rule that) (use U w' V(10) t r in simp_all)
  next
    case False
    with rest have w': "w' = w1\<lparr>w_reservations := t\<rparr>" "reply = Sent (res_state u)" by auto
    have "map_of (db_resources (w_db w')) (res_id q) = Some u" using row w' by simp
    then show thesis by (rule that) (use U w' t r in simp_all)
  qed
qed

text \<open>What no dispatch changes of a stored command, and what every call it makes carries.\<close>

definition same_intent :: "execution_command \<Rightarrow> execution_command \<Rightarrow> bool" where
  "same_intent c d \<longleftrightarrow> cm_id d = cm_id c \<and> cm_idempotency_key d = cm_idempotency_key c
     \<and> cm_postcondition d = cm_postcondition c \<and> cm_action d = cm_action c"

lemma same_intent_refl [simp]: "same_intent c c"
  by (simp add: same_intent_def)

lemma same_intent_trans: "same_intent c d \<Longrightarrow> same_intent d e \<Longrightarrow> same_intent c e"
  by (simp add: same_intent_def)

lemma send_command_intent:
  assumes "send_command rq rs now d auth adapter = (c', calls)"
  shows "same_intent d c'"
  using assms by (auto simp: send_command_def same_intent_def Let_def split: sum.splits if_splits)

text \<open>The dispatch of a leased command makes one call and leaves a settled command.\<close>

lemma dispatch_leased:
  assumes "dispatch rq rs now c auth adapter = Inr (c', calls)" and "cm_state c = DISPATCHING"
  obtains call where "calls = [call]" "same_intent c (bc_command call)" "same_intent c c'"
    "bc_method call = adapter_call (cm_action c)" "bc_authorization call = auth"
    "cm_state c' \<in> {ACKNOWLEDGED, OUTCOME_UNKNOWN, REJECTED}"
    "cm_state c' = OUTCOME_UNKNOWN \<longleftrightarrow> (\<exists>exc. adapter call = Inl exc)"
    "cm_state c' = REJECTED \<longleftrightarrow> (\<exists>r. adapter call = Inr r \<and> rs_rejected r)"
proof -
  have s: "send_command rq rs now c auth adapter = (c', calls)"
    using assms by (simp add: dispatch_def advance_def)
  show thesis
  proof (rule send_command_cases[OF s])
    fix call assume f: "calls = [call]" "bc_method call = adapter_call (cm_action c)"
      "bc_authorization call = auth" "cm_state c' \<in> {ACKNOWLEDGED, OUTCOME_UNKNOWN, REJECTED}"
      "cm_state c' = OUTCOME_UNKNOWN \<longleftrightarrow> (\<exists>exc. adapter call = Inl exc)"
      "cm_state c' = REJECTED \<longleftrightarrow> (\<exists>r. adapter call = Inr r \<and> rs_rejected r)"
    have "same_intent c (bc_command call)"
      using s f(1) by (auto simp: send_command_def same_intent_def Let_def split: sum.splits)
    with f send_command_intent[OF s] show thesis by (intro that)
  qed
qed

lemma settled_value: "c \<in> {ACKNOWLEDGED, OUTCOME_UNKNOWN, REJECTED} \<Longrightarrow>
    command_state_value c \<notin> {''QUEUED'', ''AUTHORIZED''}"
  by auto

lemma dispatch_task_settled:
  assumes "store_get (w_db w) ''execution_command'' i owner = Some r" and "res_state r \<notin> {''QUEUED'', ''AUTHORIZED''}"
  shows "fst (dispatch_task rt client now w owner i worker) = []"
    "committed w (snd (dispatch_task rt client now w owner i worker)) = w"
  using assms
  by (auto simp: dispatch_task_def committed_def lease_none split: sum.splits)

lemma send_leased_no_calls:
  assumes "send_leased rt client now w owner q p plan auth = ([], result)"
    and "res_data q = CommandDoc d" and "cm_state (cd_command d) = DISPATCHING"
  shows "\<exists>e. result = Inl e"
proof (rule ccontr)
  assume "\<nexists>e. result = Inl e"
  with assms(1,2) obtain outcome adapter where
    "dispatch (rt_request_digest rt) (rt_response_digest rt) now (cd_command d) auth adapter = Inr (outcome, [])"
    by (auto simp: send_leased_def split: sum.splits prod.splits)
  then show False by (rule dispatch_leased[OF _ assms(3)]) auto
qed

lemma lease_None_same:
  "lease_command now w owner i worker n = Inr (w1, None) \<Longrightarrow> w1 = w"
  by (auto simp: lease_command_def Let_def split: option.splits if_splits)

lemma dispatch_task_silent:
  assumes "dispatch_task rt client now w owner i worker = ([], result)"
  shows "committed w result = w"
proof (cases result)
  case (Inr x)
  then obtain w' reply where x: "result = Inr (w', reply)" by (cases x) auto
  with assms obtain r where r: "store_get (w_db w) ''execution_command'' i owner = Some r"
    by (auto simp: dispatch_task_def split: option.splits)
  show ?thesis
  proof (cases "res_state r \<in> set final_command_states")
    case False
    with assms x r obtain t where t: "dispatchable now w owner r = Inr t"
      by (cases "dispatchable now w owner r") (auto simp: dispatch_task_def)
    obtain p plan auth where t3: "t = (p, plan, auth)" by (cases t)
    from assms x r False t t3 obtain l where l: "lease_command now w owner i worker 30 = Inr l"
      by (cases "lease_command now w owner i worker 30") (auto simp: dispatch_task_def)
    obtain w1 m where m: "l = (w1, m)" by (cases l)
    show ?thesis
    proof (cases m)
      case None
      with l m lease_None_same have "w1 = w" by auto
      with assms x r False t t3 l m None show ?thesis by (auto simp: dispatch_task_def committed_def)
    next
      case (Some q)
      from l[unfolded m Some] obtain d where
        q: "res_data q = CommandDoc (d\<lparr>cd_command := (cd_command d)\<lparr>cm_state := DISPATCHING\<rparr>,
            cd_lease := Some (worker, now + seconds (max 5 30)), cd_attempt_count := cd_attempt_count d + 1\<rparr>)"
        by (rule lease_command_InrD)
      from assms r False t t3 l m Some have "send_leased rt client now w1 owner q p plan auth = ([], result)"
        by (simp add: dispatch_task_def)
      from send_leased_no_calls[OF this q] x show ?thesis by simp
    qed
  qed (use assms x r in \<open>auto simp: dispatch_task_def committed_def\<close>)
qed (simp add: committed_def)

lemma dispatch_task_row:
  assumes "store_get (w_db w) ''execution_command'' i owner = Some r" and "res_data r = CommandDoc d"
    and "store_inv (w_db w)" and "dispatch_task rt client now w owner i worker = (calls, result)"
  obtains r' d' where "store_get (w_db (committed w result)) ''execution_command'' i owner = Some r'"
    "res_data r' = CommandDoc d'" "same_intent (cd_command d) (cd_command d')"
    "\<forall>call \<in> set calls. same_intent (cd_command d) (bc_command call)
       \<and> bc_method call = adapter_call (cm_action (cd_command d))" "length calls \<le> 1"
    "(\<not> is_ok result \<or> calls = []) \<and> committed w result = w \<and> r' = r
       \<or> length calls = 1 \<and> res_state r' \<notin> {''QUEUED'', ''AUTHORIZED''}"
proof (cases "calls = []")
  case True
  with dispatch_task_silent assms(4) have "committed w result = w" by auto
  with assms(1,2) True show thesis by (intro that[of r d]) auto
next
  case False
  obtain r0 p plan auth w1 q where r0: "store_get (w_db w) ''execution_command'' i owner = Some r0"
    and dp: "dispatchable now w owner r0 = Inr (p, plan, auth)"
    and l: "lease_command now w owner i worker 30 = Inr (w1, Some q)"
    and s: "send_leased rt client now w1 owner q p plan auth = (calls, result)"
    using dispatch_task_cases[OF assms(4) False] by metis
  have "r0 = r" using r0 assms(1) by simp
  obtain r1 d1 where L: "store_get (w_db w) ''execution_command'' i owner = Some r1" "res_data r1 = CommandDoc d1"
      "res_data q = CommandDoc (d1\<lparr>cd_command := (cd_command d1)\<lparr>cm_state := DISPATCHING\<rparr>,
        cd_lease := Some (worker, now + seconds (max 5 30)), cd_attempt_count := cd_attempt_count d1 + 1\<rparr>)"
      "res_id q = res_id r1" "res_owner q = res_owner r1" "res_kind q = res_kind r1"
      "db_resources (w_db w1) = AList.update (res_id r1) q (db_resources (w_db w))"
    using lease_command_InrD[OF l] by metis
  have d1: "d1 = d" "r1 = r" using L(1,2) assms(1,2) by auto
  obtain dq and c :: resolved_connection and secret outcome where S: "res_data q = CommandDoc dq" "rc_secret c = Some secret"
    "dispatch (rt_request_digest rt) (rt_response_digest rt) now (cd_command dq) auth
       (client (config (rc_profile c) ''bridge_url'') secret) = Inr (outcome, calls)"
    "result = record_outcome now w1 owner q (cd_lease dq) p plan outcome"
    by (rule send_leased_cases[OF s False])
  have dq: "cd_command dq = (cd_command d)\<lparr>cm_state := DISPATCHING\<rparr>"
    using S(1) L(3) d1 by (auto dest!: sym[of _ dq])
  then have qd: "same_intent (cd_command d) (cd_command dq)" "cm_state (cd_command dq) = DISPATCHING"
    by (simp_all add: same_intent_def)
  obtain call where call: "calls = [call]" "same_intent (cd_command dq) (bc_command call)"
    "same_intent (cd_command dq) outcome" "bc_method call = adapter_call (cm_action (cd_command dq))"
    "cm_state outcome \<in> {ACKNOWLEDGED, OUTCOME_UNKNOWN, REJECTED}"
    using dispatch_leased[OF S(3) qd(2)] by metis
  have intents: "same_intent (cd_command d) outcome" "same_intent (cd_command d) (bc_command call)"
    "bc_method call = adapter_call (cm_action (cd_command d))"
    using same_intent_trans[OF qd(1)] call(2-4) qd(1) by (auto simp: same_intent_def)
  have ids: "res_id r = i" "res_kind r = ''execution_command''" "res_owner r = owner"
    using store_get_id[OF assms(3,1)] assms(1) by (simp_all add: store_get_iff)
  show thesis
  proof (cases result)
    case (Inl e)
    with assms(1,2) call(1) intents show thesis by (intro that[of r d]) (auto simp: committed_def)
  next
    case (Inr x)
    then obtain w' reply where x: "result = Inr (w', reply)" by (cases x) auto
    obtain plan_id where "store_get (w_db w) ''trade_plan'' plan_id owner = Some p"
      using dispatchable_InrD[OF dp] by metis
    then have "res_kind p = ''trade_plan''" "map_of (db_resources (w_db w)) plan_id = Some p" "res_id p = plan_id"
      using store_get_id[OF assms(3)] by (auto simp: store_get_iff)
    then have "res_id p \<noteq> res_id q" using assms(1) L(4) d1 ids by (auto simp: store_get_iff)
    from record_outcome_InrD[OF S(4)[unfolded x, symmetric] this] obtain u where
      u: "map_of (db_resources (w_db w')) (res_id q) = Some u"
        "res_data u = CommandDoc \<lparr>cd_command = outcome, cd_lease = cd_lease dq, cd_attempt_count = 0\<rparr>"
        "res_state u = command_state_value (cm_state outcome)" "res_kind u = res_kind q" "res_owner u = res_owner q"
      by metis
    have "store_get (w_db (committed w result)) ''execution_command'' i owner = Some u"
      using u L d1 ids by (simp add: x committed_def store_get_iff)
    then show thesis
      by (rule that[of u "\<lparr>cd_command = outcome, cd_lease = cd_lease dq, cd_attempt_count = 0\<rparr>"])
         (use u(2,3) intents call(1,5) in auto)
  qed
qed

text \<open>The store stays well formed.\<close>

lemma lease_inv:
  assumes "lease_command now w owner i worker n = Inr (w', r)" and "store_inv (w_db w)"
  shows "store_inv (w_db w')" "\<And>q. r = Some q \<Longrightarrow> 1 \<le> res_version q"
proof -
  have "store_inv (w_db w') \<and> (\<forall>q. r = Some q \<longrightarrow> 1 \<le> res_version q)"
  proof (cases r)
    case None
    then show ?thesis using lease_None_same assms by blast
  next
    case (Some q)
    then obtain r0 data ev where r0: "store_get (w_db w) ''execution_command'' i owner = Some r0"
      and u: "w_update now w r0 data ''DISPATCHING'' (Some (res_version r0)) None ''execution.command.leased'' ev
        = Inr (w', q)"
      using assms(1) by (auto simp: lease_command_def Let_def split: option.splits if_splits)
    have v: "1 \<le> res_version r0" by (rule store_get_id(2)[OF assms(2) r0])
    show ?thesis using w_update_inv[OF u assms(2) v] w_update_InrD(4)[OF u] v Some by simp
  qed
  then show "store_inv (w_db w')" "\<And>q. r = Some q \<Longrightarrow> 1 \<le> res_version q" by blast+
qed

lemma record_outcome_inv:
  assumes "record_outcome now w owner q lease p plan outcome = Inr (w', reply)"
    and "store_inv (w_db w)" and "1 \<le> res_version q" and "1 \<le> res_version p"
  shows "store_inv (w_db w')"
proof -
  from assms(1) obtain w1 u t data st ev nm where
    u: "w_update now w q data st None None nm ev = Inr (w1, u)"
    and rest: "(if cm_state outcome = ACKNOWLEDGED \<and> tp_state plan = TP_EXECUTION_PENDING
      then rbind (w_update now (w1\<lparr>w_reservations := t\<rparr>) p
                   (PlanDoc (plan\<lparr>tp_state := TP_EXECUTING, tp_version := tp_version plan + 1\<rparr>))
                   (plan_state_value TP_EXECUTING) None None ''trade_plan.executing'' None) (\<lambda>(w3, _).
          Inr (w3, Sent (res_state u)))
      else Inr (w1\<lparr>w_reservations := t\<rparr>, Sent (res_state u))) = Inr (w', reply)"
    unfolding record_outcome_def Let_def by (auto elim!: rbind_InrE)
  have i1: "store_inv (w_db (w1\<lparr>w_reservations := t\<rparr>))" using w_update_inv[OF u assms(2,3)] by simp
  show ?thesis
  proof (cases "cm_state outcome = ACKNOWLEDGED \<and> tp_state plan = TP_EXECUTION_PENDING")
    case True
    with rest obtain v where "w_update now (w1\<lparr>w_reservations := t\<rparr>) p
          (PlanDoc (plan\<lparr>tp_state := TP_EXECUTING, tp_version := tp_version plan + 1\<rparr>))
          (plan_state_value TP_EXECUTING) None None ''trade_plan.executing'' None = Inr (w', v)"
      by (auto elim!: rbind_InrE)
    from w_update_inv[OF this i1 assms(4)] show ?thesis .
  qed (use rest i1 in auto)
qed

lemma dispatch_task_inv:
  assumes "dispatch_task rt client now w owner i worker = (calls, result)" and "store_inv (w_db w)"
  shows "store_inv (w_db (committed w result))"
proof (cases "calls = []")
  case True
  with assms dispatch_task_silent show ?thesis by metis
next
  case False
  obtain r p plan auth w1 q where dp: "dispatchable now w owner r = Inr (p, plan, auth)"
    and l: "lease_command now w owner i worker 30 = Inr (w1, Some q)"
    and s: "send_leased rt client now w1 owner q p plan auth = (calls, result)"
    using dispatch_task_cases[OF assms(1) False] by metis
  obtain plan_id where p: "store_get (w_db w) ''trade_plan'' plan_id owner = Some p"
    using dispatchable_InrD[OF dp] by metis
  obtain lease outcome where "result = record_outcome now w1 owner q lease p plan outcome"
    by (rule send_leased_cases[OF s False])
  with record_outcome_inv[OF _ lease_inv(1)[OF l assms(2)] lease_inv(2)[OF l assms(2) refl]
      store_get_id(2)[OF assms(2) p]] assms(2)
  show ?thesis by (auto simp: committed_def split: sum.splits prod.splits)
qed

section \<open>Redelivery\<close>

text \<open>
  A message queue may deliver a dispatch again: a run of dispatches of one command, each on the tables the
  one before committed, and the calls that left the process, committed or not.
\<close>

type_synonym attempt = "runtime \<times> (string \<Rightarrow> string \<Rightarrow> broker_adapter) \<times> timestamp \<times> string"

fun redeliver :: "attempt list \<Rightarrow> world \<Rightarrow> uuid \<Rightarrow> uuid \<Rightarrow> (broker_call \<times> bool) list \<times> world" where
  "redeliver [] w owner i = ([], w)"
| "redeliver ((rt, client, now, worker) # as) w owner i =
     (let (calls, result) = dispatch_task rt client now w owner i worker;
          (later, w') = redeliver as (committed w result) owner i
      in (map (\<lambda>c. (c, is_ok result)) calls @ later, w'))"

text \<open>What the bridge makes of the calls: each becomes a command it enqueues, or is refused.\<close>

definition bridge_receive :: "broker_call \<Rightarrow> bridge_queue \<Rightarrow> bridge_queue" where
  "bridge_receive call q =
     (case rbind (client_command call) (queue_enqueue q) of Inl e \<Rightarrow> q | Inr (q', _) \<Rightarrow> q')"

lemma redeliver_settled:
  assumes "store_get (w_db w) ''execution_command'' i owner = Some r" and "res_state r \<notin> {''QUEUED'', ''AUTHORIZED''}"
  shows "redeliver as w owner i = ([], w)"
proof (induction as)
  case (Cons a as)
  obtain rt client now worker where a: "a = (rt, client, now, worker)" by (cases a)
  obtain calls result where t: "dispatch_task rt client now w owner i worker = (calls, result)"
    by (cases "dispatch_task rt client now w owner i worker")
  from dispatch_task_settled[OF assms, of rt client now worker] t Cons a show ?case by simp
qed simp

lemma redeliver_run:
  assumes "store_get (w_db w) ''execution_command'' i owner = Some r" and "res_data r = CommandDoc d"
    and "store_inv (w_db w)" and "redeliver as w owner i = (sent, w')"
  shows "length (filter snd sent) \<le> 1"
    and "\<forall>(call, ok) \<in> set sent. same_intent (cd_command d) (bc_command call)
          \<and> bc_method call = adapter_call (cm_action (cd_command d))"
proof -
  have "length (filter snd sent) \<le> 1 \<and> (\<forall>(call, ok) \<in> set sent. same_intent (cd_command d) (bc_command call)
          \<and> bc_method call = adapter_call (cm_action (cd_command d)))"
    using assms
  proof (induction as arbitrary: w r d sent w')
    case (Cons a as)
    obtain rt client now worker where a: "a = (rt, client, now, worker)" by (cases a)
    obtain calls result where t: "dispatch_task rt client now w owner i worker = (calls, result)"
      by (cases "dispatch_task rt client now w owner i worker")
    obtain later w2 where later: "redeliver as (committed w result) owner i = (later, w2)"
      by (cases "redeliver as (committed w result) owner i")
    have sent: "sent = map (\<lambda>c. (c, is_ok result)) calls @ later"
      using Cons.prems(4) a t later by simp
    obtain r' d' where row: "store_get (w_db (committed w result)) ''execution_command'' i owner = Some r'"
      "res_data r' = CommandDoc d'" "same_intent (cd_command d) (cd_command d')"
      and calls: "\<forall>call \<in> set calls. same_intent (cd_command d) (bc_command call)
         \<and> bc_method call = adapter_call (cm_action (cd_command d))" "length calls \<le> 1"
      and st: "(\<not> is_ok result \<or> calls = []) \<and> committed w result = w \<and> r' = r
         \<or> length calls = 1 \<and> res_state r' \<notin> {''QUEUED'', ''AUTHORIZED''}"
      using dispatch_task_row[OF Cons.prems(1-3) t] by metis
    note IH = Cons.IH[OF row(1,2) dispatch_task_inv[OF t Cons.prems(3)] later]
    have intents: "\<forall>(call, ok) \<in> set sent. same_intent (cd_command d) (bc_command call)
          \<and> bc_method call = adapter_call (cm_action (cd_command d))"
      using IH calls(1) row(3) by (auto simp: sent same_intent_def)
    have "length (filter snd sent) \<le> 1"
    proof (cases "is_ok result \<and> calls \<noteq> []")
      case True
      with st have "res_state r' \<notin> {''QUEUED'', ''AUTHORIZED''}" by blast
      from redeliver_settled[OF row(1) this] later have "later = []" by simp
      with calls(2) show ?thesis by (auto simp: sent intro: order_trans[OF length_filter_le])
    next
      case False
      with IH show ?thesis by (auto simp: sent filter_empty_conv)
    qed
    with intents show ?case by blast
  qed simp
  then show "length (filter snd sent) \<le> 1"
    and "\<forall>(call, ok) \<in> set sent. same_intent (cd_command d) (bc_command call)
          \<and> bc_method call = adapter_call (cm_action (cd_command d))" by blast+
qed

lemma bridge_receive_pending:
  "bq_pending (bridge_receive call q) = bq_pending q \<or>
   ((\<forall>c \<in> set (dvalues (bq_pending q)). bc_idempotency_key c \<noteq> cm_idempotency_key (bc_command call))
    \<and> (\<exists>c. client_command call = Inr c \<and> bc_idempotency_key c = cm_idempotency_key (bc_command call)
         \<and> bq_pending (bridge_receive call q) = AList.update (bc_command_id c) c (bq_pending q)))"
proof (cases "client_command call")
  case (Inr c)
  then have k: "bc_idempotency_key c = cm_idempotency_key (bc_command call)"
    by (auto simp: client_command_def Let_def)
  show ?thesis
  proof (cases "first_match (\<lambda>e. bc_idempotency_key e = bc_idempotency_key c) (dvalues (bq_pending q))")
    case None
    then have "bq_pending (bridge_receive call q) = AList.update (bc_command_id c) c (bq_pending q)"
      by (simp add: bridge_receive_def queue_enqueue_def Inr)
    with None Inr k show ?thesis by (auto simp: first_match_None_iff)
  next
    case (Some e)
    with Inr show ?thesis by (auto simp: bridge_receive_def queue_enqueue_def)
  qed
qed (simp add: bridge_receive_def)

lemma dvalues_update_mem: "v \<in> set (dvalues (AList.update k v d))"
  by (induction d) auto

lemma bridge_receive_all:
  assumes "\<forall>call \<in> set calls. same_intent c (bc_command call)"
  shows "bq_pending (fold bridge_receive calls q) = bq_pending q \<or>
    (\<exists>call \<in> set calls. \<exists>b. client_command call = Inr b
       \<and> bq_pending (fold bridge_receive calls q) = AList.update (bc_command_id b) b (bq_pending q))"
  using assms
proof (induction calls rule: rev_induct)
  case (snoc call calls)
  let ?q = "fold bridge_receive calls q"
  have key: "cm_idempotency_key (bc_command call) = cm_idempotency_key c" using snoc.prems by (simp add: same_intent_def)
  from snoc.prems have "\<forall>call \<in> set calls. same_intent c (bc_command call)" by simp
  from snoc.IH[OF this] show ?case
  proof
    assume eq: "bq_pending ?q = bq_pending q"
    with bridge_receive_pending[of call ?q] show ?thesis by auto
  next
    assume "\<exists>e \<in> set calls. \<exists>b. client_command e = Inr b
       \<and> bq_pending ?q = AList.update (bc_command_id b) b (bq_pending q)"
    then obtain e b where e: "e \<in> set calls" "client_command e = Inr b"
      "bq_pending ?q = AList.update (bc_command_id b) b (bq_pending q)" by blast
    then have "b \<in> set (dvalues (bq_pending ?q))" using dvalues_update_mem by metis
    moreover have "bc_idempotency_key b = cm_idempotency_key (bc_command call)"
      using e(1,2) snoc.prems key by (auto simp: client_command_def same_intent_def Let_def)
    ultimately have "bq_pending (bridge_receive call ?q) = bq_pending ?q"
      using bridge_receive_pending[of call ?q] by auto
    with e show ?thesis by auto
  qed
qed simp

text \<open>What remains of a dispatch after its call: the settlement of the plan's reservation.\<close>

lemma record_outcome_error:
  assumes "record_outcome now w owner q lease p plan outcome = Inl e"
  shows "settle_reservation now (w_reservations w) owner plan outcome = Inl e"
proof -
  have ok: "\<exists>w' r'. w_update now w r (CommandDoc c) st None a nm ev = Inr (w', r')
      \<and> w_reservations w' = w_reservations w"
    "\<exists>w' r'. w_update now w r (PlanDoc x) st None a nm ev = Inr (w', r')
      \<and> w_reservations w' = w_reservations w" for w r c x st a nm ev
    by (simp_all add: w_update_def store_update_def Let_def)
  obtain w1 u where u: "w_update now w q (CommandDoc \<lparr>cd_command = outcome, cd_lease = lease, cd_attempt_count = 0\<rparr>)
        (command_state_value (cm_state outcome)) None None
        (''execution.command.'' @ str_lower (command_state_value (cm_state outcome)))
        (Some [(''outcome_certainty'', certainty_value (cm_outcome_certainty outcome)),
               (''broker_order_id'', or_text (cm_broker_order_id outcome) ''null'')]) = Inr (w1, u)"
      "w_reservations w1 = w_reservations w"
    using ok(1) by metis
  show ?thesis
  proof (cases "settle_reservation now (w_reservations w) owner plan outcome")
    case (Inr t)
    have "\<exists>w3 v. w_update now (w1\<lparr>w_reservations := t\<rparr>) p
          (PlanDoc (plan\<lparr>tp_state := TP_EXECUTING, tp_version := tp_version plan + 1\<rparr>))
          (plan_state_value TP_EXECUTING) None None ''trade_plan.executing'' None = Inr (w3, v)"
      using ok(2) by metis
    with assms u Inr show ?thesis by (auto simp: record_outcome_def Let_def split: if_splits)
  qed (use assms u in \<open>simp add: record_outcome_def\<close>)
qed

lemma transition_moves:
  assumes "reservations_transition now t i owner target cmd ord pos amount reason = Inr (t', r')"
  shows "r' \<in> set t'" "rv_id r' = i" "rv_state r' = target"
proof -
  obtain q where q: "q \<in> set t" "rv_id q = i" "rv_id r' = i" "rv_state r' = target" "t' = replace_row t r'"
    by (rule transition_InrD[OF assms]) blast
  then show "r' \<in> set t'" "rv_id r' = i" "rv_state r' = target"
    by (auto simp: replace_row_def image_iff)
qed

lemma transition_refused:
  assumes "reservations_transition now t i owner target cmd ord pos None reason = Inl e" and "reservation_inv t"
    and "q \<in> set t" "rv_id q = i" "rv_owner q = Some owner"
  shows "\<not> is_active q"
proof (cases "first_match (\<lambda>r. rv_id r = i \<and> rv_owner r = Some owner) t")
  case None
  with assms(3-5) show ?thesis by (auto simp: first_match_None_iff)
next
  case (Some r)
  with first_match_SomeD[OF Some] assms(2-4) have "r = q"
    by (auto simp: reservation_inv_def distinct_map inj_on_def)
  with assms(1) Some show ?thesis
    by (auto simp: reservations_transition_def Let_def active_iff rbind_eq_Inl_iff)
qed

definition settled_state :: "command_state \<Rightarrow> reservation_state" where
  "settled_state s = (if s = REJECTED then RELEASED else ORDER_WORKING)"

lemma settle_Inr:
  assumes "settle_reservation now t owner plan outcome = Inr t'" and "tp_reservation_id plan = Some i"
    and "cm_state outcome \<in> {REJECTED, ACKNOWLEDGED}"
  shows "\<exists>rv \<in> set t'. rv_id rv = i \<and> rv_state rv = settled_state (cm_state outcome)"
proof -
  from assms obtain target ord reason r where
    m: "reservations_transition now t i owner target None ord None None reason = Inr (t', r)"
    and "target = settled_state (cm_state outcome)"
    by (auto simp: settle_reservation_def settled_state_def split: if_splits)
  with transition_moves[OF m] show ?thesis by auto
qed

lemma settle_Inl:
  assumes "settle_reservation now t owner plan outcome = Inl e" and "reservation_inv t"
  shows "\<exists>i. tp_reservation_id plan = Some i
    \<and> (\<forall>q \<in> set t. rv_id q = i \<and> rv_owner q = Some owner \<longrightarrow> \<not> is_active q)"
proof -
  from assms(1) obtain i target ord reason where "tp_reservation_id plan = Some i"
    "reservations_transition now t i owner target None ord None None reason = Inl e"
    by (auto simp: settle_reservation_def rbind_eq_Inl_iff split: option.splits if_splits)
  with transition_refused[OF _ assms(2)] show ?thesis by blast
qed

text \<open>A dispatch that called the broker, up to the settlement.\<close>

lemma dispatch_task_sent:
  assumes "dispatch_task rt client now w owner i worker = (calls, result)" and "calls \<noteq> []" and "store_inv (w_db w)"
  obtains r d p plan auth w1 q lease outcome call where
    "store_get (w_db w) ''execution_command'' i owner = Some r" "res_data r = CommandDoc d"
    "store_get (w_db w) ''trade_plan'' (the (cm_trade_plan_id (cd_command d))) owner = Some p"
    "res_data p = PlanDoc plan" "result = record_outcome now w1 owner q lease p plan outcome"
    "w_reservations w1 = w_reservations w" "res_id q = i" "res_id p \<noteq> i"
    "cm_state outcome \<in> {ACKNOWLEDGED, OUTCOME_UNKNOWN, REJECTED}" "calls = [call]"
    "res_kind q = ''execution_command''" "res_owner q = owner"
proof -
  obtain r p plan auth w1 q where r: "store_get (w_db w) ''execution_command'' i owner = Some r"
    and dp: "dispatchable now w owner r = Inr (p, plan, auth)"
    and l: "lease_command now w owner i worker 30 = Inr (w1, Some q)"
    and s: "send_leased rt client now w1 owner q p plan auth = (calls, result)"
    using dispatch_task_cases[OF assms(1,2)] by metis
  obtain r1 d1 where L: "store_get (w_db w) ''execution_command'' i owner = Some r1"
      "res_data q = CommandDoc (d1\<lparr>cd_command := (cd_command d1)\<lparr>cm_state := DISPATCHING\<rparr>,
        cd_lease := Some (worker, now + seconds (max 5 30)), cd_attempt_count := cd_attempt_count d1 + 1\<rparr>)"
      "res_id q = res_id r1" "res_kind q = res_kind r1" "res_owner q = res_owner r1"
      "w_reservations w1 = w_reservations w"
    using lease_command_InrD[OF l] by metis
  obtain d plan_id where D: "res_data r = CommandDoc d" "cm_trade_plan_id (cd_command d) = Some plan_id"
    "store_get (w_db w) ''trade_plan'' plan_id owner = Some p" "res_data p = PlanDoc plan"
    by (rule dispatchable_InrD[OF dp])
  obtain dq and c :: resolved_connection and secret outcome where S: "res_data q = CommandDoc dq"
    "dispatch (rt_request_digest rt) (rt_response_digest rt) now (cd_command dq) auth
       (client (config (rc_profile c) ''bridge_url'') secret) = Inr (outcome, calls)"
    "result = record_outcome now w1 owner q (cd_lease dq) p plan outcome"
    by (rule send_leased_cases[OF s assms(2)])
  have dsp: "cm_state (cd_command dq) = DISPATCHING" using S(1) L(2) by (auto dest!: sym[of _ dq])
  obtain call where call: "calls = [call]" "cm_state outcome \<in> {ACKNOWLEDGED, OUTCOME_UNKNOWN, REJECTED}"
    by (rule dispatch_leased[OF S(2) dsp])
  have ids: "res_id r = i" "res_id p = plan_id" using store_get_id[OF assms(3)] r D(3) by auto
  have kind: "res_kind r = ''execution_command''" "res_owner r = owner"
    using r by (simp_all add: store_get_iff)
  have ne: "res_id p \<noteq> i"
  proof
    assume "res_id p = i"
    with ids(2) D(3) r have "p = r" by (simp add: store_get_iff)
    with kind(1) D(3) show False by (simp add: store_get_iff)
  qed
  have r1: "r1 = r" using L(1) r by simp
  have plan_row: "store_get (w_db w) ''trade_plan'' (the (cm_trade_plan_id (cd_command d))) owner = Some p"
    using D(2,3) by simp
  show thesis
    by (rule that[OF r D(1) plan_row D(4) S(3) L(6) _ ne call(2,1)])
       (simp_all add: L(3-5) r1 ids(1) kind)
qed

text \<open>Leasing a command changes nothing the connection is resolved from.\<close>

lemma find_connection_frame:
  assumes "filter (\<lambda>r. res_kind r = ''connection'' \<and> res_owner r = owner \<and> res_state r \<noteq> ''DELETED'')
        (dvalues (db_resources (w_db w')))
      = filter (\<lambda>r. res_kind r = ''connection'' \<and> res_owner r = owner \<and> res_state r \<noteq> ''DELETED'')
        (dvalues (db_resources (w_db w)))"
    and "same_rows ''connection'' w w'" and "same_rows ''credential'' w w'"
  shows "find_connection rt w' owner provider = find_connection rt w owner provider"
proof -
  have "live_row w' kind i owner = live_row w kind i owner" if "kind \<in> {''connection'', ''credential''}" for kind i
    using that assms(2,3) by (auto simp: live_row_def same_rows_def)
  moreover from this have "connection_secret rt w' owner c = connection_secret rt w owner c" for c
    by (cases c) (simp_all add: connection_secret_def)
  ultimately have "resolve_connection rt w' owner i = resolve_connection rt w owner i" for i
    by (simp add: resolve_connection_def)
  then show ?thesis unfolding find_connection_def assms(1) by (simp split: option.split)
qed

text \<open>A command that passes every check is sent.\<close>

lemma dispatch_task_calls:
  assumes "store_get (w_db w) ''execution_command'' i owner = Some r" and "store_inv (w_db w)"
    and "res_state r \<in> {''QUEUED'', ''AUTHORIZED''}" and "res_data r = CommandDoc d"
    and "dispatchable now w owner r = Inr (p, plan, auth)"
    and "find_connection rt w owner MT5_BRIDGE = Inr (Some c)" and "rc_secret c = Some secret"
  shows "\<exists>call. fst (dispatch_task rt client now w owner i worker) = [call]
    \<and> same_intent (cd_command d) (bc_command call) \<and> bc_method call = adapter_call (cm_action (cd_command d))"
proof -
  let ?d = "d\<lparr>cd_command := (cd_command d)\<lparr>cm_state := DISPATCHING\<rparr>,
        cd_lease := Some (worker, now + seconds 30), cd_attempt_count := cd_attempt_count d + 1\<rparr>"
  obtain w1 q where l: "lease_command now w owner i worker 30 = Inr (w1, Some q)" and q: "res_data q = CommandDoc ?d"
    using assms(1,3,4) by (auto simp: lease_command_def w_update_def store_update_def Let_def)
  obtain r1 where L: "store_get (w_db w) ''execution_command'' i owner = Some r1" "res_kind q = res_kind r1"
    "db_resources (w_db w1) = AList.update (res_id r1) q (db_resources (w_db w))"
    using lease_command_InrD[OF l] by metis
  have r1: "r1 = r" "res_kind r = ''execution_command''" "map_of (db_resources (w_db w)) (res_id r) = Some r"
    using L(1) assms(1) store_get_id(1)[OF assms(2,1)] by (simp_all add: store_get_iff)
  have frame: "same_rows kind w w1" if "kind \<noteq> ''execution_command''" for kind
    by (rule same_rows_write[OF L(3)]) (use that L(2) r1 in auto)
  have "find_connection rt w1 owner MT5_BRIDGE = find_connection rt w owner MT5_BRIDGE"
    by (rule find_connection_frame)
       (unfold L(3), subst filter_dvalues_update, use L(2) r1 frame in auto)
  with assms(6) have c: "find_connection rt w1 owner MT5_BRIDGE = Inr (Some c)" by simp
  let ?ad = "client (config (rc_profile c) ''bridge_url'') secret"
  obtain outcome calls where dsp: "dispatch (rt_request_digest rt) (rt_response_digest rt) now (cd_command ?d) auth ?ad
      = Inr (outcome, calls)"
    using dispatch_eligible[of "cd_command ?d" "rt_request_digest rt" "rt_response_digest rt" now auth ?ad]
    by (auto elim!: is_okE)
  have st: "cm_state (cd_command ?d) = DISPATCHING" by simp
  obtain call where call: "calls = [call]" "same_intent (cd_command ?d) (bc_command call)"
    "bc_method call = adapter_call (cm_action (cd_command ?d))"
    by (rule dispatch_leased[OF dsp st])
  have "fst (send_leased rt client now w1 owner q p plan auth) = [call]"
    using q c assms(7) dsp call(1) by (simp add: send_leased_def)
  moreover have "res_state r \<notin> set final_command_states" using assms(3) by (auto simp: final_command_states_def)
  ultimately have "fst (dispatch_task rt client now w owner i worker) = [call]"
    using assms(1,5) l by (simp add: dispatch_task_def)
  with call(2,3) show ?thesis by (auto simp: same_intent_def)
qed

text \<open>What queueing an entry leaves of the rows of other kinds, and the rows it wrote.\<close>

lemma persist_command_inv:
  assumes "persist_command now w owner c actor = Inr (w', r)" and "store_inv (w_db w)"
  shows "store_inv (w_db w')"
proof -
  consider "w' = w" | w1 e db where "w_create (cm_id c) now w ''execution_command'' owner (new_command_doc c)
      (command_state_value (cm_state c)) (Some (cm_id c)) actor (Some ''execution.command.queued'') = Inr (w1, r)"
      "outbox_add (w_db w1) e = Inr db" "w' = w1\<lparr>w_db := db\<rparr>"
    using assms(1) by (auto simp: persist_command_def split: option.splits if_splits)
  then show ?thesis
  proof cases
    case 2
    from outbox_add_inv[OF 2(2) w_create_inv[OF 2(1) assms(2)]] 2(3) show ?thesis by simp
  qed (use assms(2) in simp)
qed

text \<open>Storing the plan first, if it is new.\<close>

lemma persist_trade_plan_cases:
  assumes "persist_trade_plan fresh now w plan actor = Inr (w1, r)"
  obtains (stored) "w1 = w" "store_get (w_db w) ''trade_plan'' (tp_id plan) (tp_owner_id plan) = Some r"
    | (created) event where "w_create fresh now w ''trade_plan'' (tp_owner_id plan) (PlanDoc plan)
        (plan_state_value (tp_state plan)) (Some (tp_id plan)) actor event = Inr (w1, r)"
  using assms by (auto simp: persist_trade_plan_def split: option.splits)

lemma persist_trade_plan_rows:
  assumes "persist_trade_plan fresh now w plan actor = Inr (w1, r)" and "x \<in> set (dvalues (db_resources (w_db w1)))"
  shows "x \<in> set (dvalues (db_resources (w_db w))) \<or> res_data x = PlanDoc plan"
  using assms(1)
proof (cases rule: persist_trade_plan_cases)
  case (created event)
  note C = w_create_InrD[OF created]
  show ?thesis
    using assms(2) dvalues_update_sub[of "res_id r" r "db_resources (w_db w)"] C(6) by (auto simp: C(9))
qed (use assms(2) in simp)

lemma persist_trade_plan_filter:
  assumes "persist_trade_plan fresh now w plan actor = Inr (w1, r)" and "\<And>x. p x \<Longrightarrow> res_kind x \<noteq> ''trade_plan''"
  shows "filter p (dvalues (db_resources (w_db w1))) = filter p (dvalues (db_resources (w_db w)))"
  using assms(1)
proof (cases rule: persist_trade_plan_cases)
  case (created event)
  note C = w_create_InrD[OF created]
  show ?thesis by (rule filter_write[OF C(9)]) (use assms(2)[of r] C(3,8) in auto)
qed simp

lemma persist_trade_plan_inv:
  assumes "persist_trade_plan fresh now w plan actor = Inr (w1, r)" and "store_inv (w_db w)"
  shows "store_inv (w_db w1)"
  using assms(1) by (cases rule: persist_trade_plan_cases) (use assms(2) w_create_inv in auto)

lemma queued_rows:
  assumes q: "queue_entry env ids now w1 r plan actor key = Inr (w', prec, Some crec)"
    and r: "map_of (db_resources (w_db w1)) (res_id r) = Some r" "res_kind r = ''trade_plan''"
      "res_owner r = tp_owner_id plan"
    and fresh: "\<And>x. x \<in> set (dvalues (db_resources (w_db w1))) \<Longrightarrow> doc_key (res_data x) \<noteq> Some key"
    and ids: "map_of (db_resources (w_db w1)) (ei_command ids) = None" and inv: "store_inv (w_db w1)"
  obtains rv auth perms pk ak where
    "store_inv (w_db w')"
    "res_data prec = PlanDoc (queued_plan ids plan rv auth)"
    "store_get (w_db w') ''trade_plan'' (res_id r) (tp_owner_id plan) = Some prec"
    "store_get (w_db w') ''execution_command'' (ei_command ids) (tp_owner_id plan) = Some crec"
    "res_id crec = ei_command ids" "res_state crec = ''QUEUED''"
    "res_data crec = new_command_doc (queued_command ids now plan auth key)"
    "\<And>kind. kind \<notin> {''trade_plan'', ''execution_command''} \<Longrightarrow> same_rows kind w1 w'"
    "\<And>p. (\<And>x. p x \<Longrightarrow> res_kind x \<notin> {''trade_plan'', ''execution_command''}) \<Longrightarrow>
       filter p (dvalues (db_resources (w_db w'))) = filter p (dvalues (db_resources (w_db w1)))"
    "current_permissions w1 (tp_owner_id plan) (tp_account_id plan) = Inr perms"
    "current_kill_switches w1 (tp_owner_id plan) (tp_account_id plan) = Inr (pk, ak)"
    "rr_decision (tp_risk plan) \<noteq> HARD_BLOCK" "permissions_allow perms PLACE_ORDER"
    "\<not> ks_active pk" "\<not> ks_active ak" "ea_account_id auth = tp_account_id plan"
    "ea_action auth = PLACE_ORDER" "ea_id auth = ei_authorization ids"
    "ea_platform_safety_epoch auth = ks_safety_epoch pk"
    "ea_account_safety_epoch auth = ks_safety_epoch ak" "ea_expires_at auth = now + seconds 60"
  using q
proof (rule queue_entry_facts, goal_cases)
  case (1 t1 rv perms pk ak auth t2 rv2 w3 cr)
  note U = w_update_InrD[OF 1(18)]
  have db3: "db_resources (w_db w3) = AList.update (res_id r) prec (db_resources (w_db w1))" using U(8) by simp
  have p3: "map_of (db_resources (w_db w3)) (res_id r) = Some prec" by (simp add: db3)
  have cr: "cr = crec" using 1(20) by simp
  from 1(19) show ?case
  proof (cases rule: persist_command_InrD)
    case replayed
    then have "crec \<in> set (dvalues (db_resources (w_db w3)))"
      by (force simp: cr dvalues_def dest!: map_of_SomeD)
    then have "crec = prec \<or> crec \<in> set (dvalues (db_resources (w_db w1)))"
      using dvalues_update_sub[of "res_id r" prec "db_resources (w_db w1)"] by (auto simp: db3)
    with replayed(4) fresh U(5) show ?thesis by (auto simp: cr)
  next
    case (created w4)
    note C = w_create_InrD[OF created(1)]
    have ne: "res_id r \<noteq> ei_command ids" using r(1) ids by auto
    have db': "db_resources (w_db w') = AList.update (ei_command ids) crec (db_resources (w_db w3))"
      using C(1,9) created(3) by (simp add: cr)
    have new: "map_of (db_resources (w_db w3)) (ei_command ids) = None" using ids ne by (simp add: db3)
    have f3: "same_rows kind w1 w3" if "kind \<noteq> ''trade_plan''" for kind
      by (rule same_rows_write[OF db3]) (use that U(3) r in auto)
    have f': "same_rows kind w3 w'" if "kind \<noteq> ''execution_command''" for kind
      by (rule same_rows_write[OF db']) (use that C(3) new in \<open>auto simp: cr\<close>)
    show ?thesis
    proof (rule 1(1))
      show "res_data prec = PlanDoc (queued_plan ids plan (rv_id rv) auth)" by (rule U(5))
      show "store_get (w_db w') ''trade_plan'' (res_id r) (tp_owner_id plan) = Some prec"
        using p3 ne U(2,3) r by (simp add: store_get_iff db')
      show "store_get (w_db w') ''execution_command'' (ei_command ids) (tp_owner_id plan) = Some crec"
        using C(2,3) by (simp add: store_get_iff db' cr)
      show "same_rows kind w1 w'" if "kind \<notin> {''trade_plan'', ''execution_command''}" for kind
        using same_rows_trans[OF f3 f'] that by auto
      show "res_id crec = ei_command ids" "res_state crec = ''QUEUED''"
        "res_data crec = new_command_doc (queued_command ids now plan auth key)"
        using C(1,4,6) by (simp_all add: cr)
      show "filter p (dvalues (db_resources (w_db w'))) = filter p (dvalues (db_resources (w_db w1)))"
        if p: "\<And>x. p x \<Longrightarrow> res_kind x \<notin> {''trade_plan'', ''execution_command''}" for p
      proof -
        have "filter p (dvalues (db_resources (w_db w3))) = filter p (dvalues (db_resources (w_db w1)))"
          by (rule filter_write[OF db3]) (use p[of prec] p[of r] U(3) r in auto)
        moreover have "filter p (dvalues (db_resources (w_db w'))) = filter p (dvalues (db_resources (w_db w3)))"
          by (rule filter_write[OF db']) (use p[of crec] C(3) new in \<open>auto simp: cr\<close>)
        ultimately show ?thesis by simp
      qed
      have "store_inv (w_db w3)"
        by (rule w_update_inv[OF 1(18)])
           (use inv store_get_id(2)[OF inv, of "''trade_plan''" "res_id r" "tp_owner_id plan" r] r
             in \<open>simp_all add: store_get_iff\<close>)
      then show "store_inv (w_db w')" using persist_command_inv 1(19) by blast
    qed (fact 1(3-4,7-16))+
  qed
qed

section \<open>Properties\<close>

text \<open>C3: No call leaves without authority: whenever a dispatch calls the broker, also when its transaction
  is rolled back afterwards, the command was queued, its plan carries an authorization of exactly that
  action which has not expired and whose epochs are the current ones, no kill switch is active, the
  action is permitted, the newest broker snapshot is fresh, and the single call is the command's own.\<close>
theorem dispatched_under_current_authority:
  assumes "dispatch_task rt client now w owner i worker = (calls, result)" and "calls \<noteq> []"
  shows "\<exists>r d p plan auth b perms pk ak call. store_get (w_db w) ''execution_command'' i owner = Some r
    \<and> res_state r \<in> {''QUEUED'', ''AUTHORIZED''} \<and> res_data r = CommandDoc d
    \<and> store_get (w_db w) ''trade_plan'' (the (cm_trade_plan_id (cd_command d))) owner = Some p
    \<and> res_data p = PlanDoc plan \<and> tp_authorization plan = Some auth
    \<and> cm_authorization_id (cd_command d) = Some (ea_id auth) \<and> ea_action auth = cm_action (cd_command d)
    \<and> now < ea_expires_at auth \<and> rr_decision (tp_risk plan) \<noteq> HARD_BLOCK
    \<and> current_broker_snapshot now w owner (cm_account_id (cd_command d)) = Inr b
    \<and> current_permissions w owner (cm_account_id (cd_command d)) = Inr perms
    \<and> permissions_allow perms (cm_action (cd_command d))
    \<and> current_kill_switches w owner (cm_account_id (cd_command d)) = Inr (pk, ak)
    \<and> \<not> ks_active pk \<and> \<not> ks_active ak
    \<and> ea_platform_safety_epoch auth = ks_safety_epoch pk \<and> ea_account_safety_epoch auth = ks_safety_epoch ak
    \<and> calls = [call] \<and> bc_method call = adapter_call (cm_action (cd_command d))
    \<and> same_intent (cd_command d) (bc_command call) \<and> bc_authorization call = auth"
proof -
  obtain r p plan auth w1 q where r: "store_get (w_db w) ''execution_command'' i owner = Some r"
    and dp: "dispatchable now w owner r = Inr (p, plan, auth)"
    and l: "lease_command now w owner i worker 30 = Inr (w1, Some q)"
    and s: "send_leased rt client now w1 owner q p plan auth = (calls, result)"
    using dispatch_task_cases[OF assms] by metis
  obtain r1 d1 where L: "store_get (w_db w) ''execution_command'' i owner = Some r1"
      "res_state r1 \<in> {''QUEUED'', ''AUTHORIZED''}" "res_data r1 = CommandDoc d1"
      "res_data q = CommandDoc (d1\<lparr>cd_command := (cd_command d1)\<lparr>cm_state := DISPATCHING\<rparr>,
        cd_lease := Some (worker, now + seconds (max 5 30)), cd_attempt_count := cd_attempt_count d1 + 1\<rparr>)"
    using lease_command_InrD[OF l] by metis
  have r1: "r1 = r" using L(1) r by simp
  obtain d plan_id b perms pk ak where D: "res_data r = CommandDoc d" "cm_trade_plan_id (cd_command d) = Some plan_id"
    "store_get (w_db w) ''trade_plan'' plan_id owner = Some p" "res_data p = PlanDoc plan"
    "tp_authorization plan = Some auth"
    "current_broker_snapshot now w owner (cm_account_id (cd_command d)) = Inr b"
    "current_permissions w owner (cm_account_id (cd_command d)) = Inr perms"
    "current_kill_switches w owner (cm_account_id (cd_command d)) = Inr (pk, ak)"
    "assert_command_authority now (cd_command d) auth plan perms pk ak = Inr ()"
    by (rule dispatchable_InrD[OF dp])
  have d1: "d1 = d" using L(3) D(1) r1 by simp
  obtain dq and c :: resolved_connection and secret outcome where S: "res_data q = CommandDoc dq"
    "dispatch (rt_request_digest rt) (rt_response_digest rt) now (cd_command dq) auth
       (client (config (rc_profile c) ''bridge_url'') secret) = Inr (outcome, calls)"
    by (rule send_leased_cases[OF s assms(2)])
  have dq: "cd_command dq = (cd_command d)\<lparr>cm_state := DISPATCHING\<rparr>"
    using S(1) L(4) d1 by (auto dest!: sym[of _ dq])
  then have dsp: "cm_state (cd_command dq) = DISPATCHING" by simp
  obtain call where call: "calls = [call]" "same_intent (cd_command dq) (bc_command call)"
    "bc_method call = adapter_call (cm_action (cd_command dq))" "bc_authorization call = auth"
    using dispatch_leased[OF S(2) dsp] by metis
  show ?thesis
    using r L(2) r1 D call dq
    by (intro exI[of _ r] exI[of _ d] exI[of _ p] exI[of _ plan] exI[of _ auth] exI[of _ b] exI[of _ perms]
        exI[of _ pk] exI[of _ ak] exI[of _ call]) (simp add: assert_authority_ok_iff same_intent_def)
qed

text \<open>C5: One broker command for one stored command, however often its dispatch is delivered: at most one
  dispatch commits a call, a dispatch that is rolled back after its call repeats the same intent, and
  the bridge, given all the calls, queues at most one command for them.\<close>
theorem redelivery_queues_one_command:
  assumes "store_get (w_db w) ''execution_command'' i owner = Some r" and "res_data r = CommandDoc d"
    and "store_inv (w_db w)" and "redeliver as w owner i = (sent, w')"
  shows "length (filter snd sent) \<le> 1
    \<and> (\<forall>(call, ok) \<in> set sent. cm_postcondition (bc_command call) = cm_postcondition (cd_command d)
         \<and> cm_idempotency_key (bc_command call) = cm_idempotency_key (cd_command d))
    \<and> length (bq_pending (fold bridge_receive (map fst sent) q)) \<le> length (bq_pending q) + 1"
proof -
  note R = redeliver_run[OF assms]
  have "\<forall>call \<in> set (map fst sent). same_intent (cd_command d) (bc_command call)" using R(2) by auto
  from bridge_receive_all[OF this, of q] have "length (bq_pending (fold bridge_receive (map fst sent) q))
      \<le> length (bq_pending q) + 1"
  proof
    assume "\<exists>call \<in> set (map fst sent). \<exists>b. client_command call = Inr b
       \<and> bq_pending (fold bridge_receive (map fst sent) q) = AList.update (bc_command_id b) b (bq_pending q)"
    then obtain b where "bq_pending (fold bridge_receive (map fst sent) q) = AList.update (bc_command_id b) b (bq_pending q)"
      by blast
    moreover have "length (AList.update k v xs) \<le> length xs + 1" for k :: uuid and v :: bridge_command and xs
      by (induction xs) auto
    ultimately show ?thesis by simp
  qed simp
  with R show ?thesis by (auto simp: same_intent_def)
qed

text \<open>C28: The broker's answer moves the reservation of the plan, whatever the action was: after a dispatch
  whose command was rejected the plan's reservation is released, and after one that was acknowledged it
  is waiting for a working order, also when the command was to change or close an open position.\<close>
theorem answer_moves_entry_reservation:
  assumes "dispatch_task rt client now w owner i worker = (calls, Inr (w', Sent st))" and "calls \<noteq> []"
    and "st \<in> {''REJECTED'', ''ACKNOWLEDGED''}" and "store_inv (w_db w)"
    and "store_get (w_db w) ''execution_command'' i owner = Some r" and "res_data r = CommandDoc d"
    and "store_get (w_db w) ''trade_plan'' (the (cm_trade_plan_id (cd_command d))) owner = Some p"
    and "res_data p = PlanDoc plan" and "tp_reservation_id plan = Some rid"
  shows "\<exists>rv \<in> set (w_reservations w'). rv_id rv = rid
    \<and> rv_state rv = (if st = ''REJECTED'' then RELEASED else ORDER_WORKING)"
proof -
  obtain r1 d1 p1 plan1 w1 q lease outcome where S: "store_get (w_db w) ''execution_command'' i owner = Some r1"
    "res_data r1 = CommandDoc d1"
    "store_get (w_db w) ''trade_plan'' (the (cm_trade_plan_id (cd_command d1))) owner = Some p1"
    "res_data p1 = PlanDoc plan1" "Inr (w', Sent st) = record_outcome now w1 owner q lease p1 plan1 outcome"
    "res_id q = i" "res_id p1 \<noteq> i" "cm_state outcome \<in> {ACKNOWLEDGED, OUTCOME_UNKNOWN, REJECTED}"
    by (rule dispatch_task_sent[OF assms(1,2,4)])
  have plan1: "plan1 = plan" using S(1-4) assms(5-8) by auto
  obtain u :: "document resource" where u: "res_state u = command_state_value (cm_state outcome)" "Sent st = Sent (res_state u)"
    "settle_reservation now (w_reservations w1) owner plan1 outcome = Inr (w_reservations w')"
  proof -
    have "res_id p1 \<noteq> res_id q" using S(6,7) by simp
    then show thesis by (rule record_outcome_InrD[OF S(5)[symmetric]]) (rule that)
  qed
  have st: "cm_state outcome = (if st = ''REJECTED'' then REJECTED else ACKNOWLEDGED)"
    using u(1,2) assms(3) S(8) by auto
  from settle_Inr[OF u(3), of rid] plan1 assms(9) st show ?thesis
    by (auto simp: settled_state_def split: if_splits)
qed


text \<open>Queueing touches trade plans and commands only.\<close>

definition other_rows_kept :: "world \<Rightarrow> world \<Rightarrow> bool" where
  "other_rows_kept w w' \<longleftrightarrow> (\<forall>kind. kind \<notin> {''trade_plan'', ''execution_command''} \<longrightarrow> same_rows kind w w')
     \<and> (\<forall>p. (\<forall>x. p x \<longrightarrow> res_kind x \<notin> {''trade_plan'', ''execution_command''}) \<longrightarrow>
          filter p (dvalues (db_resources (w_db w'))) = filter p (dvalues (db_resources (w_db w))))"

lemma persist_trade_plan_other_rows:
  assumes "persist_trade_plan fresh now w plan actor = Inr (w1, r)"
  shows "other_rows_kept w w1"
  unfolding other_rows_kept_def
proof (intro conjI allI impI)
  show "same_rows kind w w1" if "kind \<notin> {''trade_plan'', ''execution_command''}" for kind
    by (rule persist_trade_plan_frame[OF assms]) (use that in simp)
  show "filter p (dvalues (db_resources (w_db w1))) = filter p (dvalues (db_resources (w_db w)))"
    if "\<forall>x. p x \<longrightarrow> res_kind x \<notin> {''trade_plan'', ''execution_command''}" for p
    by (rule persist_trade_plan_filter[OF assms]) (use that in blast)
qed

lemma other_rows_kept_facts:
  assumes "other_rows_kept w w'"
  shows "current_permissions w' owner account = current_permissions w owner account"
    and "current_kill_switches w' owner account = current_kill_switches w owner account"
    and "current_broker_snapshot now w' owner account = current_broker_snapshot now w owner account"
    and "find_connection rt w' owner provider = find_connection rt w owner provider"
proof -
  have rows: "same_rows kind w w'" if "kind \<notin> {''trade_plan'', ''execution_command''}" for kind
    using assms that by (simp add: other_rows_kept_def)
  have filt: "filter p (dvalues (db_resources (w_db w'))) = filter p (dvalues (db_resources (w_db w)))"
    if "\<forall>x. p x \<longrightarrow> res_kind x \<notin> {''trade_plan'', ''execution_command''}" for p
    using assms that by (simp add: other_rows_kept_def)
  show "current_permissions w' owner account = current_permissions w owner account"
    using rows[of "''execution_permission_profile''"] by (simp add: current_permissions_def same_rows_def)
  have "switch_rows w' owner = switch_rows w owner" unfolding switch_rows_def by (rule filt) auto
  then show "current_kill_switches w' owner account = current_kill_switches w owner account"
    by (simp add: current_kill_switches_def)
  have "account_snapshots w' owner account = account_snapshots w owner account"
    using rows[of "''broker_snapshot''"] by (simp add: account_snapshots_def same_rows_def)
  then show "current_broker_snapshot now w' owner account = current_broker_snapshot now w owner account"
    by (simp add: current_broker_snapshot_def)
  show "find_connection rt w' owner provider = find_connection rt w owner provider"
    by (rule find_connection_frame[OF filt rows rows]) auto
qed

text \<open>A revalidation that does not block approves a positive size.\<close>

lemma revalidated_size_pos:
  assumes "revalidate env now w plan terms = Inr (ctx, risk)" "entry_terms f w plan = Inr terms" "rr_decision risk \<noteq> HARD_BLOCK"
  shows "0 < rr_approved_size risk"
proof -
  obtain cand risk0 where cand: "typed_candidate w plan terms = Inr cand"
    and ev: "evaluate (env_allow_inf env) ctx cand = Inr risk0" and "risk = ticket_authority terms ctx risk0"
    using assms(1) by (auto simp: revalidate_def)
  with ticket_authority_approved(1)[of terms ctx risk0] assms(3)
  have approved: "evaluate (env_allow_inf env) ctx cand = Inr risk" by simp
  show ?thesis
  proof (rule evaluate_size_pos[OF approved _ assms(3)])
    show "candidate_valid cand"
      by (rule typed_candidate_InrD(1)[OF cand]) (use entry_terms_step(2)[OF assms(2)] in blast)
  qed
qed

text \<open>C26: Nothing in the way of a queued entry: a command the coordinator queued for a new key is sent by the
  worker when it is dispatched within the minute of its authorization and before the plan expires, with
  a fresh broker snapshot and a configured connection; the broker is asked to submit the order of the
  plan that was stored, with the size the engine approved.\<close>
theorem queued_entry_is_sent:
  assumes "authorize_and_queue_entry env ids now w plan actor k = Inr (w', prec, Some crec)"
    and "store_inv (w_db w)" and "construction_valid (tp_construction plan)"
    and "\<forall>r \<in> set (dvalues (db_resources (w_db w))).
          doc_key (res_data r) \<noteq> Some (or_text k (''entry:'' @ tp_id plan))"
    and "map_of (db_resources (w_db w)) (ei_command ids) = None" and "ei_command ids \<noteq> tp_id plan"
    and "now2 < now + seconds 60" and "now2 < tp_expires_at plan"
    and "current_broker_snapshot now2 w (tp_owner_id plan) (tp_account_id plan) = Inr b"
    and "find_connection rt w (tp_owner_id plan) MT5_BRIDGE = Inr (Some c)" and "rc_secret c = Some secret"
  shows "\<exists>call plan'. fst (dispatch_task rt client now2 w' (tp_owner_id plan) (res_id crec) worker) = [call]
    \<and> bc_method call = SUBMIT_ORDER \<and> res_data prec = PlanDoc plan'
    \<and> cm_postcondition (bc_command call) = entry_postcondition plan'
    \<and> tc_approved_size (tp_construction plan') = rr_approved_size (tp_risk plan')"
  using assms(1)
proof (cases rule: entry_cases)
  case (queued w1 r b0 terms ctx risk plan2)
  note same = retarget_fields[OF queued(6)]
  note P = persist_trade_plan_InrD[OF queued(1)] and rid = persist_trade_plan_id[OF queued(1) assms(2)]
  have cv: "construction_valid (tp_construction plan2)"
    using assms(3) revalidated_size_pos[OF queued(4,3,5)] by (simp add: same construction_valid_def)
  have fresh: "doc_key (res_data x) \<noteq> Some (or_text k (''entry:'' @ tp_id plan))"
    if "x \<in> set (dvalues (db_resources (w_db w1)))" for x
    using persist_trade_plan_rows[OF queued(1) that] assms(4) by auto
  have new: "map_of (db_resources (w_db w1)) (ei_command ids) = None"
    using P(6)[of "ei_command ids"] assms(5,6) by simp
  have inv: "store_inv (w_db w1)" by (rule persist_trade_plan_inv[OF queued(1) assms(2)])
  obtain rv auth perms pk ak where inv': "store_inv (w_db w')" and Q: "res_data prec = PlanDoc (queued_plan ids plan2 rv auth)"
    "store_get (w_db w') ''trade_plan'' (res_id r) (tp_owner_id plan2) = Some prec"
    "store_get (w_db w') ''execution_command'' (ei_command ids) (tp_owner_id plan2) = Some crec"
    "res_id crec = ei_command ids" "res_state crec = ''QUEUED''"
    "res_data crec = new_command_doc (queued_command ids now plan2 auth (or_text k (''entry:'' @ tp_id plan)))"
    and rows: "\<And>kind. kind \<notin> {''trade_plan'', ''execution_command''} \<Longrightarrow> same_rows kind w1 w'"
    "\<And>p. (\<And>x. p x \<Longrightarrow> res_kind x \<notin> {''trade_plan'', ''execution_command''}) \<Longrightarrow>
       filter p (dvalues (db_resources (w_db w'))) = filter p (dvalues (db_resources (w_db w1)))"
    and cur: "current_permissions w1 (tp_owner_id plan2) (tp_account_id plan2) = Inr perms"
    "current_kill_switches w1 (tp_owner_id plan2) (tp_account_id plan2) = Inr (pk, ak)"
    and A: "rr_decision (tp_risk plan2) \<noteq> HARD_BLOCK" "permissions_allow perms PLACE_ORDER"
    "\<not> ks_active pk" "\<not> ks_active ak" "ea_account_id auth = tp_account_id plan2"
    "ea_action auth = PLACE_ORDER" "ea_id auth = ei_authorization ids"
    "ea_platform_safety_epoch auth = ks_safety_epoch pk"
    "ea_account_safety_epoch auth = ks_safety_epoch ak" "ea_expires_at auth = now + seconds 60"
    by (rule queued_rows[OF queued(7) _ _ _ fresh new inv]) (use P rid in \<open>auto simp: same\<close>)
  let ?plan = "queued_plan ids plan2 rv auth"
  let ?d = "\<lparr>cd_command = queued_command ids now plan2 auth (or_text k (''entry:'' @ tp_id plan)),
     cd_lease = None, cd_attempt_count = 0\<rparr>"
  have doc: "res_data crec = CommandDoc ?d" using Q(6) by (simp add: new_command_doc_def)
  have kept: "other_rows_kept w1 w'" using rows unfolding other_rows_kept_def by blast
  note frame = other_rows_kept_facts[OF kept]
    other_rows_kept_facts(3,4)[OF persist_trade_plan_other_rows[OF queued(1)]]
  have "assert_command_authority now2 (cd_command ?d) auth ?plan perms pk ak = Inr ()"
    using A assms(7,8) entry_postcondition_expected[of plan2]
    by (auto simp: assert_authority_ok_iff authority_plan_states_def same expected_entry_def Let_def)
  then have dp: "dispatchable now2 w' (tp_owner_id plan2) crec = Inr (prec, ?plan, auth)"
    using Q(1,2) rid cv doc cur assms(9) by (simp add: dispatchable_def frame same)
  have conn: "find_connection rt w' (tp_owner_id plan2) MT5_BRIDGE = Inr (Some c)"
    using assms(10) by (simp add: frame same)
  from dispatch_task_calls[OF Q(3) inv' _ doc dp conn assms(11), of client worker] Q(5)
  obtain call where call: "fst (dispatch_task rt client now2 w' (tp_owner_id plan2) (ei_command ids) worker) = [call]"
    "same_intent (cd_command ?d) (bc_command call)" "bc_method call = adapter_call (cm_action (cd_command ?d))"
    by (auto simp: same)
  have "entry_postcondition ?plan = entry_postcondition plan2" by (rule entry_postcondition_cong) simp_all
  with call Q(1,4) A(6) show ?thesis
    by (intro exI[of _ call] exI[of _ ?plan]) (simp add: same same_intent_def)
qed (auto dest: store_blocked_InrD)

section \<open>Witnesses\<close>

definition demo_grant :: "execution_action \<Rightarrow> execution_authorization" where
  "demo_grant action = \<lparr>ea_id = ''auth'', ea_account_id = ''a'', ea_action = action, ea_permission_version = 1,
     ea_platform_safety_epoch = 0, ea_account_safety_epoch = 0, ea_digest = '''', ea_issued_at = 0,
     ea_expires_at = seconds 60\<rparr>"

definition demo_sent_plan :: "trade_plan_state \<Rightarrow> execution_action \<Rightarrow> trade_plan" where
  "demo_sent_plan st action = demo_entry_plan\<lparr>tp_state := st, tp_reservation_id := Some ''rv'',
     tp_authorization := Some (demo_grant action)\<rparr>"

definition demo_sent_command :: "execution_action \<Rightarrow> execution_command" where
  "demo_sent_command action =
     (new_command ''cmd'' 0 demo_entry_plan (demo_grant action) ''stop:plan:1'' [])\<lparr>cm_state := QUEUED\<rparr>"

definition demo_held_risk :: "reservation_state \<Rightarrow> reservation" where
  "demo_held_risk st = \<lparr>rv_id = ''rv'', rv_owner = Some ''u'', rv_account = ''a'', rv_proposal = None,
     rv_trade_plan = Some ''plan'', rv_command = None, rv_broker_order = None, rv_broker_position = None,
     rv_amount = 5, rv_state = st, rv_expires_at = minutes 10, rv_version = 1, rv_details = [],
     rv_created_at = 0, rv_updated_at = 0\<rparr>"

definition demo_sent_world :: "trade_plan_state \<Rightarrow> execution_action \<Rightarrow> reservation_state \<Rightarrow> world" where
  "demo_sent_world st action held = \<lparr>w_db = \<lparr>db_resources =
     [demo_doc_row ''snap'' ''broker_snapshot'' (SnapshotDoc demo_snapshot),
      demo_doc_row ''pm'' ''execution_permission_profile'' (PermissionsDoc (demo_permissions\<lparr>pm_stop_loss := True\<rparr>)),
      demo_doc_row ''bridge'' ''connection'' (ConnectionDoc (demo_profile ''http://LocalHost:9000'')),
      demo_doc_row ''c'' ''credential'' (CredentialDoc \<lparr>cr_provider = ''MT5_BRIDGE'', cr_envelope = demo_envelope\<rparr>),
      demo_doc_row ''plan'' ''trade_plan'' (PlanDoc (demo_sent_plan st action)),
      (''cmd'', (snd (demo_doc_row ''cmd'' ''execution_command'' (new_command_doc (demo_sent_command action))))
         \<lparr>res_state := ''QUEUED''\<rparr>)], db_audit = [], db_outbox = []\<rparr>,
     w_reservations = [demo_held_risk held]\<rparr>"

definition demo_runtime :: runtime where
  "demo_runtime = \<lparr>rt_aead = demo_aead, rt_key = ''kek'', rt_networks = (\<lambda>_. False),
     rt_request_digest = (\<lambda>_. ''''), rt_response_digest = (\<lambda>_. '''')\<rparr>"

definition demo_client :: "bool \<Rightarrow> string \<Rightarrow> string \<Rightarrow> broker_adapter" where
  "demo_client rejected url secret call =
     Inr \<lparr>rs_confirmed = True, rs_broker_order_id = Some ''7'', rs_rejected = rejected\<rparr>"

lemma demo_connection_found:
  assumes "db_resources (w_db w) = AList.update ''cmd'' r (db_resources (w_db (demo_sent_world st action held)))"
    and "res_kind r = ''execution_command''"
  shows "find_connection demo_runtime w ''u'' MT5_BRIDGE
     = Inr (Some \<lparr>rc_connection_id = ''bridge'', rc_profile = demo_profile ''http://LocalHost:9000'',
         rc_secret = Some ''s''\<rparr>)"
proof -
  have p: "validate_profile (\<lambda>_. False) (demo_profile ''http://LocalHost:9000'')
      = Inr (demo_profile ''http://LocalHost:9000'')" by code_simp
  have e: "envelope_decrypt demo_aead ''kek'' ''u'' demo_envelope = Some ''s''"
    by (simp add: demo_envelope_def envelope_encrypt_def envelope_decrypt_def demo_aead_laws)
  have f: "cf_provider (demo_profile x) = MT5_BRIDGE" "cf_active (demo_profile x)"
    "cf_credential_id (demo_profile x) = Some ''c''" for x by (simp_all add: demo_profile_def)
  show ?thesis
    by (simp add: find_connection_def assms demo_sent_world_def demo_doc_row_def demo_runtime_def resolve_connection_def
        live_row_def store_get_def p f connection_secret_def e)
qed

lemma demo_sent_store: "store_inv (w_db (demo_sent_world st action held))"
  by (simp add: store_inv_def demo_sent_world_def demo_doc_row_def)

lemma demo_sent_rows:
  "store_get (w_db (demo_sent_world st action held)) ''execution_command'' ''cmd'' ''u''
     = Some (snd (demo_doc_row ''cmd'' ''execution_command'' (new_command_doc (demo_sent_command action)))
         \<lparr>res_state := ''QUEUED''\<rparr>)"
  "store_get (w_db (demo_sent_world st action held)) ''trade_plan'' ''plan'' ''u''
     = Some (snd (demo_doc_row ''plan'' ''trade_plan'' (PlanDoc (demo_sent_plan st action))))"
  by (simp_all add: store_get_def demo_sent_world_def demo_doc_row_def)

lemma demo_dispatchable:
  assumes "action = PLACE_ORDER \<and> st = TP_EXECUTION_PENDING \<or> action = SET_OR_CHANGE_STOP_LOSS \<and> st = TP_ACTIVE"
  shows "dispatchable 5 (demo_sent_world st action held) ''u''
      (snd (demo_doc_row ''cmd'' ''execution_command'' (new_command_doc (demo_sent_command action)))
         \<lparr>res_state := ''QUEUED''\<rparr>)
    = Inr (snd (demo_doc_row ''plan'' ''trade_plan'' (PlanDoc (demo_sent_plan st action))),
           demo_sent_plan st action, demo_grant action)"
proof -
  let ?w = "demo_sent_world st action held"
  have cur: "current_broker_snapshot 5 ?w ''u'' ''a'' = Inr demo_snapshot"
    "current_permissions ?w ''u'' ''a'' = Inr (demo_permissions\<lparr>pm_stop_loss := True\<rparr>)"
    "current_kill_switches ?w ''u'' ''a'' = Inr (no_switch PLATFORM None, no_switch ACCOUNT (Some ''a''))"
    by (simp_all add: current_broker_snapshot_def account_snapshots_def demo_sent_world_def store_list_def
        demo_doc_row_def demo_snapshot_def snapshot_of_broker_def consistent_equity_def dec_defs dec8_numeral
        validate_snapshot_def current_permissions_def first_match_def demo_permissions_def
        current_kill_switches_def switch_rows_def Let_def)
  have "as_plan (PlanDoc (demo_sent_plan st action)) = Inr (demo_sent_plan st action)"
    by (simp add: demo_sent_plan_def demo_entry_plan_run construction_valid_def)
  moreover have "assert_command_authority 5 (demo_sent_command action) (demo_grant action) (demo_sent_plan st action)
      (demo_permissions\<lparr>pm_stop_loss := True\<rparr>) (no_switch PLATFORM None) (no_switch ACCOUNT (Some ''a'')) = Inr ()"
    using assms by (auto simp: assert_authority_ok_iff authority_plan_states_def no_switch_def demo_permissions_def
        demo_sent_command_def demo_grant_def demo_sent_plan_def)
  moreover have "cm_trade_plan_id (demo_sent_command action) = Some ''plan''"
    "cm_account_id (demo_sent_command action) = ''a''"
    "tp_authorization (demo_sent_plan st action) = Some (demo_grant action)"
    by (simp_all add: demo_sent_command_def new_command_def demo_sent_plan_def)
  ultimately show ?thesis
    by (simp add: dispatchable_def demo_doc_row_def new_command_doc_def cur demo_sent_rows[unfolded demo_doc_row_def])
qed

definition demo_command_row :: "execution_action \<Rightarrow> document resource" where
  "demo_command_row action = snd (demo_doc_row ''cmd'' ''execution_command'' (new_command_doc (demo_sent_command action)))
     \<lparr>res_state := ''QUEUED''\<rparr>"

definition demo_plan_row :: "trade_plan_state \<Rightarrow> execution_action \<Rightarrow> document resource" where
  "demo_plan_row st action = snd (demo_doc_row ''plan'' ''trade_plan'' (PlanDoc (demo_sent_plan st action)))"

lemma demo_dispatch_run:
  assumes "action = PLACE_ORDER \<and> st = TP_EXECUTION_PENDING \<or> action = SET_OR_CHANGE_STOP_LOSS \<and> st = TP_ACTIVE"
  obtains w1 q lease outcome call where
    "dispatch_task demo_runtime (demo_client rejected) 5 (demo_sent_world st action held) ''u'' ''cmd'' ''worker''
       = ([call], record_outcome 5 w1 ''u'' q lease (demo_plan_row st action) (demo_sent_plan st action) outcome)"
    "cm_state outcome = (if rejected then REJECTED else ACKNOWLEDGED)" "w_reservations w1 = [demo_held_risk held]"
proof -
  let ?w = "demo_sent_world st action held"
  let ?d = "\<lparr>cd_command = (demo_sent_command action)\<lparr>cm_state := DISPATCHING\<rparr>,
      cd_lease = Some (''worker'', 5 + seconds 30), cd_attempt_count = 1\<rparr>"
  note rows = demo_sent_rows[of st action held, folded demo_command_row_def demo_plan_row_def]
  obtain w1 q where l: "lease_command 5 ?w ''u'' ''cmd'' ''worker'' 30 = Inr (w1, Some q)" and q: "res_data q = CommandDoc ?d"
    by (simp add: lease_command_def rows demo_command_row_def demo_doc_row_def new_command_doc_def w_update_def
        store_update_def Let_def)
  obtain r1 where L: "store_get (w_db ?w) ''execution_command'' ''cmd'' ''u'' = Some r1" "res_kind q = res_kind r1"
    "db_resources (w_db w1) = AList.update (res_id r1) q (db_resources (w_db ?w))" "w_reservations w1 = w_reservations ?w"
    using lease_command_InrD[OF l] by metis
  have r1: "r1 = demo_command_row action" using L(1) rows by simp
  have db: "db_resources (w_db w1) = AList.update ''cmd'' q (db_resources (w_db ?w))" "res_kind q = ''execution_command''"
    using L(2,3) by (simp_all add: r1 demo_command_row_def demo_doc_row_def)
  obtain outcome call where d: "dispatch (rt_request_digest demo_runtime) (rt_response_digest demo_runtime) 5
      (cd_command ?d) (demo_grant action) (demo_client rejected ''http://LocalHost:9000'' ''s'') = Inr (outcome, [call])"
    "cm_state outcome = (if rejected then REJECTED else ACKNOWLEDGED)"
    by (simp add: dispatch_def advance_def send_command_def demo_client_def Let_def)
  have cfg: "config (demo_profile x) ''bridge_url'' = x" for x by (simp add: demo_profile_def config_def dget_def)
  have "send_leased demo_runtime (demo_client rejected) 5 w1 ''u'' q (demo_plan_row st action) (demo_sent_plan st action)
      (demo_grant action) = ([call], record_outcome 5 w1 ''u'' q (cd_lease ?d) (demo_plan_row st action)
      (demo_sent_plan st action) outcome)"
    using q demo_connection_found[OF db] d by (simp add: send_leased_def cfg)
  moreover have "res_state (demo_command_row action) \<notin> set final_command_states"
    by (simp add: demo_command_row_def final_command_states_def)
  ultimately have "dispatch_task demo_runtime (demo_client rejected) 5 ?w ''u'' ''cmd'' ''worker''
       = ([call], record_outcome 5 w1 ''u'' q (cd_lease ?d) (demo_plan_row st action) (demo_sent_plan st action) outcome)"
    using demo_dispatchable[OF assms, of held, folded demo_command_row_def demo_plan_row_def] l
    by (simp add: dispatch_task_def rows)
  then show thesis by (rule that[OF _ d(2)]) (simp add: L(4) demo_sent_world_def)
qed

theorem dispatched_under_current_authority_witness:
  "\<exists>call. fst (dispatch_task demo_runtime (demo_client False) 5
      (demo_sent_world TP_EXECUTION_PENDING PLACE_ORDER COMMAND_PENDING) ''u'' ''cmd'' ''worker'') = [call]
    \<and> bc_method call = SUBMIT_ORDER \<and> ea_id (bc_authorization call) = ''auth''"
proof -
  let ?w = "demo_sent_world TP_EXECUTION_PENDING PLACE_ORDER COMMAND_PENDING"
  obtain call m where run: "dispatch_task demo_runtime (demo_client False) 5 ?w ''u'' ''cmd'' ''worker'' = ([call], m)"
    by (rule demo_dispatch_run[of PLACE_ORDER TP_EXECUTION_PENDING False COMMAND_PENDING]) auto
  have "cm_authorization_id (demo_sent_command PLACE_ORDER) = Some ''auth''" "cm_action (demo_sent_command PLACE_ORDER) = PLACE_ORDER"
    by (simp_all add: demo_sent_command_def demo_grant_def)
  with dispatched_under_current_authority[OF run] run show ?thesis
    by (auto simp: demo_sent_rows demo_doc_row_def new_command_doc_def)
qed

theorem redelivery_queues_one_command_witness:
  "length (bq_pending (fold bridge_receive (map fst (fst (redeliver
      [(demo_runtime, demo_client False, 5, ''w''), (demo_runtime, demo_client False, 6, ''v'')]
      (demo_sent_world TP_EXECUTION_PENDING PLACE_ORDER RELEASED) ''u'' ''cmd''))) demo_queue)) \<le> 3"
proof -
  let ?w = "demo_sent_world TP_EXECUTION_PENDING PLACE_ORDER RELEASED"
  let ?as = "[(demo_runtime, demo_client False, 5, ''w''), (demo_runtime, demo_client False, 6, ''v'')]"
  obtain sent w' where run: "redeliver ?as ?w ''u'' ''cmd'' = (sent, w')" by (cases "redeliver ?as ?w ''u'' ''cmd''")
  have "length (bq_pending demo_queue) \<le> 2" by (simp add: demo_queue_def)
  with redelivery_queues_one_command[OF demo_sent_rows(1) _ demo_sent_store run, of _ demo_queue] run show ?thesis
    by (auto simp: demo_doc_row_def new_command_doc_def)
qed

theorem answer_moves_entry_reservation_witness:
  "\<exists>calls w'. dispatch_task demo_runtime (demo_client True) 5
      (demo_sent_world TP_ACTIVE SET_OR_CHANGE_STOP_LOSS OPEN_POSITION) ''u'' ''cmd'' ''worker''
      = (calls, Inr (w', Sent ''REJECTED''))
    \<and> (\<exists>rv \<in> set (w_reservations w'). rv_id rv = ''rv'' \<and> rv_state rv = RELEASED)"
proof -
  let ?w = "demo_sent_world TP_ACTIVE SET_OR_CHANGE_STOP_LOSS OPEN_POSITION"
  obtain w1 q lease outcome call where run: "dispatch_task demo_runtime (demo_client True) 5 ?w ''u'' ''cmd'' ''worker''
       = ([call], record_outcome 5 w1 ''u'' q lease (demo_plan_row TP_ACTIVE SET_OR_CHANGE_STOP_LOSS)
            (demo_sent_plan TP_ACTIVE SET_OR_CHANGE_STOP_LOSS) outcome)"
    and st: "cm_state outcome = REJECTED" and res: "w_reservations w1 = [demo_held_risk OPEN_POSITION]"
    by (rule demo_dispatch_run[of SET_OR_CHANGE_STOP_LOSS TP_ACTIVE True OPEN_POSITION]) auto
  have rid: "tp_reservation_id (demo_sent_plan TP_ACTIVE SET_OR_CHANGE_STOP_LOSS) = Some ''rv''"
    by (simp add: demo_sent_plan_def)
  obtain w' where w': "record_outcome 5 w1 ''u'' q lease (demo_plan_row TP_ACTIVE SET_OR_CHANGE_STOP_LOSS)
      (demo_sent_plan TP_ACTIVE SET_OR_CHANGE_STOP_LOSS) outcome = Inr (w', Sent ''REJECTED'')"
    by (simp add: record_outcome_def w_update_def store_update_def settle_reservation_def st rid res
        reservations_transition_def demo_held_risk_def Let_def)
  from answer_moves_entry_reservation[OF run[unfolded w'] _ _ demo_sent_store demo_sent_rows(1) _ _ _ rid] run w'
  show ?thesis
    by (auto simp: demo_sent_rows demo_doc_row_def new_command_doc_def demo_sent_command_def new_command_def)
qed


theorem queued_entry_is_sent_witness:
  "\<exists>w' prec crec call. authorize_and_queue_entry demo_env demo_ids 0 demo_world demo_entry_plan None None
      = Inr (w', prec, Some crec)
    \<and> fst (dispatch_task demo_runtime (demo_client False) 5 w' ''u'' (res_id crec) ''worker'') = [call]
    \<and> bc_method call = SUBMIT_ORDER"
proof -
  obtain w' prec crec where e: "authorize_and_queue_entry demo_env demo_ids 0 demo_world demo_entry_plan None None
      = Inr (w', prec, Some crec)" using demo_entry_queued by blast
  have inv: "store_inv (w_db demo_world)"
    by (simp add: store_inv_def demo_world_def demo_rows_def demo_doc_row_def)
  have cv: "construction_valid (tp_construction demo_entry_plan)"
    by (simp add: demo_entry_plan_run construction_valid_def)
  have new: "\<forall>r \<in> set (dvalues (db_resources (w_db demo_world))).
      doc_key (res_data r) \<noteq> Some (or_text None (''entry:'' @ tp_id demo_entry_plan))"
    "map_of (db_resources (w_db demo_world)) (ei_command demo_ids) = None" "ei_command demo_ids \<noteq> tp_id demo_entry_plan"
    by (simp_all add: demo_world_def demo_rows_def demo_doc_row_def demo_ids_def)
  have snap: "current_broker_snapshot 5 demo_world (tp_owner_id demo_entry_plan) (tp_account_id demo_entry_plan)
      = Inr demo_snapshot"
    by (simp add: current_broker_snapshot_def account_snapshots_def demo_lists demo_doc_row_def
        demo_snapshot_def snapshot_of_broker_def consistent_equity_def dec_defs dec8_numeral
        validate_snapshot_def Let_def)
  obtain c where conn: "find_connection demo_runtime demo_world (tp_owner_id demo_entry_plan) MT5_BRIDGE = Inr (Some c)"
    "rc_secret c = Some ''s''"
  proof -
    have p: "validate_profile (\<lambda>_. False) (demo_profile ''http://LocalHost:9000'')
        = Inr (demo_profile ''http://LocalHost:9000'')" by code_simp
    have ev: "envelope_decrypt demo_aead ''kek'' ''u'' demo_envelope = Some ''s''"
      by (simp add: demo_envelope_def envelope_encrypt_def envelope_decrypt_def demo_aead_laws)
    have f: "cf_provider (demo_profile x) = MT5_BRIDGE" "cf_active (demo_profile x)"
      "cf_credential_id (demo_profile x) = Some ''c''" for x by (simp_all add: demo_profile_def)
    show thesis
      by (rule that[of "\<lparr>rc_connection_id = ''bridge'', rc_profile = demo_profile ''http://LocalHost:9000'', rc_secret = Some ''s''\<rparr>"])
         (simp_all add: find_connection_def demo_world_def demo_rows_def demo_doc_row_def demo_runtime_def
          resolve_connection_def live_row_def store_get_def p f connection_secret_def ev)
  qed
  from queued_entry_is_sent[OF e inv cv new(1,2,3) _ _ snap conn, of "demo_client False" "''worker''"] e
  show ?thesis by auto
qed

end
