(* ===== verification/Notifications.thy ===== *)
theory Notifications
  imports Documents
begin

text \<open>
  Notifications: the in-memory service and the transactional queue of
  \<open>modules/notifications/service.py\<close>, the provider client of \<open>providers.py\<close>, and the delivery tasks of
  \<open>apps/worker/app/tasks/operations.py\<close> (draining the outbox, delivering one notification).

  Name-based UUIDs, the text of a notification's body (a rendering of its decimals and instants) and the
  answer of a provider's HTTP endpoint are arguments.
\<close>

section \<open>The in-memory service (\<open>NotificationService\<close>)\<close>

record notice =
  no_id :: uuid
  no_owner_id :: uuid
  no_kind :: string
  no_urgency :: string
  no_title :: string
  no_body :: string
  no_dedupe_key :: string
  no_state :: string

type_synonym notice_items = "(uuid \<times> string, notice) dict"

definition notice_create ::
    "uuid \<Rightarrow> notice_items \<Rightarrow> uuid \<Rightarrow> string \<Rightarrow> string \<Rightarrow> string \<Rightarrow> string \<Rightarrow> string \<Rightarrow> notice_items \<times> notice" where
  "notice_create fresh items owner kind urgency title body dedupe_key =
     (case map_of items (owner, dedupe_key) of
        Some item \<Rightarrow> (items, item)
      | None \<Rightarrow>
          (let item = \<lparr>no_id = fresh, no_owner_id = owner, no_kind = kind, no_urgency = urgency,
                       no_title = title, no_body = body, no_dedupe_key = dedupe_key,
                       no_state = ''PENDING''\<rparr>
           in (AList.update (owner, dedupe_key) item items, item)))"

definition notice_mark :: "notice_items \<Rightarrow> notice \<Rightarrow> string \<Rightarrow> notice_items \<times> notice" where
  "notice_mark items item st =
     (let updated = item\<lparr>no_state := st\<rparr>
      in (AList.update (no_owner_id item, no_dedupe_key item) updated items, updated))"

definition confirmed_entry ::
    "uuid \<Rightarrow> notice_items \<Rightarrow> uuid \<Rightarrow> uuid \<Rightarrow> int \<Rightarrow> string \<Rightarrow> string \<Rightarrow> string \<Rightarrow> notice_items \<times> notice" where
  "confirmed_entry fresh items owner command_id fill_revision channel instrument quantity =
     notice_create fresh items owner ''trade_entry_confirmed'' ''HIGH'' (''Confirmed entry: '' @ instrument)
       (quantity @ '' filled; broker state confirmed.'')
       (''entry:'' @ command_id @ '':'' @ int_str fill_revision @ '':'' @ channel)"

section \<open>Queueing confirmed broker notifications\<close>

text \<open>\<open>str.title\<close> on ASCII text: the first letter of every run of letters upper, the others lower case.\<close>

fun title_from :: "bool \<Rightarrow> string \<Rightarrow> string" where
  "title_from inside [] = []"
| "title_from inside (c # cs) =
     (if chr_alpha c then (if inside then chr_lower c else chr_upper c) # title_from True cs
      else c # title_from False cs)"

definition str_title :: "string \<Rightarrow> string" where
  "str_title s = title_from False s"

text \<open>The arguments of \<open>queue_confirmed_broker_notifications\<close>.\<close>

record broker_notice =
  bt_command_id :: uuid
  bt_event_kind :: string
  bt_revision :: int
  bt_account_id :: uuid
  bt_instrument :: string
  bt_quantity :: decimal
  bt_price :: "decimal option"
  bt_stop_loss :: "decimal option"
  bt_take_profit :: "decimal option"
  bt_strategy_version_id :: uuid
  bt_trade_plan_id :: uuid
  bt_broker_order_id :: "string option"
  bt_observed_at :: "timestamp option"

record notice_environment =
  ne_uuid5 :: "string \<Rightarrow> uuid"
  ne_body :: "broker_notice \<Rightarrow> timestamp \<Rightarrow> string"

definition default_preferences :: preferences_doc where
  "default_preferences = \<lparr>fd_in_app = Some True, fd_telegram = Some False, fd_pushover = Some False,
     fd_urgent_only_external = None\<rparr>"

fun preferences_of :: "document \<Rightarrow> preferences_doc" where
  "preferences_of (PreferencesDoc d) = d"
| "preferences_of _ = \<lparr>fd_in_app = None, fd_telegram = None, fd_pushover = None,
     fd_urgent_only_external = None\<rparr>"

fun channel_of :: "document \<Rightarrow> channel_doc" where
  "channel_of (ChannelDoc d) = d"
| "channel_of _ = \<lparr>hd_provider = '''', hd_enabled = None, hd_credential_id = None, hd_destination = ''''\<rparr>"

definition flag :: "bool option \<Rightarrow> bool \<Rightarrow> bool" where
  "flag v d = (case v of None \<Rightarrow> d | Some b \<Rightarrow> b)"

text \<open>\<open>preferences.get(provider.lower(), False)\<close>.\<close>

definition provider_preference :: "preferences_doc \<Rightarrow> string \<Rightarrow> bool" where
  "provider_preference p provider =
     (if str_lower provider = ''telegram'' then flag (fd_telegram p) False
      else if str_lower provider = ''pushover'' then flag (fd_pushover p) False
      else if str_lower provider = ''in_app'' then flag (fd_in_app p) False
      else if str_lower provider = ''urgent_only_external'' then flag (fd_urgent_only_external p) False
      else False)"

definition owner_preferences :: "world \<Rightarrow> uuid \<Rightarrow> preferences_doc" where
  "owner_preferences w owner =
     (case store_list (w_db w) ''notification_preferences'' owner False of
        [] \<Rightarrow> default_preferences | r # _ \<Rightarrow> preferences_of (res_data r))"

definition channel_provider :: "document resource \<Rightarrow> string" where
  "channel_provider r = str_upper (hd_provider (channel_of (res_data r)))"

definition notice_channels :: "world \<Rightarrow> uuid \<Rightarrow> (string \<times> uuid option) list" where
  "notice_channels w owner =
     (let preferences = owner_preferences w owner in
      (if flag (fd_in_app preferences) True then [(''IN_APP'', None)] else [])
      @ map (\<lambda>r. (channel_provider r, Some (res_id r)))
          (filter (\<lambda>r. res_state r = ''ACTIVE'' \<and> flag (hd_enabled (channel_of (res_data r))) True
                       \<and> channel_provider r \<in> {''TELEGRAM'', ''PUSHOVER''}
                       \<and> provider_preference preferences (channel_provider r))
             (store_list (w_db w) ''notification_channel'' owner False)))"

definition notice_key :: "broker_notice \<Rightarrow> string \<Rightarrow> string" where
  "notice_key n channel =
     ''broker:'' @ bt_command_id n @ '':'' @ bt_event_kind n @ '':'' @ int_str (bt_revision n) @ '':'' @ channel"

definition notice_row_id :: "notice_environment \<Rightarrow> uuid \<Rightarrow> broker_notice \<Rightarrow> string \<Rightarrow> uuid" where
  "notice_row_id env owner n channel = ne_uuid5 env (owner @ '':'' @ notice_key n channel)"

definition notification_of ::
    "notice_environment \<Rightarrow> timestamp \<Rightarrow> broker_notice \<Rightarrow> string \<Rightarrow> uuid option \<Rightarrow> notification_doc" where
  "notification_of env observed n channel channel_id =
     (let st = (if channel = ''IN_APP'' then ''DELIVERED'' else ''QUEUED'') in
      \<lparr>nd_kind = bt_event_kind n, nd_urgency = ''HIGH'',
       nd_title = str_title (map (\<lambda>c. if c = CHR ''_'' then CHR '' '' else c) (bt_event_kind n))
                    @ '': '' @ bt_instrument n,
       nd_message = ne_body env n observed, nd_dedupe_key = notice_key n channel, nd_channel = channel,
       nd_channel_id = channel_id, nd_command_id = bt_command_id n, nd_trade_plan_id = bt_trade_plan_id n,
       nd_account_id = bt_account_id n, nd_broker_order_id = bt_broker_order_id n,
       nd_instrument = bt_instrument n, nd_quantity = bt_quantity n, nd_price = bt_price n,
       nd_stop_loss = bt_stop_loss n, nd_take_profit = bt_take_profit n,
       nd_strategy_version_id = bt_strategy_version_id n, nd_broker_observed_at = observed,
       nd_delivery_state = st, nd_delivered_at = None,
       nd_delivery_receipts = (if channel = ''IN_APP'' then [(''IN_APP'', ''DELIVERED'', None)] else []),
       nd_delivery_failures = []\<rparr>)"

definition queue_notice ::
    "notice_environment \<Rightarrow> timestamp \<Rightarrow> uuid \<Rightarrow> broker_notice \<Rightarrow> string \<times> uuid option \<Rightarrow>
     world \<times> uuid list \<Rightarrow> (world \<times> uuid list) res" where
  "queue_notice env now owner n c acc =
     (let (channel, channel_id) = c; (w, created) = acc;
          nid = notice_row_id env owner n channel;
          observed = (case bt_observed_at n of None \<Rightarrow> now | Some t \<Rightarrow> t);
          d = notification_of env observed n channel channel_id
      in case store_get (w_db w) ''notification'' nid owner of
           Some existing \<Rightarrow> Inr (w, created @ [res_id existing])
         | None \<Rightarrow>
             rbind (w_create nid now w ''notification'' owner (NotificationDoc d) (nd_delivery_state d)
                      (Some nid) None (Some ''notification.confirmed_broker_event_queued'')) (\<lambda>(w1, r).
             if channel = ''IN_APP'' then Inr (w1, created @ [res_id r])
             else
               rbind (outbox_add (w_db w1)
                        \<lparr>ob_event_id = ne_uuid5 env (''outbox:'' @ notice_key n channel), ob_owner = owner,
                         ob_event_type = ''notification.delivery_requested'',
                         ob_payload = DeliveryDoc \<lparr>dd_notification_id = res_id r, dd_version = res_version r,
                           dd_channel = channel, dd_state = ''QUEUED'',
                           dd_idempotency_key = notice_key n channel\<rparr>,
                         ob_created_at = now, ob_published_at = None, ob_attempts = 0\<rparr>) (\<lambda>db.
               Inr (w1\<lparr>w_db := db\<rparr>, created @ [res_id r]))))"

definition queue_confirmed_broker_notifications ::
    "notice_environment \<Rightarrow> timestamp \<Rightarrow> world \<Rightarrow> uuid \<Rightarrow> broker_notice \<Rightarrow> (world \<times> uuid list) res" where
  "queue_confirmed_broker_notifications env now w owner n =
     rfold (queue_notice env now owner n) (notice_channels w owner) (w, [])"

section \<open>Sending through a provider (\<open>providers.py\<close>)\<close>

text \<open>
  The answer of a provider: \<open>None\<close> for a transport error.  \<open>hr_message\<close> is the text of the first of the
  keys \<open>description\<close>, \<open>errors\<close>, \<open>error\<close> the payload has, \<open>hr_accepted\<close> whether \<open>ok\<close> is true or \<open>status\<close> is 1.
\<close>

record http_reply =
  hr_is_error :: bool
  hr_status_code :: int
  hr_message :: "string option"
  hr_accepted :: bool
  hr_reference :: "string option"

type_synonym http_client = "string \<Rightarrow> (string, string) dict \<Rightarrow> http_reply option"

definition safe_error :: "string \<Rightarrow> http_reply \<Rightarrow> py_error" where
  "safe_error provider reply =
     RuntimeError (provider @ '' notification failed ('' @ int_str (hr_status_code reply) @ ''): ''
       @ take 180 (if truthy (hr_message reply) then the (hr_message reply) else ''provider rejected request''))"

definition notification_request :: "string \<Rightarrow> string \<Rightarrow> string \<Rightarrow> string \<Rightarrow> string \<Rightarrow> string \<times> (string, string) dict" where
  "notification_request provider secret destination title message =
     (if provider = ''TELEGRAM''
      then (''https://api.telegram.org/bot'' @ secret @ ''/sendMessage'',
            [(''chat_id'', destination), (''text'', take 4096 (title @ [CHR 0x0A, CHR 0x0A] @ message))])
      else (''https://api.pushover.net/1/messages.json'',
            [(''token'', secret), (''user'', destination), (''title'', take 250 title),
             (''message'', take 1024 message)]))"

definition send_notification ::
    "http_client \<Rightarrow> string \<Rightarrow> string \<Rightarrow> string \<Rightarrow> string \<Rightarrow> string \<Rightarrow> (string \<times> string \<times> string option) res" where
  "send_notification http provider secret destination title message =
     (let normalized = str_upper provider in
      rbind (ensure (normalized \<in> {''TELEGRAM'', ''PUSHOVER''})
               (RuntimeError ''unsupported notification provider'')) (\<lambda>_.
      rbind (ensure (secret \<noteq> '''' \<and> destination \<noteq> '''')
               (RuntimeError ''notification credentials are incomplete'')) (\<lambda>_.
      let (url, form) = notification_request normalized secret destination title message in
      rbind (required (http url form) (RuntimeError (normalized @ '' notification request failed''))) (\<lambda>reply.
      if hr_is_error reply \<or> \<not> hr_accepted reply then Inl (safe_error normalized reply)
      else Inr (normalized, ''DELIVERED'', hr_reference reply)))))"

section \<open>Delivery (\<open>apps/worker/app/tasks/operations.py\<close>)\<close>

record delivery_runtime =
  dr_http :: http_client
  dr_aead :: aead
  dr_key :: string

fun as_notification :: "document \<Rightarrow> notification_doc res" where
  "as_notification (NotificationDoc d) = Inr d"
| "as_notification _ = Inl (ValidationError ''notification'')"

definition deliverable :: "preferences_doc \<Rightarrow> notification_doc \<Rightarrow> document resource \<Rightarrow> bool" where
  "deliverable preference d channel \<longleftrightarrow>
     res_state channel = ''ACTIVE'' \<and> flag (hd_enabled (channel_of (res_data channel))) True
     \<and> \<not> (truthy (nd_channel_id d) \<and> Some (res_id channel) \<noteq> nd_channel_id d)
     \<and> provider_preference preference (channel_provider channel)
     \<and> \<not> (flag (fd_urgent_only_external preference) True
           \<and> str_upper (if nd_urgency d = '''' then ''NORMAL'' else nd_urgency d)
               \<notin> {''URGENT'', ''CRITICAL'', ''HIGH''})"

definition find_credential :: "world \<Rightarrow> uuid \<Rightarrow> uuid option \<Rightarrow> document resource option" where
  "find_credential w owner credential_id =
     first_match (\<lambda>r. Some (res_id r) = credential_id) (store_list (w_db w) ''credential'' owner False)"

definition deliver_to ::
    "delivery_runtime \<Rightarrow> world \<Rightarrow> uuid \<Rightarrow> notification_doc \<Rightarrow> document resource \<Rightarrow>
     (string \<times> string \<times> string option) res" where
  "deliver_to rt w owner d channel =
     (let c = channel_of (res_data channel) in
      rbind (required (find_credential w owner (hd_credential_id c))
               (RuntimeError ''notification credential unavailable'')) (\<lambda>r.
      rbind (as_credential (res_data r)) (\<lambda>credential.
      rbind (required (envelope_decrypt (dr_aead rt) (dr_key rt) owner (cr_envelope credential))
               (RuntimeError '''')) (\<lambda>secret.
      send_notification (dr_http rt) (channel_provider channel) secret (hd_destination c)
        (if nd_title d = '''' then ''Matrades notification'' else nd_title d) (nd_message d)))))"

fun exception_text :: "py_error \<Rightarrow> string" where
  "exception_text (KeyError s) = [CHR 0x27] @ s @ [CHR 0x27]"
| "exception_text (RuntimeError s) = s"
| "exception_text (ValueError s) = s"
| "exception_text _ = ''''"

text \<open>The loop over the channels: each attempt ends in a receipt or in a recorded failure.\<close>

fun attempt_all ::
    "delivery_runtime \<Rightarrow> world \<Rightarrow> uuid \<Rightarrow> preferences_doc \<Rightarrow> notification_doc \<Rightarrow> document resource list \<Rightarrow>
     (string \<times> string \<times> string option) list \<times> (uuid \<times> string \<times> string) list" where
  "attempt_all rt w owner preference d [] = ([], [])"
| "attempt_all rt w owner preference d (channel # channels) =
     (let (receipts, failures) = attempt_all rt w owner preference d channels in
      if \<not> deliverable preference d channel then (receipts, failures)
      else (case deliver_to rt w owner d channel of
              Inr receipt \<Rightarrow> (receipt # receipts, failures)
            | Inl e \<Rightarrow> (receipts, (res_id channel, channel_provider channel, take 180 (exception_text e)) # failures)))"

definition deliver_notification ::
    "delivery_runtime \<Rightarrow> timestamp \<Rightarrow> world \<Rightarrow> uuid \<Rightarrow> (world \<times> document resource) res" where
  "deliver_notification rt now w notification_id =
     (case map_of (db_resources (w_db w)) notification_id of
        None \<Rightarrow> Inl (RuntimeError ''notification not found'')
      | Some r \<Rightarrow>
          if res_kind r \<noteq> ''notification'' then Inl (RuntimeError ''notification not found'')
          else
            rbind (as_notification (res_data r)) (\<lambda>d.
            let (receipts, failures) =
                  attempt_all rt w (res_owner r) (owner_preferences w (res_owner r)) d
                    (store_list (w_db w) ''notification_channel'' (res_owner r) False);
                st = (if failures \<noteq> [] then ''DEGRADED'' else ''DELIVERED'');
                d' = d\<lparr>nd_delivery_state := st,
                       nd_delivered_at := (if failures = [] then Some now else nd_delivered_at d),
                       nd_delivery_receipts := receipts, nd_delivery_failures := failures\<rparr>
            in w_update now w r (NotificationDoc d') st None None
                 (if failures = [] then ''notification.delivery_completed''
                  else ''notification.delivery_degraded'') None))"

section \<open>Draining the outbox\<close>

definition drainable :: "document outbox_event \<Rightarrow> bool" where
  "drainable e \<longleftrightarrow> ob_event_type e = ''notification.delivery_requested'' \<and> ob_published_at e = None"

definition drain_batch :: "nat \<Rightarrow> document outbox_event list \<Rightarrow> document outbox_event list" where
  "drain_batch limit es = take limit (sort_key ob_created_at (filter drainable es))"

fun aggregate_id :: "document \<Rightarrow> uuid res" where
  "aggregate_id (DeliveryDoc d) = Inr (dd_notification_id d)"
| "aggregate_id _ = Inl (KeyError ''aggregate_id'')"

definition publish_event :: "timestamp \<Rightarrow> uuid list \<Rightarrow> document outbox_event \<Rightarrow> document outbox_event" where
  "publish_event now batch e =
     (if ob_event_id e \<in> set batch
      then e\<lparr>ob_attempts := ob_attempts e + 1, ob_published_at := Some now\<rparr> else e)"

definition drain_outbox :: "timestamp \<Rightarrow> nat \<Rightarrow> world \<Rightarrow> (world \<times> uuid list) res" where
  "drain_outbox now limit w =
     (let batch = drain_batch limit (db_outbox (w_db w)) in
      rbind (rmap (\<lambda>e. aggregate_id (ob_payload e)) batch) (\<lambda>ids.
      Inr (w\<lparr>w_db := (w_db w)\<lparr>db_outbox := map (publish_event now (map ob_event_id batch)) (db_outbox (w_db w))\<rparr>\<rparr>,
           ids)))"


section \<open>Lemmas\<close>

lemma queue_notice_InrE:
  assumes "queue_notice env now owner n (channel, cid) (w, created) = Inr (w', created')"
  obtains (existing) r where "w' = w" "created' = created @ [res_id r]"
      "store_get (w_db w) ''notification'' (notice_row_id env owner n channel) owner = Some r"
  | (in_app) r d st event where "channel = ''IN_APP''" "created' = created @ [res_id r]"
      "w_create (notice_row_id env owner n channel) now w ''notification'' owner d st
         (Some (notice_row_id env owner n channel)) None event = Inr (w', r)"
  | (external) r d st event w1 e where "channel \<noteq> ''IN_APP''" "created' = created @ [res_id r]"
      "w_create (notice_row_id env owner n channel) now w ''notification'' owner d st
         (Some (notice_row_id env owner n channel)) None event = Inr (w1, r)"
      "outbox_add (w_db w1) e = Inr (w_db w')" "w_reservations w' = w_reservations w1"
      "ob_event_id e = ne_uuid5 env (''outbox:'' @ notice_key n channel)" "drainable e"
      "ob_payload e = DeliveryDoc \<lparr>dd_notification_id = res_id r, dd_version = res_version r,
         dd_channel = channel, dd_state = ''QUEUED'', dd_idempotency_key = notice_key n channel\<rparr>"
proof (cases "store_get (w_db w) ''notification'' (notice_row_id env owner n channel) owner")
  case (Some r)
  with assms show ?thesis by (intro existing) (auto simp: queue_notice_def Let_def)
next
  case None
  let ?d = "notification_of env (case bt_observed_at n of None \<Rightarrow> now | Some t \<Rightarrow> t) n channel cid"
  from assms None obtain w1 r where c: "w_create (notice_row_id env owner n channel) now w ''notification'' owner
      (NotificationDoc ?d) (nd_delivery_state ?d) (Some (notice_row_id env owner n channel)) None
      (Some ''notification.confirmed_broker_event_queued'') = Inr (w1, r)"
    by (auto simp: queue_notice_def Let_def)
  show ?thesis
  proof (cases "channel = ''IN_APP''")
    case True
    with assms None c show ?thesis by (intro in_app) (auto simp: queue_notice_def Let_def)
  next
    case False
    let ?e = "\<lparr>ob_event_id = ne_uuid5 env (''outbox:'' @ notice_key n channel), ob_owner = owner,
         ob_event_type = ''notification.delivery_requested'',
         ob_payload = DeliveryDoc \<lparr>dd_notification_id = res_id r, dd_version = res_version r,
           dd_channel = channel, dd_state = ''QUEUED'', dd_idempotency_key = notice_key n channel\<rparr>,
         ob_created_at = now, ob_published_at = None, ob_attempts = 0\<rparr> :: document outbox_event"
    from False assms None c obtain db where "outbox_add (w_db w1) ?e = Inr db"
      and "w' = w1\<lparr>w_db := db\<rparr>" "created' = created @ [res_id r]"
      by (auto simp: queue_notice_def Let_def)
    then show ?thesis by (intro external[OF False _ c, where e = ?e]) (simp_all add: drainable_def)
  qed
qed

lemma queue_notice_step:
  assumes "queue_notice env now owner n (channel, cid) (w, created) = Inr (w', created')" and "store_inv (w_db w)"
  shows "created' = created @ [notice_row_id env owner n channel]" and "store_inv (w_db w')"
    and "kind \<noteq> ''notification'' \<Longrightarrow> same_rows kind w w'"
    and "\<exists>r. store_get (w_db w') ''notification'' (notice_row_id env owner n channel) owner = Some r"
    and "store_get (w_db w) ''notification'' i owner' = Some q \<Longrightarrow>
      store_get (w_db w') ''notification'' i owner' = Some q"
    and "w_reservations w' = w_reservations w"
    and "db_outbox (w_db w') = db_outbox (w_db w)
      \<or> (channel \<noteq> ''IN_APP'' \<and> (\<exists>e. db_outbox (w_db w') = db_outbox (w_db w) @ [e] \<and> drainable e
           \<and> ob_event_id e = ne_uuid5 env (''outbox:'' @ notice_key n channel)
           \<and> aggregate_id (ob_payload e) = Inr (notice_row_id env owner n channel)))"
proof -
  have "created' = created @ [notice_row_id env owner n channel] \<and> store_inv (w_db w')
    \<and> (\<forall>kind. kind \<noteq> ''notification'' \<longrightarrow> same_rows kind w w')
    \<and> (\<exists>r. store_get (w_db w') ''notification'' (notice_row_id env owner n channel) owner = Some r)
    \<and> (\<forall>i owner' q. store_get (w_db w) ''notification'' i owner' = Some q \<longrightarrow>
         store_get (w_db w') ''notification'' i owner' = Some q)
    \<and> w_reservations w' = w_reservations w
    \<and> (db_outbox (w_db w') = db_outbox (w_db w)
       \<or> (channel \<noteq> ''IN_APP'' \<and> (\<exists>e. db_outbox (w_db w') = db_outbox (w_db w) @ [e] \<and> drainable e
           \<and> ob_event_id e = ne_uuid5 env (''outbox:'' @ notice_key n channel)
           \<and> aggregate_id (ob_payload e) = Inr (notice_row_id env owner n channel))))"
    using assms(1)
  proof (cases rule: queue_notice_InrE)
    case (existing r)
    with store_get_id(1)[OF assms(2) existing(3)] assms(2) show ?thesis by auto
  next
    case (in_app r d st event)
    note C = w_create_InrD[OF in_app(3)]
    have "same_rows kind w w'" if "kind \<noteq> ''notification''" for kind
      by (rule same_rows_write[OF C(9)]) (use that C in auto)
    then show ?thesis using in_app(2) C w_create_inv[OF in_app(3) assms(2)] by (auto simp: store_get_iff)
  next
    case (external r d st event w1 e)
    note C = w_create_InrD[OF external(3)] and O = outbox_add_InrD[OF external(4)]
    have "same_rows kind w w'" if "kind \<noteq> ''notification''" for kind
      by (rule same_rows_write[of _ "res_id r" r]) (use that C O in auto)
    then show ?thesis
      using external(1,2,5-8) C O outbox_add_inv[OF external(4) w_create_inv[OF external(3) assms(2)]]
      by (auto simp: store_get_iff)
  qed
  then show "created' = created @ [notice_row_id env owner n channel]" and "store_inv (w_db w')"
    and "kind \<noteq> ''notification'' \<Longrightarrow> same_rows kind w w'"
    and "\<exists>r. store_get (w_db w') ''notification'' (notice_row_id env owner n channel) owner = Some r"
    and "store_get (w_db w) ''notification'' i owner' = Some q \<Longrightarrow>
      store_get (w_db w') ''notification'' i owner' = Some q"
    and "w_reservations w' = w_reservations w"
    and "db_outbox (w_db w') = db_outbox (w_db w)
      \<or> (channel \<noteq> ''IN_APP'' \<and> (\<exists>e. db_outbox (w_db w') = db_outbox (w_db w) @ [e] \<and> drainable e
           \<and> ob_event_id e = ne_uuid5 env (''outbox:'' @ notice_key n channel)
           \<and> aggregate_id (ob_payload e) = Inr (notice_row_id env owner n channel)))"
    by blast+
qed

text \<open>An event a queued notification added to the outbox.\<close>

definition delivery_event ::
    "notice_environment \<Rightarrow> uuid \<Rightarrow> broker_notice \<Rightarrow> string set \<Rightarrow> document outbox_event \<Rightarrow> bool" where
  "delivery_event env owner n channels e \<longleftrightarrow>
     drainable e \<and> (\<exists>channel \<in> channels. channel \<noteq> ''IN_APP''
       \<and> ob_event_id e = ne_uuid5 env (''outbox:'' @ notice_key n channel)
       \<and> aggregate_id (ob_payload e) = Inr (notice_row_id env owner n channel))"

lemma delivery_event_mono:
  "delivery_event env owner n A e \<Longrightarrow> A \<subseteq> B \<Longrightarrow> delivery_event env owner n B e"
  by (auto simp: delivery_event_def)

lemma queue_notices_run:
  assumes "rfold (queue_notice env now owner n) cs (w, created) = Inr (w', created')" and "store_inv (w_db w)"
  shows "created' = created @ map (\<lambda>(c, _). notice_row_id env owner n c) cs \<and> store_inv (w_db w')
    \<and> w_reservations w' = w_reservations w
    \<and> (\<forall>kind. kind \<noteq> ''notification'' \<longrightarrow> same_rows kind w w')
    \<and> (\<forall>i owner' q. store_get (w_db w) ''notification'' i owner' = Some q \<longrightarrow>
         store_get (w_db w') ''notification'' i owner' = Some q)
    \<and> (\<forall>c \<in> set cs. \<exists>r. store_get (w_db w') ''notification'' (notice_row_id env owner n (fst c)) owner = Some r)
    \<and> (\<exists>es. db_outbox (w_db w') = db_outbox (w_db w) @ es
         \<and> list_all (delivery_event env owner n (fst ` set cs)) es)"
  using assms
proof (induction cs arbitrary: w created)
  case Nil
  then show ?case by simp
next
  case (Cons c cs)
  obtain channel cid where c: "c = (channel, cid)" by (cases c)
  from Cons.prems(1) obtain w1 created1 where
    step: "queue_notice env now owner n (channel, cid) (w, created) = Inr (w1, created1)"
    and rest: "rfold (queue_notice env now owner n) cs (w1, created1) = Inr (w', created')"
    by (auto simp: c)
  note S = queue_notice_step[OF step Cons.prems(2)]
  note IH = Cons.IH[OF rest S(2)]
  obtain es where es: "db_outbox (w_db w') = db_outbox (w_db w1) @ es"
    "list_all (delivery_event env owner n (fst ` set cs)) es"
    using IH by blast
  have es': "list_all (delivery_event env owner n (fst ` set (c # cs))) es"
    using es(2) by (rule list.pred_mono_strong) (auto intro: delivery_event_mono)
  have out: "\<exists>es. db_outbox (w_db w') = db_outbox (w_db w) @ es
      \<and> list_all (delivery_event env owner n (fst ` set (c # cs))) es"
    using S(7)
  proof (elim disjE conjE exE)
    assume "db_outbox (w_db w1) = db_outbox (w_db w)"
    with es(1) es' show ?thesis by auto
  next
    fix e assume "channel \<noteq> ''IN_APP''" "db_outbox (w_db w1) = db_outbox (w_db w) @ [e]" "drainable e"
      "ob_event_id e = ne_uuid5 env (''outbox:'' @ notice_key n channel)"
      "aggregate_id (ob_payload e) = Inr (notice_row_id env owner n channel)"
    with es(1) es' show ?thesis
      by (intro exI[of _ "e # es"]) (auto simp: c delivery_event_def)
  qed
  have keep: "store_get (w_db w) ''notification'' i owner' = Some q \<Longrightarrow>
      store_get (w_db w') ''notification'' i owner' = Some q" for i owner' q
    using S(5)[of i owner' q] IH by blast
  have rows: "same_rows kind w w'" if "kind \<noteq> ''notification''" for kind
    using same_rows_trans[OF S(3)[OF that]] IH that by blast
  obtain r where "store_get (w_db w1) ''notification'' (notice_row_id env owner n channel) owner = Some r"
    using S(4) by blast
  then have first: "\<exists>r. store_get (w_db w') ''notification'' (notice_row_id env owner n channel) owner = Some r"
    using IH by blast
  show ?case
    using IH keep rows first out S(1,6) by (simp add: c)
qed

lemma queue_notices_again:
  assumes "\<forall>c \<in> set cs. \<exists>r. store_get (w_db w) ''notification'' (notice_row_id env owner n (fst c)) owner = Some r"
    and "store_inv (w_db w)"
  shows "rfold (queue_notice env now owner n) cs (w, created) =
    Inr (w, created @ map (\<lambda>(c, _). notice_row_id env owner n c) cs)"
  using assms(1)
proof (induction cs arbitrary: created)
  case (Cons c cs)
  obtain channel cid where c: "c = (channel, cid)" by (cases c)
  from Cons.prems obtain r where r: "store_get (w_db w) ''notification'' (notice_row_id env owner n channel) owner = Some r"
    by (auto simp: c)
  from Cons r store_get_id(1)[OF assms(2) r] show ?case by (simp add: c queue_notice_def Let_def)
qed simp

lemma notice_channels_frame:
  assumes "same_rows ''notification_preferences'' w w'" and "same_rows ''notification_channel'' w w'"
  shows "notice_channels w' owner = notice_channels w owner"
  using assms by (simp add: notice_channels_def owner_preferences_def same_rows_def)

lemma notice_channels_names: "fst ` set (notice_channels w owner) \<subseteq> {''IN_APP'', ''TELEGRAM'', ''PUSHOVER''}"
  by (auto simp: notice_channels_def Let_def)

lemma few_delivery_events:
  assumes "list_all (delivery_event env owner n A) es" and "A \<subseteq> {''IN_APP'', ''TELEGRAM'', ''PUSHOVER''}"
    and "distinct (map ob_event_id es)"
  shows "length es \<le> 2"
proof -
  let ?ids = "{ne_uuid5 env (''outbox:'' @ notice_key n ''TELEGRAM''), ne_uuid5 env (''outbox:'' @ notice_key n ''PUSHOVER'')}"
  have "set (map ob_event_id es) \<subseteq> ?ids"
    using assms(1,2) by (auto simp: list_all_iff delivery_event_def)
  then have "card (set (map ob_event_id es)) \<le> card ?ids" by (rule card_mono[rotated]) simp
  also have "card ?ids \<le> 2" by (simp add: card_insert_if)
  finally show ?thesis using distinct_card[OF assms(3)] by simp
qed


lemma attempt_all_receipts:
  "set (fst (attempt_all rt w owner preference d cs)) =
     {x. \<exists>c \<in> set cs. deliverable preference d c \<and> deliver_to rt w owner d c = Inr x}"
  by (induction cs) (auto simp: Let_def split: prod.splits sum.splits)

lemma attempt_all_failures:
  "snd (attempt_all rt w owner preference d cs) = [] \<longleftrightarrow>
     (\<forall>c \<in> set cs. deliverable preference d c \<longrightarrow> is_ok (deliver_to rt w owner d c))"
  by (induction cs) (auto simp: Let_def split: prod.splits sum.splits)

lemma attempt_all_quiet:
  "filter (deliverable preference d) cs = [] \<Longrightarrow> attempt_all rt w owner preference d cs = ([], [])"
  by (induction cs) (auto split: if_splits)

lemma drain_batch_mem: "e \<in> set (drain_batch limit es) \<Longrightarrow> e \<in> set es \<and> drainable e"
  by (auto simp: drain_batch_def dest!: in_set_takeD)

lemma publish_event_id [simp]: "ob_event_id (publish_event now b e) = ob_event_id e"
  by (simp add: publish_event_def)

lemma publish_event_drainable:
  "drainable (publish_event now b e) \<longleftrightarrow> drainable e \<and> ob_event_id e \<notin> set b"
  by (auto simp: publish_event_def drainable_def)

section \<open>Properties\<close>


text \<open>What a delivery reports: the stored state is degraded exactly when an attempt failed, the
  receipts are those of the channels that were active, enabled, preferred and asked for, and the row is
  otherwise the notification it was.  When no channel qualifies, for instance because the preference was
  switched off after queueing, the notification is stored as delivered with no receipt at all.\<close>
theorem delivery_reports_attempts:
  assumes "deliver_notification rt now w i = Inr (w', r')"
  shows "\<exists>r d d'. map_of (db_resources (w_db w)) i = Some r \<and> res_data r = NotificationDoc d
    \<and> res_data r' = NotificationDoc d' \<and> nd_dedupe_key d' = nd_dedupe_key d
    \<and> (let channels = filter (deliverable (owner_preferences w (res_owner r)) d)
                        (store_list (w_db w) ''notification_channel'' (res_owner r) False) in
       set (nd_delivery_receipts d') = {x. \<exists>c \<in> set channels. deliver_to rt w (res_owner r) d c = Inr x}
       \<and> nd_delivery_state d' = res_state r'
       \<and> (res_state r' = ''DELIVERED'' \<longleftrightarrow> (\<forall>c \<in> set channels. is_ok (deliver_to rt w (res_owner r) d c)))
       \<and> (channels = [] \<longrightarrow> res_state r' = ''DELIVERED'' \<and> nd_delivery_receipts d' = []))"
proof -
  from assms obtain r d where r: "map_of (db_resources (w_db w)) i = Some r" "res_data r = NotificationDoc d"
    by (auto simp: deliver_notification_def split: option.splits if_splits elim!: as_notification.elims)
  let ?p = "owner_preferences w (res_owner r)"
  let ?cs = "store_list (w_db w) ''notification_channel'' (res_owner r) False"
  obtain receipts failures where a: "attempt_all rt w (res_owner r) ?p d ?cs = (receipts, failures)"
    by (cases "attempt_all rt w (res_owner r) ?p d ?cs")
  let ?st = "if failures \<noteq> [] then ''DEGRADED'' else ''DELIVERED''"
  let ?d = "d\<lparr>nd_delivery_state := ?st,
      nd_delivered_at := (if failures = [] then Some now else nd_delivered_at d),
      nd_delivery_receipts := receipts, nd_delivery_failures := failures\<rparr>"
  from assms r a have u: "w_update now w r (NotificationDoc ?d) ?st None None
      (if failures = [] then ''notification.delivery_completed'' else ''notification.delivery_degraded'') None
      = Inr (w', r')"
    by (simp add: deliver_notification_def Let_def split: if_splits)
  note U = w_update_InrD[OF u]
  have ok: "failures = [] \<longleftrightarrow> (\<forall>c \<in> set ?cs. deliverable ?p d c \<longrightarrow> is_ok (deliver_to rt w (res_owner r) d c))"
    using attempt_all_failures[of rt w "res_owner r" ?p d ?cs] by (simp add: a)
  have sent: "set receipts = {x. \<exists>c \<in> set ?cs. deliverable ?p d c \<and> deliver_to rt w (res_owner r) d c = Inr x}"
    using attempt_all_receipts[of rt w "res_owner r" ?p d ?cs] by (simp add: a)
  have quiet: "filter (deliverable ?p d) ?cs = [] \<Longrightarrow> receipts = [] \<and> failures = []"
    using attempt_all_quiet[of ?p d ?cs rt w "res_owner r"] by (simp add: a)
  show ?thesis
    by (rule exI[of _ r], rule exI[of _ d], rule exI[of _ ?d])
      (use r U(5,6) ok sent quiet in \<open>auto simp: Let_def\<close>)
qed



section \<open>Witnesses\<close>

definition demo_row :: "uuid \<Rightarrow> string \<Rightarrow> document \<Rightarrow> document resource" where
  "demo_row i kind d = \<lparr>res_id = i, res_owner = ''u'', res_kind = kind, res_state = ''ACTIVE'', res_version = 1,
     res_data = d, res_created_at = 0, res_updated_at = 0\<rparr>"

definition demo_channel_world :: "bool \<Rightarrow> world" where
  "demo_channel_world telegram =
     \<lparr>w_db = \<lparr>db_resources =
          [(''p'', demo_row ''p'' ''notification_preferences'' (PreferencesDoc \<lparr>fd_in_app = None,
              fd_telegram = Some telegram, fd_pushover = None, fd_urgent_only_external = None\<rparr>)),
           (''t1'', demo_row ''t1'' ''notification_channel'' (ChannelDoc \<lparr>hd_provider = ''telegram'',
              hd_enabled = None, hd_credential_id = Some ''c'', hd_destination = ''42''\<rparr>)),
           (''t2'', demo_row ''t2'' ''notification_channel'' (ChannelDoc \<lparr>hd_provider = ''telegram'',
              hd_enabled = None, hd_credential_id = Some ''c'', hd_destination = ''43''\<rparr>))],
        db_audit = [], db_outbox = []\<rparr>,
      w_reservations = []\<rparr>"

definition demo_notice :: broker_notice where
  "demo_notice = \<lparr>bt_command_id = ''cm'', bt_event_kind = ''order_accepted'', bt_revision = 1,
     bt_account_id = ''a'', bt_instrument = ''EURUSD'', bt_quantity = 1, bt_price = None,
     bt_stop_loss = None, bt_take_profit = None, bt_strategy_version_id = ''s'', bt_trade_plan_id = ''pl'',
     bt_broker_order_id = None, bt_observed_at = None\<rparr>"

definition demo_notices :: notice_environment where
  "demo_notices = \<lparr>ne_uuid5 = (\<lambda>s. s), ne_body = (\<lambda>n t. ''accepted'')\<rparr>"

lemma demo_notices_queued:
  "returns (queue_confirmed_broker_notifications demo_notices 5 (demo_channel_world True) ''u'' demo_notice)
     (\<lambda>(w, ids). length ids = 3 \<and> length (remdups ids) = 2 \<and> length (db_outbox (w_db w)) = 1
        \<and> is_ok (drain_outbox 9 10 w))"
  by code_simp

lemma demo_channel_world_inv: "store_inv (w_db (demo_channel_world b))"
  by (simp add: store_inv_def demo_channel_world_def demo_row_def)


definition demo_queued_world :: world where
  "demo_queued_world = (case queue_confirmed_broker_notifications demo_notices 5 (demo_channel_world False) ''u''
       demo_notice of Inl e \<Rightarrow> demo_channel_world False | Inr (w, ids) \<Rightarrow> w)"

definition demo_delivery :: delivery_runtime where
  "demo_delivery = \<lparr>dr_http = (\<lambda>u f. None), dr_aead = \<lparr>ae_seal = (\<lambda>k n a m. m), ae_open = (\<lambda>k n a m. Some m)\<rparr>,
     dr_key = ''k''\<rparr>"

lemma demo_delivered:
  "returns (deliver_notification demo_delivery 9 demo_queued_world
      (notice_row_id demo_notices ''u'' demo_notice ''IN_APP'')) (\<lambda>(w, r). res_state r = ''DELIVERED'')"
  by code_simp

theorem delivery_reports_attempts_witness:
  "\<exists>w' r' d. deliver_notification demo_delivery 9 demo_queued_world
       (notice_row_id demo_notices ''u'' demo_notice ''IN_APP'') = Inr (w', r')
     \<and> res_data r' = NotificationDoc d \<and> nd_delivery_state d = ''DELIVERED''"
proof -
  from demo_delivered obtain w' r' where d: "deliver_notification demo_delivery 9 demo_queued_world
       (notice_row_id demo_notices ''u'' demo_notice ''IN_APP'') = Inr (w', r')" "res_state r' = ''DELIVERED''"
    by (auto simp: returns_iff)
  from delivery_reports_attempts[OF d(1)] d show ?thesis by (fastforce simp: Let_def)
qed


end
