(* ===== verification/Ingestion.thy ===== *)
theory Ingestion
  imports Worker Notifications
begin

text \<open>
  The broker's side of the loop, \<open>apps/api/app/routes/trade_management.py\<close>: ingesting a broker snapshot
  (reconciling every pending command with it, recording orders and fills, activating trades, settling
  reservations, announcing confirmed facts), recommendations and management actions.

  A handler runs in one transaction, so an exception leaves the tables as they were.  The UUIDs it draws
  for new rows are a function of the number of rows there are (\<open>ig_row\<close>), for a split reservation of the
  number of reservations (\<open>ig_reservation\<close>).  The snapshot is one \<open>BrokerSnapshot\<close> validated already.
\<close>

section \<open>Typed broker facts\<close>

record ingest_env =
  ig_row :: "nat \<Rightarrow> uuid"
  ig_reservation :: "nat \<Rightarrow> uuid"
  ig_notices :: notice_environment

definition next_row :: "ingest_env \<Rightarrow> world \<Rightarrow> uuid" where
  "next_row env w = ig_row env (length (db_resources (w_db w)))"

definition typed_position :: "int \<Rightarrow> sdk_position \<Rightarrow> broker_position res" where
  "typed_position sequence p =
     rbind (ensure (0 < sp_entry_price p \<and> 1 \<le> sequence) (ValidationError ''BrokerPosition'')) (\<lambda>_.
     Inr \<lparr>bp_account_id = sp_account_id p, bp_broker_position_id = sp_position_id p,
          bp_instrument = sp_symbol p, bp_direction = Some (sp_direction p), bp_quantity = sp_volume p,
          bp_average_price = sp_entry_price p, bp_version = sequence, bp_observed_at = sp_observed_at p,
          bp_typed = sp_typed p\<rparr>)"

definition typed_order :: "uuid \<Rightarrow> sdk_order \<Rightarrow> broker_order res" where
  "typed_order command_id o' =
     rbind (ensure (0 < so_requested_volume o' \<and> 1 \<le> so_version o') (ValidationError ''BrokerOrder'')) (\<lambda>_.
     Inr \<lparr>bo_account_id = so_account_id o', bo_command_id = command_id,
          bo_broker_order_id = so_order_id o', bo_instrument = so_symbol o',
          bo_direction = Some (so_direction o'), bo_state = so_state o',
          bo_quantity = so_requested_volume o', bo_filled_quantity = so_filled_volume o',
          bo_version = so_version o', bo_observed_at = so_observed_at o', bo_typed = so_typed o'\<rparr>)"

definition typed_fill :: "sdk_fill \<Rightarrow> broker_fill res" where
  "typed_fill f =
     rbind (ensure (0 < sf_quantity f \<and> 0 < sf_price f \<and> 1 \<le> sf_revision f) (ValidationError ''BrokerFill'')) (\<lambda>_.
     Inr \<lparr>bf_account_id = sf_account_id f, bf_broker_order_id = sf_order_id f,
          bf_broker_fill_id = sf_fill_id f, bf_quantity = sf_quantity f, bf_price = sf_price f,
          bf_revision = sf_revision f, bf_observed_at = sf_observed_at f\<rparr>)"

definition relevant_order :: "execution_command \<Rightarrow> sdk_order \<Rightarrow> bool" where
  "relevant_order c o' \<longleftrightarrow>
     so_command_id o' = Some (cm_id c)
     \<or> (cm_broker_order_id c \<noteq> None \<and> Some (so_order_id o') = cm_broker_order_id c)"

section \<open>Reconciling one pending command\<close>

definition pending_command_states :: "string list" where
  "pending_command_states = [''DISPATCHING'', ''ACKNOWLEDGED'', ''PARTIALLY_APPLIED'', ''OUTCOME_UNKNOWN'', ''RECONCILING'']"

text \<open>Storing an order or a fill the broker reports, unless that version of it is stored already.\<close>

fun is_order :: "broker_order \<Rightarrow> document \<Rightarrow> bool" where
  "is_order o' (OrderDoc d) \<longleftrightarrow> bo_broker_order_id d = bo_broker_order_id o' \<and> bo_version d = bo_version o'"
| "is_order o' _ \<longleftrightarrow> False"

definition record_order ::
    "ingest_env \<Rightarrow> timestamp \<Rightarrow> uuid \<Rightarrow> uuid option \<Rightarrow> broker_order \<Rightarrow> world \<Rightarrow> world res" where
  "record_order env now owner actor o' w =
     (if list_ex (\<lambda>r. is_order o' (res_data r)) (store_list (w_db w) ''broker_order'' owner False) then Inr w
      else rbind (w_create (next_row env w) now w ''broker_order'' owner (OrderDoc o') (bo_state o') None
                    actor (Some ''broker.order_reconciled'')) (\<lambda>(w1, r). Inr w1))"

fun is_fill :: "broker_fill \<Rightarrow> document \<Rightarrow> bool" where
  "is_fill f (FillDoc d) \<longleftrightarrow> bf_broker_fill_id d = bf_broker_fill_id f \<and> bf_revision d = bf_revision f"
| "is_fill f _ \<longleftrightarrow> False"

definition record_fill ::
    "ingest_env \<Rightarrow> timestamp \<Rightarrow> uuid \<Rightarrow> uuid option \<Rightarrow> broker_fill \<Rightarrow> world \<Rightarrow> world res" where
  "record_fill env now owner actor f w =
     (if list_ex (\<lambda>r. is_fill f (res_data r)) (store_list (w_db w) ''broker_fill'' owner False) then Inr w
      else rbind (w_create (next_row env w) now w ''broker_fill'' owner (FillDoc f) ''ACTIVE'' None
                    actor (Some ''broker.fill_reconciled'')) (\<lambda>(w1, r). Inr w1))"

definition requested_quantity :: "execution_command \<Rightarrow> decimal res" where
  "requested_quantity c =
     (case map_of (cm_postcondition c) ''quantity'' of None \<Rightarrow> Inr 0 | Some v \<Rightarrow> jvalue_decimal v)"

definition confirmed_state :: "decimal \<Rightarrow> decimal \<Rightarrow> command_state" where
  "confirmed_state filled wanted =
     (if 0 < filled \<and> wanted \<le> filled then APPLIED
      else if 0 < filled then PARTIALLY_APPLIED else ACKNOWLEDGED)"

text \<open>Activating the trade of a matched position and settling the plan's reservation.\<close>

fun trades_position :: "string \<Rightarrow> document \<Rightarrow> bool" where
  "trades_position pid (ActiveTradeDoc d) \<longleftrightarrow> sp_position_id (av_position d) = pid"
| "trades_position pid _ \<longleftrightarrow> False"

definition active_trade_of :: "uuid \<Rightarrow> uuid \<Rightarrow> trade_plan \<Rightarrow> execution_command \<Rightarrow> sdk_position \<Rightarrow> active_trade" where
  "active_trade_of fresh owner plan c p =
     \<lparr>av_id = fresh, av_owner_id = owner, av_trade_plan_id = Some (tp_id plan),
      av_execution_command_id = Some (cm_id c), av_position = p, av_state = ''ACTIVE'',
      av_asset_class = Some (tc_asset_class (tp_construction plan)),
      av_instrument_type = Some (tc_instrument_type (tp_construction plan)),
      av_quantity_unit = Some (tc_quantity_unit (tp_construction plan))\<rparr>"

definition settle_position ::
    "ingest_env \<Rightarrow> timestamp \<Rightarrow> uuid \<Rightarrow> trade_plan \<Rightarrow> sdk_position \<Rightarrow> decimal \<Rightarrow> decimal \<Rightarrow> world \<Rightarrow> world res" where
  "settle_position env now owner plan p wanted filled w =
     (case tp_reservation_id plan of
        None \<Rightarrow> Inr w
      | Some rid \<Rightarrow>
          (let reserved = sn_candidate_trade_risk (rr_snapshot (tp_risk plan)) in
           if 0 < wanted \<and> filled < wanted
           then
             rbind (d_divide (d_mul reserved filled) wanted) (\<lambda>filled_risk.
             rbind (reservations_split_partial_fill (ig_reservation env (length (w_reservations w))) now
                      (w_reservations w) rid owner filled_risk (sp_position_id p) (d_sub reserved filled_risk))
               (\<lambda>(t, _). Inr (w\<lparr>w_reservations := t\<rparr>)))
           else
             rbind (reservations_transition now (w_reservations w) rid owner OPEN_POSITION None None
                      (Some (sp_position_id p)) None None) (\<lambda>(t, _). Inr (w\<lparr>w_reservations := t\<rparr>))))"

definition activate_trade ::
    "ingest_env \<Rightarrow> timestamp \<Rightarrow> uuid \<Rightarrow> uuid option \<Rightarrow> document resource \<Rightarrow> trade_plan \<Rightarrow> execution_command \<Rightarrow>
     sdk_position \<Rightarrow> decimal \<Rightarrow> decimal \<Rightarrow> world \<Rightarrow> world res" where
  "activate_trade env now owner actor plan_record plan c p wanted filled w =
     (let active = active_trade_of (next_row env w) owner plan c p in
      rbind (case first_match (\<lambda>r. trades_position (sp_position_id p) (res_data r))
                    (store_list (w_db w) ''active_trade'' owner False) of
               None \<Rightarrow> w_create (next_row env w) now w ''active_trade'' owner (ActiveTradeDoc active)
                         (av_state active) (Some (av_id active)) actor (Some ''trade.position_activated'')
             | Some r \<Rightarrow> w_update now w r (ActiveTradeDoc (active\<lparr>av_id := res_id r\<rparr>)) (av_state active)
                         None actor ''trade.position_revised'' None) (\<lambda>(w1, _).
      rbind (if tp_state plan = TP_EXECUTING
             then rbind (transition_trade_plan plan TP_ACTIVE) (\<lambda>plan'.
                  rbind (w_update now w1 plan_record (PlanDoc plan') (plan_state_value (tp_state plan')) None
                           actor ''trade_plan.active'' None) (\<lambda>(w2, _). Inr w2))
             else Inr w1) (\<lambda>w2.
      settle_position env now owner plan p wanted filled w2)))"

text \<open>The facts announced when a single order was matched.\<close>

definition order_notice ::
    "execution_command \<Rightarrow> trade_plan \<Rightarrow> broker_order \<Rightarrow> broker_fill list \<Rightarrow> decimal \<Rightarrow> broker_notice" where
  "order_notice c plan o' fills filled =
     \<lparr>bt_command_id = cm_id c,
      bt_event_kind = (if cm_state c = APPLIED then ''trade_entry_complete''
                       else if cm_state c = PARTIALLY_APPLIED then ''trade_entry_partial''
                       else ''order_accepted''),
      bt_revision = fold max (map bf_revision fills) (bo_version o'),
      bt_account_id = cm_account_id c, bt_instrument = bo_instrument o',
      bt_quantity = (if filled \<noteq> 0 then filled else bo_quantity o'),
      bt_price = (if fills = [] then None else Some (bf_price (last fills))),
      bt_stop_loss = Some (tc_stop_loss (tp_construction plan)),
      bt_take_profit = Some (hd (tc_targets (tp_construction plan))),
      bt_strategy_version_id = tp_strategy_version_id plan, bt_trade_plan_id = tp_id plan,
      bt_broker_order_id = Some (bo_broker_order_id o'), bt_observed_at = Some (bo_observed_at o')\<rparr>"

definition store_command ::
    "timestamp \<Rightarrow> world \<Rightarrow> document resource \<Rightarrow> execution_command \<Rightarrow> uuid option \<Rightarrow> world res" where
  "store_command now w r c actor =
     rbind (w_update now w r (new_command_doc c) (command_state_value (cm_state c)) None actor
              (''execution.command.'' @ str_lower (command_state_value (cm_state c))) None) (\<lambda>(w1, _). Inr w1)"

definition concluded :: "execution_command \<Rightarrow> command_state \<Rightarrow> outcome_certainty \<Rightarrow> execution_command" where
  "concluded c st certainty =
     c\<lparr>cm_state := st, cm_outcome_certainty := certainty, cm_version := cm_version c + 1\<rparr>"

text \<open>\<open>relevant_orders[0] if len(relevant_orders) == 1 else None\<close>, the matched position, and what was filled.\<close>

definition matched_order :: "broker_order list \<Rightarrow> broker_order option" where
  "matched_order orders = (case orders of [o'] \<Rightarrow> Some o' | _ \<Rightarrow> None)"

definition matched_position :: "broker_snapshot \<Rightarrow> reconciliation_record \<Rightarrow> sdk_position option" where
  "matched_position sn result =
     first_match (\<lambda>p. Some (sp_position_id p) = rn_broker_position_id result) (sn_positions sn)"

definition filled_of :: "broker_snapshot \<Rightarrow> broker_order list \<Rightarrow> reconciliation_record \<Rightarrow> decimal" where
  "filled_of sn orders result =
     (case matched_order orders of
        Some o' \<Rightarrow> bo_filled_quantity o'
      | None \<Rightarrow> (case matched_position sn result of None \<Rightarrow> 0 | Some p \<Rightarrow> d_abs (sp_volume p)))"

text \<open>
  A matched command: the orders and fills are recorded, the command takes the state its fill confirms,
  an entry with a matched position activates its trade, and a single matched order is announced.
\<close>

definition apply_match ::
    "ingest_env \<Rightarrow> timestamp \<Rightarrow> uuid \<Rightarrow> uuid option \<Rightarrow> broker_snapshot \<Rightarrow> document resource \<Rightarrow>
     execution_command \<Rightarrow> broker_order list \<Rightarrow> reconciliation_record \<Rightarrow> document resource \<Rightarrow> trade_plan \<Rightarrow>
     world \<Rightarrow> world res" where
  "apply_match env now owner actor sn command_record c orders result plan_record plan w =
     rbind (case matched_order orders of None \<Rightarrow> Inr []
            | Some o' \<Rightarrow> rmap typed_fill (filter (\<lambda>f. sf_order_id f = bo_broker_order_id o') (sn_fills sn))) (\<lambda>fills.
     rbind (rfold (record_order env now owner actor) orders w) (\<lambda>w1.
     rbind (rfold (record_fill env now owner actor) fills w1) (\<lambda>w2.
     rbind (requested_quantity c) (\<lambda>wanted.
     let filled = filled_of sn orders result;
         c' = (concluded c (confirmed_state filled wanted) CONFIRMED)
                \<lparr>cm_broker_order_id := (case matched_order orders of
                                           Some o' \<Rightarrow> Some (bo_broker_order_id o')
                                         | None \<Rightarrow> cm_broker_order_id c)\<rparr>
     in
     rbind (store_command now w2 command_record c' actor) (\<lambda>w3.
     rbind (case matched_position sn result of
              Some p \<Rightarrow>
                if cm_action c = PLACE_ORDER
                then activate_trade env now owner actor plan_record plan c' p wanted filled w3 else Inr w3
            | None \<Rightarrow> Inr w3) (\<lambda>w4.
     case matched_order orders of
       None \<Rightarrow> Inr w4
     | Some o' \<Rightarrow>
         rbind (queue_confirmed_broker_notifications (ig_notices env) now w4 owner
                  (order_notice c' plan o' fills filled)) (\<lambda>(w5, _). Inr w5)))))))"

definition reconciliation_event :: "string \<Rightarrow> string" where
  "reconciliation_event st =
     (if st = ''MATCHED'' then ''reconciliation.confirmed''
      else if st = ''AMBIGUOUS'' then ''reconciliation.ambiguous'' else ''reconciliation.no_effect_confirmed'')"

definition command_plan :: "world \<Rightarrow> uuid \<Rightarrow> execution_command \<Rightarrow> document resource option" where
  "command_plan w owner c = Option.bind (cm_trade_plan_id c) (\<lambda>pid. store_get (w_db w) ''trade_plan'' pid owner)"

definition reconcile_pending ::
    "ingest_env \<Rightarrow> timestamp \<Rightarrow> uuid \<Rightarrow> uuid option \<Rightarrow> broker_snapshot \<Rightarrow> broker_position list \<Rightarrow>
     document resource \<Rightarrow> world \<times> document resource list \<Rightarrow> (world \<times> document resource list) res" where
  "reconcile_pending env now owner actor sn positions r acc =
     (let (w, reconciliations) = acc in
      if res_state r \<notin> set pending_command_states then Inr acc
      else
        rbind (as_command (res_data r)) (\<lambda>d.
        let c = cd_command d in
        if cm_account_id c \<noteq> sn_broker_account sn then Inr acc
        else
          rbind (rmap (typed_order (cm_id c)) (filter (relevant_order c) (sn_orders sn))) (\<lambda>orders.
          rbind (reconcile_command c orders positions True) (\<lambda>result.
          rbind (w_create (next_row env w) now w ''reconciliation'' owner (ReconciliationDoc result)
                   (rn_state result) None actor (Some (reconciliation_event (rn_state result)))) (\<lambda>(w1, rr).
          let reconciliations' = reconciliations @ [rr] in
          if rn_state result = ''AMBIGUOUS''
          then rbind (store_command now w1 r (concluded c BLOCKED_AMBIGUOUS UNCERTAIN) actor) (\<lambda>w2.
               Inr (w2, reconciliations'))
          else if rn_state result = ''NO_EFFECT_CONFIRMED''
          then rbind (store_command now w1 r (concluded c NO_EFFECT_CONFIRMED CONFIRMED) actor) (\<lambda>w2.
               Inr (w2, reconciliations'))
          else
            (case command_plan w1 owner c of
               None \<Rightarrow> Inr (w1, reconciliations')
             | Some plan_record \<Rightarrow>
                 rbind (as_plan (res_data plan_record)) (\<lambda>plan.
                 rbind (apply_match env now owner actor sn r c orders result plan_record plan w1) (\<lambda>w2.
                 Inr (w2, reconciliations')))))))))"

section \<open>Ingesting a snapshot\<close>

record ingest_reply =
  ir_sequence :: int
  ir_reconciliations :: "document resource list"
  ir_duplicate :: bool

fun snapshot_message :: "document \<Rightarrow> uuid option" where
  "snapshot_message (SnapshotDoc d) = Some (sn_message_id d)"
| "snapshot_message _ = None"

fun snapshot_sequence :: "document \<Rightarrow> int" where
  "snapshot_sequence (SnapshotDoc d) = sn_sequence d"
| "snapshot_sequence _ = - 1"

definition ingest_broker_snapshot ::
    "ingest_env \<Rightarrow> timestamp \<Rightarrow> uuid \<Rightarrow> uuid option \<Rightarrow> world \<Rightarrow> broker_snapshot \<Rightarrow> (world \<times> ingest_reply) res" where
  "ingest_broker_snapshot env now owner actor w sn =
     (let existing = account_snapshots w owner (sn_broker_account sn) in
      if list_ex (\<lambda>r. snapshot_message (res_data r) = Some (sn_message_id sn)) existing
      then Inr (w, \<lparr>ir_sequence = sn_sequence sn, ir_reconciliations = [], ir_duplicate = True\<rparr>)
      else if existing \<noteq> [] \<and> sn_sequence sn \<le> snapshot_sequence (res_data (hd existing))
      then Inl (HTTPException 409 ''out-of-order or replayed broker snapshot'')
      else
        rbind (w_create (next_row env w) now w ''broker_snapshot'' owner (SnapshotDoc sn) ''ACTIVE'' None actor
                 (Some ''broker.account_changed'')) (\<lambda>(w1, _).
        rbind (rmap (typed_position (sn_sequence sn)) (sn_positions sn)) (\<lambda>positions.
        rbind (rfold (reconcile_pending env now owner actor sn positions)
                 (store_list (w_db w1) ''execution_command'' owner False) (w1, [])) (\<lambda>(w2, reconciliations).
        Inr (w2, \<lparr>ir_sequence = sn_sequence sn, ir_reconciliations = reconciliations,
                  ir_duplicate = False\<rparr>)))))"


section \<open>Lemmas: what a sequence of writes leaves\<close>

text \<open>
  The tables evolve: no reservation moves, rows of kinds outside \<open>K\<close> are as they were, and a stored row
  keeps its kind and owner, and everything else unless its identity is in \<open>I\<close>.
\<close>

definition evolves :: "string set \<Rightarrow> uuid set \<Rightarrow> world \<Rightarrow> world \<Rightarrow> bool" where
  "evolves K I w w' \<longleftrightarrow>
     w_reservations w' = w_reservations w \<and> store_inv (w_db w') \<and> (\<forall>kind. kind \<notin> K \<longrightarrow> same_rows kind w w')
     \<and> (\<forall>i q. map_of (db_resources (w_db w)) i = Some q \<longrightarrow>
          (\<exists>q'. map_of (db_resources (w_db w')) i = Some q' \<and> res_kind q' = res_kind q
             \<and> res_owner q' = res_owner q \<and> (i \<notin> I \<longrightarrow> q' = q)))"

lemma evolves_refl: "store_inv (w_db w) \<Longrightarrow> evolves K I w w"
  by (simp add: evolves_def)

lemma evolves_inv: "evolves K I w w' \<Longrightarrow> store_inv (w_db w')"
  by (simp add: evolves_def)

lemma evolves_row:
  assumes "evolves K I w w'" and "map_of (db_resources (w_db w)) i = Some q"
  obtains q' where "map_of (db_resources (w_db w')) i = Some q'" "res_kind q' = res_kind q"
    "res_owner q' = res_owner q" "i \<notin> I \<longrightarrow> q' = q"
  using assms unfolding evolves_def by blast

lemma evolves_trans:
  assumes "evolves K I w w1" and "evolves K I w1 w2"
  shows "evolves K I w w2"
proof -
  have "\<exists>q'. map_of (db_resources (w_db w2)) i = Some q' \<and> res_kind q' = res_kind q
      \<and> res_owner q' = res_owner q \<and> (i \<notin> I \<longrightarrow> q' = q)"
    if q: "map_of (db_resources (w_db w)) i = Some q" for i q
  proof -
    obtain q1 where 1: "map_of (db_resources (w_db w1)) i = Some q1" "res_kind q1 = res_kind q"
      "res_owner q1 = res_owner q" "i \<notin> I \<longrightarrow> q1 = q" by (rule evolves_row[OF assms(1) q])
    obtain q2 where 2: "map_of (db_resources (w_db w2)) i = Some q2" "res_kind q2 = res_kind q1"
      "res_owner q2 = res_owner q1" "i \<notin> I \<longrightarrow> q2 = q1" by (rule evolves_row[OF assms(2) 1(1)])
    show ?thesis by (rule exI[of _ q2]) (use 1 2 in auto)
  qed
  moreover have "same_rows kind w w2" if "kind \<notin> K" for kind
    using assms that unfolding evolves_def by (blast intro: same_rows_trans)
  ultimately show ?thesis using assms(1,2) unfolding evolves_def by simp
qed

lemma evolves_mono: "evolves K I w w' \<Longrightarrow> K \<subseteq> K' \<Longrightarrow> I \<subseteq> I' \<Longrightarrow> evolves K' I' w w'"
  unfolding evolves_def by blast

lemma w_create_evolves:
  assumes "w_create fresh now w kind owner data st rid actor event = Inr (w', r)" and "store_inv (w_db w)"
  shows "evolves {kind} {} w w'"
proof -
  note C = w_create_InrD[OF assms(1)]
  have "same_rows k w w'" if "k \<notin> {kind}" for k
    by (rule same_rows_write[OF C(9)]) (use that C in auto)
  then show ?thesis
    using C w_create_inv[OF assms] by (auto simp: evolves_def)
qed

lemma w_update_evolves:
  assumes "w_update now w r data st ver actor event ev = Inr (w', r')" and "store_inv (w_db w)"
    and "map_of (db_resources (w_db w)) (res_id r) = Some q" and "res_kind q = res_kind r"
    and "res_owner q = res_owner r" and "1 \<le> res_version r"
  shows "evolves {res_kind r} {res_id r} w w'" and "map_of (db_resources (w_db w')) (res_id r) = Some r'"
proof -
  note U = w_update_InrD[OF assms(1)]
  have "same_rows k w w'" if "k \<notin> {res_kind r}" for k
    by (rule same_rows_write[OF U(8)]) (use that U assms(3,4) in auto)
  moreover have "\<exists>x. map_of (db_resources (w_db w')) i = Some x \<and> res_kind x = res_kind z
      \<and> res_owner x = res_owner z \<and> (i \<notin> {res_id r} \<longrightarrow> x = z)"
    if "map_of (db_resources (w_db w)) i = Some z" for i z
    by (rule exI[of _ "if i = res_id r then r' else z"]) (use that U(1-3,8) assms(3-5) in auto)
  ultimately show "evolves {res_kind r} {res_id r} w w'"
    using U(10) w_update_inv[OF assms(1,2,6)] unfolding evolves_def by blast
  show "map_of (db_resources (w_db w')) (res_id r) = Some r'" by (simp add: U(8))
qed

lemma notices_evolve:
  assumes "queue_confirmed_broker_notifications env now w owner n = Inr (w', ids)" and "store_inv (w_db w)"
  shows "evolves {''notification''} {} w w'"
proof -
  note R = queue_notices_run[OF assms(1)[unfolded queue_confirmed_broker_notifications_def] assms(2)]
  have "map_of (db_resources (w_db w')) i = Some q" if q: "map_of (db_resources (w_db w)) i = Some q" for i q
  proof -
    have "store_get (w_db w) (res_kind q) i (res_owner q) = Some q" using q by (simp add: store_get_iff)
    then have "store_get (w_db w') (res_kind q) i (res_owner q) = Some q"
      using R by (cases "res_kind q = ''notification''") (auto simp: same_rows_def)
    then show ?thesis by (simp add: store_get_iff)
  qed
  then show ?thesis using R unfolding evolves_def by auto
qed

lemma rfold_evolves:
  assumes "rfold f xs w = Inr w'" and "store_inv (w_db w)"
    and "\<And>x u v. x \<in> set xs \<Longrightarrow> store_inv (w_db u) \<Longrightarrow> f x u = Inr v \<Longrightarrow> evolves K I u v"
  shows "evolves K I w w'"
proof (rule rfold_invariant[where P = "evolves K I w", OF assms(1)])
  show "evolves K I w w" by (rule evolves_refl[OF assms(2)])
  show "evolves K I w v" if "x \<in> set xs" "evolves K I w u" "f x u = Inr v" for x u v
    by (rule evolves_trans[OF that(2) assms(3)[OF that(1) evolves_inv[OF that(2)] that(3)]])
qed

lemma record_order_evolves:
  "record_order env now owner actor x w = Inr w' \<Longrightarrow> store_inv (w_db w) \<Longrightarrow> evolves {''broker_order''} {} w w'"
  by (auto simp: record_order_def evolves_refl split: if_splits intro: w_create_evolves)

lemma record_fill_evolves:
  "record_fill env now owner actor x w = Inr w' \<Longrightarrow> store_inv (w_db w) \<Longrightarrow> evolves {''broker_fill''} {} w w'"
  by (auto simp: record_fill_def evolves_refl split: if_splits intro: w_create_evolves)

section \<open>Lemmas: a trade is never activated\<close>

lemma active_trade_refused:
  "validate_executable_reference (document_ref (ActiveTradeDoc ((active_trade_of i owner plan c p)\<lparr>av_id := j\<rparr>)))
     \<noteq> Inr ()"
  by (simp add: active_trade_of_def active_trade_ref_def untyped_ref_def validate_executable_reference_ok_iff truthy_def)

lemma activate_trade_raises: "activate_trade env now owner actor pr plan c p wanted filled w \<noteq> Inr w'"
proof
  assume "activate_trade env now owner actor pr plan c p wanted filled w = Inr w'"
  then consider w1 r where "w_create (next_row env w) now w ''active_trade'' owner
      (ActiveTradeDoc (active_trade_of (next_row env w) owner plan c p)) ''ACTIVE'' (Some (next_row env w)) actor
      (Some ''trade.position_activated'') = Inr (w1, r)"
    | w1 q r where "w_update now w q (ActiveTradeDoc ((active_trade_of (next_row env w) owner plan c p)
        \<lparr>av_id := res_id q\<rparr>)) ''ACTIVE'' None actor ''trade.position_revised'' None = Inr (w1, r)"
    by (auto simp: activate_trade_def Let_def active_trade_of_def split: option.splits)
  then show False
  proof cases
    case 1
    from w_create_InrD(12)[OF 1] active_trade_refused[where i = "next_row env w" and j = "next_row env w"]
    show ?thesis by (simp add: active_trade_of_def)
  next
    case 2
    then have "validate_executable_reference (document_ref (ActiveTradeDoc
        ((active_trade_of (next_row env w) owner plan c p)\<lparr>av_id := res_id q\<rparr>))) = Inr ()"
      by (auto simp: w_update_def store_update_def Let_def)
    with active_trade_refused show ?thesis by blast
  qed
qed


section \<open>Lemmas: the command a snapshot settles\<close>

lemma same_intent_concluded [simp]: "same_intent c (concluded c st oc)"
  by (simp add: same_intent_def concluded_def)

definition stored_as :: "execution_command \<Rightarrow> document resource \<Rightarrow> bool" where
  "stored_as c r \<longleftrightarrow> res_data r = new_command_doc c \<and> res_state r = command_state_value (cm_state c)"

lemma store_command_evolves:
  assumes "store_command now w r c actor = Inr w'" and "store_inv (w_db w)"
    and "map_of (db_resources (w_db w)) (res_id r) = Some q" and "res_kind q = res_kind r"
    and "res_owner q = res_owner r" and "1 \<le> res_version r"
  obtains r' where "evolves {res_kind r} {res_id r} w w'"
    and "map_of (db_resources (w_db w')) (res_id r) = Some r'" and "stored_as c r'"
    and "res_version r' = res_version r + 1"
proof -
  from assms(1) obtain r' where u: "w_update now w r (new_command_doc c) (command_state_value (cm_state c)) None
      actor (''execution.command.'' @ str_lower (command_state_value (cm_state c))) None = Inr (w', r')"
    by (auto simp: store_command_def)
  show ?thesis
    by (rule that[OF w_update_evolves[OF u assms(2-6)]]) (use w_update_InrD[OF u] in \<open>simp_all add: stored_as_def\<close>)
qed

definition confirmed_by ::
    "broker_snapshot \<Rightarrow> execution_command \<Rightarrow> broker_order list \<Rightarrow> reconciliation_record \<Rightarrow> execution_command \<Rightarrow> bool" where
  "confirmed_by sn c orders result c' \<longleftrightarrow>
     (\<exists>wanted. requested_quantity c = Inr wanted
        \<and> cm_state c' = confirmed_state (filled_of sn orders result) wanted
        \<and> cm_outcome_certainty c' = CONFIRMED \<and> cm_version c' = cm_version c + 1 \<and> same_intent c c')"

lemma apply_match_InrD:
  assumes "apply_match env now owner actor sn r c orders result pr plan w = Inr w'" and "store_inv (w_db w)"
    and "map_of (db_resources (w_db w)) (res_id r) = Some q" and "res_kind q = res_kind r"
    and "res_owner q = res_owner r" and "1 \<le> res_version r"
  obtains r' c' where
    "evolves {''broker_order'', ''broker_fill'', res_kind r, ''notification''} {res_id r} w w'"
    "map_of (db_resources (w_db w')) (res_id r) = Some r'" "stored_as c' r'"
    "confirmed_by sn c orders result c'" "res_version r' = res_version r + 1"
    "\<not> (cm_action c = PLACE_ORDER
        \<and> (\<exists>p \<in> set (sn_positions sn). Some (sp_position_id p) = rn_broker_position_id result))"
proof -
  let ?K = "{''broker_order'', ''broker_fill'', res_kind r, ''notification''}"
  from assms(1) obtain fills w1 w2 wanted w3 w4 c' where
    w1: "rfold (record_order env now owner actor) orders w = Inr w1"
    and w2: "rfold (record_fill env now owner actor) fills w1 = Inr w2"
    and wanted: "requested_quantity c = Inr wanted"
    and c': "c' = (concluded c (confirmed_state (filled_of sn orders result) wanted) CONFIRMED)
                 \<lparr>cm_broker_order_id := (case matched_order orders of Some o' \<Rightarrow> Some (bo_broker_order_id o')
                                          | None \<Rightarrow> cm_broker_order_id c)\<rparr>"
    and w3: "store_command now w2 r c' actor = Inr w3"
    and w4: "(case matched_position sn result of Some p \<Rightarrow> if cm_action c = PLACE_ORDER
          then activate_trade env now owner actor pr plan c' p wanted (filled_of sn orders result) w3 else Inr w3
        | None \<Rightarrow> Inr w3) = Inr w4"
    and w': "(case matched_order orders of None \<Rightarrow> Inr w4 | Some o' \<Rightarrow>
        rbind (queue_confirmed_broker_notifications (ig_notices env) now w4 owner
          (order_notice c' plan o' fills (filled_of sn orders result))) (\<lambda>(w5, _). Inr w5)) = Inr w'"
    unfolding apply_match_def Let_def rbind_eq_Inr_iff by blast
  have e1: "evolves ?K {res_id r} w w1"
    by (rule evolves_mono[OF rfold_evolves[OF w1 assms(2) record_order_evolves]]) auto
  have e2: "evolves ?K {res_id r} w1 w2"
    by (rule evolves_mono[OF rfold_evolves[OF w2 evolves_inv[OF e1] record_fill_evolves]]) auto
  note e12 = evolves_trans[OF e1 e2]
  obtain q2 where q2: "map_of (db_resources (w_db w2)) (res_id r) = Some q2" "res_kind q2 = res_kind q"
    "res_owner q2 = res_owner q" by (rule evolves_row[OF e12 assms(3)])
  obtain r' where r': "evolves {res_kind r} {res_id r} w2 w3"
    "map_of (db_resources (w_db w3)) (res_id r) = Some r'" "stored_as c' r'" "res_version r' = res_version r + 1"
    by (rule store_command_evolves[OF w3 evolves_inv[OF e12] q2(1)]) (use q2 assms(4-6) in simp_all)
  have e3: "evolves ?K {res_id r} w w3"
    by (rule evolves_trans[OF e12 evolves_mono[OF r'(1)]]) auto
  have w4': "w4 = w3" and idle: "\<not> (cm_action c = PLACE_ORDER \<and> matched_position sn result \<noteq> None)"
    using w4 activate_trade_raises by (auto split: option.splits if_splits)
  have e4: "evolves {''notification''} {} w3 w'"
    using w' evolves_inv[OF e3] by (auto simp: w4' evolves_refl split: option.splits intro: notices_evolve)
  obtain r'' where r'': "map_of (db_resources (w_db w')) (res_id r) = Some r''" "r'' = r'"
    using evolves_row[OF e4 r'(2)] by auto
  have "confirmed_by sn c orders result c'"
    by (auto simp: confirmed_by_def c' wanted same_intent_def concluded_def)
  moreover have "\<not> (cm_action c = PLACE_ORDER
        \<and> (\<exists>p \<in> set (sn_positions sn). Some (sp_position_id p) = rn_broker_position_id result))"
    using idle by (auto simp: matched_position_def first_match_None_iff)
  ultimately show ?thesis
    using that[of r' c'] evolves_trans[OF e3 evolves_mono[OF e4]] r' r'' by blast
qed


definition pending_for :: "broker_snapshot \<Rightarrow> document resource \<Rightarrow> bool" where
  "pending_for sn r \<longleftrightarrow> res_state r \<in> set pending_command_states
     \<and> (\<exists>d. res_data r = CommandDoc d \<and> cm_account_id (cd_command d) = sn_broker_account sn)"

text \<open>How the row of a pending command is related to its row before the snapshot.\<close>

definition reconciled_row ::
    "broker_snapshot \<Rightarrow> broker_position list \<Rightarrow> world \<Rightarrow> uuid \<Rightarrow> document resource \<Rightarrow> document resource \<Rightarrow> bool" where
  "reconciled_row sn positions w owner r r' \<longleftrightarrow>
     (\<exists>d orders result. res_data r = CommandDoc d
        \<and> rmap (typed_order (cm_id (cd_command d))) (filter (relevant_order (cd_command d)) (sn_orders sn)) = Inr orders
        \<and> reconcile_command (cd_command d) orders positions True = Inr result
        \<and> (if rn_state result = ''AMBIGUOUS''
           then stored_as (concluded (cd_command d) BLOCKED_AMBIGUOUS UNCERTAIN) r'
           else if rn_state result = ''NO_EFFECT_CONFIRMED''
           then stored_as (concluded (cd_command d) NO_EFFECT_CONFIRMED CONFIRMED) r'
           else if command_plan w owner (cd_command d) = None then r' = r
           else (\<exists>c'. stored_as c' r' \<and> confirmed_by sn (cd_command d) orders result c')
              \<and> \<not> (cm_action (cd_command d) = PLACE_ORDER \<and> matched_position sn result \<noteq> None)))"

lemma command_plan_frame: "same_rows ''trade_plan'' w w' \<Longrightarrow> command_plan w' owner c = command_plan w owner c"
  by (cases "cm_trade_plan_id c") (simp_all add: command_plan_def same_rows_def)

lemma reconciled_row_frame:
  "same_rows ''trade_plan'' w w' \<Longrightarrow> reconciled_row sn ps w' owner r r' = reconciled_row sn ps w owner r r'"
  by (simp add: reconciled_row_def command_plan_frame)

definition settled_kinds :: "string set" where
  "settled_kinds = {''reconciliation'', ''broker_order'', ''broker_fill'', ''execution_command'', ''notification''}"

lemma reconcile_pending_idle:
  assumes "reconcile_pending env now owner actor sn ps r (w, recs) = Inr (w', recs')" and "\<not> pending_for sn r"
  shows "w' = w \<and> recs' = recs"
  using assms
  by (cases "res_data r")
    (auto simp: reconcile_pending_def pending_for_def Let_def split: if_splits)

lemma reconcile_pending_InrD:
  assumes "reconcile_pending env now owner actor sn ps r (w, recs) = Inr (w', recs')" and "pending_for sn r"
    and "store_inv (w_db w)" and "map_of (db_resources (w_db w)) (res_id r) = Some r"
    and "res_kind r = ''execution_command''" and "1 \<le> res_version r"
  shows "evolves settled_kinds {res_id r} w w' \<and> length recs' = length recs + 1
    \<and> (\<exists>r'. map_of (db_resources (w_db w')) (res_id r) = Some r' \<and> reconciled_row sn ps w owner r r')"
proof -
  from assms(2) obtain d where st: "res_state r \<in> set pending_command_states" and d: "res_data r = CommandDoc d"
    and acc: "cm_account_id (cd_command d) = sn_broker_account sn" by (auto simp: pending_for_def)
  let ?c = "cd_command d"
  from assms(1) st d acc obtain orders result w1 rr where
    orders: "rmap (typed_order (cm_id ?c)) (filter (relevant_order ?c) (sn_orders sn)) = Inr orders"
    and result: "reconcile_command ?c orders ps True = Inr result"
    and w1: "w_create (next_row env w) now w ''reconciliation'' owner (ReconciliationDoc result) (rn_state result)
        None actor (Some (reconciliation_event (rn_state result))) = Inr (w1, rr)"
    and rest: "(if rn_state result = ''AMBIGUOUS''
         then rbind (store_command now w1 r (concluded ?c BLOCKED_AMBIGUOUS UNCERTAIN) actor) (\<lambda>w2. Inr (w2, recs @ [rr]))
         else if rn_state result = ''NO_EFFECT_CONFIRMED''
         then rbind (store_command now w1 r (concluded ?c NO_EFFECT_CONFIRMED CONFIRMED) actor) (\<lambda>w2. Inr (w2, recs @ [rr]))
         else (case command_plan w1 owner ?c of None \<Rightarrow> Inr (w1, recs @ [rr])
           | Some p \<Rightarrow> rbind (as_plan (res_data p)) (\<lambda>plan.
               rbind (apply_match env now owner actor sn r ?c orders result p plan w1) (\<lambda>w2. Inr (w2, recs @ [rr])))))
       = Inr (w', recs')"
    by (auto simp: reconcile_pending_def Let_def)
  note e1 = w_create_evolves[OF w1 assms(3)]
  have e1': "evolves settled_kinds {res_id r} w w1"
    by (rule evolves_mono[OF e1]) (auto simp: settled_kinds_def)
  have row1: "map_of (db_resources (w_db w1)) (res_id r) = Some r"
    using evolves_row[OF e1 assms(4)] by auto
  have plan1: "command_plan w1 owner ?c = command_plan w owner ?c"
    by (rule command_plan_frame) (use e1 in \<open>auto simp: evolves_def\<close>)
  have fin: ?thesis if "evolves settled_kinds {res_id r} w1 w'" "map_of (db_resources (w_db w')) (res_id r) = Some r'"
    "recs' = recs @ [rr]" "reconciled_row sn ps w owner r r'" for r'
    using evolves_trans[OF e1' that(1)] that(2-4) by auto
  have stored: ?thesis
    if s: "store_command now w1 r c' actor = Inr w'" and "recs' = recs @ [rr]"
      and "\<And>r'. stored_as c' r' \<Longrightarrow> reconciled_row sn ps w owner r r'" for c'
  proof -
    obtain r' where "evolves {res_kind r} {res_id r} w1 w'"
      "map_of (db_resources (w_db w')) (res_id r) = Some r'" "stored_as c' r'"
      by (rule store_command_evolves[OF s evolves_inv[OF e1] row1]) (use assms(6) in simp_all)
    with that(2,3) show ?thesis
      by (intro fin[of r']) (auto simp: assms(5) settled_kinds_def elim: evolves_mono)
  qed
  consider (ambiguous) "rn_state result = ''AMBIGUOUS''"
    | (none) "rn_state result = ''NO_EFFECT_CONFIRMED''"
    | (no_plan) "rn_state result \<notin> {''AMBIGUOUS'', ''NO_EFFECT_CONFIRMED''}" "command_plan w owner ?c = None"
    | (matched) p where "rn_state result \<notin> {''AMBIGUOUS'', ''NO_EFFECT_CONFIRMED''}" "command_plan w owner ?c = Some p"
    by auto
  then show ?thesis
  proof cases
    case ambiguous
    with rest d orders result show ?thesis
      by (intro stored[of "concluded ?c BLOCKED_AMBIGUOUS UNCERTAIN"]) (auto simp: reconciled_row_def)
  next
    case none
    with rest d orders result show ?thesis
      by (intro stored[of "concluded ?c NO_EFFECT_CONFIRMED CONFIRMED"]) (auto simp: reconciled_row_def)
  next
    case no_plan
    with rest plan1 d orders result row1 evolves_refl[OF evolves_inv[OF e1]] show ?thesis
      by (intro fin[of r]) (auto simp: reconciled_row_def)
  next
    case matched
    with rest plan1 obtain plan where
      a: "apply_match env now owner actor sn r ?c orders result p plan w1 = Inr w'" "recs' = recs @ [rr]" by auto
    obtain r' c' where m: "evolves {''broker_order'', ''broker_fill'', res_kind r, ''notification''} {res_id r} w1 w'"
      "map_of (db_resources (w_db w')) (res_id r) = Some r'" "stored_as c' r'" "confirmed_by sn ?c orders result c'"
      "\<not> (cm_action ?c = PLACE_ORDER
        \<and> (\<exists>p \<in> set (sn_positions sn). Some (sp_position_id p) = rn_broker_position_id result))"
      by (rule apply_match_InrD[OF a(1) evolves_inv[OF e1] row1]) (use assms(6) in simp_all)
    from m(5) have "\<not> (cm_action ?c = PLACE_ORDER \<and> matched_position sn result \<noteq> None)"
      by (auto simp: matched_position_def first_match_None_iff)
    with m matched a(2) d orders result show ?thesis
      by (intro fin[of r']) (auto simp: reconciled_row_def assms(5) settled_kinds_def elim: evolves_mono)
  qed
qed


lemma reconcile_all:
  assumes "rfold (reconcile_pending env now owner actor sn ps) rs (w, recs) = Inr (w', recs')"
    and "store_inv (w_db w)" and "distinct (map res_id rs)"
    and "\<forall>r \<in> set rs. map_of (db_resources (w_db w)) (res_id r) = Some r
      \<and> res_kind r = ''execution_command'' \<and> 1 \<le> res_version r"
  shows "evolves settled_kinds (res_id ` set rs) w w' \<and> length recs' = length recs + length (filter (pending_for sn) rs)
    \<and> (\<forall>r \<in> set rs. \<exists>r'. map_of (db_resources (w_db w')) (res_id r) = Some r'
         \<and> (if pending_for sn r then reconciled_row sn ps w owner r r' else r' = r))"
  using assms
proof (induction rs arbitrary: w recs)
  case Nil
  then show ?case by (simp add: evolves_refl)
next
  case (Cons r rs)
  from Cons.prems(1) obtain w1 recs1 where
    step: "reconcile_pending env now owner actor sn ps r (w, recs) = Inr (w1, recs1)"
    and rest: "rfold (reconcile_pending env now owner actor sn ps) rs (w1, recs1) = Inr (w', recs')" by auto
  have r: "map_of (db_resources (w_db w)) (res_id r) = Some r" "res_kind r = ''execution_command''" "1 \<le> res_version r"
    using Cons.prems(4) by simp_all
  have one: "evolves settled_kinds {res_id r} w w1 \<and> length recs1 = length recs + (if pending_for sn r then 1 else 0)
    \<and> (\<exists>r'. map_of (db_resources (w_db w1)) (res_id r) = Some r'
       \<and> (if pending_for sn r then reconciled_row sn ps w owner r r' else r' = r))"
  proof (cases "pending_for sn r")
    case True
    with reconcile_pending_InrD[OF step True Cons.prems(2) r] show ?thesis by simp
  next
    case False
    with reconcile_pending_idle[OF step False] r Cons.prems(2) show ?thesis by (simp add: evolves_refl)
  qed
  from one obtain r' where e: "evolves settled_kinds {res_id r} w w1"
    and r': "map_of (db_resources (w_db w1)) (res_id r) = Some r'"
      "if pending_for sn r then reconciled_row sn ps w owner r r' else r' = r" by blast
  have plans: "same_rows ''trade_plan'' w w1" using e by (simp add: evolves_def settled_kinds_def)
  have here: "\<forall>x \<in> set rs. map_of (db_resources (w_db w1)) (res_id x) = Some x
      \<and> res_kind x = ''execution_command'' \<and> 1 \<le> res_version x"
  proof
    fix x assume that: "x \<in> set rs"
    then have "res_id x \<in> res_id ` set rs" by simp
    then have "res_id x \<noteq> res_id r" using Cons.prems(3) by auto
    moreover have x: "map_of (db_resources (w_db w)) (res_id x) = Some x"
      "res_kind x = ''execution_command''" "1 \<le> res_version x" using Cons.prems(4) that by simp_all
    ultimately show "map_of (db_resources (w_db w1)) (res_id x) = Some x
      \<and> res_kind x = ''execution_command'' \<and> 1 \<le> res_version x" using evolves_row[OF e x(1)] by auto
  qed
  have dist: "distinct (map res_id rs)" "res_id r \<notin> res_id ` set rs" using Cons.prems(3) by auto
  from Cons.IH[OF rest evolves_inv[OF e] dist(1) here]
  have IH: "evolves settled_kinds (res_id ` set rs) w1 w'"
    "length recs' = length recs1 + length (filter (pending_for sn) rs)"
    "\<forall>x \<in> set rs. \<exists>x'. map_of (db_resources (w_db w')) (res_id x) = Some x'
       \<and> (if pending_for sn x then reconciled_row sn ps w1 owner x x' else x' = x)" by blast+
  have "map_of (db_resources (w_db w')) (res_id r) = Some r'"
    using evolves_row[OF IH(1) r'(1)] dist(2) by auto
  moreover have "evolves settled_kinds (res_id ` set (r # rs)) w w'"
    by (rule evolves_trans[OF evolves_mono[OF e] evolves_mono[OF IH(1)]]) auto
  moreover have "\<forall>x \<in> set rs. \<exists>x'. map_of (db_resources (w_db w')) (res_id x) = Some x'
       \<and> (if pending_for sn x then reconciled_row sn ps w owner x x' else x' = x)"
    using IH(3) unfolding reconciled_row_frame[OF plans] .
  ultimately show ?case
    using one IH(2) r'(2) by auto
qed

lemma store_list_distinct:
  assumes "store_inv db"
  shows "distinct (map res_id (store_list db kind owner del))"
proof -
  have "map res_id (dvalues (db_resources db)) = map fst (db_resources db)"
    using assms by (auto simp: dvalues_def store_inv_def)
  then have "distinct (map res_id (dvalues (db_resources db)))"
    using assms by (simp add: store_inv_def)
  then have "distinct (dvalues (db_resources db))" "inj_on res_id (set (dvalues (db_resources db)))"
    by (simp_all add: distinct_map)
  then show ?thesis
    by (auto simp: store_list_def distinct_map intro: inj_on_subset)
qed

lemma store_list_rows:
  assumes "store_inv db" and "r \<in> set (store_list db kind owner del)"
  shows "map_of (db_resources db) (res_id r) = Some r" "res_kind r = kind" "res_owner r = owner" "1 \<le> res_version r"
proof -
  from assms show m: "map_of (db_resources db) (res_id r) = Some r" "res_kind r = kind" "res_owner r = owner"
    by (simp_all add: store_list_mem_iff)
  from m have "store_get db kind (res_id r) owner = Some r" by (simp add: store_get_iff)
  from store_get_id(2)[OF assms(1) this] show "1 \<le> res_version r" .
qed

lemma ingest_InrE:
  assumes "ingest_broker_snapshot env now owner actor w sn = Inr (w', reply)"
  obtains (duplicate) "w' = w" "ir_duplicate reply" "ir_reconciliations reply = []"
      "\<exists>r \<in> set (account_snapshots w owner (sn_broker_account sn)). snapshot_message (res_data r) = Some (sn_message_id sn)"
  | (ingested) w1 r ps where "\<not> ir_duplicate reply"
      "\<forall>r \<in> set (account_snapshots w owner (sn_broker_account sn)). snapshot_message (res_data r) \<noteq> Some (sn_message_id sn)"
      "account_snapshots w owner (sn_broker_account sn) \<noteq> [] \<Longrightarrow>
         snapshot_sequence (res_data (hd (account_snapshots w owner (sn_broker_account sn)))) < sn_sequence sn"
      "w_create (next_row env w) now w ''broker_snapshot'' owner (SnapshotDoc sn) ''ACTIVE'' None actor
         (Some ''broker.account_changed'') = Inr (w1, r)"
      "rmap (typed_position (sn_sequence sn)) (sn_positions sn) = Inr ps"
      "rfold (reconcile_pending env now owner actor sn ps) (store_list (w_db w1) ''execution_command'' owner False)
         (w1, []) = Inr (w', ir_reconciliations reply)"
  using assms
  by (fastforce simp: ingest_broker_snapshot_def Let_def list_ex_iff split: if_splits)


lemma ingest_facts:
  assumes "ingest_broker_snapshot env now owner actor w sn = Inr (w', reply)" and "\<not> ir_duplicate reply"
    and "store_inv (w_db w)"
  obtains w1 ps r0 where "rmap (typed_position (sn_sequence sn)) (sn_positions sn) = Inr ps"
    and "w_create (next_row env w) now w ''broker_snapshot'' owner (SnapshotDoc sn) ''ACTIVE'' None actor
         (Some ''broker.account_changed'') = Inr (w1, r0)"
    and "evolves settled_kinds (res_id ` set (store_list (w_db w) ''execution_command'' owner False)) w1 w'"
    and "length (ir_reconciliations reply)
      = length (filter (pending_for sn) (store_list (w_db w) ''execution_command'' owner False))"
    and "\<forall>r \<in> set (store_list (w_db w) ''execution_command'' owner False). \<exists>r'.
      map_of (db_resources (w_db w')) (res_id r) = Some r'
      \<and> (if pending_for sn r then reconciled_row sn ps w owner r r' else r' = r)"
  using assms(1)
proof (cases rule: ingest_InrE)
  case duplicate
  with assms(2) show ?thesis by simp
next
  case (ingested w1 r ps)
  note e = w_create_evolves[OF ingested(4) assms(3)]
  have rows: "same_rows kind w w1" if "kind \<noteq> ''broker_snapshot''" for kind
    using e that by (simp add: evolves_def)
  have cmds: "store_list (w_db w1) ''execution_command'' owner False = store_list (w_db w) ''execution_command'' owner False"
    using rows[of "''execution_command''"] by (simp add: same_rows_def)
  note inv = evolves_inv[OF e]
  have here: "\<forall>x \<in> set (store_list (w_db w1) ''execution_command'' owner False).
      map_of (db_resources (w_db w1)) (res_id x) = Some x \<and> res_kind x = ''execution_command'' \<and> 1 \<le> res_version x"
    using store_list_rows[OF inv] by blast
  note R = reconcile_all[OF ingested(6) inv store_list_distinct[OF inv] here]
  have plans: "same_rows ''trade_plan'' w w1" by (rule rows) simp
  show ?thesis
    by (rule that[OF ingested(5,4)])
      (use R[unfolded cmds reconciled_row_frame[OF plans] list.size add_0] in blast)+
qed

lemma sort_key_newest:
  assumes "\<forall>x \<in> set xs. f v < f x"
  shows "sort_key f (xs @ [v]) = v # sort_key f xs"
  using assms
proof (induction xs)
  case (Cons a xs)
  then have "f v < f a" by simp
  then show ?case using Cons by (simp add: not_le[symmetric])
qed simp

lemma account_snapshots_create:
  assumes "w_create i now w ''broker_snapshot'' owner (SnapshotDoc sn) ''ACTIVE'' None actor ev = Inr (w1, r)"
    and "\<forall>q \<in> set (account_snapshots w owner (sn_broker_account sn)). res_updated_at q < now"
  shows "account_snapshots w1 owner (sn_broker_account sn) = r # account_snapshots w owner (sn_broker_account sn)"
proof -
  note C = w_create_InrD[OF assms(1)]
  let ?p = "\<lambda>q. res_kind q = ''broker_snapshot'' \<and> res_owner q = owner \<and> res_state q \<noteq> ''DELETED''
      \<and> doc_account_id (res_data q) = Some (sn_broker_account sn)"
  have as: "account_snapshots x owner (sn_broker_account sn)
      = sort_key (\<lambda>q. - res_updated_at q) (filter ?p (dvalues (db_resources (w_db x))))" for x
    by (simp add: account_snapshots_def store_list_def filter_sort conj_commute conj_left_commute)
  have new: "dvalues (db_resources (w_db w1)) = dvalues (db_resources (w_db w)) @ [r]"
    unfolding C(9) by (rule dvalues_update_new[OF C(8)])
  have "\<forall>q \<in> set (filter ?p (dvalues (db_resources (w_db w)))). - res_updated_at r < - res_updated_at q"
    using assms(2) C(7) unfolding as by simp
  from sort_key_newest[OF this] show ?thesis
    unfolding as new by (simp add: C)
qed

lemma account_snapshots_frame:
  "same_rows ''broker_snapshot'' w w' \<Longrightarrow> account_snapshots w' owner a = account_snapshots w owner a"
  by (simp add: account_snapshots_def same_rows_def)

section \<open>Properties\<close>



text \<open>C22: Snapshots are accepted in order: as long as the clock moves on, the stored snapshots of an account
  have strictly descending sequences from the newest on; a snapshot that was accepted becomes the newest,
  is answered as a duplicate when it is delivered again, and no other snapshot with a sequence not above
  its own is accepted after it.\<close>
theorem snapshots_accepted_in_order:
  assumes "ingest_broker_snapshot env now owner actor w sn = Inr (w', reply)" and "\<not> ir_duplicate reply"
    and "store_inv (w_db w)"
    and "\<forall>q \<in> set (account_snapshots w owner (sn_broker_account sn)). res_updated_at q < now"
    and "sorted_wrt (>) (map (\<lambda>r. snapshot_sequence (res_data r)) (account_snapshots w owner (sn_broker_account sn)))"
  shows "sorted_wrt (>) (map (\<lambda>r. snapshot_sequence (res_data r)) (account_snapshots w' owner (sn_broker_account sn)))
    \<and> (\<exists>r. account_snapshots w' owner (sn_broker_account sn) = r # account_snapshots w owner (sn_broker_account sn)
         \<and> res_data r = SnapshotDoc sn)
    \<and> ingest_broker_snapshot env2 now2 owner actor2 w' sn
        = Inr (w', \<lparr>ir_sequence = sn_sequence sn, ir_reconciliations = [], ir_duplicate = True\<rparr>)
    \<and> (\<forall>sn2 w2 reply2. sn_broker_account sn2 = sn_broker_account sn \<and> sn_sequence sn2 \<le> sn_sequence sn
         \<and> ingest_broker_snapshot env2 now2 owner actor2 w' sn2 = Inr (w2, reply2)
         \<longrightarrow> w2 = w' \<and> ir_duplicate reply2)"
proof -
  let ?a = "sn_broker_account sn"
  obtain w1 r0 where c: "w_create (next_row env w) now w ''broker_snapshot'' owner (SnapshotDoc sn) ''ACTIVE'' None actor
         (Some ''broker.account_changed'') = Inr (w1, r0)"
    and e: "evolves settled_kinds (res_id ` set (store_list (w_db w) ''execution_command'' owner False)) w1 w'"
    by (rule ingest_facts[OF assms(1-3)])
  have "same_rows ''broker_snapshot'' w1 w'" using e by (simp add: evolves_def settled_kinds_def)
  then have as: "account_snapshots w' owner ?a = r0 # account_snapshots w owner ?a"
    using account_snapshots_create[OF c assms(4)] by (simp add: account_snapshots_frame)
  have r0: "res_data r0 = SnapshotDoc sn" using w_create_InrD(6)[OF c] .
  have newest: "account_snapshots w owner ?a \<noteq> [] \<Longrightarrow>
      snapshot_sequence (res_data (hd (account_snapshots w owner ?a))) < sn_sequence sn"
    using assms(1) by (cases rule: ingest_InrE) (use assms(2) in auto)
  have "\<forall>q \<in> set (account_snapshots w owner ?a). snapshot_sequence (res_data q) < sn_sequence sn"
    using newest assms(5) by (cases "account_snapshots w owner ?a") auto
  then have "sorted_wrt (>) (map (\<lambda>r. snapshot_sequence (res_data r)) (account_snapshots w' owner ?a))"
    using assms(5) by (simp add: as r0)
  moreover have "w2 = w' \<and> ir_duplicate reply2"
    if "sn_broker_account sn2 = ?a" "sn_sequence sn2 \<le> sn_sequence sn"
      "ingest_broker_snapshot env2 now2 owner actor2 w' sn2 = Inr (w2, reply2)" for sn2 w2 reply2
    using that(3) by (cases rule: ingest_InrE) (use that(1,2) in \<open>auto simp: as r0\<close>)
  ultimately show ?thesis
    using as r0 by (auto simp: ingest_broker_snapshot_def Let_def)
qed


section \<open>Witnesses\<close>

definition demo_untyped :: typed_identity where
  "demo_untyped = \<lparr>ty_asset_class = None, ty_instrument_type = None, ty_venue_instrument_id = None,
     ty_futures_contract_id = None, ty_specification_version_id = None, ty_quantity_unit = None\<rparr>"

definition demo_filled_command :: execution_command where
  "demo_filled_command =
     (demo_sent_command PLACE_ORDER)\<lparr>cm_state := ACKNOWLEDGED, cm_broker_order_id := Some ''7''\<rparr>"

definition demo_filled_world :: world where
  "demo_filled_world = \<lparr>w_db = \<lparr>db_resources =
     [demo_doc_row ''snap'' ''broker_snapshot'' (SnapshotDoc demo_snapshot),
      demo_doc_row ''plan'' ''trade_plan'' (PlanDoc (demo_sent_plan TP_EXECUTING PLACE_ORDER)),
      (''cmd'', (snd (demo_doc_row ''cmd'' ''execution_command'' (new_command_doc demo_filled_command)))
         \<lparr>res_state := ''ACKNOWLEDGED''\<rparr>)], db_audit = [], db_outbox = []\<rparr>,
     w_reservations = [demo_held_risk ORDER_WORKING]\<rparr>"

definition demo_filled_order :: broker_order where
  "demo_filled_order = \<lparr>bo_account_id = ''a'', bo_command_id = ''cmd'', bo_broker_order_id = ''7'',
     bo_instrument = ''EURUSD'', bo_direction = Some BUY, bo_state = ''FILLED'', bo_quantity = 1 / 2,
     bo_filled_quantity = 1 / 2, bo_version = 1, bo_observed_at = 5, bo_typed = demo_untyped\<rparr>"

definition demo_filled_snapshot :: broker_snapshot where
  "demo_filled_snapshot = demo_snapshot\<lparr>sn_message_id := ''m2'', sn_sequence := 2,
     sn_orders := [\<lparr>so_order_id = ''7'', so_account_id = ''a'', so_command_id = None, so_symbol = ''EURUSD'',
       so_direction = BUY, so_requested_volume = 1 / 2, so_filled_volume = 1 / 2, so_state = ''FILLED'',
       so_version = 1, so_observed_at = 5, so_typed = demo_untyped\<rparr>]\<rparr>"

definition demo_ingest :: ingest_env where
  "demo_ingest = \<lparr>ig_row = (\<lambda>n. replicate n (CHR ''r'')), ig_reservation = (\<lambda>n. replicate n (CHR ''s'')), ig_notices = demo_notices\<rparr>"

lemma demo_filled_fields [simp]:
  "cm_id demo_filled_command = ''cmd''" "cm_account_id demo_filled_command = ''a''"
  "cm_postcondition demo_filled_command = []" "cm_trade_plan_id demo_filled_command = Some ''plan''"
  "cm_broker_order_id demo_filled_command = Some ''7''" "cm_action demo_filled_command = PLACE_ORDER"
  by (simp_all add: demo_filled_command_def demo_sent_command_def new_command_def demo_entry_plan_run demo_grant_def)

lemma demo_sent_plan_valid [simp]: "construction_valid (tp_construction (demo_sent_plan st action))"
  by (simp add: demo_sent_plan_def demo_entry_plan_run construction_valid_def)

lemma demo_filled_order_fields [simp]:
  "bo_broker_order_id demo_filled_order = ''7''" "bo_filled_quantity demo_filled_order = 1 / 2"
  "bo_state demo_filled_order = ''FILLED''" "bo_version demo_filled_order = 1"
  "identity_ref (bo_typed demo_filled_order) = untyped_ref"
  by (simp_all add: demo_filled_order_def identity_ref_def demo_untyped_def untyped_ref_def)

lemma demo_filled_reconciled:
  "rmap (typed_order ''cmd'') (filter (relevant_order demo_filled_command) (sn_orders demo_filled_snapshot))
     = Inr [demo_filled_order]"
  "reconcile_command demo_filled_command [demo_filled_order] [] True
     = Inr (record_of demo_filled_command ''MATCHED'' CONFIRMED (Some ''7'') None [''order:7''])"
  by (simp_all add: demo_filled_snapshot_def relevant_order_def typed_order_def demo_filled_order_def
      reconcile_command_def order_matches_def)

lemmas demo_ingest_run = ingest_broker_snapshot_def account_snapshots_def store_list_def store_get_def
  next_row_def demo_filled_world_def demo_ingest_def demo_notices_def demo_doc_row_def new_command_doc_def
  demo_snapshot_def returns_def command_plan_def w_create_def store_create_def w_update_def
  store_update_def Let_def store_audit_def reconcile_pending_def pending_command_states_def record_of_def
  concluded_def store_command_def apply_match_def matched_order_def matched_position_def filled_of_def
  record_order_def requested_quantity_def confirmed_state_def queue_confirmed_broker_notifications_def
  notice_channels_def owner_preferences_def default_preferences_def flag_def queue_notice_def
  notice_row_id_def notice_key_def notification_of_def order_notice_def

lemma demo_filled_snapshot_fields [simp]:
  "sn_message_id demo_filled_snapshot = ''m2''" "sn_broker_account demo_filled_snapshot = ''a''"
  "sn_sequence demo_filled_snapshot = 2" "sn_positions demo_filled_snapshot = []" "sn_fills demo_filled_snapshot = []"
  by (simp_all add: demo_filled_snapshot_def demo_snapshot_def)

lemma demo_filled_ingested:
  "returns (ingest_broker_snapshot demo_ingest 9 ''u'' None demo_filled_world demo_filled_snapshot)
     (\<lambda>(w, reply). \<not> ir_duplicate reply \<and> length (ir_reconciliations reply) = 1
        \<and> map_option res_state (store_get (w_db w) ''execution_command'' ''cmd'' ''u'') = Some ''APPLIED'')"
  by (simp add: demo_ingest_run demo_filled_reconciled)

lemma demo_filled_inv: "store_inv (w_db demo_filled_world)"
  by (simp add: store_inv_def demo_filled_world_def demo_doc_row_def)

lemma demo_filled_order:
  "\<forall>q \<in> set (account_snapshots demo_filled_world ''u'' (sn_broker_account demo_filled_snapshot)). res_updated_at q < 9"
  "sorted_wrt (>) (map (\<lambda>r. snapshot_sequence (res_data r))
     (account_snapshots demo_filled_world ''u'' (sn_broker_account demo_filled_snapshot)))"
  by (simp_all add: account_snapshots_def store_list_def demo_filled_world_def demo_doc_row_def
      demo_filled_snapshot_def demo_snapshot_def)



theorem snapshots_accepted_in_order_witness:
  "\<exists>w reply. ingest_broker_snapshot demo_ingest 9 ''u'' None demo_filled_world demo_filled_snapshot = Inr (w, reply)
     \<and> ingest_broker_snapshot demo_ingest 10 ''u'' None w demo_filled_snapshot
        = Inr (w, \<lparr>ir_sequence = 2, ir_reconciliations = [], ir_duplicate = True\<rparr>)"
proof -
  obtain w reply where i: "ingest_broker_snapshot demo_ingest 9 ''u'' None demo_filled_world demo_filled_snapshot = Inr (w, reply)"
    and a: "\<not> ir_duplicate reply"
    using demo_filled_ingested by (auto simp: returns_iff)
  from snapshots_accepted_in_order[OF i a demo_filled_inv demo_filled_order] i show ?thesis
    by (auto simp: demo_filled_snapshot_def)
qed

end
