(* ===== verification/Management.thy ===== *)
theory Management
  imports Ingestion
begin

text \<open>
  The management half of \<open>apps/api/app/routes/trade_management.py\<close>: monitoring an active trade,
  recommendations and management actions, each of which ends in \<open>authorize_and_queue_management\<close> and, once
  committed, in the dispatch of the queued command (its identity is returned beside the tables).

  The name-based UUID of an action and the text of an instant are arguments.
\<close>

section \<open>Recommendations\<close>

record route_env =
  mg_env :: environment
  mg_ids :: entry_ids
  mg_row :: "nat \<Rightarrow> uuid"
  mg_action_id :: "uuid \<Rightarrow> uuid \<Rightarrow> execution_action \<Rightarrow> string option \<times> string option \<times> string option \<Rightarrow> postcondition \<Rightarrow> uuid"
  mg_isoformat :: "timestamp \<Rightarrow> string"

fun as_active_trade :: "document \<Rightarrow> active_trade res" where
  "as_active_trade (ActiveTradeDoc d) = Inr d"
| "as_active_trade _ = Inl (ValidationError ''ActiveTrade'')"

fun recommendation_value :: "recommendation_action \<Rightarrow> string" where
  "recommendation_value HOLD = ''HOLD''"
| "recommendation_value MOVE_SL = ''MOVE_SL''"
| "recommendation_value PARTIAL_TP = ''PARTIAL_TP''"
| "recommendation_value EARLY_EXIT = ''EARLY_EXIT''"
| "recommendation_value RA_FULL_EXIT = ''FULL_EXIT''"

definition next_recommendation :: "route_env \<Rightarrow> world \<Rightarrow> uuid" where
  "next_recommendation env w = mg_row env (length (db_resources (w_db w)))"

definition recommendation_row ::
    "uuid option \<Rightarrow> uuid option \<Rightarrow> string \<Rightarrow> string \<Rightarrow> postcondition \<Rightarrow> document" where
  "recommendation_row plan_id trade_id action reason post =
     RecommendationDoc \<lparr>rd_trade_plan_id = plan_id, rd_trade_id = trade_id, rd_action = action,
       rd_reason = reason, rd_postcondition = post, rd_execution_command_id = None\<rparr>"

fun link_command :: "uuid \<Rightarrow> document \<Rightarrow> document" where
  "link_command i (RecommendationDoc d) = RecommendationDoc (d\<lparr>rd_execution_command_id := Some i\<rparr>)"
| "link_command i d = d"

definition monitor_trade ::
    "route_env \<Rightarrow> timestamp \<Rightarrow> uuid \<Rightarrow> uuid option \<Rightarrow> world \<Rightarrow> uuid \<Rightarrow> decimal \<Rightarrow> bool \<Rightarrow>
     (world \<times> document resource) res" where
  "monitor_trade env now owner actor w trade_id current_price bridge_fresh =
     rbind (required (store_get (w_db w) ''active_trade'' trade_id owner)
              (HTTPException 404 ''active trade not found'')) (\<lambda>trade_record.
     rbind (as_active_trade (res_data trade_record)) (\<lambda>trade.
     let policy_valid = (store_list (w_db w) ''guardrail'' owner False \<noteq> []);
         facts = monitoring_facts (av_position trade) current_price policy_valid bridge_fresh [];
         r = interpret_facts (av_id trade) facts;
         i = next_recommendation env w
     in w_create i now w ''management_recommendation'' owner
          (recommendation_row None (Some (re_trade_id r)) (recommendation_value (re_action r)) (re_reason r) [])
          (if re_requires_authorization r then ''AUTHORIZATION_REQUIRED'' else ''HOLD'') (Some i) actor
          (Some ''trade.monitoring_updated'')))"

text \<open>
  The row of a monitored trade also keeps the facts it was derived from, which nothing reads back.
  The postcondition of a recommended action; \<open>str(payload.proposed_value)\<close> of an absent value is the text
  \<open>None\<close>.
\<close>

definition value_text :: "decimal option \<Rightarrow> jvalue" where
  "value_text v = (case v of None \<Rightarrow> JStr ''None'' | Some d \<Rightarrow> JDec d)"

definition recommended_postcondition :: "execution_action \<Rightarrow> decimal option \<Rightarrow> postcondition" where
  "recommended_postcondition action v =
     (if action = SET_OR_CHANGE_STOP_LOSS then [(''stop_loss'', value_text v)]
      else if action = PARTIAL_CLOSE then [(''quantity'', value_text v)]
      else [(''position_state'', JStr ''CLOSED'')])"

definition create_recommendation ::
    "route_env \<Rightarrow> timestamp \<Rightarrow> uuid \<Rightarrow> uuid option \<Rightarrow> world \<Rightarrow> uuid \<Rightarrow> recommendation_action \<Rightarrow> string \<Rightarrow>
     decimal option \<Rightarrow> (world \<times> document resource \<times> uuid option) res" where
  "create_recommendation env now owner actor w trade_id action reason proposed_value =
     rbind (required (store_get (w_db w) ''active_trade'' trade_id owner)
              (HTTPException 404 ''active trade not found'')) (\<lambda>trade.
     let i = next_recommendation env w in
     rbind (w_create i now w ''management_recommendation'' owner
              (recommendation_row None (Some trade_id) (recommendation_value action) reason [])
              (if action \<noteq> HOLD then ''QUEUING'' else ''HOLD'') (Some i) actor
              (Some (if action \<noteq> HOLD then ''trade_management.action_selected''
                     else ''trade.monitoring_updated''))) (\<lambda>(w1, item).
     case permission_action action of
       None \<Rightarrow> Inr (w1, item, None)
     | Some execution \<Rightarrow>
         rbind (as_active_trade (res_data trade)) (\<lambda>active.
         rbind (required (av_trade_plan_id active) (HTTPException 409 ''active trade has no Trade Plan'')) (\<lambda>plan_id.
         rbind (required (store_get (w_db w1) ''trade_plan'' plan_id owner)
                  (HTTPException 409 ''active Trade Plan is unavailable'')) (\<lambda>plan_record.
         rbind (as_plan (res_data plan_record)) (\<lambda>plan.
         rbind (authorize_and_queue_management (mg_env env) (mg_ids env) now w1 owner plan execution
                  (recommended_postcondition execution proposed_value)
                  (''monitor:'' @ res_id item @ '':'' @ execution_action_value execution) (res_id item) None
                  (Some (sp_position_id (av_position active)))
                  (Some (mg_isoformat env (sp_observed_at (av_position active))))) (\<lambda>(w2, command_record).
         rbind (w_update now w2 item (link_command (res_id command_record) (res_data item)) ''QUEUED'' None actor
                  ''trade_management.command_queued'' None) (\<lambda>(w3, item').
         Inr (w3, item', Some (res_id command_record))))))))))"

section \<open>Management actions\<close>

record action_input =
  mi_trade_plan_id :: uuid
  mi_action :: execution_action
  mi_postcondition :: postcondition
  mi_target_order_id :: "string option"
  mi_target_position_id :: "string option"
  mi_expected_broker_version :: "string option"
  mi_reason :: string

definition management_action_id :: "route_env \<Rightarrow> uuid \<Rightarrow> uuid \<Rightarrow> action_input \<Rightarrow> uuid" where
  "management_action_id env owner plan_id p =
     mg_action_id env owner plan_id (mi_action p)
       (mi_target_order_id p, mi_target_position_id p, mi_expected_broker_version p) (mi_postcondition p)"

definition queue_management_action ::
    "route_env \<Rightarrow> timestamp \<Rightarrow> uuid \<Rightarrow> uuid option \<Rightarrow> world \<Rightarrow> action_input \<Rightarrow> (world \<times> document resource) res" where
  "queue_management_action env now owner actor w p =
     rbind (ensure (mi_action p \<noteq> PLACE_ORDER) (HTTPException 422 ''entry uses Trade Plans'')) (\<lambda>_.
     rbind (required (store_get (w_db w) ''trade_plan'' (mi_trade_plan_id p) owner)
              (HTTPException 404 ''Trade Plan not found'')) (\<lambda>plan_record.
     rbind (as_plan (res_data plan_record)) (\<lambda>plan.
     let i = management_action_id env owner (tp_id plan) p in
     rbind (w_create i now w ''management_recommendation'' owner
              (recommendation_row (Some (tp_id plan)) None (execution_action_value (mi_action p)) (mi_reason p)
                 (mi_postcondition p)) ''QUEUING'' (Some i) actor (Some ''trade_management.action_selected''))
       (\<lambda>(w1, item).
     rbind (authorize_and_queue_management (mg_env env) (mg_ids env) now w1 owner plan (mi_action p)
              (mi_postcondition p) (''management:'' @ i) i (mi_target_order_id p) (mi_target_position_id p)
              (mi_expected_broker_version p)) (\<lambda>(w2, command_record).
     rbind (w_update now w2 item (link_command (res_id command_record) (res_data item)) ''QUEUED'' None actor
              ''trade_management.command_queued'' None) (\<lambda>(w3, _).
     Inr (w3, command_record)))))))"

section \<open>Lemmas\<close>

lemma management_facts:
  assumes "authorize_and_queue_management env ids now w owner plan action post key mid oid pid ver = Inr (w', crec)"
  obtains plan1 auth perms pk ak prec w1 prec' c where
    "authorize_action (env_digest env) (ei_authorization ids) now plan action perms pk ak 60 = Inr (plan1, auth)"
    "tp_state plan \<in> set (authorize_states action)"
    "store_get (w_db w) ''trade_plan'' (tp_id plan) owner = Some prec"
    "w_update now w prec (PlanDoc (plan1\<lparr>tp_version := tp_version plan1 + 1\<rparr>)) (plan_state_value (tp_state plan1))
       None None ''trade_plan.management_authorized''
       (Some [(''action'', execution_action_value action), (''authorization_id'', ea_id auth)]) = Inr (w1, prec')"
    "persist_command now w1 owner c None = Inr (w', crec)"
    "action \<noteq> PLACE_ORDER \<Longrightarrow> tp_state plan1 = tp_state plan"
proof -
  from assms obtain perms pk ak plan1 auth prec w1 prec' c where
    a: "authorize_action (env_digest env) (ei_authorization ids) now plan action perms pk ak 60 = Inr (plan1, auth)"
    and p: "store_get (w_db w) ''trade_plan'' (tp_id plan) owner = Some prec"
    and u: "w_update now w prec (PlanDoc (plan1\<lparr>tp_version := tp_version plan1 + 1\<rparr>)) (plan_state_value (tp_state plan1))
       None None ''trade_plan.management_authorized''
       (Some [(''action'', execution_action_value action), (''authorization_id'', ea_id auth)]) = Inr (w1, prec')"
    and c: "persist_command now w1 owner c None = Inr (w', crec)"
    unfolding authorize_and_queue_management_def Let_def by (auto elim!: rbind_InrE)
  from authorize_action_InrD[OF a] show thesis by (intro that[OF a _ p u c]) simp_all
qed

lemma queue_management_InrE:
  assumes "queue_management_action env now owner actor w p = Inr (w', crec)"
  obtains prow plan w1 item w2 item' where "mi_action p \<noteq> PLACE_ORDER"
    "store_get (w_db w) ''trade_plan'' (mi_trade_plan_id p) owner = Some prow" "res_data prow = PlanDoc plan"
    "construction_valid (tp_construction plan)"
    "w_create (management_action_id env owner (tp_id plan) p) now w ''management_recommendation'' owner
       (recommendation_row (Some (tp_id plan)) None (execution_action_value (mi_action p)) (mi_reason p)
          (mi_postcondition p)) ''QUEUING'' (Some (management_action_id env owner (tp_id plan) p)) actor
       (Some ''trade_management.action_selected'') = Inr (w1, item)"
    "authorize_and_queue_management (mg_env env) (mg_ids env) now w1 owner plan (mi_action p) (mi_postcondition p)
       (''management:'' @ management_action_id env owner (tp_id plan) p) (management_action_id env owner (tp_id plan) p)
       (mi_target_order_id p) (mi_target_position_id p) (mi_expected_broker_version p) = Inr (w2, crec)"
    "w_update now w2 item (link_command (res_id crec) (res_data item)) ''QUEUED'' None actor
       ''trade_management.command_queued'' None = Inr (w', item')"
proof -
  from assms obtain prow where a: "mi_action p \<noteq> PLACE_ORDER"
    and r: "store_get (w_db w) ''trade_plan'' (mi_trade_plan_id p) owner = Some prow"
    unfolding queue_management_action_def by (auto elim!: rbind_InrE)
  from assms a r obtain plan where pl: "as_plan (res_data prow) = Inr plan"
    unfolding queue_management_action_def by (auto elim!: rbind_InrE)
  have d: "res_data prow = PlanDoc plan" "construction_valid (tp_construction plan)"
    using pl by (auto elim!: as_plan_InrE split: if_splits)
  let ?i = "management_action_id env owner (tp_id plan) p"
  from assms a r pl obtain w1 item w2 w3 item' where
    "w_create ?i now w ''management_recommendation'' owner
       (recommendation_row (Some (tp_id plan)) None (execution_action_value (mi_action p)) (mi_reason p)
          (mi_postcondition p)) ''QUEUING'' (Some ?i) actor (Some ''trade_management.action_selected'') = Inr (w1, item)"
    "authorize_and_queue_management (mg_env env) (mg_ids env) now w1 owner plan (mi_action p) (mi_postcondition p)
       (''management:'' @ ?i) ?i (mi_target_order_id p) (mi_target_position_id p) (mi_expected_broker_version p)
       = Inr (w2, crec)"
    "w_update now w2 item (link_command (res_id crec) (res_data item)) ''QUEUED'' None actor
       ''trade_management.command_queued'' None = Inr (w', item')"
    by (fastforce simp: queue_management_action_def Let_def elim!: rbind_InrE)
  then show thesis by (rule that[OF a r d])
qed

lemma persist_command_evolves:
  assumes "persist_command now w owner c actor = Inr (w', r)" and "store_inv (w_db w)"
  shows "evolves {''execution_command''} {} w w'"
  using assms(1)
proof (cases rule: persist_command_InrD)
  case replayed
  then show ?thesis using assms(2) by (simp add: evolves_refl)
next
  case (created w1)
  note e = w_create_evolves[OF created(1) assms(2)]
  have "same_rows kind w w'" if "kind \<noteq> ''execution_command''" for kind
    using e that created(3) by (auto simp: evolves_def same_rows_def store_list_def store_get_def)
  then show ?thesis
    using e created(3,4) persist_command_inv[OF assms] by (simp add: evolves_def)
qed

text \<open>Authorizing a management action rewrites the plan's row and adds the command.\<close>

lemma management_evolves:
  assumes "authorize_and_queue_management env ids now w owner plan action post key mid oid pid ver = Inr (w', crec)"
    and "store_inv (w_db w)" and "action \<noteq> PLACE_ORDER"
  obtains prec' auth plan' where "evolves {''trade_plan'', ''execution_command''} {tp_id plan} w w'"
    "store_get (w_db w') ''trade_plan'' (tp_id plan) owner = Some prec'" "res_data prec' = PlanDoc plan'"
    "tp_authorization plan' = Some auth" "ea_id auth = ei_authorization ids" "tp_id plan' = tp_id plan"
    "tp_state plan' = tp_state plan" "tp_state plan \<in> set (authorize_states action)"
    "tp_construction plan' = tp_construction plan"
  using assms(1)
proof (rule management_facts, goal_cases)
  case (1 plan1 auth perms pk ak prec w1 prec' c)
  note A = authorize_action_InrD[OF 1(2)] and U = w_update_InrD[OF 1(5)]
  note g = store_get_id[OF assms(2) 1(4)]
  have row: "map_of (db_resources (w_db w)) (res_id prec) = Some prec" "res_kind prec = ''trade_plan''"
    "res_owner prec = owner" using 1(4) g(1) by (simp_all add: store_get_iff)
  note e1 = w_update_evolves[OF 1(5) assms(2) row(1) refl refl g(2)]
  note e2 = persist_command_evolves[OF 1(6) evolves_inv[OF e1(1)]]
  have "evolves {''trade_plan'', ''execution_command''} {tp_id plan} w w'"
    by (rule evolves_trans[OF evolves_mono[OF e1(1)] evolves_mono[OF e2]]) (use row g in auto)
  moreover have "store_get (w_db w') ''trade_plan'' (tp_id plan) owner = Some prec'"
    using evolves_row[OF e2 e1(2)] U(2,3) row g(1) by (auto simp: store_get_iff)
  ultimately show ?case
    by (rule 1(1)[of prec' "plan1\<lparr>tp_version := tp_version plan1 + 1\<rparr>" auth]) (use A U assms(3) in simp_all)
qed

section \<open>Properties\<close>

text \<open>C31: Managing a trade whose entry is not yet acknowledged revokes the entry: the plan carries one
  authorization, and once a management action was queued it is the action's, so that a command queued
  before under another authorization, the entry's, is never sent from there on until the plan is
  authorized again.\<close>
theorem management_revokes_pending_entry:
  assumes "queue_management_action env now owner actor w p = Inr (w', crec)" and "store_inv (w_db w)"
    and "\<forall>prow plan. store_get (w_db w) ''trade_plan'' (mi_trade_plan_id p) owner = Some prow \<longrightarrow>
        res_data prow = PlanDoc plan \<longrightarrow> tp_id plan = mi_trade_plan_id p"
    and "store_get (w_db w') ''execution_command'' i owner = Some r" and "res_data r = CommandDoc d"
    and "cm_trade_plan_id (cd_command d) = Some (mi_trade_plan_id p)"
    and "cm_authorization_id (cd_command d) \<noteq> Some (ei_authorization (mg_ids env))"
  shows "fst (dispatch_task rt client now2 w' owner i worker) = []"
proof (rule ccontr)
  assume sent: "fst (dispatch_task rt client now2 w' owner i worker) \<noteq> []"
  obtain prow plan w1 item w2 item' where a: "mi_action p \<noteq> PLACE_ORDER"
    and prow: "store_get (w_db w) ''trade_plan'' (mi_trade_plan_id p) owner = Some prow" "res_data prow = PlanDoc plan"
    and c: "w_create (management_action_id env owner (tp_id plan) p) now w ''management_recommendation'' owner
       (recommendation_row (Some (tp_id plan)) None (execution_action_value (mi_action p)) (mi_reason p)
          (mi_postcondition p)) ''QUEUING'' (Some (management_action_id env owner (tp_id plan) p)) actor
       (Some ''trade_management.action_selected'') = Inr (w1, item)"
    and m: "authorize_and_queue_management (mg_env env) (mg_ids env) now w1 owner plan (mi_action p) (mi_postcondition p)
       (''management:'' @ management_action_id env owner (tp_id plan) p) (management_action_id env owner (tp_id plan) p)
       (mi_target_order_id p) (mi_target_position_id p) (mi_expected_broker_version p) = Inr (w2, crec)"
    and u: "w_update now w2 item (link_command (res_id crec) (res_data item)) ''QUEUED'' None actor
       ''trade_management.command_queued'' None = Inr (w', item')"
    by (rule queue_management_InrE[OF assms(1)])
  have pid: "tp_id plan = mi_trade_plan_id p" using assms(3) prow by blast
  note C = w_create_InrD[OF c] and U = w_update_InrD[OF u]
  note e1 = w_create_evolves[OF c assms(2)]
  obtain prec' auth plan' where e2: "evolves {''trade_plan'', ''execution_command''} {tp_id plan} w1 w2"
    and plan': "store_get (w_db w2) ''trade_plan'' (tp_id plan) owner = Some prec'" "res_data prec' = PlanDoc plan'"
      "tp_authorization plan' = Some auth" "ea_id auth = ei_authorization (mg_ids env)"
    by (rule management_evolves[OF m evolves_inv[OF e1] a])
  have "res_id item \<noteq> tp_id plan"
    using C(8) prow(1) pid by (auto simp: store_get_iff)
  then have "store_get (w_db w') ''trade_plan'' (mi_trade_plan_id p) owner = Some prec'"
    using plan'(1) U(1,8) pid by (simp add: store_get_iff)
  moreover obtain pr pl au where disp: "dispatchable now2 w' owner r = Inr (pr, pl, au)"
  proof -
    obtain calls result where d: "dispatch_task rt client now2 w' owner i worker = (calls, result)" by fastforce
    with sent have "calls \<noteq> []" by simp
    from dispatch_task_cases[OF d this] assms(4) that show thesis by (metis option.inject)
  qed
  moreover obtain perms pk ak where "cm_trade_plan_id (cd_command d) = Some (mi_trade_plan_id p)"
      "store_get (w_db w') ''trade_plan'' (mi_trade_plan_id p) owner = Some pr" "res_data pr = PlanDoc pl"
      "tp_authorization pl = Some au" "assert_command_authority now2 (cd_command d) au pl perms pk ak = Inr ()"
    by (rule dispatchable_InrD[OF disp]) (use assms(5,6) in auto)
  ultimately have "cm_authorization_id (cd_command d) = Some (ea_id auth)"
    using plan' by (auto simp: assert_command_authority_def)
  then show False using assms(7) plan'(4) by simp
qed

section \<open>Witnesses\<close>

definition demo_route_env :: route_env where
  "demo_route_env = \<lparr>mg_env = demo_env, mg_ids = demo_ids\<lparr>ei_authorization := ''auth2'', ei_command := ''cmd2''\<rparr>,
     mg_row = (\<lambda>_. ''rec''), mg_action_id = (\<lambda>_ _ _ _ _. ''act''), mg_isoformat = (\<lambda>_. '''')\<rparr>"

definition demo_stop_action :: action_input where
  "demo_stop_action = \<lparr>mi_trade_plan_id = ''plan'', mi_action = SET_OR_CHANGE_STOP_LOSS, mi_postcondition = [],
     mi_target_order_id = None, mi_target_position_id = Some ''9'', mi_expected_broker_version = None,
     mi_reason = ''''\<rparr>"

abbreviation "demo_pending_world \<equiv> demo_sent_world TP_EXECUTION_PENDING PLACE_ORDER COMMAND_PENDING"

lemma demo_action_queued:
  obtains w' crec where "queue_management_action demo_route_env 0 ''u'' None demo_pending_world demo_stop_action
      = Inr (w', crec)"
    "store_get (w_db w') ''execution_command'' ''cmd'' ''u''
     = Some (snd (demo_doc_row ''cmd'' ''execution_command'' (new_command_doc (demo_sent_command PLACE_ORDER)))
         \<lparr>res_state := ''QUEUED''\<rparr>)"
proof -
  let ?w = demo_pending_world and ?plan = "demo_sent_plan TP_EXECUTION_PENDING PLACE_ORDER"
  let ?act = SET_OR_CHANGE_STOP_LOSS
  let ?i = "management_action_id demo_route_env ''u'' ''plan'' demo_stop_action"
  have i: "?i = ''act''" by (simp add: management_action_id_def demo_route_env_def)
  have p: "tp_account_id ?plan = ''a''" "tp_id ?plan = ''plan''" "tp_state ?plan = TP_EXECUTION_PENDING"
    "tp_owner_id ?plan = ''u''" "rr_decision (tp_risk ?plan) = PASS"
    by (simp_all add: demo_sent_plan_def demo_entry_plan_run)
  have ap: "as_plan (PlanDoc ?plan) = Inr ?plan"
    by (simp add: demo_sent_plan_def demo_entry_plan_run construction_valid_def)
  obtain w1 item where cr: "w_create ''act'' 0 ?w ''management_recommendation'' ''u''
      (recommendation_row (Some ''plan'') None (execution_action_value ?act) '''' []) ''QUEUING'' (Some ''act'') None
      (Some ''trade_management.action_selected'') = Inr (w1, item)"
    by (simp add: w_create_def store_create_def recommendation_row_def store_audit_def Let_def demo_sent_world_def
        demo_doc_row_def)
  note C = w_create_InrD[OF cr]
  have rows1: "db_resources (w_db w1) = AList.update ''act'' item (db_resources (w_db ?w))"
    "db_outbox (w_db w1) = []" "res_kind item = ''management_recommendation''" "res_id item = ''act''"
    using C by (simp_all add: demo_sent_world_def)
  have cur: "current_broker_snapshot 0 w1 ''u'' ''a'' = Inr demo_snapshot"
    "current_permissions w1 ''u'' ''a'' = Inr (demo_permissions\<lparr>pm_stop_loss := True\<rparr>)"
    "current_kill_switches w1 ''u'' ''a'' = Inr (no_switch PLATFORM None, no_switch ACCOUNT (Some ''a''))"
    by (simp_all add: current_broker_snapshot_def account_snapshots_def demo_sent_world_def store_list_def rows1
        demo_doc_row_def demo_snapshot_def snapshot_of_broker_def consistent_equity_def dec_defs dec8_numeral
        validate_snapshot_def current_permissions_def first_match_def demo_permissions_def
        current_kill_switches_def switch_rows_def Let_def)
  obtain plan1 auth where a: "authorize_action (env_digest demo_env) ''auth2'' 0 ?plan ?act
      (demo_permissions\<lparr>pm_stop_loss := True\<rparr>) (no_switch PLATFORM None) (no_switch ACCOUNT (Some ''a'')) 60
      = Inr (plan1, auth)"
    using that by (simp add: authorize_action_def authorize_states_def demo_permissions_def no_switch_def p Let_def)
  note A = authorize_action_InrD[OF a]
  let ?plan2 = "plan1\<lparr>tp_version := tp_version plan1 + 1\<rparr>"
  obtain r where r: "store_get (w_db w1) ''trade_plan'' ''plan'' ''u'' = Some r" "res_id r = ''plan''"
      "res_kind r = ''trade_plan''"
    by (simp add: store_get_def rows1 demo_sent_world_def demo_doc_row_def)
  obtain w2 r' where u: "w_update 0 w1 r (PlanDoc ?plan2) (plan_state_value (tp_state plan1)) None None
      ''trade_plan.management_authorized''
      (Some [(''action'', execution_action_value ?act), (''authorization_id'', ea_id auth)]) = Inr (w2, r')"
    by (simp add: w_update_def store_update_def Let_def)
  obtain l c where c: "create_action_command ''cmd2'' 0 empty_ledger ?plan2 auth ''management:act'' []
      (Some ''act'') None (Some ''9'') None = Inr (l, c)"
    and c0: "cm_id c = ''cmd2''" "cm_state c = CREATED" "cm_idempotency_key c = ''management:act''"
    using A by (simp add: create_action_command_def command_guards_def ledger_put_def empty_ledger_def new_command_def)
  obtain c1 where c1: "command_transition c AUTHORIZED = Inr c1" "cm_id c1 = ''cmd2''" "cm_state c1 = AUTHORIZED"
      "cm_idempotency_key c1 = ''management:act''"
    using c0 by (simp add: command_transition_def)
  obtain c2 where c2: "command_transition c1 QUEUED = Inr c2" "cm_id c2 = ''cmd2''" "cm_idempotency_key c2 = ''management:act''"
    using c1 by (simp add: command_transition_def)
  have rows2: "db_resources (w_db w2) = AList.update ''plan'' r' (AList.update ''act'' item (db_resources (w_db ?w)))"
    "db_outbox (w_db w2) = []" "res_kind r' = ''trade_plan''"
    using w_update_InrD(3,8,9)[OF u] r rows1 by simp_all
  have "store_get (w_db w2) ''execution_command'' ''cmd2'' ''u'' = None"
    "first_match (\<lambda>r. doc_key (res_data r) = Some ''management:act'')
       (store_list (w_db w2) ''execution_command'' ''u'' False) = None"
    "map_of (db_resources (w_db w2)) ''cmd2'' = None"
    using rows2 rows1(3)
    by (simp_all add: store_get_def store_list_def demo_sent_world_def demo_doc_row_def first_match_def
        new_command_doc_def demo_sent_command_def)
  then obtain w3 crec where pc: "persist_command 0 w2 ''u'' c2 None = Inr (w3, crec)"
    and rows3: "db_resources (w_db w3) = AList.update ''cmd2'' crec (db_resources (w_db w2))"
    using c2(2,3) rows2(2) by (simp add: persist_command_def w_create_def store_create_def
        new_command_doc_def outbox_add_def store_audit_def Let_def)
  have q: "authorize_and_queue_management demo_env (mg_ids demo_route_env) 0 w1 ''u'' ?plan ?act []
      ''management:act'' ''act'' None (Some ''9'') None = Inr (w3, crec)"
    using cur p a r(1) u c c1(1) c2(1) pc
    by (simp add: authorize_and_queue_management_def Let_def demo_ids_def demo_route_env_def)
  obtain w4 item' where w4: "w_update 0 w3 item (link_command (res_id crec) (res_data item)) ''QUEUED'' None None
      ''trade_management.command_queued'' None = Inr (w4, item')"
    using C(6) by (simp add: w_update_def store_update_def recommendation_row_def Let_def)
  have run: "queue_management_action demo_route_env 0 ''u'' None ?w demo_stop_action = Inr (w4, crec)"
    using demo_sent_rows(2)[of TP_EXECUTION_PENDING PLACE_ORDER COMMAND_PENDING] cr q w4 p ap i
    by (simp add: queue_management_action_def demo_stop_action_def demo_doc_row_def demo_route_env_def Let_def)
  have rows4: "db_resources (w_db w4) = AList.update ''act'' item' (AList.update ''cmd2'' crec
      (AList.update ''plan'' r' (AList.update ''act'' item (db_resources (w_db ?w)))))"
    using w_update_InrD(8)[OF w4] rows1(4) rows2 rows3 by simp
  show thesis
    by (rule that[OF run]) (simp add: store_get_def rows4 demo_sent_world_def demo_doc_row_def new_command_doc_def)
qed

theorem management_revokes_pending_entry_witness:
  "\<exists>w' crec. queue_management_action demo_route_env 0 ''u'' None demo_pending_world demo_stop_action = Inr (w', crec)
    \<and> fst (dispatch_task demo_runtime (demo_client False) 5 w' ''u'' ''cmd'' ''worker'') = []"
proof -
  obtain w' crec where q: "queue_management_action demo_route_env 0 ''u'' None demo_pending_world demo_stop_action
      = Inr (w', crec)"
    and r: "store_get (w_db w') ''execution_command'' ''cmd'' ''u''
     = Some (snd (demo_doc_row ''cmd'' ''execution_command'' (new_command_doc (demo_sent_command PLACE_ORDER)))
         \<lparr>res_state := ''QUEUED''\<rparr>)" by (rule demo_action_queued)
  have pl: "\<forall>prow plan. store_get (w_db demo_pending_world) ''trade_plan'' (mi_trade_plan_id demo_stop_action) ''u'' = Some prow
      \<longrightarrow> res_data prow = PlanDoc plan \<longrightarrow> tp_id plan = mi_trade_plan_id demo_stop_action"
    by (simp add: demo_stop_action_def demo_sent_rows demo_doc_row_def demo_sent_plan_def demo_entry_plan_run)
  have c: "cm_trade_plan_id (demo_sent_command PLACE_ORDER) = Some (mi_trade_plan_id demo_stop_action)"
    "cm_authorization_id (demo_sent_command PLACE_ORDER) \<noteq> Some (ei_authorization (mg_ids demo_route_env))"
    by (simp_all add: demo_sent_command_def new_command_def demo_stop_action_def demo_entry_plan_run demo_grant_def
        demo_route_env_def)
  show ?thesis
    using q management_revokes_pending_entry[OF q demo_sent_store pl r _ , of
        "\<lparr>cd_command = demo_sent_command PLACE_ORDER, cd_lease = None, cd_attempt_count = 0\<rparr>"] c
    by (auto simp: demo_doc_row_def new_command_doc_def)
qed

end
