(* ===== verification/PyText.thy ===== *)
theory PyText
  imports PyDecimal PyString
begin

text \<open>
  Text operations of Python that the research half of the program needs beyond \<open>PyString\<close>, on ASCII
  strings: \<open>strip\<close>, \<open>split\<close> on one character, slices and the constructor \<open>Decimal(text)\<close>.  The last
  gives no value where Python raises (\<open>InvalidOperation\<close>) and none for the texts of an infinity or a NaN,
  which every caller refuses.
\<close>

definition chr_space :: "char \<Rightarrow> bool" where
  "chr_space c \<longleftrightarrow> (of_char c :: nat) \<in> {9, 10, 11, 12, 13, 28, 29, 30, 31, 32}"

definition str_strip :: "string \<Rightarrow> string" where
  "str_strip s = rev (dropWhile chr_space (rev (dropWhile chr_space s)))"

fun str_split :: "char \<Rightarrow> string \<Rightarrow> string list" where
  "str_split c [] = [[]]"
| "str_split c (x # xs) =
     (if x = c then [] # str_split c xs
      else case str_split c xs of [] \<Rightarrow> [[x]] | p # ps \<Rightarrow> (x # p) # ps)"

text \<open>\<open>xs[a:b]\<close> and \<open>xs[-n:]\<close>\<close>

definition slice :: "nat \<Rightarrow> nat \<Rightarrow> 'a list \<Rightarrow> 'a list" where
  "slice a b xs = drop a (take b xs)"

definition last_n :: "nat \<Rightarrow> 'a list \<Rightarrow> 'a list" where
  "last_n n xs = drop (length xs - n) xs"

text \<open>\<open>max(xs)\<close> and \<open>min(xs)\<close> of a list that is not empty\<close>

definition py_max :: "'a::linorder list \<Rightarrow> 'a" where
  "py_max xs = fold max (tl xs) (hd xs)"

definition py_min :: "'a::linorder list \<Rightarrow> 'a" where
  "py_min xs = min_list1 (hd xs) (tl xs)"

section \<open>\<open>Decimal(text)\<close>\<close>

definition chr_digit :: "char \<Rightarrow> bool" where
  "chr_digit c \<longleftrightarrow> CHR ''0'' \<le> c \<and> c \<le> CHR ''9''"

definition digits_value :: "string \<Rightarrow> int" where
  "digits_value s = fold (\<lambda>c n. n * 10 + int (of_char c - 48)) s 0"

fun text_sign :: "string \<Rightarrow> int \<times> string" where
  "text_sign [] = (1, [])"
| "text_sign (c # s) = (if c = CHR ''-'' then (- 1, s) else if c = CHR ''+'' then (1, s) else (1, c # s))"

fun text_fraction :: "string \<Rightarrow> string \<times> string" where
  "text_fraction [] = ([], [])"
| "text_fraction (c # s) =
     (if c = CHR ''.'' then (takeWhile chr_digit s, dropWhile chr_digit s) else ([], c # s))"

fun text_exponent :: "string \<Rightarrow> int option" where
  "text_exponent [] = Some 0"
| "text_exponent (c # s) =
     (if c \<noteq> CHR ''e'' \<and> c \<noteq> CHR ''E'' then None
      else let (sg, ds) = text_sign s in
        if ds \<noteq> [] \<and> list_all chr_digit ds then Some (sg * digits_value ds) else None)"

definition decimal_of_text :: "string \<Rightarrow> decimal option" where
  "decimal_of_text s =
     (let (sg, body) = text_sign (str_remove CHR ''_'' (str_strip s));
          whole = takeWhile chr_digit body;
          (fraction, rest) = text_fraction (dropWhile chr_digit body)
      in if whole = [] \<and> fraction = [] then None
         else map_option (\<lambda>e. of_int (sg * digits_value (whole @ fraction)) * 10 powi (e - int (length fraction)))
                (text_exponent rest))"

lemma decimal_of_text_runs:
  "decimal_of_text '' 1.50'' = Some (3 / 2)" "decimal_of_text ''-2e-1'' = Some (- 1 / 5)"
  "decimal_of_text ''abc'' = None"
  by code_simp+

section \<open>Lists\<close>

lemma length_slice [simp]: "length (slice a b xs) = min b (length xs) - a"
  by (simp add: slice_def)

lemma slice_take: "b \<le> n \<Longrightarrow> slice a b (take n xs) = slice a b xs"
  by (simp add: slice_def min_absorb1)

lemma slice_Nil_iff: "slice a b xs = [] \<longleftrightarrow> min b (length xs) \<le> a"
  by (auto simp: slice_def min_def)

lemma length_last_n [simp]: "length (last_n n xs) = min n (length xs)"
  by (simp add: last_n_def)

lemma fold_max_ge: "x \<in> insert a (set xs) \<Longrightarrow> x \<le> fold max xs (a :: 'a::linorder)"
proof (induction xs arbitrary: a x)
  case (Cons y ys)
  from Cons.prems Cons.IH[of "max y a" "max y a"] Cons.IH[of x "max y a"] show ?case by auto
qed simp

lemma fold_max_mem: "fold max xs (a :: 'a::linorder) \<in> insert a (set xs)"
proof (induction xs arbitrary: a)
  case (Cons y ys)
  from Cons.IH[of "max y a"] show ?case by (auto simp: max_def)
qed simp

lemma py_max_ge: "x \<in> set xs \<Longrightarrow> x \<le> py_max xs"
  unfolding py_max_def by (cases xs) (auto intro: fold_max_ge)

lemma py_max_mem: "xs \<noteq> [] \<Longrightarrow> py_max xs \<in> set xs"
  unfolding py_max_def using fold_max_mem[of "tl xs" "hd xs"] by (cases xs) auto

lemma py_min_le: "x \<in> set xs \<Longrightarrow> py_min xs \<le> x"
  unfolding py_min_def by (cases xs) (auto intro: min_list1_le)

end
