(* ===== verification/Signals.thy ===== *)
theory Signals
  imports DomainTypes PyText
begin

text \<open>
  What a strategy is and when it signals: the specification of \<open>packages/strategy_sdk/schema.py\<close>, the
  regime features of \<open>modules/strategies/pair_profile.py\<close>, the features, condition matching and
  protection levels of \<open>modules/strategies/signals.py\<close> and the session and event rules of
  \<open>modules/strategies/entry_context.py\<close>.

  A table of features is a dictionary of finite decimals.  The technical indicators (pandas and
  TA-Lib) and the time zone database are arguments: \<open>technical\<close> gives the rows of the required
  indicators for a list of candles, \<open>zone\<close> the weekday, hour and minute of an instant in a zone.
\<close>

section \<open>Specifications\<close>

datatype operator = GT | GE | LT | LE | EQ

datatype condition_value = CvDec decimal | CvStr string

record condition =
  cn_feature :: string
  cn_operator :: operator
  cn_value :: condition_value

datatype side = LONG | SHORT

record trade_rules =
  tr_direction :: side
  tr_stop_volatility_multiple :: decimal
  tr_take_profit_r_multiples :: "decimal list"

datatype setting = SetDec decimal | SetStr string | SetBool bool

record strategy_spec =
  ss_instruments :: "string list"
  ss_regimes :: "string list"
  ss_entry :: "condition list"
  ss_confirmations :: "condition list"
  ss_filters :: "condition list"
  ss_exit :: "condition list"
  ss_invalidation :: "condition list"
  ss_stop_loss :: condition
  ss_take_profit :: "condition list"
  ss_position_management :: "(string, setting) dict"
  ss_sessions :: "string list"
  ss_event_rules :: "string list"
  ss_risk_per_trade :: decimal
  ss_parameters :: "(string, decimal) dict"
  ss_asset_class :: "asset_class option"
  ss_instrument_type :: "instrument_type option"
  ss_venue_instrument_id :: "string option"
  ss_specification_version_id :: "string option"
  ss_futures_contract_id :: "string option"
  ss_trade_rules :: "trade_rules option"

definition ordered_targets :: "decimal list \<Rightarrow> bool" where
  "ordered_targets targets \<longleftrightarrow> list_all (\<lambda>t. 0 < t) targets \<and> targets = sort (remdups targets)"

definition valid_rules :: "trade_rules \<Rightarrow> bool" where
  "valid_rules r \<longleftrightarrow> 0 < tr_stop_volatility_multiple r \<and> tr_stop_volatility_multiple r \<le> 10
     \<and> 1 \<le> length (tr_take_profit_r_multiples r) \<and> length (tr_take_profit_r_multiples r) \<le> 5
     \<and> ordered_targets (tr_take_profit_r_multiples r)"

definition bounded_parameter :: "string \<times> decimal \<Rightarrow> strategy_spec \<Rightarrow> bool" where
  "bounded_parameter b s =
     (case map_of (ss_parameters s) (fst b) of
        None \<Rightarrow> True
      | Some v \<Rightarrow> v = of_int (d_trunc v) \<and> 2 \<le> v \<and> v \<le> snd b)"

definition validate_strategy :: "strategy_spec \<Rightarrow> strategy_spec res" where
  "validate_strategy s =
     rbind (ensure (ss_instruments s \<noteq> [] \<and> ss_entry s \<noteq> [] \<and> ss_exit s \<noteq> [] \<and> 0 < ss_risk_per_trade s
                    \<and> (case ss_trade_rules s of None \<Rightarrow> True | Some r \<Rightarrow> valid_rules r))
              (ValidationError ''StrategySpecification'')) (\<lambda>_.
     rbind (ensure (bounded_parameter (''structure_window'', 200) s)
              (ValidationError ''structure_window must be an integer between 2 and 200'')) (\<lambda>_.
     rbind (ensure (bounded_parameter (''atr_period'', 100) s)
              (ValidationError ''atr_period must be an integer between 2 and 100'')) (\<lambda>_.
     rbind (ensure (ss_risk_per_trade s \<le> 100) (ValidationError ''risk per trade exceeds 100 percent'')) (\<lambda>_.
     rbind (ensure (length (ss_take_profit s) \<le> 5)
              (ValidationError ''at most five take-profit rules are supported'')) (\<lambda>_.
     if ss_instrument_type s = None then Inr s
     else
       rbind (ensure (truthy (ss_venue_instrument_id s) \<and> truthy (ss_specification_version_id s))
                (ValidationError ''typed strategy requires listing and specification references'')) (\<lambda>_.
       rbind (ensure (\<not> (ss_instrument_type s = Some FUTURES \<and> \<not> truthy (ss_futures_contract_id s)))
                (ValidationError ''futures strategy requires a dated contract reference'')) (\<lambda>_. Inr s)))))))"

fun setting_truthy :: "setting option \<Rightarrow> bool" where
  "setting_truthy None \<longleftrightarrow> False"
| "setting_truthy (Some (SetDec d)) \<longleftrightarrow> d \<noteq> 0"
| "setting_truthy (Some (SetStr s)) \<longleftrightarrow> s \<noteq> ''''"
| "setting_truthy (Some (SetBool b)) \<longleftrightarrow> b"

section \<open>Candles and their features\<close>

record candle =
  ca_observed_at :: timestamp
  ca_open :: decimal
  ca_high :: decimal
  ca_low :: decimal
  ca_close :: decimal
  ca_volume :: decimal

type_synonym features = "(string, decimal) dict"

definition d_mean :: "decimal list \<Rightarrow> decimal" where
  "d_mean xs = d_div (d_sum xs) (of_nat (length xs))"

definition candle_range :: "candle \<Rightarrow> decimal" where
  "candle_range c = d_sub (ca_high c) (ca_low c)"

definition regime_features :: "candle list \<Rightarrow> features" where
  "regime_features candles =
     (let window = last_n 21 candles;
          moves = map2 (\<lambda>a b. d_sub (ca_close b) (ca_close a)) window (tl window);
          distance = d_sum (map d_abs moves);
          efficiency = (if distance \<noteq> 0 then d_div (d_abs (d_sum moves)) distance else 0);
          ranges = map candle_range (last_n 40 candles);
          recent = d_div (d_sum (last_n 10 ranges)) (of_nat (max 1 (length (last_n 10 ranges))));
          baseline = take (length ranges - 10) ranges;
          reference = (if baseline \<noteq> [] then d_mean baseline else recent)
      in [(''regime_ready'', if 21 \<le> length candles then 1 else 0),
          (''trend_efficiency'', efficiency),
          (''trend_direction'', if 0 < d_sum moves then 1 else if d_sum moves < 0 then - 1 else 0),
          (''relative_volatility'', if reference \<noteq> 0 then d_div recent reference else 0)])"

definition true_range :: "candle \<Rightarrow> candle \<Rightarrow> decimal" where
  "true_range previous c =
     max (candle_range c) (max (d_abs (d_sub (ca_high c) (ca_close previous)))
                               (d_abs (d_sub (ca_low c) (ca_close previous))))"

definition wilder_step :: "nat \<Rightarrow> decimal \<Rightarrow> decimal \<Rightarrow> decimal" where
  "wilder_step period value volatility =
     d_div (d_add (d_mul volatility (of_nat period - 1)) value) (of_nat period)"

definition true_ranges :: "candle list \<Rightarrow> nat \<Rightarrow> decimal list" where
  "true_ranges candles index = map2 true_range (take index candles) (slice 1 (index + 1) candles)"

text \<open>The prefix calculation of the average true range, on the candles up to \<open>index\<close>.\<close>

definition wilder_prefix :: "nat \<Rightarrow> candle list \<Rightarrow> nat \<Rightarrow> decimal" where
  "wilder_prefix period candles index =
     (if index < period then 0
      else let ranges = true_ranges candles index
           in fold (wilder_step period) (drop period ranges)
                (d_div (d_sum (take period ranges)) (of_nat period)))"

definition candle_features :: "candle list \<Rightarrow> nat \<Rightarrow> nat \<Rightarrow> nat option \<Rightarrow> features" where
  "candle_features candles index structure_window atr_period =
     (let candle = candles ! index;
          window = slice (index - 4) (index + 1) candles;
          earlier = slice (index - structure_window) index candles;
          prior = (if earlier \<noteq> [] then earlier else [candle]);
          slow = slice (index + 1 - structure_window) (index + 1) candles;
          volatility = (case atr_period of
                          None \<Rightarrow> d_mean (map candle_range window)
                        | Some period \<Rightarrow> wilder_prefix period candles index)
      in regime_features (slice (index - 39) (index + 1) candles)
         @ [(''prior_high'', py_max (map ca_high prior)), (''prior_low'', py_min (map ca_low prior)),
            (''slow_average'', d_mean (map ca_close slow)), (''open'', ca_open candle),
            (''high'', ca_high candle), (''low'', ca_low candle), (''close'', ca_close candle),
            (''volume'', ca_volume candle),
            (''momentum'', d_sub (ca_close candle) (ca_close (candles ! (index - 1)))),
            (''moving_average'', d_mean (map ca_close window)), (''volatility'', volatility)])"


definition TECHNICAL_FEATURES :: "string list" where
  "TECHNICAL_FEATURES =
     [''atr'', ''adx'', ''rsi'', ''ema'', ''sma'', ''roc'', ''obv'', ''cci'', ''willr'', ''trange'', ''macd'',
      ''macd_signal'', ''macd_histogram'', ''bb_upper'', ''bb_middle'', ''bb_lower'', ''stoch_k'', ''stoch_d'',
      ''bb_width'']"

definition condition_groups :: "strategy_spec \<Rightarrow> condition list" where
  "condition_groups s = ss_entry s @ ss_confirmations s @ ss_filters s @ ss_exit s @ ss_invalidation s
     @ [ss_stop_loss s] @ ss_take_profit s"

fun value_name :: "condition_value \<Rightarrow> string list" where
  "value_name (CvStr n) = [n]"
| "value_name (CvDec d) = []"

definition required_technical_features :: "strategy_spec \<Rightarrow> string list" where
  "required_technical_features s =
     filter (\<lambda>n. n \<in> set TECHNICAL_FEATURES)
       (remdups (concat (map (\<lambda>c. cn_feature c # value_name (cn_value c)) (condition_groups s))))"

type_synonym indicators = "string list \<Rightarrow> candle list \<Rightarrow> features list"

definition dupdate :: "features \<Rightarrow> features \<Rightarrow> features" where
  "dupdate f g = fold (\<lambda>(k, v). AList.update k v) g f"

definition structure_window :: "strategy_spec \<Rightarrow> nat" where
  "structure_window s = (case map_of (ss_parameters s) ''structure_window'' of None \<Rightarrow> 20 | Some v \<Rightarrow> nat (d_trunc v))"

definition atr_period :: "strategy_spec \<Rightarrow> nat option" where
  "atr_period s = map_option (\<lambda>v. nat (d_trunc v)) (map_of (ss_parameters s) ''atr_period'')"

definition strategy_features :: "indicators \<Rightarrow> strategy_spec \<Rightarrow> candle list \<Rightarrow> nat \<Rightarrow> features" where
  "strategy_features technical s candles index =
     (let point = candle_features candles index (structure_window s) (atr_period s);
          names = required_technical_features s
      in if names \<noteq> [] then dupdate point (last (technical names (take (index + 1) candles))) else point)"

definition technical_feature_series :: "indicators \<Rightarrow> string list \<Rightarrow> candle list \<Rightarrow> features list" where
  "technical_feature_series technical names candles =
     (if names = [] then map (\<lambda>_. []) candles else technical names candles)"

text \<open>The batch calculation: one pass over the candles that keeps the sum of the first true ranges and
  the smoothed range.\<close>

definition batch_atr :: "nat \<Rightarrow> candle list \<Rightarrow> nat \<Rightarrow> decimal \<times> decimal \<Rightarrow> decimal \<times> decimal" where
  "batch_atr period candles index acc =
     (let (total, atr) = acc in
      if index = 0 then (total, atr)
      else
        let value = true_range (candles ! (index - 1)) (candles ! index) in
        if index \<le> period
        then let total' = d_add total value
             in (total', if index = period then d_div total' (of_nat period) else atr)
        else (total, wilder_step period value atr))"

fun batch_features ::
    "nat \<Rightarrow> nat option \<Rightarrow> candle list \<Rightarrow> features list \<Rightarrow> nat list \<Rightarrow> decimal \<times> decimal \<Rightarrow> features list" where
  "batch_features window period candles technical [] acc = []"
| "batch_features window period candles technical (index # rest) acc =
     (let point = candle_features candles index window None;
          acc' = (case period of None \<Rightarrow> acc | Some p \<Rightarrow> batch_atr p candles index acc);
          point' = (case period of None \<Rightarrow> point | Some p \<Rightarrow> AList.update ''volatility'' (snd acc') point)
      in dupdate point' (technical ! index) # batch_features window period candles technical rest acc')"

definition strategy_feature_series :: "indicators \<Rightarrow> strategy_spec \<Rightarrow> candle list \<Rightarrow> features list" where
  "strategy_feature_series technical s candles =
     batch_features (structure_window s) (atr_period s) candles
       (technical_feature_series technical (required_technical_features s) candles) [0..<length candles] (0, 0)"

section \<open>Regimes\<close>

definition feature :: "features \<Rightarrow> string \<Rightarrow> decimal res" where
  "feature f n = required (map_of f n) (KeyError n)"

type_synonym regime = "(string, string) dict"

definition news_name :: "decimal \<Rightarrow> string" where
  "news_name v =
     (if d_trunc v = - 2 then ''UNKNOWN'' else if d_trunc v = - 1 then ''PRE_NEWS''
      else if d_trunc v = 0 then ''NORMAL'' else if d_trunc v = 1 then ''POST_NEWS'' else ''UNKNOWN'')"

definition direction_name :: "decimal \<Rightarrow> string res" where
  "direction_name v =
     (if d_trunc v = 1 then Inr ''BULLISH'' else if d_trunc v = - 1 then Inr ''BEARISH''
      else if d_trunc v = 0 then Inr ''FLAT'' else Inl (KeyError (int_str (d_trunc v))))"

definition news_regime :: "features \<Rightarrow> regime" where
  "news_regime f = (case map_of f ''news_regime'' of None \<Rightarrow> [] | Some v \<Rightarrow> [(''news'', news_name v)])"

definition regime_from_features :: "features \<Rightarrow> regime res" where
  "regime_from_features f =
     (if map_of f ''regime_ready'' \<in> {None, Some 0}
      then Inr ([(''behaviour'', ''UNKNOWN''), (''direction'', ''UNKNOWN''), (''volatility'', ''UNKNOWN'')]
                @ news_regime f)
      else
        rbind (feature f ''relative_volatility'') (\<lambda>ratio.
        rbind (feature f ''trend_efficiency'') (\<lambda>efficiency.
        rbind (feature f ''trend_direction'') (\<lambda>trend.
        rbind (direction_name trend) (\<lambda>direction.
        Inr (news_regime f @
             [(''behaviour'', if 35 / 100 \<le> efficiency then ''TRENDING'' else ''RANGING''),
              (''direction'', direction),
              (''volatility'', if 3 / 2 \<le> ratio then ''HIGH_VOLATILITY''
                              else if ratio \<le> 3 / 4 then ''LOW_VOLATILITY'' else ''NORMAL_VOLATILITY'')]))))))"

definition regime_key :: "regime \<Rightarrow> string res" where
  "regime_key r =
     rbind (required (map_of r ''behaviour'') (KeyError ''behaviour'')) (\<lambda>b.
     rbind (required (map_of r ''direction'') (KeyError ''direction'')) (\<lambda>d.
     rbind (required (map_of r ''volatility'') (KeyError ''volatility'')) (\<lambda>v.
     Inr (b @ '':'' @ d @ '':'' @ v))))"

definition regime_alias :: "string \<Rightarrow> string" where
  "regime_alias tag =
     (if tag = ''TREND'' then ''TRENDING'' else if tag = ''RANGE'' then ''RANGING''
      else if tag = ''VOLATILE'' then ''HIGH_VOLATILITY'' else if tag = ''NORMAL_NEWS'' then ''NORMAL'' else tag)"

definition regime_matches :: "string list \<Rightarrow> features \<Rightarrow> bool res" where
  "regime_matches wanted f =
     (if wanted = [] then Inr True
      else
        rbind (regime_from_features f) (\<lambda>regime.
        Inr (map_of regime ''behaviour'' \<noteq> Some ''UNKNOWN''
             \<and> list_ex (\<lambda>item. list_all (\<lambda>tag. str_upper (str_strip tag) \<noteq> ''UNKNOWN''
                   \<and> regime_alias (str_upper (str_strip tag)) \<in> set (dvalues regime)) (str_split CHR '':'' item))
                wanted)))"

section \<open>The economic calendar\<close>

record calendar_event =
  ev_impact :: string
  ev_currency :: "string option"
  ev_scheduled_at :: "timestamp option"

text \<open>An event without a time zone has no instant.  Offsets are in microseconds.\<close>

definition event_symbol :: "string \<Rightarrow> string" where
  "event_symbol instrument = str_remove CHR ''-'' (str_remove CHR ''/'' (str_upper instrument))"

definition event_currencies :: "string \<Rightarrow> string list" where
  "event_currencies instrument = [take 3 (event_symbol instrument), slice 3 6 (event_symbol instrument)]"

definition high_impact :: "string \<Rightarrow> calendar_event \<Rightarrow> bool" where
  "high_impact instrument e \<longleftrightarrow> str_upper (ev_impact e) = ''HIGH''
     \<and> ev_currency e \<in> Some ` set (event_currencies instrument)"

definition news_offsets :: "string \<Rightarrow> timestamp \<Rightarrow> calendar_event list \<Rightarrow> int list" where
  "news_offsets instrument moment calendar =
     filter (\<lambda>d. \<bar>d\<bar> \<le> seconds 1800)
       (map (\<lambda>e. the (ev_scheduled_at e) - moment)
         (filter (\<lambda>e. high_impact instrument e \<and> ev_scheduled_at e \<noteq> None) calendar))"

definition news_state :: "string \<Rightarrow> timestamp \<Rightarrow> calendar_event list option \<Rightarrow> string" where
  "news_state instrument moment calendar =
     (case calendar of
        None \<Rightarrow> ''UNKNOWN''
      | Some events \<Rightarrow>
          (case news_offsets instrument moment events of
             [] \<Rightarrow> ''NORMAL''
           | d # ds \<Rightarrow> if 0 \<le> min_key (\<lambda>x. \<bar>x\<bar>) d ds then ''PRE_NEWS'' else ''POST_NEWS''))"

definition news_value :: "string \<Rightarrow> decimal" where
  "news_value state =
     (if state = ''UNKNOWN'' then - 2 else if state = ''PRE_NEWS'' then - 1 else if state = ''NORMAL'' then 0
      else if state = ''POST_NEWS'' then 1 else - 2)"

definition news_features ::
    "string \<Rightarrow> timestamp \<Rightarrow> calendar_event list option \<Rightarrow> string option \<Rightarrow> features" where
  "news_features instrument moment calendar observed_state =
     [(''news_regime'', news_value (case observed_state of Some st \<Rightarrow> st
                                   | None \<Rightarrow> news_state instrument moment calendar))]"

section \<open>Sessions and events\<close>

type_synonym time_zones = "string \<Rightarrow> timestamp \<Rightarrow> nat \<times> nat \<times> nat"

definition weekend_closed :: "time_zones \<Rightarrow> asset_class option \<Rightarrow> timestamp \<Rightarrow> bool" where
  "weekend_closed zone asset_class now =
     (if asset_class \<notin> {Some FOREX, Some METALS, Some STOCKS} then False
      else
        let (weekday, hour, minute) = zone ''America/New_York'' now; stocks = (asset_class = Some STOCKS) in
        weekday = 5 \<or> (weekday = 6 \<and> (stocks \<or> hour < 17)) \<or> (\<not> stocks \<and> weekday = 4 \<and> 17 \<le> hour))"

definition sessions :: "(string \<times> string \<times> nat \<times> nat) list" where
  "sessions =
     [(''LONDON'', ''Europe/London'', 8, 17), (''NEW_YORK'', ''America/New_York'', 8, 17),
      (''TOKYO'', ''Asia/Tokyo'', 9, 18), (''ASIA'', ''Asia/Tokyo'', 9, 18),
      (''SYDNEY'', ''Australia/Sydney'', 8, 17)]"

definition in_session :: "time_zones \<Rightarrow> timestamp \<Rightarrow> string \<Rightarrow> bool" where
  "in_session zone now name =
     (case map_of sessions name of
        None \<Rightarrow> False
      | Some (z, start, close) \<Rightarrow>
          let (weekday, hour, minute) = zone z now in start \<le> hour \<and> hour < close \<and> weekday < 5)"

fun event_window :: "string \<Rightarrow> timestamp \<Rightarrow> calendar_event list \<Rightarrow> string option res" where
  "event_window instrument now [] = Inr None"
| "event_window instrument now (e # es) =
     (if high_impact instrument e
      then (case ev_scheduled_at e of
              None \<Rightarrow> Inl (TypeError ''can't subtract offset-naive and offset-aware datetimes'')
            | Some t \<Rightarrow>
                if \<bar>t - now\<bar> \<le> seconds 1800
                then Inr (Some ''High-impact event within the strategy's 30-minute event window'')
                else event_window instrument now es)
      else event_window instrument now es)"

definition event_reason :: "strategy_spec \<Rightarrow> timestamp \<Rightarrow> calendar_event list option \<Rightarrow> string option res" where
  "event_reason s now calendar =
     (if ss_event_rules s = [] then Inr None
      else
        case calendar of
          None \<Rightarrow> Inr (Some ''Economic calendar coverage is unavailable for the current session'')
        | Some events \<Rightarrow> event_window (hd (ss_instruments s)) now events)"

definition entry_context_reason ::
    "time_zones \<Rightarrow> strategy_spec \<Rightarrow> timestamp \<Rightarrow> calendar_event list option \<Rightarrow> string option res" where
  "entry_context_reason zone s now calendar =
     (let wanted = map str_upper (ss_sessions s); (weekday, hour, minute) = zone ''America/New_York'' now in
      if weekend_closed zone (ss_asset_class s) now then Inr (Some ''Market session is closed'')
      else if ss_asset_class s = Some STOCKS
              \<and> (5 \<le> weekday \<or> \<not> (570 \<le> hour * 60 + minute \<and> hour * 60 + minute < 960))
      then Inr (Some ''Stock market session is closed'')
      else if list_ex (\<lambda>n. n \<notin> set (map fst sessions @ [''ALL'', ''24/7''])) wanted
      then Inr (Some ''Strategy session rules are unsupported; revise and validate the strategy'')
      else if wanted \<noteq> [] \<and> ''ALL'' \<notin> set wanted \<and> ''24/7'' \<notin> set wanted
              \<and> \<not> list_ex (in_session zone now) wanted
      then Inr (Some ''Outside the strategy's trading sessions'')
      else if list_ex (\<lambda>r. r \<noteq> ''block_high_impact_events'') (ss_event_rules s)
      then Inr (Some ''Strategy event rules are unsupported; revise and validate the strategy'')
      else event_reason s now calendar)"

section \<open>Signals\<close>

fun operation :: "operator \<Rightarrow> decimal \<Rightarrow> decimal \<Rightarrow> bool" where
  "operation GT a b \<longleftrightarrow> b < a"
| "operation GE a b \<longleftrightarrow> b \<le> a"
| "operation LT a b \<longleftrightarrow> a < b"
| "operation LE a b \<longleftrightarrow> a \<le> b"
| "operation EQ a b \<longleftrightarrow> a = b"

text \<open>The right-hand side: the feature of that name, else the number.  The text of a number is the name
  of no feature.\<close>

fun operand :: "features \<Rightarrow> condition_value \<Rightarrow> decimal option" where
  "operand f (CvDec d) = Some d"
| "operand f (CvStr s) = (case map_of f s of Some v \<Rightarrow> Some v | None \<Rightarrow> decimal_of_text s)"

definition condition_holds :: "features \<Rightarrow> condition \<Rightarrow> bool" where
  "condition_holds f c =
     (case (map_of f (cn_feature c), operand f (cn_value c)) of
        (Some left, Some right) \<Rightarrow> operation (cn_operator c) left right
      | _ \<Rightarrow> False)"

definition matches :: "condition list \<Rightarrow> features \<Rightarrow> bool" where
  "matches conditions f \<longleftrightarrow> conditions \<noteq> [] \<and> list_all (condition_holds f) conditions"

definition requires_news_context :: "strategy_spec \<Rightarrow> bool" where
  "requires_news_context s \<longleftrightarrow>
     list_ex (\<lambda>regime. list_ex (\<lambda>tag. str_contains ''NEWS'' (str_upper tag)
                \<or> str_upper (str_strip tag) = ''NORMAL'') (str_split CHR '':'' regime)) (ss_regimes s)
     \<or> list_ex (\<lambda>c. cn_feature c = ''news_regime'' \<or> cn_value c = CvStr ''news_regime'')
         (ss_entry s @ ss_confirmations s @ ss_filters s @ ss_invalidation s @ ss_exit s)"

definition entry_matches :: "strategy_spec \<Rightarrow> features \<Rightarrow> bool res" where
  "entry_matches s f =
     (if dget f ''news_regime'' (- 2) = - 2 \<and> requires_news_context s then Inr False
      else
        rbind (regime_matches (ss_regimes s) f) (\<lambda>ok.
        Inr (ok \<and> matches (ss_entry s) f
             \<and> (ss_confirmations s = [] \<or> matches (ss_confirmations s) f)
             \<and> (ss_filters s = [] \<or> matches (ss_filters s) f)
             \<and> \<not> matches (ss_invalidation s) f)))"

definition side_sign :: "side \<Rightarrow> decimal" where
  "side_sign d = (if d = LONG then 1 else - 1)"

text \<open>Prices are rounded to the tick away from the entry.\<close>

definition tick_round :: "bool \<Rightarrow> decimal \<Rightarrow> decimal \<Rightarrow> decimal" where
  "tick_round up tick price =
     d_mul (of_int (if up then \<lceil>d_div price tick\<rceil> else \<lfloor>d_div price tick\<rfloor>)) tick"

definition protection_levels ::
    "trade_rules \<Rightarrow> decimal \<Rightarrow> decimal \<Rightarrow> decimal option \<Rightarrow> (decimal \<times> decimal list) res" where
  "protection_levels rules entry volatility tick_size =
     rbind (ensure (0 < entry \<and> 0 < volatility)
              (ValueError ''positive finite entry and volatility are required'')) (\<lambda>_.
     let long = (tr_direction rules = LONG); sign = side_sign (tr_direction rules);
         stop0 = d_sub entry (d_mul sign (d_mul volatility (tr_stop_volatility_multiple rules)))
     in rbind (ensure (case tick_size of None \<Rightarrow> True | Some t \<Rightarrow> 0 < t)
                 (ValueError ''tick size must be positive'')) (\<lambda>_.
        let stop = (case tick_size of None \<Rightarrow> stop0 | Some t \<Rightarrow> tick_round (\<not> long) t stop0);
            distance = d_abs (d_sub entry stop);
            targets0 = map (\<lambda>m. d_add entry (d_mul (d_mul sign distance) m)) (tr_take_profit_r_multiples rules);
            targets = (case tick_size of None \<Rightarrow> targets0 | Some t \<Rightarrow> map (tick_round long t) targets0)
        in rbind (ensure (0 < stop \<and> list_all (\<lambda>t. 0 < t) targets \<and> distinct targets)
                    (ValueError ''strategy protection cannot produce distinct positive prices'')) (\<lambda>_.
           Inr (stop, targets))))"

section \<open>The batch calculation is the prefix calculation\<close>

lemma length_true_ranges: "index < length candles \<Longrightarrow> length (true_ranges candles index) = index"
  by (simp add: true_ranges_def)

lemma true_ranges_nth:
  "j < i \<Longrightarrow> i < length candles \<Longrightarrow> true_ranges candles i ! j = true_range (candles ! j) (candles ! Suc j)"
  by (simp add: true_ranges_def slice_def)

lemma true_ranges_Suc:
  assumes "Suc i < length candles"
  shows "true_ranges candles (Suc i) = true_ranges candles i @ [true_range (candles ! i) (candles ! Suc i)]"
proof (rule nth_equalityI)
  fix j assume "j < length (true_ranges candles (Suc i))"
  then have "j < Suc i" using assms by (simp add: length_true_ranges)
  then show "true_ranges candles (Suc i) ! j
      = (true_ranges candles i @ [true_range (candles ! i) (candles ! Suc i)]) ! j"
    using assms by (cases "j < i") (simp_all add: true_ranges_nth nth_append length_true_ranges less_Suc_eq)
qed (use assms in \<open>simp add: length_true_ranges\<close>)

lemma wilder_prefix_Suc:
  assumes "Suc i < length candles" and "0 < p"
  shows "wilder_prefix p candles (Suc i) =
     (if Suc i < p then 0
      else if Suc i = p then d_div (d_sum (true_ranges candles (Suc i))) (of_nat p)
      else wilder_step p (true_range (candles ! i) (candles ! Suc i)) (wilder_prefix p candles i))"
proof -
  have l: "length (true_ranges candles i) = i" "length (true_ranges candles (Suc i)) = Suc i"
    using assms(1) by (simp_all add: length_true_ranges)
  consider "Suc i < p" | "Suc i = p" | "p \<le> i" by linarith
  then show ?thesis
  proof cases
    case 3
    have "drop p (true_ranges candles (Suc i)) = drop p (true_ranges candles i) @ [true_range (candles ! i) (candles ! Suc i)]"
      "take p (true_ranges candles (Suc i)) = take p (true_ranges candles i)"
      using 3 l by (simp_all add: true_ranges_Suc[OF assms(1)])
    with 3 show ?thesis by (simp add: wilder_prefix_def Let_def)
  qed (use l in \<open>simp_all add: wilder_prefix_def\<close>)
qed

definition atr_state :: "nat \<Rightarrow> candle list \<Rightarrow> nat \<Rightarrow> decimal \<times> decimal" where
  "atr_state p candles i = (d_sum (take p (true_ranges candles i)), wilder_prefix p candles i)"

lemma atr_state_0: "0 < p \<Longrightarrow> atr_state p candles 0 = (0, 0)"
  by (simp add: atr_state_def true_ranges_def wilder_prefix_def)

lemma atr_state_Suc:
  assumes "Suc i < length candles" and "0 < p"
  shows "batch_atr p candles (Suc i) (atr_state p candles i) = atr_state p candles (Suc i)"
proof -
  note l = length_true_ranges[of i candles] and r = true_ranges_Suc[OF assms(1)]
  have i: "i < length candles" using assms(1) by simp
  show ?thesis
    using wilder_prefix_Suc[OF assms] l[OF i] assms(2)
    by (auto simp: atr_state_def batch_atr_def Let_def r d_sum_snoc wilder_prefix_def[of p candles i])
qed

lemma update_volatility:
  "AList.update ''volatility'' (wilder_prefix p candles i) (candle_features candles i w None)
     = candle_features candles i w (Some p)"
  by (simp add: candle_features_def regime_features_def Let_def)

lemma batch_features_run:
  assumes "0 < p" and "n \<le> length candles" and "0 < k" "k \<le> n"
  shows "batch_features w (Some p) candles technical [k..<n] (atr_state p candles (k - 1))
    = map (\<lambda>i. dupdate (candle_features candles i w (Some p)) (technical ! i)) [k..<n]"
  using assms(4,3)
proof (induction k rule: inc_induct)
  case (step k)
  then obtain i where k: "k = Suc i" by (cases k) auto
  have "batch_atr p candles k (atr_state p candles (k - 1)) = atr_state p candles k"
    using atr_state_Suc[of i candles p] step assms(1,2) by (simp add: k)
  moreover have "[k..<n] = k # [Suc k..<n]" using step.hyps by (simp add: upt_conv_Cons)
  ultimately show ?case
    using step.IH update_volatility[of p candles k w] by (simp add: atr_state_def)
qed simp

lemma batch_features_nth:
  assumes "0 < p"
  shows "batch_features w (Some p) candles technical [0..<length candles] (0, 0)
    = map (\<lambda>i. dupdate (candle_features candles i w (Some p)) (technical ! i)) [0..<length candles]"
proof (cases candles)
  case (Cons c cs)
  have "[0..<length candles] = 0 # [1..<length candles]" unfolding Cons by (simp add: upt_conv_Cons del: upt_Suc)
  moreover have "wilder_prefix p candles 0 = 0" using assms by (simp add: wilder_prefix_def)
  ultimately show ?thesis
    using batch_features_run[OF assms order_refl, of 1 candles w technical] update_volatility[of p candles 0 w]
      atr_state_0[OF assms, of candles]
    by (simp add: batch_atr_def Cons)
qed simp

lemma batch_features_plain:
  "batch_features w None candles technical is acc
    = map (\<lambda>i. dupdate (candle_features candles i w None) (technical ! i)) is"
  by (induction "is" arbitrary: acc) simp_all

lemma feature_series:
  assumes "atr_period s \<noteq> Some 0"
  shows "strategy_feature_series technical s candles
    = map (\<lambda>i. dupdate (candle_features candles i (structure_window s) (atr_period s))
        (technical_feature_series technical (required_technical_features s) candles ! i)) [0..<length candles]"
  using assms batch_features_nth
  by (cases "atr_period s") (auto simp: strategy_feature_series_def batch_features_plain)

text \<open>Indicators are causal when every row is calculated from the candles up to it.\<close>

definition causal_indicators :: "indicators \<Rightarrow> bool" where
  "causal_indicators technical \<longleftrightarrow>
     (\<forall>names candles. length (technical names candles) = length candles
        \<and> (\<forall>n. technical names (take n candles) = take n (technical names candles)))"

lemma valid_atr_period:
  assumes "validate_strategy s = Inr s'"
  shows "s' = s" and "atr_period s \<noteq> Some 0" and "2 \<le> structure_window s"
proof -
  have b: "bounded_parameter (''structure_window'', 200) s" "bounded_parameter (''atr_period'', 100) s"
    using assms by (auto simp: validate_strategy_def split: if_splits)
  have t: "2 \<le> v \<Longrightarrow> v = of_int (d_trunc v) \<Longrightarrow> 2 \<le> nat (d_trunc v)" for v :: decimal
    by (metis nat_mono nat_numeral of_int_le_iff of_int_numeral)
  show "s' = s" using assms by (auto simp: validate_strategy_def split: if_splits)
  show "atr_period s \<noteq> Some 0" "2 \<le> structure_window s"
    using b t by (auto simp: bounded_parameter_def atr_period_def structure_window_def split: option.splits)
qed

section \<open>No feature looks ahead\<close>

lemma true_ranges_take: "i < n \<Longrightarrow> true_ranges (take n candles) i = true_ranges candles i"
  by (simp add: true_ranges_def slice_take min_absorb1)

lemma candle_features_take: "i < n \<Longrightarrow> candle_features (take n candles) i w p = candle_features candles i w p"
  by (cases p) (simp_all add: candle_features_def wilder_prefix_def true_ranges_take slice_take Let_def)

lemma technical_series_take:
  assumes "causal_indicators technical"
  shows "technical_feature_series technical names (take n candles)
      = take n (technical_feature_series technical names candles)"
    and "length (technical_feature_series technical names candles) = length candles"
  using assms by (simp_all add: technical_feature_series_def causal_indicators_def take_map)

lemma feature_series_take:
  assumes "causal_indicators technical" and "atr_period s \<noteq> Some 0"
  shows "strategy_feature_series technical s (take n candles) = take n (strategy_feature_series technical s candles)"
proof (rule nth_equalityI)
  fix i assume "i < length (strategy_feature_series technical s (take n candles))"
  then have "i < n" "i < length candles" by (simp_all add: feature_series[OF assms(2)])
  then show "strategy_feature_series technical s (take n candles) ! i
      = take n (strategy_feature_series technical s candles) ! i"
    by (simp add: feature_series[OF assms(2)] technical_series_take[OF assms(1)] candle_features_take)
qed (simp add: feature_series[OF assms(2)])

section \<open>Protection levels\<close>

lemma protection_levels_InrD:
  assumes "protection_levels rules entry volatility tick = Inr (stop, targets)"
  obtains distance where "0 < entry" "0 < volatility" "case tick of None \<Rightarrow> True | Some t \<Rightarrow> 0 < t"
    "stop = (let s0 = d_sub entry (d_mul (side_sign (tr_direction rules))
                (d_mul volatility (tr_stop_volatility_multiple rules)))
             in case tick of None \<Rightarrow> s0 | Some t \<Rightarrow> tick_round (tr_direction rules \<noteq> LONG) t s0)"
    "distance = d_abs (d_sub entry stop)"
    "targets = map (\<lambda>m. let t0 = d_add entry (d_mul (d_mul (side_sign (tr_direction rules)) distance) m)
             in case tick of None \<Rightarrow> t0 | Some t \<Rightarrow> tick_round (tr_direction rules = LONG) t t0)
          (tr_take_profit_r_multiples rules)"
    "0 < stop" "list_all (\<lambda>t. 0 < t) targets" "distinct targets"
  using assms by (cases tick) (auto simp: protection_levels_def Let_def intro!: that)

lemma tick_round_mono: "0 < t \<Longrightarrow> a \<le> b \<Longrightarrow> tick_round up t a \<le> tick_round up t b"
  by (auto simp: tick_round_def dec_defs intro!: dctx_mono mult_right_mono ceiling_mono floor_mono divide_right_mono)

lemma sorted_multiples: "valid_rules r \<Longrightarrow> sorted (tr_take_profit_r_multiples r)
    \<and> list_all (\<lambda>m. 0 < m) (tr_take_profit_r_multiples r)"
  unfolding valid_rules_def ordered_targets_def by (metis sorted_sort)


lemma sorted_map_strict:
  assumes "sorted xs" and "\<forall>a b. a \<le> b \<longrightarrow> f a \<le> f b" and "distinct (map f xs)"
  shows "sorted_wrt (<) (map f (xs :: 'a::linorder list) :: 'b::linorder list)"
  using assms(1,3)
proof (induction xs)
  case (Cons x xs)
  then have "\<forall>y \<in> set xs. f x \<le> f y \<and> f x \<noteq> f y" using assms(2) by (auto simp: image_iff)
  with Cons show ?case by (auto simp: less_le)
qed simp

lemma sorted_map_strict_down:
  assumes "sorted xs" and "\<forall>a b. a \<le> b \<longrightarrow> f b \<le> f a" and "distinct (map f xs)"
  shows "sorted_wrt (>) (map f (xs :: 'a::linorder list) :: 'b::linorder list)"
  using assms(1,3)
proof (induction xs)
  case (Cons x xs)
  then have "\<forall>y \<in> set xs. f y \<le> f x \<and> f y \<noteq> f x" using assms(2) by (auto simp: image_iff)
  with Cons show ?case by (auto simp: less_le)
qed simp

definition target_at :: "side \<Rightarrow> decimal option \<Rightarrow> decimal \<Rightarrow> decimal \<Rightarrow> decimal \<Rightarrow> decimal" where
  "target_at side tick entry distance m =
     (let t0 = d_add entry (d_mul (d_mul (side_sign side) distance) m)
      in case tick of None \<Rightarrow> t0 | Some t \<Rightarrow> tick_round (side = LONG) t t0)"

lemma dctx_mult_mono: "0 \<le> c \<Longrightarrow> a \<le> b \<Longrightarrow> dctx (c * a) \<le> dctx (c * b)"
  by (intro dctx_mono mult_left_mono)

lemma target_at_mono:
  assumes "0 \<le> distance" and "case tick of None \<Rightarrow> True | Some t \<Rightarrow> 0 < t" and "a \<le> b"
  shows "side = LONG \<Longrightarrow> target_at side tick entry distance a \<le> target_at side tick entry distance b"
    and "side = SHORT \<Longrightarrow> target_at side tick entry distance b \<le> target_at side tick entry distance a"
proof -
  have up: "d_add entry (d_mul (d_mul 1 distance) a) \<le> d_add entry (d_mul (d_mul 1 distance) b)"
    by (intro d_mono order_refl) (use assms in \<open>simp add: d_mul_def dctx_mult_mono dctx_nonneg\<close>)
  have down: "d_add entry (d_mul (d_mul (- 1) distance) b) \<le> d_add entry (d_mul (d_mul (- 1) distance) a)"
    by (intro d_mono order_refl) (use assms in \<open>simp add: d_mul_def dctx_minus dctx_mult_mono dctx_nonneg\<close>)
  show "side = LONG \<Longrightarrow> target_at side tick entry distance a \<le> target_at side tick entry distance b"
    using up assms(2) by (cases tick) (simp_all add: target_at_def side_sign_def tick_round_mono)
  show "side = SHORT \<Longrightarrow> target_at side tick entry distance b \<le> target_at side tick entry distance a"
    using down assms(2) by (cases tick) (simp_all add: target_at_def side_sign_def tick_round_mono)
qed

section \<open>Properties\<close>

text \<open>C20: The batch calculation of the features, one pass that carries the smoothed true range along, gives at
  every candle exactly the features the prefix calculation gives there, and no feature looks ahead: the
  features of the first candles are the same whatever candles follow.\<close>
theorem batch_features_are_prefix_features:
  assumes "validate_strategy s = Inr s'" and "causal_indicators technical"
  shows "(\<forall>i < length candles.
       strategy_feature_series technical s candles ! i = strategy_features technical s candles i)
    \<and> strategy_feature_series technical s (take n candles) = take n (strategy_feature_series technical s candles)"
proof -
  note v = valid_atr_period(2)[OF assms(1)]
  have "strategy_feature_series technical s candles ! i = strategy_features technical s candles i"
    if i: "i < length candles" for i
  proof (cases "required_technical_features s = []")
    case False
    let ?t = "technical (required_technical_features s)"
    have len: "length (?t candles) = length candles" and pre: "?t (take (Suc i) candles) = take (Suc i) (?t candles)"
      using assms(2) by (simp_all add: causal_indicators_def)
    have "last (?t (take (Suc i) candles)) = ?t candles ! i"
      unfolding pre using i len by (simp add: take_Suc_conv_app_nth[of i "?t candles"])
    with False i show ?thesis by (simp add: feature_series[OF v] strategy_features_def technical_feature_series_def)
  qed (use i in \<open>simp add: feature_series[OF v] strategy_features_def technical_feature_series_def dupdate_def\<close>)
  with feature_series_take[OF assms(2) v] show ?thesis by blast
qed

text \<open>The stop before the tick grid is on its side of the entry, and rounding to the grid keeps an entry that is on it.\<close>

lemma raw_stop_side:
  assumes "0 < volatility" "valid_rules rules" "dctx entry = entry"
  shows "if tr_direction rules = LONG
    then d_sub entry (d_mul (side_sign (tr_direction rules)) (d_mul volatility (tr_stop_volatility_multiple rules))) \<le> entry
    else entry \<le> d_sub entry (d_mul (side_sign (tr_direction rules)) (d_mul volatility (tr_stop_volatility_multiple rules)))"
proof -
  let ?dist = "d_mul volatility (tr_stop_volatility_multiple rules)"
  have v: "0 \<le> ?dist" using assms(1,2) by (simp add: valid_rules_def)
  have "dctx (entry - ?dist) \<le> dctx entry" "dctx entry \<le> dctx (entry + ?dist)"
    using v by (intro dctx_mono; simp)+
  then show ?thesis using assms(3) by (auto simp: side_sign_def d_sub_def d_mul_def dctx_minus)
qed

lemma tick_round_on_grid:
  assumes "0 < k" "entry = of_int j * k" "\<bar>j\<bar> < 10 ^ 28" "dctx entry = entry"
  shows "tick_round up k entry = entry"
proof -
  have "d_div entry k = of_int j" using assms(1) dctx_representable[OF assms(3), of 0] by (simp add: d_div_def assms(2))
  then show ?thesis using assms(2,4) by (simp add: tick_round_def d_mul_def)
qed

lemma targets_side:
  assumes "0 \<le> distance" "case tick of None \<Rightarrow> True | Some t \<Rightarrow> 0 < t" "target_at d tick entry distance 0 = entry"
    and "list_all (\<lambda>m. 0 < m) ms"
  shows "if d = LONG then list_all (\<lambda>t. entry \<le> t) (map (target_at d tick entry distance) ms)
    else list_all (\<lambda>t. t \<le> entry) (map (target_at d tick entry distance) ms)"
proof -
  have "if d = LONG then entry \<le> target_at d tick entry distance m else target_at d tick entry distance m \<le> entry"
    if "m \<in> set ms" for m
  proof -
    have "0 \<le> m" using assms(4) that by (auto simp: list_all_iff less_imp_le)
    then show ?thesis using target_at_mono[OF assms(1,2), of 0 m d entry] assms(3) by (cases d) auto
  qed
  then show ?thesis by (auto simp: list_all_iff)
qed


section \<open>Witnesses\<close>

definition demo_candle :: "int \<Rightarrow> decimal \<Rightarrow> candle" where
  "demo_candle t p = \<lparr>ca_observed_at = minutes t, ca_open = p, ca_high = p + 1, ca_low = p - 1, ca_close = p,
     ca_volume = 1\<rparr>"

definition demo_above :: "decimal \<Rightarrow> condition" where
  "demo_above level = \<lparr>cn_feature = ''close'', cn_operator = GT, cn_value = CvDec level\<rparr>"

definition demo_rules :: trade_rules where
  "demo_rules = \<lparr>tr_direction = LONG, tr_stop_volatility_multiple = 1, tr_take_profit_r_multiples = [1, 2]\<rparr>"

definition demo_strategy :: strategy_spec where
  "demo_strategy = \<lparr>ss_instruments = [''EURUSD''], ss_regimes = [], ss_entry = [demo_above 50],
     ss_confirmations = [], ss_filters = [], ss_exit = [demo_above 1000], ss_invalidation = [],
     ss_stop_loss = demo_above 1, ss_take_profit = [], ss_position_management = [], ss_sessions = [],
     ss_event_rules = [], ss_risk_per_trade = 1, ss_parameters = [(''atr_period'', 2)],
     ss_asset_class = None, ss_instrument_type = None, ss_venue_instrument_id = None,
     ss_specification_version_id = None, ss_futures_contract_id = None, ss_trade_rules = Some demo_rules\<rparr>"

definition no_indicators :: indicators where
  "no_indicators names candles = map (\<lambda>_. map (\<lambda>n. (n, 0)) names) candles"

lemma no_indicators_causal: "causal_indicators no_indicators"
  by (simp add: causal_indicators_def no_indicators_def take_map)

lemma demo_strategy_valid: "validate_strategy demo_strategy = Inr demo_strategy"
  by code_simp

theorem batch_features_are_prefix_features_witness:
  "strategy_feature_series no_indicators demo_strategy [demo_candle 0 100, demo_candle 1 102, demo_candle 2 101] ! 2
     = strategy_features no_indicators demo_strategy [demo_candle 0 100, demo_candle 1 102, demo_candle 2 101] 2"
  using batch_features_are_prefix_features[OF demo_strategy_valid no_indicators_causal,
      of "[demo_candle 0 100, demo_candle 1 102, demo_candle 2 101]"] by simp

lemma demo_levels: "protection_levels demo_rules 100 3 (Some (1 / 10)) = Inr (97, [103, 106])"
  by code_simp


end
