(* ===== verification/Simulation.thy ===== *)
theory Simulation
  imports Signals
begin

text \<open>
  The point-in-time simulation of \<open>modules/backtesting\<close>: the candle validation of \<open>engine.py\<close> and the next-bar
  simulation with protective stops and profit targets of \<open>protection.py\<close>.  What a run is measured by (the
  ledger, the account metrics, costs and promotion) is in \<open>Ledger\<close>.

  The two loops of the simulation are recursive functions over the index of the candle, with their
  termination proved.  Decimals are kept where the code stores their text, and an instant stands for
  its ISO text.
\<close>

section \<open>Configuration and candles\<close>

record backtest_configuration =
  cfg_initial_equity :: decimal
  cfg_spread :: decimal
  cfg_commission :: decimal
  cfg_slippage :: decimal
  cfg_tick_size :: "decimal option"
  cfg_max_daily_loss :: decimal
  cfg_max_total_loss :: decimal

definition valid_configuration :: "backtest_configuration \<Rightarrow> bool" where
  "valid_configuration c \<longleftrightarrow> 0 < cfg_initial_equity c \<and> 0 \<le> cfg_spread c \<and> 0 \<le> cfg_commission c
     \<and> 0 \<le> cfg_slippage c \<and> (case cfg_tick_size c of None \<Rightarrow> True | Some t \<Rightarrow> 0 < t)
     \<and> 0 < cfg_max_daily_loss c \<and> 0 < cfg_max_total_loss c"

definition candle_prices :: "candle \<Rightarrow> decimal list" where
  "candle_prices c = [ca_open c, ca_high c, ca_low c, ca_close c]"

fun check_candles :: "candle list \<Rightarrow> unit res" where
  "check_candles [] = Inr ()"
| "check_candles (c # cs) =
     rbind (ensure (list_all (\<lambda>p. 0 < p) (candle_prices c))
              (ValueError ''provider candles require positive finite OHLC prices'')) (\<lambda>_.
     rbind (ensure (\<not> (ca_high c < py_max (candle_prices c) \<or> py_min (candle_prices c) < ca_low c))
              (ValueError ''provider candle OHLC bounds are inconsistent'')) (\<lambda>_.
     check_candles cs))"

definition validate_candles :: "nat \<Rightarrow> candle list \<Rightarrow> unit res" where
  "validate_candles minimum candles =
     rbind (ensure (minimum \<le> length candles)
              (ValueError (''at least '' @ nat_str minimum @ '' chronological candles are required''))) (\<lambda>_.
     let timestamps = map ca_observed_at candles
     in rbind (ensure (timestamps = sort timestamps \<and> length (remdups timestamps) = length timestamps)
                 (ValueError ''provider candles must be strictly chronological'')) (\<lambda>_.
        check_candles candles))"

section \<open>The simulated position\<close>

datatype exit_reason = STOP_GAP | EXIT_SIGNAL | STOP_LOSS | TAKE_PROFIT nat | END_OF_HISTORY

record exit_fill =
  xf_price :: decimal
  xf_fraction :: decimal
  xf_reason :: exit_reason
  xf_observed_at :: timestamp

record entry_fill =
  ef_at :: timestamp
  ef_features :: features
  ef_price :: decimal
  ef_stop :: decimal
  ef_targets :: "decimal list"

record position_state =
  ps_remaining :: decimal
  ps_stop :: decimal
  ps_pnl :: decimal
  ps_exits :: "exit_fill list"
  ps_target_index :: nat
  ps_adverse :: decimal
  ps_favorable :: decimal

record simulation_env =
  sm_technical :: indicators
  sm_zone :: time_zones
  sm_calendar :: "calendar_event list option"
  sm_news_contexts :: "(timestamp, string) dict option"
  sm_allowed :: "timestamp list option"
  sm_close_at_end :: bool

definition entry_risk :: "entry_fill \<Rightarrow> decimal" where
  "entry_risk e = d_abs (d_sub (ef_price e) (ef_stop e))"

definition news_at :: "simulation_env \<Rightarrow> strategy_spec \<Rightarrow> timestamp \<Rightarrow> features" where
  "news_at env s t =
     news_features (hd (ss_instruments s)) t (sm_calendar env)
       (map_option (\<lambda>contexts. dget contexts t ''UNKNOWN'') (sm_news_contexts env))"

text \<open>The features of the bar before, with the news state of this one.\<close>

definition bar_features ::
    "simulation_env \<Rightarrow> strategy_spec \<Rightarrow> candle list \<Rightarrow> features list \<Rightarrow> nat \<Rightarrow> features" where
  "bar_features env s candles series index =
     dupdate (series ! (index - 1)) (news_at env s (ca_observed_at (candles ! index)))"

text \<open>\<open>while target_index < len(targets)\<close>: the targets this bar reaches, in order.\<close>

fun take_targets ::
    "side \<Rightarrow> candle \<Rightarrow> decimal \<Rightarrow> decimal list \<Rightarrow> nat \<Rightarrow> decimal \<Rightarrow>
     (decimal \<times> decimal \<times> exit_reason) list \<times> decimal \<times> nat" where
  "take_targets side candle fraction [] index available = ([], available, index)"
| "take_targets side candle fraction (target # rest) index available =
     (if (if side = LONG then target \<le> ca_high candle else ca_low candle \<le> target)
      then let size = (if rest = [] then available else min fraction available);
               (fills, left, next) = take_targets side candle fraction rest (index + 1) (d_sub available size)
           in ((target, size, TAKE_PROFIT index) # fills, left, next)
      else ([], available, index))"

definition bar_fills ::
    "strategy_spec \<Rightarrow> side \<Rightarrow> entry_fill \<Rightarrow> candle \<Rightarrow> features \<Rightarrow> bool \<Rightarrow> position_state \<Rightarrow>
     (decimal \<times> decimal \<times> exit_reason) list \<times> nat" where
  "bar_fills s side e candle previous at_end st =
     (let sign = side_sign side; fraction = d_div 1 (of_nat (length (ef_targets e))) in
      if d_mul (d_sub (ca_open candle) (ps_stop st)) sign \<le> 0
      then ([(ca_open candle, ps_remaining st, STOP_GAP)], ps_target_index st)
      else if ca_observed_at candle \<noteq> ef_at e
              \<and> (matches (ss_exit s) previous \<or> matches (ss_invalidation s) previous)
      then ([(ca_open candle, ps_remaining st, EXIT_SIGNAL)], ps_target_index st)
      else if (if side = LONG then ca_low candle \<le> ps_stop st else ps_stop st \<le> ca_high candle)
      then ([(ps_stop st, ps_remaining st, STOP_LOSS)], ps_target_index st)
      else
        (let (fills, available, next) = take_targets side candle fraction (drop (ps_target_index st) (ef_targets e))
                                          (ps_target_index st) (ps_remaining st)
         in (fills @ (if at_end \<and> 0 < available then [(ca_close candle, available, END_OF_HISTORY)] else []),
             next)))"

definition apply_fill ::
    "backtest_configuration \<Rightarrow> side \<Rightarrow> entry_fill \<Rightarrow> candle \<Rightarrow> decimal \<times> decimal \<times> exit_reason \<Rightarrow>
     position_state \<Rightarrow> position_state" where
  "apply_fill cfg side e candle fill st =
     (let (raw_price, size, reason) = fill;
          price = d_sub raw_price (d_mul (side_sign side) (cfg_slippage cfg))
      in st\<lparr>ps_pnl := d_add (ps_pnl st) (d_mul (d_mul (side_sign side) (d_sub price (ef_price e))) size),
            ps_remaining := d_sub (ps_remaining st) size,
            ps_exits := ps_exits st @ [\<lparr>xf_price = price, xf_fraction = size, xf_reason = reason,
                                        xf_observed_at = ca_observed_at candle\<rparr>]\<rparr>)"

text \<open>The stop of what is left: to break-even after a target, and trailing the close.\<close>

definition move_stop :: "strategy_spec \<Rightarrow> side \<Rightarrow> entry_fill \<Rightarrow> candle \<Rightarrow> position_state \<Rightarrow> position_state" where
  "move_stop s side e candle st =
     (let better = (if side = LONG then max else min);
          stop1 = (if ps_target_index st \<noteq> 0
                      \<and> setting_truthy (map_of (ss_position_management s) ''move_to_break_even'')
                   then better (ps_stop st) (ef_price e) else ps_stop st);
          trailing = d_sub (ca_close candle) (d_mul (side_sign side) (entry_risk e));
          stop2 = (if setting_truthy (map_of (ss_position_management s) ''trailing_stop'')
                   then better stop1 trailing else stop1)
      in if 0 < ps_remaining st then st\<lparr>ps_stop := stop2\<rparr> else st)"

definition excursion :: "side \<Rightarrow> entry_fill \<Rightarrow> candle \<Rightarrow> position_state \<Rightarrow> position_state" where
  "excursion side e candle st =
     (let sign = side_sign side;
          worst = (if side = LONG then ca_low candle else ca_high candle);
          best = (if side = LONG then ca_high candle else ca_low candle)
      in st\<lparr>ps_adverse := max (ps_adverse st) (d_mul (d_sub (ef_price e) worst) sign),
            ps_favorable := max (ps_favorable st) (d_mul (d_sub best (ef_price e)) sign)\<rparr>)"

definition bar_step ::
    "simulation_env \<Rightarrow> strategy_spec \<Rightarrow> backtest_configuration \<Rightarrow> side \<Rightarrow> candle list \<Rightarrow> features list \<Rightarrow>
     entry_fill \<Rightarrow> nat \<Rightarrow> position_state \<Rightarrow> position_state" where
  "bar_step env s cfg side candles series e index st =
     (let candle = candles ! index; st1 = excursion side e candle st;
          (fills, reached) = bar_fills s side e candle (bar_features env s candles series index)
                               (sm_close_at_end env \<and> index = length candles - 1) st1
      in move_stop s side e candle (fold (apply_fill cfg side e candle) fills (st1\<lparr>ps_target_index := reached\<rparr>)))"

function hold_position ::
    "simulation_env \<Rightarrow> strategy_spec \<Rightarrow> backtest_configuration \<Rightarrow> side \<Rightarrow> candle list \<Rightarrow> features list \<Rightarrow>
     entry_fill \<Rightarrow> nat \<Rightarrow> position_state \<Rightarrow> nat \<times> position_state" where
  "hold_position env s cfg side candles series e index st =
     (if index < length candles \<and> 0 < ps_remaining st
      then hold_position env s cfg side candles series e (index + 1)
             (bar_step env s cfg side candles series e index st)
      else (index, st))"
  by pat_completeness auto
termination
  by (relation "measure (\<lambda>(env, s, cfg, side, candles, series, e, index, st). length candles - index)") auto

declare hold_position.simps [simp del]

lemma hold_progress:
  "hold_position env s cfg side candles series e index st = (next, st') \<Longrightarrow> index \<le> next"
proof (induction env s cfg side candles series e index st rule: hold_position.induct)
  case (1 env s cfg side candles series e index st)
  show ?case
  proof (cases "index < length candles \<and> 0 < ps_remaining st")
    case True
    with 1(2) have "hold_position env s cfg side candles series e (index + 1)
        (bar_step env s cfg side candles series e index st) = (next, st')"
      by (subst (asm) hold_position.simps) simp
    from 1(1)[OF True this] show ?thesis by simp
  qed (use 1(2) in \<open>subst (asm) hold_position.simps, auto\<close>)
qed

lemma hold_advances:
  assumes "hold_position env s cfg side candles series e index st = (next, st')"
    and "index < length candles" and "0 < ps_remaining st"
  shows "index < next"
  using assms hold_progress by (subst (asm) hold_position.simps) (fastforce simp: Suc_le_eq)

section \<open>The simulation\<close>

record simulated_trade =
  sx_entered_at :: timestamp
  sx_exited_at :: timestamp
  sx_direction :: side
  sx_entry :: decimal
  sx_stop_loss :: decimal
  sx_take_profits :: "decimal list"
  sx_exits :: "exit_fill list"
  sx_pnl :: decimal
  sx_risk :: decimal
  sx_r :: decimal
  sx_regime :: string
  sx_news_regime :: string

record trade_result =
  tl_pnl :: decimal
  tl_risk :: decimal
  tl_mae :: decimal
  tl_mfe :: decimal

record open_position =
  op_entered_at :: timestamp
  op_entry :: decimal
  op_stop_loss :: decimal
  op_left :: decimal
  op_take_profits :: "decimal list"
  op_exits :: "exit_fill list"

record simulation =
  si_trades :: "trade_result list"
  si_attribution :: "simulated_trade list"
  si_costs :: decimal
  si_open :: "open_position option"

definition no_trades :: simulation where
  "no_trades = \<lparr>si_trades = [], si_attribution = [], si_costs = 0, si_open = None\<rparr>"

text \<open>The decision at a bar: the features are those of the bar before it, the price is its open.\<close>

definition entry_at ::
    "simulation_env \<Rightarrow> strategy_spec \<Rightarrow> trade_rules \<Rightarrow> backtest_configuration \<Rightarrow> candle list \<Rightarrow>
     features list \<Rightarrow> nat \<Rightarrow> entry_fill option res" where
  "entry_at env s rules cfg candles series index =
     (let candle = candles ! index; t = ca_observed_at candle in
      if (case sm_allowed env of None \<Rightarrow> False | Some moments \<Rightarrow> t \<notin> set moments) then Inr None
      else
        let f = bar_features env s candles series index in
        rbind (if sm_allowed env = None then entry_context_reason (sm_zone env) s t (sm_calendar env)
               else Inr None) (\<lambda>reason.
        if reason \<noteq> None then Inr None
        else
          rbind (entry_matches s f) (\<lambda>ok.
          if \<not> ok then Inr None
          else
            let price = d_add (ca_open candle) (d_mul (side_sign (tr_direction rules)) (cfg_slippage cfg)) in
            rbind (feature f ''volatility'') (\<lambda>volatility.
            case protection_levels rules price volatility (cfg_tick_size cfg) of
              Inl err \<Rightarrow> if is_value_error err then Inr None else Inl err
            | Inr (stop, targets) \<Rightarrow>
                Inr (Some \<lparr>ef_at = t, ef_features = f, ef_price = price, ef_stop = stop,
                           ef_targets = targets\<rparr>)))))"

definition opened :: "entry_fill \<Rightarrow> position_state" where
  "opened e = \<lparr>ps_remaining = 1, ps_stop = ef_stop e, ps_pnl = 0, ps_exits = [], ps_target_index = 0,
     ps_adverse = 0, ps_favorable = 0\<rparr>"

definition close_trade ::
    "backtest_configuration \<Rightarrow> side \<Rightarrow> entry_fill \<Rightarrow> position_state \<Rightarrow> simulation \<Rightarrow> simulation res" where
  "close_trade cfg side e st acc =
     (let fixed = d_add (cfg_spread cfg) (cfg_commission cfg);
          pnl = d_sub (ps_pnl st) fixed; risk = entry_risk e in
      rbind (d_divide pnl risk) (\<lambda>r.
      rbind (regime_from_features (ef_features e)) (\<lambda>regime.
      rbind (regime_key regime) (\<lambda>key.
      Inr (acc\<lparr>si_trades := si_trades acc @ [\<lparr>tl_pnl = pnl, tl_risk = risk, tl_mae = max (ps_adverse st) 0,
                                             tl_mfe = max (ps_favorable st) 0\<rparr>],
               si_attribution := si_attribution acc @
                 [\<lparr>sx_entered_at = ef_at e, sx_exited_at = xf_observed_at (last (ps_exits st)),
                   sx_direction = side, sx_entry = ef_price e, sx_stop_loss = ef_stop e,
                   sx_take_profits = ef_targets e, sx_exits = ps_exits st, sx_pnl = pnl, sx_risk = risk,
                   sx_r = r, sx_regime = key, sx_news_regime = dget regime ''news'' ''UNKNOWN''\<rparr>],
               si_costs := d_add (si_costs acc) (d_add fixed (d_mul 2 (cfg_slippage cfg)))\<rparr>)))))"

function simulate_from ::
    "simulation_env \<Rightarrow> strategy_spec \<Rightarrow> trade_rules \<Rightarrow> backtest_configuration \<Rightarrow> candle list \<Rightarrow>
     features list \<Rightarrow> nat \<Rightarrow> simulation \<Rightarrow> simulation res" where
  "simulate_from env s rules cfg candles series index acc =
     (if length candles \<le> index then Inr acc
      else
        rbind (entry_at env s rules cfg candles series index) (\<lambda>entry.
        case entry of
          None \<Rightarrow> simulate_from env s rules cfg candles series (index + 1) acc
        | Some e \<Rightarrow>
            (case hold_position env s cfg (tr_direction rules) candles series e index (opened e) of
               (next, st) \<Rightarrow>
                 if 0 < ps_remaining st
                 then Inr (acc\<lparr>si_open := Some \<lparr>op_entered_at = ef_at e, op_entry = ef_price e,
                        op_stop_loss = ps_stop st, op_left = ps_remaining st, op_take_profits = ef_targets e,
                        op_exits = ps_exits st\<rparr>\<rparr>)
                 else
                   rbind (close_trade cfg (tr_direction rules) e st acc)
                     (simulate_from env s rules cfg candles series next))))"
  by pat_completeness auto
termination
  by (relation "measure (\<lambda>(env, s, rules, cfg, candles, series, index, acc). length candles - index)")
     (auto dest!: sym[THEN hold_advances] simp: opened_def)

declare simulate_from.simps [simp del]

definition simulate_protected_trades ::
    "simulation_env \<Rightarrow> strategy_spec \<Rightarrow> candle list \<Rightarrow> backtest_configuration \<Rightarrow> simulation res" where
  "simulate_protected_trades env s candles cfg =
     rbind (required (ss_trade_rules s) (ValueError ''price protection rules are required'')) (\<lambda>rules.
     simulate_from env s rules cfg candles (strategy_feature_series (sm_technical env) s candles) 2 no_trades)"

section \<open>Induction over the loops\<close>

lemma hold_invariant:
  assumes "hold_position env s cfg side candles series e index st = (nxt, st')" and "P index st"
    and "\<And>k q. k < length candles \<Longrightarrow> 0 < ps_remaining q \<Longrightarrow> P k q \<Longrightarrow>
          P (k + 1) (bar_step env s cfg side candles series e k q)"
  shows "P nxt st' \<and> \<not> (nxt < length candles \<and> 0 < ps_remaining st')"
  using assms
proof (induction env s cfg side candles series e index st rule: hold_position.induct)
  case (1 env s cfg side candles series e index st)
  show ?case
  proof (cases "index < length candles \<and> 0 < ps_remaining st")
    case True
    with 1(2) have "hold_position env s cfg side candles series e (index + 1)
        (bar_step env s cfg side candles series e index st) = (nxt, st')"
      by (subst (asm) hold_position.simps) simp
    from 1(1)[OF True this] True 1(3,4) show ?thesis by blast
  next
    case False
    with 1(2) have "nxt = index" "st' = st" by (subst (asm) hold_position.simps, auto)+
    with False 1(3) show ?thesis by simp
  qed
qed

lemma simulate_invariant:
  assumes "simulate_from env s rules cfg candles series index acc = Inr r" and "P index acc"
    and "\<And>k a. k < length candles \<Longrightarrow> P k a \<Longrightarrow> P (k + 1) a"
    and "\<And>k a e nxt st a'. k < length candles \<Longrightarrow> P k a \<Longrightarrow> entry_at env s rules cfg candles series k = Inr (Some e) \<Longrightarrow>
        hold_position env s cfg (tr_direction rules) candles series e k (opened e) = (nxt, st) \<Longrightarrow>
        \<not> 0 < ps_remaining st \<Longrightarrow> close_trade cfg (tr_direction rules) e st a = Inr a' \<Longrightarrow> P nxt a'"
    and "\<And>k a x. P k a \<Longrightarrow> P k (a\<lparr>si_open := x\<rparr>)"
  shows "\<exists>k. P k r"
  using assms
proof (induction env s rules cfg candles series index acc rule: simulate_from.induct)
  case (1 env s rules cfg candles series index acc)
  show ?case
  proof (cases "length candles \<le> index")
    case True
    with 1(3,4) show ?thesis by (subst (asm) simulate_from.simps) auto
  next
    case False
    with 1(3) obtain entry where entry: "entry_at env s rules cfg candles series index = Inr entry"
      by (subst (asm) simulate_from.simps) auto
    show ?thesis
    proof (cases entry)
      case None
      with 1(3) False entry have "simulate_from env s rules cfg candles series (index + 1) acc = Inr r"
        by (subst (asm) simulate_from.simps) auto
      from False 1(4,5) have "P (index + 1) acc" by simp
      from 1(1)[OF False entry None \<open>simulate_from env s rules cfg candles series (index + 1) acc = Inr r\<close> this 1(5-7)]
      show ?thesis .
    next
      case (Some e)
      obtain nxt st where h: "hold_position env s cfg (tr_direction rules) candles series e index (opened e) = (nxt, st)"
        by fastforce
      show ?thesis
      proof (cases "0 < ps_remaining st")
        case True
        with 1(3) False entry Some h obtain x where "r = acc\<lparr>si_open := x\<rparr>"
          by (subst (asm) simulate_from.simps) auto
        with 1(4,7) show ?thesis by blast
      next
        case rem: False
        with 1(3) False entry Some h obtain acc' where
          c: "close_trade cfg (tr_direction rules) e st acc = Inr acc'"
          and r: "simulate_from env s rules cfg candles series nxt acc' = Inr r"
          by (subst (asm) simulate_from.simps) auto
        have "P nxt acc'" by (rule 1(6)[OF _ 1(4) _ h rem c]) (use False entry Some in auto)
        from 1(2)[OF False entry Some h[symmetric] rem c r this 1(5-7)] show ?thesis .
      qed
    qed
  qed
qed

section \<open>Fractions\<close>

text \<open>Fractions of a position are multiples of ten to the power of minus 28 between 0 and 1; their differences
  are exact.\<close>

definition unit28 :: "decimal \<Rightarrow> bool" where
  "unit28 x \<longleftrightarrow> 0 \<le> x \<and> x \<le> 1 \<and> x * 10 ^ 28 \<in> \<int>"

lemma unit28_exact: "unit28 x \<Longrightarrow> dctx x = x"
proof (cases "x = 1")
  case False
  assume u: "unit28 x"
  then obtain c where c: "x * 10 ^ 28 = of_int c" unfolding unit28_def Ints_def by blast
  have x: "x = of_int c * 10 powi (- 28)" using c by (simp add: power_int_minus field_simps)
  have "0 \<le> x" "x < 1" using u False by (auto simp: unit28_def)
  then have "0 \<le> (of_int c :: rat)" "(of_int c :: rat) < of_int (10 ^ 28)" unfolding c[symmetric] by simp_all
  then have "\<bar>c\<bar> < 10 ^ 28" by (simp only: of_int_0_le_iff of_int_less_iff)
  then show ?thesis unfolding x by (rule dctx_representable)
qed (simp add: dec8_numeral)

lemma unit28_sub:
  assumes "unit28 a" and "unit28 b" and "b \<le> a"
  shows "d_sub a b = a - b" and "unit28 (a - b)"
proof -
  show u: "unit28 (a - b)" using assms by (auto simp: unit28_def left_diff_distrib)
  show "d_sub a b = a - b" using unit28_exact[OF u] by (simp add: d_sub_def)
qed

lemma unit28_one: "unit28 1" and unit28_zero: "unit28 0"
  by (simp_all add: unit28_def)

lemma unit28_min: "unit28 a \<Longrightarrow> unit28 b \<Longrightarrow> unit28 (min a b)"
  by (simp add: min_def)

lemma unit28_of_int: "x = of_int k / 10 ^ 28 \<Longrightarrow> 0 \<le> k \<Longrightarrow> k \<le> 10 ^ 28 \<Longrightarrow> unit28 x"
  by (simp add: unit28_def)

lemma unit28_fraction:
  assumes "1 \<le> n" and "n \<le> 5"
  shows "unit28 (d_div 1 (of_nat n))"
proof -
  have "unit28 (d_div 1 1)" by (rule unit28_of_int[of _ "10 ^ 28"]; code_simp)
  moreover have "unit28 (d_div 1 2)" by (rule unit28_of_int[of _ "5 * 10 ^ 27"]; code_simp)
  moreover have "unit28 (d_div 1 3)" by (rule unit28_of_int[of _ 3333333333333333333333333333]; code_simp)
  moreover have "unit28 (d_div 1 4)" by (rule unit28_of_int[of _ "25 * 10 ^ 26"]; code_simp)
  moreover have "unit28 (d_div 1 5)" by (rule unit28_of_int[of _ "2 * 10 ^ 27"]; code_simp)
  moreover have "n \<in> {1, 2, 3, 4, 5}" using assms by auto
  ultimately show ?thesis by (elim insertE) (simp_all only: of_nat_numeral of_nat_1 empty_iff)
qed

definition sizes :: "(decimal \<times> decimal \<times> exit_reason) list \<Rightarrow> decimal list" where
  "sizes fills = map (\<lambda>(p, q, r). q) fills"

lemma sizes_simps [simp]: "sizes [] = []" "sizes ((p, q, r) # fs) = q # sizes fs" "sizes (xs @ ys) = sizes xs @ sizes ys"
  by (simp_all add: sizes_def)

lemma take_targets_sizes:
  assumes "take_targets side c fraction ts i available = (fills, left, nxt)" and "unit28 fraction" "unit28 available"
  shows "unit28 left \<and> list_all unit28 (sizes fills) \<and> sum_list (sizes fills) + left = available"
  using assms
proof (induction ts arbitrary: i available fills left nxt)
  case (Cons t ts)
  let ?size = "if ts = [] then available else min fraction available"
  have u: "unit28 ?size" "?size \<le> available" using Cons.prems by (simp_all add: unit28_min)
  note sub = unit28_sub[OF Cons.prems(3) u]
  show ?case
  proof (cases "if side = LONG then t \<le> ca_high c else ca_low c \<le> t")
    case True
    obtain fs l n where r: "take_targets side c fraction ts (i + 1) (d_sub available ?size) = (fs, l, n)"
      by (metis prod_cases3)
    from Cons.IH[OF this Cons.prems(2)] sub have "unit28 l \<and> list_all unit28 (sizes fs)
        \<and> sum_list (sizes fs) + l = available - ?size" by simp
    moreover have "fills = (t, ?size, TAKE_PROFIT i) # fs" "left = l"
      using Cons.prems(1) unfolding take_targets.simps if_P[OF True]
      by (simp_all only: Let_def r prod.case prod.inject)
    ultimately show ?thesis using u(1) by simp
  qed (use Cons.prems in auto)
qed simp

lemma bar_fills_sizes:
  assumes "bar_fills s side e c f at_end st = (fills, nxt)" and "unit28 (ps_remaining st)"
    and "1 \<le> length (ef_targets e)" "length (ef_targets e) \<le> 5"
  shows "list_all unit28 (sizes fills) \<and> sum_list (sizes fills) \<le> ps_remaining st"
proof -
  obtain fs l n where r: "take_targets side c (d_div 1 (of_nat (length (ef_targets e)))) (drop (ps_target_index st) (ef_targets e))
      (ps_target_index st) (ps_remaining st) = (fs, l, n)" by (metis prod_cases3)
  note t = take_targets_sizes[OF r unit28_fraction[OF assms(3,4)] assms(2)]
  have "0 \<le> l" using t by (simp add: unit28_def)
  with assms(1,2) r t show ?thesis
    by (auto simp: bar_fills_def Let_def split: if_splits)
qed

section \<open>What a bar does to a position\<close>

definition fill_exit ::
    "backtest_configuration \<Rightarrow> side \<Rightarrow> candle \<Rightarrow> decimal \<times> decimal \<times> exit_reason \<Rightarrow> exit_fill" where
  "fill_exit cfg side candle fill =
     (case fill of (raw_price, part, reason) \<Rightarrow>
        \<lparr>xf_price = d_sub raw_price (d_mul (side_sign side) (cfg_slippage cfg)), xf_fraction = part,
         xf_reason = reason, xf_observed_at = ca_observed_at candle\<rparr>)"

text \<open>The profit of a position, recomputed from its exits.\<close>

definition add_exit :: "side \<Rightarrow> decimal \<Rightarrow> exit_fill \<Rightarrow> decimal \<Rightarrow> decimal" where
  "add_exit side price x pnl =
     d_add pnl (d_mul (d_mul (side_sign side) (d_sub (xf_price x) price)) (xf_fraction x))"

definition exits_pnl :: "side \<Rightarrow> decimal \<Rightarrow> exit_fill list \<Rightarrow> decimal" where
  "exits_pnl side price exits = fold (add_exit side price) exits 0"

lemma exits_pnl_append: "exits_pnl side price (xs @ ys) = fold (add_exit side price) ys (exits_pnl side price xs)"
  by (simp add: exits_pnl_def)

lemma apply_fill_fields [simp]:
  "ps_exits (apply_fill cfg side e c fill st) = ps_exits st @ [fill_exit cfg side c fill]"
  "ps_stop (apply_fill cfg side e c fill st) = ps_stop st"
  "ps_pnl (apply_fill cfg side e c fill st) = add_exit side (ef_price e) (fill_exit cfg side c fill) (ps_pnl st)"
  "ps_remaining (apply_fill cfg side e c fill st) = d_sub (ps_remaining st) (fst (snd fill))"
  by (cases fill; simp add: apply_fill_def fill_exit_def add_exit_def Let_def)+

lemma fold_fills:
  "ps_exits (fold (apply_fill cfg side e c) fills st) = ps_exits st @ map (fill_exit cfg side c) fills"
  "ps_stop (fold (apply_fill cfg side e c) fills st) = ps_stop st"
  "ps_pnl (fold (apply_fill cfg side e c) fills st)
     = fold (add_exit side (ef_price e)) (map (fill_exit cfg side c) fills) (ps_pnl st)"
  by (induction fills arbitrary: st) simp_all

lemma unit28_sum: "list_all unit28 xs \<Longrightarrow> sum_list xs \<le> 1 \<Longrightarrow> unit28 (sum_list xs) \<and> 0 \<le> sum_list xs"
proof (induction xs)
  case (Cons x xs)
  have "0 \<le> sum_list xs" using Cons.prems(1) by (intro sum_list_nonneg) (auto simp: list_all_iff unit28_def)
  with Cons show ?case by (auto simp: unit28_def distrib_right)
qed (simp add: unit28_zero)

lemma fold_fills_remaining:
  assumes "unit28 (ps_remaining st)" and "list_all unit28 (sizes fills)"
    and "sum_list (sizes fills) \<le> ps_remaining st"
  shows "ps_remaining (fold (apply_fill cfg side e c) fills st) = ps_remaining st - sum_list (sizes fills)"
  using assms
proof (induction fills arbitrary: st)
  case (Cons fill fills)
  obtain p q r where f: "fill = (p, q, r)" by (cases fill)
  have nn: "0 \<le> sum_list (sizes fills)" using Cons.prems(2)
    by (intro sum_list_nonneg) (auto simp: f list_all_iff unit28_def)
  with Cons.prems have q: "unit28 q" "q \<le> ps_remaining st" by (auto simp: f)
  note sub = unit28_sub[OF Cons.prems(1) q]
  have "ps_remaining (apply_fill cfg side e c fill st) = ps_remaining st - q" using sub(1) by (simp add: f)
  with Cons.IH[of "apply_fill cfg side e c fill st"] Cons.prems sub(2) show ?case by (simp add: f)
qed simp

lemma excursion_fields [simp]:
  "ps_exits (excursion side e c st) = ps_exits st" "ps_stop (excursion side e c st) = ps_stop st"
  "ps_pnl (excursion side e c st) = ps_pnl st" "ps_remaining (excursion side e c st) = ps_remaining st"
  by (simp_all add: excursion_def Let_def)

lemma fill_exit_fields [simp]:
  "xf_observed_at (fill_exit cfg side c fill) = ca_observed_at c"
  "xf_fraction (fill_exit cfg side c fill) = fst (snd fill)"
  "xf_reason (fill_exit cfg side c fill) = snd (snd fill)"
  "xf_price (fill_exit cfg side c fill) = d_sub (fst fill) (d_mul (side_sign side) (cfg_slippage cfg))"
  by (cases fill; simp add: fill_exit_def)+

lemma sum_fractions: "sum_list (map xf_fraction (map (fill_exit cfg side c) fills)) = sum_list (sizes fills)"
  by (induction fills) (auto simp: sizes_def)

text \<open>A stop is no worse than another when it is nearer the winning side.\<close>

definition no_worse :: "side \<Rightarrow> decimal \<Rightarrow> decimal \<Rightarrow> bool" where
  "no_worse side a b \<longleftrightarrow> (if side = LONG then a \<le> b else b \<le> a)"

lemma no_worse_trans [trans]: "no_worse side a b \<Longrightarrow> no_worse side b c \<Longrightarrow> no_worse side a c"
  by (auto simp: no_worse_def split: if_splits)

lemma move_stop_fields [simp]:
  "ps_exits (move_stop s side e c st) = ps_exits st" "ps_remaining (move_stop s side e c st) = ps_remaining st"
  "ps_pnl (move_stop s side e c st) = ps_pnl st" "no_worse side (ps_stop st) (ps_stop (move_stop s side e c st))"
  by (auto simp: move_stop_def no_worse_def Let_def)

text \<open>Stop fills are at the stop in force, and every fill of a bar is for what remains.\<close>

lemma take_targets_reasons:
  "take_targets side c fraction ts i available = (fills, left, nxt) \<Longrightarrow> (p, q, r) \<in> set fills \<Longrightarrow> r \<noteq> STOP_LOSS"
proof (induction ts arbitrary: i available fills left nxt)
  case (Cons t ts)
  obtain fs l n where r: "take_targets side c fraction ts (i + 1)
      (d_sub available (if ts = [] then available else min fraction available)) = (fs, l, n)" by (metis prod_cases3)
  from Cons.prems show ?case
    using Cons.IH[OF r] unfolding take_targets.simps Let_def r by (auto split: if_splits)
qed simp

lemma bar_fills_stop:
  "bar_fills s side e c f at_end st = (fills, nxt) \<Longrightarrow> (p, q, STOP_LOSS) \<in> set fills \<Longrightarrow> p = ps_stop st"
proof -
  assume b: "bar_fills s side e c f at_end st = (fills, nxt)" "(p, q, STOP_LOSS) \<in> set fills"
  obtain fs l n where r: "take_targets side c (d_div 1 (of_nat (length (ef_targets e)))) (drop (ps_target_index st) (ef_targets e))
      (ps_target_index st) (ps_remaining st) = (fs, l, n)" by (metis prod_cases3)
  from b r take_targets_reasons[OF r, of p q STOP_LOSS] show ?thesis
    by (auto simp: bar_fills_def Let_def split: if_splits)
qed

definition position_ok ::
    "backtest_configuration \<Rightarrow> side \<Rightarrow> entry_fill \<Rightarrow> candle list \<Rightarrow> nat \<Rightarrow> nat \<Rightarrow> position_state \<Rightarrow> bool" where
  "position_ok cfg side e candles start index st \<longleftrightarrow>
     unit28 (ps_remaining st) \<and> sum_list (map xf_fraction (ps_exits st)) + ps_remaining st = 1
     \<and> (\<forall>x \<in> set (ps_exits st). 0 \<le> xf_fraction x
          \<and> (\<exists>k. start \<le> k \<and> k < index \<and> k < length candles \<and> xf_observed_at x = ca_observed_at (candles ! k))
          \<and> (xf_reason x = STOP_LOSS \<longrightarrow>
               no_worse side (d_sub (ef_stop e) (d_mul (side_sign side) (cfg_slippage cfg))) (xf_price x)))
     \<and> no_worse side (ef_stop e) (ps_stop st)
     \<and> ps_pnl st = exits_pnl side (ef_price e) (ps_exits st)
     \<and> (\<not> 0 < ps_remaining st \<longrightarrow> ps_exits st \<noteq> []
          \<and> xf_observed_at (last (ps_exits st)) = ca_observed_at (candles ! (index - 1)) \<and> start < index)
     \<and> start \<le> index"

lemma bar_step_ok:
  assumes "index < length candles" and "0 < ps_remaining st" and "position_ok cfg side e candles start index st"
    and "1 \<le> length (ef_targets e)" "length (ef_targets e) \<le> 5"
  shows "position_ok cfg side e candles start (index + 1) (bar_step env s cfg side candles series e index st)"
proof -
  let ?c = "candles ! index"
  let ?st1 = "excursion side e ?c st"
  obtain fills nxt where b: "bar_fills s side e ?c (bar_features env s candles series index)
      (sm_close_at_end env \<and> index = length candles - 1) ?st1 = (fills, nxt)" by fastforce
  let ?st2 = "fold (apply_fill cfg side e ?c) fills (?st1\<lparr>ps_target_index := nxt\<rparr>)"
  have step: "bar_step env s cfg side candles series e index st = move_stop s side e ?c ?st2"
    unfolding bar_step_def Let_def b by simp
  have u: "unit28 (ps_remaining st)" using assms(3) by (simp add: position_ok_def)
  have sz: "list_all unit28 (sizes fills)" "sum_list (sizes fills) \<le> ps_remaining st"
    using bar_fills_sizes[OF b _ assms(4,5)] u by simp_all
  have "sum_list (sizes fills) \<le> 1" using sz(2) u by (simp add: unit28_def)
  then have us: "unit28 (sum_list (sizes fills))" using unit28_sum[OF sz(1)] by simp
  have rem: "ps_remaining ?st2 = ps_remaining st - sum_list (sizes fills)"
    using fold_fills_remaining[of "?st1\<lparr>ps_target_index := nxt\<rparr>" fills cfg side e ?c] sz u by simp
  then have urem: "unit28 (ps_remaining ?st2)" using unit28_sub(2)[OF u us sz(2)] by simp
  have stop: "no_worse side (ef_stop e) (ps_stop st)" using assms(3) by (simp add: position_ok_def)
  have price: "no_worse side (d_sub (ef_stop e) v) (d_sub (ps_stop st) v)" for v
    using stop by (auto simp: no_worse_def intro: d_mono)
  have exits: "ps_exits (bar_step env s cfg side candles series e index st)
      = ps_exits st @ map (fill_exit cfg side ?c) fills"
    by (simp add: step fold_fills)
  have new: "0 \<le> xf_fraction x \<and> xf_observed_at x = ca_observed_at ?c
      \<and> (xf_reason x = STOP_LOSS \<longrightarrow> no_worse side (d_sub (ef_stop e) (d_mul (side_sign side) (cfg_slippage cfg))) (xf_price x))"
    if "x \<in> set (map (fill_exit cfg side ?c) fills)" for x
  proof -
    from that obtain p q r where f: "(p, q, r) \<in> set fills" "x = fill_exit cfg side ?c (p, q, r)" by auto
    have "0 \<le> q" using sz(1) f(1) by (auto simp: sizes_def list_all_iff unit28_def)
    with f bar_fills_stop[OF b, of p q] price show ?thesis by auto
  qed
  let ?st = "bar_step env s cfg side candles series e index st"
  have better: "no_worse side (ef_stop e) (ps_stop ?st)"
    by (rule no_worse_trans[OF stop]) (use move_stop_fields(4)[of side ?st2 s e ?c] in \<open>simp add: step fold_fills\<close>)
  have fields: "ps_remaining ?st = ps_remaining st - sum_list (sizes fills)" "unit28 (ps_remaining ?st)"
    "ps_pnl ?st = exits_pnl side (ef_price e) (ps_exits ?st)"
    using rem urem assms(3) by (simp_all add: step fold_fills position_ok_def exits_pnl_append)
  have total: "sum_list (map xf_fraction (ps_exits ?st)) + ps_remaining ?st = 1"
    using assms(3) fields(1) sum_fractions[of cfg side ?c fills] unfolding exits
    by (simp add: position_ok_def del: map_map)
  have past: "\<exists>k. start \<le> k \<and> k < index + 1 \<and> k < length candles \<and> xf_observed_at x = ca_observed_at (candles ! k)"
    if "x \<in> set (ps_exits ?st)" for x
  proof (cases "x \<in> set (ps_exits st)")
    case True
    with assms(3) show ?thesis unfolding position_ok_def by (meson less_SucI less_add_one less_trans)
  next
    case False
    with that have "x \<in> set (map (fill_exit cfg side ?c) fills)" unfolding exits by auto
    with new assms(1,3) show ?thesis by (intro exI[of _ index]) (auto simp: position_ok_def)
  qed
  have others: "0 \<le> xf_fraction x \<and> (xf_reason x = STOP_LOSS \<longrightarrow>
      no_worse side (d_sub (ef_stop e) (d_mul (side_sign side) (cfg_slippage cfg))) (xf_price x))"
    if "x \<in> set (ps_exits ?st)" for x
    using that new assms(3) unfolding exits position_ok_def by (metis UnE set_append)
  have final: "ps_exits ?st \<noteq> [] \<and> xf_observed_at (last (ps_exits ?st)) = ca_observed_at ?c" if "\<not> 0 < ps_remaining ?st"
  proof -
    have "fills \<noteq> []" using that fields(1) assms(2) by auto
    then show ?thesis unfolding exits by (simp add: last_map)
  qed
  have "start \<le> index" using assms(3) by (simp add: position_ok_def)
  with better fields total past others final show ?thesis unfolding position_ok_def by simp
qed

section \<open>What a closed trade records\<close>

lemma entry_at_SomeD:
  assumes "entry_at env s rules cfg candles series index = Inr (Some e)"
  shows "ef_at e = ca_observed_at (candles ! index)"
    and "\<exists>volatility. protection_levels rules (ef_price e) volatility (cfg_tick_size cfg) = Inr (ef_stop e, ef_targets e)"
  using assms by (auto simp: entry_at_def Let_def split: if_splits sum.splits) blast+

lemma entry_targets:
  assumes "entry_at env s rules cfg candles series index = Inr (Some e)" and "valid_rules rules"
  shows "1 \<le> length (ef_targets e)" and "length (ef_targets e) \<le> 5"
proof -
  obtain v where v: "protection_levels rules (ef_price e) v (cfg_tick_size cfg) = Inr (ef_stop e, ef_targets e)"
    using entry_at_SomeD(2)[OF assms(1)] by blast
  have "length (ef_targets e) = length (tr_take_profit_r_multiples rules)"
    by (rule protection_levels_InrD[OF v]) simp
  with assms(2) show "1 \<le> length (ef_targets e)" "length (ef_targets e) \<le> 5" by (simp_all add: valid_rules_def)
qed

lemma opened_ok: "position_ok cfg side e candles k k (opened e)"
  by (simp add: position_ok_def opened_def unit28_one exits_pnl_def no_worse_def)

lemma held_ok:
  assumes "hold_position env s cfg side candles series e k (opened e) = (nxt, st)"
    and "1 \<le> length (ef_targets e)" "length (ef_targets e) \<le> 5"
  shows "position_ok cfg side e candles k nxt st"
  using hold_invariant[OF assms(1), of "position_ok cfg side e candles k"] opened_ok bar_step_ok assms(2,3) by blast

definition trade_ok :: "backtest_configuration \<Rightarrow> simulated_trade \<Rightarrow> bool" where
  "trade_ok cfg x \<longleftrightarrow> sum_list (map xf_fraction (sx_exits x)) = 1 \<and> sx_exits x \<noteq> []
     \<and> sx_risk x = d_abs (d_sub (sx_entry x) (sx_stop_loss x)) \<and> sx_risk x \<noteq> 0
     \<and> sx_pnl x = d_sub (exits_pnl (sx_direction x) (sx_entry x) (sx_exits x)) (d_add (cfg_spread cfg) (cfg_commission cfg))
     \<and> sx_r x = d_div (sx_pnl x) (sx_risk x)
     \<and> (\<forall>q \<in> set (sx_exits x). 0 \<le> xf_fraction q \<and> (xf_reason q = STOP_LOSS \<longrightarrow>
          no_worse (sx_direction x) (d_sub (sx_stop_loss x) (d_mul (side_sign (sx_direction x)) (cfg_slippage cfg))) (xf_price q)))"

text \<open>The bars of a trade.\<close>

definition trade_within :: "candle list \<Rightarrow> nat \<Rightarrow> nat \<Rightarrow> simulated_trade \<Rightarrow> bool" where
  "trade_within candles lo hi x \<longleftrightarrow>
     (\<exists>i j. lo \<le> i \<and> i \<le> j \<and> j < hi \<and> j < length candles
        \<and> sx_entered_at x = ca_observed_at (candles ! i) \<and> sx_exited_at x = ca_observed_at (candles ! j)
        \<and> (\<forall>q \<in> set (sx_exits x). \<exists>k. i \<le> k \<and> k \<le> j \<and> xf_observed_at q = ca_observed_at (candles ! k)))"

lemma closed_trade:
  assumes "entry_at env s rules cfg candles series k = Inr (Some e)" and "valid_rules rules" and "k < length candles"
    and "hold_position env s cfg (tr_direction rules) candles series e k (opened e) = (nxt, st)"
    and "\<not> 0 < ps_remaining st" and "close_trade cfg (tr_direction rules) e st a = Inr a'"
  obtains t x where "si_trades a' = si_trades a @ [t]" "si_attribution a' = si_attribution a @ [x]"
    "tl_pnl t = sx_pnl x" "tl_risk t = sx_risk x" "trade_ok cfg x" "trade_within candles k nxt x"
    "sx_entered_at x = ca_observed_at (candles ! k)" "k < nxt" "nxt \<le> length candles"
    "sx_exited_at x = ca_observed_at (candles ! (nxt - 1))"
proof -
  note ok = held_ok[OF assms(4) entry_targets[OF assms(1,2)]]
  have le: "nxt \<le> length candles"
    using hold_invariant[OF assms(4), of "\<lambda>i q. i \<le> length candles"] assms(3) by auto
  have zero: "ps_remaining st = 0" using ok assms(5) by (auto simp: position_ok_def unit28_def)
  have lt: "k < nxt" and ex: "ps_exits st \<noteq> []"
    and last: "xf_observed_at (last (ps_exits st)) = ca_observed_at (candles ! (nxt - 1))"
    using ok assms(5) by (simp_all add: position_ok_def)
  from assms(6) obtain t x where tx: "si_trades a' = si_trades a @ [t]" "si_attribution a' = si_attribution a @ [x]"
    and t: "tl_pnl t = sx_pnl x" "tl_risk t = sx_risk x"
    and x: "sx_exits x = ps_exits st" "sx_entry x = ef_price e" "sx_stop_loss x = ef_stop e"
      "sx_direction x = tr_direction rules" "sx_risk x = entry_risk e" "entry_risk e \<noteq> 0"
      "sx_pnl x = d_sub (ps_pnl st) (d_add (cfg_spread cfg) (cfg_commission cfg))"
      "sx_r x = d_div (sx_pnl x) (sx_risk x)" "sx_entered_at x = ef_at e"
      "sx_exited_at x = xf_observed_at (last (ps_exits st))"
    by (auto simp: close_trade_def Let_def d_divide_def split: if_splits)
  have "trade_ok cfg x"
    using ok ex zero x by (auto simp: trade_ok_def position_ok_def entry_risk_def)
  moreover have "trade_within candles k nxt x"
    unfolding trade_within_def
  proof (rule exI[of _ k], rule exI[of _ "nxt - 1"], intro conjI ballI)
    fix q assume "q \<in> set (sx_exits x)"
    with ok x(1) obtain i where "k \<le> i" "i < nxt" "xf_observed_at q = ca_observed_at (candles ! i)"
      unfolding position_ok_def by metis
    then show "\<exists>i. k \<le> i \<and> i \<le> nxt - 1 \<and> xf_observed_at q = ca_observed_at (candles ! i)"
      by (intro exI[of _ i]) simp
  qed (use lt le last x entry_at_SomeD(1)[OF assms(1)] in auto)
  ultimately show thesis
    using tx t lt le last x entry_at_SomeD(1)[OF assms(1)] by (intro that) auto
qed

lemma trade_within_mono: "trade_within candles lo hi x \<Longrightarrow> lo' \<le> lo \<Longrightarrow> hi \<le> hi' \<Longrightarrow> trade_within candles lo' hi' x"
  unfolding trade_within_def by (meson le_trans less_le_trans)

definition chronological :: "candle list \<Rightarrow> bool" where
  "chronological candles \<longleftrightarrow> sorted_wrt (<) (map ca_observed_at candles)"

lemma chronological_less:
  "chronological candles \<Longrightarrow> i < j \<Longrightarrow> j < length candles \<Longrightarrow> ca_observed_at (candles ! i) < ca_observed_at (candles ! j)"
  by (simp add: chronological_def sorted_wrt_iff_nth_less)

lemma chronological_le:
  "chronological candles \<Longrightarrow> i \<le> j \<Longrightarrow> j < length candles \<Longrightarrow> ca_observed_at (candles ! i) \<le> ca_observed_at (candles ! j)"
  using chronological_less[of candles i j] by (cases "i = j") auto

lemma validated_chronological:
  assumes "validate_candles m candles = Inr u"
  shows "chronological candles" and "m \<le> length candles" and "check_candles candles = Inr ()"
proof -
  let ?t = "map ca_observed_at candles"
  have v: "m \<le> length candles" "?t = sort ?t" "distinct ?t" "check_candles candles = Inr ()"
    using assms by (auto simp: validate_candles_def Let_def)
  have "sorted ?t" using v(2) by (metis sorted_sort)
  with v(3) show "chronological candles" by (simp add: chronological_def strict_sorted_iff)
  show "m \<le> length candles" "check_candles candles = Inr ()" by (fact v(1), fact v(4))
qed

section \<open>A simulation of the same beginning\<close>

lemma take_nth_eq: "take m xs = take m ys \<Longrightarrow> i < m \<Longrightarrow> xs ! i = ys ! i"
  by (metis nth_take)

definition same_beginning ::
    "simulation_env \<Rightarrow> nat \<Rightarrow> candle list \<Rightarrow> candle list \<Rightarrow> features list \<Rightarrow> features list \<Rightarrow> bool" where
  "same_beginning env m cs1 cs2 fs1 fs2 \<longleftrightarrow> take m cs1 = take m cs2 \<and> take m fs1 = take m fs2
     \<and> m < length cs1 \<and> m < length cs2"

lemma same_beginning_sym: "same_beginning env m cs1 cs2 fs1 fs2 \<Longrightarrow> same_beginning env m cs2 cs1 fs2 fs1"
  by (simp add: same_beginning_def)

lemma bar_features_same:
  assumes "same_beginning env m cs1 cs2 fs1 fs2" and "i < m"
  shows "bar_features env s cs1 fs1 i = bar_features env s cs2 fs2 i" and "cs1 ! i = cs2 ! i"
proof -
  have "cs1 ! i = cs2 ! i" "fs1 ! (i - 1) = fs2 ! (i - 1)"
    using assms take_nth_eq[of m cs1 cs2 i] take_nth_eq[of m fs1 fs2 "i - 1"] by (auto simp: same_beginning_def)
  then show "bar_features env s cs1 fs1 i = bar_features env s cs2 fs2 i" "cs1 ! i = cs2 ! i"
    by (simp_all add: bar_features_def)
qed

lemma bar_step_same:
  assumes "same_beginning env m cs1 cs2 fs1 fs2" and "i < m"
  shows "bar_step env s cfg side cs1 fs1 e i st = bar_step env s cfg side cs2 fs2 e i st"
proof -
  have "i \<noteq> length cs1 - 1" "i \<noteq> length cs2 - 1" using assms by (auto simp: same_beginning_def)
  then show ?thesis unfolding bar_step_def bar_features_same[OF assms] by simp
qed

lemma entry_same:
  assumes "same_beginning env m cs1 cs2 fs1 fs2" and "i < m"
  shows "entry_at env s rules cfg cs1 fs1 i = entry_at env s rules cfg cs2 fs2 i"
  unfolding entry_at_def bar_features_same[OF assms] ..

lemma hold_same:
  assumes "hold_position env s cfg side cs1 fs1 e i st = (nxt, st')" and "nxt \<le> m" and "\<not> 0 < ps_remaining st'"
    and "same_beginning env m cs1 cs2 fs1 fs2"
  shows "hold_position env s cfg side cs2 fs2 e i st = (nxt, st')"
  using assms
proof (induction env s cfg side cs1 fs1 e i st rule: hold_position.induct)
  case (1 env s cfg side cs1 fs1 e i st)
  show ?case
  proof (cases "i < length cs1 \<and> 0 < ps_remaining st")
    case True
    with 1(2) have h: "hold_position env s cfg side cs1 fs1 e (i + 1) (bar_step env s cfg side cs1 fs1 e i st) = (nxt, st')"
      by (subst (asm) hold_position.simps) simp
    from hold_progress[OF h] 1(3) have "i < m" by simp
    moreover from this have "i < length cs2" using 1(5) by (simp add: same_beginning_def)
    moreover note 1(1)[OF True h 1(3-5)]
    ultimately show ?thesis
      using True bar_step_same[OF 1(5)] by (subst hold_position.simps) simp
  next
    case False
    with 1(2,3,4,5) have "nxt = i" "st' = st" by (subst (asm) hold_position.simps, auto)+
    with 1(4) show ?thesis by (subst hold_position.simps) simp
  qed
qed

lemma later_trades:
  assumes "simulate_from env s rules cfg candles series index acc = Inr r" and "valid_rules rules"
  shows "\<exists>new. si_attribution r = si_attribution acc @ new \<and> (\<forall>x \<in> set new. trade_within candles index (length candles) x)"
proof -
  let ?P = "\<lambda>k a. index \<le> k \<and> (\<exists>new. si_attribution a = si_attribution acc @ new
      \<and> (\<forall>x \<in> set new. trade_within candles index (length candles) x))"
  have "\<exists>k. ?P k r"
  proof (rule simulate_invariant[OF assms(1), where P = ?P])
    fix k a e nxt st a'
    assume k: "k < length candles" "?P k a" "entry_at env s rules cfg candles series k = Inr (Some e)"
      "hold_position env s cfg (tr_direction rules) candles series e k (opened e) = (nxt, st)"
      "\<not> 0 < ps_remaining st" "close_trade cfg (tr_direction rules) e st a = Inr a'"
    obtain t x where "si_attribution a' = si_attribution a @ [x]" "trade_within candles k nxt x" "k < nxt"
        "nxt \<le> length candles"
      by (rule closed_trade[OF k(3) assms(2) k(1,4-6)])
    moreover from this k(2) have "trade_within candles index (length candles) x"
      by (blast intro: trade_within_mono)
    ultimately show "?P nxt a'" using k(2) by auto
  qed auto
  then show ?thesis by blast
qed

definition by_horizon :: "timestamp \<Rightarrow> simulated_trade list \<Rightarrow> simulated_trade list" where
  "by_horizon t xs = filter (\<lambda>x. sx_exited_at x \<le> t) xs"

lemma late_trades:
  assumes "simulate_from env s rules cfg candles series index acc = Inr r" and "valid_rules rules"
    and "chronological candles" and "m \<le> index" and "0 < m"
  shows "by_horizon (ca_observed_at (candles ! (m - 1))) (si_attribution r)
    = by_horizon (ca_observed_at (candles ! (m - 1))) (si_attribution acc)"
proof -
  obtain new where new: "si_attribution r = si_attribution acc @ new"
    "\<forall>x \<in> set new. trade_within candles index (length candles) x"
    using later_trades[OF assms(1,2)] by blast
  have "\<not> sx_exited_at x \<le> ca_observed_at (candles ! (m - 1))" if "x \<in> set new" for x
  proof -
    from new(2) that obtain i j where "index \<le> i" "i \<le> j" "j < length candles"
        "sx_exited_at x = ca_observed_at (candles ! j)" unfolding trade_within_def by blast
    moreover from this have "ca_observed_at (candles ! (m - 1)) < ca_observed_at (candles ! j)"
      by (intro chronological_less[OF assms(3)]) (use assms(4,5) in linarith)+
    ultimately show ?thesis by simp
  qed
  then have "filter (\<lambda>x. sx_exited_at x \<le> ca_observed_at (candles ! (m - 1))) new = []"
    by (auto simp: filter_empty_conv)
  with new(1) show ?thesis by (simp add: by_horizon_def)
qed

lemma late_close:
  assumes "simulate_from env s rules cfg candles series index acc = Inr r" and "valid_rules rules"
    and "chronological candles" and "index < m" "m < length candles"
    and "entry_at env s rules cfg candles series index = Inr (Some e)"
    and "hold_position env s cfg (tr_direction rules) candles series e index (opened e) = (nxt, st)"
    and "0 < ps_remaining st \<or> m < nxt"
  shows "by_horizon (ca_observed_at (candles ! (m - 1))) (si_attribution r)
    = by_horizon (ca_observed_at (candles ! (m - 1))) (si_attribution acc)"
proof (cases "0 < ps_remaining st")
  case True
  with assms(1,4-7) show ?thesis by (subst (asm) simulate_from.simps) auto
next
  case False
  with assms(1,4-7) obtain acc' where c: "close_trade cfg (tr_direction rules) e st acc = Inr acc'"
    and r: "simulate_from env s rules cfg candles series nxt acc' = Inr r"
    by (subst (asm) simulate_from.simps) auto
  have k: "index < length candles" using assms(4,5) by simp
  obtain x where x: "si_attribution acc' = si_attribution acc @ [x]" "nxt \<le> length candles"
    "sx_exited_at x = ca_observed_at (candles ! (nxt - 1))"
    by (rule closed_trade[OF assms(6,2) k assms(7) False c])
  have "m < nxt" using assms(8) False by simp
  have "ca_observed_at (candles ! (m - 1)) < ca_observed_at (candles ! (nxt - 1))"
    by (rule chronological_less[OF assms(3)]) (use \<open>m < nxt\<close> x(2) assms(4) in linarith)+
  then have "\<not> sx_exited_at x \<le> ca_observed_at (candles ! (m - 1))" by (simp add: x(3))
  moreover have "by_horizon (ca_observed_at (candles ! (m - 1))) (si_attribution r)
      = by_horizon (ca_observed_at (candles ! (m - 1))) (si_attribution acc')"
    by (rule late_trades[OF r assms(2,3)]) (use \<open>m < nxt\<close> assms(4) in auto)
  ultimately show ?thesis by (simp add: x(1) by_horizon_def)
qed

lemma simulate_same:
  assumes "simulate_from env s rules cfg cs1 fs1 index acc = Inr r1"
    and "simulate_from env s rules cfg cs2 fs2 index acc = Inr r2"
    and "same_beginning env m cs1 cs2 fs1 fs2" and "valid_rules rules"
    and "chronological cs1" and "chronological cs2" and "0 < m"
  shows "by_horizon (ca_observed_at (cs1 ! (m - 1))) (si_attribution r1)
    = by_horizon (ca_observed_at (cs1 ! (m - 1))) (si_attribution r2)"
  using assms
proof (induction env s rules cfg cs1 fs1 index acc rule: simulate_from.induct)
  case (1 env s rules cfg cs1 fs1 index acc)
  have t: "cs1 ! (m - 1) = cs2 ! (m - 1)" using bar_features_same(2)[OF 1(5), of "m - 1"] 1(9) by simp
  have len: "m < length cs1" "m < length cs2" using 1(5) by (simp_all add: same_beginning_def)
  show ?case
  proof (cases "index < m")
    case False
    with late_trades[OF 1(3,6,7) _ 1(9)] late_trades[OF 1(4,6,8) _ 1(9)] t show ?thesis by simp
  next
    case True
    then have i: "\<not> length cs1 \<le> index" "\<not> length cs2 \<le> index" using len by simp_all
    from 1(3) i(1) obtain entry where e1: "entry_at env s rules cfg cs1 fs1 index = Inr entry"
      by (subst (asm) simulate_from.simps) auto
    then have e2: "entry_at env s rules cfg cs2 fs2 index = Inr entry" using entry_same[OF 1(5) True] by simp
    show ?thesis
    proof (cases entry)
      case None
      with 1(3,4) i e1 e2 have "simulate_from env s rules cfg cs1 fs1 (index + 1) acc = Inr r1"
        "simulate_from env s rules cfg cs2 fs2 (index + 1) acc = Inr r2"
        by (subst (asm) (2) simulate_from.simps, subst (asm) simulate_from.simps, auto)+
      from 1(1)[OF i(1) e1 None this 1(5-9)] show ?thesis .
    next
      case (Some e)
      obtain n1 st1 n2 st2 where h1: "hold_position env s cfg (tr_direction rules) cs1 fs1 e index (opened e) = (n1, st1)"
        and h2: "hold_position env s cfg (tr_direction rules) cs2 fs2 e index (opened e) = (n2, st2)" by fastforce
      show ?thesis
      proof (cases "0 < ps_remaining st1 \<or> m < n1")
        case late: True
        have "0 < ps_remaining st2 \<or> m < n2"
        proof (rule ccontr)
          assume "\<not> ?thesis"
          with hold_same[OF h2 _ _ same_beginning_sym[OF 1(5)]] h1 late show False by auto
        qed
        with late_close[OF 1(3,6,7) True len(1) _ h1 late] late_close[OF 1(4,6,8) True len(2) _ h2] e1 e2 Some t
        show ?thesis by simp
      next
        case False
        then have c: "\<not> 0 < ps_remaining st1" "n1 \<le> m" by simp_all
        have h2': "hold_position env s cfg (tr_direction rules) cs2 fs2 e index (opened e) = (n1, st1)"
          by (rule hold_same[OF h1 c(2,1) 1(5)])
        from 1(3) i e1 Some h1 c(1) obtain acc' where a: "close_trade cfg (tr_direction rules) e st1 acc = Inr acc'"
          and r1: "simulate_from env s rules cfg cs1 fs1 n1 acc' = Inr r1"
          by (subst (asm) simulate_from.simps) auto
        have r2: "simulate_from env s rules cfg cs2 fs2 n1 acc' = Inr r2"
          using 1(4) i e2 Some h2' c(1) a by (subst (asm) simulate_from.simps) auto
        from 1(2)[OF i(1) e1 Some h1[symmetric] c(1) a r1 r2 1(5-9)] show ?thesis .
      qed
    qed
  qed
qed

definition ledger_ok :: "backtest_configuration \<Rightarrow> candle list \<Rightarrow> nat \<Rightarrow> simulation \<Rightarrow> bool" where
  "ledger_ok cfg candles k a \<longleftrightarrow> 2 \<le> k
     \<and> map tl_pnl (si_trades a) = map sx_pnl (si_attribution a)
     \<and> map tl_risk (si_trades a) = map sx_risk (si_attribution a)
     \<and> (\<forall>x \<in> set (si_attribution a). trade_ok cfg x \<and> trade_within candles 2 k x)
     \<and> sorted_wrt (\<lambda>x y. sx_exited_at x < sx_entered_at y) (si_attribution a)"

lemma simulation_ledger:
  assumes "simulate_from env s rules cfg candles series 2 no_trades = Inr r" and "valid_rules rules"
    and "chronological candles"
  shows "\<exists>k. ledger_ok cfg candles k r"
proof (rule simulate_invariant[OF assms(1), of "ledger_ok cfg candles"])
  fix k a e nxt st a'
  assume k: "k < length candles" "ledger_ok cfg candles k a" "entry_at env s rules cfg candles series k = Inr (Some e)"
    "hold_position env s cfg (tr_direction rules) candles series e k (opened e) = (nxt, st)"
    "\<not> 0 < ps_remaining st" "close_trade cfg (tr_direction rules) e st a = Inr a'"
  obtain t x where tx: "si_trades a' = si_trades a @ [t]" "si_attribution a' = si_attribution a @ [x]"
    "tl_pnl t = sx_pnl x" "tl_risk t = sx_risk x" "trade_ok cfg x" "trade_within candles k nxt x"
    "sx_entered_at x = ca_observed_at (candles ! k)" "k < nxt"
    by (rule closed_trade[OF k(3) assms(2) k(1,4-6)])
  have "sx_exited_at y < sx_entered_at x" if "y \<in> set (si_attribution a)" for y
  proof -
    from k(2) that obtain j where "j < k" "sx_exited_at y = ca_observed_at (candles ! j)"
      unfolding ledger_ok_def trade_within_def by blast
    with chronological_less[OF assms(3)] k(1) tx(7) show ?thesis by simp
  qed
  moreover have "trade_within candles 2 nxt y" if "y = x \<or> y \<in> set (si_attribution a)" for y
    using that k(2) tx(6,8) by (auto simp: ledger_ok_def intro: trade_within_mono[of _ k nxt] trade_within_mono[of _ 2 k])
  ultimately show "ledger_ok cfg candles nxt a'"
    using k(2) tx by (auto simp: ledger_ok_def sorted_wrt_append)
qed (auto simp: ledger_ok_def no_trades_def intro: trade_within_mono)

section \<open>Properties\<close>

text \<open>C10: A simulated position is accounted for to the last fraction: the trades of a run never overlap; each
  is closed completely, the fractions of its exits being exactly one; its profit is what its exits give,
  less the fixed costs, and its result in units of risk that profit by the distance of the original stop;
  every exit lies between entry and close; and a stop is never moved against the position, so that a
  stop-loss fill is never worse than the original stop with slippage.\<close>
theorem simulated_trades_accounted:
  assumes "simulate_protected_trades env s candles cfg = Inr r" and "validate_strategy s = Inr s'"
    and "validate_candles m candles = Inr u"
  shows "map tl_pnl (si_trades r) = map sx_pnl (si_attribution r)
    \<and> map tl_risk (si_trades r) = map sx_risk (si_attribution r)
    \<and> sorted_wrt (\<lambda>x y. sx_exited_at x < sx_entered_at y) (si_attribution r)
    \<and> (\<forall>x \<in> set (si_attribution r). sum_list (map xf_fraction (sx_exits x)) = 1
         \<and> sx_pnl x = d_sub (exits_pnl (sx_direction x) (sx_entry x) (sx_exits x))
                            (d_add (cfg_spread cfg) (cfg_commission cfg))
         \<and> sx_risk x = d_abs (d_sub (sx_entry x) (sx_stop_loss x)) \<and> sx_risk x \<noteq> 0
         \<and> sx_r x = d_div (sx_pnl x) (sx_risk x)
         \<and> (\<forall>q \<in> set (sx_exits x). 0 \<le> xf_fraction q
              \<and> sx_entered_at x \<le> xf_observed_at q \<and> xf_observed_at q \<le> sx_exited_at x
              \<and> (xf_reason q = STOP_LOSS \<longrightarrow> no_worse (sx_direction x)
                   (d_sub (sx_stop_loss x) (d_mul (side_sign (sx_direction x)) (cfg_slippage cfg))) (xf_price q))))"
proof -
  from assms(1) obtain rules where rules: "ss_trade_rules s = Some rules"
    and run: "simulate_from env s rules cfg candles (strategy_feature_series (sm_technical env) s candles) 2 no_trades = Inr r"
    by (auto simp: simulate_protected_trades_def)
  have "valid_rules rules" using assms(2) rules by (auto simp: validate_strategy_def split: if_splits)
  note chron = validated_chronological(1)[OF assms(3)]
  from simulation_ledger[OF run \<open>valid_rules rules\<close> chron] obtain k where k: "ledger_ok cfg candles k r" by blast
  have "sx_entered_at x \<le> xf_observed_at q \<and> xf_observed_at q \<le> sx_exited_at x"
    if "x \<in> set (si_attribution r)" "q \<in> set (sx_exits x)" for x q
  proof -
    from k that(1) obtain i j where "j < length candles" "sx_entered_at x = ca_observed_at (candles ! i)"
      "sx_exited_at x = ca_observed_at (candles ! j)"
      "\<forall>q \<in> set (sx_exits x). \<exists>k. i \<le> k \<and> k \<le> j \<and> xf_observed_at q = ca_observed_at (candles ! k)"
      unfolding ledger_ok_def trade_within_def by blast
    with that(2) chronological_le[OF chron] show ?thesis by (metis le_less_trans)
  qed
  with k show ?thesis unfolding ledger_ok_def trade_ok_def by blast
qed


section \<open>Witnesses\<close>

definition demo_sim :: simulation_env where
  "demo_sim = \<lparr>sm_technical = no_indicators, sm_zone = (\<lambda>_ _. (0, 12, 0)), sm_calendar = None,
     sm_news_contexts = None, sm_allowed = None, sm_close_at_end = True\<rparr>"

definition demo_config :: backtest_configuration where
  "demo_config = \<lparr>cfg_initial_equity = 1000, cfg_spread = 1 / 10, cfg_commission = 0, cfg_slippage = 0,
     cfg_tick_size = None, cfg_max_daily_loss = 100, cfg_max_total_loss = 100\<rparr>"

text \<open>Two quiet bars, one that falls through the stop, and any bar after it.\<close>

definition demo_crash :: candle where
  "demo_crash = \<lparr>ca_observed_at = minutes 2, ca_open = 100, ca_high = 110, ca_low = 10, ca_close = 10, ca_volume = 1\<rparr>"

definition demo_history :: "candle \<Rightarrow> candle list" where
  "demo_history x = [demo_candle 0 100, demo_candle 1 100, demo_crash, x]"

definition demo_plain :: strategy_spec where
  "demo_plain = demo_strategy\<lparr>ss_parameters := []\<rparr>"

lemma demo_plain_valid: "validate_strategy demo_plain = Inr demo_plain"
  by code_simp

lemma demo_series: "i < 4 \<Longrightarrow>
  strategy_feature_series no_indicators demo_plain (demo_history x) ! i = candle_features (demo_history x) i 20 None"
proof -
  assume i: "i < 4"
  have p: "atr_period demo_plain = None" "structure_window demo_plain = 20" "required_technical_features demo_plain = []"
    by code_simp+
  have "length (demo_history x) = 4" by (simp add: demo_history_def)
  with i feature_series[of demo_plain no_indicators "demo_history x"] show ?thesis
    by (simp add: p technical_feature_series_def dupdate_def)
qed

lemma demo_features:
  "map_of (candle_features (demo_history x) 1 20 None) ''close'' = Some 100"
  "map_of (candle_features (demo_history x) 1 20 None) ''volatility'' = Some 2"
  "map_of (candle_features (demo_history x) 1 20 None) ''regime_ready'' = Some 0"
  "map_of (candle_features (demo_history x) 2 20 None) ''close'' = Some 10"
  by (simp_all add: candle_features_def regime_features_def Let_def demo_history_def slice_def demo_candle_def
      demo_crash_def d_mean_def candle_range_def d_sum_def dec_defs dec8_numeral last_n_def)

definition demo_entry :: "candle \<Rightarrow> entry_fill" where
  "demo_entry x = \<lparr>ef_at = minutes 2,
     ef_features = AList.update ''news_regime'' (- 2) (candle_features (demo_history x) 1 20 None),
     ef_price = 100, ef_stop = 98, ef_targets = [102, 104]\<rparr>"

abbreviation "demo_run x \<equiv> simulate_from demo_sim demo_plain demo_rules demo_config (demo_history x)
  (strategy_feature_series no_indicators demo_plain (demo_history x))"

lemma demo_news: "news_at demo_sim demo_plain t = [(''news_regime'', - 2)]"
  by (simp add: news_at_def demo_sim_def news_features_def news_state_def news_value_def)

lemma demo_context: "entry_context_reason (sm_zone demo_sim) demo_plain t None = Inr None"
  by (simp add: entry_context_reason_def demo_plain_def demo_strategy_def weekend_closed_def demo_sim_def event_reason_def)

lemma demo_signal: "map_of f ''close'' = Some v \<Longrightarrow> entry_matches demo_plain f = Inr (50 < v)"
proof -
  assume f: "map_of f ''close'' = Some v"
  have "\<not> requires_news_context demo_plain" by code_simp
  with f show ?thesis
    by (simp add: entry_matches_def demo_plain_def demo_strategy_def regime_matches_def matches_def
        condition_holds_def demo_above_def)
qed

lemma demo_entry_at:
  "entry_at demo_sim demo_plain demo_rules demo_config (demo_history x)
     (strategy_feature_series no_indicators demo_plain (demo_history x)) 2 = Inr (Some (demo_entry x))"
  "entry_at demo_sim demo_plain demo_rules demo_config (demo_history x)
     (strategy_feature_series no_indicators demo_plain (demo_history x)) 3 = Inr None"
proof -
  have l: "protection_levels demo_rules 100 2 None = Inr (98, [102, 104])" by code_simp
  have c: "ca_observed_at (demo_history x ! 2) = minutes 2" "ca_open (demo_history x ! 2) = 100"
    by (simp_all add: demo_history_def demo_crash_def)
  have b2: "bar_features demo_sim demo_plain (demo_history x)
      (strategy_feature_series no_indicators demo_plain (demo_history x)) 2
      = AList.update ''news_regime'' (- 2) (candle_features (demo_history x) 1 20 None)"
    and b3: "bar_features demo_sim demo_plain (demo_history x)
      (strategy_feature_series no_indicators demo_plain (demo_history x)) 3
      = AList.update ''news_regime'' (- 2) (candle_features (demo_history x) 2 20 None)"
    by (simp_all add: bar_features_def demo_series demo_news dupdate_def)
  have e: "sm_allowed demo_sim = None" "sm_calendar demo_sim = None" by (simp_all add: demo_sim_def)
  have d: "tr_direction demo_rules = LONG" "cfg_slippage demo_config = 0" "cfg_tick_size demo_config = None"
    by (simp_all add: demo_rules_def demo_config_def)
  have s2: "entry_matches demo_plain (AList.update ''news_regime'' (- 2) (candle_features (demo_history x) 1 20 None)) = Inr True"
    and s3: "entry_matches demo_plain (AList.update ''news_regime'' (- 2) (candle_features (demo_history x) 2 20 None)) = Inr False"
    using demo_signal[of "AList.update ''news_regime'' (- 2) (candle_features (demo_history x) 1 20 None)" 100]
      demo_signal[of "AList.update ''news_regime'' (- 2) (candle_features (demo_history x) 2 20 None)" 10]
      demo_features by simp_all
  show "entry_at demo_sim demo_plain demo_rules demo_config (demo_history x)
     (strategy_feature_series no_indicators demo_plain (demo_history x)) 2 = Inr (Some (demo_entry x))"
    unfolding entry_at_def Let_def b2 e c s2
    by (simp add: demo_context s2 d feature_def demo_features[unfolded One_nat_def] l demo_entry_def d_add_def dec8_numeral)
  show "entry_at demo_sim demo_plain demo_rules demo_config (demo_history x)
     (strategy_feature_series no_indicators demo_plain (demo_history x)) 3 = Inr None"
    unfolding entry_at_def Let_def b3 e by (simp add: demo_context s3)
qed

lemma demo_held:
  obtains st where "hold_position demo_sim demo_plain demo_config LONG (demo_history x)
      (strategy_feature_series no_indicators demo_plain (demo_history x)) (demo_entry x) 2 (opened (demo_entry x)) = (3, st)"
    "\<not> 0 < ps_remaining st" "ps_pnl st = - 2"
    "ps_exits st = [\<lparr>xf_price = 98, xf_fraction = 1, xf_reason = STOP_LOSS, xf_observed_at = minutes 2\<rparr>]"
proof -
  let ?f = "strategy_feature_series no_indicators demo_plain (demo_history x)"
  let ?st = "bar_step demo_sim demo_plain demo_config LONG (demo_history x) ?f (demo_entry x) 2 (opened (demo_entry x))"
  have c: "demo_history x ! 2 = demo_crash" "length (demo_history x) = 4" by (simp_all add: demo_history_def)
  have s: "ps_remaining ?st = 0" "ps_pnl ?st = - 2"
    "ps_exits ?st = [\<lparr>xf_price = 98, xf_fraction = 1, xf_reason = STOP_LOSS, xf_observed_at = minutes 2\<rparr>]"
    by (simp_all add: bar_step_def c bar_fills_def excursion_def opened_def demo_entry_def demo_crash_def
        side_sign_def demo_config_def fill_exit_def add_exit_def dec_defs dec8_numeral Let_def)
  have "hold_position demo_sim demo_plain demo_config LONG (demo_history x) ?f (demo_entry x) 3 ?st = (3, ?st)"
    using s(1) by (subst hold_position.simps) simp
  then have "hold_position demo_sim demo_plain demo_config LONG (demo_history x) ?f (demo_entry x) 2
      (opened (demo_entry x)) = (3, ?st)"
    using c by (subst hold_position.simps) (simp add: opened_def)
  with s show thesis by (intro that[of ?st]) simp_all
qed

lemma demo_simulation:
  obtains r where "simulate_protected_trades demo_sim demo_plain (demo_history x) demo_config = Inr r"
    "map sx_pnl (si_attribution r) = [- 21 / 10]"
proof -
  let ?f = "strategy_feature_series no_indicators demo_plain (demo_history x)"
  let ?run = "simulate_from demo_sim demo_plain demo_rules demo_config (demo_history x) ?f"
  have len: "length (demo_history x) = 4" by (simp add: demo_history_def)
  have d: "tr_direction demo_rules = LONG" by (simp add: demo_rules_def)
  obtain st where h: "hold_position demo_sim demo_plain demo_config LONG (demo_history x) ?f (demo_entry x) 2
      (opened (demo_entry x)) = (3, st)" "\<not> 0 < ps_remaining st" "ps_pnl st = - 2" by (rule demo_held)
  have f: "ef_features (demo_entry x) = AList.update ''news_regime'' (- 2) (candle_features (demo_history x) 1 20 None)"
    "entry_risk (demo_entry x) = 2"
    by (simp_all add: demo_entry_def entry_risk_def dec_defs dec8_numeral)
  obtain acc where c: "close_trade demo_config LONG (demo_entry x) st no_trades = Inr acc"
    "map sx_pnl (si_attribution acc) = [- 21 / 10]"
    using h(3) demo_features(3)[of x]
    by (simp add: close_trade_def f d_divide_def regime_from_features_def regime_key_def no_trades_def Let_def
        demo_config_def d_add_def d_sub_def dec8_numeral)
  have "?run 4 acc = Inr acc" by (subst simulate_from.simps) (simp add: len)
  then have "?run 3 acc = Inr acc" using demo_entry_at(2)[of x] by (subst simulate_from.simps) (simp add: len)
  then have "?run 2 no_trades = Inr acc"
    using demo_entry_at(1)[of x] h(1,2) c(1) by (subst simulate_from.simps) (simp add: len d)
  then show thesis
    using c(2) by (intro that[of acc])
      (simp_all add: simulate_protected_trades_def demo_plain_def demo_strategy_def demo_sim_def)
qed

lemma demo_valid: "is_ok (validate_candles 4 (demo_history (demo_candle 3 100)))"
  "is_ok (validate_candles 4 (demo_history (demo_candle 3 50)))"
  by code_simp+

theorem simulated_trades_accounted_witness:
  "\<exists>r. simulate_protected_trades demo_sim demo_plain (demo_history (demo_candle 3 100)) demo_config = Inr r
     \<and> map tl_pnl (si_trades r) = [- 21 / 10]"
proof -
  obtain r where r: "simulate_protected_trades demo_sim demo_plain (demo_history (demo_candle 3 100)) demo_config = Inr r"
    "map sx_pnl (si_attribution r) = [- 21 / 10]" by (rule demo_simulation)
  from demo_valid(1) obtain u where "validate_candles 4 (demo_history (demo_candle 3 100)) = Inr u"
    by (auto elim!: is_okE)
  from simulated_trades_accounted[OF r(1) demo_plain_valid this] r show ?thesis by auto
qed


end
