(* ===== verification/Ledger.thy ===== *)
theory Ledger
  imports Simulation
begin

text \<open>
  What a run and a track record are measured by: the trade ledger of \<open>modules/backtesting/ledger.py\<close>, the
  account metrics and the long-only loop for strategies without price rules of \<open>engine.py\<close>, the costs
  and promotion gates beside them, and the analytics of \<open>modules/performance\<close>.

  Times of exit are the ISO texts the code groups days by; where a run of the simulation is measured, the
  text of an instant is the argument \<open>text_of\<close>.  The statistics the engine computes with binary floats
  (walk-forward folds, bootstrap, ratios) are not part of the model.
\<close>

section \<open>The trade ledger\<close>

record ledger_state =
  ls_equity :: decimal
  ls_peak :: decimal
  ls_drawdown :: decimal
  ls_win_streak :: nat
  ls_loss_streak :: nat
  ls_max_win_streak :: nat
  ls_max_loss_streak :: nat

definition ledger_start :: ledger_state where
  "ledger_start = \<lparr>ls_equity = 0, ls_peak = 0, ls_drawdown = 0, ls_win_streak = 0, ls_loss_streak = 0,
     ls_max_win_streak = 0, ls_max_loss_streak = 0\<rparr>"

fun streaks :: "decimal \<Rightarrow> nat \<times> nat \<Rightarrow> nat \<times> nat" where
  "streaks pnl (wins, losses) =
     (if 0 < pnl then (wins + 1, 0) else if pnl < 0 then (0, losses + 1) else (wins, losses))"

definition ledger_step :: "trade_result \<Rightarrow> ledger_state \<Rightarrow> ledger_state" where
  "ledger_step trade s =
     (let equity = d_add (ls_equity s) (tl_pnl trade);
          peak = max (ls_peak s) equity;
          (wins, losses) = streaks (tl_pnl trade) (ls_win_streak s, ls_loss_streak s)
      in \<lparr>ls_equity = equity, ls_peak = peak, ls_drawdown = max (ls_drawdown s) (d_sub peak equity),
          ls_win_streak = wins, ls_loss_streak = losses,
          ls_max_win_streak = max (ls_max_win_streak s) wins,
          ls_max_loss_streak = max (ls_max_loss_streak s) losses\<rparr>)"

record trade_metrics =
  tm_trade_count :: decimal
  tm_win_rate :: decimal
  tm_expectancy :: decimal
  tm_r :: decimal
  tm_max_drawdown :: decimal
  tm_average_winner :: decimal
  tm_average_loser :: decimal
  tm_profit_factor :: decimal
  tm_mae :: decimal
  tm_mfe :: decimal
  tm_max_win_streak :: decimal
  tm_max_loss_streak :: decimal

definition no_metrics :: trade_metrics where
  "no_metrics = \<lparr>tm_trade_count = 0, tm_win_rate = 0, tm_expectancy = 0, tm_r = 0, tm_max_drawdown = 0,
     tm_average_winner = 0, tm_average_loser = 0, tm_profit_factor = 0, tm_mae = 0, tm_mfe = 0,
     tm_max_win_streak = 0, tm_max_loss_streak = 0\<rparr>"

abbreviation count_of :: "'a list \<Rightarrow> decimal" where "count_of xs \<equiv> of_nat (length xs)"

definition metrics :: "trade_result list \<Rightarrow> trade_metrics" where
  "metrics trades =
     (if trades = [] then no_metrics
      else let winners = filter (\<lambda>p. 0 < p) (map tl_pnl trades);
               losers = filter (\<lambda>p. p < 0) (map tl_pnl trades);
               s = fold ledger_step trades ledger_start;
               gross_profit = d_sum winners; gross_loss = d_abs (d_sum losers);
               n = count_of trades
           in \<lparr>tm_trade_count = n, tm_win_rate = d_div (count_of winners) n,
               tm_expectancy = d_div (d_sum (map tl_pnl trades)) n,
               tm_r = d_div (d_sum (map (\<lambda>t. d_div (tl_pnl t) (tl_risk t)) (filter (\<lambda>t. 0 < tl_risk t) trades))) n,
               tm_max_drawdown = ls_drawdown s,
               tm_average_winner = (if winners \<noteq> [] then d_div gross_profit (count_of winners) else 0),
               tm_average_loser = (if losers \<noteq> [] then d_div (d_sum losers) (count_of losers) else 0),
               tm_profit_factor = (if gross_loss \<noteq> 0 then d_div gross_profit gross_loss else 0),
               tm_mae = d_div (d_sum (map tl_mae trades)) n, tm_mfe = d_div (d_sum (map tl_mfe trades)) n,
               tm_max_win_streak = of_nat (ls_max_win_streak s),
               tm_max_loss_streak = of_nat (ls_max_loss_streak s)\<rparr>)"

section \<open>The account's result\<close>

record account_state =
  ac_equity :: decimal
  ac_peak :: decimal
  ac_drawdown :: decimal
  ac_gross_profit :: decimal
  ac_gross_loss :: decimal
  ac_daily :: "(string, decimal) dict"
  ac_pnls :: "decimal list"

definition account_start :: "backtest_configuration \<Rightarrow> account_state" where
  "account_start cfg = \<lparr>ac_equity = cfg_initial_equity cfg, ac_peak = cfg_initial_equity cfg, ac_drawdown = 0,
     ac_gross_profit = 0, ac_gross_loss = 0, ac_daily = [], ac_pnls = []\<rparr>"

definition account_pnl :: "decimal \<Rightarrow> trade_result \<Rightarrow> decimal \<Rightarrow> decimal" where
  "account_pnl risk_percent trade equity =
     d_div (d_mul (d_mul (d_div (tl_pnl trade) (tl_risk trade)) equity) risk_percent) 100"

definition exit_day :: "string \<Rightarrow> string" where
  "exit_day exit_time = take 10 exit_time"

definition book_pnl :: "string \<Rightarrow> decimal \<Rightarrow> account_state \<Rightarrow> account_state" where
  "book_pnl day pnl s =
     (let equity = d_add (ac_equity s) pnl; peak = max (ac_peak s) equity
      in \<lparr>ac_equity = equity, ac_peak = peak, ac_drawdown = max (ac_drawdown s) (d_sub peak equity),
          ac_gross_profit = d_add (ac_gross_profit s) (max 0 pnl),
          ac_gross_loss = d_add (ac_gross_loss s) (max 0 (d_neg pnl)),
          ac_daily = AList.update day (d_add (dget (ac_daily s) day 0) pnl) (ac_daily s),
          ac_pnls = ac_pnls s @ [pnl]\<rparr>)"

fun account_step :: "decimal \<Rightarrow> trade_result \<times> string \<Rightarrow> account_state \<Rightarrow> account_state res" where
  "account_step risk_percent (trade, exit_time) s =
     rbind (ensure (\<not> tl_risk trade \<le> 0) (ValueError ''simulated trade risk must be positive'')) (\<lambda>_.
     Inr (book_pnl (exit_day exit_time) (account_pnl risk_percent trade (ac_equity s)) s))"

record account_metrics =
  am_account_pnls :: "decimal list"
  am_net_profit :: decimal
  am_ending_equity :: decimal
  am_max_drawdown :: decimal
  am_gross_profit :: decimal
  am_gross_loss :: decimal
  am_policy_passed :: bool

definition account_result :: "backtest_configuration \<Rightarrow> account_state \<Rightarrow> account_metrics" where
  "account_result cfg s =
     \<lparr>am_account_pnls = ac_pnls s, am_net_profit = d_sub (ac_equity s) (cfg_initial_equity cfg),
      am_ending_equity = ac_equity s, am_max_drawdown = ac_drawdown s,
      am_gross_profit = ac_gross_profit s, am_gross_loss = ac_gross_loss s,
      am_policy_passed = (ac_drawdown s \<le> cfg_max_total_loss cfg
        \<and> list_all (\<lambda>v. d_neg (cfg_max_daily_loss cfg) \<le> v) (dvalues (ac_daily s)))\<rparr>"

definition risk_normalized_account_metrics ::
    "trade_result list \<Rightarrow> string list \<Rightarrow> backtest_configuration \<Rightarrow> decimal \<Rightarrow> account_metrics res" where
  "risk_normalized_account_metrics trades exited_at cfg risk_percent =
     rbind (ensure (length trades = length exited_at) (ValueError ''trade exits do not match simulated results'')) (\<lambda>_.
     rbind (rfold (account_step risk_percent) (zip trades exited_at) (account_start cfg)) (\<lambda>s.
     Inr (account_result cfg s)))"

section \<open>Strategies without price rules\<close>

text \<open>
  The exit conditions of this loop are compared by \<open>_matches\<close> of the engine, which converts a text that
  names no feature and raises where it is no number, while \<open>entry_matches\<close> counts it as not met.
\<close>

fun engine_operand :: "features \<Rightarrow> condition_value \<Rightarrow> decimal res" where
  "engine_operand f (CvDec d) = Inr d"
| "engine_operand f (CvStr s) =
     (case map_of f s of Some v \<Rightarrow> Inr v | None \<Rightarrow> required (decimal_of_text s) InvalidOperation)"

fun engine_conditions :: "condition list \<Rightarrow> features \<Rightarrow> bool res" where
  "engine_conditions [] f = Inr True"
| "engine_conditions (c # cs) f =
     (case map_of f (cn_feature c) of
        None \<Rightarrow> Inr False
      | Some left \<Rightarrow>
          rbind (engine_operand f (cn_value c)) (\<lambda>right.
          if operation (cn_operator c) left right then engine_conditions cs f else Inr False))"

definition engine_matches :: "condition list \<Rightarrow> features \<Rightarrow> bool res" where
  "engine_matches conditions f = (if conditions = [] then Inr False else engine_conditions conditions f)"

definition bar_basics :: "candle list \<Rightarrow> nat \<Rightarrow> features" where
  "bar_basics candles index =
     (let candle = candles ! index; window = slice (index - 4) (index + 1) candles
      in [(''open'', ca_open candle), (''high'', ca_high candle), (''low'', ca_low candle),
          (''close'', ca_close candle),
          (''momentum'', d_sub (ca_close candle) (ca_close (candles ! (index - 1)))),
          (''moving_average'', d_mean (map ca_close window)),
          (''volatility'', d_mean (map candle_range window)),
          (''volume'', ca_volume candle)])"

record plain_trade =
  pt_entered_at :: timestamp
  pt_exited_at :: timestamp
  pt_entry :: decimal
  pt_exit :: decimal
  pt_pnl :: decimal

record plain_run =
  pr_entry :: "(decimal \<times> nat) option"
  pr_trades :: "trade_result list"
  pr_attribution :: "plain_trade list"
  pr_costs :: decimal

definition fixed_cost :: "backtest_configuration \<Rightarrow> decimal" where
  "fixed_cost cfg = d_add (cfg_spread cfg) (cfg_commission cfg)"

definition round_trip_cost :: "backtest_configuration \<Rightarrow> decimal" where
  "round_trip_cost cfg = d_add (fixed_cost cfg) (d_mul (cfg_slippage cfg) 2)"

definition plain_risk :: "strategy_spec \<Rightarrow> decimal \<Rightarrow> decimal" where
  "plain_risk s price = max (d_div (d_mul (d_abs price) (ss_risk_per_trade s)) 100) (1 / 100)"

definition plain_close ::
    "strategy_spec \<Rightarrow> backtest_configuration \<Rightarrow> candle list \<Rightarrow> decimal \<Rightarrow> nat \<Rightarrow> nat \<Rightarrow> decimal \<Rightarrow>
     decimal \<times> decimal \<Rightarrow> plain_run \<Rightarrow> plain_run" where
  "plain_close s cfg candles price opened_at closed_at exit_price excursions run =
     (let pnl = d_sub (d_sub exit_price price) (fixed_cost cfg)
      in run\<lparr>pr_entry := None,
             pr_trades := pr_trades run @ [\<lparr>tl_pnl = pnl, tl_risk = plain_risk s price,
                                            tl_mae = fst excursions, tl_mfe = snd excursions\<rparr>],
             pr_attribution := pr_attribution run @
               [\<lparr>pt_entered_at = ca_observed_at (candles ! opened_at),
                 pt_exited_at = ca_observed_at (candles ! closed_at), pt_entry = price, pt_exit = exit_price,
                 pt_pnl = pnl\<rparr>],
             pr_costs := d_add (pr_costs run) (round_trip_cost cfg)\<rparr>)"

definition plain_excursions :: "decimal \<Rightarrow> candle list \<Rightarrow> decimal \<times> decimal" where
  "plain_excursions price bars =
     (max (d_sub price (py_min (map ca_low bars))) 0, max (d_sub (py_max (map ca_high bars)) price) 0)"

definition plain_exit ::
    "strategy_spec \<Rightarrow> backtest_configuration \<Rightarrow> candle list \<Rightarrow> features \<Rightarrow> nat \<Rightarrow> plain_run \<Rightarrow> plain_run res" where
  "plain_exit s cfg candles f index run =
     (case pr_entry run of
        None \<Rightarrow> Inr run
      | Some (price, opened_at) \<Rightarrow>
          rbind (engine_matches (ss_exit s) f) (\<lambda>ends.
          Inr (if ends
               then plain_close s cfg candles price opened_at (index + 1)
                      (d_sub (ca_open (candles ! (index + 1))) (cfg_slippage cfg))
                      (plain_excursions price (slice opened_at (index + 2) candles)) run
               else run)))"

definition plain_bar ::
    "strategy_spec \<Rightarrow> backtest_configuration \<Rightarrow> candle list \<Rightarrow> features list \<Rightarrow> nat \<Rightarrow> plain_run \<Rightarrow> plain_run res" where
  "plain_bar s cfg candles series index run =
     (let f = dupdate (bar_basics candles index) (series ! index) in
      rbind (if pr_entry run = None then entry_matches s f else Inr False) (\<lambda>enters.
      if enters
      then Inr (run\<lparr>pr_entry := Some (d_add (ca_open (candles ! (index + 1))) (cfg_slippage cfg), index + 1)\<rparr>)
      else plain_exit s cfg candles f index run))"

definition plain_end ::
    "strategy_spec \<Rightarrow> backtest_configuration \<Rightarrow> candle list \<Rightarrow> plain_run \<Rightarrow> plain_run" where
  "plain_end s cfg candles run =
     (case pr_entry run of
        None \<Rightarrow> run
      | Some (price, opened_at) \<Rightarrow>
          plain_close s cfg candles price opened_at (length candles - 1)
            (d_sub (ca_close (last candles)) (cfg_slippage cfg)) (0, 0) run)"

definition plain_start :: plain_run where
  "plain_start = \<lparr>pr_entry = None, pr_trades = [], pr_attribution = [], pr_costs = 0\<rparr>"

definition plain_trades ::
    "indicators \<Rightarrow> strategy_spec \<Rightarrow> candle list \<Rightarrow> backtest_configuration \<Rightarrow> plain_run res" where
  "plain_trades technical s candles cfg =
     (let series = strategy_feature_series technical s candles in
      rbind (rfold (plain_bar s cfg candles series) [1..<length candles - 1] plain_start) (\<lambda>run.
      Inr (plain_end s cfg candles run)))"

text \<open>The trades of a run with their exit times, its account and the gates that need no statistics.\<close>

record run_result =
  rr_trades :: "trade_result list"
  rr_exited_at :: "timestamp list"
  rr_costs_paid :: decimal
  rr_metrics :: trade_metrics
  rr_account :: account_metrics

definition run_trades ::
    "simulation_env \<Rightarrow> strategy_spec \<Rightarrow> candle list \<Rightarrow> backtest_configuration \<Rightarrow>
     (trade_result list \<times> timestamp list \<times> decimal) res" where
  "run_trades env s candles cfg =
     (if ss_trade_rules s = None
      then rbind (plain_trades (sm_technical env) s candles cfg) (\<lambda>run.
             Inr (pr_trades run, map pt_exited_at (pr_attribution run), pr_costs run))
      else rbind (simulate_protected_trades env s candles cfg) (\<lambda>r.
             Inr (si_trades r, map sx_exited_at (si_attribution r), si_costs r)))"

definition run_account ::
    "(timestamp \<Rightarrow> string) \<Rightarrow> simulation_env \<Rightarrow> strategy_spec \<Rightarrow> candle list \<Rightarrow> backtest_configuration \<Rightarrow>
     run_result res" where
  "run_account text_of env s candles cfg =
     rbind (validate_candles 6 candles) (\<lambda>_.
     rbind (run_trades env s candles cfg) (\<lambda>(trades, exited_at, costs).
     rbind (risk_normalized_account_metrics trades (map text_of exited_at) cfg (ss_risk_per_trade s)) (\<lambda>account.
     Inr \<lparr>rr_trades = trades, rr_exited_at = exited_at, rr_costs_paid = costs, rr_metrics = metrics trades,
          rr_account = account\<rparr>)))"

section \<open>Costs and promotion\<close>

record trading_costs =
  tc_spread :: decimal
  tc_commission :: decimal
  tc_slippage :: decimal
  tc_swap :: decimal
  tc_funding :: decimal

definition costs_total :: "trading_costs \<Rightarrow> decimal" where
  "costs_total c = d_sum [tc_spread c, tc_commission c, tc_slippage c, tc_swap c, tc_funding c]"

definition type_aware_costs ::
    "instrument_type \<Rightarrow> decimal \<Rightarrow> decimal \<Rightarrow> decimal \<Rightarrow> decimal \<Rightarrow> decimal \<Rightarrow> trading_costs res" where
  "type_aware_costs kind spread commission slippage financing funding =
     rbind (ensure (\<not> py_min [spread, commission, slippage, financing, funding] < 0)
              (ValueError ''backtest costs cannot be negative'')) (\<lambda>_.
     Inr \<lparr>tc_spread = spread, tc_commission = commission, tc_slippage = slippage,
          tc_swap = (if kind = CFD then financing else 0), tc_funding = funding\<rparr>)"

definition promotable :: "(string, bool) dict \<Rightarrow> bool" where
  "promotable evidence \<longleftrightarrow> evidence \<noteq> []
     \<and> list_all (\<lambda>stage. dget evidence stage False)
         [''backtest'', ''out_of_sample'', ''walk_forward'', ''stress'', ''policy'', ''paper'']
     \<and> list_all (\<lambda>stage. dget evidence stage True)
         [''parameter_sensitivity'', ''cost_stress'', ''event_driven_execution'']"

definition typed_promotable :: "(string, bool) dict \<Rightarrow> bool \<Rightarrow> bool" where
  "typed_promotable evidence profile_complete \<longleftrightarrow> profile_complete \<and> promotable evidence"

section \<open>The track record\<close>

datatype evidence_class = LIVE | PAPER | BACKTEST

fun evidence_class_value :: "evidence_class \<Rightarrow> string" where
  "evidence_class_value LIVE = ''LIVE''"
| "evidence_class_value PAPER = ''PAPER''"
| "evidence_class_value BACKTEST = ''BACKTEST''"

record performance_record =
  pf_owner_id :: uuid
  pf_trade_id :: uuid
  pf_strategy_version_id :: uuid
  pf_account_id :: uuid
  pf_instrument :: string
  pf_category :: string
  pf_regime :: string
  pf_session :: string
  pf_pnl :: decimal
  pf_risk :: decimal
  pf_instrument_type :: "instrument_type option"
  pf_financing :: decimal
  pf_funding :: decimal
  pf_commissions :: decimal
  pf_slippage :: decimal
  pf_spread_cost :: decimal
  pf_status :: string
  pf_evidence_class :: evidence_class

definition net_value :: "performance_record \<Rightarrow> decimal" where
  "net_value r =
     d_sub (d_sub (d_sub (d_sub (d_sub (pf_pnl r) (pf_financing r)) (pf_funding r)) (pf_commissions r))
       (pf_slippage r)) (pf_spread_cost r)"

fun equity_step :: "decimal \<Rightarrow> decimal \<times> decimal \<times> decimal \<Rightarrow> decimal \<times> decimal \<times> decimal" where
  "equity_step net (equity, peak, drawdown) =
     (let e = d_add equity net; p = max peak e in (e, p, max drawdown (d_sub p e)))"

record track_record =
  tr_trades :: nat
  tr_pnl :: decimal
  tr_expectancy :: decimal
  tr_r :: decimal
  tr_win_rate :: decimal
  tr_gross_profit :: decimal
  tr_gross_loss :: decimal
  tr_profit_factor :: xdec
  tr_max_drawdown :: decimal
  tr_sample_complete :: bool
  tr_evidence_classes :: "string list"

text \<open>\<open>None\<close> stands for the three zeros reported when there is no record.\<close>

definition analytics :: "performance_record list \<Rightarrow> track_record option" where
  "analytics records =
     (if records = [] then None
      else let nets = map net_value records;
               wins = filter (\<lambda>v. 0 < v) nets; losses = filter (\<lambda>v. v < 0) nets;
               risk_values = map (\<lambda>r. d_div (net_value r) (pf_risk r)) (filter (\<lambda>r. 0 < pf_risk r) records);
               n = count_of records
           in Some \<lparr>tr_trades = length records, tr_pnl = d_sum nets, tr_expectancy = d_div (d_sum nets) n,
                tr_r = (if risk_values \<noteq> [] then d_div (d_sum risk_values) n else 0),
                tr_win_rate = d_div (count_of wins) n,
                tr_gross_profit = d_sum wins, tr_gross_loss = d_sum losses,
                tr_profit_factor = (if losses \<noteq> [] then Fin (d_div (d_sum wins) (d_abs (d_sum losses))) else Infinity),
                tr_max_drawdown = snd (snd (fold equity_step nets (0, 0, 0))),
                tr_sample_complete = list_all (\<lambda>r. pf_status r = ''COMPLETED'') records,
                tr_evidence_classes = sorted_set (map (evidence_class_value \<circ> pf_evidence_class) records)\<rparr>)"

text \<open>\<open>defaultdict(list)\<close>: the groups in the order of their first record.\<close>

definition group_by :: "('a \<Rightarrow> 'k) \<Rightarrow> 'a list \<Rightarrow> ('k, 'a list) dict" where
  "group_by key xs = fold (\<lambda>x d. AList.update (key x) (dget d (key x) [] @ [x]) d) xs []"

definition aggregate ::
    "performance_record list \<Rightarrow> (performance_record \<Rightarrow> string) \<Rightarrow> (string, track_record option) dict" where
  "aggregate records dimension = dmap analytics (group_by dimension records)"

definition evidence_metrics :: "performance_record list \<Rightarrow> (string, track_record option) dict" where
  "evidence_metrics records =
     map (\<lambda>e. (evidence_class_value e, analytics (filter (\<lambda>r. pf_evidence_class r = e) records)))
       (filter (\<lambda>e. list_ex (\<lambda>r. pf_evidence_class r = e) records) [LIVE, PAPER, BACKTEST])"

datatype health_action = HA_NONE | CREATE_DRAFT | RESEARCH_REQUEST | SUSPENSION_REVIEW

text \<open>The threshold is the binary float the code writes as \<open>0.15\<close>.\<close>

definition suspension_drawdown :: rat where
  "suspension_drawdown = 5404319552844595 / 2 ^ 55"

definition evaluate_health :: "(string, rat) dict \<Rightarrow> health_action" where
  "evaluate_health m =
     (if suspension_drawdown < dget m ''drawdown'' 0 then SUSPENSION_REVIEW
      else if dget m ''expectancy'' 0 < 0 then RESEARCH_REQUEST else HA_NONE)"

section \<open>Drawdowns and streaks\<close>

text \<open>The equity before each trade and after the last, and the falls from an earlier to a later one.\<close>

definition equity_at :: "decimal \<Rightarrow> decimal list \<Rightarrow> nat \<Rightarrow> decimal" where
  "equity_at start pnls i = fold (\<lambda>p e. d_add e p) (take i pnls) start"

definition falls :: "decimal \<Rightarrow> decimal list \<Rightarrow> decimal set" where
  "falls start pnls =
     {d_sub (equity_at start pnls i) (equity_at start pnls j) | i j. i \<le> j \<and> j \<le> length pnls}"

definition is_max :: "'a::linorder \<Rightarrow> 'a set \<Rightarrow> bool" where
  "is_max m S \<longleftrightarrow> m \<in> S \<and> (\<forall>x \<in> S. x \<le> m)"

lemma is_max_singleton: "is_max x {x}"
  by (simp add: is_max_def)

lemma is_max_Un: "is_max a S \<Longrightarrow> is_max b T \<Longrightarrow> is_max (max a b) (S \<union> T)"
  by (auto simp: is_max_def max_def)

lemma is_max_image: "is_max m S \<Longrightarrow> (\<And>x y. x \<le> y \<Longrightarrow> f x \<le> f y) \<Longrightarrow> is_max (f m) (f ` S)"
  by (auto simp: is_max_def)

lemma is_max_Max: "is_max m S \<Longrightarrow> finite S \<Longrightarrow> Max S = m"
  by (intro Max_eqI) (auto simp: is_max_def)

lemma equity_at_snoc: "i \<le> length ps \<Longrightarrow> equity_at s (ps @ [p]) i = equity_at s ps i"
  by (simp add: equity_at_def)

lemma equity_at_end: "equity_at s (ps @ [p]) (Suc (length ps)) = d_add (equity_at s ps (length ps)) p"
  by (simp add: equity_at_def)

lemma equity_at_0 [simp]: "equity_at s ps 0 = s"
  by (simp add: equity_at_def)

lemma falls_Nil [simp]: "falls s [] = {0}"
  by (auto simp: falls_def)

lemma falls_snoc:
  fixes s p and ps :: "decimal list"
  defines "e \<equiv> d_add (equity_at s ps (length ps)) p"
  shows "falls s (ps @ [p]) =
    falls s ps \<union> (\<lambda>x. d_sub x e) ` (equity_at s ps ` {..length ps} \<union> {e})" (is "?L = ?R")
proof (intro set_eqI iffI)
  note at = equity_at_snoc[of _ ps s p] equity_at_end[of s ps p, folded e_def]
  fix x
  {
    assume "x \<in> ?L"
    then obtain i j where x: "x = d_sub (equity_at s (ps @ [p]) i) (equity_at s (ps @ [p]) j)"
      and ij: "i \<le> j" "j \<le> Suc (length ps)" by (auto simp: falls_def)
    show "x \<in> ?R"
    proof (cases "j \<le> length ps")
      case True
      with x ij at(1) show ?thesis by (fastforce simp: falls_def)
    next
      case False
      with ij x at show ?thesis by (cases "i \<le> length ps") (auto simp: le_Suc_eq image_Un image_image)
    qed
  }
  assume "x \<in> ?R"
  then consider (old) i j where "x = d_sub (equity_at s ps i) (equity_at s ps j)" "i \<le> j" "j \<le> length ps"
    | (new) i where "x = d_sub (equity_at s ps i) e" "i \<le> length ps" | (same) "x = d_sub e e"
    by (auto simp: falls_def)
  then show "x \<in> ?L"
  proof cases
    case old
    then have "x = d_sub (equity_at s (ps @ [p]) i) (equity_at s (ps @ [p]) j)" using at(1) by simp
    with old show ?thesis unfolding falls_def by fastforce
  next
    case new
    then have "x = d_sub (equity_at s (ps @ [p]) i) (equity_at s (ps @ [p]) (Suc (length ps)))" using at by simp
    with new show ?thesis unfolding falls_def by fastforce
  next
    case same
    then have "x = d_sub (equity_at s (ps @ [p]) (Suc (length ps))) (equity_at s (ps @ [p]) (Suc (length ps)))"
      using at by simp
    then show ?thesis unfolding falls_def by fastforce
  qed
qed

lemma finite_falls: "finite (falls s ps)"
  by (induction ps rule: rev_induct) (simp_all add: falls_snoc)

lemma d_sub_mono_left: "a \<le> b \<Longrightarrow> d_sub a c \<le> d_sub b c"
  by (simp add: d_sub_def dctx_mono)

lemma fold_equity:
  "\<exists>peak dd. fold equity_step ps (s, s, 0) = (equity_at s ps (length ps), peak, dd)
     \<and> is_max peak (equity_at s ps ` {..length ps}) \<and> is_max dd (falls s ps)"
proof (induction ps rule: rev_induct)
  case Nil
  then show ?case by (simp add: is_max_singleton)
next
  case (snoc p ps)
  then obtain peak dd where run: "fold equity_step ps (s, s, 0) = (equity_at s ps (length ps), peak, dd)"
    and peak: "is_max peak (equity_at s ps ` {..length ps})" and dd: "is_max dd (falls s ps)" by blast
  let ?e = "d_add (equity_at s ps (length ps)) p"
  have peak': "is_max (max peak ?e) (equity_at s ps ` {..length ps} \<union> {?e})"
    by (rule is_max_Un[OF peak is_max_singleton])
  moreover have "equity_at s (ps @ [p]) ` {..length (ps @ [p])} = equity_at s ps ` {..length ps} \<union> {?e}"
    using equity_at_snoc[of _ ps s p] equity_at_end[of s ps p] by (auto simp: atMost_Suc)
  moreover have "is_max (max dd (d_sub (max peak ?e) ?e)) (falls s (ps @ [p]))"
    unfolding falls_snoc by (intro is_max_Un dd is_max_image peak' d_sub_mono_left)
  ultimately show ?case
    using run by (simp add: Let_def equity_at_end)
qed

lemma drawdown_is_largest_fall: "snd (snd (fold equity_step ps (s, s, 0))) = Max (falls s ps)"
  using fold_equity[of ps s] is_max_Max[OF _ finite_falls, of _ s ps] by fastforce

text \<open>A block of consecutive trades with no result of the other sign, and what it counts.\<close>

definition block_counts :: "('a \<Rightarrow> bool) \<Rightarrow> ('a \<Rightarrow> bool) \<Rightarrow> 'a list \<Rightarrow> nat set" where
  "block_counts counted broken xs =
     {length (filter counted (slice i j xs)) | i j. i \<le> j \<and> j \<le> length xs \<and> \<not> list_ex broken (slice i j xs)}"

definition tail_counts :: "('a \<Rightarrow> bool) \<Rightarrow> ('a \<Rightarrow> bool) \<Rightarrow> 'a list \<Rightarrow> nat set" where
  "tail_counts counted broken xs =
     {length (filter counted (drop i xs)) | i. i \<le> length xs \<and> \<not> list_ex broken (drop i xs)}"

lemma slice_snoc: "j \<le> length xs \<Longrightarrow> slice i j (xs @ [x]) = slice i j xs"
  "slice i (Suc (length xs)) (xs @ [x]) = drop i (xs @ [x])"
  by (simp_all add: slice_def)

lemma block_counts_Nil [simp]: "block_counts c b [] = {0}" "tail_counts c b [] = {0}"
  by (auto simp: block_counts_def tail_counts_def slice_def)

lemma block_counts_snoc: "block_counts c b (xs @ [x]) = block_counts c b xs \<union> tail_counts c b (xs @ [x])"
proof (intro set_eqI iffI)
  fix n
  {
    assume "n \<in> block_counts c b (xs @ [x])"
    then obtain i j where "n = length (filter c (slice i j (xs @ [x])))" "i \<le> j" "j \<le> Suc (length xs)"
      "\<not> list_ex b (slice i j (xs @ [x]))" by (auto simp: block_counts_def)
    then show "n \<in> block_counts c b xs \<union> tail_counts c b (xs @ [x])"
      by (cases "j = Suc (length xs)") (auto simp: slice_snoc block_counts_def tail_counts_def)
  }
  assume "n \<in> block_counts c b xs \<union> tail_counts c b (xs @ [x])"
  then consider (old) i j where "n = length (filter c (slice i j xs))" "i \<le> j" "j \<le> length xs" "\<not> list_ex b (slice i j xs)"
    | (new) i where "n = length (filter c (drop i (xs @ [x])))" "i \<le> Suc (length xs)" "\<not> list_ex b (drop i (xs @ [x]))"
    by (auto simp: block_counts_def tail_counts_def)
  then show "n \<in> block_counts c b (xs @ [x])"
  proof cases
    case old
    then show ?thesis unfolding block_counts_def
      by (intro CollectI exI[of _ i] exI[of _ j]) (auto simp: slice_snoc(1))
  next
    case new
    then show ?thesis unfolding block_counts_def
      by (intro CollectI exI[of _ i] exI[of _ "Suc (length xs)"]) (auto simp: slice_snoc(2))
  qed
qed

lemma tail_counts_snoc:
  "tail_counts c b (xs @ [x]) =
     (if b x then {0} else (\<lambda>n. n + (if c x then 1 else 0)) ` tail_counts c b xs \<union> {0})"
proof (intro set_eqI iffI)
  fix n
  {
    assume "n \<in> tail_counts c b (xs @ [x])"
    then obtain i where "n = length (filter c (drop i (xs @ [x])))" "i \<le> Suc (length xs)" "\<not> list_ex b (drop i (xs @ [x]))"
      by (auto simp: tail_counts_def)
    then show "n \<in> (if b x then {0} else (\<lambda>n. n + (if c x then 1 else 0)) ` tail_counts c b xs \<union> {0})"
    proof (cases "i = Suc (length xs)")
      case False
      with \<open>i \<le> Suc (length xs)\<close> have "i \<le> length xs" by simp
      moreover have "n = length (filter c (drop i xs)) + (if c x then 1 else 0)" "\<not> b x" "\<not> list_ex b (drop i xs)"
        using \<open>i \<le> length xs\<close> \<open>n = _\<close> \<open>\<not> list_ex b _\<close> by auto
      ultimately have "length (filter c (drop i xs)) \<in> tail_counts c b xs" by (auto simp: tail_counts_def)
      with \<open>n = length (filter c (drop i xs)) + _\<close> \<open>\<not> b x\<close> show ?thesis by auto
    qed (use \<open>n = _\<close> in simp)
  }
  assume n: "n \<in> (if b x then {0} else (\<lambda>n. n + (if c x then 1 else 0)) ` tail_counts c b xs \<union> {0})"
  have zero: "0 \<in> tail_counts c b (xs @ [x])"
    unfolding tail_counts_def by (intro CollectI exI[of _ "Suc (length xs)"]) simp
  show "n \<in> tail_counts c b (xs @ [x])"
  proof (cases "n = 0")
    case False
    with n obtain i where "i \<le> length xs" "\<not> list_ex b (drop i xs)" "\<not> b x"
      "n = length (filter c (drop i xs)) + (if c x then 1 else 0)" by (auto simp: tail_counts_def split: if_splits)
    then show ?thesis unfolding tail_counts_def by (intro CollectI exI[of _ i]) auto
  qed (use zero in simp)
qed

lemma finite_block_counts: "finite (block_counts c b xs)" "finite (tail_counts c b xs)"
proof -
  show tail: "finite (tail_counts c b xs)" for xs by (induction xs rule: rev_induct) (simp_all add: tail_counts_snoc)
  show "finite (block_counts c b xs)" by (induction xs rule: rev_induct) (simp_all add: block_counts_snoc tail)
qed

lemma ledger_step_fields:
  "(ls_equity (ledger_step t s), ls_peak (ledger_step t s), ls_drawdown (ledger_step t s))
    = equity_step (tl_pnl t) (ls_equity s, ls_peak s, ls_drawdown s)"
  "ls_win_streak (ledger_step t s) = fst (streaks (tl_pnl t) (ls_win_streak s, ls_loss_streak s))"
  "ls_loss_streak (ledger_step t s) = snd (streaks (tl_pnl t) (ls_win_streak s, ls_loss_streak s))"
  "ls_max_win_streak (ledger_step t s) = max (ls_max_win_streak s) (ls_win_streak (ledger_step t s))"
  "ls_max_loss_streak (ledger_step t s) = max (ls_max_loss_streak s) (ls_loss_streak (ledger_step t s))"
  by (simp_all add: ledger_step_def Let_def split: prod.split)

abbreviation gains :: "decimal \<Rightarrow> bool" where "gains p \<equiv> 0 < p"
abbreviation loses :: "decimal \<Rightarrow> bool" where "loses p \<equiv> p < 0"

lemma is_max_Suc: "is_max n S \<Longrightarrow> is_max (Suc n) (insert 0 (Suc ` S))"
  by (auto simp: is_max_def)

lemma is_max_insert_0: "is_max n S \<Longrightarrow> is_max n (insert (0::nat) S)"
  by (auto simp: is_max_def)

lemma streaks_max:
  assumes "is_max w (tail_counts gains loses ps)" and "is_max l (tail_counts loses gains ps)"
  shows "is_max (fst (streaks p (w, l))) (tail_counts gains loses (ps @ [p]))"
    and "is_max (snd (streaks p (w, l))) (tail_counts loses gains (ps @ [p]))"
  using assms is_max_Suc[of w] is_max_Suc[of l] is_max_insert_0[of w] is_max_insert_0[of l]
  by (auto simp: tail_counts_snoc is_max_singleton)

definition ledger_exact :: "decimal list \<Rightarrow> ledger_state \<Rightarrow> bool" where
  "ledger_exact ps s \<longleftrightarrow>
     (ls_equity s, ls_peak s, ls_drawdown s) = fold equity_step ps (0, 0, 0)
     \<and> is_max (ls_win_streak s) (tail_counts gains loses ps)
     \<and> is_max (ls_loss_streak s) (tail_counts loses gains ps)
     \<and> is_max (ls_max_win_streak s) (block_counts gains loses ps)
     \<and> is_max (ls_max_loss_streak s) (block_counts loses gains ps)"

lemma fold_ledger: "ledger_exact (map tl_pnl trades) (fold ledger_step trades ledger_start)"
proof (induction trades rule: rev_induct)
  case Nil
  then show ?case by (simp add: ledger_exact_def ledger_start_def is_max_singleton)
next
  case (snoc t trades)
  then show ?case
    by (simp add: ledger_exact_def ledger_step_fields block_counts_snoc is_max_Un streaks_max
        del: streaks.simps equity_step.simps)
qed

section \<open>The account as a fold\<close>

text \<open>The results in account currency, each on the equity the earlier ones left.\<close>

primrec account_pnls :: "decimal \<Rightarrow> decimal \<Rightarrow> trade_result list \<Rightarrow> decimal list" where
  "account_pnls risk_percent equity [] = []"
| "account_pnls risk_percent equity (t # ts) =
     (let p = account_pnl risk_percent t equity in p # account_pnls risk_percent (d_add equity p) ts)"

lemma length_account_pnls [simp]: "length (account_pnls rp e ts) = length ts"
  by (induction ts arbitrary: e) (simp_all add: Let_def)

definition book :: "string list \<Rightarrow> decimal list \<Rightarrow> account_state \<Rightarrow> account_state" where
  "book days pnls s = fold (\<lambda>(d, p). book_pnl d p) (zip days pnls) s"

lemma account_fold:
  assumes "length exits = length ts"
  shows "rfold (account_step rp) (zip ts exits) s =
    (if \<exists>t \<in> set ts. tl_risk t \<le> 0 then Inl (ValueError ''simulated trade risk must be positive'')
     else Inr (book (map exit_day exits) (account_pnls rp (ac_equity s) ts) s))"
  using assms
proof (induction ts arbitrary: exits s)
  case (Cons t ts)
  then obtain e es where es: "exits = e # es" "length es = length ts" by (cases exits) auto
  show ?case
  proof (cases "tl_risk t \<le> 0")
    case False
    then show ?thesis using Cons.IH[OF es(2)] es(1) by (auto simp: book_def Let_def book_pnl_def)
  qed (simp add: es)
qed (simp add: book_def)

definition day_pnls :: "string \<Rightarrow> string list \<Rightarrow> decimal list \<Rightarrow> decimal list" where
  "day_pnls day days pnls = map snd (filter (\<lambda>(d, p). d = day) (zip days pnls))"

definition booked :: "backtest_configuration \<Rightarrow> string list \<Rightarrow> decimal list \<Rightarrow> account_state \<Rightarrow> bool" where
  "booked cfg days pnls s \<longleftrightarrow>
     (ac_equity s, ac_peak s, ac_drawdown s) = fold equity_step pnls (cfg_initial_equity cfg, cfg_initial_equity cfg, 0)
     \<and> ac_pnls s = pnls \<and> distinct (map fst (ac_daily s))
     \<and> ac_gross_profit s = d_sum (map (max 0) pnls) \<and> ac_gross_loss s = d_sum (map (\<lambda>p. max 0 (d_neg p)) pnls)
     \<and> (\<forall>day. map_of (ac_daily s) day = (if day \<in> set days then Some (d_sum (day_pnls day days pnls)) else None))"

lemma day_pnls_absent: "day \<notin> set days \<Longrightarrow> day_pnls day days pnls = []"
  by (auto simp: day_pnls_def filter_empty_conv dest: set_zip_leftD)

lemma booked_fold:
  "length days = length pnls \<Longrightarrow> booked cfg days pnls (book days pnls (account_start cfg))"
proof (induction pnls arbitrary: days rule: rev_induct)
  case Nil
  then show ?case by (simp add: booked_def book_def account_start_def)
next
  case (snoc p pnls)
  then obtain ds d where days: "days = ds @ [d]" "length ds = length pnls"
    by (cases days rule: rev_cases) auto
  have book: "book (ds @ [d]) (pnls @ [p]) s = book_pnl d p (book ds pnls s)" for s
    using days by (simp add: book_def)
  have sum: "day_pnls day (ds @ [d]) (pnls @ [p]) = day_pnls day ds pnls @ (if day = d then [p] else [])" for day
    using days by (simp add: day_pnls_def)
  let ?s = "book ds pnls (account_start cfg)"
  from snoc.IH[OF days(2)] have IH: "booked cfg ds pnls ?s" .
  then have daily: "map_of (ac_daily ?s) day = (if day \<in> set ds then Some (d_sum (day_pnls day ds pnls)) else None)" for day
    by (simp add: booked_def)
  have "map_of (ac_daily (book_pnl d p ?s)) day =
      (if day \<in> set (ds @ [d]) then Some (d_sum (day_pnls day (ds @ [d]) (pnls @ [p]))) else None)" for day
    by (simp add: book_pnl_def Let_def sum daily dget_def d_sum_snoc day_pnls_absent)
  moreover have "(ac_equity (book_pnl d p ?s), ac_peak (book_pnl d p ?s), ac_drawdown (book_pnl d p ?s))
      = equity_step p (ac_equity ?s, ac_peak ?s, ac_drawdown ?s)"
    by (simp add: book_pnl_def Let_def)
  moreover have "distinct (map fst (ac_daily (book_pnl d p ?s)))"
    using IH by (simp add: booked_def book_pnl_def Let_def distinct_update)
  moreover have "ac_pnls (book_pnl d p ?s) = pnls @ [p]" "ac_gross_profit (book_pnl d p ?s) = d_sum (map (max 0) (pnls @ [p]))"
    "ac_gross_loss (book_pnl d p ?s) = d_sum (map (\<lambda>p. max 0 (d_neg p)) (pnls @ [p]))"
    using IH by (simp_all add: booked_def book_pnl_def Let_def d_sum_snoc)
  ultimately show ?case
    using IH unfolding booked_def days(1) book by (simp del: equity_step.simps)
qed

lemma account_metrics_run:
  assumes "length exits = length ts" and "\<not> list_ex (\<lambda>t. tl_risk t \<le> 0) ts"
  shows "risk_normalized_account_metrics ts exits cfg rp =
    Inr (account_result cfg (book (map exit_day exits) (account_pnls rp (cfg_initial_equity cfg) ts) (account_start cfg)))"
  using assms by (auto simp: risk_normalized_account_metrics_def account_fold list_ex_iff account_start_def)

lemma book_policy:
  fixes cfg days pnls
  defines "s \<equiv> book days pnls (account_start cfg)"
  assumes "length days = length pnls"
  shows "ac_equity s = equity_at (cfg_initial_equity cfg) pnls (length pnls)"
    and "ac_drawdown s = Max (falls (cfg_initial_equity cfg) pnls)"
    and "list_all P (dvalues (ac_daily s)) \<longleftrightarrow> list_all (\<lambda>day. P (d_sum (day_pnls day days pnls))) days"
proof -
  have b: "booked cfg days pnls s" unfolding s_def by (rule booked_fold[OF assms(2)])
  then show "ac_equity s = equity_at (cfg_initial_equity cfg) pnls (length pnls)"
    and "ac_drawdown s = Max (falls (cfg_initial_equity cfg) pnls)"
    using fold_equity[of pnls "cfg_initial_equity cfg"] drawdown_is_largest_fall[of pnls "cfg_initial_equity cfg"]
    by (auto simp: booked_def)
  have "set (dvalues (ac_daily s)) = ran (map_of (ac_daily s))"
    using b by (simp add: booked_def dvalues_def ran_distinct)
  also have "\<dots> = (\<lambda>day. d_sum (day_pnls day days pnls)) ` set days"
    using b by (force simp: booked_def ran_def)
  finally show "list_all P (dvalues (ac_daily s)) \<longleftrightarrow> list_all (\<lambda>day. P (d_sum (day_pnls day days pnls))) days"
    by (simp add: list_all_iff)
qed

section \<open>A run is measured without an error\<close>

lemma plain_close_trades [simp]:
  "length (pr_trades (plain_close s cfg cs p i j x m run)) = Suc (length (pr_trades run))"
  "length (pr_attribution (plain_close s cfg cs p i j x m run)) = Suc (length (pr_attribution run))"
  "list_all (\<lambda>t. 0 < tl_risk t) (pr_trades (plain_close s cfg cs p i j x m run))
    \<longleftrightarrow> list_all (\<lambda>t. 0 < tl_risk t) (pr_trades run)"
  by (simp_all add: plain_close_def Let_def plain_risk_def less_max_iff_disj)

lemma plain_trades_measured:
  assumes "plain_trades technical s candles cfg = Inr run"
  shows "length (pr_trades run) = length (pr_attribution run) \<and> list_all (\<lambda>t. 0 < tl_risk t) (pr_trades run)"
proof -
  let ?P = "\<lambda>run. length (pr_trades run) = length (pr_attribution run) \<and> list_all (\<lambda>t. 0 < tl_risk t) (pr_trades run)"
  from assms obtain r where r: "rfold (plain_bar s cfg candles (strategy_feature_series technical s candles))
      [1..<length candles - 1] plain_start = Inr r" and run: "run = plain_end s cfg candles r"
    by (auto simp: plain_trades_def)
  have "?P r"
    by (rule rfold_invariant[OF r])
       (auto simp: plain_start_def plain_bar_def plain_exit_def Let_def split: if_splits option.splits)
  then show ?thesis
    unfolding run plain_end_def by (auto split: option.splits)
qed

lemma protected_trades_measured:
  assumes "simulate_protected_trades env s candles cfg = Inr r" and "validate_strategy s = Inr s'"
    and "validate_candles m candles = Inr u"
  shows "length (si_trades r) = length (si_attribution r) \<and> list_all (\<lambda>t. 0 < tl_risk t) (si_trades r)"
proof -
  from assms(1) obtain rules where rules: "ss_trade_rules s = Some rules"
    and run: "simulate_from env s rules cfg candles (strategy_feature_series (sm_technical env) s candles) 2 no_trades = Inr r"
    by (auto simp: simulate_protected_trades_def)
  have "valid_rules rules" using assms(2) rules by (auto simp: validate_strategy_def split: if_splits)
  from simulation_ledger[OF run this validated_chronological(1)[OF assms(3)]]
  obtain k where k: "ledger_ok cfg candles k r" by blast
  then have "0 < sx_risk x" if "x \<in> set (si_attribution r)" for x
    using that d_nonneg by (fastforce simp: ledger_ok_def trade_ok_def d_abs_def dctx_nonneg order_less_le)
  then have "list_all (\<lambda>v. 0 < v) (map sx_risk (si_attribution r))" by (simp add: list_all_iff)
  with k have "list_all (\<lambda>v. 0 < v) (map tl_risk (si_trades r))" by (simp add: ledger_ok_def)
  moreover from k have "length (map tl_pnl (si_trades r)) = length (map sx_pnl (si_attribution r))"
    unfolding ledger_ok_def by argo
  ultimately show ?thesis by (simp add: list_all_iff)
qed

section \<open>Properties\<close>

text \<open>C19: The trade ledger of a run reports what it names: the maximal drawdown is the largest fall of the
  running profit from any point to any later one, and the longest streaks of wins and of losses are the
  largest counts in a block of consecutive trades without one of the other sign (a flat trade does not end
  a streak).\<close>
theorem ledger_metrics_exact:
  "tm_max_drawdown (metrics trades) = Max (falls 0 (map tl_pnl trades))
   \<and> tm_max_win_streak (metrics trades) = of_nat (Max (block_counts gains loses (map tl_pnl trades)))
   \<and> tm_max_loss_streak (metrics trades) = of_nat (Max (block_counts loses gains (map tl_pnl trades)))"
proof (cases "trades = []")
  case False
  from fold_ledger[of trades] have "ledger_exact (map tl_pnl trades) (fold ledger_step trades ledger_start)" .
  then have "ls_drawdown (fold ledger_step trades ledger_start) = Max (falls 0 (map tl_pnl trades))"
    "ls_max_win_streak (fold ledger_step trades ledger_start) = Max (block_counts gains loses (map tl_pnl trades))"
    "ls_max_loss_streak (fold ledger_step trades ledger_start) = Max (block_counts loses gains (map tl_pnl trades))"
    unfolding ledger_exact_def
    by (metis drawdown_is_largest_fall snd_conv, (metis is_max_Max finite_block_counts(1))+)
  with False show ?thesis by (simp add: metrics_def Let_def)
qed (simp add: metrics_def no_metrics_def)

text \<open>C18: The account a backtest reports is always computed, whatever the strategy traded: a run that ends on
  validated candles pairs each trade with its exit and no trade has a risk that cannot be divided by, so no
  error leaves the measurement; each result is the trade's units of risk on the equity the earlier ones left;
  and the policy gate is passed exactly if the largest fall of the equity, from the initial equity on, stays
  within the total limit and the results of every exit day together stay above minus the daily one.\<close>
theorem measured_run_gates_policy:
  assumes "validate_strategy s = Inr s'" and "validate_candles 6 candles = Inr u"
    and "run_trades env s candles cfg = Inr (trades, exited_at, costs)"
  shows "\<exists>r. run_account text_of env s candles cfg = Inr r \<and> rr_trades r = trades
    \<and> length exited_at = length trades
    \<and> (let pnls = account_pnls (ss_risk_per_trade s) (cfg_initial_equity cfg) trades;
            days = map (exit_day \<circ> text_of) exited_at
       in am_account_pnls (rr_account r) = pnls
         \<and> am_ending_equity (rr_account r) = equity_at (cfg_initial_equity cfg) pnls (length trades)
         \<and> (am_policy_passed (rr_account r) \<longleftrightarrow>
             Max (falls (cfg_initial_equity cfg) pnls) \<le> cfg_max_total_loss cfg
             \<and> list_all (\<lambda>day. d_neg (cfg_max_daily_loss cfg) \<le> d_sum (day_pnls day days pnls)) days))"
proof -
  have measured: "length exited_at = length trades \<and> list_all (\<lambda>t. 0 < tl_risk t) trades"
    using assms(3) plain_trades_measured protected_trades_measured[OF _ assms(1,2)]
    by (fastforce simp: run_trades_def split: if_splits)
  let ?exits = "map text_of exited_at"
  let ?pnls = "account_pnls (ss_risk_per_trade s) (cfg_initial_equity cfg) trades"
  have len: "length ?exits = length trades" and risks: "\<not> list_ex (\<lambda>t. tl_risk t \<le> 0) trades"
    using measured by (auto simp: list_all_iff list_ex_iff)
  have booked: "booked cfg (map exit_day ?exits) ?pnls (book (map exit_day ?exits) ?pnls (account_start cfg))"
    using measured by (intro booked_fold) simp
  have days: "length (map exit_day ?exits) = length ?pnls" using measured by simp
  note policy = book_policy[OF days, where cfg = cfg]
  show ?thesis
    using assms(2,3) account_metrics_run[OF len risks, of cfg "ss_risk_per_trade s"] measured booked policy
    by (simp add: run_account_def account_result_def booked_def comp_def Let_def)
qed

section \<open>Witness\<close>

definition demo_long :: strategy_spec where
  "demo_long = demo_strategy\<lparr>ss_parameters := [], ss_trade_rules := None, ss_exit := [demo_above 105]\<rparr>"

definition demo_bars :: "candle list" where
  "demo_bars = map2 demo_candle [0, 1, 2, 3, 4, 5] [100, 100, 100, 110, 104, 100]"

lemma demo_long_valid: "validate_strategy demo_long = Inr demo_long"
  by code_simp

lemma demo_bars_valid: "validate_candles 6 demo_bars = Inr ()"
  by code_simp

lemma demo_bars_close: "i < 6 \<Longrightarrow>
  map_of (dupdate (bar_basics demo_bars i) (strategy_feature_series no_indicators demo_long demo_bars ! i)) ''close''
    = Some (ca_close (demo_bars ! i))"
proof -
  assume i: "i < 6"
  have p: "atr_period demo_long = None" "structure_window demo_long = 20" "required_technical_features demo_long = []"
    by code_simp+
  have "length demo_bars = 6" by (simp add: demo_bars_def)
  with i feature_series[of demo_long no_indicators demo_bars]
  have "strategy_feature_series no_indicators demo_long demo_bars ! i = candle_features demo_bars i 20 None"
    by (simp add: p technical_feature_series_def dupdate_def)
  then show ?thesis by (simp add: dupdate_def candle_features_def regime_features_def Let_def)
qed

lemma demo_long_signals:
  assumes "map_of f ''close'' = Some v"
  shows "entry_matches demo_long f = Inr (50 < v)" and "engine_matches (ss_exit demo_long) f = Inr (105 < v)"
proof -
  have "\<not> requires_news_context demo_long" by code_simp
  with assms show "entry_matches demo_long f = Inr (50 < v)" "engine_matches (ss_exit demo_long) f = Inr (105 < v)"
    by (simp_all add: entry_matches_def demo_long_def demo_strategy_def regime_matches_def matches_def
        condition_holds_def demo_above_def engine_matches_def)
qed

lemma demo_long_bar:
  "i < 6 \<Longrightarrow> plain_bar demo_long demo_config demo_bars (strategy_feature_series no_indicators demo_long demo_bars) i run =
    Inr (case pr_entry run of
           None \<Rightarrow> if 50 < ca_close (demo_bars ! i)
                   then run\<lparr>pr_entry := Some (d_add (ca_open (demo_bars ! (i + 1))) 0, i + 1)\<rparr> else run
         | Some (price, j) \<Rightarrow> if 105 < ca_close (demo_bars ! i)
              then plain_close demo_long demo_config demo_bars price j (i + 1) (d_sub (ca_open (demo_bars ! (i + 1))) 0)
                     (plain_excursions price (slice j (i + 2) demo_bars)) run else run)"
  using demo_long_signals[OF demo_bars_close, of i]
  by (simp add: plain_bar_def plain_exit_def Let_def demo_config_def split: option.split)

lemma demo_long_trades:
  obtains ts exits costs where "run_trades demo_sim demo_long demo_bars demo_config = Inr (ts, exits, costs)"
    "length ts = 2"
proof -
  have bars: "map ca_close demo_bars = [100, 100, 100, 110, 104, 100]" "length demo_bars = 6"
    by (simp_all add: demo_bars_def demo_candle_def)
  have c: "ca_close (demo_bars ! i) = [100, 100, 100, 110, 104, 100] ! i" if "i < 6" for i
    using that bars by (metis nth_map)
  have range: "[1..<length demo_bars - 1] = [1, 2, 3, 4]" by (simp add: bars upt_rec)
  let ?f = "strategy_feature_series no_indicators demo_long demo_bars"
  obtain run where run: "rfold (plain_bar demo_long demo_config demo_bars ?f) [1, 2, 3, 4] plain_start = Inr run"
    and "length (pr_trades run) = 1" "\<exists>e. pr_entry run = Some e"
    by (simp add: demo_long_bar[simplified] c plain_start_def plain_close_def Let_def)
  then have "length (pr_trades (plain_end demo_long demo_config demo_bars run)) = 2"
    by (auto simp: plain_end_def)
  moreover have "plain_trades no_indicators demo_long demo_bars demo_config = Inr (plain_end demo_long demo_config demo_bars run)"
    by (simp only: plain_trades_def Let_def range run rbind.simps)
  moreover have "ss_trade_rules demo_long = None" by (simp add: demo_long_def)
  ultimately show thesis by (intro that) (auto simp: run_trades_def demo_sim_def)
qed

theorem measured_run_gates_policy_witness:
  "\<exists>r. run_account (\<lambda>_. ''2026-01-05T00:00:00+00:00'') demo_sim demo_long demo_bars demo_config = Inr r
     \<and> length (rr_trades r) = 2"
proof -
  obtain ts exits costs where run: "run_trades demo_sim demo_long demo_bars demo_config = Inr (ts, exits, costs)" "length ts = 2"
    by (rule demo_long_trades)
  from measured_run_gates_policy[OF demo_long_valid demo_bars_valid run(1), of "\<lambda>_. ''2026-01-05T00:00:00+00:00''"] run(2)
  show ?thesis by auto
qed

end
