(* ===== verification/Paper.thy ===== *)
theory Paper
  imports Ledger
begin

text \<open>
  Forward observation: \<open>modules/strategies/trade_setup.py\<close> and \<open>monitoring.py\<close>.  Each tick freezes the
  candles that have closed, records an intent to enter before the candle of its outcome has closed, and
  replays the recorded intents through the protected simulation.

  The session's dictionary is the record \<open>paper_session\<close>; its ISO texts are instants.  The scan for missing
  bars is a \<open>while\<close> loop: \<open>gap_open\<close> is \<open>None\<close> where it would not end, and an observation that reaches such a
  scan is \<open>None\<close> as a whole.
\<close>

section \<open>The indicative setup\<close>

record setup_target =
  sg_price :: decimal
  sg_reward_risk :: decimal
  sg_fraction :: decimal

record indicative_setup =
  su_status :: string
  su_reason :: string
  su_regime_key :: "string option"
  su_observed_at :: "timestamp option"
  su_expires_at :: "timestamp option"
  su_entry :: "decimal option"
  su_stop_loss :: "decimal option"
  su_take_profits :: "setup_target list"
  su_execution_authorized :: bool

definition waiting_setup :: indicative_setup where
  "waiting_setup = \<lparr>su_status = ''WAIT'', su_reason = '''', su_regime_key = None, su_observed_at = None,
     su_expires_at = None, su_entry = None, su_stop_loss = None, su_take_profits = [],
     su_execution_authorized = False\<rparr>"

definition setup_targets :: "decimal \<Rightarrow> decimal \<Rightarrow> decimal list \<Rightarrow> setup_target list res" where
  "setup_targets close distance targets =
     rmap (\<lambda>price. rbind (d_divide (d_abs (d_sub price close)) distance) (\<lambda>rr.
       Inr \<lparr>sg_price = price, sg_reward_risk = rr, sg_fraction = d_div 1 (of_nat (length targets))\<rparr>)) targets"

definition priced_setup ::
    "strategy_spec \<Rightarrow> trade_rules \<Rightarrow> features \<Rightarrow> decimal \<Rightarrow> decimal option \<Rightarrow> indicative_setup \<Rightarrow> indicative_setup res" where
  "priced_setup s rules f close tick_size setup =
     rbind (feature f ''volatility'') (\<lambda>volatility.
     case protection_levels rules close volatility tick_size of
       Inl (ValueError reason) \<Rightarrow> Inr (setup\<lparr>su_reason := reason\<rparr>)
     | Inl err \<Rightarrow> Inl err
     | Inr (stop, targets) \<Rightarrow>
         rbind (entry_matches s f) (\<lambda>signal.
         rbind (setup_targets close (d_abs (d_sub close stop)) targets) (\<lambda>profits.
         Inr (setup\<lparr>su_status := (if signal then ''SIGNAL'' else ''WAIT''),
                    su_reason := (if signal
                      then ''Entry conditions met; use the next bar open and recalculate protection at fill''
                      else ''Wait for the strategy entry, confirmation and filter conditions''),
                    su_entry := Some close, su_stop_loss := Some stop, su_take_profits := profits\<rparr>))))"

definition build_strategy_setup ::
    "indicators \<Rightarrow> time_zones \<Rightarrow> strategy_spec \<Rightarrow> candle list \<Rightarrow> timestamp \<Rightarrow> int \<Rightarrow> decimal option \<Rightarrow>
     calendar_event list option \<Rightarrow> indicative_setup res" where
  "build_strategy_setup technical zone s candles now timeframe_seconds tick_size calendar =
     (case ss_trade_rules s of
        None \<Rightarrow> Inr (waiting_setup\<lparr>su_reason := ''Price rules or candle evidence are unavailable''\<rparr>)
      | Some rules \<Rightarrow>
          if length candles < 2
          then Inr (waiting_setup\<lparr>su_reason := ''Price rules or candle evidence are unavailable''\<rparr>)
          else if weekend_closed zone (ss_asset_class s) now
          then Inr (waiting_setup\<lparr>su_status := ''MARKET_CLOSED'',
                 su_reason := ''Market session is closed; refresh prices after reopening before entry''\<rparr>)
          else
            let latest = last candles;
                expires_at = ca_observed_at latest + seconds (timeframe_seconds * 2);
                dated = waiting_setup\<lparr>su_observed_at := Some (ca_observed_at latest), su_expires_at := Some expires_at\<rparr>
            in if expires_at \<le> now \<or> now < ca_observed_at latest
               then Inr (dated\<lparr>su_status := ''STALE'', su_reason := ''Refresh candle evidence before entry''\<rparr>)
               else
                 let f = dupdate (strategy_features technical s candles (length candles - 1))
                           (news_features (hd (ss_instruments s)) now calendar None)
                 in rbind (regime_from_features f) (\<lambda>regime.
                    rbind (regime_key regime) (\<lambda>key.
                    rbind (regime_matches (ss_regimes s) f) (\<lambda>ok.
                    if \<not> ok
                    then Inr (dated\<lparr>su_regime_key := Some key,
                           su_reason := ''Current regime is outside the strategy's validated rules''\<rparr>)
                    else priced_setup s rules f (ca_close latest) tick_size (dated\<lparr>su_regime_key := Some key\<rparr>)))))"

definition withdraw :: "string \<Rightarrow> string \<Rightarrow> indicative_setup \<Rightarrow> indicative_setup" where
  "withdraw status reason setup =
     setup\<lparr>su_status := status, su_reason := reason, su_entry := None, su_stop_loss := None, su_take_profits := []\<rparr>"

section \<open>The session\<close>

definition ENGINE :: string where
  "ENGINE = ''forward-paper-v1''"

record entry_intent =
  ei_observed_at :: timestamp
  ei_signal :: indicative_setup

record paper_session =
  pp_engine :: string
  pp_started_at :: timestamp
  pp_entry_cutoff :: "timestamp option"
  pp_candles :: "candle list"
  pp_entry_intents :: "(timestamp, entry_intent) dict"
  pp_news_contexts :: "(timestamp, string) dict"
  pp_data_complete :: bool
  pp_policy_passed :: "bool option"
  pp_trades :: "(simulated_trade \<times> decimal) list"
  pp_open_positions :: "open_position option"
  pp_pending_entries :: "timestamp list"
  pp_trade_count :: nat
  pp_net_profit :: decimal
  pp_gross_profit :: decimal
  pp_gross_loss :: decimal
  pp_profit_factor :: "decimal option"
  pp_max_drawdown :: decimal
  pp_ending_equity :: decimal
  pp_latest_signal :: "indicative_setup option"
  pp_last_checked_at :: "timestamp option"
  pp_last_candle_at :: "timestamp option"
  pp_execution_authorized :: bool

text \<open>What a tick is given besides the session and the candles; \<open>pe_day_of\<close> is the text of an exit time.\<close>

record paper_env =
  pe_technical :: indicators
  pe_zone :: time_zones
  pe_day_of :: "timestamp \<Rightarrow> string"
  pe_now :: timestamp
  pe_timeframe_seconds :: int
  pe_configuration :: backtest_configuration
  pe_calendar :: "calendar_event list option"

definition period :: "paper_env \<Rightarrow> int" where
  "period env = seconds (pe_timeframe_seconds env)"

definition closed_candles :: "paper_env \<Rightarrow> candle list \<Rightarrow> candle list" where
  "closed_candles env incoming =
     sort_key ca_observed_at (filter (\<lambda>c. ca_observed_at c + period env \<le> pe_now env) incoming)"

fun check_evidence :: "candle list \<Rightarrow> unit res" where
  "check_evidence [] = Inr ()"
| "check_evidence (c # cs) =
     rbind (ensure (list_all (\<lambda>p. 0 < p) (candle_prices c)) (ValueError ''Invalid monitoring price evidence'')) (\<lambda>_.
     rbind (ensure (\<not> (ca_high c < py_max [ca_open c, ca_close c, ca_low c]
                        \<or> py_min [ca_open c, ca_close c] < ca_low c))
              (ValueError ''Inconsistent monitoring OHLC evidence'')) (\<lambda>_.
     check_evidence cs))"

definition frozen_candles :: "paper_session \<Rightarrow> candle list \<Rightarrow> candle list" where
  "frozen_candles st finished =
     (if pp_candles st = [] then last_n 100 finished
      else pp_candles st @ filter (\<lambda>c. ca_observed_at (last (pp_candles st)) < ca_observed_at c) finished)"

definition observed_candles :: "paper_env \<Rightarrow> paper_session \<Rightarrow> candle list \<Rightarrow> candle list res" where
  "observed_candles env st incoming =
     (let finished = closed_candles env incoming; frozen = frozen_candles st finished in
      rbind (ensure (\<not> length finished < 6)
               (ValueError ''At least six completed candles are required for monitoring'')) (\<lambda>_.
      rbind (check_evidence finished) (\<lambda>_.
      rbind (ensure (\<not> 100000 < length frozen)
               (ValueError ''Paper observation limit reached; finish this session'')) (\<lambda>_.
      Inr frozen))))"

definition blocking_reason :: "paper_session \<Rightarrow> bool \<Rightarrow> string option \<Rightarrow> string option" where
  "blocking_reason st paper reason =
     (if paper \<and> pp_policy_passed st = Some False then Some ''Paper loss limits were breached; review this session''
      else if paper \<and> \<not> pp_data_complete st
      then Some ''Paper history has missing observations; start a new validation session''
      else reason)"

definition guarded_setup :: "string option \<Rightarrow> indicative_setup \<Rightarrow> indicative_setup" where
  "guarded_setup blocking setup =
     (case blocking of
        Some reason \<Rightarrow> if su_status setup \<noteq> ''MARKET_CLOSED'' then withdraw ''BLOCKED'' reason setup else setup
      | None \<Rightarrow> setup)"

definition current_setup ::
    "paper_env \<Rightarrow> strategy_spec \<Rightarrow> paper_session \<Rightarrow> bool \<Rightarrow> candle list \<Rightarrow> indicative_setup res" where
  "current_setup env s st paper frozen =
     rbind (build_strategy_setup (pe_technical env) (pe_zone env) s frozen (pe_now env) (pe_timeframe_seconds env)
              (cfg_tick_size (pe_configuration env)) (pe_calendar env)) (\<lambda>setup.
     rbind (entry_context_reason (pe_zone env) s (pe_now env) (pe_calendar env)) (\<lambda>context.
     Inr (guarded_setup (blocking_reason st paper context) setup)))"

section \<open>Missing bars\<close>

definition session_closed :: "time_zones \<Rightarrow> asset_class option \<Rightarrow> timestamp \<Rightarrow> bool" where
  "session_closed zone asset_class cursor =
     (if asset_class = Some STOCKS
      then let (weekday, hour, minute) = zone ''America/New_York'' cursor in
           5 \<le> weekday \<or> \<not> (570 \<le> hour * 60 + minute \<and> hour * 60 + minute < 960)
      else weekend_closed zone asset_class cursor)"

partial_function (option) gap_open ::
    "time_zones \<Rightarrow> asset_class option \<Rightarrow> int \<Rightarrow> timestamp \<Rightarrow> timestamp \<Rightarrow> bool option" where
  "gap_open zone asset_class step stop cursor =
     (if cursor < stop
      then if \<not> session_closed zone asset_class cursor then Some True
           else gap_open zone asset_class step stop (cursor + step)
      else Some False)"

fun missing_bars ::
    "time_zones \<Rightarrow> asset_class option \<Rightarrow> int \<Rightarrow> timestamp \<Rightarrow> candle list \<Rightarrow> bool option" where
  "missing_bars zone asset_class step start (before # after # rest) =
     Option.bind
       (if step < ca_observed_at after - ca_observed_at before \<and> start \<le> ca_observed_at after
        then gap_open zone asset_class step (ca_observed_at after) (ca_observed_at before + step)
        else Some False) (\<lambda>here.
     Option.bind (missing_bars zone asset_class step start (after # rest)) (\<lambda>later. Some (here \<or> later)))"
| "missing_bars zone asset_class step start _ = Some False"

section \<open>One observation\<close>

definition entry_time :: "paper_env \<Rightarrow> candle list \<Rightarrow> timestamp" where
  "entry_time env frozen = ca_observed_at (last frozen) + period env"

definition opens_just_now :: "paper_env \<Rightarrow> timestamp \<Rightarrow> bool" where
  "opens_just_now env t \<longleftrightarrow>
     0 \<le> pe_now env - t \<and> pe_now env - t \<le> seconds 300 \<and> 4 * (pe_now env - t) \<le> seconds (pe_timeframe_seconds env)"

definition setdefault :: "'k \<Rightarrow> 'v \<Rightarrow> ('k, 'v) dict \<Rightarrow> ('k, 'v) dict" where
  "setdefault k v d = (if map_of d k = None then AList.update k v d else d)"

definition news_captured :: "paper_env \<Rightarrow> strategy_spec \<Rightarrow> paper_session \<Rightarrow> candle list \<Rightarrow> (timestamp, string) dict" where
  "news_captured env s st frozen =
     (let t = entry_time env frozen in
      if pp_started_at st \<le> t \<and> opens_just_now env t
      then setdefault t (news_state (hd (ss_instruments s)) (pe_now env) (pe_calendar env)) (pp_news_contexts st)
      else pp_news_contexts st)"

definition replay_env :: "paper_env \<Rightarrow> paper_session \<Rightarrow> (timestamp, string) dict \<Rightarrow> simulation_env" where
  "replay_env env st contexts =
     \<lparr>sm_technical = pe_technical env, sm_zone = pe_zone env, sm_calendar = pe_calendar env,
      sm_news_contexts = Some contexts, sm_allowed = Some (map fst (pp_entry_intents st)), sm_close_at_end = False\<rparr>"

definition records_intent ::
    "paper_env \<Rightarrow> paper_session \<Rightarrow> candle list \<Rightarrow> indicative_setup \<Rightarrow> bool \<Rightarrow> simulation \<Rightarrow> bool" where
  "records_intent env st frozen setup missing r \<longleftrightarrow>
     si_open r = None \<and> su_status setup = ''SIGNAL'' \<and> \<not> missing \<and> pp_started_at st \<le> entry_time env frozen
     \<and> (case pp_entry_cutoff st of None \<Rightarrow> True | Some cutoff \<Rightarrow> entry_time env frozen < cutoff)
     \<and> opens_just_now env (entry_time env frozen)"

definition new_intents ::
    "paper_env \<Rightarrow> paper_session \<Rightarrow> candle list \<Rightarrow> indicative_setup \<Rightarrow> bool \<Rightarrow> simulation \<Rightarrow> bool \<Rightarrow>
     (timestamp, entry_intent) dict" where
  "new_intents env st frozen setup missing r policy =
     (let t = entry_time env frozen;
          captured = (if records_intent env st frozen setup missing r
                      then setdefault t \<lparr>ei_observed_at = pe_now env, ei_signal = setup\<rparr> (pp_entry_intents st)
                      else pp_entry_intents st)
      in if (\<not> policy \<or> missing) \<and> map_of (pp_entry_intents st) t = None
         then AList.delete t captured else captured)"

definition shown_signal ::
    "paper_env \<Rightarrow> paper_session \<Rightarrow> indicative_setup \<Rightarrow> bool \<Rightarrow> simulation \<Rightarrow> bool \<Rightarrow> indicative_setup" where
  "shown_signal env st setup missing r policy =
     (if \<not> policy then withdraw ''BLOCKED'' ''Paper loss limits were breached'' setup
      else if missing then withdraw ''BLOCKED'' ''Paper observations are incomplete'' setup
      else if si_open r \<noteq> None then withdraw ''POSITION_OPEN'' ''Managing the existing simulated position'' setup
      else if (case pp_entry_cutoff st of None \<Rightarrow> False | Some cutoff \<Rightarrow> cutoff \<le> pe_now env)
      then withdraw ''WAIT'' ''Observation window ended; review the paper results'' setup
      else setup)"

definition checked_session ::
    "paper_env \<Rightarrow> paper_session \<Rightarrow> candle list \<Rightarrow> indicative_setup \<Rightarrow> paper_session" where
  "checked_session env st frozen setup =
     st\<lparr>pp_last_checked_at := Some (pe_now env), pp_latest_signal := Some setup,
        pp_last_candle_at := Some (ca_observed_at (last frozen))\<rparr>"

definition observed_session ::
    "paper_env \<Rightarrow> strategy_spec \<Rightarrow> paper_session \<Rightarrow> candle list \<Rightarrow> indicative_setup \<Rightarrow> bool \<Rightarrow> simulation \<Rightarrow>
     account_metrics \<Rightarrow> paper_session" where
  "observed_session env s st frozen setup missing r account =
     (let policy = am_policy_passed account;
          intents = new_intents env st frozen setup missing r policy
      in (checked_session env st frozen (shown_signal env st setup missing r policy))
           \<lparr>pp_engine := ENGINE, pp_candles := frozen, pp_entry_intents := intents,
            pp_news_contexts := news_captured env s st frozen,
            pp_trades := zip (si_attribution r) (am_account_pnls account),
            pp_open_positions := si_open r,
            pp_pending_entries := filter (\<lambda>t. ca_observed_at (last frozen) < t) (map fst intents),
            pp_trade_count := length (si_trades r), pp_net_profit := am_net_profit account,
            pp_profit_factor := (if am_gross_loss account \<noteq> 0
                                 then Some (d_div (am_gross_profit account) (am_gross_loss account)) else None),
            pp_gross_profit := am_gross_profit account, pp_gross_loss := am_gross_loss account,
            pp_max_drawdown := am_max_drawdown account, pp_ending_equity := am_ending_equity account,
            pp_policy_passed := Some policy, pp_data_complete := (pp_data_complete st \<and> \<not> missing),
            pp_execution_authorized := False\<rparr>)"

definition replay_session ::
    "paper_env \<Rightarrow> strategy_spec \<Rightarrow> paper_session \<Rightarrow> candle list \<Rightarrow> indicative_setup \<Rightarrow> bool \<Rightarrow> paper_session res" where
  "replay_session env s st frozen setup missing =
     rbind (simulate_protected_trades (replay_env env st (news_captured env s st frozen)) s frozen
              (pe_configuration env)) (\<lambda>r.
     rbind (risk_normalized_account_metrics (si_trades r) (map (pe_day_of env \<circ> sx_exited_at) (si_attribution r))
              (pe_configuration env) (ss_risk_per_trade s)) (\<lambda>account.
     Inr (observed_session env s st frozen setup missing r account)))"

definition observe ::
    "paper_env \<Rightarrow> strategy_spec \<Rightarrow> bool \<Rightarrow> candle list \<Rightarrow> paper_session \<Rightarrow> paper_session res option" where
  "observe env s paper incoming st =
     (case rbind (observed_candles env st incoming) (\<lambda>frozen.
           rbind (current_setup env s st paper frozen) (\<lambda>setup. Inr (frozen, setup))) of
        Inl err \<Rightarrow> Some (Inl err)
      | Inr (frozen, setup) \<Rightarrow>
          if \<not> paper then Some (Inr (checked_session env st frozen setup))
          else map_option (replay_session env s st frozen setup)
                 (missing_bars (pe_zone env) (ss_asset_class s) (period env) (pp_started_at st) frozen))"

section \<open>Gates\<close>

definition validation_passed :: "(string, bool) dict \<Rightarrow> bool" where
  "validation_passed evidence \<longleftrightarrow>
     list_all (\<lambda>gate. dget evidence gate False)
       [''backtest'', ''out_of_sample'', ''walk_forward'', ''stress'', ''policy'']
     \<and> list_all (\<lambda>gate. dget evidence gate True)
       [''parameter_sensitivity'', ''cost_stress'', ''event_driven_execution'']"

definition paper_gates :: "paper_session \<Rightarrow> (string, bool) dict" where
  "paper_gates st =
     [(''forward_observation'', pp_engine st = ENGINE),
      (''minimum_trade_count'', 10 \<le> pp_trade_count st),
      (''positive_net_profit'', 0 < pp_net_profit st),
      (''profit_factor'', 0 < pp_gross_profit st \<and> pp_gross_loss st \<le> pp_gross_profit st),
      (''policy'', pp_policy_passed st = Some True),
      (''data_complete'', pp_data_complete st),
      (''positions_closed'', pp_open_positions st = None \<and> pp_pending_entries st = [])]"

section \<open>The scan ends\<close>

text \<open>With a positive step the scan visits the instants \<open>cursor + k * step\<close> before \<open>stop\<close>.\<close>

lemma ex_nat_split: "(\<exists>k :: nat. P k) \<longleftrightarrow> P 0 \<or> (\<exists>k. P (Suc k))"
  by (metis not0_implies_Suc)

lemma gap_open_returns:
  assumes "0 < step"
  shows "gap_open zone ac step stop cursor =
    Some (\<exists>k. cursor + int k * step < stop \<and> \<not> session_closed zone ac (cursor + int k * step))"
proof (induction "nat (stop - cursor)" arbitrary: cursor rule: less_induct)
  case less
  let ?open = "\<lambda>c. \<exists>k. c + int k * step < stop \<and> \<not> session_closed zone ac (c + int k * step)"
  show ?case
  proof (cases "cursor < stop")
    case True
    have shift: "(\<exists>k. cursor + int (Suc k) * step < stop \<and> \<not> session_closed zone ac (cursor + int (Suc k) * step))
        \<longleftrightarrow> ?open (cursor + step)" by (simp add: algebra_simps)
    have "?open cursor \<longleftrightarrow> \<not> session_closed zone ac cursor \<or> ?open (cursor + step)"
      unfolding shift[symmetric] by (subst ex_nat_split) (use True in simp)
    moreover have "gap_open zone ac step stop (cursor + step) = Some (?open (cursor + step))"
      using less[of "cursor + step"] True assms by simp
    ultimately show ?thesis using True by (subst gap_open.simps) auto
  next
    case False
    then have "\<not> cursor + int k * step < stop" for k
      using mult_nonneg_nonneg[of "int k" step] assms by linarith
    with False show ?thesis by (subst gap_open.simps) auto
  qed
qed

text \<open>A bar is missing: an instant between two successive candles, a number of steps after the first, at which
  the session is open.\<close>

definition bar_missing ::
    "time_zones \<Rightarrow> asset_class option \<Rightarrow> int \<Rightarrow> timestamp \<Rightarrow> candle list \<Rightarrow> bool" where
  "bar_missing zone ac step start candles \<longleftrightarrow>
     (\<exists>i k. Suc i < length candles \<and> start \<le> ca_observed_at (candles ! Suc i)
        \<and> ca_observed_at (candles ! i) + int (Suc k) * step < ca_observed_at (candles ! Suc i)
        \<and> \<not> session_closed zone ac (ca_observed_at (candles ! i) + int (Suc k) * step))"

lemma bar_missing_Cons:
  "bar_missing zone ac step start (a # b # cs) \<longleftrightarrow>
    (start \<le> ca_observed_at b \<and> (\<exists>k. ca_observed_at a + int (Suc k) * step < ca_observed_at b
       \<and> \<not> session_closed zone ac (ca_observed_at a + int (Suc k) * step)))
    \<or> bar_missing zone ac step start (b # cs)" (is "?L \<longleftrightarrow> ?A \<or> ?B")
proof
  assume ?L
  then obtain i k where i: "Suc i < length (a # b # cs)" "start \<le> ca_observed_at ((a # b # cs) ! Suc i)"
    "ca_observed_at ((a # b # cs) ! i) + int (Suc k) * step < ca_observed_at ((a # b # cs) ! Suc i)"
    "\<not> session_closed zone ac (ca_observed_at ((a # b # cs) ! i) + int (Suc k) * step)"
    unfolding bar_missing_def by blast
  show "?A \<or> ?B"
  proof (cases i)
    case 0
    with i have ?A by (auto simp del: of_nat_Suc)
    then show ?thesis by simp
  next
    case (Suc j)
    with i have ?B unfolding bar_missing_def by (intro exI[of _ j] exI[of _ k]) (simp del: of_nat_Suc)
    then show ?thesis by simp
  qed
next
  assume "?A \<or> ?B"
  then show ?L
  proof
    assume ?A
    then obtain k where "start \<le> ca_observed_at b" "ca_observed_at a + int (Suc k) * step < ca_observed_at b"
      "\<not> session_closed zone ac (ca_observed_at a + int (Suc k) * step)" by blast
    then show ?L unfolding bar_missing_def by (intro exI[of _ 0] exI[of _ k]) (simp del: of_nat_Suc)
  next
    assume ?B
    then obtain i k where "Suc i < length (b # cs)" "start \<le> ca_observed_at ((b # cs) ! Suc i)"
      "ca_observed_at ((b # cs) ! i) + int (Suc k) * step < ca_observed_at ((b # cs) ! Suc i)"
      "\<not> session_closed zone ac (ca_observed_at ((b # cs) ! i) + int (Suc k) * step)"
      unfolding bar_missing_def by blast
    then show ?L unfolding bar_missing_def by (intro exI[of _ "Suc i"] exI[of _ k]) (simp del: of_nat_Suc)
  qed
qed

lemma missing_bars_returns:
  assumes "0 < step"
  shows "missing_bars zone ac step start candles = Some (bar_missing zone ac step start candles)"
proof (induction candles rule: induct_list012)
  case (3 before after rest)
  have reach: "ca_observed_at before + step + int k * step = ca_observed_at before + int (Suc k) * step" for k
    by (simp add: algebra_simps)
  have wide: "step < ca_observed_at after - ca_observed_at before"
    if "ca_observed_at before + int (Suc k) * step < ca_observed_at after" for k
    using that mult_right_mono[of 1 "int (Suc k)" step] assms by linarith
  note rest = 3(2)
  show ?case
  proof (cases "step < ca_observed_at after - ca_observed_at before \<and> start \<le> ca_observed_at after")
    case True
    with rest show ?thesis by (simp add: bar_missing_Cons gap_open_returns[OF assms] reach del: of_nat_Suc)
  next
    case False
    with wide have "\<not> (start \<le> ca_observed_at after \<and> (\<exists>k. ca_observed_at before + int (Suc k) * step < ca_observed_at after
       \<and> \<not> session_closed zone ac (ca_observed_at before + int (Suc k) * step)))" by blast
    then have "bar_missing zone ac step start (before # after # rest) \<longleftrightarrow> bar_missing zone ac step start (after # rest)"
      unfolding bar_missing_Cons by blast
    then show ?thesis using rest by (simp only: missing_bars.simps if_not_P[OF False]) simp
  qed
qed (auto simp: bar_missing_def)

section \<open>A replay fills recorded intents only\<close>

lemma entry_allowed:
  "entry_at env s rules cfg cs series k = Inr (Some e) \<Longrightarrow> sm_allowed env = Some moments \<Longrightarrow> ef_at e \<in> set moments"
  by (auto simp: entry_at_def Let_def split: if_splits sum.splits prod.splits)

lemma trades_allowed:
  assumes "simulate_protected_trades env s candles cfg = Inr r" and "sm_allowed env = Some moments"
  shows "\<forall>x \<in> set (si_attribution r). sx_entered_at x \<in> set moments"
proof -
  from assms(1) obtain rules where
    "simulate_from env s rules cfg candles (strategy_feature_series (sm_technical env) s candles) 2 no_trades = Inr r"
    by (auto simp: simulate_protected_trades_def)
  then have "\<exists>k :: nat. \<forall>x \<in> set (si_attribution r). sx_entered_at x \<in> set moments"
  proof (rule simulate_invariant[where P = "\<lambda>_ a. \<forall>x \<in> set (si_attribution a). sx_entered_at x \<in> set moments"])
    fix k a e nxt st a'
    assume "entry_at env s rules cfg candles (strategy_feature_series (sm_technical env) s candles) k = Inr (Some e)"
      and "close_trade cfg (tr_direction rules) e st a = Inr a'"
      and "\<forall>x \<in> set (si_attribution a). sx_entered_at x \<in> set moments"
    then show "\<forall>x \<in> set (si_attribution a'). sx_entered_at x \<in> set moments"
      using entry_allowed[OF _ assms(2)] by (auto simp: close_trade_def Let_def)
  qed (simp_all add: no_trades_def)
  then show ?thesis by simp
qed

text \<open>Moments that no candle has do not matter.\<close>

lemma hold_allowed: "hold_position (env\<lparr>sm_allowed := m\<rparr>) s cfg side cs series e k st = hold_position env s cfg side cs series e k st"
proof (induction env s cfg side cs series e k st rule: hold_position.induct)
  case (1 env s cfg side candles series e index st)
  have step: "bar_step (env\<lparr>sm_allowed := m\<rparr>) s cfg side candles series e index st = bar_step env s cfg side candles series e index st"
    by (simp add: bar_step_def bar_features_def news_at_def)
  show ?case
    using 1 by (subst (1 2) hold_position.simps) (simp add: step)
qed

lemma entry_allowed_same:
  assumes "k < length cs" and "\<forall>c \<in> set cs. ca_observed_at c \<in> set ms \<longleftrightarrow> ca_observed_at c \<in> set ms'"
  shows "entry_at (env\<lparr>sm_allowed := Some ms\<rparr>) s rules cfg cs series k = entry_at (env\<lparr>sm_allowed := Some ms'\<rparr>) s rules cfg cs series k"
  using assms nth_mem[OF assms(1)] by (simp add: entry_at_def bar_features_def news_at_def Let_def)

lemma simulate_env_same:
  assumes "\<And>k. k < length cs \<Longrightarrow> entry_at env1 s rules cfg cs series k = entry_at env2 s rules cfg cs series k"
    and "\<And>e k st. hold_position env1 s cfg (tr_direction rules) cs series e k st = hold_position env2 s cfg (tr_direction rules) cs series e k st"
  shows "simulate_from env1 s rules cfg cs series k acc = simulate_from env2 s rules cfg cs series k acc"
proof (induction "length cs - k" arbitrary: k acc rule: less_induct)
  case less
  show ?case
  proof (cases "length cs \<le> k")
    case False
    have later: "simulate_from env1 s rules cfg cs series k' a = simulate_from env2 s rules cfg cs series k' a" if "k < k'" for k' a
      using less[of k' a] False that by simp
    have next_bar: "k < n" if "hold_position env2 s cfg (tr_direction rules) cs series e k (opened e) = (n, st)" for e n st
      using hold_advances[OF that] False by (simp add: opened_def)
    show ?thesis
      using False assms(1)[of k] later[of "k + 1"]
      by (subst (1 2) simulate_from.simps)
         (auto simp: assms(2) later next_bar split: option.splits prod.splits intro!: rbind_cong)
  qed (subst (1 2) simulate_from.simps, simp)
qed

lemma simulate_allowed_same:
  assumes "\<forall>c \<in> set cs. ca_observed_at c \<in> set ms \<longleftrightarrow> ca_observed_at c \<in> set ms'"
  shows "simulate_protected_trades (env\<lparr>sm_allowed := Some ms\<rparr>) s cs cfg
    = simulate_protected_trades (env\<lparr>sm_allowed := Some ms'\<rparr>) s cs cfg"
proof -
  have "simulate_from (env\<lparr>sm_allowed := Some ms\<rparr>) s rules cfg cs series k acc
      = simulate_from (env\<lparr>sm_allowed := Some ms'\<rparr>) s rules cfg cs series k acc" for rules series k acc
    by (rule simulate_env_same) (simp_all add: entry_allowed_same[OF _ assms] hold_allowed)
  then show ?thesis by (simp add: simulate_protected_trades_def)
qed

section \<open>Sessions\<close>

text \<open>A session as it is started, the ticks that follow, the end of its entries moved by the owner and the signal
  shown instead of the last one.\<close>

definition started_session :: "timestamp \<Rightarrow> timestamp \<Rightarrow> paper_session" where
  "started_session now cutoff =
     \<lparr>pp_engine = ENGINE, pp_started_at = now, pp_entry_cutoff = Some cutoff, pp_candles = [], pp_entry_intents = [],
      pp_news_contexts = [], pp_data_complete = True, pp_policy_passed = None, pp_trades = [],
      pp_open_positions = None, pp_pending_entries = [], pp_trade_count = 0, pp_net_profit = 0,
      pp_gross_profit = 0, pp_gross_loss = 0, pp_profit_factor = None, pp_max_drawdown = 0, pp_ending_equity = 0,
      pp_latest_signal = None, pp_last_checked_at = None, pp_last_candle_at = None,
      pp_execution_authorized = False\<rparr>"

inductive paper_reachable :: "int \<Rightarrow> strategy_spec \<Rightarrow> paper_session \<Rightarrow> bool" for tf s where
  start: "paper_reachable tf s (started_session now cutoff)"
| tick: "paper_reachable tf s st \<Longrightarrow> pe_timeframe_seconds env = tf \<Longrightarrow>
    observe env s True incoming st = Some (Inr st') \<Longrightarrow> paper_reachable tf s st'"
| stop: "paper_reachable tf s st \<Longrightarrow> paper_reachable tf s (st\<lparr>pp_entry_cutoff := cutoff\<rparr>)"
| note_signal: "paper_reachable tf s st \<Longrightarrow>
    paper_reachable tf s (st\<lparr>pp_latest_signal := signal, pp_last_checked_at := moment\<rparr>)"

lemma observe_paperD:
  assumes "observe env s True incoming st = Some (Inr st')"
  obtains frozen su missing r account where "observed_candles env st incoming = Inr frozen"
    "current_setup env s st True frozen = Inr su"
    "missing_bars (pe_zone env) (ss_asset_class s) (period env) (pp_started_at st) frozen = Some missing"
    "simulate_protected_trades (replay_env env st (news_captured env s st frozen)) s frozen (pe_configuration env) = Inr r"
    "risk_normalized_account_metrics (si_trades r) (map (pe_day_of env \<circ> sx_exited_at) (si_attribution r))
       (pe_configuration env) (ss_risk_per_trade s) = Inr account"
    "st' = observed_session env s st frozen su missing r account"
  using assms by (auto simp: observe_def replay_session_def split: sum.splits prod.splits)

lemma observed_session_fields [simp]:
  "pp_candles (observed_session env s st frozen setup missing r account) = frozen"
  "pp_started_at (observed_session env s st frozen setup missing r account) = pp_started_at st"
  "pp_entry_cutoff (observed_session env s st frozen setup missing r account) = pp_entry_cutoff st"
  "pp_entry_intents (observed_session env s st frozen setup missing r account)
    = new_intents env st frozen setup missing r (am_policy_passed account)"
  "pp_news_contexts (observed_session env s st frozen setup missing r account) = news_captured env s st frozen"
  "pp_trades (observed_session env s st frozen setup missing r account) = zip (si_attribution r) (am_account_pnls account)"
  "pp_policy_passed (observed_session env s st frozen setup missing r account) = Some (am_policy_passed account)"
  "pp_data_complete (observed_session env s st frozen setup missing r account) \<longleftrightarrow> pp_data_complete st \<and> \<not> missing"
  by (simp_all add: observed_session_def checked_session_def Let_def)

lemma setdefault_keeps [simp]: "map_of d k = Some v \<Longrightarrow> map_of (setdefault k' v' d) k = Some v"
  by (auto simp: setdefault_def)

lemma intents_kept:
  "map_of (pp_entry_intents st) t = Some i \<Longrightarrow> map_of (new_intents env st frozen setup missing r policy) t = Some i"
  by (auto simp: new_intents_def Let_def delete_conv)

lemma intents_new:
  assumes "map_of (new_intents env st frozen setup missing r policy) t = Some i" and "map_of (pp_entry_intents st) t = None"
  shows "records_intent env st frozen setup missing r \<and> t = entry_time env frozen
    \<and> i = \<lparr>ei_observed_at = pe_now env, ei_signal = setup\<rparr>"
  using assms by (auto simp: new_intents_def Let_def setdefault_def delete_conv split: if_splits)

definition timely :: "int \<Rightarrow> timestamp \<Rightarrow> entry_intent \<Rightarrow> bool" where
  "timely tf t i \<longleftrightarrow> t \<le> ei_observed_at i \<and> 4 * (ei_observed_at i - t) \<le> seconds tf \<and> su_status (ei_signal i) = ''SIGNAL''"

definition session_ok :: "int \<Rightarrow> paper_session \<Rightarrow> bool" where
  "session_ok tf st \<longleftrightarrow> sorted (map ca_observed_at (pp_candles st))
     \<and> (\<forall>t i. map_of (pp_entry_intents st) t = Some i \<longrightarrow> timely tf t i)
     \<and> (\<forall>x \<in> set (map fst (pp_trades st)). map_of (pp_entry_intents st) (sx_entered_at x) \<noteq> None)"

lemma last_n_Nil_iff: "0 < n \<Longrightarrow> last_n n xs = [] \<longleftrightarrow> xs = []"
  by (cases xs) (auto simp: last_n_def)

lemma sorted_last_n: "sorted xs \<Longrightarrow> sorted (last_n n xs)"
  by (simp add: last_n_def sorted_wrt_drop)

lemma sorted_finished: "sorted (map ca_observed_at (closed_candles env incoming))"
  by (simp add: closed_candles_def)

lemma sorted_filter_times: "sorted (map f xs) \<Longrightarrow> sorted (map f (filter p xs))"
  by (simp add: sorted_filter)

lemma frozen_sorted:
  assumes "sorted (map ca_observed_at (pp_candles st))" and "sorted (map ca_observed_at finished)"
  shows "sorted (map ca_observed_at (frozen_candles st finished))"
proof (cases "pp_candles st = []")
  case True
  have "map ca_observed_at (last_n 100 finished) = last_n 100 (map ca_observed_at finished)"
    by (simp add: last_n_def drop_map)
  with True assms(2) show ?thesis by (simp add: frozen_candles_def sorted_last_n)
next
  case False
  have "ca_observed_at c \<le> ca_observed_at (last (pp_candles st))" if "c \<in> set (pp_candles st)" for c
  proof -
    from that obtain i where i: "i < length (pp_candles st)" "c = pp_candles st ! i" by (auto simp: in_set_conv_nth)
    with assms(1) False show ?thesis
      by (simp add: last_conv_nth) (use sorted_nth_mono[OF assms(1), of i "length (pp_candles st) - 1"] False in simp)
  qed
  with False assms show ?thesis by (fastforce simp: frozen_candles_def sorted_append sorted_filter_times)
qed

lemma session_ok_reachable: "paper_reachable tf s st \<Longrightarrow> session_ok tf st"
proof (induction rule: paper_reachable.induct)
  case (start now cutoff)
  then show ?case by (simp add: session_ok_def started_session_def)
next
  case (tick st env incoming st')
  from tick(3) obtain frozen su missing r account where obs: "observed_candles env st incoming = Inr frozen"
    and run: "simulate_protected_trades (replay_env env st (news_captured env s st frozen)) s frozen (pe_configuration env) = Inr r"
    and st': "st' = observed_session env s st frozen su missing r account"
    by (rule observe_paperD)
  have "sorted (map ca_observed_at frozen)"
    using obs tick.IH sorted_finished frozen_sorted by (auto simp: observed_candles_def Let_def session_ok_def)
  moreover have "timely tf t i" if "map_of (new_intents env st frozen su missing r (am_policy_passed account)) t = Some i" for t i
  proof (cases "map_of (pp_entry_intents st) t")
    case None
    from intents_new[OF that None] tick(2) show ?thesis
      by (auto simp: records_intent_def opens_just_now_def timely_def)
  next
    case (Some j)
    with intents_kept[OF Some] that tick.IH show ?thesis by (auto simp: session_ok_def)
  qed
  moreover have "map_of (new_intents env st frozen su missing r (am_policy_passed account)) (sx_entered_at x) \<noteq> None"
    if "x \<in> set (si_attribution r)" for x
  proof -
    from trades_allowed[OF run] that have "sx_entered_at x \<in> fst ` set (pp_entry_intents st)"
      by (auto simp: replay_env_def)
    then obtain i where "map_of (pp_entry_intents st) (sx_entered_at x) = Some i"
      by (metis map_of_eq_None_iff not_None_eq)
    from intents_kept[OF this] show ?thesis by simp
  qed
  ultimately show ?case
    by (auto simp: session_ok_def st' dest!: set_zip_leftD)
qed (simp_all add: session_ok_def)

section \<open>A tick delivered twice\<close>

lemma sorted_last_ge: "sorted (map f xs) \<Longrightarrow> c \<in> set xs \<Longrightarrow> f c \<le> f (last xs)"
proof -
  assume "sorted (map f xs)" "c \<in> set xs"
  then obtain i where i: "i < length xs" "c = xs ! i" by (auto simp: in_set_conv_nth)
  then have "map f xs ! i \<le> map f xs ! (length xs - 1)"
    using \<open>sorted (map f xs)\<close> by (intro sorted_nth_mono) auto
  with i show ?thesis by (cases "xs = []") (auto simp: last_conv_nth)
qed

lemma finished_le_last:
  assumes "sorted (map ca_observed_at finished)" and "finished \<noteq> []" and "c \<in> set finished"
  shows "ca_observed_at c \<le> ca_observed_at (last (frozen_candles st finished))"
proof (cases "pp_candles st = []")
  case True
  with assms sorted_last_ge[OF assms(1,3)] show ?thesis
    by (simp add: frozen_candles_def last_n_def last_drop)
next
  case False
  let ?new = "filter (\<lambda>c. ca_observed_at (last (pp_candles st)) < ca_observed_at c) finished"
  show ?thesis
  proof (cases "?new = []")
    case True
    with False assms(3) show ?thesis by (auto simp: frozen_candles_def filter_empty_conv)
  next
    case nonempty: False
    then have last: "last (frozen_candles st finished) = last ?new" "last ?new \<in> set ?new"
      using False by (simp_all add: frozen_candles_def del: set_filter)
    show ?thesis
    proof (cases "c \<in> set ?new")
      case True
      with sorted_last_ge[OF sorted_filter_times[OF assms(1)] True] last show ?thesis by simp
    next
      case old: False
      with assms(3) have "ca_observed_at c \<le> ca_observed_at (last (pp_candles st))" by simp
      with last show ?thesis by auto
    qed
  qed
qed

lemma frozen_again:
  assumes "sorted (map ca_observed_at finished)" and "finished \<noteq> []"
    and "pp_candles st' = frozen_candles st finished"
  shows "frozen_candles st' finished = frozen_candles st finished"
proof -
  have "frozen_candles st finished \<noteq> []" using assms(2) by (simp add: frozen_candles_def last_n_Nil_iff)
  moreover have "filter (\<lambda>c. ca_observed_at (last (frozen_candles st finished)) < ca_observed_at c) finished = []"
    using finished_le_last[OF assms(1,2)] by (auto simp: filter_empty_conv not_less)
  ultimately show ?thesis
    by (simp add: frozen_candles_def[of st'] assms(3))
qed

lemma observed_again:
  assumes "observed_candles env st incoming = Inr frozen" and "pp_candles st' = frozen"
  shows "observed_candles env st' incoming = Inr frozen" and "frozen \<noteq> []"
proof -
  let ?f = "closed_candles env incoming"
  have f: "?f \<noteq> []" "frozen = frozen_candles st ?f"
    using assms(1) by (auto simp: observed_candles_def Let_def)
  then have "frozen_candles st' ?f = frozen_candles st ?f"
    using assms(2) by (intro frozen_again sorted_finished) auto
  with assms(1) show "observed_candles env st' incoming = Inr frozen"
    by (simp add: observed_candles_def Let_def)
  from f show "frozen \<noteq> []" by (auto simp: frozen_candles_def last_n_Nil_iff)
qed

lemma news_again:
  "pp_started_at st' = pp_started_at st \<Longrightarrow> pp_news_contexts st' = news_captured env s st frozen \<Longrightarrow>
    news_captured env s st' frozen = news_captured env s st frozen"
  by (auto simp: news_captured_def setdefault_def Let_def)

lemma new_intents_keys:
  "fst ` set (new_intents env st frozen su missing r policy) - {entry_time env frozen}
    = fst ` set (pp_entry_intents st) - {entry_time env frozen}"
proof -
  have "map_of (new_intents env st frozen su missing r policy) t = map_of (pp_entry_intents st) t"
    if "t \<noteq> entry_time env frozen" for t
    using that by (auto simp: new_intents_def setdefault_def Let_def delete_conv)
  then show ?thesis by (auto simp: set_eq_iff) (metis (no_types) map_of_eq_None_iff image_eqI fst_conv)+
qed

lemma replay_again:
  assumes "sorted (map ca_observed_at frozen)" and "frozen \<noteq> []" and "0 < period env"
    and "pp_entry_intents st' = new_intents env st frozen su missing r policy"
  shows "simulate_protected_trades (replay_env env st' news) s frozen cfg
    = simulate_protected_trades (replay_env env st news) s frozen cfg"
proof -
  have env: "replay_env env x news = (replay_env env st news)\<lparr>sm_allowed := Some (map fst (pp_entry_intents x))\<rparr>" for x
    by (simp add: replay_env_def)
  have "ca_observed_at c \<noteq> entry_time env frozen" if "c \<in> set frozen" for c
    using sorted_last_ge[OF assms(1) that] assms(3) by (simp add: entry_time_def)
  then have "ca_observed_at c \<in> set (map fst (pp_entry_intents st')) \<longleftrightarrow> ca_observed_at c \<in> set (map fst (pp_entry_intents st))"
    if "c \<in> set frozen" for c
    using that new_intents_keys[of env st frozen su missing r policy] unfolding assms(4) set_map by blast
  then show ?thesis unfolding env[of st'] by (subst (2) env) (intro simulate_allowed_same ballI)
qed

lemma withdraw_withdraw [simp]: "withdraw a b (withdraw c d x) = withdraw a b x"
  by (simp add: withdraw_def)

lemma withdraw_status [simp]: "su_status (withdraw a b x) = a"
  by (simp add: withdraw_def)

lemma guarded_setup_facts [simp]:
  "withdraw a b (guarded_setup x su) = withdraw a b su"
  "su_status (guarded_setup (Some reason) su) \<noteq> ''SIGNAL''"
  by (auto simp: guarded_setup_def split: option.split)

lemma setup_again:
  assumes "current_setup env s st True frozen = Inr su"
  obtains base cx where "su = guarded_setup (blocking_reason st True cx) base"
    "\<And>st'. current_setup env s st' True frozen = Inr (guarded_setup (blocking_reason st' True cx) base)"
  using assms by (auto simp: current_setup_def)

lemma session_again:
  assumes "st' = observed_session env s st frozen su missing r account"
    and "news_captured env s st' frozen = news_captured env s st frozen"
    and "new_intents env st' frozen su' missing r (am_policy_passed account)
      = new_intents env st frozen su missing r (am_policy_passed account)"
    and "shown_signal env st' su' missing r (am_policy_passed account)
      = shown_signal env st su missing r (am_policy_passed account)"
  shows "observed_session env s st' frozen su' missing r account = st'"
  unfolding observed_session_def[of env s st'] assms(2-4) Let_def
  by (simp add: assms(1) observed_session_def checked_session_def Let_def)

lemma intents_again:
  assumes "pp_entry_intents st' = new_intents env st frozen su missing r policy"
    and "pp_started_at st' = pp_started_at st" and "pp_entry_cutoff st' = pp_entry_cutoff st"
    and "policy \<and> \<not> missing \<Longrightarrow> su' = su" and "\<not> (policy \<and> \<not> missing) \<Longrightarrow> su_status su' \<noteq> ''SIGNAL''"
  shows "new_intents env st' frozen su' missing r policy = new_intents env st frozen su missing r policy"
proof (cases "policy \<and> \<not> missing")
  case True
  with assms show ?thesis by (auto simp: new_intents_def records_intent_def setdefault_def Let_def split: option.splits)
next
  case False
  let ?t = "entry_time env frozen"
  have absent: "AList.delete ?t d = d" if "map_of d ?t = None" for d :: "(timestamp, entry_intent) dict"
    using that by (simp add: map_of_eq_None_iff delete_id)
  have "new_intents env st frozen su missing r policy = pp_entry_intents st"
    using False absent[of "pp_entry_intents st"] by (auto simp: new_intents_def setdefault_def Let_def delete_update_same)
  with False assms(1,5) absent[of "pp_entry_intents st"] show ?thesis
    by (auto simp: new_intents_def[of env st'] records_intent_def Let_def)
qed

section \<open>Properties\<close>

text \<open>C17: A forward observation always returns: with a positive timeframe the scan for missing bars ends, whatever
  the candles and the hours of the session, and it finds exactly the instants between two successive candles, a
  number of periods after the first, at which the market is open.\<close>
theorem observation_returns:
  assumes "0 < pe_timeframe_seconds env"
  shows "observe env s paper incoming st \<noteq> None
    \<and> missing_bars zone ac (period env) begins candles = Some (bar_missing zone ac (period env) begins candles)"
proof -
  have "0 < period env" using assms by (simp add: period_def)
  then show ?thesis by (auto simp: observe_def missing_bars_returns split: sum.split)
qed

text \<open>C15: Forward paper evidence is decided ahead of its outcome: in a session reached by any number of ticks, each
  with any candles, every simulated trade was entered at an instant for which an intent had been recorded, at
  that instant or at most a quarter of the timeframe after it, while its bar was still open, from a setup whose
  entry conditions were met.\<close>
theorem paper_evidence_recorded_ahead:
  assumes "paper_reachable tf s st"
  shows "\<forall>x \<in> set (map fst (pp_trades st)). \<exists>i. map_of (pp_entry_intents st) (sx_entered_at x) = Some i
    \<and> sx_entered_at x \<le> ei_observed_at i \<and> 4 * (ei_observed_at i - sx_entered_at x) \<le> seconds tf
    \<and> su_status (ei_signal i) = ''SIGNAL''"
  using session_ok_reachable[OF assms] by (fastforce simp: session_ok_def timely_def)

text \<open>C16: Duplicate delivery of a tick is harmless: in a reached session whose loss limits are not recorded as
  breached, observing the same candles at the same instant once more gives exactly the session the first
  observation gave.\<close>
theorem duplicate_tick_idempotent:
  assumes "paper_reachable tf s st" and "pp_policy_passed st \<noteq> Some False"
    and "pe_timeframe_seconds env = tf" and "0 < tf"
    and "observe env s True incoming st = Some (Inr st')"
  shows "observe env s True incoming st' = Some (Inr st')"
proof -
  from assms(5) obtain frozen su missing r account where obs: "observed_candles env st incoming = Inr frozen"
    and su: "current_setup env s st True frozen = Inr su"
    and missing: "missing_bars (pe_zone env) (ss_asset_class s) (period env) (pp_started_at st) frozen = Some missing"
    and run: "simulate_protected_trades (replay_env env st (news_captured env s st frozen)) s frozen (pe_configuration env) = Inr r"
    and account: "risk_normalized_account_metrics (si_trades r) (map (pe_day_of env \<circ> sx_exited_at) (si_attribution r))
       (pe_configuration env) (ss_risk_per_trade s) = Inr account"
    and st': "st' = observed_session env s st frozen su missing r account"
    by (rule observe_paperD)
  from setup_again[OF su] obtain base cx where base: "su = guarded_setup (blocking_reason st True cx) base"
    and su': "current_setup env s st' True frozen = Inr (guarded_setup (blocking_reason st' True cx) base)" by metis
  let ?su = "guarded_setup (blocking_reason st' True cx) base" and ?policy = "am_policy_passed account"
  have "paper_reachable tf s st'" by (rule paper_reachable.tick[OF assms(1,3,5)])
  from session_ok_reachable[OF this] have sorted: "sorted (map ca_observed_at frozen)" by (simp add: session_ok_def st')
  have pos: "0 < period env" using assms(3,4) by (simp add: period_def)
  note again = observed_again[OF obs, of st'] news_again[of st' st env s frozen]
  have frozen: "observed_candles env st' incoming = Inr frozen" "frozen \<noteq> []"
    and news: "news_captured env s st' frozen = news_captured env s st frozen"
    using again by (simp_all add: st')
  have run': "simulate_protected_trades (replay_env env st' (news_captured env s st' frozen)) s frozen (pe_configuration env) = Inr r"
    unfolding news using replay_again[OF sorted frozen(2) pos, of st' st su missing r ?policy] run by (simp add: st')
  have fields: "pp_policy_passed st' = Some ?policy" "pp_data_complete st' \<longleftrightarrow> pp_data_complete st \<and> \<not> missing"
    "pp_started_at st' = pp_started_at st" "pp_entry_cutoff st' = pp_entry_cutoff st"
    "pp_entry_intents st' = new_intents env st frozen su missing r ?policy"
    by (simp_all add: st')
  have "observed_session env s st' frozen ?su missing r account = st'"
  proof (rule session_again[OF st' news])
    show "new_intents env st' frozen ?su missing r ?policy = new_intents env st frozen su missing r ?policy"
      using fields base assms(2) by (intro intents_again) (auto simp: blocking_reason_def)
    show "shown_signal env st' ?su missing r ?policy = shown_signal env st su missing r ?policy"
      using fields base assms(2)
      by (cases "?policy \<and> \<not> missing") (auto simp: shown_signal_def blocking_reason_def)
  qed
  then show ?thesis
    using frozen su' missing run' account fields(3) by (simp add: observe_def replay_session_def)
qed

section \<open>Witnesses\<close>

definition demo_env :: "timestamp \<Rightarrow> paper_env" where
  "demo_env now = \<lparr>pe_technical = no_indicators, pe_zone = (\<lambda>_ _. (0, 12, 0)), pe_day_of = (\<lambda>_. ''2026-01-05T00:00:00+00:00''),
     pe_now = now, pe_timeframe_seconds = 60, pe_configuration = demo_config, pe_calendar = None\<rparr>"

theorem observation_returns_witness:
  "observe (demo_env 0) demo_plain True [] (started_session 0 10) \<noteq> None
   \<and> missing_bars (\<lambda>_ _. (0, 12, 0)) None (minutes 1) 0 [demo_candle 0 100, demo_candle 3 100] = Some True"
proof -
  have "0 < pe_timeframe_seconds (demo_env 0)" by (simp add: demo_env_def)
  note returns = observation_returns[OF this, of demo_plain True "[]" "started_session 0 10" "\<lambda>_ _. (0, 12, 0)" None 0
      "[demo_candle 0 100, demo_candle 3 100]"]
  have "bar_missing (\<lambda>_ _. (0, 12, 0)) None (minutes 1) 0 [demo_candle 0 100, demo_candle 3 100]"
    unfolding bar_missing_def
    by (intro exI[of _ 0]) (simp add: demo_candle_def session_closed_def weekend_closed_def)
  with returns show ?thesis by (simp add: period_def demo_env_def)
qed

lemma simulate_skip:
  "(\<forall>k. i \<le> k \<and> k < j \<longrightarrow> entry_at env s rules cfg cs series k = Inr None) \<Longrightarrow> i \<le> j \<Longrightarrow> j \<le> length cs \<Longrightarrow>
    simulate_from env s rules cfg cs series i acc = simulate_from env s rules cfg cs series j acc"
proof (induction "j - i" arbitrary: i)
  case (Suc n)
  then have "entry_at env s rules cfg cs series i = Inr None" "i < length cs" by auto
  then have "simulate_from env s rules cfg cs series i acc = simulate_from env s rules cfg cs series (i + 1) acc"
    by (subst simulate_from.simps) simp
  with Suc(1)[of "i + 1"] Suc(2-5) show ?case by simp
qed simp

text \<open>Six quiet bars, the setup they give, and the bar that falls through the stop.\<close>

definition demo_quiet :: "candle list" where
  "demo_quiet = map (\<lambda>i. demo_candle i 100) [0, 1, 2, 3, 4, 5]"

definition demo_fall :: candle where
  "demo_fall = \<lparr>ca_observed_at = minutes 6, ca_open = 100, ca_high = 110, ca_low = 10, ca_close = 10, ca_volume = 1\<rparr>"

definition demo_feed :: "candle list" where
  "demo_feed = demo_quiet @ [demo_fall]"

lemma demo_quiet_features:
  "map_of (candle_features (demo_quiet @ cs) 5 20 None) ''close'' = Some 100"
  "map_of (candle_features (demo_quiet @ cs) 5 20 None) ''volatility'' = Some 2"
  "map_of (candle_features (demo_quiet @ cs) 5 20 None) ''regime_ready'' = Some 0"
  by (simp_all add: candle_features_def regime_features_def Let_def demo_quiet_def slice_def demo_candle_def
      d_mean_def candle_range_def d_sum_def dec_defs dec8_numeral last_n_def)

definition demo_setup :: indicative_setup where
  "demo_setup = \<lparr>su_status = ''SIGNAL'',
     su_reason = ''Entry conditions met; use the next bar open and recalculate protection at fill'',
     su_regime_key = Some ''UNKNOWN:UNKNOWN:UNKNOWN'', su_observed_at = Some (minutes 5), su_expires_at = Some (minutes 7),
     su_entry = Some 100, su_stop_loss = Some 98,
     su_take_profits = [\<lparr>sg_price = 102, sg_reward_risk = 1, sg_fraction = 1 / 2\<rparr>,
                        \<lparr>sg_price = 104, sg_reward_risk = 2, sg_fraction = 1 / 2\<rparr>],
     su_execution_authorized = False\<rparr>"

lemma demo_quiet_setup:
  "build_strategy_setup no_indicators (\<lambda>_ _. (0, 12, 0)) demo_plain demo_quiet 360000000 60 None None = Inr demo_setup"
proof -
  have p: "atr_period demo_plain = None" "structure_window demo_plain = 20" "required_technical_features demo_plain = []"
    by code_simp+
  have l: "protection_levels demo_rules 100 2 None = Inr (98, [102, 104])" by code_simp
  have q: "length demo_quiet = 6" "last demo_quiet = demo_candle 5 100" by (simp_all add: demo_quiet_def)
  have d: "ss_trade_rules demo_plain = Some demo_rules" "ss_asset_class demo_plain = None" "ss_regimes demo_plain = []"
    by (simp_all add: demo_plain_def demo_strategy_def)
  let ?f = "dupdate (strategy_features no_indicators demo_plain demo_quiet 5) (news_features (hd (ss_instruments demo_plain)) 360000000 None None)"
  have f: "map_of ?f ''close'' = Some 100" "map_of ?f ''volatility'' = Some 2" "map_of ?f ''regime_ready'' = Some 0"
    "map_of ?f ''news_regime'' = Some (- 2)"
    using demo_quiet_features[of "[]"]
    by (simp_all add: strategy_features_def p technical_feature_series_def dupdate_def news_features_def news_state_def news_value_def)
  have regime: "rbind (regime_from_features ?f) regime_key = Inr ''UNKNOWN:UNKNOWN:UNKNOWN''"
    by (simp add: regime_from_features_def news_regime_def f regime_key_def)
  show ?thesis
    using regime demo_signal[OF f(1)]
    by (auto simp: build_strategy_setup_def d q Let_def weekend_closed_def demo_candle_def regime_matches_def
        priced_setup_def feature_def f l setup_targets_def d_divide_def dec_defs dec8_numeral demo_setup_def waiting_setup_def)
qed

definition demo_begin :: paper_session where
  "demo_begin = started_session 0 6000000000"

lemma demo_begin_simps [simp]:
  "pp_candles demo_begin = []" "pp_entry_intents demo_begin = []" "pp_started_at demo_begin = 0"
  "pp_policy_passed demo_begin = None" "pp_data_complete demo_begin" "pp_news_contexts demo_begin = []"
  "pp_entry_cutoff demo_begin = Some 6000000000"
  by (simp_all add: demo_begin_def started_session_def)

lemma no_account: "risk_normalized_account_metrics [] [] cfg rp = Inr (account_result cfg (account_start cfg))"
  by (simp add: risk_normalized_account_metrics_def)

lemma demo_replay:
  assumes "\<forall>k. 2 \<le> k \<and> k < length cs \<longrightarrow> ca_observed_at (cs ! k) \<notin> set ms" and "2 \<le> length cs"
    and "sm_allowed env = Some ms"
  shows "simulate_protected_trades env demo_plain cs cfg = Inr no_trades"
proof -
  have "entry_at env demo_plain rules cfg cs series k = Inr None" if "2 \<le> k" "k < length cs" for rules series k
    using assms(1,3) that by (simp add: entry_at_def Let_def)
  then have "simulate_from env demo_plain rules cfg cs series 2 no_trades
      = simulate_from env demo_plain rules cfg cs series (length cs) no_trades" for rules series
    using assms(2) by (intro simulate_skip) auto
  moreover have "simulate_from env demo_plain rules cfg cs series (length cs) no_trades = Inr no_trades" for rules series
    by (subst simulate_from.simps) simp
  ultimately show ?thesis
    by (simp add: simulate_protected_trades_def demo_plain_def demo_strategy_def)
qed

lemma demo_env_simps [simp]:
  "pe_technical (demo_env t) = no_indicators" "pe_zone (demo_env t) = (\<lambda>_ _. (0, 12, 0))" "pe_now (demo_env t) = t"
  "pe_timeframe_seconds (demo_env t) = 60" "pe_configuration (demo_env t) = demo_config" "pe_calendar (demo_env t) = None"
  "period (demo_env t) = 60000000"
  by (simp_all add: demo_env_def period_def)

lemma demo_quiet_observed: "observed_candles (demo_env 360000000) demo_begin demo_quiet = Inr demo_quiet"
  by (simp add: observed_candles_def closed_candles_def demo_quiet_def demo_candle_def Let_def candle_prices_def
      py_max_def py_min_def frozen_candles_def last_n_def)

definition demo_session :: paper_session where
  "demo_session = observed_session (demo_env 360000000) demo_plain demo_begin demo_quiet demo_setup False no_trades
     (account_result demo_config (account_start demo_config))"

lemma demo_first_tick: "observe (demo_env 360000000) demo_plain True demo_quiet demo_begin = Some (Inr demo_session)"
proof -
  have tick: "cfg_tick_size demo_config = None" by (simp add: demo_config_def)
  have unblocked: "entry_context_reason (\<lambda>_ _. (0, 12, 0)) demo_plain 360000000 None = Inr None"
    using demo_context[of 360000000] by (simp add: demo_sim_def)
  have su: "current_setup (demo_env 360000000) demo_plain demo_begin True demo_quiet = Inr demo_setup"
    using demo_quiet_setup by (simp add: current_setup_def tick unblocked blocking_reason_def guarded_setup_def)
  have gaps: "missing_bars (\<lambda>_ _. (0, 12, 0)) (ss_asset_class demo_plain) 60000000 0 demo_quiet = Some False"
    by (simp add: demo_quiet_def demo_candle_def)
  have run: "simulate_protected_trades (replay_env (demo_env 360000000) demo_begin news) demo_plain demo_quiet demo_config = Inr no_trades" for news
    by (rule demo_replay[of _ "[]"]) (simp_all add: replay_env_def demo_quiet_def)
  have none: "si_trades no_trades = []" "si_attribution no_trades = []" by (simp_all add: no_trades_def)
  show ?thesis
    using gaps by (simp add: observe_def demo_quiet_observed su replay_session_def run no_account none demo_session_def)
qed

lemma demo_session_simps [simp]:
  "pp_candles demo_session = demo_quiet"
  "pp_entry_intents demo_session = [(360000000, \<lparr>ei_observed_at = 360000000, ei_signal = demo_setup\<rparr>)]"
  "pp_started_at demo_session = 0" "pp_data_complete demo_session" "pp_policy_passed demo_session = Some True"
proof -
  have "entry_time (demo_env 360000000) demo_quiet = 360000000"
    by (simp add: entry_time_def demo_quiet_def demo_candle_def)
  moreover have passed: "am_policy_passed (account_result demo_config (account_start demo_config))"
    by (simp add: account_result_def account_start_def demo_config_def)
  moreover have "records_intent (demo_env 360000000) demo_begin demo_quiet demo_setup False no_trades"
    using calculation(1) by (simp add: records_intent_def no_trades_def demo_setup_def opens_just_now_def)
  ultimately show "pp_entry_intents demo_session = [(360000000, \<lparr>ei_observed_at = 360000000, ei_signal = demo_setup\<rparr>)]"
    by (simp add: demo_session_def new_intents_def setdefault_def)
  show "pp_candles demo_session = demo_quiet" "pp_started_at demo_session = 0" "pp_data_complete demo_session"
    "pp_policy_passed demo_session = Some True"
    by (simp_all add: demo_session_def passed)
qed

lemma demo_reached: "paper_reachable 60 demo_plain demo_begin" "paper_reachable 60 demo_plain demo_session"
proof -
  show begun: "paper_reachable 60 demo_plain demo_begin" unfolding demo_begin_def by (rule paper_reachable.start)
  show "paper_reachable 60 demo_plain demo_session"
    by (rule paper_reachable.tick[OF begun _ demo_first_tick]) simp
qed

theorem duplicate_tick_idempotent_witness:
  "observe (demo_env 360000000) demo_plain True demo_quiet demo_session = Some (Inr demo_session)
   \<and> map fst (pp_entry_intents demo_session) = [360000000]"
  using duplicate_tick_idempotent[OF demo_reached(1) _ _ _ demo_first_tick] by simp

text \<open>The next tick fills the recorded intent, and the bar stops it out.\<close>

lemma demo_feed_facts:
  "length demo_feed = 7" "demo_feed ! 6 = demo_fall" "last demo_feed = demo_fall" "demo_feed ! 5 = demo_candle 5 100"
  by (simp_all add: demo_feed_def demo_quiet_def)

lemma demo_feed_features:
  "map_of (candle_features demo_feed 6 20 None) ''close'' = Some 10"
  "map_of (candle_features demo_feed 6 20 None) ''volatility'' = Some (108 / 5)"
  "map_of (candle_features demo_feed 6 20 None) ''regime_ready'' = Some 0"
  by (simp_all add: candle_features_def regime_features_def Let_def demo_feed_def demo_quiet_def demo_fall_def slice_def
      demo_candle_def d_mean_def candle_range_def d_sum_def dec_defs dec8_numeral last_n_def dctx_dec8 dec8_def)

lemma demo_plain_features: "strategy_features no_indicators demo_plain cs k = candle_features cs k 20 None"
proof -
  have p: "atr_period demo_plain = None" "structure_window demo_plain = 20" "required_technical_features demo_plain = []"
    by code_simp+
  show ?thesis by (simp add: strategy_features_def p technical_feature_series_def dupdate_def)
qed

lemma demo_feed_series: "i < 7 \<Longrightarrow> strategy_feature_series no_indicators demo_plain demo_feed ! i = candle_features demo_feed i 20 None"
proof -
  assume i: "i < 7"
  have p: "atr_period demo_plain = None" "structure_window demo_plain = 20" "required_technical_features demo_plain = []"
    by code_simp+
  from i feature_series[of demo_plain no_indicators demo_feed] show ?thesis
    by (simp add: p technical_feature_series_def dupdate_def demo_feed_facts)
qed

lemma demo_feed_setup:
  obtains su where "build_strategy_setup no_indicators (\<lambda>_ _. (0, 12, 0)) demo_plain demo_feed 420000000 60 None None = Inr su"
proof -
  have l: "protection_levels demo_rules 10 (108 / 5) None
      = Inl (ValueError ''strategy protection cannot produce distinct positive prices'')" by code_simp
  have d: "ss_trade_rules demo_plain = Some demo_rules" "ss_asset_class demo_plain = None" "ss_regimes demo_plain = []"
    by (simp_all add: demo_plain_def demo_strategy_def)
  let ?f = "dupdate (candle_features demo_feed 6 20 None) (news_features (hd (ss_instruments demo_plain)) 420000000 None None)"
  have f: "map_of ?f ''close'' = Some 10" "map_of ?f ''volatility'' = Some (108 / 5)" "map_of ?f ''regime_ready'' = Some 0"
    using demo_feed_features by (simp_all add: dupdate_def news_features_def news_state_def news_value_def)
  have regime: "rbind (regime_from_features ?f) regime_key = Inr ''UNKNOWN:UNKNOWN:UNKNOWN''"
    by (simp add: regime_from_features_def news_regime_def f regime_key_def split: option.split)
  show thesis
    using regime
    by (intro that) (auto simp: build_strategy_setup_def d Let_def weekend_closed_def demo_feed_facts demo_fall_def regime_matches_def
        demo_plain_features priced_setup_def feature_def f l waiting_setup_def)
qed

definition demo_replay_env :: simulation_env where
  "demo_replay_env = replay_env (demo_env 420000000) demo_session (news_captured (demo_env 420000000) demo_plain demo_session demo_feed)"

lemma demo_replay_env_simps [simp]:
  "sm_technical demo_replay_env = no_indicators" "sm_allowed demo_replay_env = Some [360000000]"
  "sm_close_at_end demo_replay_env = False"
  by (simp_all add: demo_replay_env_def replay_env_def)

definition demo_fill :: entry_fill where
  "demo_fill = \<lparr>ef_at = 360000000,
     ef_features = AList.update ''news_regime'' (- 2) (candle_features demo_feed 5 20 None),
     ef_price = 100, ef_stop = 98, ef_targets = [102, 104]\<rparr>"

lemma demo_replay_news: "news_at demo_replay_env demo_plain t = [(''news_regime'', - 2)]"
proof -
  have "dget (news_captured (demo_env 420000000) demo_plain demo_session demo_feed) t ''UNKNOWN'' = ''UNKNOWN''"
    by (simp add: news_captured_def setdefault_def Let_def dget_def demo_session_def news_state_def)
  then show ?thesis
    by (simp add: news_at_def demo_replay_env_def replay_env_def news_features_def news_value_def)
qed

lemma demo_fill_entry:
  "entry_at demo_replay_env demo_plain demo_rules demo_config demo_feed
     (strategy_feature_series no_indicators demo_plain demo_feed) 6 = Inr (Some demo_fill)"
proof -
  have l: "protection_levels demo_rules 100 2 None = Inr (98, [102, 104])" by code_simp
  have c: "ca_observed_at (demo_feed ! 6) = 360000000" "ca_open (demo_feed ! 6) = 100"
    by (simp_all add: demo_feed_facts demo_fall_def)
  let ?f = "AList.update ''news_regime'' (- 2) (candle_features demo_feed 5 20 None)"
  have b: "bar_features demo_replay_env demo_plain demo_feed (strategy_feature_series no_indicators demo_plain demo_feed) 6 = ?f"
    by (simp add: bar_features_def demo_feed_series demo_replay_news dupdate_def)
  have f: "map_of ?f ''close'' = Some 100" "map_of ?f ''volatility'' = Some 2"
    using demo_quiet_features[of "[demo_fall]"] by (simp_all add: demo_feed_def)
  have d: "tr_direction demo_rules = LONG" "cfg_slippage demo_config = 0" "cfg_tick_size demo_config = None"
    by (simp_all add: demo_rules_def demo_config_def)
  show ?thesis
    unfolding entry_at_def Let_def b c
    using demo_signal[OF f(1)] f(2) by (simp add: d feature_def l demo_fill_def d_add_def dec8_numeral)
qed

lemma demo_fill_closed:
  obtains r x where "simulate_protected_trades demo_replay_env demo_plain demo_feed demo_config = Inr r"
    "si_attribution r = [x]" "sx_entered_at x = 360000000"
proof -
  let ?f = "strategy_feature_series no_indicators demo_plain demo_feed"
  let ?run = "simulate_from demo_replay_env demo_plain demo_rules demo_config demo_feed ?f"
  let ?st = "bar_step demo_replay_env demo_plain demo_config LONG demo_feed ?f demo_fill 6 (opened demo_fill)"
  have s: "ps_remaining ?st = 0" "ps_pnl ?st = - 2"
    by (simp_all add: bar_step_def demo_feed_facts bar_fills_def excursion_def opened_def demo_fill_def demo_fall_def
        side_sign_def demo_config_def fill_exit_def add_exit_def dec_defs dec8_numeral Let_def)
  have "hold_position demo_replay_env demo_plain demo_config LONG demo_feed ?f demo_fill 7 ?st = (7, ?st)"
    using s(1) by (subst hold_position.simps) simp
  then have h: "hold_position demo_replay_env demo_plain demo_config LONG demo_feed ?f demo_fill 6 (opened demo_fill) = (7, ?st)"
    by (subst hold_position.simps) (simp add: opened_def demo_feed_facts)
  have f: "map_of (ef_features demo_fill) ''regime_ready'' = Some 0" "entry_risk demo_fill = 2" "ef_at demo_fill = 360000000"
    using demo_quiet_features(3)[of "[demo_fall]"]
    by (simp_all add: demo_fill_def entry_risk_def dec_defs dec8_numeral demo_feed_def)
  obtain acc x where c: "close_trade demo_config LONG demo_fill ?st no_trades = Inr acc"
    "si_attribution acc = [x]" "sx_entered_at x = 360000000"
    by (simp add: close_trade_def f d_divide_def regime_from_features_def regime_key_def no_trades_def Let_def)
  have "?run 7 acc = Inr acc" by (subst simulate_from.simps) (simp add: demo_feed_facts)
  then have "?run 6 no_trades = Inr acc"
    using demo_fill_entry h s(1) c(1) by (subst simulate_from.simps) (simp add: demo_feed_facts demo_rules_def[THEN arg_cong, of tr_direction])
  moreover have "entry_at demo_replay_env demo_plain demo_rules demo_config demo_feed ?f k = Inr None" if "2 \<le> k" "k < 6" for k
  proof -
    have "k \<in> {2, 3, 4, 5}" using that by auto
    then show ?thesis by (auto simp: entry_at_def demo_feed_def demo_quiet_def demo_candle_def Let_def)
  qed
  then have "?run 2 no_trades = ?run 6 no_trades"
    by (intro simulate_skip) (auto simp: demo_feed_facts)
  ultimately show thesis
    using c by (intro that[of acc x]) (simp_all add: simulate_protected_trades_def demo_plain_def demo_strategy_def)
qed

lemma demo_second_tick:
  obtains st x p where "observe (demo_env 420000000) demo_plain True demo_feed demo_session = Some (Inr st)"
    "pp_trades st = [(x, p)]" "sx_entered_at x = 360000000"
proof -
  obtain r x where r: "simulate_protected_trades demo_replay_env demo_plain demo_feed demo_config = Inr r"
    "si_attribution r = [x]" "sx_entered_at x = 360000000" by (rule demo_fill_closed)
  obtain su where su: "build_strategy_setup no_indicators (\<lambda>_ _. (0, 12, 0)) demo_plain demo_feed 420000000 60 None None = Inr su"
    by (rule demo_feed_setup)
  have unblocked: "entry_context_reason (\<lambda>_ _. (0, 12, 0)) demo_plain 420000000 None = Inr None"
    using demo_context[of 420000000] by (simp add: demo_sim_def)
  have tick: "cfg_tick_size demo_config = None" by (simp add: demo_config_def)
  have observed: "observed_candles (demo_env 420000000) demo_session demo_feed = Inr demo_feed"
    by (simp add: observed_candles_def closed_candles_def demo_feed_def demo_fall_def demo_quiet_def demo_candle_def Let_def
        candle_prices_def py_max_def py_min_def frozen_candles_def)
  have gaps: "missing_bars (\<lambda>_ _. (0, 12, 0)) (ss_asset_class demo_plain) 60000000 0 demo_feed = Some False"
    by (simp add: demo_feed_def demo_quiet_def demo_candle_def demo_fall_def)
  have "is_ok (validate_candles 6 demo_feed)" by code_simp
  then obtain u where "validate_candles 6 demo_feed = Inr u" by (auto elim!: is_okE)
  from protected_trades_measured[OF r(1) demo_plain_valid this] r(2)
  have measured: "length (si_trades r) = 1" "\<not> list_ex (\<lambda>t. tl_risk t \<le> 0) (si_trades r)"
    by (auto simp: list_all_iff list_ex_iff)
  define exits where "exits = [pe_day_of (demo_env 420000000) 360000000]"
  define pnls where "pnls = account_pnls (ss_risk_per_trade demo_plain) (cfg_initial_equity demo_config) (si_trades r)"
  define account where "account = account_result demo_config (book (map exit_day exits) pnls (account_start demo_config))"
  have "length exits = length (si_trades r)" using measured(1) by (simp add: exits_def)
  from account_metrics_run[OF this measured(2)]
  have account: "risk_normalized_account_metrics (si_trades r) exits demo_config (ss_risk_per_trade demo_plain) = Inr account"
    by (simp add: account_def pnls_def)
  have "booked demo_config (map exit_day exits) pnls (book (map exit_day exits) pnls (account_start demo_config))"
    by (rule booked_fold) (simp add: exits_def pnls_def measured(1))
  then have "am_account_pnls account = pnls" by (simp add: account_def account_result_def booked_def)
  moreover obtain p where "pnls = [p]" using measured(1) by (cases "si_trades r") (auto simp: pnls_def Let_def)
  ultimately have p: "am_account_pnls account = [p]" by simp
  have at: "map (pe_day_of (demo_env 420000000) \<circ> sx_exited_at) (si_attribution r) = exits"
    by (simp add: r(2) exits_def demo_env_def)
  have replayed: "simulate_protected_trades (replay_env (demo_env 420000000) demo_session
      (news_captured (demo_env 420000000) demo_plain demo_session demo_feed)) demo_plain demo_feed demo_config = Inr r"
    using r(1) by (simp add: demo_replay_env_def)
  let ?su = "guarded_setup (blocking_reason demo_session True None) su"
  have "observe (demo_env 420000000) demo_plain True demo_feed demo_session
      = Some (Inr (observed_session (demo_env 420000000) demo_plain demo_session demo_feed ?su False r account))"
    using gaps by (simp add: observe_def observed current_setup_def tick su unblocked replay_session_def replayed at account)
  then show thesis
    by (rule that[where x = x and p = p]) (simp_all add: r p)
qed

theorem paper_evidence_recorded_ahead_witness:
  "\<exists>st x p i. paper_reachable 60 demo_plain st \<and> pp_trades st = [(x, p)]
     \<and> map_of (pp_entry_intents st) (sx_entered_at x) = Some i \<and> 4 * (ei_observed_at i - sx_entered_at x) \<le> seconds 60"
proof -
  obtain st x p where st: "observe (demo_env 420000000) demo_plain True demo_feed demo_session = Some (Inr st)"
    "pp_trades st = [(x, p)]" by (rule demo_second_tick)
  have reached: "paper_reachable 60 demo_plain st"
    by (rule paper_reachable.tick[OF demo_reached(2) _ st(1)]) simp
  from paper_evidence_recorded_ahead[OF this] st(2) reached show ?thesis by fastforce
qed

end
