(* ===== verification/Lifecycle.thy ===== *)
theory Lifecycle
  imports Paper Connections
begin

text \<open>
  The validation lifecycle of a strategy: \<open>modules/strategies/lifecycle.py\<close> and \<open>autonomy.py\<close>, the basis of a
  backtest (\<open>modules/backtesting/basis.py\<close>), the routes of \<open>apps/api/app/routes/strategies.py\<close> that take a
  proposal to a version, backtest it, observe it forward, review and activate it, and the worker tasks
  \<open>strategies.py\<close>, \<open>strategy_autonomy.py\<close> and \<open>strategy_monitoring.py\<close> that do the same unattended.

  The rows these handlers read and write are typed records in a \<open>strategy_world\<close>; a handler that raises
  leaves the world as it was, as its transaction is rolled back.  What is computed elsewhere is an
  argument: the digest of a specification, the statistics of a backtest that are computed with binary
  floats, the event-driven execution check (NautilusTrader), the health verdict over a window of results.
\<close>

section \<open>States and transitions\<close>

datatype strategy_state =
    DRAFT | SPECIFIED | IMPLEMENTED | BACKTESTING | VALIDATING | PAPER_TRADING | APPROVED | ACTIVE
  | DEGRADED | SUSPENDED | RETIRED

fun ALLOWED :: "strategy_state \<Rightarrow> strategy_state list" where
  "ALLOWED DRAFT = [SPECIFIED]"
| "ALLOWED SPECIFIED = [IMPLEMENTED]"
| "ALLOWED IMPLEMENTED = [BACKTESTING]"
| "ALLOWED BACKTESTING = [VALIDATING]"
| "ALLOWED VALIDATING = [PAPER_TRADING]"
| "ALLOWED PAPER_TRADING = [APPROVED]"
| "ALLOWED APPROVED = [ACTIVE]"
| "ALLOWED ACTIVE = [DEGRADED, SUSPENDED, RETIRED]"
| "ALLOWED DEGRADED = [ACTIVE, SUSPENDED, RETIRED]"
| "ALLOWED SUSPENDED = [ACTIVE, RETIRED]"
| "ALLOWED RETIRED = []"

definition strategy_transition :: "strategy_state \<Rightarrow> strategy_state \<Rightarrow> strategy_state res" where
  "strategy_transition current target =
     (if target \<notin> set (ALLOWED current) then Inl (ValueError ''illegal strategy lifecycle transition'') else Inr target)"

section \<open>Rows\<close>

record research_basis =
  rb_market_selection_id :: "uuid option"
  rb_account_id :: "uuid option"
  rb_instrument :: string
  rb_historical_timeframe :: "string option"

record draft_record =
  dr_id :: uuid
  dr_owner_id :: uuid
  dr_state :: string
  dr_origin :: string
  dr_proposed_specification :: "strategy_spec option"
  dr_specification :: "strategy_spec option"
  dr_spec_origin :: string
  dr_human_approval :: "string option"
  dr_approval_authority :: "string option"
  dr_revision :: nat
  dr_research_basis :: "research_basis option"
  dr_selection_cut_at :: "timestamp option"
  dr_version_id :: "uuid option"
  dr_automation_failure :: "string option"
  dr_automation_failure_policy_saved_at :: "string option"

record shown_setup =
  ss_setup :: indicative_setup
  ss_mode :: string
  ss_artifact_hash :: "string option"

record version_record =
  sv_id :: uuid
  sv_owner_id :: uuid
  sv_state :: strategy_state
  sv_strategy_id :: uuid
  sv_specification :: strategy_spec
  sv_fingerprint :: string
  sv_artifact_hash :: string
  sv_research_basis :: "research_basis option"
  sv_selection_cut_at :: "timestamp option"
  sv_validation_evidence :: "(string, bool) dict"
  sv_latest_backtest_id :: "uuid option"
  sv_latest_backtest_state :: "string option"
  sv_retry_after_at :: "timestamp option"
  sv_paper_run_id :: "uuid option"
  sv_latest_signal :: "shown_setup option"
  sv_monitoring_timeframe :: "string option"
  sv_health_suspend :: bool
  sv_activated_at :: "timestamp option"
  sv_automation_failure :: "string option"
  sv_automation_failure_policy_saved_at :: "string option"

record backtest_record =
  bt_owner_id :: uuid
  bt_state :: string
  bt_strategy_version_id :: uuid
  bt_connection_id :: uuid
  bt_account_id :: "uuid option"
  bt_instrument :: string
  bt_timeframe :: string
  bt_start_at :: timestamp
  bt_end_at :: timestamp
  bt_configuration :: backtest_configuration
  bt_started_at :: "timestamp option"
  bt_artifact_hash :: "string option"
  bt_gates :: "(string, bool) dict"
  bt_trigger :: string

record paper_run =
  pn_owner_id :: uuid
  pn_state :: string
  pn_strategy_version_id :: uuid
  pn_artifact_hash :: string
  pn_timeframe :: string
  pn_account_id :: uuid
  pn_instrument :: string
  pn_configuration :: backtest_configuration
  pn_session :: paper_session
  pn_failure :: "string option"
  pn_gates :: "(string, bool) dict"

record performance_row =
  pw_strategy_version_id :: uuid
  pw_backtest_id :: uuid
  pw_account_id :: uuid
  pw_instrument :: string
  pw_connection_id :: uuid
  pw_timeframe :: string
  pw_artifact_hash :: string
  pw_gates :: "(string, bool) dict"
  pw_state :: string

record live_monitor =
  lm_strategy_version_id :: uuid
  lm_artifact_hash :: string
  lm_timeframe :: string
  lm_configuration :: backtest_configuration
  lm_session :: paper_session
  lm_failure :: "string option"

record strategy_world =
  sw_drafts :: "(uuid, draft_record) dict"
  sw_versions :: "(uuid, version_record) dict"
  sw_backtests :: "(uuid, backtest_record) dict"
  sw_paper_runs :: "(uuid, paper_run) dict"
  sw_performance :: "(uuid, performance_row) dict"
  sw_monitors :: "(uuid, live_monitor) dict"

definition put_version :: "version_record \<Rightarrow> strategy_world \<Rightarrow> strategy_world" where
  "put_version v w = w\<lparr>sw_versions := AList.update (sv_id v) v (sw_versions w)\<rparr>"

definition put_draft :: "draft_record \<Rightarrow> strategy_world \<Rightarrow> strategy_world" where
  "put_draft d w = w\<lparr>sw_drafts := AList.update (dr_id d) d (sw_drafts w)\<rparr>"

definition put_backtest :: "uuid \<Rightarrow> backtest_record \<Rightarrow> strategy_world \<Rightarrow> strategy_world" where
  "put_backtest i b w = w\<lparr>sw_backtests := AList.update i b (sw_backtests w)\<rparr>"

definition put_paper_run :: "uuid \<Rightarrow> paper_run \<Rightarrow> strategy_world \<Rightarrow> strategy_world" where
  "put_paper_run i r w = w\<lparr>sw_paper_runs := AList.update i r (sw_paper_runs w)\<rparr>"

text \<open>\<open>{**a, **b}\<close>\<close>

definition merged :: "('k, 'v) dict \<Rightarrow> ('k, 'v) dict \<Rightarrow> ('k, 'v) dict" where
  "merged a b = fold (\<lambda>(k, v). AList.update k v) b a"

section \<open>The basis of a backtest\<close>

record selection_row =
  mr_account_id :: uuid
  mr_connection_binding_id :: "uuid option"
  mr_asset_class :: asset_class
  mr_lane :: string
  mr_symbol :: string
  mr_provider :: string
  mr_source_cut_id :: string
  mr_tick_size :: "decimal option"

record binding_row =
  br_account_id :: uuid
  br_lane :: string
  br_verification_status :: string
  br_connection_id :: uuid

text \<open>The rows of one owner that the basis is resolved from; \<open>bw_connection\<close> is \<open>resolve_connection\<close>.\<close>

record basis_rows =
  bw_selection :: "uuid \<Rightarrow> selection_row option"
  bw_account_state :: "uuid \<Rightarrow> string option"
  bw_binding :: "uuid \<Rightarrow> binding_row option"
  bw_connection :: "uuid \<Rightarrow> (uuid \<times> connection_provider) res"

record backtest_basis =
  bb_account_id :: uuid
  bb_instrument :: string
  bb_asset_class :: asset_class
  bb_connection_binding_id :: uuid
  bb_historical_connection_id :: uuid
  bb_historical_provider :: connection_provider
  bb_historical_timeframe :: string
  bb_research_history_timeframe :: string
  bb_tick_size :: "decimal option"

fun ALLOWED_PROVIDERS :: "asset_class \<Rightarrow> connection_provider list" where
  "ALLOWED_PROVIDERS FOREX = [TWELVE_DATA, MT5_BRIDGE]"
| "ALLOWED_PROVIDERS METALS = [MT5_BRIDGE]"
| "ALLOWED_PROVIDERS CRYPTOCURRENCY = [COINBASE]"
| "ALLOWED_PROVIDERS STOCKS = [TWELVE_DATA, MT5_BRIDGE]"

text \<open>The provider whose value the evidence names; no other provider can be bound to a lane.\<close>

definition source_provider :: "string \<Rightarrow> connection_provider option" where
  "source_provider listed =
     (let name = str_upper listed in
      if name = ''COINBASE'' \<or> name = ''COINBASE_EXCHANGE'' then Some COINBASE
      else if name = ''TWELVE_DATA'' then Some TWELVE_DATA
      else if name = ''MT5_BRIDGE'' then Some MT5_BRIDGE
      else None)"

definition cut_timeframe :: "string \<Rightarrow> string \<Rightarrow> string" where
  "cut_timeframe source_cut fallback =
     dget [(''M1'', ''1m''), (''M5'', ''5m''), (''M15'', ''15m''), (''H1'', ''1h''), (''H4'', ''4h''), (''D1'', ''1d'')]
       (last (str_split CHR '':'' source_cut)) fallback"

definition pinned_basis :: "strategy_world \<Rightarrow> version_record \<Rightarrow> research_basis option" where
  "pinned_basis w v =
     (case sv_research_basis v of
        Some b \<Rightarrow> Some b
      | None \<Rightarrow> (case map_of (sw_drafts w) (sv_strategy_id v) of
                   None \<Rightarrow> None
                 | Some d \<Rightarrow> if dr_owner_id d = sv_owner_id v then dr_research_basis d else None))"

definition verified_binding :: "selection_row \<Rightarrow> binding_row option \<Rightarrow> bool" where
  "verified_binding selection binding \<longleftrightarrow>
     (case binding of
        None \<Rightarrow> False
      | Some b \<Rightarrow> br_account_id b = mr_account_id selection \<and> br_lane b = mr_lane selection
          \<and> br_verification_status b = ''VERIFIED'')"

definition selected_basis :: "basis_rows \<Rightarrow> research_basis \<Rightarrow> selection_row \<Rightarrow> backtest_basis res" where
  "selected_basis rows basis selection =
     rbind (ensure (rb_account_id basis = Some (mr_account_id selection))
              (ValueError ''strategy account differs from the market selection'')) (\<lambda>_.
     rbind (ensure (bw_account_state rows (mr_account_id selection) \<notin> {None, Some ''DELETED''})
              (ValueError ''strategy account is unavailable'')) (\<lambda>_.
     rbind (required (mr_connection_binding_id selection)
              (ValueError ''market selection has no verified provider binding; rerun research'')) (\<lambda>binding_id.
     rbind (ensure (verified_binding selection (bw_binding rows binding_id))
              (ValueError ''strategy account/lane provider binding is no longer verified'')) (\<lambda>_.
     rbind (required (bw_binding rows binding_id) (RuntimeError '''')) (\<lambda>binding.
     rbind (bw_connection rows (br_connection_id binding)) (\<lambda>(connection_id, provider).
     rbind (ensure (provider \<in> set (ALLOWED_PROVIDERS (mr_asset_class selection)))
              (ValueError ''provider cannot backtest the asset class'')) (\<lambda>_.
     rbind (ensure (source_provider (mr_provider selection) = Some provider)
              (ValueError ''bound historical provider differs from the market evidence'')) (\<lambda>_.
     let historical = case_option ''1h'' id (rb_historical_timeframe basis);
         timeframe = (if provider = MT5_BRIDGE then cut_timeframe (mr_source_cut_id selection) historical else historical)
     in Inr \<lparr>bb_account_id = mr_account_id selection, bb_instrument = mr_symbol selection,
             bb_asset_class = mr_asset_class selection, bb_connection_binding_id = binding_id,
             bb_historical_connection_id = connection_id, bb_historical_provider = provider,
             bb_historical_timeframe = timeframe,
             bb_research_history_timeframe = case_option timeframe id (rb_historical_timeframe basis),
             bb_tick_size = mr_tick_size selection\<rparr>))))))))"

definition resolve_backtest_basis ::
    "basis_rows \<Rightarrow> strategy_world \<Rightarrow> version_record \<Rightarrow> backtest_basis res" where
  "resolve_backtest_basis rows w v =
     (case pinned_basis w v of
        None \<Rightarrow> Inl (ValueError ''strategy has no pinned market research selection; research it again'')
      | Some basis \<Rightarrow>
          rbind (required (rb_market_selection_id basis)
                   (ValueError ''strategy has no pinned market research selection; research it again'')) (\<lambda>selection_id.
          rbind (required (bw_selection rows selection_id) (ValueError ''strategy market selection is unavailable''))
            (selected_basis rows basis)))"

fun TIMEFRAMES :: "string \<Rightarrow> int option" where
  "TIMEFRAMES t = map_of [(''1m'', 60), (''5m'', 300), (''15m'', 900), (''1h'', 3600), (''4h'', 14400), (''1d'', 86400)] t"

section \<open>Proposals and versions\<close>

text \<open>A row of the asking owner, found under its id.\<close>

definition locked_version :: "strategy_world \<Rightarrow> uuid \<Rightarrow> uuid \<Rightarrow> version_record res" where
  "locked_version w owner strategy_id =
     (case map_of (sw_versions w) strategy_id of
        None \<Rightarrow> Inl (HTTPException 404 ''strategy version not found'')
      | Some v \<Rightarrow> if sv_owner_id v = owner then Inr v else Inl (HTTPException 404 ''strategy version not found''))"

definition owned_draft :: "strategy_world \<Rightarrow> uuid \<Rightarrow> uuid \<Rightarrow> draft_record res" where
  "owned_draft w owner draft_id =
     (case map_of (sw_drafts w) draft_id of
        None \<Rightarrow> Inl (HTTPException 404 ''strategy draft not found'')
      | Some d \<Rightarrow> if dr_owner_id d = owner then Inr d else Inl (HTTPException 404 ''strategy draft not found''))"

definition decide_strategy_proposal ::
    "uuid \<Rightarrow> uuid \<Rightarrow> string \<Rightarrow> strategy_world \<Rightarrow> strategy_world res" where
  "decide_strategy_proposal owner draft_id action w =
     rbind (owned_draft w owner draft_id) (\<lambda>d.
     rbind (ensure (dr_state d = ''AWAITING_STRATEGY_APPROVAL'')
              (HTTPException 409 ''strategy is not awaiting approval'')) (\<lambda>_.
     if str_upper action = ''REJECT''
     then Inr (put_draft (d\<lparr>dr_state := ''REJECTED'', dr_human_approval := Some ''REJECTED''\<rparr>) w)
     else
       rbind (ensure (str_upper action = ''APPROVE'') (HTTPException 422 ''unsupported decision'')) (\<lambda>_.
       rbind (required (dr_proposed_specification d) (ValidationError ''StrategySpecification'')) (\<lambda>proposed.
       rbind (validate_strategy proposed) (\<lambda>specification.
       Inr (put_draft (d\<lparr>dr_specification := Some specification, dr_state := ''DRAFT'',
                         dr_human_approval := Some ''APPROVED''\<rparr>) w))))))"

definition save_draft ::
    "uuid \<Rightarrow> uuid \<Rightarrow> strategy_spec \<Rightarrow> string \<Rightarrow> strategy_world \<Rightarrow> strategy_world res" where
  "save_draft owner draft_id specification origin w =
     rbind (owned_draft w owner draft_id) (\<lambda>d.
     rbind (ensure (dr_state d \<in> {''DRAFT'', ''SPECIFIED''})
              (HTTPException 409 ''strategy proposal must be approved first'')) (\<lambda>_.
     rbind (ensure (origin = dr_origin d) (HTTPException 422 ''strategy origin is immutable'')) (\<lambda>_.
     Inr (put_draft (d\<lparr>dr_specification := Some specification, dr_revision := dr_revision d + 1\<rparr>) w))))"

record automation_settings =
  ap_enabled :: bool
  ap_backtest_lookback_days :: int
  ap_paper_duration_days :: int
  ap_max_paper_attempts :: nat
  ap_spread :: decimal
  ap_commission :: decimal
  ap_slippage :: decimal

definition default_automation :: automation_settings where
  "default_automation = \<lparr>ap_enabled = False, ap_backtest_lookback_days = 90, ap_paper_duration_days = 30,
     ap_max_paper_attempts = 1, ap_spread = 1 / 10000, ap_commission = 0, ap_slippage = 5 / 100000\<rparr>"

definition automation_policy :: "automation_settings option \<Rightarrow> automation_settings res" where
  "automation_policy stored =
     (let p = (case stored of None \<Rightarrow> default_automation | Some s \<Rightarrow> s) in
      rbind (ensure (7 \<le> ap_backtest_lookback_days p \<and> ap_backtest_lookback_days p \<le> 365
                     \<and> 1 \<le> ap_paper_duration_days p \<and> ap_paper_duration_days p \<le> 90
                     \<and> 1 \<le> ap_max_paper_attempts p \<and> ap_max_paper_attempts p \<le> 5
                     \<and> 0 \<le> ap_spread p \<and> 0 \<le> ap_commission p \<and> 0 \<le> ap_slippage p)
               (ValidationError ''StrategyAutomationPolicy'')) (\<lambda>_.
      rbind (ensure (\<not> (ap_enabled p \<and> d_add (d_add (ap_spread p) (ap_commission p)) (ap_slippage p) \<le> 0))
               (ValidationError ''autonomous validation requires non-zero transaction costs'')) (\<lambda>_.
      Inr p)))"

record account_row =
  aw_state :: string
  aw_starting_balance :: decimal
  aw_automation :: "automation_settings option"
  aw_automation_saved_at :: "string option"

type_synonym account_rows = "uuid \<Rightarrow> uuid \<Rightarrow> account_row option"

text \<open>An approval given by the policy counts only while the account's policy is switched on.\<close>

definition submission_approved :: "account_rows \<Rightarrow> uuid \<Rightarrow> draft_record \<Rightarrow> bool res" where
  "submission_approved accounts owner d =
     (if dr_approval_authority d \<noteq> Some ''AUTOMATION_POLICY'' then Inr (dr_human_approval d = Some ''APPROVED'')
      else
        rbind (required (Option.bind (dr_research_basis d) rb_account_id) (KeyError ''account_id'')) (\<lambda>account_id.
        case accounts account_id owner of
          None \<Rightarrow> Inr False
        | Some a \<Rightarrow> if aw_state a = ''DELETED'' then Inr False
                     else rbind (automation_policy (aw_automation a)) (\<lambda>p. Inr (ap_enabled p))))"

record digests =
  dg_fingerprint :: "strategy_spec \<Rightarrow> string"
  dg_artifact_hash :: "strategy_spec \<Rightarrow> string"

definition new_version ::
    "digests \<Rightarrow> uuid \<Rightarrow> draft_record \<Rightarrow> strategy_spec \<Rightarrow> version_record" where
  "new_version dg fresh d specification =
     \<lparr>sv_id = fresh, sv_owner_id = dr_owner_id d, sv_state = IMPLEMENTED, sv_strategy_id = dr_id d,
      sv_specification = specification, sv_fingerprint = dg_fingerprint dg specification,
      sv_artifact_hash = dg_artifact_hash dg specification, sv_research_basis = dr_research_basis d,
      sv_selection_cut_at = dr_selection_cut_at d, sv_validation_evidence = [(''compiler'', True)],
      sv_latest_backtest_id = None, sv_latest_backtest_state = None, sv_retry_after_at = None,
      sv_paper_run_id = None, sv_latest_signal = None, sv_monitoring_timeframe = None, sv_health_suspend = False,
      sv_activated_at = None, sv_automation_failure = None, sv_automation_failure_policy_saved_at = None\<rparr>"

definition owned :: "('v \<Rightarrow> uuid) \<Rightarrow> uuid \<Rightarrow> (uuid, 'v) dict \<Rightarrow> 'v list" where
  "owned owner_of owner rows = filter (\<lambda>r. owner_of r = owner) (dvalues rows)"

text \<open>The id of a new row is unused: the primary key refuses another row with it.\<close>

definition submit ::
    "digests \<Rightarrow> account_rows \<Rightarrow> uuid \<Rightarrow> uuid \<Rightarrow> uuid \<Rightarrow> strategy_world \<Rightarrow>
     (version_record \<times> strategy_world) res" where
  "submit dg accounts owner fresh draft_id w =
     rbind (owned_draft w owner draft_id) (\<lambda>d.
     rbind (submission_approved accounts owner d) (\<lambda>approved.
     rbind (ensure (dr_specification d \<noteq> None \<and> approved) (HTTPException 422 ''approved strategy required'')) (\<lambda>_.
     rbind (required (dr_specification d) (RuntimeError '''')) (\<lambda>raw.
     rbind (validate_strategy raw) (\<lambda>specification.
     rbind (ensure (\<not> list_ex (\<lambda>x. sv_fingerprint x = dg_fingerprint dg specification)
                  (owned sv_owner_id owner (sw_versions w)))
              (HTTPException 409 ''exact canonical duplicate'')) (\<lambda>_.
     rbind (ensure (map_of (sw_versions w) fresh = None) IntegrityError) (\<lambda>_.
     let v = new_version dg fresh d specification
     in Inr (v, put_draft (d\<lparr>dr_state := ''SPECIFIED'', dr_version_id := Some fresh\<rparr>) (put_version v w)))))))))"

section \<open>Formal backtests\<close>

record backtest_input =
  bi_connection_id :: "uuid option"
  bi_instrument :: string
  bi_start_at :: timestamp
  bi_end_at :: timestamp
  bi_timeframe :: string
  bi_configuration :: backtest_configuration

definition valid_backtest_input :: "backtest_input \<Rightarrow> bool" where
  "valid_backtest_input i \<longleftrightarrow> 2 \<le> length (bi_instrument i) \<and> length (bi_instrument i) \<le> 32
     \<and> valid_configuration (bi_configuration i) \<and> bi_start_at i < bi_end_at i \<and> TIMEFRAMES (bi_timeframe i) \<noteq> None"

text \<open>\<open>except (LookupError, RuntimeError, ValueError) as exc: raise HTTPException(422, str(exc))\<close>\<close>

fun unprocessable :: "'a res \<Rightarrow> 'a res" where
  "unprocessable (Inr x) = Inr x"
| "unprocessable (Inl (ValueError s)) = Inl (HTTPException 422 s)"
| "unprocessable (Inl (LookupError s)) = Inl (HTTPException 422 s)"
| "unprocessable (Inl (KeyError s)) = Inl (HTTPException 422 s)"
| "unprocessable (Inl (RuntimeError s)) = Inl (HTTPException 422 s)"
| "unprocessable (Inl err) =
     (if is_value_error err then Inl (HTTPException 422 ''invalid backtest basis'') else Inl err)"

definition backtest_checks ::
    "timestamp \<Rightarrow> backtest_input \<Rightarrow> version_record \<Rightarrow> backtest_basis \<Rightarrow> unit res" where
  "backtest_checks now i v basis =
     rbind (ensure (bi_connection_id i \<in> {None, Some (bb_historical_connection_id basis)})
              (HTTPException 422 ''historical connection must match the strategy account/lane provider binding'')) (\<lambda>_.
     rbind (ensure (bi_instrument i = bb_instrument basis)
              (HTTPException 422 ''instrument must match the strategy research selection'')) (\<lambda>_.
     rbind (ensure (bi_instrument i \<in> set (ss_instruments (sv_specification v)))
              (HTTPException 422 ''instrument is not in the approved strategy'')) (\<lambda>_.
     rbind (ensure (\<not> (bb_historical_provider basis = MT5_BRIDGE \<and> bi_timeframe i \<noteq> bb_historical_timeframe basis))
              (HTTPException 422 ''MT5 published history uses another timeframe'')) (\<lambda>_.
     ensure (bi_start_at i < min (bi_end_at i) now)
       (HTTPException 422 ''backtest window must include historical time'')))))"

definition queued_backtest ::
    "timestamp \<Rightarrow> backtest_input \<Rightarrow> uuid \<Rightarrow> version_record \<Rightarrow> backtest_basis \<Rightarrow> backtest_record" where
  "queued_backtest now i owner v basis =
     \<lparr>bt_owner_id = owner, bt_state = ''QUEUED'', bt_strategy_version_id = sv_id v,
      bt_connection_id = bb_historical_connection_id basis, bt_account_id = Some (bb_account_id basis),
      bt_instrument = bi_instrument i, bt_timeframe = bi_timeframe i, bt_start_at = bi_start_at i,
      bt_end_at = min (bi_end_at i) now, bt_configuration = bi_configuration i, bt_started_at = None,
      bt_artifact_hash = None, bt_gates = [], bt_trigger = ''USER''\<rparr>"

definition create_backtest ::
    "basis_rows \<Rightarrow> timestamp \<Rightarrow> uuid \<Rightarrow> uuid \<Rightarrow> uuid \<Rightarrow> backtest_input \<Rightarrow> strategy_world \<Rightarrow> strategy_world res" where
  "create_backtest rows now owner fresh strategy_id i w =
     rbind (ensure (valid_backtest_input i) (ValidationError ''BacktestInput'')) (\<lambda>_.
     rbind (locked_version w owner strategy_id) (\<lambda>v.
     rbind (ensure (sv_state v \<notin> {ACTIVE, PAPER_TRADING, BACKTESTING, RETIRED})
              (HTTPException 409 ''Finish paper/backtesting or suspend monitoring before starting another backtest'')) (\<lambda>_.
     rbind (unprocessable (resolve_backtest_basis rows w v)) (\<lambda>basis.
     rbind (backtest_checks now i v basis) (\<lambda>_.
     rbind (ensure (map_of (sw_backtests w) fresh = None) IntegrityError) (\<lambda>_.
     Inr (put_version (v\<lparr>sv_state := BACKTESTING, sv_latest_backtest_id := Some fresh,
                         sv_latest_backtest_state := Some ''QUEUED'', sv_latest_signal := None,
                         sv_validation_evidence := [(''compiler'', True)]\<rparr>)
            (put_backtest fresh (queued_backtest now i owner v basis) w))))))))"

text \<open>The worker: the first transaction takes the run, the last records what was computed in between.\<close>

definition begin_checks :: "backtest_record \<Rightarrow> backtest_basis \<Rightarrow> unit res" where
  "begin_checks run basis =
     rbind (ensure (bt_connection_id run = bb_historical_connection_id basis)
              (ValueError ''backtest connection differs from the strategy provider binding'')) (\<lambda>_.
     rbind (ensure (bt_instrument run = bb_instrument basis)
              (ValueError ''backtest instrument differs from the strategy selection'')) (\<lambda>_.
     ensure (bt_account_id run \<in> {None, Some (bb_account_id basis)})
       (ValueError ''backtest account differs from the strategy selection'')))"

text \<open>\<open>None\<close>: the run is not \<open>QUEUED\<close> and nothing is done.\<close>

definition begin_backtest ::
    "basis_rows \<Rightarrow> timestamp \<Rightarrow> uuid \<Rightarrow> strategy_world \<Rightarrow> (version_record \<times> backtest_basis \<times> strategy_world) option res" where
  "begin_backtest rows now run_id w =
     rbind (required (map_of (sw_backtests w) run_id) (RuntimeError ''strategy backtest run not found'')) (\<lambda>run.
     if bt_state run \<noteq> ''QUEUED'' then Inr None
     else
       rbind (required (map_of (sw_versions w) (bt_strategy_version_id run)) (RuntimeError ''strategy version not found'')) (\<lambda>v.
       rbind (resolve_backtest_basis rows w v) (\<lambda>basis.
       rbind (begin_checks run basis) (\<lambda>_.
       rbind (validate_strategy (sv_specification v)) (\<lambda>_.
       Inr (Some (v, basis, put_backtest run_id (run\<lparr>bt_state := ''RUNNING'', bt_started_at := Some now\<rparr>) w)))))))"

text \<open>What the engine's statistics say of a run; \<open>bs_robustness\<close> are the four gates of the robustness report,
  where one is available.\<close>

record backtest_statistics =
  bs_out_of_sample :: bool
  bs_walk_forward :: bool
  bs_stress :: bool
  bs_robustness :: "(bool \<times> bool \<times> bool \<times> bool \<times> bool) option"

definition run_gates :: "run_result \<Rightarrow> backtest_statistics \<Rightarrow> (string, bool) dict" where
  "run_gates r st =
     merged [(''backtest'', rr_trades r \<noteq> []), (''out_of_sample'', bs_out_of_sample st),
             (''walk_forward'', bs_walk_forward st), (''stress'', bs_stress st),
             (''policy'', am_policy_passed (rr_account r))]
       (case bs_robustness st of
          None \<Rightarrow> []
        | Some (stress, oos, walk, sensitivity, costs) \<Rightarrow>
            [(''stress'', stress), (''out_of_sample'', oos), (''walk_forward'', walk),
             (''parameter_sensitivity'', sensitivity), (''cost_stress'', costs)])"

definition unseen_count :: "timestamp \<Rightarrow> candle list \<Rightarrow> nat" where
  "unseen_count selection_close candles = length (filter (\<lambda>c. selection_close < ca_observed_at c) candles)"

text \<open>The gates of a completed run, whether it waits for unseen history, and when to try again.\<close>

definition completed_gates ::
    "timestamp \<Rightarrow> int \<Rightarrow> timestamp option \<Rightarrow> candle list \<Rightarrow> run_result \<Rightarrow> backtest_statistics \<Rightarrow> bool \<Rightarrow>
     (string, bool) dict \<times> bool \<times> timestamp option" where
  "completed_gates now timeframe_seconds selection_close candles r st executes =
     (case selection_close of
        None \<Rightarrow> (merged (run_gates r st) [(''event_driven_execution'', executes)], False, None)
      | Some moment \<Rightarrow>
          let unseen = unseen_count moment candles; waiting = unseen < 60;
              gates = merged (run_gates r st)
                        ((''history_depth'', \<not> waiting) # (if waiting then [(''out_of_sample'', False)] else []))
          in (merged gates [(''event_driven_execution'', \<not> waiting \<and> executes)], waiting,
              if waiting then Some (now + seconds (timeframe_seconds * (60 - int unseen))) else None))"

record completion =
  co_run_id :: uuid
  co_performance_id :: uuid
  co_basis :: backtest_basis
  co_artifact_hash :: string
  co_gates :: "(string, bool) dict"
  co_waiting :: bool
  co_retry_after :: "timestamp option"

definition completion_state :: "completion \<Rightarrow> string" where
  "completion_state c =
     (if co_waiting c then ''WAITING_FOR_DATA'' else if list_all id (dvalues (co_gates c)) then ''PASSED'' else ''FAILED'')"

definition performance_of :: "completion \<Rightarrow> version_record \<Rightarrow> backtest_record \<Rightarrow> performance_row" where
  "performance_of c v run =
     \<lparr>pw_strategy_version_id = sv_id v, pw_backtest_id = co_run_id c, pw_account_id = bb_account_id (co_basis c),
      pw_instrument = bb_instrument (co_basis c), pw_connection_id = bb_historical_connection_id (co_basis c),
      pw_timeframe = bt_timeframe run, pw_artifact_hash = co_artifact_hash c, pw_gates = co_gates c,
      pw_state = completion_state c\<rparr>"

text \<open>The completion of a run that a newer one has superseded is recorded and does not touch the version.\<close>

definition complete_backtest :: "completion \<Rightarrow> strategy_world \<Rightarrow> strategy_world res" where
  "complete_backtest c w =
     (let state = completion_state c in
      rbind (required (map_of (sw_backtests w) (co_run_id c)) (RuntimeError ''backtest records disappeared'')) (\<lambda>run.
      rbind (required (map_of (sw_versions w) (bt_strategy_version_id run)) (RuntimeError ''backtest records disappeared'')) (\<lambda>v.
      let w1 = put_backtest (co_run_id c)
                 (run\<lparr>bt_state := state, bt_artifact_hash := Some (co_artifact_hash c), bt_gates := co_gates c\<rparr>) w;
          w2 = w1\<lparr>sw_performance := AList.update (co_performance_id c) (performance_of c v run) (sw_performance w1)\<rparr>
      in if sv_latest_backtest_id v \<noteq> Some (co_run_id c) then Inr w2
         else Inr (put_version (v\<lparr>sv_state := VALIDATING, sv_latest_backtest_state := Some state,
                     sv_retry_after_at := co_retry_after c,
                     sv_validation_evidence := merged (sv_validation_evidence v) (co_gates c)\<rparr>) w2))))"

text \<open>The whole task, with the candles and verdicts it computes between its transactions.\<close>

definition backtest_completion ::
    "(timestamp \<Rightarrow> string) \<Rightarrow> simulation_env \<Rightarrow> digests \<Rightarrow> timestamp \<Rightarrow> uuid \<Rightarrow> uuid \<Rightarrow> version_record \<Rightarrow> backtest_record \<Rightarrow>
     backtest_basis \<Rightarrow> candle list \<Rightarrow> (run_result \<Rightarrow> backtest_statistics) \<Rightarrow> bool \<Rightarrow> completion res" where
  "backtest_completion text_of env dg now run_id performance_id v run basis provided statistics executes =
     rbind (required (TIMEFRAMES (bt_timeframe run)) (KeyError (bt_timeframe run))) (\<lambda>timeframe_seconds.
     rbind (required (TIMEFRAMES (bb_research_history_timeframe basis)) (KeyError (bb_research_history_timeframe basis))) (\<lambda>research_seconds.
     let candles = filter (\<lambda>c. ca_observed_at c + seconds timeframe_seconds \<le> bt_end_at run) provided;
         cfg = (bt_configuration run)\<lparr>cfg_tick_size := bb_tick_size basis\<rparr>;
         selection_close = map_option (\<lambda>t. t + seconds research_seconds) (sv_selection_cut_at v)
     in rbind (run_account text_of env (sv_specification v) candles cfg) (\<lambda>r.
        let (gates, waiting, retry) = completed_gates now timeframe_seconds selection_close candles r (statistics r) executes
        in Inr \<lparr>co_run_id = run_id, co_performance_id = performance_id, co_basis = basis,
                co_artifact_hash = dg_artifact_hash dg (sv_specification v), co_gates = gates, co_waiting = waiting,
                co_retry_after = retry\<rparr>)))"

definition failed_evidence :: "(string, bool) dict" where
  "failed_evidence = [(''backtest'', False), (''out_of_sample'', False), (''walk_forward'', False),
     (''stress'', False), (''policy'', False)]"

definition mark_backtest_failed :: "uuid \<Rightarrow> strategy_world \<Rightarrow> strategy_world" where
  "mark_backtest_failed run_id w =
     (case map_of (sw_backtests w) run_id of
        None \<Rightarrow> w
      | Some run \<Rightarrow>
          let w1 = put_backtest run_id (run\<lparr>bt_state := ''FAILED''\<rparr>) w in
          (case map_of (sw_versions w) (bt_strategy_version_id run) of
            None \<Rightarrow> w1
          | Some v \<Rightarrow>
              if sv_latest_backtest_id v \<in> {None, Some run_id}
              then put_version (v\<lparr>sv_state := VALIDATING, sv_latest_backtest_id := Some run_id,
                     sv_latest_backtest_state := Some ''FAILED'',
                     sv_validation_evidence := merged (sv_validation_evidence v) failed_evidence\<rparr>) w1
              else w1))"

definition stranded :: "timestamp \<Rightarrow> backtest_record \<Rightarrow> bool" where
  "stranded now run \<longleftrightarrow> bt_state run = ''RUNNING''
     \<and> (case bt_started_at run of None \<Rightarrow> False | Some t \<Rightarrow> minutes 20 < now - t)"

definition resume_strategy_backtests :: "timestamp \<Rightarrow> strategy_world \<Rightarrow> uuid list \<times> strategy_world" where
  "resume_strategy_backtests now w =
     (map fst (filter (\<lambda>(i, run). bt_state run = ''QUEUED'' \<or> stranded now run) (sw_backtests w)),
      w\<lparr>sw_backtests := dmap (\<lambda>run. if stranded now run then run\<lparr>bt_state := ''QUEUED''\<rparr> else run) (sw_backtests w)\<rparr>)"

definition transition_strategy :: "uuid \<Rightarrow> uuid \<Rightarrow> strategy_state \<Rightarrow> strategy_world \<Rightarrow> strategy_world res" where
  "transition_strategy owner strategy_id target w =
     rbind (locked_version w owner strategy_id) (\<lambda>v.
     if target \<in> {PAPER_TRADING, APPROVED, ACTIVE}
     then Inl (HTTPException 409 ''evidence-gated stages are advanced only by recorded validation work'')
     else
       case strategy_transition (sv_state v) target of
         Inl err \<Rightarrow> Inl (HTTPException 409 ''illegal strategy lifecycle transition'')
       | Inr state \<Rightarrow> Inr (put_version (v\<lparr>sv_state := state, sv_latest_signal := None\<rparr>) w))"

section \<open>Forward paper trading\<close>

definition running_paper :: "uuid \<Rightarrow> uuid \<Rightarrow> strategy_world \<Rightarrow> bool" where
  "running_paper owner strategy_id w \<longleftrightarrow>
     list_ex (\<lambda>r. pn_strategy_version_id r = strategy_id \<and> pn_state r \<in> {''QUEUED'', ''RUNNING''})
       (owned pn_owner_id owner (sw_paper_runs w))"

definition passing_backtest :: "strategy_world \<Rightarrow> uuid \<Rightarrow> version_record \<Rightarrow> backtest_record res" where
  "passing_backtest w owner v =
     rbind (required (sv_latest_backtest_id v) (HTTPException 409 ''A passing formal backtest is required'')) (\<lambda>run_id.
     rbind (required (map_of (sw_backtests w) run_id) (HTTPException 409 ''A passing formal backtest is required'')) (\<lambda>b.
     rbind (ensure (bt_owner_id b = owner \<and> bt_state b = ''PASSED'')
              (HTTPException 409 ''A passing formal backtest is required'')) (\<lambda>_.
     rbind (ensure (bt_strategy_version_id b = sv_id v \<and> bt_artifact_hash b = Some (sv_artifact_hash v))
              (HTTPException 409 ''The passing backtest does not match this strategy implementation'')) (\<lambda>_.
     Inr b))))"

definition started_run ::
    "timestamp \<Rightarrow> int \<Rightarrow> uuid \<Rightarrow> version_record \<Rightarrow> backtest_record \<Rightarrow> backtest_basis \<Rightarrow> paper_run" where
  "started_run now duration_days owner v b basis =
     \<lparr>pn_owner_id = owner, pn_state = ''RUNNING'', pn_strategy_version_id = sv_id v,
      pn_artifact_hash = sv_artifact_hash v, pn_timeframe = bt_timeframe b, pn_account_id = bb_account_id basis,
      pn_instrument = bb_instrument basis,
      pn_configuration = (bt_configuration b)\<lparr>cfg_tick_size := bb_tick_size basis\<rparr>,
      pn_session = started_session now (now + seconds (duration_days * 86400)), pn_failure = None, pn_gates = []\<rparr>"

definition start_paper_trading ::
    "basis_rows \<Rightarrow> timestamp \<Rightarrow> uuid \<Rightarrow> uuid \<Rightarrow> uuid \<Rightarrow> int \<Rightarrow> strategy_world \<Rightarrow> strategy_world res" where
  "start_paper_trading rows now owner fresh strategy_id duration_days w =
     rbind (ensure (1 \<le> duration_days \<and> duration_days \<le> 90) (ValidationError ''PaperTradingInput'')) (\<lambda>_.
     rbind (locked_version w owner strategy_id) (\<lambda>v.
     if running_paper owner strategy_id w then Inr w
     else
       rbind (ensure (sv_state v = VALIDATING) (HTTPException 409 ''strategy is not ready for paper trading'')) (\<lambda>_.
       rbind (ensure (validation_passed (sv_validation_evidence v))
                (HTTPException 409 ''all formal validation gates must pass first'')) (\<lambda>_.
       rbind (resolve_backtest_basis rows w v) (\<lambda>basis.
       rbind (passing_backtest w owner v) (\<lambda>b.
       rbind (ensure (map_of (sw_paper_runs w) fresh = None) IntegrityError) (\<lambda>_.
       Inr (put_version (v\<lparr>sv_state := PAPER_TRADING, sv_paper_run_id := Some fresh\<rparr>)
              (put_paper_run fresh (started_run now duration_days owner v b basis) w))))))))) "

definition stop_paper_entries :: "timestamp \<Rightarrow> uuid \<Rightarrow> uuid \<Rightarrow> uuid \<Rightarrow> strategy_world \<Rightarrow> strategy_world res" where
  "stop_paper_entries now owner strategy_id paper_run_id w =
     (case (locked_version w owner strategy_id, map_of (sw_paper_runs w) paper_run_id) of
        (Inr v, Some r) \<Rightarrow>
          rbind (ensure (pn_owner_id r = owner \<and> pn_strategy_version_id r = strategy_id)
                   (HTTPException 404 ''Paper session not found'')) (\<lambda>_.
          rbind (ensure (sv_state v = PAPER_TRADING \<and> pn_state r = ''RUNNING'')
                   (HTTPException 409 ''Paper session is not running'')) (\<lambda>_.
          Inr (put_paper_run paper_run_id (r\<lparr>pn_session := (pn_session r)\<lparr>pp_entry_cutoff := Some now\<rparr>\<rparr>) w)))
      | _ \<Rightarrow> Inl (HTTPException 404 ''Paper session not found''))"

definition complete_checks :: "digests \<Rightarrow> timestamp \<Rightarrow> uuid \<Rightarrow> uuid \<Rightarrow> version_record \<Rightarrow> paper_run \<Rightarrow> unit res" where
  "complete_checks dg now strategy_id paper_run_id v r =
     rbind (ensure (pn_strategy_version_id r = strategy_id) (HTTPException 409 ''paper run is linked to another strategy'')) (\<lambda>_.
     rbind (ensure (sv_paper_run_id v = Some paper_run_id)
              (HTTPException 409 ''Only the current paper session can be reviewed'')) (\<lambda>_.
     rbind (ensure (sv_state v = PAPER_TRADING \<and> pn_state r \<in> {''RUNNING'', ''QUEUED''})
              (HTTPException 409 ''paper-trading run is not active'')) (\<lambda>_.
     rbind (ensure (pp_engine (pn_session r) = ENGINE) (HTTPException 409
              ''Start a new forward paper session; manually entered metrics cannot approve a strategy'')) (\<lambda>_.
     rbind (ensure (pp_open_positions (pn_session r) = None \<and> pp_pending_entries (pn_session r) = [])
              (HTTPException 409 ''Paper entries or positions are still open'')) (\<lambda>_.
     rbind (ensure (pn_failure r = None) (HTTPException 409 ''Resolve the paper monitoring failure before review'')) (\<lambda>_.
     rbind (required (pp_entry_cutoff (pn_session r)) (KeyError ''entry_cutoff'')) (\<lambda>cutoff.
     rbind (ensure (cutoff \<le> now) (HTTPException 409
              ''Stop new paper entries or wait for the observation window to end before review'')) (\<lambda>_.
     rbind (ensure (pn_artifact_hash r = sv_artifact_hash v)
              (HTTPException 409 ''Paper evidence belongs to a different implementation'')) (\<lambda>_.
     rbind (validate_strategy (sv_specification v)) (\<lambda>specification.
     ensure (dg_artifact_hash dg specification = sv_artifact_hash v)
       (HTTPException 409 ''Strategy implementation changed; revalidate it'')))))))))))"

definition complete_paper_trading ::
    "digests \<Rightarrow> timestamp \<Rightarrow> uuid \<Rightarrow> uuid \<Rightarrow> uuid \<Rightarrow> strategy_world \<Rightarrow> strategy_world res" where
  "complete_paper_trading dg now owner strategy_id paper_run_id w =
     (case (locked_version w owner strategy_id, map_of (sw_paper_runs w) paper_run_id) of
        (Inr v, Some r) \<Rightarrow>
          rbind (ensure (pn_owner_id r = owner) (HTTPException 404 ''paper-trading run not found'')) (\<lambda>_.
          rbind (complete_checks dg now strategy_id paper_run_id v r) (\<lambda>_.
          let gates = paper_gates (pn_session r); passed = list_all id (dvalues gates)
          in Inr (put_version (v\<lparr>sv_state := (if passed then APPROVED else VALIDATING),
                      sv_validation_evidence := merged (sv_validation_evidence v)
                        [(''paper'', passed), (''paper_forward'', passed)],
                      sv_latest_signal := None, sv_monitoring_timeframe := Some (pn_timeframe r)\<rparr>)
                (put_paper_run paper_run_id
                   (r\<lparr>pn_state := (if passed then ''PASSED'' else ''FAILED''), pn_gates := gates\<rparr>) w))))
      | _ \<Rightarrow> Inl (HTTPException 404 ''paper-trading run not found''))"

definition promote :: "digests \<Rightarrow> timestamp \<Rightarrow> uuid \<Rightarrow> uuid \<Rightarrow> strategy_world \<Rightarrow> strategy_world res" where
  "promote dg now owner strategy_id w =
     rbind (locked_version w owner strategy_id) (\<lambda>v.
     rbind (ensure (dget (sv_validation_evidence v) ''paper_forward'' False \<and> sv_state v \<in> {APPROVED, SUSPENDED}
                    \<and> typed_promotable (sv_validation_evidence v) (sv_artifact_hash v \<noteq> ''''))
              (HTTPException 409
                 ''promotion requires complete compatible backtest, validation, policy, and paper evidence'')) (\<lambda>_.
     rbind (validate_strategy (sv_specification v)) (\<lambda>specification.
     rbind (ensure (\<not> sv_health_suspend v) (HTTPException 409
              ''This version lost its recent edge; research and validate a new version before activation'')) (\<lambda>_.
     rbind (ensure (dg_artifact_hash dg specification = sv_artifact_hash v)
              (HTTPException 409 ''Strategy implementation changed; revalidate it'')) (\<lambda>_.
     Inr (put_version (v\<lparr>sv_state := ACTIVE, sv_activated_at := Some now, sv_latest_signal := None\<rparr>) w))))))"

section \<open>Recurring evaluation\<close>

text \<open>
  One evaluation works on the candles it fetched or kept from the tick before (\<open>mt_candles\<close>) and the archived
  calendar; \<open>mt_unhealthy\<close> is the verdict over the rolling windows of recorded results, \<open>mt_selected\<close> the
  strategy that the library selects for a regime.
\<close>

record monitor_tick =
  mt_now :: timestamp
  mt_technical :: indicators
  mt_zone :: time_zones
  mt_day_of :: "timestamp \<Rightarrow> string"
  mt_archive :: "calendar_event list option"
  mt_candles :: "candle list res"
  mt_unhealthy :: "(simulated_trade \<times> decimal) list \<Rightarrow> bool"
  mt_health_reason :: string
  mt_selected :: "string \<Rightarrow> uuid option"

definition tick_env :: "monitor_tick \<Rightarrow> strategy_spec \<Rightarrow> int \<Rightarrow> backtest_configuration \<Rightarrow> paper_env" where
  "tick_env t s timeframe_seconds cfg =
     \<lparr>pe_technical = mt_technical t, pe_zone = mt_zone t, pe_day_of = mt_day_of t, pe_now = mt_now t,
      pe_timeframe_seconds = timeframe_seconds, pe_configuration = cfg,
      pe_calendar = (if ss_event_rules s \<noteq> [] \<or> ss_instrument_type s = Some CFD \<or> requires_news_context s
                     then mt_archive t else None)\<rparr>"

definition monitored_checks :: "digests \<Rightarrow> version_record \<Rightarrow> unit res" where
  "monitored_checks dg v =
     rbind (validate_strategy (sv_specification v)) (\<lambda>specification.
     rbind (ensure (validation_passed (sv_validation_evidence v)) (ValueError ''Formal validation evidence is incomplete'')) (\<lambda>_.
     rbind (ensure (sv_state v = PAPER_TRADING
                    \<or> dget (sv_validation_evidence v) ''paper'' False \<and> dget (sv_validation_evidence v) ''paper_forward'' False)
              (ValueError ''Recorded forward paper evidence is required before live monitoring'')) (\<lambda>_.
     rbind (ensure (dg_artifact_hash dg specification = sv_artifact_hash v)
              (ValueError ''Strategy implementation changed after validation'')) (\<lambda>_.
     ensure (ss_trade_rules (sv_specification v) \<noteq> None)
       (ValueError ''Strategy requires explicit price protection rules'')))))"

definition current_paper_run :: "version_record \<Rightarrow> strategy_world \<Rightarrow> paper_run option" where
  "current_paper_run v w =
     (case Option.bind (sv_paper_run_id v) (map_of (sw_paper_runs w)) of
        None \<Rightarrow> None
      | Some r \<Rightarrow> if pn_owner_id r = sv_owner_id v then Some r else None)"

definition paper_checks :: "version_record \<Rightarrow> paper_run option \<Rightarrow> paper_run res" where
  "paper_checks v run =
     rbind (required run (ValueError ''Start a new forward paper session for this strategy'')) (\<lambda>r.
     rbind (ensure (pn_state r = ''RUNNING'' \<and> pp_engine (pn_session r) = ENGINE)
              (ValueError ''Start a new forward paper session for this strategy'')) (\<lambda>_.
     rbind (ensure (pn_artifact_hash r = sv_artifact_hash v)
              (ValueError ''Paper session implementation no longer matches the version'')) (\<lambda>_.
     Inr r)))"

definition blocked_setup :: "string \<Rightarrow> indicative_setup" where
  "blocked_setup reason = waiting_setup\<lparr>su_status := ''BLOCKED'', su_reason := reason\<rparr>"

definition note_paper_failure :: "string \<Rightarrow> timestamp \<Rightarrow> version_record \<Rightarrow> strategy_world \<Rightarrow> strategy_world" where
  "note_paper_failure reason now v w =
     (case (sv_paper_run_id v, current_paper_run v w) of
        (Some run_id, Some r) \<Rightarrow>
          put_paper_run run_id (r\<lparr>pn_failure := Some reason,
            pn_session := (pn_session r)\<lparr>pp_latest_signal := Some (blocked_setup reason), pp_last_checked_at := Some now\<rparr>\<rparr>) w
      | _ \<Rightarrow> w)"

definition evaluate_paper ::
    "digests \<Rightarrow> basis_rows \<Rightarrow> monitor_tick \<Rightarrow> version_record \<Rightarrow> strategy_world \<Rightarrow> strategy_world res option" where
  "evaluate_paper dg rows t v w =
     (case rbind (monitored_checks dg v) (\<lambda>_.
           rbind (resolve_backtest_basis rows w v) (\<lambda>basis.
           rbind (paper_checks v (current_paper_run v w)) (\<lambda>r.
           rbind (required (TIMEFRAMES (pn_timeframe r)) (KeyError (pn_timeframe r))) (\<lambda>timeframe_seconds.
           rbind (mt_candles t) (\<lambda>candles.
           Inr (r, timeframe_seconds, candles)))))) of
        Inl err \<Rightarrow> Some (Inl err)
      | Inr (r, timeframe_seconds, candles) \<Rightarrow>
          map_option
            (\<lambda>result. rbind result (\<lambda>session.
              Inr (put_version (v\<lparr>sv_latest_signal := map_option (\<lambda>su. \<lparr>ss_setup = su, ss_mode = ''PAPER'',
                                   ss_artifact_hash = Some (sv_artifact_hash v)\<rparr>) (pp_latest_signal session),
                                 sv_health_suspend := mt_unhealthy t (pp_trades session)\<rparr>)
                    (put_paper_run (case_option '''' id (sv_paper_run_id v)) (r\<lparr>pn_session := session, pn_failure := None\<rparr>) w))))
            (observe (tick_env t (sv_specification v) timeframe_seconds (pn_configuration r)) (sv_specification v) True
               candles (pn_session r)))"

definition fallback_configuration :: "decimal option \<Rightarrow> backtest_configuration" where
  "fallback_configuration tick_size =
     \<lparr>cfg_initial_equity = 10000, cfg_spread = 0, cfg_commission = 0, cfg_slippage = 0, cfg_tick_size = tick_size,
      cfg_max_daily_loss = 1000000, cfg_max_total_loss = 1000000\<rparr>"

text \<open>A monitor that has not run yet starts now, without an end to its entries.\<close>

definition new_monitor :: "timestamp \<Rightarrow> version_record \<Rightarrow> string \<Rightarrow> backtest_configuration \<Rightarrow> live_monitor" where
  "new_monitor now v timeframe cfg =
     \<lparr>lm_strategy_version_id = sv_id v, lm_artifact_hash = sv_artifact_hash v, lm_timeframe = timeframe,
      lm_configuration = cfg, lm_session = (started_session now 0)\<lparr>pp_engine := '''', pp_entry_cutoff := None\<rparr>,
      lm_failure = None\<rparr>"

definition monitor_for :: "timestamp \<Rightarrow> version_record \<Rightarrow> backtest_basis \<Rightarrow> strategy_world \<Rightarrow> live_monitor" where
  "monitor_for now v basis w =
     (let timeframe = case_option (bb_historical_timeframe basis) id (sv_monitoring_timeframe v) in
      case map_of (sw_monitors w) (sv_id v) of
        Some m \<Rightarrow> m\<lparr>lm_artifact_hash := sv_artifact_hash v, lm_timeframe := timeframe\<rparr>
      | None \<Rightarrow>
          new_monitor now v timeframe
            (case current_paper_run v w of
               Some r \<Rightarrow> if pn_artifact_hash r = sv_artifact_hash v then pn_configuration r
                          else fallback_configuration (bb_tick_size basis)
             | None \<Rightarrow> fallback_configuration (bb_tick_size basis)))"

definition selected_signal :: "monitor_tick \<Rightarrow> version_record \<Rightarrow> indicative_setup \<Rightarrow> indicative_setup" where
  "selected_signal t v su =
     (if ss_instrument_type (sv_specification v) \<noteq> Some CFD then su
      else case mt_selected t (case_option ''UNKNOWN'' id (su_regime_key su)) of
             None \<Rightarrow> withdraw ''WAIT'' ''No eligible strategy for this regime'' su
           | Some chosen \<Rightarrow>
               if chosen = sv_id v then su
               else withdraw ''WAIT'' ''A stronger validated strategy is selected for this regime'' su)"

definition finished_before :: "timestamp \<Rightarrow> int \<Rightarrow> candle list \<Rightarrow> timestamp" where
  "finished_before now step candles =
     ca_observed_at (last (filter (\<lambda>c. ca_observed_at c + step \<le> now) candles))"

text \<open>A degraded version is suspended; an intent that was captured on the same tick is taken back.\<close>

definition monitored_session ::
    "monitor_tick \<Rightarrow> int \<Rightarrow> candle list \<Rightarrow> version_record \<Rightarrow> paper_session \<Rightarrow> paper_session" where
  "monitored_session t timeframe_seconds candles v session =
     (let su = map_option (selected_signal t v) (pp_latest_signal session) in
      if mt_unhealthy t (pp_trades session)
      then session\<lparr>pp_latest_signal := map_option (withdraw ''SUSPENDED'' (mt_health_reason t)) su,
             pp_entry_intents := filter (\<lambda>(at_time, _). at_time \<le> finished_before (mt_now t) (seconds timeframe_seconds) candles)
               (pp_entry_intents session)\<rparr>
      else session\<lparr>pp_latest_signal := su\<rparr>)"

definition evaluate_live ::
    "digests \<Rightarrow> basis_rows \<Rightarrow> monitor_tick \<Rightarrow> version_record \<Rightarrow> strategy_world \<Rightarrow> strategy_world res option" where
  "evaluate_live dg rows t v w =
     (case rbind (monitored_checks dg v) (\<lambda>_.
           rbind (resolve_backtest_basis rows w v) (\<lambda>basis.
           let m = monitor_for (mt_now t) v basis w in
           rbind (required (TIMEFRAMES (lm_timeframe m)) (KeyError (lm_timeframe m))) (\<lambda>timeframe_seconds.
           rbind (mt_candles t) (\<lambda>candles.
           Inr (m, timeframe_seconds, candles))))) of
        Inl err \<Rightarrow> Some (Inl err)
      | Inr (m, timeframe_seconds, candles) \<Rightarrow>
          map_option
            (\<lambda>result. rbind result (\<lambda>observed.
              let suspend = mt_unhealthy t (pp_trades observed);
                  session = monitored_session t timeframe_seconds candles v observed
              in Inr (put_version (v\<lparr>sv_latest_signal := map_option (\<lambda>su. \<lparr>ss_setup = su, ss_mode = ''LIVE'',
                                       ss_artifact_hash = Some (sv_artifact_hash v)\<rparr>) (pp_latest_signal session),
                                     sv_health_suspend := suspend, sv_state := (if suspend then SUSPENDED else sv_state v)\<rparr>)
                    (w\<lparr>sw_monitors := AList.update (sv_id v) (m\<lparr>lm_session := session, lm_failure := None\<rparr>)
                                        (sw_monitors w)\<rparr>))))
            (observe (tick_env t (sv_specification v) timeframe_seconds (lm_configuration m)) (sv_specification v) True
               candles (lm_session m)))"

text \<open>Whatever is raised inside is caught: the version shows a blocked signal.  The reason of an error that is not
  a plain \<open>ValueError\<close> is the name of its class.\<close>

definition blocked_reason :: "py_error \<Rightarrow> string" where
  "blocked_reason err =
     (case err of ValueError s \<Rightarrow> take 300 s | KeyError _ \<Rightarrow> ''KeyError'' | LookupError _ \<Rightarrow> ''LookupError''
      | RuntimeError _ \<Rightarrow> ''RuntimeError'' | ValidationError _ \<Rightarrow> ''ValidationError'' | TypeError _ \<Rightarrow> ''TypeError''
      | ZeroDivisionError \<Rightarrow> ''DivisionByZero'' | InvalidOperation \<Rightarrow> ''InvalidOperation''
      | HTTPException _ _ \<Rightarrow> ''HTTPException'' | IntegrityError \<Rightarrow> ''IntegrityError'' | _ \<Rightarrow> ''Exception'')"

text \<open>The run or the monitor is marked when the error came after it was read (\<open>found\<close>).\<close>

definition blocked_evaluation ::
    "timestamp \<Rightarrow> bool \<Rightarrow> version_record \<Rightarrow> py_error \<Rightarrow> strategy_world \<Rightarrow> strategy_world" where
  "blocked_evaluation now found v err w =
     (let reason = blocked_reason err; paper = (sv_state v = PAPER_TRADING);
          shown = \<lparr>ss_setup = blocked_setup reason, ss_mode = (if paper then ''PAPER'' else ''LIVE''), ss_artifact_hash = None\<rparr>;
          w1 = put_version (v\<lparr>sv_latest_signal := Some shown\<rparr>) w
      in if \<not> found then w1
         else if paper then note_paper_failure reason now v w1
         else (case map_of (sw_monitors w) (sv_id v) of
                 None \<Rightarrow> w1
               | Some m \<Rightarrow>
                   w1\<lparr>sw_monitors := AList.update (sv_id v)
                     (m\<lparr>lm_failure := Some reason,
                        lm_session := (lm_session m)\<lparr>pp_latest_signal := Some (blocked_setup reason),
                                                      pp_last_checked_at := Some now\<rparr>\<rparr>) (sw_monitors w)\<rparr>))"

definition evaluate_strategy ::
    "digests \<Rightarrow> basis_rows \<Rightarrow> monitor_tick \<Rightarrow> uuid \<Rightarrow> strategy_world \<Rightarrow> strategy_world option" where
  "evaluate_strategy dg rows t version_id w =
     (case map_of (sw_versions w) version_id of
        None \<Rightarrow> Some w
      | Some v \<Rightarrow>
          if sv_state v \<notin> {PAPER_TRADING, ACTIVE} then Some w
          else
            let found = is_ok (rbind (monitored_checks dg v) (\<lambda>_. resolve_backtest_basis rows w v))
            in map_option
                 (\<lambda>result. case result of Inl err \<Rightarrow> blocked_evaluation (mt_now t) found v err w | Inr w' \<Rightarrow> w')
                 (if sv_state v = PAPER_TRADING then evaluate_paper dg rows t v w else evaluate_live dg rows t v w))"

section \<open>Unattended validation\<close>

definition draft_account :: "account_rows \<Rightarrow> draft_record \<Rightarrow> account_row option" where
  "draft_account accounts d =
     Option.bind (Option.bind (dr_research_basis d) rb_account_id) (\<lambda>i. accounts i (dr_owner_id d))"

definition switched_on :: "account_row option \<Rightarrow> automation_settings option res" where
  "switched_on account =
     (case account of
        None \<Rightarrow> Inr None
      | Some a \<Rightarrow> if aw_state a = ''DELETED'' then Inr None
                   else rbind (automation_policy (aw_automation a)) (\<lambda>p. Inr (if ap_enabled p then Some p else None)))"

text \<open>\<open>_loss_limit\<close>: the strictest value of the active rules of a kind, given as the list of their values.\<close>

definition loss_limit :: "string \<Rightarrow> decimal list \<Rightarrow> decimal res" where
  "loss_limit kind values =
     (if values = [] then Inl (ValueError (''autonomous validation requires an active '' @ kind @ '' policy''))
      else Inr (py_min values))"

definition automatic_input ::
    "timestamp \<Rightarrow> automation_settings \<Rightarrow> account_row \<Rightarrow> research_basis \<Rightarrow> decimal list \<Rightarrow> decimal list \<Rightarrow> backtest_input res" where
  "automatic_input now p account basis daily overall =
     rbind (loss_limit ''MAX_DAILY_LOSS'' daily) (\<lambda>max_daily_loss.
     rbind (loss_limit ''MAX_TOTAL_DRAWDOWN'' overall) (\<lambda>max_total_loss.
     Inr \<lparr>bi_connection_id = None, bi_instrument = rb_instrument basis,
          bi_start_at = now - seconds (ap_backtest_lookback_days p * 86400), bi_end_at = now,
          bi_timeframe = case_option ''1h'' id (rb_historical_timeframe basis),
          bi_configuration = \<lparr>cfg_initial_equity = aw_starting_balance account, cfg_spread = ap_spread p,
            cfg_commission = ap_commission p, cfg_slippage = ap_slippage p, cfg_tick_size = None,
            cfg_max_daily_loss = max_daily_loss, cfg_max_total_loss = max_total_loss\<rparr>\<rparr>))"

definition accepted_by_policy :: "draft_record \<Rightarrow> strategy_spec \<Rightarrow> draft_record" where
  "accepted_by_policy d specification =
     d\<lparr>dr_specification := Some specification, dr_state := ''DRAFT'', dr_human_approval := Some ''NOT_REQUESTED'',
       dr_approval_authority := Some ''AUTOMATION_POLICY''\<rparr>"

record loss_rules =
  lr_daily :: "decimal list"
  lr_overall :: "decimal list"

definition advance_attempt ::
    "digests \<Rightarrow> account_rows \<Rightarrow> basis_rows \<Rightarrow> timestamp \<Rightarrow> loss_rules \<Rightarrow> uuid \<Rightarrow> uuid \<Rightarrow> draft_record \<Rightarrow>
     strategy_world \<Rightarrow> strategy_world option res" where
  "advance_attempt dg accounts rows now rules fresh fresh_run d w =
     rbind (switched_on (draft_account accounts d)) (\<lambda>policy.
     case (policy, draft_account accounts d) of
       (Some p, Some account) \<Rightarrow>
         rbind (required (dr_proposed_specification d) (ValidationError ''StrategySpecification'')) (\<lambda>proposed.
         rbind (validate_strategy proposed) (\<lambda>specification.
         rbind (submit dg accounts (dr_owner_id d) fresh (dr_id d) (put_draft (accepted_by_policy d specification) w)) (\<lambda>(v, w1).
         rbind (required (sv_research_basis v) (KeyError ''instrument'')) (\<lambda>basis.
         rbind (automatic_input now p account basis (lr_daily rules) (lr_overall rules)) (\<lambda>i.
         rbind (create_backtest rows now (dr_owner_id d) fresh_run fresh i w1) (\<lambda>w2.
         Inr (Some w2)))))))
     | _ \<Rightarrow> Inr None)"

definition advance_strategy_draft ::
    "digests \<Rightarrow> account_rows \<Rightarrow> basis_rows \<Rightarrow> timestamp \<Rightarrow> loss_rules \<Rightarrow> uuid \<Rightarrow> uuid \<Rightarrow> uuid \<Rightarrow>
     strategy_world \<Rightarrow> strategy_world" where
  "advance_strategy_draft dg accounts rows now rules fresh fresh_run draft_id w =
     (case map_of (sw_drafts w) draft_id of
        None \<Rightarrow> w
      | Some d \<Rightarrow>
          if dr_state d \<noteq> ''AWAITING_STRATEGY_APPROVAL'' then w
          else (case advance_attempt dg accounts rows now rules fresh fresh_run d w of
                  Inr None \<Rightarrow> w
                | Inr (Some w') \<Rightarrow> w'
                | Inl err \<Rightarrow>
                    put_draft (d\<lparr>dr_automation_failure := Some (blocked_reason err),
                      dr_automation_failure_policy_saved_at :=
                        (if is_ok (switched_on (draft_account accounts d))
                         then Option.bind (draft_account accounts d) aw_automation_saved_at else None)\<rparr>) w))"

definition version_account :: "account_rows \<Rightarrow> version_record \<Rightarrow> account_row option" where
  "version_account accounts v =
     Option.bind (Option.bind (sv_research_basis v) rb_account_id) (\<lambda>i. accounts i (sv_owner_id v))"

definition paper_attempts :: "version_record \<Rightarrow> strategy_world \<Rightarrow> nat" where
  "paper_attempts v w =
     length (filter (\<lambda>r. pn_strategy_version_id r = sv_id v) (owned pn_owner_id (sv_owner_id v) (sw_paper_runs w)))"

text \<open>\<open>Inr None\<close>: nothing is to be done or the policy leaves it to the owner.\<close>

definition start_strategy_paper ::
    "account_rows \<Rightarrow> basis_rows \<Rightarrow> timestamp \<Rightarrow> uuid \<Rightarrow> uuid \<Rightarrow> strategy_world \<Rightarrow> strategy_world option res" where
  "start_strategy_paper accounts rows now fresh version_id w =
     (case map_of (sw_versions w) version_id of
        None \<Rightarrow> Inr None
      | Some v \<Rightarrow>
          rbind (required (Option.bind (sv_research_basis v) rb_account_id)
                   (ValueError ''badly formed hexadecimal UUID string'')) (\<lambda>_.
          rbind (switched_on (version_account accounts v)) (\<lambda>policy.
          case policy of
            None \<Rightarrow> Inr None
          | Some p \<Rightarrow>
              if ap_max_paper_attempts p \<le> paper_attempts v w then Inr None
              else rbind (start_paper_trading rows now (sv_owner_id v) fresh version_id (ap_paper_duration_days p) w)
                     (\<lambda>w'. Inr (Some w')))))"

definition awaits_data :: "version_record \<Rightarrow> bool" where
  "awaits_data v \<longleftrightarrow> sv_state v = VALIDATING \<and> sv_latest_backtest_state v = Some ''WAITING_FOR_DATA''"

definition known_failure :: "version_record \<Rightarrow> account_row \<Rightarrow> bool" where
  "known_failure v account \<longleftrightarrow> truthy (sv_automation_failure v)
     \<and> sv_automation_failure_policy_saved_at v = aw_automation_saved_at account"

definition retry_attempt ::
    "account_rows \<Rightarrow> basis_rows \<Rightarrow> timestamp \<Rightarrow> loss_rules \<Rightarrow> uuid \<Rightarrow> version_record \<Rightarrow> strategy_world \<Rightarrow>
     strategy_world option res" where
  "retry_attempt accounts rows now rules fresh v w =
     rbind (required (sv_research_basis v) (KeyError ''account_id'')) (\<lambda>basis.
     rbind (required (rb_account_id basis) (KeyError ''account_id'')) (\<lambda>_.
     rbind (switched_on (version_account accounts v)) (\<lambda>policy.
     case (policy, version_account accounts v) of
       (Some p, Some account) \<Rightarrow>
         if known_failure v account then Inr None
         else if (case sv_retry_after_at v of None \<Rightarrow> True | Some at_time \<Rightarrow> now < at_time) then Inr None
         else
           rbind (automatic_input now p account basis (lr_daily rules) (lr_overall rules)) (\<lambda>i.
           rbind (create_backtest rows now (sv_owner_id v) fresh (sv_id v) i w) (\<lambda>w'. Inr (Some w')))
     | _ \<Rightarrow> Inr None)))"

definition retry_strategy_backtest ::
    "account_rows \<Rightarrow> basis_rows \<Rightarrow> timestamp \<Rightarrow> loss_rules \<Rightarrow> uuid \<Rightarrow> uuid \<Rightarrow> strategy_world \<Rightarrow> strategy_world" where
  "retry_strategy_backtest accounts rows now rules fresh version_id w =
     (case map_of (sw_versions w) version_id of
        None \<Rightarrow> w
      | Some v \<Rightarrow>
          if \<not> awaits_data v then w
          else (case retry_attempt accounts rows now rules fresh v w of
                  Inr None \<Rightarrow> w
                | Inr (Some w') \<Rightarrow> w'
                | Inl err \<Rightarrow>
                    put_version (v\<lparr>sv_automation_failure := Some (blocked_reason err),
                      sv_automation_failure_policy_saved_at :=
                        Option.bind (version_account accounts v) aw_automation_saved_at\<rparr>) w))"

definition review_strategy_paper ::
    "digests \<Rightarrow> account_rows \<Rightarrow> timestamp \<Rightarrow> uuid \<Rightarrow> uuid \<Rightarrow> strategy_world \<Rightarrow> strategy_world option res" where
  "review_strategy_paper dg accounts now version_id run_id w =
     (case map_of (sw_versions w) version_id of
        None \<Rightarrow> Inr None
      | Some v \<Rightarrow>
          rbind (required (Option.bind (sv_research_basis v) rb_account_id)
                   (ValueError ''badly formed hexadecimal UUID string'')) (\<lambda>_.
          rbind (switched_on (version_account accounts v)) (\<lambda>policy.
          case policy of
            None \<Rightarrow> Inr None
          | Some p \<Rightarrow> rbind (complete_paper_trading dg now (sv_owner_id v) version_id run_id w) (\<lambda>w'. Inr (Some w')))))"

datatype automatic_action =
    AdvanceDraft uuid | RetryBacktest uuid | StartPaper uuid | ReviewPaper uuid uuid

definition draft_actions :: "account_rows \<Rightarrow> draft_record \<Rightarrow> automatic_action list res" where
  "draft_actions accounts d =
     (case draft_account accounts d of
        None \<Rightarrow> Inr []
      | Some account \<Rightarrow>
          rbind (switched_on (Some account)) (\<lambda>policy.
          Inr (if policy = None
                  \<or> truthy (dr_automation_failure d) \<and> dr_automation_failure_policy_saved_at d = aw_automation_saved_at account
                  \<or> dr_state d \<noteq> ''AWAITING_STRATEGY_APPROVAL''
               then [] else [AdvanceDraft (dr_id d)])))"

definition reviewable :: "timestamp \<Rightarrow> paper_run \<Rightarrow> bool" where
  "reviewable now r \<longleftrightarrow> pn_state r = ''RUNNING''
     \<and> (case pp_entry_cutoff (pn_session r) of None \<Rightarrow> False | Some cutoff \<Rightarrow> cutoff \<le> now)
     \<and> pp_open_positions (pn_session r) = None \<and> pp_pending_entries (pn_session r) = [] \<and> \<not> truthy (pn_failure r)"

definition version_actions ::
    "account_rows \<Rightarrow> timestamp \<Rightarrow> strategy_world \<Rightarrow> version_record \<Rightarrow> automatic_action list res" where
  "version_actions accounts now w v =
     (case version_account accounts v of
        None \<Rightarrow> Inr []
      | Some account \<Rightarrow>
          rbind (switched_on (Some account)) (\<lambda>policy.
          Inr (case policy of
                 None \<Rightarrow> []
               | Some p \<Rightarrow>
                   if known_failure v account then []
                   else if awaits_data v
                   then (case sv_retry_after_at v of
                           None \<Rightarrow> []
                         | Some at_time \<Rightarrow> if at_time \<le> now then [RetryBacktest (sv_id v)] else [])
                   else if sv_state v = VALIDATING \<and> validation_passed (sv_validation_evidence v)
                   then if ap_max_paper_attempts p
                             \<le> length (filter (\<lambda>r. pn_strategy_version_id r = sv_id v) (dvalues (sw_paper_runs w)))
                        then [] else [StartPaper (sv_id v)]
                   else if sv_state v = PAPER_TRADING
                   then (case sv_paper_run_id v of
                           None \<Rightarrow> []
                         | Some run_id \<Rightarrow>
                             (case map_of (sw_paper_runs w) run_id of
                                None \<Rightarrow> []
                              | Some r \<Rightarrow> if reviewable now r then [ReviewPaper (sv_id v) run_id] else []))
                   else [])))"

definition schedule_strategy_autonomy :: "account_rows \<Rightarrow> timestamp \<Rightarrow> strategy_world \<Rightarrow> automatic_action list res" where
  "schedule_strategy_autonomy accounts now w =
     rbind (rmap (draft_actions accounts) (dvalues (sw_drafts w))) (\<lambda>drafts.
     rbind (rmap (version_actions accounts now w) (dvalues (sw_versions w))) (\<lambda>versions.
     Inr (concat drafts @ concat versions)))"

end
