(* ===== verification/Validation.thy ===== *)
theory Validation
  imports Lifecycle
begin

text \<open>
  What the lifecycle of \<open>Lifecycle\<close> guarantees across its handlers: the step relation of a strategy world, one
  rule for each route and task, the invariant that every step keeps, an abstract machine of stages that the
  steps refine, and the theorems about what stands behind a strategy that is observed forward or active.
\<close>

section \<open>Rows after a write\<close>

named_theorems world_simps

declare TIMEFRAMES.simps [simp del]

lemma put_worlds [world_simps]:
  "sw_versions (put_version v w) = AList.update (sv_id v) v (sw_versions w)"
  "sw_backtests (put_version v w) = sw_backtests w" "sw_paper_runs (put_version v w) = sw_paper_runs w"
  "sw_drafts (put_version v w) = sw_drafts w" "sw_monitors (put_version v w) = sw_monitors w"
  "sw_versions (put_draft d w) = sw_versions w" "sw_backtests (put_draft d w) = sw_backtests w"
  "sw_paper_runs (put_draft d w) = sw_paper_runs w" "sw_monitors (put_draft d w) = sw_monitors w"
  "sw_versions (put_backtest i b w) = sw_versions w" "sw_paper_runs (put_backtest i b w) = sw_paper_runs w"
  "sw_backtests (put_backtest i b w) = AList.update i b (sw_backtests w)"
  "sw_performance (put_backtest i b w) = sw_performance w"
  "sw_versions (put_paper_run i r w) = sw_versions w" "sw_backtests (put_paper_run i r w) = sw_backtests w"
  "sw_paper_runs (put_paper_run i r w) = AList.update i r (sw_paper_runs w)"
  "sw_monitors (put_paper_run i r w) = sw_monitors w"
  by (simp_all add: put_version_def put_draft_def put_backtest_def put_paper_run_def)

lemma locked_versionD: "locked_version w owner i = Inr v \<Longrightarrow> map_of (sw_versions w) i = Some v \<and> sv_owner_id v = owner"
  by (simp add: locked_version_def split: option.splits if_splits)

section \<open>Steps of the system\<close>

text \<open>
  Each rule is one committed transaction, labelled with whether it is a request of the owner or unattended work
  of a task.  Drafts are written by the generation of proposals as well, which is
  not modelled: \<open>research\<close> writes any row under its id.  The completion of a backtest may come from a worker that
  read the version, the run and the basis at any earlier moment.
\<close>

inductive strategy_step :: "digests \<Rightarrow> bool \<Rightarrow> strategy_world \<Rightarrow> strategy_world \<Rightarrow> bool" for dg where
  research: "strategy_step dg by_owner w (put_draft d w)"
| decide: "decide_strategy_proposal owner draft_id action w = Inr w' \<Longrightarrow> strategy_step dg True w w'"
| save: "save_draft owner draft_id specification origin w = Inr w' \<Longrightarrow> strategy_step dg True w w'"
| submitted: "submit dg accounts owner fresh draft_id w = Inr (v, w') \<Longrightarrow> strategy_step dg True w w'"
| advance: "strategy_step dg False w (advance_strategy_draft dg accounts rows now rules fresh fresh_run draft_id w)"
| backtest: "create_backtest rows now owner fresh strategy_id i w = Inr w' \<Longrightarrow> strategy_step dg True w w'"
| began: "begin_backtest rows now run_id w = Inr (Some (v, basis, w')) \<Longrightarrow> strategy_step dg False w w'"
| completed: "backtest_completion text_of env dg now run_id performance_id v run basis provided statistics executes = Inr c \<Longrightarrow>
    complete_backtest c w = Inr w' \<Longrightarrow> strategy_step dg False w w'"
| failed: "strategy_step dg False w (mark_backtest_failed run_id w)"
| resumed: "strategy_step dg False w (snd (resume_strategy_backtests now w))"
| moved: "transition_strategy owner strategy_id target w = Inr w' \<Longrightarrow> strategy_step dg True w w'"
| paper: "start_paper_trading rows now owner fresh strategy_id duration_days w = Inr w' \<Longrightarrow> strategy_step dg True w w'"
| paper_auto: "start_strategy_paper accounts rows now fresh version_id w = Inr (Some w') \<Longrightarrow> strategy_step dg False w w'"
| stopped: "stop_paper_entries now owner strategy_id run_id w = Inr w' \<Longrightarrow> strategy_step dg True w w'"
| reviewed: "complete_paper_trading dg now owner strategy_id run_id w = Inr w' \<Longrightarrow> strategy_step dg True w w'"
| reviewed_auto: "review_strategy_paper dg accounts now version_id run_id w = Inr (Some w') \<Longrightarrow> strategy_step dg False w w'"
| promoted: "promote dg now owner strategy_id w = Inr w' \<Longrightarrow> strategy_step dg True w w'"
| evaluated: "evaluate_strategy dg rows t version_id w = Some w' \<Longrightarrow> strategy_step dg False w w'"
| retried: "strategy_step dg False w (retry_strategy_backtest accounts rows now rules fresh version_id w)"

section \<open>The invariant\<close>

definition OBSERVED_STATES :: "strategy_state list" where
  "OBSERVED_STATES = [APPROVED, ACTIVE, DEGRADED, SUSPENDED, RETIRED]"

text \<open>The validation gates are recorded and the latest backtest is a passed one of this implementation.\<close>

definition proven :: "strategy_world \<Rightarrow> version_record \<Rightarrow> bool" where
  "proven w v \<longleftrightarrow> validation_passed (sv_validation_evidence v)
     \<and> (\<exists>i b. sv_latest_backtest_id v = Some i \<and> map_of (sw_backtests w) i = Some b \<and> bt_state b = ''PASSED''
          \<and> bt_strategy_version_id b = sv_id v \<and> bt_artifact_hash b = Some (sv_artifact_hash v))"

text \<open>The current paper run was reviewed, passed every gate and observed this implementation.\<close>

definition observed_forward :: "strategy_world \<Rightarrow> version_record \<Rightarrow> bool" where
  "observed_forward w v \<longleftrightarrow> dget (sv_validation_evidence v) ''paper'' False
     \<and> dget (sv_validation_evidence v) ''paper_forward'' False
     \<and> (\<exists>i r. sv_paper_run_id v = Some i \<and> map_of (sw_paper_runs w) i = Some r \<and> pn_state r = ''PASSED''
          \<and> pn_strategy_version_id r = sv_id v \<and> pn_artifact_hash r = sv_artifact_hash v
          \<and> list_all id (dvalues (paper_gates (pn_session r))))"

definition own_paper_run :: "strategy_world \<Rightarrow> version_record \<Rightarrow> bool" where
  "own_paper_run w v \<longleftrightarrow> (\<forall>i. sv_paper_run_id v = Some i \<longrightarrow>
     (\<exists>r. map_of (sw_paper_runs w) i = Some r \<and> pn_strategy_version_id r = sv_id v))"

definition version_ok :: "strategy_world \<Rightarrow> uuid \<Rightarrow> version_record \<Rightarrow> bool" where
  "version_ok w i v \<longleftrightarrow> sv_id v = i \<and> own_paper_run w v
     \<and> (sv_state v \<in> set (PAPER_TRADING # OBSERVED_STATES) \<longrightarrow> proven w v)
     \<and> (sv_state v \<in> set OBSERVED_STATES \<longrightarrow> observed_forward w v)"

definition backtest_ok :: "backtest_record \<Rightarrow> bool" where
  "backtest_ok b \<longleftrightarrow> (bt_state b = ''PASSED'' \<longrightarrow> list_all id (dvalues (bt_gates b))) \<and> TIMEFRAMES (bt_timeframe b) \<noteq> None"

text \<open>With \<open>recorded\<close>, the session of a run is one that its starts, ticks and stops have produced.\<close>

definition run_ok :: "bool \<Rightarrow> strategy_world \<Rightarrow> paper_run \<Rightarrow> bool" where
  "run_ok recorded w r \<longleftrightarrow> (\<exists>v tf. map_of (sw_versions w) (pn_strategy_version_id r) = Some v
     \<and> TIMEFRAMES (pn_timeframe r) = Some tf
     \<and> (recorded \<longrightarrow> paper_reachable tf (sv_specification v) (pn_session r)))"

definition world_ok :: "bool \<Rightarrow> strategy_world \<Rightarrow> bool" where
  "world_ok recorded w \<longleftrightarrow> (\<forall>i v. map_of (sw_versions w) i = Some v \<longrightarrow> version_ok w i v)
     \<and> (\<forall>k b. map_of (sw_backtests w) k = Some b \<longrightarrow> backtest_ok b)
     \<and> (\<forall>k r. map_of (sw_paper_runs w) k = Some r \<longrightarrow> run_ok recorded w r)"

lemma proven_put [simp]:
  "proven (put_version u w) v \<longleftrightarrow> proven w v" "proven (put_paper_run k r w) v \<longleftrightarrow> proven w v"
  "observed_forward (put_version u w) v \<longleftrightarrow> observed_forward w v"
  "observed_forward (put_backtest k b w) v \<longleftrightarrow> observed_forward w v"
  "own_paper_run (put_version u w) v \<longleftrightarrow> own_paper_run w v" "own_paper_run (put_backtest k b w) v \<longleftrightarrow> own_paper_run w v"
  by (simp_all add: proven_def observed_forward_def own_paper_run_def world_simps)

lemma world_ok_rows:
  assumes "sw_versions w' = sw_versions w" "sw_backtests w' = sw_backtests w" "sw_paper_runs w' = sw_paper_runs w"
  shows "world_ok recorded w' \<longleftrightarrow> world_ok recorded w"
  unfolding world_ok_def version_ok_def own_paper_run_def proven_def observed_forward_def run_ok_def assms ..

lemma world_ok_version: "world_ok recorded w \<Longrightarrow> map_of (sw_versions w) i = Some v \<Longrightarrow> version_ok w i v"
  and world_ok_backtest: "world_ok recorded w \<Longrightarrow> map_of (sw_backtests w) k = Some b \<Longrightarrow> backtest_ok b"
  and world_ok_run: "world_ok recorded w \<Longrightarrow> map_of (sw_paper_runs w) k = Some r \<Longrightarrow> run_ok recorded w r"
  by (simp_all add: world_ok_def)

text \<open>The three kinds of row a handler writes, each with what it has to respect.\<close>

lemma put_version_ok:
  assumes "world_ok recorded w" and "own_paper_run w v"
    and "\<And>old. map_of (sw_versions w) (sv_id v) = Some old \<Longrightarrow> sv_specification v = sv_specification old"
    and "sv_state v \<in> set (PAPER_TRADING # OBSERVED_STATES) \<Longrightarrow> proven w v"
    and "sv_state v \<in> set OBSERVED_STATES \<Longrightarrow> observed_forward w v"
  shows "world_ok recorded (put_version v w)"
  unfolding world_ok_def
proof (intro conjI allI impI)
  fix j u assume "map_of (sw_versions (put_version v w)) j = Some u"
  then have "version_ok w j u" using assms world_ok_version[OF assms(1)]
    by (auto simp: world_simps version_ok_def split: if_splits)
  then show "version_ok (put_version v w) j u" by (simp add: version_ok_def)
next
  fix k b assume "map_of (sw_backtests (put_version v w)) k = Some b"
  then show "backtest_ok b" using world_ok_backtest[OF assms(1)] by (simp add: world_simps)
next
  fix k r assume "map_of (sw_paper_runs (put_version v w)) k = Some r"
  then have "run_ok recorded w r" using world_ok_run[OF assms(1)] by (simp add: world_simps)
  then show "run_ok recorded (put_version v w) r"
    using assms(3) by (cases "pn_strategy_version_id r = sv_id v") (auto simp: run_ok_def world_simps)
qed

lemma put_backtest_ok:
  assumes "world_ok recorded w" and "backtest_ok b"
    and "\<And>old v. map_of (sw_backtests w) k = Some old \<Longrightarrow> bt_state old = ''PASSED'' \<Longrightarrow>
      map_of (sw_versions w) (bt_strategy_version_id old) = Some v \<Longrightarrow> sv_latest_backtest_id v = Some k \<Longrightarrow>
      sv_state v \<notin> set (PAPER_TRADING # OBSERVED_STATES)"
  shows "world_ok recorded (put_backtest k b w)"
  unfolding world_ok_def
proof (intro conjI allI impI)
  fix j v assume v: "map_of (sw_versions (put_backtest k b w)) j = Some v"
  then have ok: "version_ok w j v" and row: "map_of (sw_versions w) j = Some v"
    using world_ok_version[OF assms(1)] by (simp_all add: world_simps)
  have "proven (put_backtest k b w) v" if state: "sv_state v \<in> set (PAPER_TRADING # OBSERVED_STATES)"
  proof -
    from ok state have gates: "validation_passed (sv_validation_evidence v)" and id: "sv_id v = j"
      unfolding version_ok_def proven_def by blast+
    from ok state obtain i old where old: "sv_latest_backtest_id v = Some i" "map_of (sw_backtests w) i = Some old"
      "bt_state old = ''PASSED''" "bt_strategy_version_id old = sv_id v" "bt_artifact_hash old = Some (sv_artifact_hash v)"
      unfolding version_ok_def proven_def by blast
    have "i \<noteq> k" using assms(3)[of old v] old row id state by auto
    with gates old show ?thesis by (auto simp: proven_def world_simps)
  qed
  with ok show "version_ok (put_backtest k b w) j v" by (simp add: version_ok_def)
next
  fix i c assume "map_of (sw_backtests (put_backtest k b w)) i = Some c"
  then show "backtest_ok c" using world_ok_backtest[OF assms(1)] assms(2) by (auto simp: world_simps split: if_splits)
next
  fix i r assume "map_of (sw_paper_runs (put_backtest k b w)) i = Some r"
  then have "run_ok recorded w r" using world_ok_run[OF assms(1)] by (simp add: world_simps)
  then show "run_ok recorded (put_backtest k b w) r" by (simp add: run_ok_def world_simps)
qed

lemma put_paper_run_ok:
  assumes "world_ok recorded w" and "run_ok recorded w r"
    and "\<And>old. map_of (sw_paper_runs w) k = Some old \<Longrightarrow> pn_strategy_version_id r = pn_strategy_version_id old"
    and "\<And>old v. map_of (sw_paper_runs w) k = Some old \<Longrightarrow> pn_state old = ''PASSED'' \<Longrightarrow>
      map_of (sw_versions w) (pn_strategy_version_id old) = Some v \<Longrightarrow> sv_paper_run_id v = Some k \<Longrightarrow>
      sv_state v \<notin> set OBSERVED_STATES"
  shows "world_ok recorded (put_paper_run k r w)"
  unfolding world_ok_def
proof (intro conjI allI impI)
  fix j v assume v: "map_of (sw_versions (put_paper_run k r w)) j = Some v"
  then have ok: "version_ok w j v" and row: "map_of (sw_versions w) j = Some v"
    using world_ok_version[OF assms(1)] by (simp_all add: world_simps)
  have "own_paper_run (put_paper_run k r w) v"
    unfolding own_paper_run_def
  proof (intro allI impI)
    fix i assume "sv_paper_run_id v = Some i"
    with ok obtain q where "map_of (sw_paper_runs w) i = Some q" "pn_strategy_version_id q = sv_id v"
      unfolding version_ok_def own_paper_run_def by blast
    then show "\<exists>q. map_of (sw_paper_runs (put_paper_run k r w)) i = Some q \<and> pn_strategy_version_id q = sv_id v"
      using assms(3) by (cases "i = k") (auto simp: world_simps)
  qed
  moreover have "observed_forward (put_paper_run k r w) v" if state: "sv_state v \<in> set OBSERVED_STATES"
  proof -
    from ok state have gates: "dget (sv_validation_evidence v) ''paper'' False"
      "dget (sv_validation_evidence v) ''paper_forward'' False" and id: "sv_id v = j"
      unfolding version_ok_def observed_forward_def by blast+
    from ok state obtain i old where old: "sv_paper_run_id v = Some i" "map_of (sw_paper_runs w) i = Some old"
      "pn_state old = ''PASSED''" "pn_strategy_version_id old = sv_id v" "pn_artifact_hash old = sv_artifact_hash v"
      "list_all id (dvalues (paper_gates (pn_session old)))"
      unfolding version_ok_def observed_forward_def by blast
    have "i \<noteq> k" using assms(4)[of old v] old row id state by auto
    with gates old show ?thesis by (auto simp: observed_forward_def world_simps)
  qed
  ultimately show "version_ok (put_paper_run k r w) j v" using ok by (simp add: version_ok_def)
next
  fix i c assume "map_of (sw_backtests (put_paper_run k r w)) i = Some c"
  then show "backtest_ok c" using world_ok_backtest[OF assms(1)] by (simp add: world_simps)
next
  fix i q assume "map_of (sw_paper_runs (put_paper_run k r w)) i = Some q"
  then have "run_ok recorded w q" using world_ok_run[OF assms(1)] assms(2) by (auto simp: world_simps split: if_splits)
  then show "run_ok recorded (put_paper_run k r w) q" by (simp add: run_ok_def world_simps)
qed

section \<open>Every step keeps it\<close>

lemma row_facts:
  assumes "world_ok recorded w" "map_of (sw_versions w) i = Some v"
  shows "sv_id v = i" "own_paper_run w v" "sv_state v \<in> set (PAPER_TRADING # OBSERVED_STATES) \<Longrightarrow> proven w v"
    "sv_state v \<in> set OBSERVED_STATES \<Longrightarrow> observed_forward w v"
  using world_ok_version[OF assms] by (simp_all add: version_ok_def)

text \<open>A write that leaves the state, the evidence and the links of a version as they are.\<close>

lemma put_version_same:
  assumes "world_ok recorded w" "map_of (sw_versions w) i = Some v"
    and "sv_id v' = sv_id v" "sv_specification v' = sv_specification v" "sv_state v' = sv_state v"
    and "sv_validation_evidence v' = sv_validation_evidence v" "sv_latest_backtest_id v' = sv_latest_backtest_id v"
    and "sv_paper_run_id v' = sv_paper_run_id v" "sv_artifact_hash v' = sv_artifact_hash v"
  shows "world_ok recorded (put_version v' w)"
proof -
  have same: "proven w v' = proven w v" "observed_forward w v' = observed_forward w v" "own_paper_run w v' = own_paper_run w v"
    unfolding proven_def observed_forward_def own_paper_run_def assms(3-) by simp_all
  show ?thesis using row_facts[OF assms(1,2)] assms
    by (intro put_version_ok) (simp_all add: same)
qed

text \<open>A write that takes a version back to a state that claims nothing.\<close>

lemma put_version_unproven:
  assumes "world_ok recorded w" "map_of (sw_versions w) i = Some v"
    and "sv_id v' = sv_id v" "sv_specification v' = sv_specification v" "sv_paper_run_id v' = sv_paper_run_id v"
    and "sv_state v' \<notin> set (PAPER_TRADING # OBSERVED_STATES)"
  shows "world_ok recorded (put_version v' w)"
proof -
  have "own_paper_run w v' = own_paper_run w v" unfolding own_paper_run_def assms(3-) by simp
  then show ?thesis using row_facts[OF assms(1,2)] assms by (intro put_version_ok) simp_all
qed

lemma put_draft_ok [simp]: "world_ok recorded (put_draft d w) \<longleftrightarrow> world_ok recorded w"
  by (rule world_ok_rows) (simp_all add: world_simps)

lemma submit_ok:
  assumes "world_ok recorded w" "submit dg accounts owner fresh draft_id w = Inr (v, w')"
  shows "world_ok recorded w' \<and> map_of (sw_versions w') fresh = Some v"
proof -
  from assms(2) obtain d s where new: "map_of (sw_versions w) fresh = None" "v = new_version dg fresh d s"
    and w': "w' = put_draft (d\<lparr>dr_state := ''SPECIFIED'', dr_version_id := Some fresh\<rparr>) (put_version v w)"
    by (auto simp: submit_def Let_def ensure_def split: if_splits)
  have "world_ok recorded (put_version v w)"
    by (rule put_version_ok[OF assms(1)]) (use new in \<open>simp_all add: new_version_def own_paper_run_def OBSERVED_STATES_def\<close>)
  with new show ?thesis by (simp add: w' world_simps new_version_def)
qed

lemma create_backtest_ok:
  assumes "world_ok recorded w" "create_backtest rows now owner fresh strategy_id i w = Inr w'"
  shows "world_ok recorded w'"
proof -
  from assms(2) obtain v basis where valid: "valid_backtest_input i" and v: "map_of (sw_versions w) strategy_id = Some v"
    and new: "map_of (sw_backtests w) fresh = None"
    and w': "w' = put_version (v\<lparr>sv_state := BACKTESTING, sv_latest_backtest_id := Some fresh,
        sv_latest_backtest_state := Some ''QUEUED'', sv_latest_signal := None,
        sv_validation_evidence := [(''compiler'', True)]\<rparr>) (put_backtest fresh (queued_backtest now i owner v basis) w)"
    by (auto simp: create_backtest_def ensure_def dest: locked_versionD split: if_splits)
  have "world_ok recorded (put_backtest fresh (queued_backtest now i owner v basis) w)"
    by (rule put_backtest_ok[OF assms(1)])
      (use new valid in \<open>auto simp: backtest_ok_def queued_backtest_def valid_backtest_input_def\<close>)
  moreover have "map_of (sw_versions (put_backtest fresh (queued_backtest now i owner v basis) w)) strategy_id = Some v"
    using v by (simp add: world_simps)
  ultimately show ?thesis unfolding w' by (rule put_version_unproven) (simp_all add: OBSERVED_STATES_def)
qed

lemma begin_backtest_ok:
  assumes "world_ok recorded w" "begin_backtest rows now run_id w = Inr (Some (v, basis, w'))"
  shows "world_ok recorded w'"
proof -
  from assms(2) obtain run where run: "map_of (sw_backtests w) run_id = Some run" "bt_state run = ''QUEUED''"
    and w': "w' = put_backtest run_id (run\<lparr>bt_state := ''RUNNING'', bt_started_at := Some now\<rparr>) w"
    by (auto simp: begin_backtest_def required_def split: if_splits option.splits)
  show ?thesis unfolding w' using world_ok_backtest[OF assms(1) run(1)] run
    by (intro put_backtest_ok[OF assms(1)]) (simp_all add: backtest_ok_def)
qed

text \<open>A run's end takes its version back to \<open>VALIDATING\<close>, whatever it was, or does not touch it.\<close>

lemma put_swap: "put_version v (put_backtest k b w) = put_backtest k b (put_version v w)"
  by (simp add: put_version_def put_backtest_def)

lemma end_backtest_ok:
  assumes "world_ok recorded w" "map_of (sw_backtests w) k = Some run" "backtest_ok b"
    and "map_of (sw_versions w) (bt_strategy_version_id run) = Some v"
    and "sv_id v' = sv_id v" "sv_specification v' = sv_specification v" "sv_paper_run_id v' = sv_paper_run_id v"
    and "sv_state v' = VALIDATING"
  shows "world_ok recorded (put_version v' (put_backtest k b w))"
  unfolding put_swap
proof (rule put_backtest_ok)
  show "world_ok recorded (put_version v' w)"
    using assms by (intro put_version_unproven[OF assms(1,4)]) (simp_all add: OBSERVED_STATES_def)
  fix old u assume "map_of (sw_backtests (put_version v' w)) k = Some old"
    "map_of (sw_versions (put_version v' w)) (bt_strategy_version_id old) = Some u"
  with assms(2,5,8) row_facts(1)[OF assms(1,4)] show "sv_state u \<notin> set (PAPER_TRADING # OBSERVED_STATES)"
    by (auto simp: world_simps OBSERVED_STATES_def)
qed (rule assms(3))

lemma superseded_backtest_ok:
  assumes "world_ok recorded w" "map_of (sw_backtests w) k = Some run" "backtest_ok b"
    and "\<And>v. map_of (sw_versions w) (bt_strategy_version_id run) = Some v \<Longrightarrow> sv_latest_backtest_id v \<noteq> Some k"
  shows "world_ok recorded (put_backtest k b w)"
  using assms(2,4) by (intro put_backtest_ok[OF assms(1,3)]) auto

lemma complete_backtest_ok:
  assumes "world_ok recorded w" "complete_backtest c w = Inr w'"
  shows "world_ok recorded w'"
proof -
  from assms(2) obtain run v where run: "map_of (sw_backtests w) (co_run_id c) = Some run"
    and v: "map_of (sw_versions w) (bt_strategy_version_id run) = Some v"
    by (auto simp: complete_backtest_def Let_def required_def split: option.splits)
  let ?b = "run\<lparr>bt_state := completion_state c, bt_artifact_hash := Some (co_artifact_hash c), bt_gates := co_gates c\<rparr>"
  let ?v = "v\<lparr>sv_state := VALIDATING, sv_latest_backtest_state := Some (completion_state c), sv_retry_after_at := co_retry_after c,
    sv_validation_evidence := merged (sv_validation_evidence v) (co_gates c)\<rparr>"
  have b: "backtest_ok ?b" using world_ok_backtest[OF assms(1) run]
    by (auto simp: backtest_ok_def completion_state_def)
  show ?thesis
  proof (cases "sv_latest_backtest_id v = Some (co_run_id c)")
    case True
    with assms(2) run v have "world_ok recorded w' = world_ok recorded (put_version ?v (put_backtest (co_run_id c) ?b w))"
      by (intro world_ok_rows) (auto simp: complete_backtest_def Let_def required_def world_simps)
    then show ?thesis using end_backtest_ok[OF assms(1) run b v, of ?v] by simp
  next
    case False
    with assms(2) run v have "world_ok recorded w' = world_ok recorded (put_backtest (co_run_id c) ?b w)"
      by (intro world_ok_rows) (auto simp: complete_backtest_def Let_def required_def world_simps)
    then show ?thesis using superseded_backtest_ok[OF assms(1) run b] v False by simp
  qed
qed

lemma mark_backtest_failed_ok:
  assumes "world_ok recorded w"
  shows "world_ok recorded (mark_backtest_failed run_id w)"
proof (cases "map_of (sw_backtests w) run_id")
  case (Some run)
  have b: "backtest_ok (run\<lparr>bt_state := ''FAILED''\<rparr>)" using world_ok_backtest[OF assms Some] by (simp add: backtest_ok_def)
  show ?thesis
  proof (cases "map_of (sw_versions w) (bt_strategy_version_id run)")
    case (Some v)
    then show ?thesis using end_backtest_ok[OF assms \<open>map_of (sw_backtests w) run_id = Some run\<close> b]
        superseded_backtest_ok[OF assms \<open>map_of (sw_backtests w) run_id = Some run\<close> b]
      by (auto simp: mark_backtest_failed_def Let_def \<open>map_of (sw_backtests w) run_id = Some run\<close> world_simps)
  next
    case None
    then show ?thesis using superseded_backtest_ok[OF assms \<open>map_of (sw_backtests w) run_id = Some run\<close> b]
      by (simp add: mark_backtest_failed_def Let_def \<open>map_of (sw_backtests w) run_id = Some run\<close> world_simps)
  qed
qed (simp add: mark_backtest_failed_def assms)

lemma resume_ok:
  assumes "world_ok recorded w"
  shows "world_ok recorded (snd (resume_strategy_backtests now w))"
proof -
  let ?w = "snd (resume_strategy_backtests now w)"
  have rows: "sw_versions ?w = sw_versions w" "sw_paper_runs ?w = sw_paper_runs w"
    and bts: "map_of (sw_backtests ?w) k = map_option (\<lambda>run. if stranded now run then run\<lparr>bt_state := ''QUEUED''\<rparr> else run)
      (map_of (sw_backtests w) k)" for k
    by (simp_all add: resume_strategy_backtests_def map_of_dmap)
  have kept: "map_of (sw_backtests w) k = Some b \<Longrightarrow> bt_state b = ''PASSED'' \<Longrightarrow> map_of (sw_backtests ?w) k = Some b" for k b
    by (simp add: bts stranded_def)
  have "proven ?w v" if "proven w v" for v using that kept unfolding proven_def by metis
  moreover have "backtest_ok b" if "map_of (sw_backtests ?w) k = Some b" for k b
    using that world_ok_backtest[OF assms, of k] by (auto simp: bts backtest_ok_def split: if_splits)
  ultimately show ?thesis using assms
    unfolding world_ok_def version_ok_def own_paper_run_def observed_forward_def run_ok_def rows by blast
qed

lemma moved_states:
  "strategy_transition a b = Inr c \<Longrightarrow> b \<notin> {PAPER_TRADING, APPROVED, ACTIVE} \<Longrightarrow> c = b
     \<and> (b \<in> set (PAPER_TRADING # OBSERVED_STATES) \<longrightarrow> a \<in> {ACTIVE, DEGRADED, SUSPENDED})"
  by (cases a) (auto simp: strategy_transition_def OBSERVED_STATES_def split: if_splits)

lemma put_version_observed:
  assumes "world_ok recorded w" "map_of (sw_versions w) i = Some v" "sv_state v \<in> set OBSERVED_STATES"
    and "sv_id v' = sv_id v" "sv_specification v' = sv_specification v"
    and "sv_validation_evidence v' = sv_validation_evidence v" "sv_latest_backtest_id v' = sv_latest_backtest_id v"
    and "sv_paper_run_id v' = sv_paper_run_id v" "sv_artifact_hash v' = sv_artifact_hash v"
  shows "world_ok recorded (put_version v' w)"
proof -
  have same: "proven w v' = proven w v" "observed_forward w v' = observed_forward w v" "own_paper_run w v' = own_paper_run w v"
    unfolding proven_def observed_forward_def own_paper_run_def assms(4-) by simp_all
  show ?thesis using row_facts[OF assms(1,2)] assms
    by (intro put_version_ok) (simp_all add: same)
qed

lemma transition_strategy_ok:
  assumes "world_ok recorded w" "transition_strategy owner strategy_id target w = Inr w'"
  shows "world_ok recorded w'"
proof -
  from assms(2) obtain v s where v: "map_of (sw_versions w) strategy_id = Some v"
    and target: "target \<notin> {PAPER_TRADING, APPROVED, ACTIVE}" and s: "strategy_transition (sv_state v) target = Inr s"
    and w': "w' = put_version (v\<lparr>sv_state := s, sv_latest_signal := None\<rparr>) w"
    by (auto simp: transition_strategy_def dest!: locked_versionD split: if_splits sum.splits)
  note moved = moved_states[OF s target]
  show ?thesis
  proof (cases "target \<in> set (PAPER_TRADING # OBSERVED_STATES)")
    case True
    with moved have "sv_state v \<in> set OBSERVED_STATES" by (auto simp: OBSERVED_STATES_def)
    then show ?thesis unfolding w' by (rule put_version_observed[OF assms(1) v]) simp_all
  next
    case False
    with moved show ?thesis unfolding w' by (intro put_version_unproven[OF assms(1) v]) simp_all
  qed
qed

lemma start_paper_ok:
  assumes "world_ok recorded w" "start_paper_trading rows now owner fresh strategy_id duration_days w = Inr w'"
  shows "world_ok recorded w'"
proof (cases "running_paper owner strategy_id w")
  case True
  with assms show ?thesis by (auto simp: start_paper_trading_def)
next
  case False
  with assms(2) obtain v basis b where v: "map_of (sw_versions w) strategy_id = Some v"
    and gates: "validation_passed (sv_validation_evidence v)" and b: "passing_backtest w owner v = Inr b"
    and new: "map_of (sw_paper_runs w) fresh = None"
    and w': "w' = put_version (v\<lparr>sv_state := PAPER_TRADING, sv_paper_run_id := Some fresh\<rparr>)
        (put_paper_run fresh (started_run now duration_days owner v b basis) w)"
    by (auto simp: start_paper_trading_def ensure_def dest!: locked_versionD split: if_splits)
  let ?r = "started_run now duration_days owner v b basis" and ?v = "v\<lparr>sv_state := PAPER_TRADING, sv_paper_run_id := Some fresh\<rparr>"
  from b obtain run_id where run_id: "sv_latest_backtest_id v = Some run_id" "map_of (sw_backtests w) run_id = Some b"
    and passed: "bt_state b = ''PASSED''" "bt_strategy_version_id b = sv_id v" "bt_artifact_hash b = Some (sv_artifact_hash v)"
    by (auto simp: passing_backtest_def required_def ensure_def split: option.splits if_splits)
  obtain tf where tf: "TIMEFRAMES (bt_timeframe b) = Some tf"
    using world_ok_backtest[OF assms(1) run_id(2)] by (auto simp: backtest_ok_def)
  have "run_ok recorded w ?r" using v row_facts(1)[OF assms(1) v] tf
    by (simp add: run_ok_def started_run_def paper_reachable.start)
  then have w1: "world_ok recorded (put_paper_run fresh ?r w)"
    using new by (intro put_paper_run_ok[OF assms(1)]) simp_all
  show ?thesis unfolding w'
  proof (rule put_version_ok[OF w1])
    show "own_paper_run (put_paper_run fresh ?r w) ?v" by (simp add: own_paper_run_def world_simps started_run_def)
    show "sv_specification ?v = sv_specification old"
      if "map_of (sw_versions (put_paper_run fresh ?r w)) (sv_id ?v) = Some old" for old
      using that v row_facts(1)[OF assms(1) v] by (simp add: world_simps)
    show "proven (put_paper_run fresh ?r w) ?v" using gates run_id passed by (simp add: proven_def world_simps)
  qed (simp add: OBSERVED_STATES_def)
qed

text \<open>A run whose version is observed changes its session in one of the ways a session may.\<close>

lemma observed_run_ok:
  assumes "world_ok recorded w" "map_of (sw_paper_runs w) k = Some r" "pn_strategy_version_id r = i"
    and "map_of (sw_versions w) i = Some v" "sv_state v = PAPER_TRADING"
    and "pn_strategy_version_id r' = i" "pn_timeframe r' = pn_timeframe r"
    and "\<And>tf. TIMEFRAMES (pn_timeframe r) = Some tf \<Longrightarrow> paper_reachable tf (sv_specification v) (pn_session r) \<Longrightarrow>
      paper_reachable tf (sv_specification v) (pn_session r')"
  shows "world_ok recorded (put_paper_run k r' w)"
proof (rule put_paper_run_ok[OF assms(1)])
  show "run_ok recorded w r'" using world_ok_run[OF assms(1,2)] assms by (auto simp: run_ok_def)
qed (use assms in \<open>auto simp: OBSERVED_STATES_def\<close>)

lemma stop_paper_ok:
  assumes "world_ok recorded w" "stop_paper_entries now owner strategy_id run_id w = Inr w'"
  shows "world_ok recorded w'"
proof -
  from assms(2) obtain v r where v: "map_of (sw_versions w) strategy_id = Some v" "sv_state v = PAPER_TRADING"
    and r: "map_of (sw_paper_runs w) run_id = Some r" "pn_strategy_version_id r = strategy_id"
    and w': "w' = put_paper_run run_id (r\<lparr>pn_session := (pn_session r)\<lparr>pp_entry_cutoff := Some now\<rparr>\<rparr>) w"
    by (auto simp: stop_paper_entries_def ensure_def dest!: locked_versionD split: if_splits sum.splits option.splits)
  show ?thesis unfolding w' using r(2)
    by (intro observed_run_ok[OF assms(1) r v]) (simp_all add: paper_reachable.stop)
qed

lemma merged_paper:
  "validation_passed (merged e [(''paper'', p), (''paper_forward'', p)]) = validation_passed e"
  "dget (merged e [(''paper'', p), (''paper_forward'', p)]) ''paper'' False = p"
  "dget (merged e [(''paper'', p), (''paper_forward'', p)]) ''paper_forward'' False = p"
  by (simp_all add: validation_passed_def merged_def dget_def)

lemma complete_paper_ok:
  assumes "world_ok recorded w" "complete_paper_trading dg now owner strategy_id run_id w = Inr w'"
  shows "world_ok recorded w'"
proof -
  from assms(2) obtain v r where v: "map_of (sw_versions w) strategy_id = Some v"
    and r: "map_of (sw_paper_runs w) run_id = Some r" and checks: "complete_checks dg now strategy_id run_id v r = Inr ()"
    and w': "w' = put_version (v\<lparr>sv_state := (if list_all id (dvalues (paper_gates (pn_session r))) then APPROVED else VALIDATING),
        sv_validation_evidence := merged (sv_validation_evidence v)
          [(''paper'', list_all id (dvalues (paper_gates (pn_session r)))),
           (''paper_forward'', list_all id (dvalues (paper_gates (pn_session r))))],
        sv_latest_signal := None, sv_monitoring_timeframe := Some (pn_timeframe r)\<rparr>)
      (put_paper_run run_id (r\<lparr>pn_state := (if list_all id (dvalues (paper_gates (pn_session r))) then ''PASSED'' else ''FAILED''),
         pn_gates := paper_gates (pn_session r)\<rparr>) w)"
    by (auto simp: complete_paper_trading_def Let_def ensure_def dest!: locked_versionD split: if_splits sum.splits option.splits)
  from checks have own: "pn_strategy_version_id r = strategy_id" "sv_paper_run_id v = Some run_id" "sv_state v = PAPER_TRADING"
    "pn_artifact_hash r = sv_artifact_hash v"
    by (auto simp: complete_checks_def required_def ensure_def split: if_splits option.splits)
  define passed where "passed \<longleftrightarrow> list_all id (dvalues (paper_gates (pn_session r)))"
  define r' where "r' = r\<lparr>pn_state := (if passed then ''PASSED'' else ''FAILED''), pn_gates := paper_gates (pn_session r)\<rparr>"
  define v' where "v' = v\<lparr>sv_state := (if passed then APPROVED else VALIDATING),
    sv_validation_evidence := merged (sv_validation_evidence v) [(''paper'', passed), (''paper_forward'', passed)],
    sv_latest_signal := None, sv_monitoring_timeframe := Some (pn_timeframe r)\<rparr>"
  have w1: "world_ok recorded (put_paper_run run_id r' w)"
    using own(1) by (intro observed_run_ok[OF assms(1) r own(1) v own(3)]) (simp_all add: r'_def)
  note facts = row_facts[OF assms(1) v]
  have proven: "proven w v'" using facts(3) own(3) by (simp add: proven_def v'_def merged_paper)
  have run: "map_of (sw_paper_runs (put_paper_run run_id r' w)) run_id = Some r'" by (simp add: world_simps)
  have "world_ok recorded (put_version v' (put_paper_run run_id r' w))"
  proof (rule put_version_ok[OF w1])
    show "own_paper_run (put_paper_run run_id r' w) v'" using run own facts(1) by (simp add: own_paper_run_def v'_def r'_def)
    show "sv_specification v' = sv_specification old"
      if "map_of (sw_versions (put_paper_run run_id r' w)) (sv_id v') = Some old" for old
      using that v facts(1) by (simp add: world_simps v'_def)
    show "proven (put_paper_run run_id r' w) v'" using proven by simp
    show "observed_forward (put_paper_run run_id r' w) v'" if "sv_state v' \<in> set OBSERVED_STATES"
    proof -
      from that have "passed" by (auto simp: v'_def OBSERVED_STATES_def split: if_splits)
      with run own facts(1) show ?thesis
        by (simp add: observed_forward_def v'_def merged_paper) (simp add: r'_def passed_def)
    qed
  qed
  then show ?thesis unfolding w' v'_def r'_def passed_def .
qed

lemma promote_ok:
  assumes "world_ok recorded w" "promote dg now owner strategy_id w = Inr w'"
  shows "world_ok recorded w'"
proof -
  from assms(2) obtain v where v: "map_of (sw_versions w) strategy_id = Some v" "sv_state v \<in> set OBSERVED_STATES"
    and w': "w' = put_version (v\<lparr>sv_state := ACTIVE, sv_activated_at := Some now, sv_latest_signal := None\<rparr>) w"
    by (auto simp: promote_def ensure_def OBSERVED_STATES_def dest!: locked_versionD split: if_splits)
  show ?thesis unfolding w' by (rule put_version_observed[OF assms(1) v]) simp_all
qed

lemma evaluate_paper_ok:
  assumes "world_ok recorded w" "map_of (sw_versions w) i = Some v" "sv_state v = PAPER_TRADING"
    and "evaluate_paper dg rows t v w = Some (Inr w')"
  shows "world_ok recorded w'"
proof -
  from assms(4) obtain r tf candles session where run: "current_paper_run v w = Some r"
    and tf: "TIMEFRAMES (pn_timeframe r) = Some tf"
    and tick: "observe (tick_env t (sv_specification v) tf (pn_configuration r)) (sv_specification v) True candles (pn_session r)
      = Some (Inr session)"
    and w': "w' = put_version (v\<lparr>sv_latest_signal := map_option (\<lambda>su. \<lparr>ss_setup = su, ss_mode = ''PAPER'',
          ss_artifact_hash = Some (sv_artifact_hash v)\<rparr>) (pp_latest_signal session),
          sv_health_suspend := mt_unhealthy t (pp_trades session)\<rparr>)
        (put_paper_run (case_option '''' id (sv_paper_run_id v)) (r\<lparr>pn_session := session, pn_failure := None\<rparr>) w)"
    by (auto simp: evaluate_paper_def paper_checks_def required_def split: sum.splits option.splits)
  from run obtain k where k: "sv_paper_run_id v = Some k" "map_of (sw_paper_runs w) k = Some r"
    by (auto simp: current_paper_run_def bind_eq_Some_conv split: option.splits if_splits)
  note facts = row_facts[OF assms(1,2)]
  from facts(1,2) k have own: "pn_strategy_version_id r = i" by (auto simp: own_paper_run_def)
  have "pe_timeframe_seconds (tick_env t (sv_specification v) tf (pn_configuration r)) = tf" by (simp add: tick_env_def)
  note reached = paper_reachable.tick[OF _ this tick]
  have w1: "world_ok recorded (put_paper_run k (r\<lparr>pn_session := session, pn_failure := None\<rparr>) w)"
    using own tf reached by (intro observed_run_ok[OF assms(1) k(2) own assms(2,3)]) simp_all
  have row: "map_of (sw_versions (put_paper_run k (r\<lparr>pn_session := session, pn_failure := None\<rparr>) w)) i = Some v"
    using assms(2) by (simp add: world_simps)
  show ?thesis unfolding w' k(1) option.case id_apply by (rule put_version_same[OF w1 row]) simp_all
qed

lemma evaluate_live_ok:
  assumes "world_ok recorded w" "map_of (sw_versions w) i = Some v" "sv_state v = ACTIVE"
    and "evaluate_live dg rows t v w = Some (Inr w')"
  shows "world_ok recorded w'"
proof -
  from assms(4) obtain signal suspend monitors where
    w': "w' = put_version (v\<lparr>sv_latest_signal := signal, sv_health_suspend := suspend,
        sv_state := (if suspend then SUSPENDED else sv_state v)\<rparr>) (w\<lparr>sw_monitors := monitors\<rparr>)"
    by (auto simp: evaluate_live_def Let_def split: sum.splits)
  have "world_ok recorded (w\<lparr>sw_monitors := monitors\<rparr>)" using assms(1) by (subst world_ok_rows) simp_all
  then show ?thesis unfolding w' using assms(2,3)
    by (intro put_version_observed[of recorded _ i v]) (simp_all add: OBSERVED_STATES_def)
qed

lemma note_paper_failure_ok:
  assumes "world_ok recorded w" "map_of (sw_versions w) i = Some v" "sv_state v = PAPER_TRADING"
  shows "world_ok recorded (note_paper_failure reason now v w)"
proof (cases "sv_paper_run_id v")
  case None
  with assms show ?thesis by (simp add: note_paper_failure_def)
next
  case (Some k)
  show ?thesis
  proof (cases "current_paper_run v w")
    case None
    with assms Some show ?thesis by (simp add: note_paper_failure_def)
  next
    case run: (Some r)
    with Some have r: "map_of (sw_paper_runs w) k = Some r"
      by (auto simp: current_paper_run_def split: option.splits if_splits)
    with Some row_facts(1,2)[OF assms(1,2)] have "pn_strategy_version_id r = i" by (auto simp: own_paper_run_def)
    then show ?thesis unfolding note_paper_failure_def Some run
      by (simp, intro observed_run_ok[OF assms(1) r _ assms(2,3)]) (simp_all add: paper_reachable.note_signal)
  qed
qed

lemma blocked_evaluation_ok:
  assumes "world_ok recorded w" "map_of (sw_versions w) i = Some v" "sv_state v \<in> {PAPER_TRADING, ACTIVE}"
  shows "world_ok recorded (blocked_evaluation now found v err w)"
proof -
  have shown: "world_ok recorded (put_version (v\<lparr>sv_latest_signal := signal\<rparr>) w)" for signal
    by (rule put_version_same[OF assms(1,2)]) simp_all
  have row: "map_of (sw_versions (put_version (v\<lparr>sv_latest_signal := signal\<rparr>) w)) i = Some (v\<lparr>sv_latest_signal := signal\<rparr>)" for signal
    using row_facts(1)[OF assms(1,2)] by (simp add: world_simps)
  have noted: "note_paper_failure reason now v w1 = note_paper_failure reason now (v\<lparr>sv_latest_signal := signal\<rparr>) w1" for reason w1 signal
  proof -
    have same: "sv_paper_run_id (v\<lparr>sv_latest_signal := signal\<rparr>) = sv_paper_run_id v"
      "sv_owner_id (v\<lparr>sv_latest_signal := signal\<rparr>) = sv_owner_id v" by simp_all
    show ?thesis unfolding note_paper_failure_def current_paper_run_def same ..
  qed
  have monitors: "world_ok recorded (w1\<lparr>sw_monitors := ms\<rparr>) = world_ok recorded w1" for w1 ms
    by (rule world_ok_rows) simp_all
  show ?thesis
  proof (cases "found \<and> sv_state v = PAPER_TRADING")
    case True
    then obtain signal where "blocked_evaluation now found v err w
        = note_paper_failure (blocked_reason err) now v (put_version (v\<lparr>sv_latest_signal := signal\<rparr>) w)"
      by (simp add: blocked_evaluation_def Let_def)
    with note_paper_failure_ok[OF shown row, of signal] True show ?thesis
      using noted[of "blocked_reason err" "put_version (v\<lparr>sv_latest_signal := signal\<rparr>) w" signal] by simp
  next
    case False
    then show ?thesis by (auto simp: blocked_evaluation_def Let_def shown monitors split: option.splits)
  qed
qed

lemma evaluate_strategy_ok:
  assumes "world_ok recorded w" "evaluate_strategy dg rows t version_id w = Some w'"
  shows "world_ok recorded w'"
proof (cases "map_of (sw_versions w) version_id")
  case None
  with assms show ?thesis by (simp add: evaluate_strategy_def)
next
  case (Some v)
  show ?thesis
  proof (cases "sv_state v \<in> {PAPER_TRADING, ACTIVE}")
    case True
    with assms(2) Some obtain result found where result: "(if sv_state v = PAPER_TRADING then evaluate_paper dg rows t v w
        else evaluate_live dg rows t v w) = Some result"
      and w': "w' = (case result of Inl err \<Rightarrow> blocked_evaluation (mt_now t) found v err w | Inr w' \<Rightarrow> w')"
      by (auto simp: evaluate_strategy_def Let_def)
    show ?thesis using True result w' blocked_evaluation_ok[OF assms(1) Some True]
        evaluate_paper_ok[OF assms(1) Some] evaluate_live_ok[OF assms(1) Some]
      by (cases result) (auto split: if_splits)
  next
    case False
    with assms Some show ?thesis by (auto simp: evaluate_strategy_def)
  qed
qed

lemma advance_attempt_ok:
  assumes "world_ok recorded w" "advance_attempt dg accounts rows now rules fresh fresh_run d w = Inr (Some w')"
  shows "world_ok recorded w'"
proof -
  from assms(2) obtain spec v w1 i where
    sub: "submit dg accounts (dr_owner_id d) fresh (dr_id d) (put_draft (accepted_by_policy d spec) w) = Inr (v, w1)"
    and create: "create_backtest rows now (dr_owner_id d) fresh_run fresh i w1 = Inr w'"
    by (auto simp: advance_attempt_def split: option.splits)
  have "world_ok recorded w1" using submit_ok[OF _ sub] assms(1) by simp
  then show ?thesis by (rule create_backtest_ok[OF _ create])
qed

lemma advance_strategy_draft_ok:
  "world_ok recorded w \<Longrightarrow> world_ok recorded (advance_strategy_draft dg accounts rows now rules fresh fresh_run draft_id w)"
  using advance_attempt_ok[of recorded w]
  by (auto simp: advance_strategy_draft_def split: option.splits sum.splits)

lemma retry_ok:
  assumes "world_ok recorded w"
  shows "world_ok recorded (retry_strategy_backtest accounts rows now rules fresh version_id w)"
proof (cases "map_of (sw_versions w) version_id")
  case (Some v)
  have "world_ok recorded w'" if "retry_attempt accounts rows now rules fresh v w = Inr (Some w')" for w'
    using that create_backtest_ok[OF assms] by (auto simp: retry_attempt_def split: option.splits if_splits)
  moreover have "world_ok recorded (put_version (v\<lparr>sv_automation_failure := f, sv_automation_failure_policy_saved_at := a\<rparr>) w)" for f a
    by (rule put_version_same[OF assms Some]) simp_all
  ultimately show ?thesis using assms by (auto simp: retry_strategy_backtest_def Some split: option.splits sum.splits)
qed (simp add: retry_strategy_backtest_def assms)

lemma start_auto_ok:
  assumes "world_ok recorded w" "start_strategy_paper accounts rows now fresh version_id w = Inr (Some w')"
  shows "world_ok recorded w'"
  using assms(2) start_paper_ok[OF assms(1)]
  by (auto simp: start_strategy_paper_def split: option.splits if_splits)

lemma review_auto_ok:
  assumes "world_ok recorded w" "review_strategy_paper dg accounts now version_id run_id w = Inr (Some w')"
  shows "world_ok recorded w'"
  using assms(2) complete_paper_ok[OF assms(1)]
  by (auto simp: review_strategy_paper_def split: option.splits if_splits)

lemma proposal_ok:
  "world_ok recorded w \<Longrightarrow> decide_strategy_proposal owner draft_id action w = Inr w' \<Longrightarrow> world_ok recorded w'"
  "world_ok recorded w \<Longrightarrow> save_draft owner draft_id specification origin w = Inr w' \<Longrightarrow> world_ok recorded w'"
  by (auto simp: decide_strategy_proposal_def save_draft_def ensure_def split: if_splits)

lemma step_keeps_ok: "strategy_step dg by_owner w w' \<Longrightarrow> world_ok recorded w \<Longrightarrow> world_ok recorded w'"
  by (induction rule: strategy_step.induct)
    (simp only: put_draft_ok
     | erule (1) proposal_ok submit_ok[THEN conjunct1] create_backtest_ok begin_backtest_ok complete_backtest_ok
         transition_strategy_ok start_paper_ok start_auto_ok stop_paper_ok complete_paper_ok review_auto_ok promote_ok
         evaluate_strategy_ok
     | erule advance_strategy_draft_ok mark_backtest_failed_ok resume_ok retry_ok)+

abbreviation strategy_steps :: "digests \<Rightarrow> strategy_world \<Rightarrow> strategy_world \<Rightarrow> bool" where
  "strategy_steps dg \<equiv> (\<lambda>w w'. \<exists>by_owner. strategy_step dg by_owner w w')\<^sup>*\<^sup>*"

lemma steps_keep_ok: "strategy_steps dg w w' \<Longrightarrow> world_ok recorded w \<Longrightarrow> world_ok recorded w'"
  by (induction rule: rtranclp_induct) (auto dest: step_keeps_ok)

section \<open>The release machine\<close>

text \<open>
  The abstract machine has one stage for what may be done with a version.  It reads two facts of the evidence
  after the move, whether the version is proven and whether it was observed forward, and whether the move is a
  request of the owner: only that makes a version live.  A version can always be taken back; nothing else leads
  to a further stage than the moves below.
\<close>

datatype stage = Unproven | Observing | Cleared | Live | Halted | Withdrawn

fun stage_of :: "strategy_state \<Rightarrow> stage" where
  "stage_of PAPER_TRADING = Observing"
| "stage_of APPROVED = Cleared"
| "stage_of ACTIVE = Live"
| "stage_of DEGRADED = Halted"
| "stage_of SUSPENDED = Halted"
| "stage_of RETIRED = Withdrawn"
| "stage_of _ = Unproven"

inductive release_move :: "bool \<Rightarrow> bool \<Rightarrow> bool \<Rightarrow> stage option \<Rightarrow> stage option \<Rightarrow> bool" for is_proven is_observed by_owner where
  appear: "release_move is_proven is_observed by_owner None (Some Unproven)"
| observing: "is_proven \<Longrightarrow> release_move is_proven is_observed by_owner (Some Unproven) (Some Observing)"
| clear: "is_proven \<Longrightarrow> is_observed \<Longrightarrow> release_move is_proven is_observed by_owner (Some Observing) (Some Cleared)"
| activate: "is_proven \<Longrightarrow> is_observed \<Longrightarrow> by_owner \<Longrightarrow> a \<in> {Cleared, Halted} \<Longrightarrow> release_move is_proven is_observed by_owner (Some a) (Some Live)"
| halt: "is_proven \<Longrightarrow> is_observed \<Longrightarrow> release_move is_proven is_observed by_owner (Some Live) (Some Halted)"
| withdraw_live: "is_proven \<Longrightarrow> is_observed \<Longrightarrow> a \<in> {Live, Halted} \<Longrightarrow> release_move is_proven is_observed by_owner (Some a) (Some Withdrawn)"
| take_back: "release_move is_proven is_observed by_owner (Some a) (Some Unproven)"

inductive_cases release_moveE [elim!]: "release_move p q by_owner a (Some Live)"

definition stage_at :: "strategy_world \<Rightarrow> uuid \<Rightarrow> stage option" where
  "stage_at w i = map_option (\<lambda>v. stage_of (sv_state v)) (map_of (sw_versions w) i)"

definition holds_at :: "(strategy_world \<Rightarrow> version_record \<Rightarrow> bool) \<Rightarrow> strategy_world \<Rightarrow> uuid \<Rightarrow> bool" where
  "holds_at p w i \<longleftrightarrow> (case map_of (sw_versions w) i of None \<Rightarrow> False | Some v \<Rightarrow> p w v)"

text \<open>The stages alone: every version stands still or makes one move.\<close>

definition stage_steps :: "bool \<Rightarrow> strategy_world \<Rightarrow> strategy_world \<Rightarrow> bool" where
  "stage_steps by_owner w w' \<longleftrightarrow> (\<forall>i. stage_at w' i = stage_at w i \<or> release_move True True by_owner (stage_at w i) (stage_at w' i))"

lemma stage_at_put [world_simps]:
  "stage_at (put_version v w) i = (if i = sv_id v then Some (stage_of (sv_state v)) else stage_at w i)"
  "stage_at (put_draft d w) i = stage_at w i" "stage_at (put_backtest k b w) i = stage_at w i"
  "stage_at (put_paper_run k r w) i = stage_at w i"
  by (simp_all add: stage_at_def world_simps)

lemma stage_steps_rows: "sw_versions w' = sw_versions w \<Longrightarrow> stage_steps by_owner w w'"
  by (simp add: stage_steps_def stage_at_def)

lemma stage_steps_refl [simp]: "stage_steps by_owner w w"
  by (simp add: stage_steps_def)

text \<open>A step that writes one version.\<close>

lemma stage_steps_put:
  assumes "sw_versions w' = AList.update i v' (sw_versions w)" "map_of (sw_versions w) i = Some v"
    and "stage_of (sv_state v') = stage_of (sv_state v)
      \<or> release_move True True by_owner (Some (stage_of (sv_state v))) (Some (stage_of (sv_state v')))"
  shows "stage_steps by_owner w w'"
  using assms by (auto simp: stage_steps_def stage_at_def)

lemma stage_steps_back:
  assumes "sw_versions w' = AList.update i v' (sw_versions w)" "map_of (sw_versions w) i = Some v"
    and "stage_of (sv_state v') = Unproven"
  shows "stage_steps by_owner w w'"
  by (rule stage_steps_put[OF assms(1,2)]) (simp add: assms(3) release_move.take_back)

lemma transition_stage:
  "strategy_transition a b = Inr c \<Longrightarrow> b \<notin> {PAPER_TRADING, APPROVED, ACTIVE} \<Longrightarrow>
    stage_of c = stage_of a \<or> release_move True True by_owner (Some (stage_of a)) (Some (stage_of c))"
  by (cases a) (auto simp: strategy_transition_def release_move.simps split: if_splits)

lemma submit_stage:
  assumes "submit dg accounts owner fresh draft_id w = Inr (v, w')"
  shows "stage_at w' i = (if i = fresh then Some Unproven else stage_at w i)" "stage_at w fresh = None"
  using assms by (auto simp: submit_def Let_def ensure_def world_simps new_version_def stage_at_def split: if_splits)

lemma create_backtest_stage:
  assumes "world_ok recorded w" "create_backtest rows now owner fresh strategy_id i w = Inr w'"
  shows "stage_at w' j = (if j = strategy_id then Some Unproven else stage_at w j)" "stage_at w strategy_id \<noteq> None"
proof -
  from assms(2) obtain v where v: "map_of (sw_versions w) strategy_id = Some v"
    by (auto simp: create_backtest_def dest: locked_versionD)
  from row_facts(1)[OF assms(1) v] assms(2) v
  show "stage_at w' j = (if j = strategy_id then Some Unproven else stage_at w j)" "stage_at w strategy_id \<noteq> None"
    by (auto simp: create_backtest_def ensure_def world_simps stage_at_def dest!: locked_versionD split: if_splits)
qed

lemma backtest_stages:
  "world_ok recorded w \<Longrightarrow> create_backtest rows now owner fresh strategy_id i w = Inr w' \<Longrightarrow> stage_steps by_owner w w'"
  using create_backtest_stage[of recorded w rows now owner fresh strategy_id i w']
  by (auto simp: stage_steps_def release_move.take_back)

lemma begin_stages: "begin_backtest rows now run_id w = Inr (Some (v, basis, w')) \<Longrightarrow> stage_steps by_owner w w'"
  by (rule stage_steps_rows) (auto simp: begin_backtest_def required_def world_simps split: if_splits option.splits)

lemma complete_backtest_stages:
  assumes "world_ok recorded w" "complete_backtest c w = Inr w'"
  shows "stage_steps by_owner w w'"
proof -
  from assms(2) obtain run v where run: "map_of (sw_backtests w) (co_run_id c) = Some run"
    and v: "map_of (sw_versions w) (bt_strategy_version_id run) = Some v"
    by (auto simp: complete_backtest_def Let_def required_def split: option.splits)
  let ?v = "v\<lparr>sv_state := VALIDATING, sv_latest_backtest_state := Some (completion_state c), sv_retry_after_at := co_retry_after c,
    sv_validation_evidence := merged (sv_validation_evidence v) (co_gates c)\<rparr>"
  show ?thesis
  proof (cases "sv_latest_backtest_id v = Some (co_run_id c)")
    case True
    with assms(2) run v row_facts(1)[OF assms(1) v]
    have "sw_versions w' = AList.update (bt_strategy_version_id run) ?v (sw_versions w)"
      by (auto simp: complete_backtest_def Let_def required_def world_simps)
    then show ?thesis by (rule stage_steps_back[OF _ v]) simp
  next
    case False
    with assms(2) run v show ?thesis
      by (intro stage_steps_rows) (auto simp: complete_backtest_def Let_def required_def world_simps)
  qed
qed

lemma mark_backtest_failed_stages:
  assumes "world_ok recorded w"
  shows "stage_steps by_owner w (mark_backtest_failed run_id w)"
proof (cases "map_of (sw_backtests w) run_id")
  case (Some run)
  show ?thesis
  proof (cases "map_of (sw_versions w) (bt_strategy_version_id run)")
    case None
    with Some show ?thesis by (intro stage_steps_rows) (simp add: mark_backtest_failed_def Let_def world_simps)
  next
    case v: (Some v)
    show ?thesis
    proof (cases "sv_latest_backtest_id v \<in> {None, Some run_id}")
      case True
      with Some v row_facts(1)[OF assms v] show ?thesis
        by (intro stage_steps_back[OF _ v]) (auto simp: mark_backtest_failed_def Let_def world_simps)
    next
      case False
      with Some v show ?thesis by (intro stage_steps_rows) (auto simp: mark_backtest_failed_def Let_def world_simps)
    qed
  qed
qed (simp add: mark_backtest_failed_def)

lemma transition_stages:
  assumes "world_ok recorded w" "transition_strategy owner strategy_id target w = Inr w'"
  shows "stage_steps by_owner w w'"
proof -
  from assms(2) obtain v s where v: "map_of (sw_versions w) strategy_id = Some v"
    and target: "target \<notin> {PAPER_TRADING, APPROVED, ACTIVE}" and s: "strategy_transition (sv_state v) target = Inr s"
    and w': "w' = put_version (v\<lparr>sv_state := s, sv_latest_signal := None\<rparr>) w"
    by (auto simp: transition_strategy_def dest!: locked_versionD split: if_splits sum.splits)
  have "sw_versions w' = AList.update strategy_id (v\<lparr>sv_state := s, sv_latest_signal := None\<rparr>) (sw_versions w)"
    using row_facts(1)[OF assms(1) v] by (simp add: w' world_simps)
  from stage_steps_put[OF this v] transition_stage[OF s target] show ?thesis by simp
qed

lemma start_paper_stages:
  assumes "world_ok recorded w" "start_paper_trading rows now owner fresh strategy_id duration_days w = Inr w'"
  shows "stage_steps by_owner w w'"
proof (cases "running_paper owner strategy_id w")
  case True
  with assms show ?thesis by (auto simp: start_paper_trading_def)
next
  case False
  with assms(2) obtain v r where v: "map_of (sw_versions w) strategy_id = Some v" "sv_state v = VALIDATING"
    and w': "w' = put_version (v\<lparr>sv_state := PAPER_TRADING, sv_paper_run_id := Some fresh\<rparr>) (put_paper_run fresh r w)"
    by (auto simp: start_paper_trading_def ensure_def dest!: locked_versionD split: if_splits)
  have "sw_versions w' = AList.update strategy_id (v\<lparr>sv_state := PAPER_TRADING, sv_paper_run_id := Some fresh\<rparr>) (sw_versions w)"
    using row_facts(1)[OF assms(1) v(1)] by (simp add: w' world_simps)
  from stage_steps_put[OF this v(1)] v(2) show ?thesis by (simp add: release_move.observing)
qed

lemma stop_paper_stages: "stop_paper_entries now owner strategy_id run_id w = Inr w' \<Longrightarrow> stage_steps by_owner w w'"
  by (rule stage_steps_rows)
    (auto simp: stop_paper_entries_def ensure_def world_simps split: if_splits sum.splits option.splits)

lemma complete_paper_stages:
  assumes "world_ok recorded w" "complete_paper_trading dg now owner strategy_id run_id w = Inr w'"
  shows "stage_steps by_owner w w'"
proof -
  from assms(2) obtain v r where v: "map_of (sw_versions w) strategy_id = Some v"
    and checks: "complete_checks dg now strategy_id run_id v r = Inr ()"
    and ended: "\<exists>v' r'. w' = put_version v' (put_paper_run run_id r' w) \<and> sv_id v' = sv_id v \<and> sv_state v' \<in> {APPROVED, VALIDATING}"
    by (fastforce simp: complete_paper_trading_def Let_def ensure_def dest!: locked_versionD split: if_splits sum.splits option.splits)
  from ended obtain v' r' where w': "w' = put_version v' (put_paper_run run_id r' w)" and v': "sv_id v' = sv_id v"
    "sv_state v' \<in> {APPROVED, VALIDATING}" by blast
  from checks have "sv_state v = PAPER_TRADING"
    by (auto simp: complete_checks_def ensure_def split: if_splits)
  moreover have "sw_versions w' = AList.update strategy_id v' (sw_versions w)"
    using row_facts(1)[OF assms(1) v] v'(1) by (simp add: w' world_simps)
  ultimately show ?thesis using stage_steps_put[OF _ v, of w' v'] v'(2)
    by (auto simp: release_move.simps)
qed

lemma promote_stages:
  assumes "world_ok recorded w" "promote dg now owner strategy_id w = Inr w'"
  shows "stage_steps True w w'"
proof -
  from assms(2) obtain v where v: "map_of (sw_versions w) strategy_id = Some v" "sv_state v \<in> {APPROVED, SUSPENDED}"
    and w': "w' = put_version (v\<lparr>sv_state := ACTIVE, sv_activated_at := Some now, sv_latest_signal := None\<rparr>) w"
    by (auto simp: promote_def ensure_def dest!: locked_versionD split: if_splits)
  have "sw_versions w' = AList.update strategy_id (v\<lparr>sv_state := ACTIVE, sv_activated_at := Some now, sv_latest_signal := None\<rparr>)
      (sw_versions w)"
    using row_facts(1)[OF assms(1) v(1)] by (simp add: w' world_simps)
  from stage_steps_put[OF this v(1)] v(2) show ?thesis by (auto simp: release_move.activate)
qed

lemma evaluate_stages:
  assumes "world_ok recorded w" "evaluate_strategy dg rows t version_id w = Some w'"
  shows "stage_steps by_owner w w'"
proof (cases "map_of (sw_versions w) version_id")
  case None
  with assms show ?thesis by (simp add: evaluate_strategy_def)
next
  case (Some v)
  note id = row_facts(1)[OF assms(1) Some]
  have shown: "stage_steps by_owner w w'" if "sw_versions w' = AList.update version_id v' (sw_versions w)"
    "sv_state v' = sv_state v" for v'
    using stage_steps_put[OF that(1) Some] that(2) by simp
  have noted: "sw_versions (note_paper_failure reason now v w1) = sw_versions w1" for reason now w1
    by (auto simp: note_paper_failure_def world_simps split: option.split)
  have blocked: "stage_steps by_owner w (blocked_evaluation now found v err w)" for now found err
    by (rule stage_steps_put[OF _ Some, where v' = "v\<lparr>sv_latest_signal := Some \<lparr>ss_setup = blocked_setup (blocked_reason err),
          ss_mode = (if sv_state v = PAPER_TRADING then ''PAPER'' else ''LIVE''), ss_artifact_hash = None\<rparr>\<rparr>"])
      (auto simp: blocked_evaluation_def Let_def noted world_simps id split: option.split)
  have live: "stage_steps by_owner w w1" if "evaluate_live dg rows t v w = Some (Inr w1)" "sv_state v = ACTIVE" for w1
  proof -
    from that(1) obtain signal suspend monitors where
      w1: "w1 = put_version (v\<lparr>sv_latest_signal := signal, sv_health_suspend := suspend,
        sv_state := (if suspend then SUSPENDED else sv_state v)\<rparr>) (w\<lparr>sw_monitors := monitors\<rparr>)"
      by (auto simp: evaluate_live_def Let_def split: sum.splits)
    let ?v = "v\<lparr>sv_latest_signal := signal, sv_health_suspend := suspend, sv_state := (if suspend then SUSPENDED else sv_state v)\<rparr>"
    have "sw_versions w1 = AList.update version_id ?v (sw_versions w)" using id by (simp add: w1 world_simps)
    from stage_steps_put[OF this Some] that(2) show ?thesis by (auto simp: release_move.halt)
  qed
  have paper: "stage_steps by_owner w w1" if "evaluate_paper dg rows t v w = Some (Inr w1)" for w1
  proof -
    from that obtain signal suspend k r where
      w1: "w1 = put_version (v\<lparr>sv_latest_signal := signal, sv_health_suspend := suspend\<rparr>) (put_paper_run k r w)"
      by (auto simp: evaluate_paper_def split: sum.splits)
    let ?v = "v\<lparr>sv_latest_signal := signal, sv_health_suspend := suspend\<rparr>"
    have "sw_versions w1 = AList.update version_id ?v (sw_versions w)" using id by (simp add: w1 world_simps)
    from stage_steps_put[OF this Some] show ?thesis by simp
  qed
  show ?thesis
  proof (cases "sv_state v \<in> {PAPER_TRADING, ACTIVE}")
    case True
    with assms(2) Some obtain result found where result: "(if sv_state v = PAPER_TRADING then evaluate_paper dg rows t v w
        else evaluate_live dg rows t v w) = Some result"
      and w': "w' = (case result of Inl err \<Rightarrow> blocked_evaluation (mt_now t) found v err w | Inr w' \<Rightarrow> w')"
      by (auto simp: evaluate_strategy_def Let_def)
    show ?thesis using True result w' blocked live paper by (cases result) (auto split: if_splits)
  next
    case False
    with assms Some show ?thesis by (auto simp: evaluate_strategy_def)
  qed
qed

lemma advance_stages:
  assumes "world_ok recorded w"
  shows "stage_steps by_owner w (advance_strategy_draft dg accounts rows now rules fresh fresh_run draft_id w)"
proof -
  have "stage_steps by_owner w w'" if "advance_attempt dg accounts rows now rules fresh fresh_run d w = Inr (Some w')" for d w'
  proof -
    from that obtain spec v w1 i where
      sub: "submit dg accounts (dr_owner_id d) fresh (dr_id d) (put_draft (accepted_by_policy d spec) w) = Inr (v, w1)"
      and create: "create_backtest rows now (dr_owner_id d) fresh_run fresh i w1 = Inr w'"
      by (auto simp: advance_attempt_def split: option.splits)
    have w1: "world_ok recorded w1" using submit_ok[OF _ sub] assms by simp
    show ?thesis using submit_stage[OF sub] create_backtest_stage[OF w1 create]
      by (auto simp: stage_steps_def world_simps release_move.appear)
  qed
  moreover have "stage_steps by_owner w (put_draft d w)" for d by (rule stage_steps_rows) (simp add: world_simps)
  ultimately show ?thesis by (auto simp: advance_strategy_draft_def split: option.splits sum.splits)
qed

lemma retry_stages:
  assumes "world_ok recorded w"
  shows "stage_steps by_owner w (retry_strategy_backtest accounts rows now rules fresh version_id w)"
proof (cases "map_of (sw_versions w) version_id")
  case (Some v)
  have "stage_steps by_owner w w'" if "retry_attempt accounts rows now rules fresh v w = Inr (Some w')" for w'
    using that backtest_stages[OF assms] by (auto simp: retry_attempt_def split: option.splits if_splits)
  moreover have "stage_steps by_owner w (put_version (v\<lparr>sv_automation_failure := f, sv_automation_failure_policy_saved_at := a\<rparr>) w)" for f a
    using row_facts(1)[OF assms Some]
    by (intro stage_steps_put[OF _ Some, where v' = "v\<lparr>sv_automation_failure := f, sv_automation_failure_policy_saved_at := a\<rparr>"])
      (simp_all add: world_simps)
  ultimately show ?thesis by (auto simp: retry_strategy_backtest_def Some split: option.splits sum.splits)
qed (simp add: retry_strategy_backtest_def)

lemma unattended_stages:
  "world_ok recorded w \<Longrightarrow> start_strategy_paper accounts rows now fresh version_id w = Inr (Some w') \<Longrightarrow> stage_steps by_owner w w'"
  "world_ok recorded w \<Longrightarrow> review_strategy_paper dg accounts now version_id run_id w = Inr (Some w') \<Longrightarrow> stage_steps by_owner w w'"
  using start_paper_stages[of recorded w] complete_paper_stages[of recorded w]
  by (auto simp: start_strategy_paper_def review_strategy_paper_def split: option.splits if_splits)

lemma proposal_stages:
  "decide_strategy_proposal owner draft_id action w = Inr w' \<Longrightarrow> stage_steps by_owner w w'"
  "save_draft owner draft_id spec origin w = Inr w' \<Longrightarrow> stage_steps by_owner w w'"
  by (auto intro!: stage_steps_rows simp: decide_strategy_proposal_def save_draft_def ensure_def world_simps split: if_splits)

lemma submit_stages: "submit dg accounts owner fresh draft_id w = Inr (v, w') \<Longrightarrow> stage_steps by_owner w w'"
  using submit_stage[of dg accounts owner fresh draft_id w v w'] by (auto simp: stage_steps_def release_move.appear)

lemma other_stages: "stage_steps by_owner w (put_draft d w)" "stage_steps by_owner w (snd (resume_strategy_backtests now w))"
  by (auto intro!: stage_steps_rows simp: world_simps resume_strategy_backtests_def)

lemma step_stages: "strategy_step dg by_owner w w' \<Longrightarrow> world_ok recorded w \<Longrightarrow> stage_steps by_owner w w'"
  by (induction rule: strategy_step.induct)
    (rule other_stages
     | erule begin_stages stop_paper_stages proposal_stages submit_stages
     | erule (1) backtest_stages complete_backtest_stages transition_stages start_paper_stages unattended_stages
         complete_paper_stages promote_stages evaluate_stages
     | erule advance_stages mark_backtest_failed_stages retry_stages)+

lemma stage_states: "stage_of s = Live \<longleftrightarrow> s = ACTIVE" "stage_of s = Observing \<longleftrightarrow> s = PAPER_TRADING"
  "stage_of s = Unproven \<or> s \<in> set (PAPER_TRADING # OBSERVED_STATES)"
  "stage_of s \<in> {Unproven, Observing} \<or> s \<in> set OBSERVED_STATES"
  by (cases s; simp add: OBSERVED_STATES_def)+

lemma stage_facts:
  assumes "world_ok recorded w" "stage_at w i = Some a"
  shows "a \<noteq> Unproven \<Longrightarrow> holds_at proven w i" "a \<notin> {Unproven, Observing} \<Longrightarrow> holds_at observed_forward w i"
proof -
  from assms(2) obtain v where v: "map_of (sw_versions w) i = Some v" "a = stage_of (sv_state v)"
    by (auto simp: stage_at_def)
  note facts = row_facts(3,4)[OF assms(1) v(1)] and states = stage_states(3,4)[of "sv_state v"]
  from facts(1) states(1) v show "a \<noteq> Unproven \<Longrightarrow> holds_at proven w i" by (auto simp: holds_at_def)
  from facts(2) states(2) v show "a \<notin> {Unproven, Observing} \<Longrightarrow> holds_at observed_forward w i" by (auto simp: holds_at_def)
qed

lemma guarded_move:
  assumes "release_move True True by_owner a (Some b)"
    and "b \<noteq> Unproven \<Longrightarrow> p" "b \<notin> {Unproven, Observing} \<Longrightarrow> q"
  shows "release_move p q by_owner a (Some b)"
  using assms by cases (simp_all add: release_move.intros)

lemma move_target: "release_move p q by_owner a b \<Longrightarrow> \<exists>c. b = Some c"
  by (induction rule: release_move.induct) auto

lemma not_live_alone: "\<not> release_move p q False a (Some Live)"
  by auto

section \<open>What stands behind a version\<close>


text \<open>C11: An active strategy is fully validated: after any transactions from a world whose rows are consistent (the
  empty one, for example), the latest backtest of an active version is a passed one of its implementation with
  every gate true, the gates its promotion asks for are recorded, and its current paper run observed the same
  implementation with at least ten trades, a positive result, the loss limits kept, no bar missing and nothing
  left open.\<close>
theorem active_strategy_fully_validated:
  assumes "world_ok recorded w" and "strategy_steps dg w w'"
    and "map_of (sw_versions w') i = Some v" and "sv_state v = ACTIVE"
  shows "validation_passed (sv_validation_evidence v)
    \<and> (\<exists>k b. sv_latest_backtest_id v = Some k \<and> map_of (sw_backtests w') k = Some b \<and> bt_state b = ''PASSED''
        \<and> bt_strategy_version_id b = i \<and> bt_artifact_hash b = Some (sv_artifact_hash v)
        \<and> list_all id (dvalues (bt_gates b)))
    \<and> (\<exists>k r. sv_paper_run_id v = Some k \<and> map_of (sw_paper_runs w') k = Some r \<and> pn_state r = ''PASSED''
        \<and> pn_strategy_version_id r = i \<and> pn_artifact_hash r = sv_artifact_hash v
        \<and> 10 \<le> pp_trade_count (pn_session r) \<and> 0 < pp_net_profit (pn_session r)
        \<and> pp_policy_passed (pn_session r) = Some True \<and> pp_data_complete (pn_session r)
        \<and> pp_open_positions (pn_session r) = None \<and> pp_pending_entries (pn_session r) = [])"
proof -
  have ok: "world_ok recorded w'" by (rule steps_keep_ok[OF assms(2,1)])
  note facts = row_facts[OF ok assms(3)]
  have "proven w' v" "observed_forward w' v" using facts(3,4) assms(4) by (simp_all add: OBSERVED_STATES_def)
  with world_ok_backtest[OF ok] facts(1) show ?thesis
    unfolding proven_def observed_forward_def backtest_ok_def paper_gates_def by fastforce
qed

text \<open>C13: Forward evidence is never made up afterwards: in every world that comes from one whose sessions were
  recorded by ticks, each trade of each paper run was announced by an intent that was stored at most a quarter
  of a bar after the entry's time, with a signal of the strategy, before the market could show the result.\<close>
theorem forward_runs_recorded_ahead:
  assumes "world_ok True w" and "strategy_steps dg w w'"
    and "map_of (sw_paper_runs w') k = Some r" and "TIMEFRAMES (pn_timeframe r) = Some tf"
  shows "\<forall>x \<in> set (map fst (pp_trades (pn_session r))). \<exists>i. map_of (pp_entry_intents (pn_session r)) (sx_entered_at x) = Some i
    \<and> sx_entered_at x \<le> ei_observed_at i \<and> 4 * (ei_observed_at i - sx_entered_at x) \<le> seconds tf
    \<and> su_status (ei_signal i) = ''SIGNAL''"
proof -
  have "run_ok True w' r" using world_ok_run[OF steps_keep_ok[OF assms(2,1)] assms(3)] .
  with assms(4) obtain v :: version_record where "paper_reachable tf (sv_specification v) (pn_session r)"
    by (auto simp: run_ok_def)
  from session_ok_reachable[OF this] show ?thesis by (fastforce simp: session_ok_def timely_def)
qed

text \<open>C14: Unattended work never activates a strategy: whatever sequence of tasks runs (advancing proposals, running
  and retrying backtests, starting and reviewing paper runs, evaluating), a version that is active at its end
  was active before it.\<close>
theorem automation_never_activates:
  assumes "world_ok recorded w" and "(strategy_step dg False)\<^sup>*\<^sup>* w w'"
    and "map_of (sw_versions w') i = Some v'" and "sv_state v' = ACTIVE"
  shows "\<exists>v. map_of (sw_versions w) i = Some v \<and> sv_state v = ACTIVE"
proof -
  have "world_ok recorded w' \<and> (stage_at w' i = Some Live \<longrightarrow> stage_at w i = Some Live)"
    using assms(2)
  proof (induction rule: rtranclp_induct)
    case (step w1 w2)
    then have "world_ok recorded w1" by simp
    note after = step_keeps_ok[OF step(2) this] step_stages[OF step(2) this]
    have "stage_at w1 i = Some Live" if "stage_at w2 i = Some Live"
      using after(2) that not_live_alone unfolding stage_steps_def by metis
    with after(1) step.IH show ?case by blast
  qed (simp add: assms(1))
  with assms(3,4) show ?thesis by (auto simp: stage_at_def stage_states)
qed

section \<open>Witnesses\<close>

definition demo_digests :: digests where
  "demo_digests = \<lparr>dg_fingerprint = (\<lambda>_. ''f''), dg_artifact_hash = (\<lambda>_. ''a'')\<rparr>"

definition demo_evidence :: "(string, bool) dict" where
  "demo_evidence = map (\<lambda>gate. (gate, True))
     [''compiler'', ''backtest'', ''out_of_sample'', ''walk_forward'', ''stress'', ''policy'', ''paper'', ''paper_forward'']"

definition demo_version :: "strategy_state \<Rightarrow> version_record" where
  "demo_version state =
     \<lparr>sv_id = ''v'', sv_owner_id = ''o'', sv_state = state, sv_strategy_id = ''d'', sv_specification = demo_plain,
      sv_fingerprint = ''f'', sv_artifact_hash = ''a'',
      sv_research_basis = Some \<lparr>rb_market_selection_id = Some ''s'', rb_account_id = Some ''acc'', rb_instrument = ''EURUSD'',
                               rb_historical_timeframe = Some ''1m''\<rparr>,
      sv_selection_cut_at = None, sv_validation_evidence = demo_evidence, sv_latest_backtest_id = Some ''b'',
      sv_latest_backtest_state = Some ''PASSED'', sv_retry_after_at = None, sv_paper_run_id = Some ''p'',
      sv_latest_signal = None, sv_monitoring_timeframe = None, sv_health_suspend = False, sv_activated_at = None,
      sv_automation_failure = None, sv_automation_failure_policy_saved_at = None\<rparr>"

definition demo_backtest :: backtest_record where
  "demo_backtest =
     \<lparr>bt_owner_id = ''o'', bt_state = ''PASSED'', bt_strategy_version_id = ''v'', bt_connection_id = ''c'',
      bt_account_id = Some ''acc'', bt_instrument = ''EURUSD'', bt_timeframe = ''1m'', bt_start_at = 0, bt_end_at = 9,
      bt_configuration = demo_config, bt_started_at = Some 0, bt_artifact_hash = Some ''a'', bt_gates = [(''backtest'', True)],
      bt_trigger = ''USER''\<rparr>"

definition demo_paper :: "string \<Rightarrow> paper_session \<Rightarrow> paper_run" where
  "demo_paper state session =
     \<lparr>pn_owner_id = ''o'', pn_state = state, pn_strategy_version_id = ''v'', pn_artifact_hash = ''a'', pn_timeframe = ''1m'',
      pn_account_id = ''acc'', pn_instrument = ''EURUSD'', pn_configuration = demo_config, pn_session = session,
      pn_failure = None, pn_gates = []\<rparr>"

definition demo_lifecycle :: "strategy_state \<Rightarrow> string \<Rightarrow> paper_session \<Rightarrow> strategy_world" where
  "demo_lifecycle state run session =
     \<lparr>sw_drafts = [], sw_versions = [(''v'', demo_version state)], sw_backtests = [(''b'', demo_backtest)],
      sw_paper_runs = [(''p'', demo_paper run session)], sw_performance = [], sw_monitors = []\<rparr>"

definition demo_passed_session :: paper_session where
  "demo_passed_session = (started_session 0 1)\<lparr>pp_trade_count := 12, pp_net_profit := 5, pp_gross_profit := 9,
     pp_gross_loss := 4, pp_policy_passed := Some True\<rparr>"

lemma demo_lifecycle_ok:
  assumes "recorded \<longrightarrow> paper_reachable 60 demo_plain session"
    and "state \<in> set OBSERVED_STATES \<Longrightarrow> run = ''PASSED'' \<and> list_all id (dvalues (paper_gates session))"
  shows "world_ok recorded (demo_lifecycle state run session)"
proof -
  let ?w = "demo_lifecycle state run session"
  have rows: "map_of (sw_versions ?w) i = (if i = ''v'' then Some (demo_version state) else None)"
    "map_of (sw_backtests ?w) i = (if i = ''b'' then Some demo_backtest else None)"
    "map_of (sw_paper_runs ?w) i = (if i = ''p'' then Some (demo_paper run session) else None)" for i
    by (simp_all add: demo_lifecycle_def)
  have "version_ok ?w ''v'' (demo_version state)"
    using assms(2) by (simp add: version_ok_def own_paper_run_def proven_def observed_forward_def rows)
      (simp add: demo_version_def demo_paper_def demo_backtest_def demo_evidence_def validation_passed_def dget_def)
  moreover have "backtest_ok demo_backtest" by (simp add: backtest_ok_def demo_backtest_def TIMEFRAMES.simps)
  moreover have "run_ok recorded ?w (demo_paper run session)"
    using assms(1) by (simp add: run_ok_def rows) (simp add: demo_paper_def demo_version_def TIMEFRAMES.simps)
  ultimately show ?thesis by (simp add: world_ok_def rows)
qed

abbreviation "demo_cleared \<equiv> demo_lifecycle APPROVED ''PASSED'' demo_passed_session"

lemma demo_cleared_ok: "world_ok False demo_cleared"
  by (rule demo_lifecycle_ok)
    (simp_all add: paper_gates_def demo_passed_session_def started_session_def)

definition demo_promoted :: version_record where
  "demo_promoted = (demo_version APPROVED)\<lparr>sv_state := ACTIVE, sv_activated_at := Some 5, sv_latest_signal := None\<rparr>"

lemma demo_promotion: "promote demo_digests 5 ''o'' ''v'' demo_cleared = Inr (put_version demo_promoted demo_cleared)"
  by (simp add: promote_def locked_version_def demo_lifecycle_def demo_version_def demo_promoted_def demo_digests_def
      demo_plain_valid demo_evidence_def typed_promotable_def promotable_def dget_def)

lemma demo_promoted_row: "map_of (sw_versions (put_version demo_promoted demo_cleared)) ''v'' = Some demo_promoted"
  "sv_state demo_promoted = ACTIVE" "stage_at demo_cleared ''v'' = Some Cleared"
  by (simp_all add: world_simps demo_promoted_def demo_version_def demo_lifecycle_def stage_at_def)


theorem active_strategy_fully_validated_witness:
  "\<exists>w v k r. strategy_steps demo_digests demo_cleared w \<and> map_of (sw_versions w) ''v'' = Some v \<and> sv_state v = ACTIVE
     \<and> validation_passed (sv_validation_evidence v) \<and> map_of (sw_paper_runs w) k = Some r \<and> 10 \<le> pp_trade_count (pn_session r)"
proof -
  have steps: "strategy_steps demo_digests demo_cleared (put_version demo_promoted demo_cleared)"
    using strategy_step.promoted[OF demo_promotion] by (intro r_into_rtranclp) blast
  from active_strategy_fully_validated[OF demo_cleared_ok steps demo_promoted_row(1,2)] steps demo_promoted_row(1,2)
  show ?thesis by blast
qed

theorem automation_never_activates_witness:
  "\<exists>w v. strategy_step demo_digests False (put_version demo_promoted demo_cleared) w
     \<and> map_of (sw_versions (put_version demo_promoted demo_cleared)) ''v'' = Some v \<and> sv_state v = ACTIVE"
proof -
  let ?w = "put_version demo_promoted demo_cleared"
  let ?w' = "snd (resume_strategy_backtests 7 ?w)"
  have ok: "world_ok False ?w" by (rule promote_ok[OF demo_cleared_ok demo_promotion])
  have step: "strategy_step demo_digests False ?w ?w'" by (rule strategy_step.resumed)
  have "map_of (sw_versions ?w') ''v'' = Some demo_promoted"
    using demo_promoted_row(1) by (simp add: resume_strategy_backtests_def)
  from automation_never_activates[OF ok r_into_rtranclp[of "strategy_step demo_digests False", OF step] this demo_promoted_row(2)] step show ?thesis by blast
qed

definition demo_rows :: basis_rows where
  "demo_rows =
     \<lparr>bw_selection = (\<lambda>_. Some \<lparr>mr_account_id = ''acc'', mr_connection_binding_id = Some ''bind'', mr_asset_class = FOREX,
        mr_lane = ''FOREX'', mr_symbol = ''EURUSD'', mr_provider = ''TWELVE_DATA'', mr_source_cut_id = ''s:M1'', mr_tick_size = None\<rparr>),
      bw_account_state = (\<lambda>_. Some ''ACTIVE''),
      bw_binding = (\<lambda>_. Some \<lparr>br_account_id = ''acc'', br_lane = ''FOREX'', br_verification_status = ''VERIFIED'', br_connection_id = ''c''\<rparr>),
      bw_connection = (\<lambda>_. Inr (''c'', TWELVE_DATA))\<rparr>"

definition demo_tick :: monitor_tick where
  "demo_tick =
     \<lparr>mt_now = 420000000, mt_technical = no_indicators, mt_zone = (\<lambda>_ _. (0, 12, 0)),
      mt_day_of = (\<lambda>_. ''2026-01-05T00:00:00+00:00''), mt_archive = None, mt_candles = Inr demo_feed,
      mt_unhealthy = (\<lambda>_. False), mt_health_reason = '''', mt_selected = (\<lambda>_. None)\<rparr>"

abbreviation "demo_observing \<equiv> demo_lifecycle PAPER_TRADING ''RUNNING'' demo_session"

theorem forward_runs_recorded_ahead_witness:
  "\<exists>w r x p i. evaluate_strategy demo_digests demo_rows demo_tick ''v'' demo_observing = Some w
     \<and> map_of (sw_paper_runs w) ''p'' = Some r \<and> pp_trades (pn_session r) = [(x, p)]
     \<and> map_of (pp_entry_intents (pn_session r)) (sx_entered_at x) = Some i
     \<and> 4 * (ei_observed_at i - sx_entered_at x) \<le> seconds 60"
proof -
  obtain st x p where st: "observe (demo_env 420000000) demo_plain True demo_feed demo_session = Some (Inr st)"
    "pp_trades st = [(x, p)]" by (rule demo_second_tick)
  let ?v = "demo_version PAPER_TRADING" and ?r = "demo_paper ''RUNNING'' demo_session"
  have v: "map_of (sw_versions demo_observing) ''v'' = Some ?v" "sv_state ?v = PAPER_TRADING" "sv_specification ?v = demo_plain"
    "sv_paper_run_id ?v = Some ''p''"
    by (simp_all add: demo_lifecycle_def demo_version_def)
  have r: "current_paper_run ?v demo_observing = Some ?r"
    by (simp add: current_paper_run_def demo_version_def demo_lifecycle_def demo_paper_def)
  have rules: "ss_trade_rules demo_plain \<noteq> None" by (simp add: demo_plain_def demo_strategy_def)
  have checks: "monitored_checks demo_digests ?v = Inr ()"
    by (simp add: monitored_checks_def demo_version_def demo_plain_valid demo_evidence_def validation_passed_def dget_def
        demo_digests_def rules)
  have "str_upper ''TWELVE_DATA'' = ''TWELVE_DATA''" by code_simp
  then have basis: "\<exists>b. resolve_backtest_basis demo_rows demo_observing ?v = Inr b"
    unfolding resolve_backtest_basis_def pinned_basis_def by (simp add: demo_version_def demo_rows_def selected_basis_def
        verified_binding_def source_provider_def required_def Let_def)
  have engine: "pp_engine demo_session = ENGINE" by (simp add: demo_session_def observed_session_def Let_def)
  have paper: "paper_checks ?v (Some ?r) = Inr ?r"
    using engine by (simp add: paper_checks_def required_def demo_paper_def demo_version_def)
  have tf: "TIMEFRAMES (pn_timeframe ?r) = Some 60" by (simp add: demo_paper_def TIMEFRAMES.simps)
  have env: "tick_env demo_tick demo_plain 60 (pn_configuration ?r) = demo_env 420000000"
    by (simp add: tick_env_def demo_tick_def demo_env_def demo_paper_def)
  have candles: "mt_candles demo_tick = Inr demo_feed" by (simp add: demo_tick_def)
  have session: "pn_session ?r = demo_session" by (simp add: demo_paper_def)
  from basis obtain b where b: "resolve_backtest_basis demo_rows demo_observing ?v = Inr b" ..
  define r' where "r' = ?r\<lparr>pn_session := st, pn_failure := None\<rparr>"
  define v' where "v' = ?v\<lparr>sv_latest_signal := map_option (\<lambda>su. \<lparr>ss_setup = su, ss_mode = ''PAPER'',
    ss_artifact_hash = Some (sv_artifact_hash ?v)\<rparr>) (pp_latest_signal st), sv_health_suspend := mt_unhealthy demo_tick (pp_trades st)\<rparr>"
  define w where "w = put_version v' (put_paper_run ''p'' r' demo_observing)"
  have "evaluate_paper demo_digests demo_rows demo_tick ?v demo_observing = Some (Inr w)"
    unfolding evaluate_paper_def checks b r paper rbind.simps tf candles required_def option.case
    by (simp add: v env session st(1) w_def v'_def r'_def)
  then have w: "evaluate_strategy demo_digests demo_rows demo_tick ''v'' demo_observing = Some w"
    by (simp add: evaluate_strategy_def v Let_def)
  have r': "map_of (sw_paper_runs w) ''p'' = Some r'" "pn_session r' = st" "pn_timeframe r' = ''1m''"
    by (simp_all add: w_def world_simps r'_def demo_paper_def)
  have ok: "world_ok True demo_observing" using demo_reached(2) by (intro demo_lifecycle_ok) (simp_all add: OBSERVED_STATES_def)
  have steps: "strategy_steps demo_digests demo_observing w"
    using strategy_step.evaluated[OF w] by (intro r_into_rtranclp) blast
  have "TIMEFRAMES (pn_timeframe r') = Some 60" by (simp add: r' TIMEFRAMES.simps)
  from forward_runs_recorded_ahead[OF ok steps r'(1) this] w r' st(2) show ?thesis by fastforce
qed

text \<open>The completion of the latest run does not look at the state of its version: a run that was handed out twice and
  ends late takes an active version, and even a retired one, back to \<open>VALIDATING\<close>.\<close>

lemma late_completion_reopens:
  assumes "complete_backtest c w = Inr w'" "map_of (sw_backtests w) (co_run_id c) = Some run"
    and "map_of (sw_versions w) (bt_strategy_version_id run) = Some v" "sv_id v = bt_strategy_version_id run"
    and "sv_latest_backtest_id v = Some (co_run_id c)" "sv_state v = RETIRED"
  shows "stage_at w (sv_id v) = Some Withdrawn \<and> stage_at w' (sv_id v) = Some Unproven"
  using assms by (auto simp: complete_backtest_def Let_def required_def stage_at_def world_simps)

end
