(* ===== verification/Identity.thy ===== *)
theory Identity
  imports PyText DomainTypes "HOL-Library.Word"
begin

text \<open>
  Sign-in: \<open>modules/identity\<close> (roles, passwords, one-time codes, the delivery of links), the routes of
  \<open>apps/api/app/routes/auth.py\<close> from signup to password recovery, and the actor every other route asks for
  (\<open>apps/api/app/dependencies.py\<close>).  An invariant of the tables (\<open>auth_ok\<close>) and the growth of their rows
  (\<open>auth_grows\<close>) are kept by every route; \<open>auth_step\<close> has one rule for each route that changes the tables, and the
  properties speak of every installation that such steps reach from the empty one.

  The tables are dictionaries in an \<open>auth_world\<close>; a route that raises leaves the world as it was.  Random
  identifiers and secrets are arguments, and so are the primitives of cryptography: the digest, the password
  key, the keyed hash behind a one-time code, the sealing of the authenticator secret.
\<close>

unbundle bit_operations_syntax

section \<open>Actors and roles\<close>

datatype role = OWNER | OPERATOR | VIEWER

fun role_of :: "string \<Rightarrow> role option" where
  "role_of s = (if s = ''OWNER'' then Some OWNER else if s = ''OPERATOR'' then Some OPERATOR
     else if s = ''VIEWER'' then Some VIEWER else None)"

record actor =
  ac_actor_id :: uuid
  ac_owner_id :: uuid
  ac_role :: role
  ac_step_up_verified :: bool

definition actor_require :: "actor \<Rightarrow> role list \<Rightarrow> uuid option \<Rightarrow> unit res" where
  "actor_require a roles owner =
     ensure (\<not> (ac_role a \<notin> set roles \<or> owner \<noteq> None \<and> owner \<noteq> Some (ac_owner_id a)))
       (PermissionError ''operation is outside the actor scope'')"

section \<open>Cryptography as arguments\<close>

record auth_crypto =
  cy_digest :: "string \<Rightarrow> string"
  cy_scrypt :: "string \<Rightarrow> string \<Rightarrow> string"
  cy_hmac :: "string \<Rightarrow> int \<Rightarrow> 8 word list"
  cy_seal :: "uuid \<Rightarrow> string \<Rightarrow> string \<Rightarrow> string"
  cy_open :: "uuid \<Rightarrow> string \<Rightarrow> string res"

text \<open>The salt and the key are kept as hexadecimal text.\<close>

definition hash_password :: "auth_crypto \<Rightarrow> string \<Rightarrow> string \<Rightarrow> string res" where
  "hash_password cy salt password =
     rbind (ensure (12 \<le> length password) (ValueError ''password must contain at least 12 characters'')) (\<lambda>_.
     Inr (''scrypt$'' @ salt @ ''$'' @ cy_scrypt cy salt password))"

definition verify_password :: "auth_crypto \<Rightarrow> string \<Rightarrow> string \<Rightarrow> bool res" where
  "verify_password cy password encoded =
     (case str_split CHR ''$'' encoded of
        [scheme, salt, key] \<Rightarrow> Inr (cy_scrypt cy salt password = key)
      | _ \<Rightarrow> Inl (ValueError ''not enough values to unpack''))"

definition zfill :: "nat \<Rightarrow> string \<Rightarrow> string" where
  "zfill n s = replicate (n - length s) CHR ''0'' @ s"

definition big_endian :: "8 word list \<Rightarrow> 32 word" where
  "big_endian bytes = fold (\<lambda>b n. n * 256 + ucast b) bytes 0"

text \<open>\<open>at or int(time.time())\<close>: an instant of zero is the present one.\<close>

definition totp_code :: "8 word list \<Rightarrow> string" where
  "totp_code digest =
     (let offset = unat (last digest AND 15);
          value = big_endian (take 4 (drop offset digest)) AND 0x7FFFFFFF
      in zfill 6 (nat_str (unat value mod 1000000)))"

definition totp :: "auth_crypto \<Rightarrow> int \<Rightarrow> string \<Rightarrow> int \<Rightarrow> string" where
  "totp cy now secret moment =
     totp_code (cy_hmac cy secret ((if moment = 0 then now else moment) div 30))"

section \<open>Settings and mail\<close>

record url_parts =
  up_scheme :: string
  up_hostname :: "string option"
  up_username :: "string option"
  up_password :: "string option"
  up_path :: string
  up_query :: string
  up_fragment :: string

text \<open>\<open>st_app_url\<close> is \<open>urlsplit\<close> of the public address: \<open>None\<close> where it raises \<open>ValueError\<close>.\<close>

record auth_settings =
  st_env :: string
  st_dev_tokens :: bool
  st_email_verification :: bool
  st_owner_setup_secret :: "string option"
  st_app_url :: "url_parts option"
  st_smtp_host :: "string option"
  st_smtp_username :: "string option"
  st_smtp_password :: "string option"
  st_smtp_from :: "string option"

definition present :: "string option \<Rightarrow> bool" where
  "present s \<longleftrightarrow> s \<notin> {None, Some ''''}"

definition delivery_mode :: "auth_settings \<Rightarrow> string res" where
  "delivery_mode st =
     (if st_env st = ''development'' \<and> st_dev_tokens st then Inr ''DEVELOPMENT_TOKEN''
      else case st_app_url st of
        None \<Rightarrow> Inl (RuntimeError ''authentication email is not configured'')
      | Some u \<Rightarrow>
          if \<not> present (up_hostname u) \<or> up_scheme u \<notin> {''https'', ''http''}
             \<or> st_env st \<noteq> ''development'' \<and> up_scheme u \<noteq> ''https''
             \<or> up_username u \<noteq> None \<or> up_password u \<noteq> None \<or> up_path u \<notin> {'''', ''/''}
             \<or> up_query u \<noteq> '''' \<or> up_fragment u \<noteq> ''''
             \<or> \<not> present (st_smtp_host st) \<or> \<not> present (st_smtp_username st) \<or> \<not> present (st_smtp_password st)
             \<or> \<not> present (st_smtp_from st)
          then Inl (RuntimeError ''authentication email is not configured'')
          else Inr ''SMTP'')"

text \<open>\<open>sent\<close>: the mail server took the message.  Only local development shows the token to the browser.\<close>

definition deliver_auth_link :: "auth_settings \<Rightarrow> bool \<Rightarrow> string \<Rightarrow> string \<Rightarrow> string option res" where
  "deliver_auth_link st sent purpose token =
     rbind (delivery_mode st) (\<lambda>mode.
     if mode = ''DEVELOPMENT_TOKEN'' then Inr (Some token)
     else
       rbind (ensure (purpose \<in> {''verify'', ''recover''}) (ValueError ''unsupported authentication email purpose'')) (\<lambda>_.
       rbind (ensure sent (RuntimeError ''authentication email could not be delivered'')) (\<lambda>_. Inr None)))"

definition require_email_delivery :: "auth_settings \<Rightarrow> string res" where
  "require_email_delivery st =
     (case delivery_mode st of
        Inl _ \<Rightarrow> Inl (HTTPException 503 ''authentication email is unavailable'')
      | Inr mode \<Rightarrow> Inr mode)"

definition normalized_email :: "string \<Rightarrow> string res" where
  "normalized_email s =
     (let email = str_strip (str_lower s);
          parts = str_split CHR ''@'' email
      in if length email > 320 \<or> length parts \<noteq> 2
            \<or> list_ex (\<lambda>c. chr_space c \<or> (of_char c :: nat) < 32) email
            \<or> CHR ''.'' \<notin> set (parts ! 1)
         then Inl (HTTPException 422 ''valid email required'') else Inr email)"

definition check_owner_setup_code :: "auth_settings \<Rightarrow> string option \<Rightarrow> unit res" where
  "check_owner_setup_code st code =
     (if st_env st \<noteq> ''production'' \<or> st_email_verification st then Inr ()
      else case st_owner_setup_secret st of
        None \<Rightarrow> Inl (HTTPException 503 ''owner setup code is not configured'')
      | Some secret \<Rightarrow>
          rbind (ensure (32 \<le> length secret) (HTTPException 503 ''owner setup code is not configured'')) (\<lambda>_.
          ensure (present code \<and> code = Some secret) (HTTPException 403 ''invalid owner setup code'')))"

section \<open>Tables\<close>

record user_row =
  us_id :: uuid
  us_owner_id :: uuid
  us_email :: string
  us_password_hash :: string
  us_role :: string
  us_email_verified :: bool
  us_mfa_enabled :: bool
  us_mfa_secret :: "string option"
  us_recovery_code_hashes :: "string list"

record session_row =
  se_id :: uuid
  se_user_id :: uuid
  se_owner_id :: uuid
  se_token_hash :: string
  se_role :: string
  se_expires_at :: timestamp
  se_revoked_at :: "timestamp option"
  se_step_up_at :: "timestamp option"

datatype token_kind =
  EMAIL_VERIFICATION | MFA_BOOTSTRAP | MFA_ENROLLMENT | LOGIN_MFA | STEP_UP | PASSWORD_RECOVERY

record token_row =
  tk_id :: uuid
  tk_user_id :: uuid
  tk_kind :: token_kind
  tk_token_hash :: "string option"
  tk_scope :: "string option"
  tk_expires_at :: timestamp
  tk_used_at :: "timestamp option"
  tk_created_at :: timestamp

record auth_world =
  au_users :: "(uuid, user_row) dict"
  au_gate :: "uuid option"
  au_sessions :: "(uuid, session_row) dict"
  au_tokens :: "(uuid, token_row) dict"
  au_audit :: "(uuid \<times> string) list"

definition put_user :: "user_row \<Rightarrow> auth_world \<Rightarrow> auth_world" where
  "put_user u w = w\<lparr>au_users := AList.update (us_id u) u (au_users w)\<rparr>"

definition put_session :: "session_row \<Rightarrow> auth_world \<Rightarrow> auth_world" where
  "put_session s w = w\<lparr>au_sessions := AList.update (se_id s) s (au_sessions w)\<rparr>"

definition put_token :: "token_row \<Rightarrow> auth_world \<Rightarrow> auth_world" where
  "put_token t w = w\<lparr>au_tokens := AList.update (tk_id t) t (au_tokens w)\<rparr>"

definition audited :: "uuid \<Rightarrow> string \<Rightarrow> auth_world \<Rightarrow> auth_world" where
  "audited owner event w = w\<lparr>au_audit := au_audit w @ [(owner, event)]\<rparr>"

text \<open>Primary keys and the unique columns.\<close>

definition add_token :: "token_row \<Rightarrow> auth_world \<Rightarrow> auth_world res" where
  "add_token t w =
     rbind (ensure (map_of (au_tokens w) (tk_id t) = None
                    \<and> (tk_token_hash t = None \<or> list_all (\<lambda>x. tk_token_hash x \<noteq> tk_token_hash t) (dvalues (au_tokens w))))
              IntegrityError) (\<lambda>_. Inr (put_token t w))"

definition add_session :: "session_row \<Rightarrow> auth_world \<Rightarrow> auth_world res" where
  "add_session s w =
     rbind (ensure (map_of (au_sessions w) (se_id s) = None
                    \<and> list_all (\<lambda>x. se_token_hash x \<noteq> se_token_hash s) (dvalues (au_sessions w))) IntegrityError)
       (\<lambda>_. Inr (put_session s w))"

section \<open>Tokens, codes and sessions\<close>

definition new_token ::
    "uuid \<Rightarrow> uuid \<Rightarrow> token_kind \<Rightarrow> string option \<Rightarrow> string option \<Rightarrow> timestamp \<Rightarrow> int \<Rightarrow> token_row" where
  "new_token fresh user kind token_hash scope now lifetime =
     \<lparr>tk_id = fresh, tk_user_id = user, tk_kind = kind, tk_token_hash = token_hash, tk_scope = scope,
      tk_expires_at = now + lifetime, tk_used_at = None, tk_created_at = now\<rparr>"

text \<open>What a route draws at random: the id of a row and the text that is handed out.\<close>

record drawn =
  dn_id :: uuid
  dn_raw :: string

definition issue_mfa_bootstrap :: "auth_crypto \<Rightarrow> timestamp \<Rightarrow> drawn \<Rightarrow> user_row \<Rightarrow> auth_world \<Rightarrow> auth_world res" where
  "issue_mfa_bootstrap cy now drawn u w =
     add_token (new_token (dn_id drawn) (us_id u) MFA_BOOTSTRAP (Some (cy_digest cy (dn_raw drawn))) None now (minutes 30)) w"

definition signup_available :: "auth_world \<Rightarrow> bool" where
  "signup_available w \<longleftrightarrow> au_users w = [] \<and> au_gate w = None"

text \<open>A recovery code is struck off when it is used.\<close>

definition verify_mfa :: "auth_crypto \<Rightarrow> int \<Rightarrow> user_row \<Rightarrow> string \<Rightarrow> (bool \<times> user_row) res" where
  "verify_mfa cy now u code =
     rbind (case us_mfa_secret u of
              None \<Rightarrow> Inr ''''
            | Some sealed \<Rightarrow> if sealed = '''' then Inr '''' else cy_open cy (us_id u) sealed) (\<lambda>secret.
     Inr (if secret \<noteq> '''' \<and> list_ex (\<lambda>offset. totp cy now secret (now + offset) = code) [- 30, 0, 30] then (True, u)
          else if cy_digest cy code \<in> set (us_recovery_code_hashes u)
          then (True, u\<lparr>us_recovery_code_hashes := filter (\<lambda>x. x \<noteq> cy_digest cy code) (us_recovery_code_hashes u)\<rparr>)
          else (False, u)))"

text \<open>\<open>int(utc_now().timestamp())\<close>\<close>

definition unix_time :: "timestamp \<Rightarrow> int" where
  "unix_time t = t div 1000000"

definition live_session :: "auth_crypto \<Rightarrow> timestamp \<Rightarrow> string \<Rightarrow> session_row \<Rightarrow> bool" where
  "live_session cy now cookie s \<longleftrightarrow>
     se_token_hash s = cy_digest cy cookie \<and> se_revoked_at s = None \<and> now < se_expires_at s"

definition new_session :: "auth_crypto \<Rightarrow> timestamp \<Rightarrow> drawn \<Rightarrow> user_row \<Rightarrow> session_row" where
  "new_session cy now drawn u =
     \<lparr>se_id = dn_id drawn, se_user_id = us_id u, se_owner_id = us_owner_id u,
      se_token_hash = cy_digest cy (dn_raw drawn), se_role = us_role u, se_expires_at = now + minutes 480,
      se_revoked_at = None, se_step_up_at = None\<rparr>"

text \<open>The broker desktop has to be running before a session is created.\<close>

definition issue_session ::
    "auth_crypto \<Rightarrow> bool \<Rightarrow> timestamp \<Rightarrow> drawn \<Rightarrow> user_row \<Rightarrow> auth_world \<Rightarrow> auth_world res" where
  "issue_session cy started now drawn u w =
     rbind (ensure started (HTTPException 503 ''MT5 desktop runtime could not be started; session was not created'')) (\<lambda>_.
     rbind (add_session (new_session cy now drawn u) w) (\<lambda>w1.
     Inr (audited (us_owner_id u) ''session.created'' w1)))"

definition usable_token :: "timestamp \<Rightarrow> token_kind \<Rightarrow> token_row \<Rightarrow> bool" where
  "usable_token now kind t \<longleftrightarrow> tk_kind t = kind \<and> tk_used_at t = None \<and> now < tk_expires_at t"

definition token_user ::
    "timestamp \<Rightarrow> token_row option \<Rightarrow> token_kind \<Rightarrow> auth_world \<Rightarrow> (token_row \<times> user_row) res" where
  "token_user now row kind w =
     (case row of
        None \<Rightarrow> Inl (HTTPException 401 ''invalid or expired token'')
      | Some t \<Rightarrow>
          rbind (ensure (usable_token now kind t) (HTTPException 401 ''invalid or expired token'')) (\<lambda>_.
          rbind (required (map_of (au_users w) (tk_user_id t)) (HTTPException 401 ''user no longer exists'')) (\<lambda>u.
          Inr (t, u))))"

definition token_by_text :: "auth_crypto \<Rightarrow> string \<Rightarrow> auth_world \<Rightarrow> token_row option" where
  "token_by_text cy text w = first_match (\<lambda>t. tk_token_hash t = Some (cy_digest cy text)) (dvalues (au_tokens w))"

definition token_by_id :: "uuid \<Rightarrow> auth_world \<Rightarrow> token_row option" where
  "token_by_id i w = map_of (au_tokens w) i"

text \<open>The newest token of a kind for a user was created at this instant.\<close>

definition latest_issue :: "uuid \<Rightarrow> token_kind \<Rightarrow> auth_world \<Rightarrow> timestamp option" where
  "latest_issue user kind w =
     (let moments = map tk_created_at (filter (\<lambda>t. tk_user_id t = user \<and> tk_kind t = kind) (dvalues (au_tokens w)))
      in if moments = [] then None else Some (py_max moments))"

definition issued_just_now :: "timestamp \<Rightarrow> uuid \<Rightarrow> token_kind \<Rightarrow> auth_world \<Rightarrow> bool" where
  "issued_just_now now user kind w \<longleftrightarrow>
     (case latest_issue user kind w of None \<Rightarrow> False | Some t \<Rightarrow> now - t < seconds 60)"

section \<open>Routes\<close>

record signup_request =
  su_email :: string
  su_password :: string
  su_setup_code :: "string option"
  su_user_id :: uuid
  su_owner_id :: uuid
  su_salt :: string

definition new_user :: "signup_request \<Rightarrow> string \<Rightarrow> string \<Rightarrow> user_row" where
  "new_user q email password_hash =
     \<lparr>us_id = su_user_id q, us_owner_id = su_owner_id q, us_email = email, us_password_hash = password_hash,
      us_role = ''OWNER'', us_email_verified = False, us_mfa_enabled = False, us_mfa_secret = None,
      us_recovery_code_hashes = []\<rparr>"

text \<open>The result is the token that the browser is shown, if any.\<close>

definition signup ::
    "auth_crypto \<Rightarrow> auth_settings \<Rightarrow> bool \<Rightarrow> timestamp \<Rightarrow> drawn \<Rightarrow> signup_request \<Rightarrow> auth_world \<Rightarrow>
     (string option \<times> auth_world) res" where
  "signup cy st sent now drawn q w =
     rbind (normalized_email (su_email q)) (\<lambda>email.
     rbind (ensure (signup_available w) (HTTPException 409 ''signup is closed for this installation'')) (\<lambda>_.
     rbind (if st_email_verification st then rbind (require_email_delivery st) (\<lambda>_. Inr ())
            else check_owner_setup_code st (su_setup_code q)) (\<lambda>_.
     rbind (hash_password cy (su_salt q) (su_password q)) (\<lambda>password_hash.
     let u = new_user q email password_hash;
         w1 = audited (us_owner_id u) ''user.registered'' ((put_user u w)\<lparr>au_gate := Some (us_id u)\<rparr>)
     in if \<not> st_email_verification st
        then rbind (issue_mfa_bootstrap cy now drawn u w1) (\<lambda>w2. Inr (Some (dn_raw drawn), w2))
        else
          rbind (add_token (new_token (dn_id drawn) (us_id u) EMAIL_VERIFICATION (Some (cy_digest cy (dn_raw drawn))) None
                   now (minutes 1440)) w1) (\<lambda>w2.
          case deliver_auth_link st sent ''verify'' (dn_raw drawn) of
            Inl _ \<Rightarrow> Inl (HTTPException 503 ''verification email could not be sent; retry signup'')
          | Inr shown \<Rightarrow> Inr (shown, w2))))))"

definition user_by_email :: "string \<Rightarrow> auth_world \<Rightarrow> user_row option" where
  "user_by_email email w = first_match (\<lambda>u. us_email u = email) (dvalues (au_users w))"

text \<open>A link that cannot be delivered is not stored: the savepoint is rolled back.\<close>

definition send_link ::
    "auth_crypto \<Rightarrow> auth_settings \<Rightarrow> bool \<Rightarrow> timestamp \<Rightarrow> drawn \<Rightarrow> user_row \<Rightarrow> token_kind \<Rightarrow> string \<Rightarrow> int \<Rightarrow>
     auth_world \<Rightarrow> (string option \<times> auth_world) res" where
  "send_link cy st sent now drawn u kind purpose lifetime w =
     rbind (add_token (new_token (dn_id drawn) (us_id u) kind (Some (cy_digest cy (dn_raw drawn))) None now lifetime) w) (\<lambda>w1.
     case deliver_auth_link st sent purpose (dn_raw drawn) of
       Inl (RuntimeError _) \<Rightarrow> Inr (None, w)
     | Inl err \<Rightarrow> Inl err
     | Inr shown \<Rightarrow> Inr (shown, w1))"

definition resend_email_verification ::
    "auth_crypto \<Rightarrow> auth_settings \<Rightarrow> bool \<Rightarrow> timestamp \<Rightarrow> drawn \<Rightarrow> string \<Rightarrow> auth_world \<Rightarrow>
     (string option \<times> auth_world) res" where
  "resend_email_verification cy st sent now drawn address w =
     rbind (require_email_delivery st) (\<lambda>_.
     rbind (normalized_email address) (\<lambda>email.
     case user_by_email email w of
       None \<Rightarrow> Inr (None, w)
     | Some u \<Rightarrow>
         if us_mfa_enabled u \<or> issued_just_now now (us_id u) EMAIL_VERIFICATION w then Inr (None, w)
         else send_link cy st sent now drawn u EMAIL_VERIFICATION ''verify'' (minutes 1440) w))"

definition spend :: "timestamp \<Rightarrow> token_row \<Rightarrow> auth_world \<Rightarrow> auth_world" where
  "spend now t w = put_token (t\<lparr>tk_used_at := Some now\<rparr>) w"

definition verify_email ::
    "auth_crypto \<Rightarrow> timestamp \<Rightarrow> drawn \<Rightarrow> string \<Rightarrow> auth_world \<Rightarrow> (string \<times> auth_world) res" where
  "verify_email cy now drawn text w =
     rbind (token_user now (token_by_text cy text w) EMAIL_VERIFICATION w) (\<lambda>(t, u).
     let u' = u\<lparr>us_email_verified := True\<rparr> in
     rbind (issue_mfa_bootstrap cy now drawn u' (put_user u' (spend now t w))) (\<lambda>w1.
     Inr (dn_raw drawn, audited (us_owner_id u) ''user.email_verified'' w1)))"

record enrollment =
  en_secret :: string
  en_nonce :: string
  en_codes :: "string list"

definition create_mfa_enrollment ::
    "auth_crypto \<Rightarrow> timestamp \<Rightarrow> uuid \<Rightarrow> enrollment \<Rightarrow> string option \<Rightarrow> auth_world \<Rightarrow> (uuid \<times> auth_world) res" where
  "create_mfa_enrollment cy now fresh e header w =
     rbind (ensure (present header) (HTTPException 401 ''enrollment token required'')) (\<lambda>_.
     rbind (token_user now (token_by_text cy (case_option '''' id header) w) MFA_BOOTSTRAP w) (\<lambda>(t, u).
     let u' = u\<lparr>us_mfa_secret := Some (cy_seal cy (us_id u) (en_nonce e) (en_secret e)),
                us_recovery_code_hashes := map (cy_digest cy) (en_codes e)\<rparr>
     in rbind (add_token (new_token fresh (us_id u) MFA_ENROLLMENT None None now (minutes 15)) (put_user u' (spend now t w)))
          (\<lambda>w1. Inr (fresh, w1))))"

definition confirm_mfa_enrollment ::
    "auth_crypto \<Rightarrow> bool \<Rightarrow> timestamp \<Rightarrow> drawn \<Rightarrow> uuid \<Rightarrow> string \<Rightarrow> auth_world \<Rightarrow> auth_world res" where
  "confirm_mfa_enrollment cy started now drawn enrollment_id code w =
     rbind (token_user now (token_by_id enrollment_id w) MFA_ENROLLMENT w) (\<lambda>(t, u).
     rbind (ensure (present (us_mfa_secret u)) (HTTPException 401 ''invalid authenticator code'')) (\<lambda>_.
     rbind (cy_open cy (us_id u) (case_option '''' id (us_mfa_secret u))) (\<lambda>secret.
     rbind (ensure (totp cy (unix_time now) secret (unix_time now) = code)
              (HTTPException 401 ''invalid authenticator code'')) (\<lambda>_.
     let u' = u\<lparr>us_mfa_enabled := True\<rparr> in
     rbind (issue_session cy started now drawn u' (put_user u' (spend now t w))) (\<lambda>w1.
     Inr (audited (us_owner_id u) ''user.mfa_enrolled'' w1))))))"

datatype login = Challenge uuid timestamp | Enroll string

definition begin_session ::
    "auth_crypto \<Rightarrow> auth_settings \<Rightarrow> timestamp \<Rightarrow> drawn \<Rightarrow> string \<Rightarrow> string \<Rightarrow> auth_world \<Rightarrow> (login \<times> auth_world) res" where
  "begin_session cy st now drawn email password w =
     rbind (required (user_by_email (str_strip (str_lower email)) w) (HTTPException 401 ''invalid credentials'')) (\<lambda>u.
     rbind (verify_password cy password (us_password_hash u)) (\<lambda>matches.
     rbind (ensure matches (HTTPException 401 ''invalid credentials'')) (\<lambda>_.
     rbind (ensure (\<not> (st_email_verification st \<and> \<not> us_email_verified u))
              (HTTPException 403 ''email verification and MFA are required'')) (\<lambda>_.
     if \<not> us_mfa_enabled u
     then if \<not> st_email_verification st
          then rbind (issue_mfa_bootstrap cy now drawn u w) (\<lambda>w1. Inr (Enroll (dn_raw drawn), w1))
          else Inl (HTTPException 403 ''email verification and MFA are required'')
     else
       rbind (add_token (new_token (dn_id drawn) (us_id u) LOGIN_MFA None None now (minutes 5)) w) (\<lambda>w1.
       Inr (Challenge (dn_id drawn) (now + minutes 5), w1))))))"

definition verify_mfa_challenge ::
    "auth_crypto \<Rightarrow> bool \<Rightarrow> timestamp \<Rightarrow> drawn \<Rightarrow> uuid \<Rightarrow> string \<Rightarrow> auth_world \<Rightarrow> auth_world res" where
  "verify_mfa_challenge cy started now drawn challenge_id code w =
     rbind (token_user now (token_by_id challenge_id w) LOGIN_MFA w) (\<lambda>(t, u).
     rbind (verify_mfa cy (unix_time now) u code) (\<lambda>(accepted, u').
     rbind (ensure accepted (HTTPException 401 ''invalid MFA or recovery code'')) (\<lambda>_.
     issue_session cy started now drawn u' (put_user u' (spend now t w)))))"

definition find_session :: "auth_crypto \<Rightarrow> timestamp \<Rightarrow> string option \<Rightarrow> auth_world \<Rightarrow> session_row res" where
  "find_session cy now cookie w =
     rbind (ensure (present cookie) (HTTPException 401 ''session required'')) (\<lambda>_.
     required (first_match (live_session cy now (case_option '''' id cookie)) (dvalues (au_sessions w)))
       (HTTPException 401 ''session expired''))"

definition verify_step_up ::
    "auth_crypto \<Rightarrow> timestamp \<Rightarrow> drawn \<Rightarrow> string \<Rightarrow> string \<Rightarrow> string option \<Rightarrow> auth_world \<Rightarrow> (string \<times> auth_world) res" where
  "verify_step_up cy now drawn scope code cookie w =
     rbind (find_session cy now cookie w) (\<lambda>s.
     rbind (required (map_of (au_users w) (se_user_id s)) (HTTPException 401 ''invalid MFA or recovery code'')) (\<lambda>u.
     rbind (verify_mfa cy (unix_time now) u code) (\<lambda>(accepted, u').
     rbind (ensure accepted (HTTPException 401 ''invalid MFA or recovery code'')) (\<lambda>_.
     rbind (add_token (new_token (dn_id drawn) (us_id u) STEP_UP (Some (cy_digest cy (dn_raw drawn))) (Some scope) now (minutes 10))
              (put_session (s\<lparr>se_step_up_at := Some now\<rparr>) (put_user u' w))) (\<lambda>w1.
     Inr (dn_raw drawn, w1))))))"

definition me :: "auth_crypto \<Rightarrow> timestamp \<Rightarrow> string option \<Rightarrow> auth_world \<Rightarrow> user_row res" where
  "me cy now cookie w =
     rbind (find_session cy now cookie w) (\<lambda>s.
     required (map_of (au_users w) (se_user_id s)) (HTTPException 401 ''user unavailable''))"

definition revoke_session :: "auth_crypto \<Rightarrow> timestamp \<Rightarrow> string option \<Rightarrow> auth_world \<Rightarrow> auth_world" where
  "revoke_session cy now cookie w =
     (if \<not> present cookie then w
      else case first_match (\<lambda>s. se_token_hash s = cy_digest cy (case_option '''' id cookie)) (dvalues (au_sessions w)) of
        None \<Rightarrow> w
      | Some s \<Rightarrow> audited (se_owner_id s) ''session.revoked'' (put_session (s\<lparr>se_revoked_at := Some now\<rparr>) w))"

definition start_password_recovery ::
    "auth_crypto \<Rightarrow> auth_settings \<Rightarrow> bool \<Rightarrow> timestamp \<Rightarrow> drawn \<Rightarrow> string \<Rightarrow> auth_world \<Rightarrow>
     (string option \<times> auth_world) res" where
  "start_password_recovery cy st sent now drawn address w =
     rbind (require_email_delivery st) (\<lambda>_.
     rbind (normalized_email address) (\<lambda>email.
     case user_by_email email w of
       None \<Rightarrow> Inr (None, w)
     | Some u \<Rightarrow>
         if issued_just_now now (us_id u) PASSWORD_RECOVERY w then Inr (None, w)
         else send_link cy st sent now drawn u PASSWORD_RECOVERY ''recover'' (minutes 30) w))"

definition end_sessions :: "timestamp \<Rightarrow> uuid \<Rightarrow> auth_world \<Rightarrow> auth_world" where
  "end_sessions now user w =
     w\<lparr>au_sessions := dmap (\<lambda>s. if se_user_id s = user \<and> se_revoked_at s = None then s\<lparr>se_revoked_at := Some now\<rparr> else s)
       (au_sessions w)\<rparr>"

definition complete_password_recovery ::
    "auth_crypto \<Rightarrow> timestamp \<Rightarrow> string \<Rightarrow> string \<Rightarrow> string \<Rightarrow> auth_world \<Rightarrow> auth_world res" where
  "complete_password_recovery cy now salt text new_password w =
     rbind (token_user now (token_by_text cy text w) PASSWORD_RECOVERY w) (\<lambda>(t, u).
     rbind (hash_password cy salt new_password) (\<lambda>password_hash.
     Inr (end_sessions now (us_id u) (spend now t (put_user (u\<lparr>us_password_hash := password_hash\<rparr>) w)))))"

section \<open>The actor of a request\<close>

definition current_actor :: "auth_crypto \<Rightarrow> timestamp \<Rightarrow> string option \<Rightarrow> auth_world \<Rightarrow> actor res" where
  "current_actor cy now cookie w =
     rbind (ensure (present cookie) (HTTPException 401 ''authenticated session required'')) (\<lambda>_.
     rbind (required (first_match (live_session cy now (case_option '''' id cookie)) (dvalues (au_sessions w)))
              (HTTPException 401 ''session expired or revoked'')) (\<lambda>s.
     rbind (required (role_of (se_role s)) (HTTPException 401 ''invalid actor context'')) (\<lambda>r.
     Inr \<lparr>ac_actor_id = se_user_id s, ac_owner_id = se_owner_id s, ac_role = r,
          ac_step_up_verified = (case se_step_up_at s of None \<Rightarrow> False | Some t \<Rightarrow> now - t < minutes 10)\<rparr>)))"

definition require_roles :: "role list \<Rightarrow> actor \<Rightarrow> actor res" where
  "require_roles roles a = rbind (ensure (ac_role a \<in> set roles) (HTTPException 403 ''insufficient role'')) (\<lambda>_. Inr a)"

definition usable_grant :: "timestamp \<Rightarrow> actor \<Rightarrow> token_row \<Rightarrow> bool" where
  "usable_grant now a t \<longleftrightarrow> usable_token now STEP_UP t \<and> tk_user_id t = ac_actor_id a"

definition require_step_up ::
    "auth_crypto \<Rightarrow> timestamp \<Rightarrow> string \<Rightarrow> string option \<Rightarrow> actor \<Rightarrow> auth_world \<Rightarrow> (actor \<times> auth_world) res" where
  "require_step_up cy now scope grant a w =
     (if ac_step_up_verified a then Inr (a, w)
      else
        rbind (ensure (present grant) (HTTPException 403 ''recent MFA step-up required'')) (\<lambda>_.
        rbind (required (token_by_text cy (case_option '''' id grant) w) (HTTPException 403 ''invalid step-up grant'')) (\<lambda>t.
        rbind (ensure (usable_grant now a t \<and> tk_scope t \<in> {Some scope, Some ''*''})
                 (HTTPException 403 ''invalid step-up grant'')) (\<lambda>_.
        Inr (a\<lparr>ac_step_up_verified := True\<rparr>, spend now t w)))))"

section \<open>What every route keeps\<close>

text \<open>Over the rows of a table: a key that rows do not share, and rows that stay in a relation with what they were.\<close>

definition unshared :: "('v \<Rightarrow> 'h option) \<Rightarrow> ('k \<Rightarrow> 'v option) \<Rightarrow> bool" where
  "unshared h m \<longleftrightarrow> (\<forall>i j x y. m i = Some x \<longrightarrow> m j = Some y \<longrightarrow> h x \<noteq> None \<longrightarrow> h x = h y \<longrightarrow> i = j)"

definition kept :: "('v \<Rightarrow> 'v \<Rightarrow> bool) \<Rightarrow> ('k \<Rightarrow> 'v option) \<Rightarrow> ('k \<Rightarrow> 'v option) \<Rightarrow> bool" where
  "kept R m m' \<longleftrightarrow> (\<forall>i x. m i = Some x \<longrightarrow> (\<exists>y. m' i = Some y \<and> R x y))"

lemma unsharedD: "unshared h m \<Longrightarrow> m i = Some x \<Longrightarrow> m j = Some y \<Longrightarrow> h x \<noteq> None \<Longrightarrow> h x = h y \<Longrightarrow> i = j"
  unfolding unshared_def by blast

lemma unshared_same: "unshared h m \<Longrightarrow> m k = Some old \<Longrightarrow> h x = h old \<Longrightarrow> unshared h (m(k \<mapsto> x))"
  unfolding unshared_def by (metis map_upd_Some_unfold)

lemma unshared_new:
  assumes "unshared h m" "\<And>j y. m j = Some y \<Longrightarrow> h x \<noteq> None \<Longrightarrow> h y \<noteq> h x"
  shows "unshared h (m(k \<mapsto> x))"
  unfolding unshared_def
proof (intro allI impI)
  fix i j y z assume a: "(m(k \<mapsto> x)) i = Some y" "(m(k \<mapsto> x)) j = Some z" "h y \<noteq> None" "h y = h z"
  show "i = j"
  proof (cases "i = k")
    case True
    with a assms(2)[of j z] show ?thesis by (auto split: if_splits)
  next
    case False
    with a assms(2)[of i y] unsharedD[OF assms(1), of i y j z] show ?thesis by (auto split: if_splits)
  qed
qed

lemma kept_refl: "(\<And>x. R x x) \<Longrightarrow> kept R m m"
  by (simp add: kept_def)

lemma kept_trans: "kept R a b \<Longrightarrow> kept R b c \<Longrightarrow> (\<And>x y z. R x y \<Longrightarrow> R y z \<Longrightarrow> R x z) \<Longrightarrow> kept R a c"
  unfolding kept_def by metis

lemma kept_update: "(\<And>x. R x x) \<Longrightarrow> (\<And>old. m k = Some old \<Longrightarrow> R old x) \<Longrightarrow> kept R m (m(k \<mapsto> x))"
  by (auto simp: kept_def)

lemma dvalues_row: "distinct (map fst d) \<Longrightarrow> x \<in> set (dvalues d) \<Longrightarrow> \<exists>i. map_of d i = Some x"
  by (fastforce simp: dvalues_def)

lemma row_dvalues: "map_of d i = Some x \<Longrightarrow> x \<in> set (dvalues d)"
  by (force simp: dvalues_def dest: map_of_SomeD)

named_theorems auth_simps

lemma auth_puts [auth_simps]:
  "au_users (put_user u w) = AList.update (us_id u) u (au_users w)" "au_sessions (put_user u w) = au_sessions w"
  "au_tokens (put_user u w) = au_tokens w" "au_gate (put_user u w) = au_gate w"
  "au_users (put_session s w) = au_users w" "au_sessions (put_session s w) = AList.update (se_id s) s (au_sessions w)"
  "au_tokens (put_session s w) = au_tokens w" "au_gate (put_session s w) = au_gate w"
  "au_users (put_token t w) = au_users w" "au_sessions (put_token t w) = au_sessions w"
  "au_tokens (put_token t w) = AList.update (tk_id t) t (au_tokens w)" "au_gate (put_token t w) = au_gate w"
  "au_users (audited i e w) = au_users w" "au_sessions (audited i e w) = au_sessions w"
  "au_tokens (audited i e w) = au_tokens w" "au_gate (audited i e w) = au_gate w"
  by (simp_all add: put_user_def put_session_def put_token_def audited_def)

definition user_ok :: "uuid option \<Rightarrow> uuid \<Rightarrow> user_row \<Rightarrow> bool" where
  "user_ok gate i u \<longleftrightarrow> us_id u = i \<and> gate = Some i \<and> us_role u = ''OWNER'' \<and> (us_mfa_enabled u \<longrightarrow> us_mfa_secret u \<noteq> None)"

text \<open>A session acts for a user that has completed the enrolment of an authenticator.\<close>

definition session_row_ok :: "(uuid \<Rightarrow> user_row option) \<Rightarrow> uuid \<Rightarrow> session_row \<Rightarrow> bool" where
  "session_row_ok users i s \<longleftrightarrow> se_id s = i \<and> (\<exists>u. users (se_user_id s) = Some u
     \<and> se_owner_id s = us_owner_id u \<and> se_role s = us_role u \<and> us_mfa_enabled u)"

text \<open>A sign-in challenge is issued to such a user only.\<close>

definition token_row_ok :: "(uuid \<Rightarrow> user_row option) \<Rightarrow> uuid \<Rightarrow> token_row \<Rightarrow> bool" where
  "token_row_ok users i t \<longleftrightarrow> tk_id t = i
     \<and> (tk_kind t = LOGIN_MFA \<longrightarrow> (\<exists>u. users (tk_user_id t) = Some u \<and> us_mfa_enabled u))"

definition users_ok :: "auth_world \<Rightarrow> bool" where
  "users_ok w \<longleftrightarrow> (\<forall>i u. map_of (au_users w) i = Some u \<longrightarrow> user_ok (au_gate w) i u) \<and> distinct (map fst (au_users w))"

definition sessions_ok :: "auth_world \<Rightarrow> bool" where
  "sessions_ok w \<longleftrightarrow> (\<forall>i s. map_of (au_sessions w) i = Some s \<longrightarrow> session_row_ok (map_of (au_users w)) i s)
     \<and> distinct (map fst (au_sessions w)) \<and> unshared (\<lambda>s. Some (se_token_hash s)) (map_of (au_sessions w))"

definition tokens_ok :: "auth_world \<Rightarrow> bool" where
  "tokens_ok w \<longleftrightarrow> (\<forall>i t. map_of (au_tokens w) i = Some t \<longrightarrow> token_row_ok (map_of (au_users w)) i t)
     \<and> distinct (map fst (au_tokens w)) \<and> unshared tk_token_hash (map_of (au_tokens w))"

definition auth_ok :: "auth_world \<Rightarrow> bool" where
  "auth_ok w \<longleftrightarrow> users_ok w \<and> sessions_ok w \<and> tokens_ok w"

text \<open>Rows stay: a token keeps its use, a session its digest and its end.\<close>

definition token_kept :: "token_row \<Rightarrow> token_row \<Rightarrow> bool" where
  "token_kept t t' \<longleftrightarrow> tk_token_hash t' = tk_token_hash t \<and> (tk_used_at t \<noteq> None \<longrightarrow> tk_used_at t' \<noteq> None)"

definition session_kept :: "session_row \<Rightarrow> session_row \<Rightarrow> bool" where
  "session_kept s s' \<longleftrightarrow> se_token_hash s' = se_token_hash s \<and> (se_revoked_at s \<noteq> None \<longrightarrow> se_revoked_at s' \<noteq> None)"

definition auth_grows :: "auth_world \<Rightarrow> auth_world \<Rightarrow> bool" where
  "auth_grows w w' \<longleftrightarrow> kept token_kept (map_of (au_tokens w)) (map_of (au_tokens w'))
     \<and> kept session_kept (map_of (au_sessions w)) (map_of (au_sessions w'))"

definition auth_fine :: "auth_world \<Rightarrow> auth_world \<Rightarrow> bool" where
  "auth_fine w w' \<longleftrightarrow> auth_ok w' \<and> auth_grows w w'"

lemma row_kept_refl [simp]: "token_kept t t" "session_kept s s"
  by (simp_all add: token_kept_def session_kept_def)

lemma auth_grows_refl [simp]: "auth_grows w w"
  by (simp add: auth_grows_def kept_refl)

lemma auth_grows_trans: "auth_grows a b \<Longrightarrow> auth_grows b c \<Longrightarrow> auth_grows a c"
  unfolding auth_grows_def by (auto elim!: kept_trans simp: token_kept_def session_kept_def)

lemma auth_fine_refl: "auth_ok w \<Longrightarrow> auth_fine w w"
  by (simp add: auth_fine_def)

lemma auth_fine_trans: "auth_fine a b \<Longrightarrow> (auth_ok b \<Longrightarrow> auth_fine b c) \<Longrightarrow> auth_fine a c"
  unfolding auth_fine_def using auth_grows_trans by blast

lemma auth_fine_ok: "auth_fine a b \<Longrightarrow> auth_ok b"
  by (simp add: auth_fine_def)

lemma put_user_fine:
  assumes ok: "auth_ok w" and old: "map_of (au_users w) (us_id u) = Some old" "us_owner_id u = us_owner_id old" "us_role u = us_role old"
    and "us_mfa_enabled old \<Longrightarrow> us_mfa_enabled u" and "us_mfa_enabled u \<Longrightarrow> us_mfa_secret u \<noteq> None"
  shows "auth_fine w (put_user u w)"
proof -
  have users: "users_ok w" and sessions: "sessions_ok w" and tokens: "tokens_ok w" using ok by (simp_all add: auth_ok_def)
  from users old have "user_ok (au_gate w) (us_id u) old" by (simp add: users_ok_def)
  with assms(4,6) users have "users_ok (put_user u w)"
    by (auto simp: users_ok_def auth_simps user_ok_def distinct_update)
  moreover have "session_row_ok ((map_of (au_users w))(us_id u \<mapsto> u)) i s" if "session_row_ok (map_of (au_users w)) i s" for i s
    using that old assms(5) by (cases "se_user_id s = us_id u") (auto simp: session_row_ok_def)
  with sessions have "sessions_ok (put_user u w)" unfolding sessions_ok_def by (simp add: auth_simps)
  moreover have "token_row_ok ((map_of (au_users w))(us_id u \<mapsto> u)) i t" if "token_row_ok (map_of (au_users w)) i t" for i t
    using that old assms(5) by (cases "tk_user_id t = us_id u") (auto simp: token_row_ok_def)
  with tokens have "tokens_ok (put_user u w)" unfolding tokens_ok_def by (simp add: auth_simps)
  ultimately show ?thesis
    by (simp add: auth_fine_def auth_ok_def auth_simps auth_grows_def kept_refl)
qed

lemma auth_fine_audited [simp]: "auth_fine w (audited i e w') \<longleftrightarrow> auth_fine w w'"
  by (simp add: auth_fine_def auth_ok_def auth_grows_def auth_simps users_ok_def sessions_ok_def tokens_ok_def)

lemma put_token_tables:
  assumes "auth_ok w" "unshared tk_token_hash ((map_of (au_tokens w))(tk_id t \<mapsto> t))"
    and "token_row_ok (map_of (au_users w)) (tk_id t) t"
    and "\<And>old. map_of (au_tokens w) (tk_id t) = Some old \<Longrightarrow> token_kept old t"
  shows "auth_fine w (put_token t w)"
proof -
  have "tokens_ok (put_token t w)" using assms(1,2,3)
    by (simp add: auth_ok_def tokens_ok_def auth_simps distinct_update)
  moreover have "kept token_kept (map_of (au_tokens w)) (map_of (au_tokens (put_token t w)))"
    using assms(4) by (simp add: auth_simps kept_update)
  ultimately show ?thesis using assms(1)
    by (simp add: auth_fine_def auth_ok_def users_ok_def sessions_ok_def auth_simps auth_grows_def kept_refl)
qed

lemma add_token_fine:
  assumes "auth_ok w" "add_token t w = Inr w'"
    and "tk_kind t = LOGIN_MFA \<Longrightarrow> \<exists>u. map_of (au_users w) (tk_user_id t) = Some u \<and> us_mfa_enabled u"
  shows "auth_fine w w'"
proof -
  from assms(2) have new: "map_of (au_tokens w) (tk_id t) = None"
    and hash: "tk_token_hash t = None \<or> list_all (\<lambda>x. tk_token_hash x \<noteq> tk_token_hash t) (dvalues (au_tokens w))"
    and w': "w' = put_token t w"
    by (auto simp: add_token_def ensure_def split: if_splits)
  have "unshared tk_token_hash ((map_of (au_tokens w))(tk_id t \<mapsto> t))"
  proof (rule unshared_new)
    show "unshared tk_token_hash (map_of (au_tokens w))" using assms(1) by (simp add: auth_ok_def tokens_ok_def)
    show "tk_token_hash y \<noteq> tk_token_hash t" if "map_of (au_tokens w) j = Some y" "tk_token_hash t \<noteq> None" for j y
      using hash that row_dvalues[OF that(1)] unfolding list_all_iff by blast
  qed
  then show ?thesis unfolding w' using new assms(3)
    by (intro put_token_tables[OF assms(1)]) (simp_all add: token_row_ok_def)
qed

lemma spend_fine:
  assumes "auth_ok w" "map_of (au_tokens w) i = Some t"
  shows "auth_fine w (spend now t w)"
proof -
  have t: "token_row_ok (map_of (au_users w)) i t" and un: "unshared tk_token_hash (map_of (au_tokens w))"
    using assms by (simp_all add: auth_ok_def tokens_ok_def)
  then have id: "tk_id t = i" by (simp add: token_row_ok_def)
  show ?thesis unfolding spend_def
    by (rule put_token_tables[OF assms(1)])
      (use id t assms(2) unshared_same[OF un assms(2)] in \<open>simp_all add: token_kept_def token_row_ok_def\<close>)
qed

lemma put_session_tables:
  assumes "auth_ok w" "unshared (\<lambda>s. Some (se_token_hash s)) ((map_of (au_sessions w))(se_id s \<mapsto> s))"
    and "session_row_ok (map_of (au_users w)) (se_id s) s"
    and "\<And>old. map_of (au_sessions w) (se_id s) = Some old \<Longrightarrow> session_kept old s"
  shows "auth_fine w (put_session s w)"
proof -
  have "sessions_ok (put_session s w)" using assms(1,2,3)
    by (simp add: auth_ok_def sessions_ok_def auth_simps distinct_update)
  moreover have "kept session_kept (map_of (au_sessions w)) (map_of (au_sessions (put_session s w)))"
    using assms(4) by (simp add: auth_simps kept_update)
  ultimately show ?thesis using assms(1)
    by (simp add: auth_fine_def auth_ok_def users_ok_def tokens_ok_def auth_simps auth_grows_def kept_refl)
qed

lemma put_session_fine:
  assumes "auth_ok w" "map_of (au_sessions w) (se_id s) = Some old" "se_token_hash s = se_token_hash old"
    and "se_user_id s = se_user_id old" "se_owner_id s = se_owner_id old" "se_role s = se_role old"
    and "se_revoked_at old \<noteq> None \<Longrightarrow> se_revoked_at s \<noteq> None"
  shows "auth_fine w (put_session s w)"
proof (rule put_session_tables[OF assms(1)])
  have "sessions_ok w" using assms(1) by (simp add: auth_ok_def)
  with assms(2) have "session_row_ok (map_of (au_users w)) (se_id s) old"
    and un: "unshared (\<lambda>s. Some (se_token_hash s)) (map_of (au_sessions w))" by (simp_all add: sessions_ok_def)
  then show "session_row_ok (map_of (au_users w)) (se_id s) s" using assms(4-6) by (simp add: session_row_ok_def)
  show "unshared (\<lambda>s. Some (se_token_hash s)) ((map_of (au_sessions w))(se_id s \<mapsto> s))"
    by (rule unshared_same[OF un assms(2)]) (simp add: assms(3))
qed (use assms in \<open>simp add: session_kept_def\<close>)

lemma add_session_fine:
  assumes "auth_ok w" "add_session s w = Inr w'"
    and "map_of (au_users w) (se_user_id s) = Some u" "se_owner_id s = us_owner_id u" "se_role s = us_role u" "us_mfa_enabled u"
  shows "auth_fine w w'"
proof -
  from assms(2) have new: "map_of (au_sessions w) (se_id s) = None"
    and hash: "list_all (\<lambda>x. se_token_hash x \<noteq> se_token_hash s) (dvalues (au_sessions w))" and w': "w' = put_session s w"
    by (auto simp: add_session_def ensure_def split: if_splits)
  have "unshared (\<lambda>s. Some (se_token_hash s)) ((map_of (au_sessions w))(se_id s \<mapsto> s))"
  proof (rule unshared_new)
    show "unshared (\<lambda>s. Some (se_token_hash s)) (map_of (au_sessions w))" using assms(1) by (simp add: auth_ok_def sessions_ok_def)
    show "Some (se_token_hash y) \<noteq> Some (se_token_hash s)" if "map_of (au_sessions w) j = Some y" for j y
      using hash row_dvalues[OF that] unfolding list_all_iff by blast
  qed
  then show ?thesis unfolding w' using new assms(3-)
    by (intro put_session_tables[OF assms(1)]) (auto simp: session_row_ok_def)
qed

section \<open>Every route keeps it\<close>

lemma token_userD:
  "token_user now row kind w = Inr (t, u) \<Longrightarrow> row = Some t \<and> usable_token now kind t \<and> map_of (au_users w) (tk_user_id t) = Some u"
  by (auto simp: token_user_def ensure_def split: option.splits if_splits)

lemma token_by_textD:
  assumes "auth_ok w" "token_by_text cy text w = Some t"
  shows "map_of (au_tokens w) (tk_id t) = Some t" "tk_token_hash t = Some (cy_digest cy text)"
proof -
  from assms(2) have t: "t \<in> set (dvalues (au_tokens w))" and hash: "tk_token_hash t = Some (cy_digest cy text)"
    by (auto simp: token_by_text_def dest: first_match_SomeD)
  have ok: "tokens_ok w" using assms(1) by (simp add: auth_ok_def)
  then obtain i where "map_of (au_tokens w) i = Some t" using dvalues_row[OF _ t] by (auto simp: tokens_ok_def)
  with ok show "map_of (au_tokens w) (tk_id t) = Some t" by (auto simp: tokens_ok_def token_row_ok_def)
  show "tk_token_hash t = Some (cy_digest cy text)" by (rule hash)
qed

lemma user_row_facts:
  assumes "auth_ok w" "map_of (au_users w) i = Some u"
  shows "us_id u = i" "us_mfa_enabled u \<Longrightarrow> us_mfa_secret u \<noteq> None" "us_role u = ''OWNER''"
  using assms by (simp_all add: auth_ok_def users_ok_def user_ok_def)

text \<open>A token is spent and the row of its user is replaced.\<close>

lemma spend_and_put:
  assumes "auth_ok w" "map_of (au_tokens w) i = Some t" "map_of (au_users w) j = Some u"
    and "us_id u' = us_id u" "us_owner_id u' = us_owner_id u" "us_role u' = us_role u"
    and "us_mfa_enabled u \<Longrightarrow> us_mfa_enabled u'" "us_mfa_enabled u' \<Longrightarrow> us_mfa_secret u' \<noteq> None"
  shows "auth_fine w (put_user u' (spend now t w))"
    "map_of (au_users (put_user u' (spend now t w))) j = Some u'"
proof -
  have id: "us_id u = j" by (rule user_row_facts[OF assms(1,3)])
  show "auth_fine w (put_user u' (spend now t w))"
  proof (rule auth_fine_trans[OF spend_fine[OF assms(1,2), of now]])
    assume "auth_ok (spend now t w)"
    then show "auth_fine (spend now t w) (put_user u' (spend now t w))"
      using assms id by (intro put_user_fine[where old = u]) (simp_all add: spend_def auth_simps)
  qed
  show "map_of (au_users (put_user u' (spend now t w))) j = Some u'" using assms(4) id by (simp add: auth_simps)
qed

lemma issue_session_fine:
  assumes "auth_ok w" "issue_session cy started now drawn u w = Inr w'" "map_of (au_users w) (us_id u) = Some u" "us_mfa_enabled u"
  shows "auth_fine w w'"
proof -
  from assms(2) obtain w1 where add: "add_session (new_session cy now drawn u) w = Inr w1"
    and w': "w' = audited (us_owner_id u) ''session.created'' w1"
    by (auto simp: issue_session_def)
  show ?thesis unfolding w' auth_fine_audited
    by (rule add_session_fine[OF assms(1) add, of u]) (use assms(3,4) in \<open>simp_all add: new_session_def\<close>)
qed

lemma verify_mfaD:
  "verify_mfa cy now u code = Inr (accepted, u') \<Longrightarrow> us_id u' = us_id u \<and> us_owner_id u' = us_owner_id u \<and> us_role u' = us_role u
     \<and> us_mfa_enabled u' = us_mfa_enabled u \<and> us_mfa_secret u' = us_mfa_secret u"
  by (auto simp: verify_mfa_def split: option.splits if_splits)

lemma new_token_fields [simp]: "tk_kind (new_token i u k h s now n) = k" "tk_user_id (new_token i u k h s now n) = u"
  by (simp_all add: new_token_def)

lemma add_new_token_fine:
  assumes "auth_ok w" "add_token (new_token i u k h s now n) w = Inr w'" "k \<noteq> LOGIN_MFA"
  shows "auth_fine w w'"
  by (rule add_token_fine[OF assms(1,2)]) (simp add: assms(3))

lemma bootstrap_fine: "auth_ok w \<Longrightarrow> issue_mfa_bootstrap cy now drawn u w = Inr w' \<Longrightarrow> auth_fine w w'"
  unfolding issue_mfa_bootstrap_def by (rule add_new_token_fine, assumption, assumption) simp

lemma signup_fine:
  assumes "auth_ok w" "signup cy st sent now drawn q w = Inr (shown, w')"
  shows "auth_fine w w'"
proof -
  from assms(2) obtain email h w1 t where free: "signup_available w"
    and w1: "w1 = audited (us_owner_id (new_user q email h)) ''user.registered''
       ((put_user (new_user q email h) w)\<lparr>au_gate := Some (us_id (new_user q email h))\<rparr>)"
    and add: "add_token t w1 = Inr w'" and kind: "tk_kind t \<noteq> LOGIN_MFA"
    by (fastforce simp: signup_def Let_def issue_mfa_bootstrap_def ensure_def split: if_splits sum.splits)
  let ?u = "new_user q email h"
  have none: "au_users w = []" using free by (simp add: signup_available_def)
  have u: "user_ok (Some (us_id ?u)) (us_id ?u) ?u" by (simp add: user_ok_def new_user_def)
  have tokens: "token_row_ok users i t" if "token_row_ok (\<lambda>_. None) i t" for users i t
    using that by (simp add: token_row_ok_def)
  have "tokens_ok w1" using assms(1) none tokens unfolding auth_ok_def tokens_ok_def w1
    by (simp add: auth_simps put_user_def)
  then have "auth_fine w w1" using assms(1) none u
    by (simp add: w1 auth_fine_def auth_ok_def users_ok_def sessions_ok_def auth_simps auth_grows_def kept_refl
        session_row_ok_def put_user_def)
  then show ?thesis by (rule auth_fine_trans) (rule add_token_fine[OF _ add], use kind in simp_all)
qed

lemma send_link_fine:
  assumes "auth_ok w" "send_link cy st sent now drawn u kind purpose lifetime w = Inr (shown, w')" "kind \<noteq> LOGIN_MFA"
  shows "auth_fine w w'"
  using assms(2,3) add_new_token_fine[OF assms(1)] auth_fine_refl[OF assms(1)]
  by (auto simp: send_link_def split: sum.splits py_error.splits)

lemma resend_fine:
  "auth_ok w \<Longrightarrow> resend_email_verification cy st sent now drawn address w = Inr (shown, w') \<Longrightarrow> auth_fine w w'"
  "auth_ok w \<Longrightarrow> start_password_recovery cy st sent now drawn address w = Inr (shown, w') \<Longrightarrow> auth_fine w w'"
  using send_link_fine[of w]
  by (auto simp: resend_email_verification_def start_password_recovery_def auth_fine_refl split: option.splits if_splits)

lemma verify_email_fine:
  assumes "auth_ok w" "verify_email cy now drawn text w = Inr (raw, w')"
  shows "auth_fine w w'"
proof -
  from assms(2) obtain t u w1 where tu: "token_user now (token_by_text cy text w) EMAIL_VERIFICATION w = Inr (t, u)"
    and boot: "issue_mfa_bootstrap cy now drawn (u\<lparr>us_email_verified := True\<rparr>)
       (put_user (u\<lparr>us_email_verified := True\<rparr>) (spend now t w)) = Inr w1"
    and w': "w' = audited (us_owner_id u) ''user.email_verified'' w1"
    by (auto simp: verify_email_def Let_def)
  have t: "map_of (au_tokens w) (tk_id t) = Some t" using token_userD[OF tu] token_by_textD(1)[OF assms(1)] by blast
  have u: "map_of (au_users w) (tk_user_id t) = Some u" using token_userD[OF tu] by blast
  have "auth_fine w (put_user (u\<lparr>us_email_verified := True\<rparr>) (spend now t w))"
    by (rule spend_and_put(1)[OF assms(1) t u]) (use user_row_facts[OF assms(1) u] in simp_all)
  then show ?thesis unfolding w' auth_fine_audited by (rule auth_fine_trans) (rule bootstrap_fine[OF _ boot])
qed

lemma create_enrollment_fine:
  assumes "auth_ok w" "create_mfa_enrollment cy now fresh e header w = Inr (i, w')"
  shows "auth_fine w w'"
proof -
  from assms(2) obtain t u where tu: "token_user now (token_by_text cy (case_option '''' id header) w) MFA_BOOTSTRAP w = Inr (t, u)"
    and add: "add_token (new_token fresh (us_id u) MFA_ENROLLMENT None None now (minutes 15))
       (put_user (u\<lparr>us_mfa_secret := Some (cy_seal cy (us_id u) (en_nonce e) (en_secret e)),
          us_recovery_code_hashes := map (cy_digest cy) (en_codes e)\<rparr>) (spend now t w)) = Inr w'"
    by (auto simp: create_mfa_enrollment_def Let_def ensure_def split: if_splits)
  have t: "map_of (au_tokens w) (tk_id t) = Some t" using token_userD[OF tu] token_by_textD(1)[OF assms(1)] by blast
  have u: "map_of (au_users w) (tk_user_id t) = Some u" using token_userD[OF tu] by blast
  have "auth_fine w (put_user (u\<lparr>us_mfa_secret := Some (cy_seal cy (us_id u) (en_nonce e) (en_secret e)),
      us_recovery_code_hashes := map (cy_digest cy) (en_codes e)\<rparr>) (spend now t w))"
    by (rule spend_and_put(1)[OF assms(1) t u]) simp_all
  then show ?thesis by (rule auth_fine_trans) (rule add_token_fine[OF _ add], simp_all)
qed

lemma confirm_enrollment_fine:
  assumes "auth_ok w" "confirm_mfa_enrollment cy started now drawn enrollment_id code w = Inr w'"
  shows "auth_fine w w'"
proof -
  from assms(2) obtain t u w1 where tu: "token_user now (token_by_id enrollment_id w) MFA_ENROLLMENT w = Inr (t, u)"
    and secret: "present (us_mfa_secret u)"
    and session: "issue_session cy started now drawn (u\<lparr>us_mfa_enabled := True\<rparr>)
       (put_user (u\<lparr>us_mfa_enabled := True\<rparr>) (spend now t w)) = Inr w1"
    and w': "w' = audited (us_owner_id u) ''user.mfa_enrolled'' w1"
    by (auto simp: confirm_mfa_enrollment_def Let_def ensure_def split: if_splits)
  have t: "map_of (au_tokens w) enrollment_id = Some t" using token_userD[OF tu] by (simp add: token_by_id_def)
  have u: "map_of (au_users w) (tk_user_id t) = Some u" using token_userD[OF tu] by blast
  let ?w1 = "put_user (u\<lparr>us_mfa_enabled := True\<rparr>) (spend now t w)"
  have enabled: "us_mfa_secret u \<noteq> None" using secret by (auto simp: present_def)
  have facts: "auth_fine w ?w1" "map_of (au_users ?w1) (tk_user_id t) = Some (u\<lparr>us_mfa_enabled := True\<rparr>)"
    by (rule spend_and_put[OF assms(1) t u]; use enabled in simp)+
  show ?thesis unfolding w' auth_fine_audited
  proof (rule auth_fine_trans[OF facts(1)])
    assume "auth_ok ?w1"
    then show "auth_fine ?w1 w1"
      by (rule issue_session_fine[OF _ session]) (use facts(2) user_row_facts(1)[OF assms(1) u] in simp_all)
  qed
qed

lemma first_row:
  "auth_ok w \<Longrightarrow> first_match p (dvalues (au_sessions w)) = Some s \<Longrightarrow> map_of (au_sessions w) (se_id s) = Some s \<and> p s"
proof -
  assume ok: "auth_ok w" and s: "first_match p (dvalues (au_sessions w)) = Some s"
  have "sessions_ok w" using ok by (simp add: auth_ok_def)
  with first_match_SomeD[OF s] obtain i where "map_of (au_sessions w) i = Some s" "session_row_ok (map_of (au_users w)) i s"
    unfolding sessions_ok_def using dvalues_row by metis
  then show ?thesis using first_match_SomeD[OF s] by (simp add: session_row_ok_def)
qed

lemma user_by_emailD:
  assumes "auth_ok w" "user_by_email email w = Some u"
  shows "map_of (au_users w) (us_id u) = Some u"
proof -
  have ok: "users_ok w" using assms(1) by (simp add: auth_ok_def)
  have "u \<in> set (dvalues (au_users w))" using assms(2) by (auto simp: user_by_email_def dest: first_match_SomeD)
  then obtain i where "map_of (au_users w) i = Some u" using ok dvalues_row by (fastforce simp: users_ok_def)
  with user_row_facts(1)[OF assms(1) this] show ?thesis by simp
qed

lemma begin_session_fine:
  assumes "auth_ok w" "begin_session cy st now drawn email password w = Inr (l, w')"
  shows "auth_fine w w'"
proof -
  from assms(2) obtain u where u: "user_by_email (str_strip (str_lower email)) w = Some u"
    and next_world: "(if \<not> us_mfa_enabled u then issue_mfa_bootstrap cy now drawn u w
        else add_token (new_token (dn_id drawn) (us_id u) LOGIN_MFA None None now (minutes 5)) w) = Inr w'"
    by (auto simp: begin_session_def ensure_def split: if_splits)
  show ?thesis
  proof (cases "us_mfa_enabled u")
    case False
    with next_world bootstrap_fine[OF assms(1)] show ?thesis by simp
  next
    case True
    have "map_of (au_users w) (us_id u) = Some u" by (rule user_by_emailD[OF assms(1) u])
    with True show ?thesis using next_world by (intro add_token_fine[OF assms(1)]) auto
  qed
qed

lemma challenge_fine:
  assumes "auth_ok w" "verify_mfa_challenge cy started now drawn challenge_id code w = Inr w'"
  shows "auth_fine w w'"
proof -
  from assms(2) obtain t u u' where tu: "token_user now (token_by_id challenge_id w) LOGIN_MFA w = Inr (t, u)"
    and code: "verify_mfa cy (unix_time now) u code = Inr (True, u')"
    and session: "issue_session cy started now drawn u' (put_user u' (spend now t w)) = Inr w'"
    by (auto simp: verify_mfa_challenge_def ensure_def split: if_splits)
  note tuD = token_userD[OF tu]
  have t: "map_of (au_tokens w) challenge_id = Some t" using tuD by (simp add: token_by_id_def)
  have u: "map_of (au_users w) (tk_user_id t) = Some u" using tuD by blast
  have "token_row_ok (map_of (au_users w)) challenge_id t" using assms(1) t by (simp add: auth_ok_def tokens_ok_def)
  then have enabled: "us_mfa_enabled u" using tuD u by (auto simp: token_row_ok_def usable_token_def)
  note same = verify_mfaD[OF code]
  have facts: "auth_fine w (put_user u' (spend now t w))"
    "map_of (au_users (put_user u' (spend now t w))) (tk_user_id t) = Some u'"
    by (rule spend_and_put[OF assms(1) t u]; use same enabled user_row_facts(2)[OF assms(1) u] in simp)+
  show ?thesis
  proof (rule auth_fine_trans[OF facts(1)])
    assume "auth_ok (put_user u' (spend now t w))"
    then show "auth_fine (put_user u' (spend now t w)) w'"
      by (rule issue_session_fine[OF _ session]) (use facts(2) same enabled user_row_facts(1)[OF assms(1) u] in simp_all)
  qed
qed

lemma step_up_fine:
  assumes "auth_ok w" "verify_step_up cy now drawn scope code cookie w = Inr (raw, w')"
  shows "auth_fine w w'"
proof -
  from assms(2) obtain s u u' where s: "find_session cy now cookie w = Inr s" and u: "map_of (au_users w) (se_user_id s) = Some u"
    and code: "verify_mfa cy (unix_time now) u code = Inr (True, u')"
    and add: "add_token (new_token (dn_id drawn) (us_id u) STEP_UP (Some (cy_digest cy (dn_raw drawn))) (Some scope) now (minutes 10))
      (put_session (s\<lparr>se_step_up_at := Some now\<rparr>) (put_user u' w)) = Inr w'"
    by (auto simp: verify_step_up_def ensure_def split: if_splits)
  have row: "map_of (au_sessions w) (se_id s) = Some s"
    using s first_row[OF assms(1)] by (auto simp: find_session_def ensure_def split: if_splits)
  note same = verify_mfaD[OF code]
  have id: "us_id u = se_user_id s" by (rule user_row_facts(1)[OF assms(1) u])
  have "auth_fine w (put_user u' w)"
    by (rule put_user_fine[OF assms(1), where old = u]) (use same u id user_row_facts(2)[OF assms(1) u] in simp_all)
  then have "auth_fine w (put_session (s\<lparr>se_step_up_at := Some now\<rparr>) (put_user u' w))"
  proof (rule auth_fine_trans)
    assume "auth_ok (put_user u' w)"
    then show "auth_fine (put_user u' w) (put_session (s\<lparr>se_step_up_at := Some now\<rparr>) (put_user u' w))"
      by (rule put_session_fine[where old = s]) (use row in \<open>simp_all add: auth_simps\<close>)
  qed
  then show ?thesis by (rule auth_fine_trans) (rule add_new_token_fine[OF _ add], simp_all)
qed

lemma revoke_fine:
  assumes "auth_ok w"
  shows "auth_fine w (revoke_session cy now cookie w)"
  using auth_fine_refl[OF assms] put_session_fine[OF assms] first_row[OF assms]
  by (auto simp: revoke_session_def split: option.split)

lemma end_sessions_fine:
  assumes "auth_ok w"
  shows "auth_fine w (end_sessions now user w)"
proof -
  let ?f = "\<lambda>s. if se_user_id s = user \<and> se_revoked_at s = None then s\<lparr>se_revoked_at := Some now\<rparr> else s"
  have rows: "map_of (au_sessions (end_sessions now user w)) i = map_option ?f (map_of (au_sessions w) i)" for i
    by (simp add: end_sessions_def map_of_dmap)
  have same: "se_token_hash (?f s) = se_token_hash s" "session_kept s (?f s)" for s
    by (simp_all add: session_kept_def)
  have sok: "sessions_ok w" using assms by (simp add: auth_ok_def)
  have "unshared (\<lambda>s. Some (se_token_hash s)) (map_of (au_sessions (end_sessions now user w)))"
    unfolding unshared_def
  proof (intro allI impI)
    fix i j x y
    assume "map_of (au_sessions (end_sessions now user w)) i = Some x" "map_of (au_sessions (end_sessions now user w)) j = Some y"
      "Some (se_token_hash x) = Some (se_token_hash y)"
    then obtain a b where ab: "map_of (au_sessions w) i = Some a" "map_of (au_sessions w) j = Some b" "x = ?f a" "y = ?f b"
      unfolding rows map_option_eq_Some by blast
    moreover have "se_token_hash a = se_token_hash b" using \<open>Some (se_token_hash x) = Some (se_token_hash y)\<close> same(1)[of a] same(1)[of b]
      unfolding ab(3,4) by simp
    ultimately have "map_of (au_sessions w) i = Some a" "map_of (au_sessions w) j = Some b" "Some (se_token_hash a) = Some (se_token_hash b)"
      by simp_all
    with sok show "i = j" unfolding sessions_ok_def by (blast dest: unsharedD)
  qed
  moreover have "session_row_ok users i (?f s)" if "session_row_ok users i s" for users i s
    using that by (auto simp: session_row_ok_def)
  then have "session_row_ok (map_of (au_users w)) i s" if "map_of (au_sessions (end_sessions now user w)) i = Some s" for i s
    using that sok unfolding rows sessions_ok_def map_option_eq_Some by blast
  moreover have "kept session_kept (map_of (au_sessions w)) (map_of (au_sessions (end_sessions now user w)))"
    unfolding kept_def rows using same(2) by auto
  moreover have "au_users (end_sessions now user w) = au_users w" "au_tokens (end_sessions now user w) = au_tokens w"
    "au_gate (end_sessions now user w) = au_gate w" "map fst (au_sessions (end_sessions now user w)) = map fst (au_sessions w)"
    by (simp_all add: end_sessions_def)
  ultimately show ?thesis using assms
    by (simp add: auth_fine_def auth_ok_def users_ok_def tokens_ok_def sessions_ok_def auth_grows_def kept_refl)
qed

lemma recovery_fine:
  assumes "auth_ok w" "complete_password_recovery cy now salt text new_password w = Inr w'"
  shows "auth_fine w w'"
proof -
  from assms(2) obtain t u h where tu: "token_user now (token_by_text cy text w) PASSWORD_RECOVERY w = Inr (t, u)"
    and w': "w' = end_sessions now (us_id u) (spend now t (put_user (u\<lparr>us_password_hash := h\<rparr>) w))"
    by (auto simp: complete_password_recovery_def)
  have t: "map_of (au_tokens w) (tk_id t) = Some t" using token_userD[OF tu] token_by_textD(1)[OF assms(1)] by blast
  have u: "map_of (au_users w) (tk_user_id t) = Some u" using token_userD[OF tu] by blast
  have "auth_fine w (put_user (u\<lparr>us_password_hash := h\<rparr>) w)"
    by (rule put_user_fine[OF assms(1), where old = u]) (use u user_row_facts[OF assms(1) u] in simp_all)
  then have "auth_fine w (spend now t (put_user (u\<lparr>us_password_hash := h\<rparr>) w))"
    by (rule auth_fine_trans) (rule spend_fine[where i = "tk_id t"], simp_all add: auth_simps t)
  then show ?thesis unfolding w' by (rule auth_fine_trans) (rule end_sessions_fine)
qed

lemma require_step_up_fine:
  assumes "auth_ok w" "require_step_up cy now scope grant a w = Inr (b, w')"
  shows "auth_fine w w'"
proof (cases "ac_step_up_verified a")
  case True
  with assms show ?thesis by (simp add: require_step_up_def auth_fine_refl)
next
  case False
  with assms(2) obtain t where "token_by_text cy (case_option '''' id grant) w = Some t" "w' = spend now t w"
    by (auto simp: require_step_up_def ensure_def split: if_splits)
  then show ?thesis using spend_fine[OF assms(1) token_by_textD(1)[OF assms(1)]] by blast
qed

section \<open>The installation over time\<close>

text \<open>One rule for each route that changes the tables; whatever a client sends and whenever it does.\<close>

inductive auth_step :: "auth_crypto \<Rightarrow> auth_settings \<Rightarrow> auth_world \<Rightarrow> auth_world \<Rightarrow> bool" for cy st where
  signed_up: "signup cy st sent now drawn q w = Inr (shown, w') \<Longrightarrow> auth_step cy st w w'"
| resent: "resend_email_verification cy st sent now drawn address w = Inr (shown, w') \<Longrightarrow> auth_step cy st w w'"
| verified: "verify_email cy now drawn text w = Inr (raw, w') \<Longrightarrow> auth_step cy st w w'"
| enrolled: "create_mfa_enrollment cy now fresh e header w = Inr (i, w') \<Longrightarrow> auth_step cy st w w'"
| confirmed: "confirm_mfa_enrollment cy started now drawn enrollment_id code w = Inr w' \<Longrightarrow> auth_step cy st w w'"
| began: "begin_session cy st now drawn email password w = Inr (l, w') \<Longrightarrow> auth_step cy st w w'"
| challenged: "verify_mfa_challenge cy started now drawn challenge_id code w = Inr w' \<Longrightarrow> auth_step cy st w w'"
| stepped_up: "verify_step_up cy now drawn scope code cookie w = Inr (raw, w') \<Longrightarrow> auth_step cy st w w'"
| granted: "require_step_up cy now scope grant a w = Inr (b, w') \<Longrightarrow> auth_step cy st w w'"
| revoked: "auth_step cy st w (revoke_session cy now cookie w)"
| recovery: "start_password_recovery cy st sent now drawn address w = Inr (shown, w') \<Longrightarrow> auth_step cy st w w'"
| recovered: "complete_password_recovery cy now salt text new_password w = Inr w' \<Longrightarrow> auth_step cy st w w'"

definition empty_installation :: auth_world where
  "empty_installation = \<lparr>au_users = [], au_gate = None, au_sessions = [], au_tokens = [], au_audit = []\<rparr>"

abbreviation auth_steps :: "auth_crypto \<Rightarrow> auth_settings \<Rightarrow> auth_world \<Rightarrow> auth_world \<Rightarrow> bool" where
  "auth_steps cy st \<equiv> (auth_step cy st)\<^sup>*\<^sup>*"

lemma empty_ok: "auth_ok empty_installation"
  by (simp add: auth_ok_def users_ok_def sessions_ok_def tokens_ok_def empty_installation_def unshared_def)

lemma auth_step_fine: "auth_step cy st w w' \<Longrightarrow> auth_ok w \<Longrightarrow> auth_fine w w'"
  by (induction rule: auth_step.induct)
    (erule (1) signup_fine resend_fine verify_email_fine create_enrollment_fine confirm_enrollment_fine begin_session_fine
       challenge_fine step_up_fine require_step_up_fine recovery_fine
     | erule revoke_fine)+

lemma auth_steps_fine: "auth_steps cy st w w' \<Longrightarrow> auth_ok w \<Longrightarrow> auth_fine w w'"
proof (induction rule: rtranclp_induct)
  case (step w1 w2)
  then show ?case using auth_fine_trans[OF _ auth_step_fine] by blast
qed (rule auth_fine_refl)

text \<open>A route has accepted the token with this id.\<close>

inductive consumes :: "auth_crypto \<Rightarrow> auth_world \<Rightarrow> uuid \<Rightarrow> auth_world \<Rightarrow> bool" for cy w i where
  email_link: "verify_email cy now drawn text w = Inr (raw, w') \<Longrightarrow> token_by_text cy text w = Some t \<Longrightarrow> tk_id t = i \<Longrightarrow>
    consumes cy w i w'"
| bootstrap: "create_mfa_enrollment cy now fresh e (Some text) w = Inr (j, w') \<Longrightarrow> token_by_text cy text w = Some t \<Longrightarrow> tk_id t = i \<Longrightarrow>
    consumes cy w i w'"
| enrollment: "confirm_mfa_enrollment cy started now drawn i code w = Inr w' \<Longrightarrow> consumes cy w i w'"
| challenge: "verify_mfa_challenge cy started now drawn i code w = Inr w' \<Longrightarrow> consumes cy w i w'"
| recovery: "complete_password_recovery cy now salt text new_password w = Inr w' \<Longrightarrow> token_by_text cy text w = Some t \<Longrightarrow>
    tk_id t = i \<Longrightarrow> consumes cy w i w'"
| grant: "require_step_up cy now scope (Some text) a w = Inr (b, w') \<Longrightarrow> \<not> ac_step_up_verified a \<Longrightarrow>
    token_by_text cy text w = Some t \<Longrightarrow> tk_id t = i \<Longrightarrow> consumes cy w i w'"

lemma consumes_unused:
  assumes "auth_ok w" "consumes cy w i w'"
  shows "\<exists>t. map_of (au_tokens w) i = Some t \<and> tk_used_at t = None"
  using assms(2)
proof cases
  case (email_link now drawn tx raw t)
  then show ?thesis using token_by_textD(1)[OF assms(1), of cy tx t]
    by (auto simp: verify_email_def Let_def usable_token_def dest!: token_userD)
next
  case (bootstrap now fresh e tx j t)
  then show ?thesis using token_by_textD(1)[OF assms(1), of cy tx t]
    by (auto simp: create_mfa_enrollment_def Let_def usable_token_def dest!: token_userD)
next
  case (enrollment started now drawn code)
  then show ?thesis
    by (auto simp: confirm_mfa_enrollment_def Let_def usable_token_def token_by_id_def dest!: token_userD)
next
  case (challenge started now drawn code)
  then show ?thesis
    by (auto simp: verify_mfa_challenge_def Let_def usable_token_def token_by_id_def dest!: token_userD)
next
  case (recovery now salt tx new_password t)
  then show ?thesis using token_by_textD(1)[OF assms(1), of cy tx t]
    by (auto simp: complete_password_recovery_def usable_token_def dest!: token_userD)
next
  case (grant now scope tx a b t)
  then show ?thesis using token_by_textD(1)[OF assms(1), of cy tx t]
    by (auto simp: require_step_up_def usable_grant_def usable_token_def ensure_def split: if_splits)
qed

lemma consumes_step: "consumes cy w i w' \<Longrightarrow> auth_step cy st w w'"
  by (induction rule: consumes.induct) (auto intro: auth_step.intros)

text \<open>What was used stays used.\<close>

definition spent :: "auth_world \<Rightarrow> uuid \<Rightarrow> bool" where
  "spent w i \<longleftrightarrow> (\<exists>t. map_of (au_tokens w) i = Some t \<and> tk_used_at t \<noteq> None)"

lemma spent_grows: "auth_grows w w' \<Longrightarrow> spent w i \<Longrightarrow> spent w' i"
  by (fastforce simp: auth_grows_def spent_def kept_def token_kept_def)

lemma spend_spent [simp]: "spent (spend now t w) (tk_id t)"
  by (simp add: spent_def spend_def auth_simps)

lemma add_token_spent: "add_token t w = Inr w' \<Longrightarrow> spent w i \<Longrightarrow> spent w' i"
  by (cases "i = tk_id t") (auto simp: add_token_def ensure_def spent_def auth_simps split: if_splits)

lemma put_spent [simp]: "spent (put_user u w) i = spent w i" "spent (put_session s w) i = spent w i"
  "spent (audited a e w) i = spent w i" "spent (end_sessions now user w) i = spent w i"
  by (simp_all add: spent_def auth_simps end_sessions_def)

lemma issue_session_spent: "issue_session cy started now drawn u w = Inr w' \<Longrightarrow> spent w i \<Longrightarrow> spent w' i"
  by (auto simp: issue_session_def add_session_def)

lemma consumes_spends:
  assumes "auth_ok w" "consumes cy w i w'"
  shows "spent w' i"
  using assms(2)
proof cases
  case (email_link now drawn tx raw t)
  from email_link(1) obtain u w1 where tu: "token_user now (token_by_text cy tx w) EMAIL_VERIFICATION w = Inr (t, u)"
    and boot: "issue_mfa_bootstrap cy now drawn (u\<lparr>us_email_verified := True\<rparr>)
       (put_user (u\<lparr>us_email_verified := True\<rparr>) (spend now t w)) = Inr w1"
    and w': "w' = audited (us_owner_id u) ''user.email_verified'' w1"
    using email_link(2) by (auto simp: verify_email_def Let_def dest: token_userD)
  have "spent w1 (tk_id t)" by (rule add_token_spent[OF boot[unfolded issue_mfa_bootstrap_def]]) simp
  then show ?thesis using email_link(3) by (simp add: w')
next
  case (bootstrap now fresh e tx j t)
  from bootstrap(1) obtain u u' k where tu: "token_user now (token_by_text cy tx w) MFA_BOOTSTRAP w = Inr (t, u)"
    and add: "add_token k (put_user u' (spend now t w)) = Inr w'"
    using bootstrap(2) by (auto simp: create_mfa_enrollment_def Let_def dest: token_userD)
  have "spent w' (tk_id t)" by (rule add_token_spent[OF add]) simp
  then show ?thesis using bootstrap(3) by simp
next
  case (enrollment started now drawn code)
  then obtain t u w1 where t: "token_by_id i w = Some t"
    and session: "issue_session cy started now drawn (u\<lparr>us_mfa_enabled := True\<rparr>)
       (put_user (u\<lparr>us_mfa_enabled := True\<rparr>) (spend now t w)) = Inr w1"
    and w': "w' = audited (us_owner_id u) ''user.mfa_enrolled'' w1"
    by (auto simp: confirm_mfa_enrollment_def Let_def dest!: token_userD)
  have "spent w1 (tk_id t)" by (rule issue_session_spent[OF session]) simp
  moreover have "tk_id t = i" using t assms(1) by (simp add: token_by_id_def auth_ok_def tokens_ok_def token_row_ok_def)
  ultimately show ?thesis by (simp add: w')
next
  case (challenge started now drawn code)
  then obtain t u where t: "token_by_id i w = Some t"
    and session: "issue_session cy started now drawn u (put_user u (spend now t w)) = Inr w'"
    by (auto simp: verify_mfa_challenge_def Let_def dest!: token_userD)
  have "spent w' (tk_id t)" by (rule issue_session_spent[OF session]) simp
  moreover have "tk_id t = i" using t assms(1) by (simp add: token_by_id_def auth_ok_def tokens_ok_def token_row_ok_def)
  ultimately show ?thesis by simp
next
  case (recovery now salt tx new_password t)
  then show ?thesis by (auto simp: complete_password_recovery_def dest!: token_userD)
next
  case (grant now scope tx a b t)
  then show ?thesis by (auto simp: require_step_up_def ensure_def split: if_splits)
qed

section \<open>A session that was ended\<close>

definition session_ended :: "auth_crypto \<Rightarrow> string \<Rightarrow> auth_world \<Rightarrow> bool" where
  "session_ended cy cookie w \<longleftrightarrow>
     (\<exists>i s. map_of (au_sessions w) i = Some s \<and> se_token_hash s = cy_digest cy cookie \<and> se_revoked_at s \<noteq> None)"

lemma ended_grows: "auth_grows w w' \<Longrightarrow> session_ended cy cookie w \<Longrightarrow> session_ended cy cookie w'"
  unfolding auth_grows_def session_ended_def kept_def session_kept_def by (metis (no_types, lifting))

lemma session_hash_unique:
  assumes "auth_ok w" "map_of (au_sessions w) i = Some s" "map_of (au_sessions w) j = Some r" "se_token_hash s = se_token_hash r"
  shows "s = r"
proof -
  have "unshared (\<lambda>s. Some (se_token_hash s)) (map_of (au_sessions w))" using assms(1) by (simp add: auth_ok_def sessions_ok_def)
  then have "i = j" using assms(2-4) unfolding unshared_def by simp
  with assms(2,3) show ?thesis by simp
qed

lemma ended_refused:
  assumes "auth_ok w" "session_ended cy cookie w" "cookie \<noteq> ''''"
  shows "current_actor cy now (Some cookie) w = Inl (HTTPException 401 ''session expired or revoked'')"
    "find_session cy now (Some cookie) w = Inl (HTTPException 401 ''session expired'')"
proof -
  from assms(2) obtain i s where s: "map_of (au_sessions w) i = Some s" "se_token_hash s = cy_digest cy cookie" "se_revoked_at s \<noteq> None"
    by (auto simp: session_ended_def)
  have "first_match (live_session cy now cookie) (dvalues (au_sessions w)) = None"
  proof (rule ccontr)
    assume "first_match (live_session cy now cookie) (dvalues (au_sessions w)) \<noteq> None"
    then obtain r where "first_match (live_session cy now cookie) (dvalues (au_sessions w)) = Some r" by blast
    with first_row[OF assms(1)] have r: "map_of (au_sessions w) (se_id r) = Some r" "live_session cy now cookie r" by blast+
    have "s = r" by (rule session_hash_unique[OF assms(1) s(1) r(1)]) (use s(2) r(2) in \<open>simp add: live_session_def\<close>)
    with s(3) r(2) show False by (simp add: live_session_def)
  qed
  with assms(3) show "current_actor cy now (Some cookie) w = Inl (HTTPException 401 ''session expired or revoked'')"
    "find_session cy now (Some cookie) w = Inl (HTTPException 401 ''session expired'')"
    by (simp_all add: current_actor_def find_session_def present_def)
qed

text \<open>The session behind a request.\<close>

lemma actor_session:
  assumes "auth_ok w" "current_actor cy now cookie w = Inr a"
  obtains c s where "cookie = Some c" "c \<noteq> ''''" "map_of (au_sessions w) (se_id s) = Some s" "live_session cy now c s"
    "se_user_id s = ac_actor_id a" "se_owner_id s = ac_owner_id a" "role_of (se_role s) = Some (ac_role a)"
    "ac_step_up_verified a \<longleftrightarrow> (case se_step_up_at s of None \<Rightarrow> False | Some t \<Rightarrow> now - t < minutes 10)"
proof -
  from assms(2) obtain s where c: "present cookie"
    and s: "first_match (live_session cy now (case_option '''' id cookie)) (dvalues (au_sessions w)) = Some s"
    and a: "role_of (se_role s) = Some (ac_role a)" "se_user_id s = ac_actor_id a" "se_owner_id s = ac_owner_id a"
      "ac_step_up_verified a \<longleftrightarrow> (case se_step_up_at s of None \<Rightarrow> False | Some t \<Rightarrow> now - t < minutes 10)"
    by (fastforce simp: current_actor_def simp del: role_of.simps)
  from c obtain c' where "cookie = Some c'" "c' \<noteq> ''''" by (cases cookie) (auto simp: present_def)
  then show thesis by (rule that[where c = c' and s = s]) (use first_row[OF assms(1) s] a \<open>cookie = Some c'\<close> in \<open>simp_all del: role_of.simps\<close>)
qed

lemma actor_user:
  assumes "auth_ok w" "current_actor cy now cookie w = Inr a"
  obtains u where "map_of (au_users w) (us_id u) = Some u" "us_id u = ac_actor_id a" "us_owner_id u = ac_owner_id a"
    "ac_role a = OWNER" "us_mfa_enabled u" "au_gate w = Some (us_id u)"
proof -
  obtain s where s: "map_of (au_sessions w) (se_id s) = Some s" "se_user_id s = ac_actor_id a" "se_owner_id s = ac_owner_id a"
    "role_of (se_role s) = Some (ac_role a)"
    using assms by (rule actor_session)
  have "session_row_ok (map_of (au_users w)) (se_id s) s" using assms(1) s(1) by (simp add: auth_ok_def sessions_ok_def)
  then obtain u where u: "map_of (au_users w) (se_user_id s) = Some u" "se_owner_id s = us_owner_id u" "se_role s = us_role u" "us_mfa_enabled u"
    by (auto simp: session_row_ok_def)
  have "user_ok (au_gate w) (se_user_id s) u" using assms(1) u(1) by (simp add: auth_ok_def users_ok_def)
  then have "us_id u = se_user_id s" "us_role u = ''OWNER''" "au_gate w = Some (se_user_id s)" by (simp_all add: user_ok_def)
  with u s that show thesis by simp
qed

lemma one_user:
  assumes "auth_ok w" "map_of (au_users w) i = Some u" "map_of (au_users w) j = Some v"
  shows "i = j"
proof -
  have "user_ok (au_gate w) i u" "user_ok (au_gate w) j v" using assms by (simp_all add: auth_ok_def users_ok_def)
  then show ?thesis by (simp add: user_ok_def)
qed

lemma revoke_ends:
  assumes "auth_ok w" "current_actor cy now (Some cookie) w = Inr a"
  shows "session_ended cy cookie (revoke_session cy later (Some cookie) w)"
proof -
  let ?p = "\<lambda>s. se_token_hash s = cy_digest cy cookie"
  obtain s where s: "cookie \<noteq> ''''" "map_of (au_sessions w) (se_id s) = Some s" "?p s"
    using actor_session[OF assms] by (auto simp: live_session_def)
  then obtain r where r: "first_match ?p (dvalues (au_sessions w)) = Some r"
    using row_dvalues[OF s(2)] by (cases "first_match ?p (dvalues (au_sessions w))") (auto simp: first_match_None_iff)
  have "?p r" using first_match_SomeD[OF r] by simp
  with r s(1) show ?thesis
    unfolding session_ended_def revoke_session_def
    by (intro exI[of _ "se_id r"] exI[of _ "r\<lparr>se_revoked_at := Some later\<rparr>"]) (simp add: present_def auth_simps)
qed

lemma recovery_ends:
  assumes "auth_ok w" "current_actor cy now (Some cookie) w = Inr a"
    and "complete_password_recovery cy later salt secret new_password w = Inr w'"
  shows "session_ended cy cookie w'"
proof -
  from assms(3) obtain t u h where tu: "token_user later (token_by_text cy secret w) PASSWORD_RECOVERY w = Inr (t, u)"
    and w': "w' = end_sessions later (us_id u) (spend later t (put_user (u\<lparr>us_password_hash := h\<rparr>) w))"
    by (auto simp: complete_password_recovery_def)
  have u: "map_of (au_users w) (tk_user_id t) = Some u" using token_userD[OF tu] by blast
  obtain v where v: "map_of (au_users w) (us_id v) = Some v" "us_id v = ac_actor_id a" using assms(1,2) by (rule actor_user)
  obtain s where s: "map_of (au_sessions w) (se_id s) = Some s" "live_session cy now cookie s" "se_user_id s = ac_actor_id a"
    using actor_session[OF assms(1,2)] by auto
  have "se_user_id s = us_id u" using one_user[OF assms(1) u v(1)] v(2) s(3) user_row_facts(1)[OF assms(1) u] by simp
  with s show ?thesis unfolding session_ended_def w'
    by (intro exI[of _ "se_id s"] exI[of _ "s\<lparr>se_revoked_at := Some later\<rparr>"])
      (simp add: end_sessions_def map_of_dmap spend_def auth_simps live_session_def)
qed

lemma reached_ok: "auth_steps cy st empty_installation w \<Longrightarrow> auth_ok w"
  by (rule auth_fine_ok[OF auth_steps_fine[OF _ empty_ok]])

section \<open>What sign-in guarantees\<close>


text \<open>C37: a session that was ended stays ended: after its cookie signed out, or after a password recovery was
  completed, whatever requests follow, the cookie is refused by every route that asks for an actor and by the
  step-up.\<close>

theorem ended_session_refused:
  assumes "auth_steps cy st empty_installation w" "current_actor cy now (Some cookie) w = Inr a"
    and "w1 = revoke_session cy moment (Some cookie) w \<or> complete_password_recovery cy moment salt link new_password w = Inr w1"
    and "auth_steps cy st w1 w2"
  shows "current_actor cy later (Some cookie) w2 = Inl (HTTPException 401 ''session expired or revoked'')
    \<and> verify_step_up cy later drawn scope code (Some cookie) w2 = Inl (HTTPException 401 ''session expired'')"
proof -
  have ok: "auth_ok w" by (rule reached_ok[OF assms(1)])
  have ended: "session_ended cy cookie w1" using assms(3) revoke_ends[OF ok assms(2)] recovery_ends[OF ok assms(2)] by blast
  have "auth_fine w w1" using assms(3) revoke_fine[OF ok] recovery_fine[OF ok] by blast
  then have fine: "auth_fine w1 w2" using auth_steps_fine[OF assms(4)] auth_fine_ok by blast
  have "cookie \<noteq> ''''" using actor_session[OF ok assms(2)] by auto
  moreover have "session_ended cy cookie w2" using fine ended ended_grows unfolding auth_fine_def by blast
  ultimately show ?thesis using ended_refused[OF auth_fine_ok[OF fine]] by (simp add: verify_step_up_def)
qed

text \<open>C38: an installation has one owner: whatever requests were made since it was empty, every request that is
  let in acts as the only user, the one that took the signup slot, for that user's owner id, as OWNER, and that
  user has enrolled an authenticator.\<close>

theorem installation_single_owner:
  assumes "auth_steps cy st empty_installation w" "current_actor cy now cookie w = Inr a"
  shows "\<exists>u. dom (map_of (au_users w)) = {us_id u} \<and> map_of (au_users w) (us_id u) = Some u \<and> au_gate w = Some (us_id u)
    \<and> ac_actor_id a = us_id u \<and> ac_owner_id a = us_owner_id u \<and> ac_role a = OWNER \<and> us_mfa_enabled u"
proof -
  have ok: "auth_ok w" by (rule reached_ok[OF assms(1)])
  obtain u where u: "map_of (au_users w) (us_id u) = Some u" "us_id u = ac_actor_id a" "us_owner_id u = ac_owner_id a"
    "ac_role a = OWNER" "us_mfa_enabled u" "au_gate w = Some (us_id u)"
    using ok assms(2) by (rule actor_user)
  have "dom (map_of (au_users w)) = {us_id u}"
  proof (intro equalityI subsetI)
    fix i assume "i \<in> dom (map_of (au_users w))"
    then obtain v where "map_of (au_users w) i = Some v" by blast
    from one_user[OF ok this u(1)] show "i \<in> {us_id u}" by simp
  qed (use u(1) in auto)
  with u show ?thesis by (intro exI[of _ u]) simp
qed

text \<open>Only the second factor opens a session.\<close>

definition code_confirmed :: "auth_crypto \<Rightarrow> timestamp \<Rightarrow> user_row \<Rightarrow> string \<Rightarrow> bool" where
  "code_confirmed cy now u code \<longleftrightarrow>
     (\<exists>secret. cy_open cy (us_id u) (case_option '''' id (us_mfa_secret u)) = Inr secret \<and> totp cy (unix_time now) secret (unix_time now) = code)"

lemma add_token_sessions: "add_token t w = Inr w' \<Longrightarrow> au_sessions w' = au_sessions w"
  by (auto simp: add_token_def auth_simps)

lemma send_link_sessions: "send_link cy st sent now drawn u kind purpose lifetime w = Inr (shown, w') \<Longrightarrow> au_sessions w' = au_sessions w"
  by (auto simp: send_link_def dest: add_token_sessions split: sum.splits py_error.splits)

lemma known_session: "auth_ok w \<Longrightarrow> first_match p (dvalues (au_sessions w)) = Some s \<Longrightarrow> se_id s \<in> dom (map_of (au_sessions w))"
  using first_row[of w p s] by auto

lemma other_routes_sessions:
  "signup cy st sent now drawn q w = Inr (shown, w') \<Longrightarrow> au_sessions w' = au_sessions w"
  "resend_email_verification cy st sent now drawn address w = Inr (shown, w') \<Longrightarrow> au_sessions w' = au_sessions w"
  "verify_email cy now drawn secret w = Inr (raw, w') \<Longrightarrow> au_sessions w' = au_sessions w"
  "create_mfa_enrollment cy now fresh e header w = Inr (i, w') \<Longrightarrow> au_sessions w' = au_sessions w"
  "begin_session cy st now drawn email password w = Inr (l, w') \<Longrightarrow> au_sessions w' = au_sessions w"
  "require_step_up cy now scope grant a w = Inr (b, w') \<Longrightarrow> au_sessions w' = au_sessions w"
  "start_password_recovery cy st sent now drawn address w = Inr (shown, w') \<Longrightarrow> au_sessions w' = au_sessions w"
proof -
  show "signup cy st sent now drawn q w = Inr (shown, w') \<Longrightarrow> au_sessions w' = au_sessions w"
    by (fastforce simp: signup_def Let_def issue_mfa_bootstrap_def ensure_def auth_simps dest!: add_token_sessions split: if_splits sum.splits)
  show "resend_email_verification cy st sent now drawn address w = Inr (shown, w') \<Longrightarrow> au_sessions w' = au_sessions w"
    "start_password_recovery cy st sent now drawn address w = Inr (shown, w') \<Longrightarrow> au_sessions w' = au_sessions w"
    by (auto simp: resend_email_verification_def start_password_recovery_def dest: send_link_sessions split: option.splits if_splits)
  show "verify_email cy now drawn secret w = Inr (raw, w') \<Longrightarrow> au_sessions w' = au_sessions w"
    by (auto simp: verify_email_def Let_def issue_mfa_bootstrap_def auth_simps spend_def dest!: add_token_sessions)
  show "create_mfa_enrollment cy now fresh e header w = Inr (i, w') \<Longrightarrow> au_sessions w' = au_sessions w"
    by (auto simp: create_mfa_enrollment_def Let_def auth_simps spend_def dest!: add_token_sessions)
  show "begin_session cy st now drawn email password w = Inr (l, w') \<Longrightarrow> au_sessions w' = au_sessions w"
    by (auto simp: begin_session_def issue_mfa_bootstrap_def dest!: add_token_sessions split: if_splits)
  show "require_step_up cy now scope grant a w = Inr (b, w') \<Longrightarrow> au_sessions w' = au_sessions w"
    by (auto simp: require_step_up_def ensure_def spend_def auth_simps split: if_splits)
qed

lemma session_ending_routes:
  assumes "auth_ok w"
  shows "verify_step_up cy now drawn scope code cookie w = Inr (raw, w') \<Longrightarrow> dom (map_of (au_sessions w')) = dom (map_of (au_sessions w))"
    "dom (map_of (au_sessions (revoke_session cy now cookie w))) = dom (map_of (au_sessions w))"
    "complete_password_recovery cy now salt link new_password w = Inr w' \<Longrightarrow> dom (map_of (au_sessions w')) = dom (map_of (au_sessions w))"
proof -
  assume "verify_step_up cy now drawn scope code cookie w = Inr (raw, w')"
  then obtain s where "find_session cy now cookie w = Inr s"
    "au_sessions w' = AList.update (se_id s) (s\<lparr>se_step_up_at := Some now\<rparr>) (au_sessions w)"
    by (auto simp: verify_step_up_def auth_simps dest!: add_token_sessions)
  then show "dom (map_of (au_sessions w')) = dom (map_of (au_sessions w))"
    by (auto simp: find_session_def insert_absorb dest!: known_session[OF assms])
next
  show "dom (map_of (au_sessions (revoke_session cy now cookie w))) = dom (map_of (au_sessions w))"
    by (auto simp: revoke_session_def auth_simps insert_absorb dest!: known_session[OF assms] split: option.split)
next
  assume "complete_password_recovery cy now salt link new_password w = Inr w'"
  then obtain t u h where "w' = end_sessions now (us_id u) (spend now t (put_user (u\<lparr>us_password_hash := h\<rparr>) w))"
    by (auto simp: complete_password_recovery_def)
  then show "dom (map_of (au_sessions w')) = dom (map_of (au_sessions w))"
    by (auto simp: end_sessions_def map_of_dmap spend_def auth_simps)
qed

lemma issue_session_new:
  assumes "issue_session cy started now drawn u w = Inr w'" "map_of (au_sessions w) i = None" "map_of (au_sessions w') i = Some s"
  shows "started \<and> se_user_id s = us_id u"
  using assms by (auto simp: issue_session_def add_session_def auth_simps new_session_def split: if_splits)

text \<open>C35: only the second factor opens a session: whatever request adds a session row, it presented the id of an
  unused token that had not expired, and a code of its user's authenticator (or, for a login challenge, one of the
  recovery codes) that was checked then; the session is that user's.\<close>

theorem session_needs_second_factor:
  assumes "auth_steps cy st empty_installation w" "auth_step cy st w w'"
    and "map_of (au_sessions w) i = None" "map_of (au_sessions w') i = Some s"
  shows "\<exists>t u now drawn code. map_of (au_tokens w) (tk_id t) = Some t \<and> usable_token now (tk_kind t) t
    \<and> map_of (au_users w) (tk_user_id t) = Some u \<and> se_user_id s = us_id u
    \<and> (tk_kind t = MFA_ENROLLMENT \<and> confirm_mfa_enrollment cy True now drawn (tk_id t) code w = Inr w' \<and> code_confirmed cy now u code
     \<or> tk_kind t = LOGIN_MFA \<and> us_mfa_enabled u \<and> verify_mfa_challenge cy True now drawn (tk_id t) code w = Inr w'
       \<and> (\<exists>u'. verify_mfa cy (unix_time now) u code = Inr (True, u')))"
  using assms(2)
proof cases
  case (confirmed started now drawn j code)
  then obtain t u w1 where tu: "token_user now (token_by_id j w) MFA_ENROLLMENT w = Inr (t, u)"
    and checked: "code_confirmed cy now u code"
    and session: "issue_session cy started now drawn (u\<lparr>us_mfa_enabled := True\<rparr>)
       (put_user (u\<lparr>us_mfa_enabled := True\<rparr>) (spend now t w)) = Inr w1"
    and w': "w' = audited (us_owner_id u) ''user.mfa_enrolled'' w1"
    by (auto simp: confirm_mfa_enrollment_def Let_def code_confirmed_def)
  have new: "started \<and> se_user_id s = us_id (u\<lparr>us_mfa_enabled := True\<rparr>)"
    by (rule issue_session_new[OF session]) (use assms(3,4) in \<open>simp_all add: w' auth_simps spend_def\<close>)
  have "tk_id t = j" using token_userD[OF tu] reached_ok[OF assms(1)]
    by (simp add: token_by_id_def auth_ok_def tokens_ok_def token_row_ok_def)
  with new checked token_userD[OF tu] confirmed show ?thesis
    by (intro exI[of _ t] exI[of _ u] exI[of _ now] exI[of _ drawn] exI[of _ code])
      (simp add: token_by_id_def usable_token_def)
next
  case (challenged started now drawn j code)
  then obtain t u u' where tu: "token_user now (token_by_id j w) LOGIN_MFA w = Inr (t, u)"
    and checked: "verify_mfa cy (unix_time now) u code = Inr (True, u')"
    and session: "issue_session cy started now drawn u' (put_user u' (spend now t w)) = Inr w'"
    by (auto simp: verify_mfa_challenge_def)
  have new: "started \<and> se_user_id s = us_id u'"
    by (rule issue_session_new[OF session]) (use assms(3,4) in \<open>simp_all add: auth_simps spend_def\<close>)
  have ok: "token_row_ok (map_of (au_users w)) j t" using token_userD[OF tu] reached_ok[OF assms(1)]
    by (simp add: token_by_id_def auth_ok_def tokens_ok_def)
  then have "tk_id t = j" "us_mfa_enabled u" using token_userD[OF tu] by (auto simp: token_row_ok_def usable_token_def)
  with new checked token_userD[OF tu] verify_mfaD[OF checked] challenged show ?thesis
    by (intro exI[of _ t] exI[of _ u] exI[of _ now] exI[of _ drawn] exI[of _ code])
      (simp add: token_by_id_def usable_token_def)
next
  case (stepped_up now drawn scope code cookie raw)
  with session_ending_routes(1)[OF reached_ok[OF assms(1)]] assms(3,4) show ?thesis by blast
next
  case (revoked now cookie)
  with session_ending_routes(2)[OF reached_ok[OF assms(1)]] assms(3,4) show ?thesis by blast
next
  case (recovered now salt link new_password)
  with session_ending_routes(3)[OF reached_ok[OF assms(1)]] assms(3,4) show ?thesis by blast
qed (use assms(3,4) in \<open>simp_all add: other_routes_sessions\<close>)

text \<open>A step-up for one scope opens every other one, with no grant, until ten minutes have passed.\<close>

lemma step_up_opens_every_scope:
  assumes "auth_ok w" "verify_step_up cy now drawn scope code (Some cookie) w = Inr (raw, w')"
    and "current_actor cy later (Some cookie) w' = Inr a" "later < now + minutes 10"
  shows "require_step_up cy later any_scope None a w' = Inr (a, w')"
proof -
  have ok: "auth_ok w'" using step_up_fine[OF assms(1,2)] by (rule auth_fine_ok)
  from assms(2) obtain s where "find_session cy now (Some cookie) w = Inr s"
    and after: "au_sessions w' = AList.update (se_id s) (s\<lparr>se_step_up_at := Some now\<rparr>) (au_sessions w)"
    by (auto simp: verify_step_up_def auth_simps dest!: add_token_sessions)
  then have hash: "se_token_hash s = cy_digest cy cookie"
    by (auto simp: find_session_def live_session_def dest!: first_match_SomeD)
  obtain r where r: "map_of (au_sessions w') (se_id r) = Some r" "se_token_hash r = cy_digest cy cookie"
    "ac_step_up_verified a \<longleftrightarrow> (case se_step_up_at r of None \<Rightarrow> False | Some t \<Rightarrow> later - t < minutes 10)"
    using actor_session[OF ok assms(3)] by (auto simp: live_session_def)
  have "map_of (au_sessions w') (se_id s) = Some (s\<lparr>se_step_up_at := Some now\<rparr>)" using after by simp
  then have "s\<lparr>se_step_up_at := Some now\<rparr> = r" by (rule session_hash_unique[OF ok _ r(1)]) (simp add: hash r(2))
  with r(3) assms(4) have "ac_step_up_verified a" by auto
  then show ?thesis by (simp add: require_step_up_def)
qed

text \<open>A bootstrap token that was never used replaces the authenticator of a user that has one, without a code of it.\<close>

lemma bootstrap_replaces_authenticator:
  assumes "token_by_text cy link w = Some t" "usable_token now MFA_BOOTSTRAP t" "map_of (au_users w) (tk_user_id t) = Some u"
    and "us_mfa_enabled u" "link \<noteq> ''''" "map_of (au_tokens w) fresh = None" "fresh \<noteq> tk_id t"
  shows "\<exists>w'. create_mfa_enrollment cy now fresh e (Some link) w = Inr (fresh, w')
    \<and> map_of (au_users w') (us_id u) = Some (u\<lparr>us_mfa_secret := Some (cy_seal cy (us_id u) (en_nonce e) (en_secret e)),
        us_recovery_code_hashes := map (cy_digest cy) (en_codes e)\<rparr>)"
  using assms by (simp add: create_mfa_enrollment_def token_user_def present_def ensure_def Let_def add_token_def new_token_def
      auth_simps spend_def)

section \<open>An installation from signup to recovery\<close>

definition demo_cy :: auth_crypto where
  "demo_cy = \<lparr>cy_digest = (\<lambda>s. CHR ''#'' # s), cy_scrypt = (\<lambda>salt password. salt @ password),
     cy_hmac = (\<lambda>_ _. replicate 20 0), cy_seal = (\<lambda>_ _ s. s), cy_open = (\<lambda>_ s. Inr s)\<rparr>"

definition demo_settings :: auth_settings where
  "demo_settings = \<lparr>st_env = ''development'', st_dev_tokens = True, st_email_verification = False,
     st_owner_setup_secret = None, st_app_url = None, st_smtp_host = None, st_smtp_username = None,
     st_smtp_password = None, st_smtp_from = None\<rparr>"

definition demo_request :: signup_request where
  "demo_request = \<lparr>su_email = '' Ann@Example.org'', su_password = ''correct horse'', su_setup_code = None,
     su_user_id = ''ann'', su_owner_id = ''firm'', su_salt = ''00''\<rparr>"

abbreviation draws :: "uuid \<Rightarrow> string \<Rightarrow> drawn" where
  "draws i raw \<equiv> \<lparr>dn_id = i, dn_raw = raw\<rparr>"

definition demo_enrolment :: enrollment where
  "demo_enrolment = \<lparr>en_secret = ''S'', en_nonce = ''N'', en_codes = [''r1'', ''r2'']\<rparr>"

definition demo_user :: user_row where
  "demo_user = \<lparr>us_id = ''ann'', us_owner_id = ''firm'', us_email = ''ann@example.org'',
     us_password_hash = ''scrypt$00$00correct horse'', us_role = ''OWNER'', us_email_verified = False,
     us_mfa_enabled = True, us_mfa_secret = Some ''S'', us_recovery_code_hashes = [''#r1'', ''#r2'']\<rparr>"

definition demo_session :: session_row where
  "demo_session = \<lparr>se_id = ''s20'', se_user_id = ''ann'', se_owner_id = ''firm'', se_token_hash = ''#cookie'',
     se_role = ''OWNER'', se_expires_at = seconds 2 + minutes 480, se_revoked_at = None, se_step_up_at = None\<rparr>"

definition demo_token :: "uuid \<Rightarrow> token_kind \<Rightarrow> string option \<Rightarrow> int \<Rightarrow> int \<Rightarrow> timestamp option \<Rightarrow> token_row" where
  "demo_token i kind h now lifetime used =
     (new_token i ''ann'' kind h None now lifetime)\<lparr>tk_used_at := used\<rparr>"

definition demo_bootstrap :: "timestamp option \<Rightarrow> token_row" where
  "demo_bootstrap = demo_token ''t10'' MFA_BOOTSTRAP (Some ''#boot'') 0 (minutes 30)"

definition demo_pending :: "timestamp option \<Rightarrow> token_row" where
  "demo_pending = demo_token ''t11'' MFA_ENROLLMENT None (seconds 1) (minutes 15)"

definition demo_registered :: auth_world where
  "demo_registered = \<lparr>
     au_users = [(''ann'', demo_user\<lparr>us_mfa_enabled := False, us_mfa_secret := None, us_recovery_code_hashes := []\<rparr>)],
     au_gate = Some ''ann'', au_sessions = [], au_tokens = [(''t10'', demo_bootstrap None)],
     au_audit = [(''firm'', ''user.registered'')]\<rparr>"

definition demo_enrolling :: auth_world where
  "demo_enrolling = \<lparr>
     au_users = [(''ann'', demo_user\<lparr>us_mfa_enabled := False\<rparr>)],
     au_gate = Some ''ann'', au_sessions = [],
     au_tokens = [(''t10'', demo_bootstrap (Some (seconds 1))), (''t11'', demo_pending None)],
     au_audit = [(''firm'', ''user.registered'')]\<rparr>"

definition demo_signed_in :: auth_world where
  "demo_signed_in = \<lparr>
     au_users = [(''ann'', demo_user)], au_gate = Some ''ann'', au_sessions = [(''s20'', demo_session)],
     au_tokens = [(''t10'', demo_bootstrap (Some (seconds 1))), (''t11'', demo_pending (Some (seconds 2)))],
     au_audit = [(''firm'', ''user.registered''), (''firm'', ''session.created''), (''firm'', ''user.mfa_enrolled'')]\<rparr>"

definition demo_linked :: auth_world where
  "demo_linked = demo_signed_in\<lparr>au_tokens := au_tokens demo_signed_in @
     [(''t12'', demo_token ''t12'' PASSWORD_RECOVERY (Some ''#link'') (seconds 3) (minutes 30) None)]\<rparr>"

definition demo_recovered :: auth_world where
  "demo_recovered = demo_signed_in\<lparr>
     au_users := [(''ann'', demo_user\<lparr>us_password_hash := ''scrypt$01$01battery staple''\<rparr>)],
     au_sessions := [(''s20'', demo_session\<lparr>se_revoked_at := Some (seconds 4)\<rparr>)],
     au_tokens := au_tokens demo_signed_in @
       [(''t12'', demo_token ''t12'' PASSWORD_RECOVERY (Some ''#link'') (seconds 3) (minutes 30) (Some (seconds 4)))]\<rparr>"

lemma big_endian_zeros: "big_endian (replicate n 0) = 0"
  unfolding big_endian_def by (induction n) simp_all

lemma demo_totp: "totp demo_cy now secret moment = ''000000''"
proof -
  have "zfill 6 (nat_str 0) = ''000000''" by code_simp
  then show ?thesis by (simp add: totp_def totp_code_def demo_cy_def big_endian_zeros)
qed

lemma demo_runs:
  "signup demo_cy demo_settings True 0 (draws ''t10'' ''boot'') demo_request empty_installation = Inr (Some ''boot'', demo_registered)"
  "create_mfa_enrollment demo_cy (seconds 1) ''t11'' demo_enrolment (Some ''boot'') demo_registered = Inr (''t11'', demo_enrolling)"
  "start_password_recovery demo_cy demo_settings True (seconds 3) (draws ''t12'' ''link'') ''ann@example.org'' demo_signed_in =
     Inr (Some ''link'', demo_linked)"
  "complete_password_recovery demo_cy (seconds 4) ''01'' ''link'' ''battery staple'' demo_linked = Inr demo_recovered"
  by code_simp+

lemma demo_actor:
  "current_actor demo_cy (seconds 3) (Some ''cookie'') demo_signed_in =
     Inr \<lparr>ac_actor_id = ''ann'', ac_owner_id = ''firm'', ac_role = OWNER, ac_step_up_verified = False\<rparr>"
  "current_actor demo_cy (seconds 3) (Some ''cookie'') demo_linked =
     Inr \<lparr>ac_actor_id = ''ann'', ac_owner_id = ''firm'', ac_role = OWNER, ac_step_up_verified = False\<rparr>"
  by code_simp+

lemma demo_confirmed:
  "confirm_mfa_enrollment demo_cy True (seconds 2) (draws ''s20'' ''cookie'') ''t11'' ''000000'' demo_enrolling = Inr demo_signed_in"
proof -
  have "cy_open demo_cy i x = Inr x" "cy_digest demo_cy ''cookie'' = ''#cookie''" for i x by (simp_all add: demo_cy_def)
  then show ?thesis
    by (simp add: confirm_mfa_enrollment_def demo_totp token_by_id_def token_user_def usable_token_def ensure_def demo_enrolling_def
        demo_bootstrap_def demo_pending_def demo_token_def new_token_def demo_user_def present_def Let_def issue_session_def
        add_session_def new_session_def put_session_def put_user_def spend_def put_token_def audited_def demo_session_def
        demo_signed_in_def)
qed

lemma demo_steps:
  "auth_steps demo_cy demo_settings empty_installation demo_registered"
  "auth_step demo_cy demo_settings demo_registered demo_enrolling"
  "auth_step demo_cy demo_settings demo_enrolling demo_signed_in"
  "auth_step demo_cy demo_settings demo_signed_in demo_linked"
  "auth_step demo_cy demo_settings demo_linked demo_recovered"
  by (rule r_into_rtranclp[where r = "auth_step demo_cy demo_settings"], rule signed_up[OF demo_runs(1)])
    (rule enrolled[OF demo_runs(2)] confirmed[OF demo_confirmed] auth_step.recovery[OF demo_runs(3)] recovered[OF demo_runs(4)])+

lemma demo_installation_reached:
  "auth_steps demo_cy demo_settings empty_installation demo_enrolling"
  "auth_steps demo_cy demo_settings empty_installation demo_signed_in"
  "auth_steps demo_cy demo_settings empty_installation demo_linked"
proof -
  show a: "auth_steps demo_cy demo_settings empty_installation demo_enrolling"
    by (rule rtranclp.rtrancl_into_rtrancl[OF demo_steps(1,2)])
  show b: "auth_steps demo_cy demo_settings empty_installation demo_signed_in"
    by (rule rtranclp.rtrancl_into_rtrancl[OF a demo_steps(3)])
  show "auth_steps demo_cy demo_settings empty_installation demo_linked"
    by (rule rtranclp.rtrancl_into_rtrancl[OF b demo_steps(4)])
qed


lemma ended_session_refused_witness:
  "current_actor demo_cy (seconds 5) (Some ''cookie'') demo_recovered = Inl (HTTPException 401 ''session expired or revoked'')
   \<and> verify_step_up demo_cy (seconds 5) (draws ''t13'' ''up'') ''*'' ''r1'' (Some ''cookie'') demo_recovered
     = Inl (HTTPException 401 ''session expired'')"
  by (rule ended_session_refused[OF demo_installation_reached(3) demo_actor(2) disjI2[OF demo_runs(4)] rtranclp.rtrancl_refl])

lemma installation_single_owner_witness:
  "\<exists>u. dom (map_of (au_users demo_signed_in)) = {us_id u} \<and> map_of (au_users demo_signed_in) (us_id u) = Some u
     \<and> us_id u = ''ann'' \<and> us_owner_id u = ''firm'' \<and> us_mfa_enabled u"
  using installation_single_owner[OF demo_installation_reached(2) demo_actor(1)] by (elim exE conjE, intro exI conjI) simp_all

lemma session_needs_second_factor_witness:
  "map_of (au_sessions demo_signed_in) ''s20'' = Some demo_session
   \<and> (\<exists>t u. map_of (au_tokens demo_enrolling) (tk_id t) = Some t \<and> map_of (au_users demo_enrolling) (tk_user_id t) = Some u
        \<and> se_user_id demo_session = us_id u)"
proof -
  have old: "map_of (au_sessions demo_enrolling) ''s20'' = None" by (simp add: demo_enrolling_def)
  have new: "map_of (au_sessions demo_signed_in) ''s20'' = Some demo_session" by (simp add: demo_signed_in_def)
  show ?thesis using new session_needs_second_factor[OF demo_installation_reached(1) demo_steps(3) old new] by blast
qed

end
