(* ===== verification/Spec2Isabelle.thy ===== *)
theory Spec2Isabelle
  imports Policy Accounts RiskEngine Reservations Ticket Trading Execution Reconciliation BridgeQueue
    Connections Documents LiveAuthority Coordinator Worker Notifications Ingestion Management
    Validation Identity
begin

text \<open>
  Verification of the Matrades trading platform (the Python sources under \<open>src/\<close>).

  \<^bold>\<open>The program.\<close>  An owner connects broker accounts, has strategies proposed, tests them on history, watches them
  forward on paper, activates them and approves trade plans.  A deterministic risk engine sizes every trade
  under the strictest policies of the account; reservations claim its risk; one-time authorizations and kill
  switches guard every command; a worker leases a queued command and hands it to the MT5 bridge, whose queue the
  broker terminal polls; signed snapshots come back, are reconciled with the commands, and drive positions,
  notifications and the management of open trades.  State lives in one owner-scoped table of JSON documents, the
  reservations table and the outbox.

  \<^bold>\<open>Theories, in the order they build on each other.\<close>
  \<^item> \<open>Prelude\<close>: the errors a Python operation can raise, results as \<open>py_error + 'a\<close>, dictionaries as association
    lists in insertion order, and the lemma collections the other theories share.  \<open>PyDecimal\<close>: the decimal
    arithmetic of Python's default context (28 digits, half even) with its rounding bounds, in the locale
    \<open>rounding\<close>.  \<open>PyString\<close>, \<open>PyText\<close>: the string operations used.
  \<^item> \<open>DomainTypes\<close>, \<open>Policy\<close>, \<open>Accounts\<close>: \<open>packages/shared/domain_types.py\<close>, \<open>modules/policy\<close>,
    \<open>modules/prop_firms\<close>, \<open>modules/accounts\<close>.
  \<^item> \<open>RiskMath\<close>, \<open>RiskModels\<close>, \<open>RiskEngine\<close>: \<open>modules/risk\<close>; \<open>evaluate\<close> is \<open>RiskEngine.evaluate\<close> on every branch.
    \<open>Reservations\<close>: the table and the in-memory book, each an instance of the locale \<open>capacity_ledger\<close>.
  \<^item> \<open>Store\<close>: the resource store, audit, outbox rows and idempotency (locale \<open>idempotent_store\<close>, interpreted on
    the idempotency keys, the command ledger and the bridge's queue).  \<open>Documents\<close>: the documents of the live path.
  \<^item> \<open>Ticket\<close>, \<open>Trading\<close>, \<open>Execution\<close>, \<open>Reconciliation\<close>: \<open>modules/trading\<close>; the plan and the command life
    cycle are instances of the locale \<open>lifecycle\<close>.  \<open>Connections\<close>: \<open>modules/connections\<close>, \<open>modules/credentials\<close>.
  \<^item> \<open>BridgeQueue\<close>: \<open>bridges/mt5\<close> and its client.  \<open>LiveAuthority\<close>, \<open>Coordinator\<close>, \<open>Worker\<close>: the database-backed
    risk context, the transaction that revalidates and queues, the worker that leases, dispatches and records.
    \<open>Ingestion\<close>, \<open>Management\<close>: \<open>apps/api/app/routes/trade_management.py\<close>.  \<open>Notifications\<close>: the notices, their
    delivery and the draining of the outbox.
  \<^item> \<open>Signals\<close>: \<open>packages/strategy_sdk\<close>, the features, regimes, session and event rules and levels of
    \<open>modules/strategies\<close>.  \<open>Simulation\<close>, \<open>Ledger\<close>: \<open>modules/backtesting\<close>, both trade loops and what a run is
    measured by.  \<open>Paper\<close>: \<open>modules/strategies/monitoring.py\<close> and \<open>trade_setup.py\<close>, one tick of forward observation.
  \<^item> \<open>Lifecycle\<close>: the routes and tasks that take a proposal to an active version (\<open>routes/strategies.py\<close>, the
    worker's \<open>strategies.py\<close>, \<open>strategy_autonomy.py\<close>, \<open>strategy_monitoring.py\<close>).  \<open>Validation\<close>: their step relation, the
    invariant and the abstract machine of stages they refine.
  \<^item> \<open>Identity\<close>: \<open>modules/identity\<close>, the routes of \<open>routes/auth.py\<close> and the actor of a request (\<open>dependencies.py\<close>),
    with one step relation over users, sessions and one-time tokens.

  \<^bold>\<open>How the code is represented.\<close>  A class or document is a \<open>record\<close>, an enumeration or tagged value a
  \<open>datatype\<close>, an exception an \<open>Inl\<close>, and a handler that raises leaves its world unchanged because its
  transaction is rolled back.  A table is a dictionary from ids to rows; the id of a created row is an argument
  and must be unused.  Instants are integers of microseconds.  \<open>decimal.Decimal\<close> values are rationals, each
  operation rounded as the default context rounds it.  What other code decides (indicators of pandas and TA-Lib,
  the time zone database, digests, statistics over binary floats, providers over the network, NautilusTrader) is
  an argument of the definitions that use it, and where a theorem needs something of it the theorem says so.

  \<^bold>\<open>What the lemmas show.\<close>  Component theories hold for each operation what it does on every branch and which
  invariant it keeps; the properties named \<open>C1\<close>, \<open>C2\<close>, ... combine them.  The main chains are: the engine never
  sizes past a limit, reservations never overcommit, an entry is queued only if it revalidates under the current
  authority and is dispatched once at most per lease, snapshots are accepted in order and settle what is pending; and on
  the research side: a simulation never looks ahead, its account figures are those of the textbook definitions,
  forward evidence is recorded before its outcome, and a version is active only after a passed backtest and a
  passed forward run of the same implementation, by a request of its owner.  On the way in: an installation has
  one owner, a session is opened by the second factor only, a one-time token is taken once, and a session that
  was ended is refused from then on.

  \<^bold>\<open>Loops.\<close>  Recursion over a list is structural; the two simulation loops and the queue's poll loop carry a
  measure.  The search for the end of a market closure (\<open>gap_open\<close>) is a \<open>partial_function\<close> and is proved to return
  for a positive step (\<open>observation_returns\<close>).  No fuel is used.

  \<^bold>\<open>Not modelled.\<close>  Generation of proposals and research text with language models; the adapters and
  probes that are HTTP clients of providers; statistics over binary floats (walk-forward means, bootstrap,
  robustness, rolling health), whose verdicts are arguments; charts and listings that only read; documents of
  knowledge, agents and the journal; the web application and the MQL5 expert advisor; SQL locking, whose effect is that the steps of one
  version do not interleave.
\<close>

end
